(* ===== verification/Prelude.thy ===== *)
theory Prelude
  imports Main "HOL-Library.Word"
begin

text \<open>
  The prelude of the development: the machine integers of the Rust sources, the
  state-and-error monad in which every fallible or stateful Rust function is written,
  the invariant predicates over that monad with their closure rules, and the generic
  facts on words and bytes that several components share.
\<close>

unbundle bit_operations_syntax

section \<open>Machine integers\<close>

type_synonym u8 = "8 word"
type_synonym u16 = "16 word"
type_synonym u32 = "32 word"
type_synonym u64 = "64 word"
type_synonym u128 = "128 word"

text \<open>
  A Rust \<open>iN\<close> is the same bit pattern as the \<open>uN\<close>: \<open>as iN\<close> and \<open>as uN\<close> between equal
  widths are the identity on words, \<open>sint\<close> reads the signed value, \<open>scast\<close> is the
  sign-extending cast, \<open>ucast\<close> the zero-extending or truncating one, and \<open>>>\<close> on a
  signed operand is \<^const>\<open>signed_drop_bit\<close>. Plain \<open>+\<close>, \<open>-\<close> and \<open>*\<close> of the sources are
  the wrapping word operations: the release profile of the workspace does not enable
  overflow checks.
\<close>

type_synonym i32 = "32 word"
type_synonym i64 = "64 word"

definition slt :: "'a::len word \<Rightarrow> 'a word \<Rightarrow> bool" where
  "slt a b \<longleftrightarrow> sint a < sint b"

definition of_flag :: "bool \<Rightarrow> 'a::len word" where
  "of_flag b = (if b then 1 else 0)"

text \<open>Rust's \<open>wrapping_div\<close> and \<open>wrapping_rem\<close> on signed integers truncate towards zero.\<close>

definition wrapping_div :: "'a::len word \<Rightarrow> 'a word \<Rightarrow> 'a word" where
  "wrapping_div a b = word_of_int (sgn (sint a) * sgn (sint b) * (\<bar>sint a\<bar> div \<bar>sint b\<bar>))"

definition wrapping_rem :: "'a::len word \<Rightarrow> 'a word \<Rightarrow> 'a word" where
  "wrapping_rem a b = word_of_int (sgn (sint a) * (\<bar>sint a\<bar> mod \<bar>sint b\<bar>))"

text \<open>The \<open>leading_zeros\<close>, \<open>trailing_zeros\<close> and \<open>count_ones\<close> of the standard library.\<close>

fun lz_from :: "'a::len word \<Rightarrow> nat \<Rightarrow> nat" where
  "lz_from a 0 = 0"
| "lz_from a (Suc k) = (if bit a k then 0 else Suc (lz_from a k))"

definition leading_zeros :: "'a::len word \<Rightarrow> nat" where
  "leading_zeros a = lz_from a (LENGTH('a))"

fun tz_from :: "'a::len word \<Rightarrow> nat \<Rightarrow> nat \<Rightarrow> nat" where
  "tz_from a i 0 = i"
| "tz_from a i (Suc k) = (if bit a i then i else tz_from a (Suc i) k)"

definition trailing_zeros :: "'a::len word \<Rightarrow> nat" where
  "trailing_zeros a = tz_from a 0 (LENGTH('a))"

section \<open>Results, panics and state\<close>

text \<open>
  A Rust function that may return \<open>Err(e)\<close>, may panic, and mutates its receiver is a
  function from the state to an outcome and the new state. \<open>Throw e\<close> is \<open>Err(e)\<close>;
  \<open>Panic\<close> is a panic (\<open>unwrap\<close> of \<open>None\<close>, \<open>unreachable!\<close>, a slice index out of range).
  The state is kept on both, since mutations made before the error stay visible.
\<close>

datatype 'e abort = Throw 'e | Panic

type_synonym ('s, 'e, 'a) res = "'s \<Rightarrow> ('e abort + 'a) \<times> 's"

definition mret :: "'a \<Rightarrow> ('s, 'e, 'a) res" where
  "mret a s = (Inr a, s)"

definition mbind :: "('s, 'e, 'a) res \<Rightarrow> ('a \<Rightarrow> ('s, 'e, 'b) res) \<Rightarrow> ('s, 'e, 'b) res" where
  "mbind m f s = (case m s of (Inl e, s') \<Rightarrow> (Inl e, s') | (Inr a, s') \<Rightarrow> f a s')"

definition throw :: "'e \<Rightarrow> ('s, 'e, 'a) res" where
  "throw e s = (Inl (Throw e), s)"

definition panic :: "('s, 'e, 'a) res" where
  "panic s = (Inl Panic, s)"

definition mget :: "('s \<Rightarrow> 'a) \<Rightarrow> ('s, 'e, 'a) res" where
  "mget f s = (Inr (f s), s)"

definition mmod :: "('s \<Rightarrow> 's) \<Rightarrow> ('s, 'e, unit) res" where
  "mmod f s = (Inr (), f s)"

text \<open>\<open>r.map_err(f)\<close>, \<open>r.ok()\<close> and \<open>o.ok_or(e)?\<close>.\<close>

definition map_err :: "('e \<Rightarrow> 'f) \<Rightarrow> ('s, 'e, 'a) res \<Rightarrow> ('s, 'f, 'a) res" where
  "map_err f m s = (case m s of
     (Inl (Throw e), s') \<Rightarrow> (Inl (Throw (f e)), s')
   | (Inl Panic, s') \<Rightarrow> (Inl Panic, s')
   | (Inr a, s') \<Rightarrow> (Inr a, s'))"

definition to_ok :: "('s, 'e, 'a) res \<Rightarrow> ('s, 'e, 'a option) res" where
  "to_ok m s = (case m s of
     (Inl (Throw e), s') \<Rightarrow> (Inr None, s')
   | (Inl Panic, s') \<Rightarrow> (Inl Panic, s')
   | (Inr a, s') \<Rightarrow> (Inr (Some a), s'))"

definition ok_or :: "'a option \<Rightarrow> 'e \<Rightarrow> ('s, 'e, 'a) res" where
  "ok_or r e = (case r of None \<Rightarrow> throw e | Some a \<Rightarrow> mret a)"

definition unwrap :: "'a option \<Rightarrow> ('s, 'e, 'a) res" where
  "unwrap r = (case r of None \<Rightarrow> panic | Some a \<Rightarrow> mret a)"

text \<open>\<open>match m { Ok(a) => .., Err(e) => .. }\<close>.\<close>

definition mtry :: "('s, 'e, 'a) res \<Rightarrow> ('a \<Rightarrow> ('s, 'f, 'b) res) \<Rightarrow> ('e \<Rightarrow> ('s, 'f, 'b) res)
    \<Rightarrow> ('s, 'f, 'b) res" where
  "mtry m f h s = (case m s of
     (Inl (Throw e), s') \<Rightarrow> h e s'
   | (Inl Panic, s') \<Rightarrow> (Inl Panic, s')
   | (Inr a, s') \<Rightarrow> f a s')"

named_theorems monad_defs \<open>unfolding of the monad's combinators\<close>

lemmas [monad_defs] = mret_def mbind_def throw_def panic_def mget_def mmod_def
  map_err_def to_ok_def ok_or_def unwrap_def mtry_def

lemma mbind_ret [simp]: "mbind (mret a) f = f a"
  by (rule ext) (simp add: monad_defs)

lemma mbind_ret_right [simp]: "mbind m mret = m"
  by (rule ext) (auto simp: monad_defs split: prod.splits sum.splits)

lemma mbind_throw [simp]: "mbind (throw e) f = throw e"
  by (rule ext) (simp add: monad_defs)

lemma mbind_panic [simp]: "mbind panic f = panic"
  by (rule ext) (simp add: monad_defs)

lemma mbind_assoc: "mbind (mbind m f) g = mbind m (\<lambda>a. mbind (f a) g)"
  by (rule ext) (auto simp: monad_defs split: prod.splits sum.splits)

lemma mbind_if_distrib: "mbind (if c then m else n) f = (if c then mbind m f else mbind n f)"
  by simp

lemma mret_run [simp]: "mret a s = (Inr a, s)"
  by (simp add: mret_def)

lemma throw_run [simp]: "throw e s = (Inl (Throw e), s)"
  by (simp add: throw_def)

lemma panic_run [simp]: "panic s = (Inl Panic, s)"
  by (simp add: panic_def)

lemma mget_run [simp]: "mget f s = (Inr (f s), s)"
  by (simp add: mget_def)

lemma mmod_run [simp]: "mmod f s = (Inr (), f s)"
  by (simp add: mmod_def)

lemma mbind_run_Inr: "m s = (Inr a, t) \<Longrightarrow> mbind m f s = f a t"
  by (simp add: mbind_def)

lemma mbind_run_Inl: "m s = (Inl e, t) \<Longrightarrow> mbind m f s = (Inl e, t)"
  by (simp add: mbind_def)

lemma mbind_mget_run [simp]: "mbind (mget f) g s = g (f s) s"
  by (simp add: mbind_def)

lemma mbind_mmod_run [simp]: "mbind (mmod f) g s = g () (f s)"
  by (simp add: mbind_def)

lemma mbind_Inr_elim: "mbind m f s = (Inr r, s') \<Longrightarrow> \<exists>a t. m s = (Inr a, t) \<and> f a t = (Inr r, s')"
  by (cases "m s") (auto simp: mbind_def split: sum.splits)

lemma mbind_cong_state:
  assumes "m s = m' s" and "\<And>a t. m' s = (Inr a, t) \<Longrightarrow> f a t = f' a t"
  shows "mbind m f s = mbind m' f' s"
  using assms by (auto simp: mbind_def split: prod.splits sum.splits)

section \<open>Specifications over the monad\<close>

text \<open>
  \<open>hoare P m Q E\<close>: from a state satisfying \<open>P\<close>, \<open>m\<close> does not panic; on success the result
  and state satisfy \<open>Q\<close>, on an error \<open>E\<close>. \<open>keeps I m\<close> is the special case of an
  invariant that every outcome keeps.
\<close>

definition hoare :: "('s \<Rightarrow> bool) \<Rightarrow> ('s, 'e, 'a) res \<Rightarrow> ('a \<Rightarrow> 's \<Rightarrow> bool)
    \<Rightarrow> ('e \<Rightarrow> 's \<Rightarrow> bool) \<Rightarrow> bool" where
  "hoare P m Q E \<longleftrightarrow> (\<forall>s. P s \<longrightarrow> (case m s of
      (Inr a, t) \<Rightarrow> Q a t | (Inl (Throw e), t) \<Rightarrow> E e t | (Inl Panic, t) \<Rightarrow> False))"

definition keeps :: "('s \<Rightarrow> bool) \<Rightarrow> ('s, 'e, 'a) res \<Rightarrow> bool" where
  "keeps I m \<longleftrightarrow> hoare I m (\<lambda>_. I) (\<lambda>_. I)"

named_theorems keeps_intros \<open>closure of \<open>keeps\<close> under the monad's combinators\<close>

lemma hoareI:
  assumes "\<And>s. P s \<Longrightarrow> (case m s of
      (Inr a, t) \<Rightarrow> Q a t | (Inl (Throw e), t) \<Rightarrow> E e t | (Inl Panic, t) \<Rightarrow> False)"
  shows "hoare P m Q E"
  using assms by (simp add: hoare_def)

lemma hoare_Inr: "hoare P m Q E \<Longrightarrow> P s \<Longrightarrow> m s = (Inr a, t) \<Longrightarrow> Q a t"
  by (auto simp: hoare_def)

lemma hoare_Throw: "hoare P m Q E \<Longrightarrow> P s \<Longrightarrow> m s = (Inl (Throw e), t) \<Longrightarrow> E e t"
  by (auto simp: hoare_def)

lemma hoare_no_panic: "hoare P m Q E \<Longrightarrow> P s \<Longrightarrow> fst (m s) \<noteq> Inl Panic"
  unfolding hoare_def by (cases "m s") (auto dest: spec [of _ s])

lemma hoare_if: "(c \<Longrightarrow> hoare P m Q E) \<Longrightarrow> (\<not> c \<Longrightarrow> hoare P n Q E) \<Longrightarrow> hoare P (if c then m else n) Q E"
  by simp

lemma hoare_bind:
  assumes m: "hoare P m Q E" and f: "\<And>a. hoare (Q a) (f a) R E"
  shows "hoare P (mbind m f) R E"
proof (rule hoareI)
  fix s assume P: "P s"
  obtain r t where r: "m s = (r, t)" by (cases "m s")
  show "case mbind m f s of (Inr a, t) \<Rightarrow> R a t | (Inl (Throw e), t) \<Rightarrow> E e t
      | (Inl Panic, t) \<Rightarrow> False"
  proof (cases r)
    case (Inl e)
    with m P r show ?thesis by (auto simp: hoare_def mbind_def split: abort.splits)
  next
    case (Inr a)
    with m P r have "Q a t" by (auto simp: hoare_def)
    with f [of a] Inr r show ?thesis by (simp add: hoare_def mbind_def)
  qed
qed

lemma hoare_weaken:
  "hoare P m Q E \<Longrightarrow> (\<And>s. P' s \<Longrightarrow> P s) \<Longrightarrow> (\<And>a s. Q a s \<Longrightarrow> Q' a s)
    \<Longrightarrow> (\<And>e s. E e s \<Longrightarrow> E' e s) \<Longrightarrow> hoare P' m Q' E'"
  unfolding hoare_def by (fastforce split: prod.splits sum.splits abort.splits)

lemma keeps_Inr: "keeps I m \<Longrightarrow> I s \<Longrightarrow> m s = (Inr a, t) \<Longrightarrow> I t"
  unfolding keeps_def by (erule hoare_Inr)

lemma keeps_snd: "keeps I m \<Longrightarrow> I s \<Longrightarrow> I (snd (m s))"
  unfolding keeps_def hoare_def
  by (drule spec [of _ s]) (auto split: prod.splits sum.splits abort.splits)

lemma keeps_no_panic: "keeps I m \<Longrightarrow> I s \<Longrightarrow> fst (m s) \<noteq> Inl Panic"
  unfolding keeps_def by (rule hoare_no_panic)

lemma keeps_ret [keeps_intros]: "keeps I (mret a)"
  by (simp add: keeps_def hoare_def)

lemma keeps_throw [keeps_intros]: "keeps I (throw e)"
  by (simp add: keeps_def hoare_def)

lemma keeps_mget [keeps_intros]: "keeps I (mget f)"
  by (simp add: keeps_def hoare_def)

lemma keeps_mmod [keeps_intros]: "(\<And>s. I s \<Longrightarrow> I (f s)) \<Longrightarrow> keeps I (mmod f)"
  by (simp add: keeps_def hoare_def)

lemma keeps_bind [keeps_intros]:
  "keeps I m \<Longrightarrow> (\<And>a. keeps I (f a)) \<Longrightarrow> keeps I (mbind m f)"
  unfolding keeps_def by (rule hoare_bind) auto

lemma keeps_if [keeps_intros]:
  "(c \<Longrightarrow> keeps I m) \<Longrightarrow> (\<not> c \<Longrightarrow> keeps I n) \<Longrightarrow> keeps I (if c then m else n)"
  by simp

lemma keeps_Let [keeps_intros]: "keeps I (f a) \<Longrightarrow> keeps I (let x = a in f x)"
  by simp

lemma keeps_case_option [keeps_intros]:
  "(r = None \<Longrightarrow> keeps I m) \<Longrightarrow> (\<And>a. r = Some a \<Longrightarrow> keeps I (f a))
    \<Longrightarrow> keeps I (case r of None \<Rightarrow> m | Some a \<Rightarrow> f a)"
  by (cases r) auto

lemma keeps_case_prod [keeps_intros]:
  "(\<And>a b. p = (a, b) \<Longrightarrow> keeps I (f a b)) \<Longrightarrow> keeps I (case p of (a, b) \<Rightarrow> f a b)"
  by (cases p) auto

lemma keeps_map_err [keeps_intros]: "keeps I m \<Longrightarrow> keeps I (map_err f m)"
  unfolding keeps_def hoare_def map_err_def
  by (fastforce split: prod.splits sum.splits abort.splits)

lemma keeps_to_ok [keeps_intros]: "keeps I m \<Longrightarrow> keeps I (to_ok m)"
  unfolding keeps_def hoare_def to_ok_def
  by (fastforce split: prod.splits sum.splits abort.splits)

lemma keeps_mtry [keeps_intros]:
  assumes m: "keeps I m" and f: "\<And>a. keeps I (f a)" and h: "\<And>e. keeps I (h e)"
  shows "keeps I (mtry m f h)"
  unfolding keeps_def
proof (rule hoareI)
  fix s assume I: "I s"
  obtain r t where r: "m s = (r, t)" by (cases "m s")
  have "I t" using keeps_snd [OF m I] r by simp
  moreover have "r \<noteq> Inl Panic" using keeps_no_panic [OF m I] r by simp
  ultimately show "case mtry m f h s of (Inr a, t) \<Rightarrow> I t | (Inl (Throw e), t) \<Rightarrow> I t
      | (Inl Panic, t) \<Rightarrow> False"
    using r f h unfolding mtry_def keeps_def hoare_def
    by (cases r) (auto split: abort.splits)
qed

lemma keeps_ok_or [keeps_intros]: "keeps I (ok_or r e)"
  by (cases r) (simp_all add: ok_or_def keeps_ret keeps_throw)

text \<open>
  The same at one state, for code whose branches depend on the state: \<open>keeps_at I m s\<close> is
  what \<open>keeps I m\<close> says of the state \<open>s\<close>.
\<close>

definition keeps_at :: "('s \<Rightarrow> bool) \<Rightarrow> ('s, 'e, 'a) res \<Rightarrow> 's \<Rightarrow> bool" where
  "keeps_at I m s \<longleftrightarrow> (case m s of
      (Inr a, t) \<Rightarrow> I t | (Inl (Throw e), t) \<Rightarrow> I t | (Inl Panic, t) \<Rightarrow> False)"

lemma keeps_atI: "(\<And>s. I s \<Longrightarrow> keeps_at I m s) \<Longrightarrow> keeps I m"
  unfolding keeps_def keeps_at_def by (rule hoareI)

lemma keeps_atD: "keeps I m \<Longrightarrow> I s \<Longrightarrow> keeps_at I m s"
  unfolding keeps_def hoare_def keeps_at_def by (drule spec [of _ s]) simp

lemma keeps_at_ret [simp]: "keeps_at I (mret a) s = I s"
  by (simp add: keeps_at_def)

lemma keeps_at_throw [simp]: "keeps_at I (throw e) s = I s"
  by (simp add: keeps_at_def)

lemma keeps_at_mget [simp]: "keeps_at I (mbind (mget f) g) s = keeps_at I (g (f s)) s"
  by (simp add: keeps_at_def)

lemma keeps_at_bind:
  assumes "keeps_at I m s" and "\<And>a t. m s = (Inr a, t) \<Longrightarrow> I t \<Longrightarrow> keeps_at I (f a) t"
  shows "keeps_at I (mbind m f) s"
  using assms by (auto simp: keeps_at_def mbind_def split: prod.splits sum.splits abort.splits)

section \<open>Loops over a range\<close>

text \<open>
  \<open>for i in xs { .. }\<close> with the locals the body assigns as an accumulator: an error or a panic
  of the body leaves the loop.
\<close>

fun for_in :: "'i list \<Rightarrow> 'a \<Rightarrow> ('i \<Rightarrow> 'a \<Rightarrow> ('s, 'e, 'a) res) \<Rightarrow> ('s, 'e, 'a) res" where
  "for_in [] acc body = mret acc"
| "for_in (i # is) acc body = mbind (body i acc) (\<lambda>acc. for_in is acc body)"

lemma keeps_for_in:
  assumes "\<And>i acc. i \<in> set xs \<Longrightarrow> keeps I (body i acc)"
  shows "keeps I (for_in xs acc body)"
  using assms by (induction xs arbitrary: acc) (auto intro!: keeps_intros)

lemma for_in_append: "for_in (xs @ ys) acc body = mbind (for_in xs acc body) (\<lambda>acc. for_in ys acc body)"
  by (induction xs arbitrary: acc) (simp_all add: mbind_assoc)

lemma for_in_cong: "(\<And>i acc. i \<in> set xs \<Longrightarrow> f i acc = g i acc) \<Longrightarrow> for_in xs acc f = for_in xs acc g"
  by (induction xs arbitrary: acc) auto

section \<open>Bytes\<close>

text \<open>\<open>to_le_bytes\<close> and \<open>from_le_bytes\<close> for a value of \<open>n\<close> bytes.\<close>

fun to_le_bytes :: "nat \<Rightarrow> 'a::len word \<Rightarrow> u8 list" where
  "to_le_bytes 0 v = []"
| "to_le_bytes (Suc n) v = ucast v # to_le_bytes n (drop_bit 8 v)"

fun from_le_bytes :: "u8 list \<Rightarrow> 'a::len word" where
  "from_le_bytes [] = 0"
| "from_le_bytes (b # bs) = ucast b OR push_bit 8 (from_le_bytes bs)"

lemma length_to_le_bytes [simp]: "length (to_le_bytes n v) = n"
  by (induction n arbitrary: v) auto

lemma nth_to_le_bytes:
  "i < n \<Longrightarrow> to_le_bytes n v ! i = ucast (drop_bit (8 * i) v)"
proof (induction n arbitrary: v i)
  case (Suc n)
  then show ?case by (cases i) (simp_all add: ac_simps)
qed simp

lemma bit_from_le_bytes:
  "bit (from_le_bytes bs :: 'a::len word) k \<longleftrightarrow>
    k < LENGTH('a) \<and> k div 8 < length bs \<and> bit (bs ! (k div 8)) (k mod 8)"
proof (induction bs arbitrary: k)
  case (Cons b bs)
  show ?case
  proof (cases "k < 8")
    case True
    then show ?thesis by (auto simp: bit_simps dest: bit_imp_le_length)
  next
    case False
    then obtain j where j: "k = j + 8" using le_Suc_ex [of 8 k] by (auto simp: ac_simps)
    have "\<not> bit b k" using False bit_imp_le_length [of b k] by auto
    moreover have "k div 8 = Suc (j div 8)" and "k mod 8 = j mod 8" using j by auto
    ultimately show ?thesis using Cons.IH [of j] j by (auto simp: bit_simps)
  qed
qed simp

lemma from_le_bytes_to_le_bytes:
  assumes "LENGTH('a::len) \<le> 8 * n"
  shows "from_le_bytes (to_le_bytes n (v :: 'a word)) = v"
proof (rule bit_word_eqI)
  fix k assume k: "k < LENGTH('a)"
  with assms have "k div 8 < n" by auto
  with k show "bit (from_le_bytes (to_le_bytes n v) :: 'a word) k = bit v k"
    by (simp add: bit_from_le_bytes nth_to_le_bytes bit_simps)
qed

section \<open>Slices\<close>

text \<open>
  \<open>xs[s..e]\<close> with \<open>usize\<close> bounds: a range whose start is after its end, or whose end is
  after the slice, panics.
\<close>

definition sub_range :: "'a list \<Rightarrow> u64 \<Rightarrow> u64 \<Rightarrow> 'a list option" where
  "sub_range xs i j = (if unat i \<le> unat j \<and> unat j \<le> length xs
     then Some (take (unat j - unat i) (drop (unat i) xs)) else None)"

text \<open>\<open>xs[s..e].copy_from_slice(ys)\<close>, for a range whose length is that of \<open>ys\<close>.\<close>

definition set_range :: "'a list \<Rightarrow> u64 \<Rightarrow> u64 \<Rightarrow> 'a list \<Rightarrow> 'a list option" where
  "set_range xs i j ys =
     (if unat i \<le> unat j \<and> unat j \<le> length xs \<and> unat j - unat i = length ys
      then Some (take (unat i) xs @ ys @ drop (unat j) xs) else None)"

lemma sub_range_nat:
  "unat i = a \<Longrightarrow> unat j = a + n \<Longrightarrow> a + n \<le> length xs \<Longrightarrow>
    sub_range xs i j = Some (take n (drop a xs))"
  by (simp add: sub_range_def)

lemma set_range_nat:
  "unat i = a \<Longrightarrow> unat j = a + n \<Longrightarrow> a + n \<le> length xs \<Longrightarrow> length ys = n \<Longrightarrow>
    set_range xs i j ys = Some (take a xs @ ys @ drop (a + n) xs)"
  by (simp add: set_range_def)

lemma sub_range_None: "unat j < unat i \<Longrightarrow> sub_range xs i j = None"
  by (simp add: sub_range_def)

lemma set_range_None: "unat j < unat i \<Longrightarrow> set_range xs i j ys = None"
  by (simp add: set_range_def)

lemma nth_take_app_drop:
  assumes "a + length ys \<le> length xs" and "k < length xs"
  shows "(take a xs @ ys @ drop (a + length ys) xs) ! k =
    (if a \<le> k \<and> k < a + length ys then ys ! (k - a) else xs ! k)"
  using assms by (auto simp: nth_append)

lemma unat_less_2p64: "unat (a :: u64) < 2 ^ 64"
  using unsigned_less [of a, where 'a = nat] by simp

lemma unat_of_small [simp]: "n < 2 ^ 63 \<Longrightarrow> unat (of_nat n :: u64) = n"
  by (simp add: unat_of_nat take_bit_eq_mod)

lemma unat_add_wrap:
  "unat (a + of_nat n :: u64) =
     (if unat a + n < 2 ^ 64 then unat a + n else unat a + n - 2 ^ 64)" if "n < 2 ^ 63"
proof -
  have "unat a < 2 ^ 64" by (rule unat_less_2p64)
  then show ?thesis
    using that by (simp add: unat_word_ariths unat_of_nat take_bit_eq_mod mod_if)
qed

section \<open>Single bits and masks\<close>

lemma bit_single: "bit (push_bit k (1 :: u64)) n \<longleftrightarrow> n = k \<and> k < 64"
  by (auto simp: bit_simps)

lemma bit_pair: "k < 63 \<Longrightarrow> bit (push_bit k (3 :: u64)) n \<longleftrightarrow> n = k \<or> n = Suc k"
proof -
  have "(3 :: u64) = mask 2" by (simp add: mask_eq_decr_exp)
  then show "k < 63 \<Longrightarrow> ?thesis" unfolding \<open>3 = mask 2\<close> by (auto simp: bit_simps)
qed

lemma nonzero_bit: "(x :: u64) \<noteq> 0 \<longleftrightarrow> (\<exists>n. bit x n)"
  by (metis bit_0_eq bit_eqI bot_apply bot_bool_def)

lemma flag_and: "(x :: u64) AND push_bit k 1 \<noteq> 0 \<longleftrightarrow> k < 64 \<and> bit x k"
  unfolding nonzero_bit bit_and_iff bit_single by blast

lemma bit_move: "push_bit j (drop_bit i (x :: u64) AND 1) = (if bit x i then push_bit j 1 else 0)"
  by (rule bit_word_eqI) (auto simp: bit_simps)

lemma bit_field1: "drop_bit k (x :: u64) AND 1 = (if bit x k then 1 else 0)"
  by (rule bit_word_eqI) (auto simp: bit_simps intro: gr0I)

lemma bit_field0: "(x :: u64) AND 1 = (if bit x 0 then 1 else 0)"
  using bit_field1 [of 0 x] by simp

lemma flag_eq: "((if p then 1 else 0) = (0 :: u64)) = (\<not> p)" "((if p then 1 else 0) = (1 :: u64)) = p"
  by simp_all

lemma low_mask: "(x :: u64) AND mask n \<noteq> 0 \<longleftrightarrow> (\<exists>i<n. bit x i)"
  unfolding nonzero_bit bit_and_iff bit_mask_iff using bit_imp_le_length [of x] by fastforce

section \<open>Memory written in place\<close>

definition overlay :: "'a list \<Rightarrow> nat \<Rightarrow> 'a list \<Rightarrow> 'a list" where
  "overlay xs a ys = take a xs @ ys @ drop (a + length ys) xs"

definition bytes_at :: "'a list \<Rightarrow> nat \<Rightarrow> nat \<Rightarrow> 'a list" where
  "bytes_at xs a n = take n (drop a xs)"

definition same_outside :: "nat \<Rightarrow> nat \<Rightarrow> 'a list \<Rightarrow> 'a list \<Rightarrow> bool" where
  "same_outside lo hi xs ys \<longleftrightarrow> length ys = length xs \<and>
     (\<forall>k < length xs. k < lo \<or> hi \<le> k \<longrightarrow> ys ! k = xs ! k)"

lemma length_overlay [simp]: "a + length ys \<le> length xs \<Longrightarrow> length (overlay xs a ys) = length xs"
  by (simp add: overlay_def)

lemma nth_overlay: "a + length ys \<le> length xs \<Longrightarrow> k < length xs \<Longrightarrow>
    overlay xs a ys ! k = (if a \<le> k \<and> k < a + length ys then ys ! (k - a) else xs ! k)"
  unfolding overlay_def by (rule nth_take_app_drop)

lemma overlay_outside: "a + length ys \<le> length xs \<Longrightarrow> lo \<le> a \<Longrightarrow> a + length ys \<le> hi \<Longrightarrow>
    same_outside lo hi xs (overlay xs a ys)"
  by (auto simp: same_outside_def nth_overlay)

lemma overlay_here: "a + length ys \<le> length xs \<Longrightarrow> bytes_at (overlay xs a ys) a (length ys) = ys"
  by (simp add: bytes_at_def overlay_def)

lemma same_outside_refl: "same_outside lo hi xs xs"
  by (simp add: same_outside_def)

lemma same_outside_trans: "same_outside lo hi xs ys \<Longrightarrow> same_outside lo hi ys zs \<Longrightarrow> same_outside lo hi xs zs"
  by (simp add: same_outside_def)

lemma same_outside_mono: "same_outside lo hi xs ys \<Longrightarrow> lo' \<le> lo \<Longrightarrow> hi \<le> hi' \<Longrightarrow> same_outside lo' hi' xs ys"
  by (auto simp: same_outside_def)

lemma same_outside_length: "same_outside lo hi xs ys \<Longrightarrow> length ys = length xs"
  by (simp add: same_outside_def)

lemma same_outside_bytes:
  assumes "same_outside lo hi xs ys" and "a + n \<le> lo \<or> hi \<le> a"
  shows "bytes_at ys a n = bytes_at xs a n"
  using assms by (intro nth_equalityI) (auto simp: bytes_at_def same_outside_def)

lemma bytes_at_append: "bytes_at xs a (m + n) = bytes_at xs a m @ bytes_at xs (a + m) n"
  by (simp add: bytes_at_def take_add add.commute)

lemma bytes_at_nth: "length ys = length xs \<Longrightarrow> (\<And>k. a \<le> k \<Longrightarrow> k < a + n \<Longrightarrow> k < length xs \<Longrightarrow> ys ! k = xs ! k) \<Longrightarrow>
    bytes_at ys a n = bytes_at xs a n"
  by (intro nth_equalityI) (auto simp: bytes_at_def)

section \<open>Arithmetic of addresses\<close>

lemma unat_clear_low: "unat (x AND NOT (mask n) :: u64) = unat x div 2 ^ n * 2 ^ n"
proof -
  have "x AND NOT (mask n) = push_bit n (drop_bit n x)"
    by (rule bit_word_eqI) (auto simp: bit_simps)
  moreover have "push_bit n (drop_bit n x) = x - take_bit n x"
    using bits_ident [of n x] by (simp add: algebra_simps)
  moreover have "unat (x - take_bit n x) = unat x - unat (take_bit n x)"
    by (rule unat_sub) (simp only: word_le_nat_alt unsigned_take_bit_eq take_bit_nat_less_eq_self)
  moreover have "unat (take_bit n x) = unat x mod 2 ^ n"
    by (simp only: unsigned_take_bit_eq) (simp only: take_bit_eq_mod)
  ultimately show ?thesis by (simp add: minus_mod_eq_div_mult)
qed

lemma unat_align: "unat (x AND NOT 15 :: u64) = unat x div 16 * 16"
  using unat_clear_low [of x 4] by (simp add: mask_eq_decr_exp)

lemma unat_sum: "unat (a + b :: u64) = (if unat a + unat b < 2 ^ 64 then unat a + unat b else unat a + unat b - 2 ^ 64)"
  by (simp add: unat_plus_if_size word_size)

lemma unat_sub_wrap: "unat (a - b :: u64) = (if b \<le> a then unat a - unat b else unat a + 2 ^ 64 - unat b)"
  by (simp add: unat_sub_if_size word_size word_le_nat_alt)

lemma sint_small:
  assumes "unat (l :: u64) < 2 ^ 63"
  shows "0 \<le> sint l"
proof -
  have "take_bit 63 (unat l) = unat l" using assms by (rule take_bit_nat_eq_self)
  moreover have "\<not> bit (take_bit 63 (unat l)) 63" by (simp only: bit_take_bit_iff) simp
  ultimately have "\<not> bit l 63" by (simp add: bit_unsigned_iff)
  then show ?thesis by (simp add: sint_uint signed_take_bit_nonnegative_iff bit_uint_iff)
qed
end
