(* ===== verification/Csr.thy ===== *)
theory Csr
  imports Prelude
begin

text \<open>
  Exceptions and privileged state: \<open>crates/rv64-core/src/exception.rs\<close> and
  \<open>crates/rv64-core/src/csr.rs\<close>. The exception causes, the privilege modes, the CSR
  addresses, the bit layout of \<open>mstatus\<close> and the interrupt lines, and the record of
  privileged CSRs with its reset value.
\<close>

section \<open>Exceptions\<close>

datatype exn =
    InstructionAddressMisaligned u64
  | InstructionAccessFault u64
  | IllegalInstruction u32
  | Breakpoint
  | LoadAddressMisaligned u64
  | LoadAccessFault u64
  | StoreAddressMisaligned u64
  | StoreAccessFault u64
  | EnvironmentCallFromUMode
  | EnvironmentCallFromSMode
  | EnvironmentCallFromMMode
  | InstructionPageFault u64
  | LoadPageFault u64
  | StorePageFault u64

fun exn_cause :: "exn \<Rightarrow> u64" where
  "exn_cause (InstructionAddressMisaligned _) = 0"
| "exn_cause (InstructionAccessFault _) = 1"
| "exn_cause (IllegalInstruction _) = 2"
| "exn_cause Breakpoint = 3"
| "exn_cause (LoadAddressMisaligned _) = 4"
| "exn_cause (LoadAccessFault _) = 5"
| "exn_cause (StoreAddressMisaligned _) = 6"
| "exn_cause (StoreAccessFault _) = 7"
| "exn_cause EnvironmentCallFromUMode = 8"
| "exn_cause EnvironmentCallFromSMode = 9"
| "exn_cause EnvironmentCallFromMMode = 11"
| "exn_cause (InstructionPageFault _) = 12"
| "exn_cause (LoadPageFault _) = 13"
| "exn_cause (StorePageFault _) = 15"

section \<open>Privilege modes\<close>

datatype priv = User | Supervisor | Machine

text \<open>\<open>mode as u64\<close>: the discriminants of the enum.\<close>

fun priv_bits :: "priv \<Rightarrow> u64" where
  "priv_bits User = 0"
| "priv_bits Supervisor = 1"
| "priv_bits Machine = 3"

definition mode_from_bits :: "u64 \<Rightarrow> priv" where
  "mode_from_bits b =
     (if b AND 3 = 0 then User else if b AND 3 = 1 then Supervisor else Machine)"

lemma mode_from_priv_bits [simp]: "mode_from_bits (priv_bits m) = m"
  by (cases m) (simp_all add: mode_from_bits_def)

lemma priv_bits_inject [simp]: "priv_bits m = priv_bits n \<longleftrightarrow> m = n"
  by (cases m; cases n) simp_all

text \<open>The privilege order of the architecture, which \<open>PartialOrd\<close> derives from the discriminants.\<close>

instantiation priv :: linorder
begin

definition less_eq_priv :: "priv \<Rightarrow> priv \<Rightarrow> bool" where
  "less_eq_priv a b \<longleftrightarrow> priv_bits a \<le> priv_bits b"

definition less_priv :: "priv \<Rightarrow> priv \<Rightarrow> bool" where
  "less_priv a b \<longleftrightarrow> priv_bits a < priv_bits b"

instance
  by standard (auto simp: less_eq_priv_def less_priv_def order_less_le)

end

lemma User_le [simp]: "User \<le> m"
  by (simp add: less_eq_priv_def)

lemma le_Machine [simp]: "m \<le> Machine"
  by (cases m) (simp_all add: less_eq_priv_def)

lemma Supervisor_le [simp]: "Supervisor \<le> m \<longleftrightarrow> m \<noteq> User"
  by (cases m) (simp_all add: less_eq_priv_def)

lemma le_Supervisor [simp]: "m \<le> Supervisor \<longleftrightarrow> m \<noteq> Machine"
  by (cases m) (simp_all add: less_eq_priv_def word_le_nat_alt)

section \<open>CSR addresses\<close>

named_theorems csr_addr \<open>the numeric CSR addresses\<close>

definition FFLAGS :: u32 where [csr_addr]: "FFLAGS = 0x001"
definition FRM :: u32 where [csr_addr]: "FRM = 0x002"
definition FCSR :: u32 where [csr_addr]: "FCSR = 0x003"
definition VSTART :: u32 where [csr_addr]: "VSTART = 0x008"
definition VXSAT :: u32 where [csr_addr]: "VXSAT = 0x009"
definition VXRM :: u32 where [csr_addr]: "VXRM = 0x00a"
definition VCSR :: u32 where [csr_addr]: "VCSR = 0x00f"
definition SSTATUS :: u32 where [csr_addr]: "SSTATUS = 0x100"
definition SIE :: u32 where [csr_addr]: "SIE = 0x104"
definition STVEC :: u32 where [csr_addr]: "STVEC = 0x105"
definition SCOUNTEREN :: u32 where [csr_addr]: "SCOUNTEREN = 0x106"
definition SSCRATCH :: u32 where [csr_addr]: "SSCRATCH = 0x140"
definition SEPC :: u32 where [csr_addr]: "SEPC = 0x141"
definition SCAUSE :: u32 where [csr_addr]: "SCAUSE = 0x142"
definition STVAL :: u32 where [csr_addr]: "STVAL = 0x143"
definition SIP :: u32 where [csr_addr]: "SIP = 0x144"
definition SATP :: u32 where [csr_addr]: "SATP = 0x180"
definition MSTATUS :: u32 where [csr_addr]: "MSTATUS = 0x300"
definition MISA :: u32 where [csr_addr]: "MISA = 0x301"
definition MEDELEG :: u32 where [csr_addr]: "MEDELEG = 0x302"
definition MIDELEG :: u32 where [csr_addr]: "MIDELEG = 0x303"
definition MIE :: u32 where [csr_addr]: "MIE = 0x304"
definition MTVEC :: u32 where [csr_addr]: "MTVEC = 0x305"
definition MCOUNTEREN :: u32 where [csr_addr]: "MCOUNTEREN = 0x306"
definition MSCRATCH :: u32 where [csr_addr]: "MSCRATCH = 0x340"
definition MEPC :: u32 where [csr_addr]: "MEPC = 0x341"
definition MCAUSE :: u32 where [csr_addr]: "MCAUSE = 0x342"
definition MTVAL :: u32 where [csr_addr]: "MTVAL = 0x343"
definition MIP :: u32 where [csr_addr]: "MIP = 0x344"
definition MCYCLE :: u32 where [csr_addr]: "MCYCLE = 0xb00"
definition MINSTRET :: u32 where [csr_addr]: "MINSTRET = 0xb02"
definition CYCLE :: u32 where [csr_addr]: "CYCLE = 0xc00"
definition TIME :: u32 where [csr_addr]: "TIME = 0xc01"
definition INSTRET :: u32 where [csr_addr]: "INSTRET = 0xc02"
definition VL :: u32 where [csr_addr]: "VL = 0xc20"
definition VTYPE :: u32 where [csr_addr]: "VTYPE = 0xc21"
definition VLENB :: u32 where [csr_addr]: "VLENB = 0xc22"
definition MVENDORID :: u32 where [csr_addr]: "MVENDORID = 0xf11"
definition MARCHID :: u32 where [csr_addr]: "MARCHID = 0xf12"
definition MIMPID :: u32 where [csr_addr]: "MIMPID = 0xf13"
definition MHARTID :: u32 where [csr_addr]: "MHARTID = 0xf14"

section \<open>The bits of mstatus, mip and misa\<close>

named_theorems csr_bits \<open>the numeric bit masks\<close>

definition MSTATUS_SIE :: u64 where [csr_bits]: "MSTATUS_SIE = push_bit 1 1"
definition MSTATUS_MIE :: u64 where [csr_bits]: "MSTATUS_MIE = push_bit 3 1"
definition MSTATUS_SPIE :: u64 where [csr_bits]: "MSTATUS_SPIE = push_bit 5 1"
definition MSTATUS_MPIE :: u64 where [csr_bits]: "MSTATUS_MPIE = push_bit 7 1"
definition MSTATUS_SPP :: u64 where [csr_bits]: "MSTATUS_SPP = push_bit 8 1"
definition MSTATUS_VS :: u64 where [csr_bits]: "MSTATUS_VS = push_bit 9 3"
definition MSTATUS_MPP :: u64 where [csr_bits]: "MSTATUS_MPP = push_bit 11 3"
definition MSTATUS_FS :: u64 where [csr_bits]: "MSTATUS_FS = push_bit 13 3"
definition MSTATUS_MPRV :: u64 where [csr_bits]: "MSTATUS_MPRV = push_bit 17 1"
definition MSTATUS_SUM :: u64 where [csr_bits]: "MSTATUS_SUM = push_bit 18 1"
definition MSTATUS_MXR :: u64 where [csr_bits]: "MSTATUS_MXR = push_bit 19 1"
definition MSTATUS_TVM :: u64 where [csr_bits]: "MSTATUS_TVM = push_bit 20 1"
definition MSTATUS_TW :: u64 where [csr_bits]: "MSTATUS_TW = push_bit 21 1"
definition MSTATUS_TSR :: u64 where [csr_bits]: "MSTATUS_TSR = push_bit 22 1"
definition MSTATUS_UXL :: u64 where [csr_bits]: "MSTATUS_UXL = push_bit 32 3"
definition MSTATUS_SXL :: u64 where [csr_bits]: "MSTATUS_SXL = push_bit 34 3"
definition MSTATUS_SD :: u64 where [csr_bits]: "MSTATUS_SD = push_bit 63 1"

definition SSTATUS_MASK :: u64 where [csr_bits]:
  "SSTATUS_MASK = MSTATUS_SIE OR MSTATUS_SPIE OR MSTATUS_SPP OR MSTATUS_VS OR MSTATUS_FS
     OR MSTATUS_SUM OR MSTATUS_MXR OR MSTATUS_UXL OR MSTATUS_SD"

definition IRQ_SSIP :: u64 where [csr_bits]: "IRQ_SSIP = push_bit 1 1"
definition IRQ_MSIP :: u64 where [csr_bits]: "IRQ_MSIP = push_bit 3 1"
definition IRQ_STIP :: u64 where [csr_bits]: "IRQ_STIP = push_bit 5 1"
definition IRQ_MTIP :: u64 where [csr_bits]: "IRQ_MTIP = push_bit 7 1"
definition IRQ_SEIP :: u64 where [csr_bits]: "IRQ_SEIP = push_bit 9 1"
definition IRQ_MEIP :: u64 where [csr_bits]: "IRQ_MEIP = push_bit 11 1"

definition MISA_VALUE :: u64 where [csr_bits]:
  "MISA_VALUE = push_bit 62 2 OR push_bit 0 1 OR push_bit 2 1 OR push_bit 3 1 OR push_bit 5 1
     OR push_bit 8 1 OR push_bit 12 1 OR push_bit 18 1 OR push_bit 20 1 OR push_bit 21 1"

section \<open>The privileged CSR state\<close>

record sys_csrs =
  mode :: priv
  mstatus :: u64
  medeleg :: u64
  mideleg :: u64
  mie :: u64
  mip :: u64
  mtvec :: u64
  mcounteren :: u64
  mscratch :: u64
  mepc :: u64
  mcause :: u64
  mtval :: u64
  stvec :: u64
  scounteren :: u64
  sscratch :: u64
  sepc :: u64
  scause :: u64
  stval :: u64
  satp :: u64
  mhartid :: u64
  mtime :: u64
  time_scale :: u64
  time_offset :: u64
  pmpcfg :: "nat \<Rightarrow> u64"
  pmpaddr :: "nat \<Rightarrow> u64"
  minstret_off :: u64

definition sys_new :: sys_csrs where
  "sys_new = \<lparr> mode = Machine,
     mstatus = (MSTATUS_UXL AND push_bit 32 2) OR (MSTATUS_SXL AND push_bit 34 2),
     medeleg = 0, mideleg = 0, mie = 0, mip = 0, mtvec = 0, mcounteren = 0, mscratch = 0,
     mepc = 0, mcause = 0, mtval = 0, stvec = 0, scounteren = 0, sscratch = 0, sepc = 0,
     scause = 0, stval = 0, satp = 0, mhartid = 0, mtime = 0, time_scale = 0, time_offset = 0,
     pmpcfg = (\<lambda>_. 0), pmpaddr = (\<lambda>_. 0), minstret_off = 0 \<rparr>"

end
