(* ===== verification/Bus.thy ===== *)
theory Bus
  imports Csr
begin

text \<open>
  The memory interface of the CPU: \<open>crates/rv64-core/src/bus.rs\<close>. The trait \<open>Bus\<close> is a
  record of operations over a bus state \<open>'b\<close>; \<^term>\<open>flat_bus\<close> is the user-mode
  implementation \<open>FlatMemory\<close>. The locale \<open>table_memory\<close> is the contract the MMU relies on
  for the memory that holds page tables, \<open>quiet_bus\<close> the one the CPU relies on to run
  without a panic.
\<close>

section \<open>The trait\<close>

text \<open>
  \<open>host_read8\<close> and \<open>host_write8\<close> are not methods of the trait: they are the raw memory of
  the process that the interpreter reads and writes through an address exposed by
  \<open>jit_fast_off\<close> (\<open>core::ptr::read\<close> and \<open>core::ptr::write\<close>); the backing store of the bus is
  the only such memory. \<open>usize\<close> is 64 bits wide.
\<close>

record 'b bus_ops =
  read8 :: "u64 \<Rightarrow> ('b, exn, u8) res"
  read16 :: "u64 \<Rightarrow> ('b, exn, u16) res"
  read32 :: "u64 \<Rightarrow> ('b, exn, u32) res"
  read64 :: "u64 \<Rightarrow> ('b, exn, u64) res"
  write8 :: "u64 \<Rightarrow> u8 \<Rightarrow> ('b, exn, unit) res"
  write16 :: "u64 \<Rightarrow> u16 \<Rightarrow> ('b, exn, unit) res"
  write32 :: "u64 \<Rightarrow> u32 \<Rightarrow> ('b, exn, unit) res"
  write64 :: "u64 \<Rightarrow> u64 \<Rightarrow> ('b, exn, unit) res"
  jit_fast_off :: "'b \<Rightarrow> u64 \<Rightarrow> u64 \<Rightarrow> bool \<Rightarrow> i64 option"
  irq_lines :: "'b \<Rightarrow> u64 \<times> 'b"
  host_read8 :: "'b \<Rightarrow> u64 \<Rightarrow> u8"
  host_write8 :: "u64 \<Rightarrow> u8 \<Rightarrow> 'b \<Rightarrow> 'b"

text \<open>The default methods of the trait.\<close>

definition fetch32 :: "'b bus_ops \<Rightarrow> u64 \<Rightarrow> ('b, exn, u32) res" where
  "fetch32 B addr = map_err (\<lambda>_. InstructionAccessFault addr) (read32 B addr)"

definition fetch16 :: "'b bus_ops \<Rightarrow> u64 \<Rightarrow> ('b, exn, u16) res" where
  "fetch16 B addr = map_err (\<lambda>_. InstructionAccessFault addr) (read16 B addr)"

definition default_jit_fast_off :: "'b \<Rightarrow> u64 \<Rightarrow> u64 \<Rightarrow> bool \<Rightarrow> i64 option" where
  "default_jit_fast_off _ _ _ _ = None"

definition default_irq_lines :: "'b \<Rightarrow> u64 \<times> 'b" where
  "default_irq_lines b = (0, b)"

section \<open>FlatMemory\<close>

record flat_memory =
  fm_base :: u64
  fm_mem :: "u8 list"

definition flat_new :: "u64 \<Rightarrow> u8 list \<Rightarrow> flat_memory" where
  "flat_new base mem = \<lparr>fm_base = base, fm_mem = mem\<rparr>"

definition flat_offset :: "flat_memory \<Rightarrow> u64 \<Rightarrow> u64 \<Rightarrow> u64 option" where
  "flat_offset m addr len =
     (if addr < fm_base m then None
      else let off = addr - fm_base m in
        if off + len \<le> of_nat (length (fm_mem m)) then Some off else None)"

text \<open>The two functions the macro \<open>flat_rw\<close> defines, for an access of \<open>n\<close> bytes.\<close>

definition flat_read :: "nat \<Rightarrow> u64 \<Rightarrow> (flat_memory, exn, 'a::len word) res" where
  "flat_read n addr =
     mbind (mget (\<lambda>m. flat_offset m addr (of_nat n))) (\<lambda>o'.
     mbind (ok_or o' (LoadAccessFault addr)) (\<lambda>off.
     mbind (mget (\<lambda>m. sub_range (fm_mem m) off (off + of_nat n))) (\<lambda>sl.
     mbind (unwrap sl) (\<lambda>bytes. mret (from_le_bytes bytes)))))"

definition flat_write :: "nat \<Rightarrow> u64 \<Rightarrow> 'a::len word \<Rightarrow> (flat_memory, exn, unit) res" where
  "flat_write n addr val =
     mbind (mget (\<lambda>m. flat_offset m addr (of_nat n))) (\<lambda>o'.
     mbind (ok_or o' (StoreAccessFault addr)) (\<lambda>off.
     mbind (mget (\<lambda>m. set_range (fm_mem m) off (off + of_nat n) (to_le_bytes n val))) (\<lambda>sl.
     mbind (unwrap sl) (\<lambda>mem. mmod (\<lambda>m. m\<lparr>fm_mem := mem\<rparr>)))))"

definition flat_bus :: "flat_memory bus_ops" where
  "flat_bus = \<lparr> read8 = flat_read 1, read16 = flat_read 2, read32 = flat_read 4,
     read64 = flat_read 8, write8 = flat_write 1, write16 = flat_write 2,
     write32 = flat_write 4, write64 = flat_write 8, jit_fast_off = default_jit_fast_off,
     irq_lines = default_irq_lines, host_read8 = (\<lambda>_ _. 0), host_write8 = (\<lambda>_ _ b. b) \<rparr>"

section \<open>Facts about FlatMemory\<close>

text \<open>The range of an access that \<open>offset\<close> accepts without wrapping.\<close>

definition flat_in :: "flat_memory \<Rightarrow> u64 \<Rightarrow> nat \<Rightarrow> bool" where
  "flat_in m addr n \<longleftrightarrow> fm_base m \<le> addr \<and> unat addr - unat (fm_base m) + n \<le> length (fm_mem m)"

text \<open>A Rust slice never exceeds \<open>isize::MAX\<close> bytes.\<close>

definition flat_wf :: "flat_memory \<Rightarrow> bool" where
  "flat_wf m \<longleftrightarrow> length (fm_mem m) < 2 ^ 63"

text \<open>The accesses whose end does not fit in 64 bits, relative to the base.\<close>

definition flat_wraps :: "flat_memory \<Rightarrow> u64 \<Rightarrow> nat \<Rightarrow> bool" where
  "flat_wraps m addr n \<longleftrightarrow> fm_base m \<le> addr \<and> 2 ^ 64 \<le> unat addr - unat (fm_base m) + n
     \<and> unat addr - unat (fm_base m) + n - 2 ^ 64 \<le> length (fm_mem m)"

definition flat_store :: "flat_memory \<Rightarrow> u64 \<Rightarrow> u8 list \<Rightarrow> flat_memory" where
  "flat_store m addr ys = m\<lparr>fm_mem :=
     take (unat addr - unat (fm_base m)) (fm_mem m) @ ys @
     drop (unat addr - unat (fm_base m) + length ys) (fm_mem m)\<rparr>"

lemma flat_sub: "fm_base m \<le> addr \<Longrightarrow> unat (addr - fm_base m) = unat addr - unat (fm_base m)"
  by (rule unat_sub)

lemma flat_offset_cases:
  assumes "flat_wf m" and "n < 2 ^ 63"
  shows "flat_offset m addr (of_nat n) =
    (if flat_in m addr n \<or> flat_wraps m addr n then Some (addr - fm_base m) else None)"
proof (cases "fm_base m \<le> addr")
  case True
  define d where "d = unat addr - unat (fm_base m)"
  define l where "l = length (fm_mem m)"
  have dd: "unat (addr - fm_base m) = d" using True by (simp add: flat_sub d_def)
  have "d < 2 ^ 64" using unat_less_2p64 [of addr] by (simp add: d_def)
  moreover have l: "l < 2 ^ 63" using assms(1) by (simp add: flat_wf_def l_def)
  ultimately have "(addr - fm_base m + of_nat n \<le> of_nat l) =
      (d + n \<le> l \<or> 2 ^ 64 \<le> d + n \<and> d + n - 2 ^ 64 \<le> l)"
    using assms(2) by (simp add: word_le_nat_alt unat_add_wrap dd)
  moreover have "\<not> addr < fm_base m" using True by simp
  moreover have "flat_in m addr n = (d + n \<le> l)" using True by (simp add: flat_in_def d_def l_def)
  moreover have "flat_wraps m addr n = (2 ^ 64 \<le> d + n \<and> d + n - 2 ^ 64 \<le> l)"
    using True by (simp add: flat_wraps_def d_def l_def)
  ultimately show ?thesis by (simp only: flat_offset_def Let_def l_def if_False)
next
  case False
  then show ?thesis by (auto simp: flat_offset_def flat_in_def flat_wraps_def)
qed

lemma flat_in_not_wraps: "flat_wf m \<Longrightarrow> flat_in m addr n \<Longrightarrow> \<not> flat_wraps m addr n"
  by (auto simp: flat_wf_def flat_in_def flat_wraps_def)

lemma flat_in_end:
  assumes "flat_wf m" and "n < 2 ^ 63" and "flat_in m addr n"
  shows "unat (addr - fm_base m + of_nat n) = unat addr - unat (fm_base m) + n"
  using assms flat_sub [of m addr]
  by (simp add: unat_add_wrap flat_in_def flat_wf_def)

lemma flat_slice:
  assumes "flat_wf m" and "n < 2 ^ 63" and "flat_in m addr n"
  shows "sub_range (fm_mem m) (addr - fm_base m) (addr - fm_base m + of_nat n) =
    Some (take n (drop (unat addr - unat (fm_base m)) (fm_mem m)))"
  using assms by (intro sub_range_nat flat_sub flat_in_end) (simp_all add: flat_in_def)

lemma flat_wraps_end:
  assumes "n < 2 ^ 63" and "flat_wraps m addr n"
  shows "unat (addr - fm_base m + of_nat n) < unat (addr - fm_base m)"
proof -
  define d where "d = unat addr - unat (fm_base m)"
  have d: "unat (addr - fm_base m) = d" and "2 ^ 64 \<le> d + n"
    using assms(2) by (simp_all add: flat_sub flat_wraps_def d_def)
  then have "d + n - 2 ^ 64 < d" using assms(1) by (simp add: less_diff_conv2)
  then show ?thesis
    using \<open>2 ^ 64 \<le> d + n\<close> assms(1) by (simp add: unat_add_wrap d)
qed

lemmas flat_slice_wraps = sub_range_None [OF flat_wraps_end] set_range_None [OF flat_wraps_end]

lemma flat_read_run:
  assumes "flat_wf m" and "n < 2 ^ 63"
  shows "flat_read n addr m =
    (if flat_in m addr n
     then (Inr (from_le_bytes (take n (drop (unat addr - unat (fm_base m)) (fm_mem m)))), m)
     else if flat_wraps m addr n then (Inl Panic, m)
     else (Inl (Throw (LoadAccessFault addr)), m))"
  using assms flat_in_not_wraps [of m addr n]
  by (cases "flat_in m addr n"; cases "flat_wraps m addr n")
    (simp_all add: flat_read_def flat_offset_cases flat_slice flat_slice_wraps ok_or_def unwrap_def)

lemma flat_write_run:
  assumes "flat_wf m" and "n < 2 ^ 63"
  shows "flat_write n addr v m =
    (if flat_in m addr n then (Inr (), flat_store m addr (to_le_bytes n v))
     else if flat_wraps m addr n then (Inl Panic, m)
     else (Inl (Throw (StoreAccessFault addr)), m))"
proof (cases "flat_in m addr n")
  case True
  then have "set_range (fm_mem m) (addr - fm_base m) (addr - fm_base m + of_nat n)
      (to_le_bytes n v) = Some (take (unat addr - unat (fm_base m)) (fm_mem m) @ to_le_bytes n v @
        drop (unat addr - unat (fm_base m) + n) (fm_mem m))"
    using assms by (intro set_range_nat flat_sub flat_in_end) (simp_all add: flat_in_def)
  with True assms show ?thesis
    by (simp add: flat_write_def flat_offset_cases ok_or_def unwrap_def flat_store_def)
next
  case False
  with assms show ?thesis
    by (cases "flat_wraps m addr n")
      (simp_all add: flat_write_def flat_offset_cases flat_slice_wraps ok_or_def unwrap_def)
qed

section \<open>Buses that never panic\<close>

text \<open>
  The contract under which the hart runs without a panic: every operation of the bus keeps
  an invariant of the bus and does not panic on a state that satisfies it.
\<close>

locale quiet_bus =
  fixes B :: "'b bus_ops" and inv :: "'b \<Rightarrow> bool"
  assumes keeps_read8: "keeps inv (read8 B a)"
    and keeps_read16: "keeps inv (read16 B a)"
    and keeps_read32: "keeps inv (read32 B a)"
    and keeps_read64: "keeps inv (read64 B a)"
    and keeps_write8: "keeps inv (write8 B a v8)"
    and keeps_write16: "keeps inv (write16 B a v16)"
    and keeps_write32: "keeps inv (write32 B a v32)"
    and keeps_write64: "keeps inv (write64 B a v64)"
    and inv_irq_lines: "inv b \<Longrightarrow> inv (snd (irq_lines B b))"
    and inv_host_write8: "inv b \<Longrightarrow> inv (host_write8 B a v8 b)"
begin

lemma keeps_fetch16: "keeps inv (fetch16 B a)"
  unfolding fetch16_def by (intro keeps_map_err keeps_read16)

lemma keeps_fetch32: "keeps inv (fetch32 B a)"
  unfolding fetch32_def by (intro keeps_map_err keeps_read32)

lemmas keeps_bus_ops = keeps_read8 keeps_read16 keeps_read32 keeps_read64 keeps_write8
  keeps_write16 keeps_write32 keeps_write64 keeps_fetch16 keeps_fetch32

end

text \<open>
  A flat memory keeps its base and its size. Its accesses of at most 8 bytes do not wrap
  when the base is at least 8.
\<close>

definition flat_quiet :: "flat_memory \<Rightarrow> bool" where
  "flat_quiet m \<longleftrightarrow> flat_wf m \<and> 8 \<le> unat (fm_base m)"

lemma flat_quiet_not_wraps: "flat_quiet m \<Longrightarrow> n \<le> 8 \<Longrightarrow> \<not> flat_wraps m addr n"
  using unat_less_2p64 [of addr] by (auto simp: flat_quiet_def flat_wraps_def)

lemma flat_store_quiet:
  "flat_quiet m \<Longrightarrow> flat_in m addr (length ys) \<Longrightarrow> flat_quiet (flat_store m addr ys)"
  by (auto simp: flat_quiet_def flat_wf_def flat_store_def flat_in_def)

lemma keeps_flat_read: "n \<le> 8 \<Longrightarrow> keeps flat_quiet (flat_read n addr)"
  by (rule keeps_atI)
    (auto simp: keeps_at_def flat_read_run flat_quiet_not_wraps flat_quiet_def [THEN iffD1])

lemma keeps_flat_write: "n \<le> 8 \<Longrightarrow> keeps flat_quiet (flat_write n addr v)"
  by (rule keeps_atI)
    (auto simp: keeps_at_def flat_write_run flat_quiet_not_wraps flat_store_quiet
      flat_quiet_def [THEN iffD1])

interpretation flat: quiet_bus flat_bus flat_quiet
  by unfold_locales (simp_all add: flat_bus_def keeps_flat_read keeps_flat_write default_irq_lines_def)

end
