(* ===== verification/Decode.thy ===== *)
theory Decode
  imports Prelude
begin

text \<open>
  Field extraction for the 32-bit encodings, \<open>crates/rv64-core/src/decode.rs\<close>, and the
  facts that let proofs compute with fields: every field is a \<^const>\<open>take_bit\<close> of a
  \<^const>\<open>drop_bit\<close>, and register numbers are below 32.
\<close>

section \<open>Fields\<close>

definition opcode :: "u32 \<Rightarrow> u32" where
  "opcode insn = insn AND 0x7f"

definition rd :: "u32 \<Rightarrow> nat" where
  "rd insn = unat (drop_bit 7 insn AND 0x1f)"

definition rs1 :: "u32 \<Rightarrow> nat" where
  "rs1 insn = unat (drop_bit 15 insn AND 0x1f)"

definition rs2 :: "u32 \<Rightarrow> nat" where
  "rs2 insn = unat (drop_bit 20 insn AND 0x1f)"

definition funct3 :: "u32 \<Rightarrow> u32" where
  "funct3 insn = drop_bit 12 insn AND 7"

definition funct7 :: "u32 \<Rightarrow> u32" where
  "funct7 insn = drop_bit 25 insn"

definition imm_i :: "u32 \<Rightarrow> i64" where
  "imm_i insn = signed_drop_bit 20 (scast insn)"

definition imm_s :: "u32 \<Rightarrow> i64" where
  "imm_s insn = signed_drop_bit 20 (scast (insn AND 0xfe000000)) OR ucast (drop_bit 7 insn AND 0x1f)"

definition imm_b :: "u32 \<Rightarrow> i64" where
  "imm_b insn = signed_drop_bit 19 (scast (insn AND 0x80000000))
     OR push_bit 4 (ucast (insn AND 0x80))
     OR ucast (drop_bit 20 insn AND 0x7e0)
     OR ucast (drop_bit 7 insn AND 0x1e)"

definition imm_u :: "u32 \<Rightarrow> i64" where
  "imm_u insn = scast (insn AND 0xfffff000)"

definition imm_j :: "u32 \<Rightarrow> i64" where
  "imm_j insn = signed_drop_bit 11 (scast (insn AND 0x80000000))
     OR ucast (insn AND 0xff000)
     OR ucast (drop_bit 9 insn AND 0x800)
     OR ucast (drop_bit 20 insn AND 0x7fe)"

section \<open>Masks\<close>

named_theorems mask_simps \<open>\<open>x & mask\<close> as \<^const>\<open>take_bit\<close>\<close>

lemma and_take_bit: "take_bit n (a :: 'a::len word) = a AND mask n"
  by (rule take_bit_eq_mask)

lemma mask_lits [mask_simps]:
  "a AND 1 = take_bit 1 (a :: 'a::len word)"
  "a AND 3 = take_bit 2 a" "a AND 7 = take_bit 3 a" "a AND 0xf = take_bit 4 a"
  "a AND 0x1f = take_bit 5 a" "a AND 0x3f = take_bit 6 a" "a AND 0x7f = take_bit 7 a"
  "a AND 0x3ff = take_bit 10 a" "a AND 0xfff = take_bit 12 a" "a AND 0xfffff = take_bit 20 a"
  by (simp_all add: and_take_bit mask_eq_exp_minus_1)

lemma unat_take_bit_less: "unat (take_bit n (a :: 'a::len word)) < 2 ^ n"
  by (simp add: unsigned_take_bit_eq)

lemma reg_less [simp]: "rd insn < 32" "rs1 insn < 32" "rs2 insn < 32"
  using unat_take_bit_less [of 5 "drop_bit 7 insn"] unat_take_bit_less [of 5 "drop_bit 15 insn"]
    unat_take_bit_less [of 5 "drop_bit 20 insn"]
  by (simp_all add: rd_def rs1_def rs2_def mask_simps)

section \<open>Bits of the immediates\<close>

lemma bit_bound:
  assumes "unat (a :: 'a::len word) < 2 ^ n" and "bit a k" shows "k < n"
proof -
  have "take_bit n (unat a) = unat a" using assms(1) by (simp add: take_bit_nat_eq_self)
  moreover have "bit (unat a) k" using assms(2) by (simp add: bit_unsigned_iff bit_imp_le_length)
  ultimately show ?thesis by (metis bit_take_bit_iff)
qed

lemma not_bit_8: "(a :: u32) < 8 \<Longrightarrow> 3 \<le> n \<Longrightarrow> \<not> bit a n"
  using bit_bound [of a 3 n] by (auto simp: word_less_nat_alt)

lemma not_bit_32: "(a :: u32) < 32 \<Longrightarrow> 5 \<le> n \<Longrightarrow> \<not> bit a n"
  using bit_bound [of a 5 n] by (auto simp: word_less_nat_alt)

lemma not_bit_128: "(a :: u32) < 128 \<Longrightarrow> 7 \<le> n \<Longrightarrow> \<not> bit a n"
  using bit_bound [of a 7 n] by (auto simp: word_less_nat_alt)

lemmas not_bits = not_bit_8 not_bit_32 not_bit_128

lemma bit_scast_32_64:
  "bit (scast (w :: u32) :: u64) n \<longleftrightarrow> n < 64 \<and> bit w (if n < 31 then n else 31)"
  by (auto simp: bit_signed_iff min_def)

lemma bit_sdrop_64:
  "bit (signed_drop_bit m (w :: u64)) n \<longleftrightarrow> bit w (if 64 - m \<le> n \<and> n < 64 then 63 else m + n)"
  by (simp add: bit_signed_drop_bit_iff)

lemma bit_sdrop_32:
  "bit (signed_drop_bit m (w :: u32)) n \<longleftrightarrow> bit w (if 32 - m \<le> n \<and> n < 32 then 31 else m + n)"
  by (simp add: bit_signed_drop_bit_iff)

lemma bit_imm_i: "bit (imm_i insn) n \<longleftrightarrow> n < 64 \<and> bit insn (if n < 11 then n + 20 else 31)"
  by (auto simp: imm_i_def bit_scast_32_64 bit_sdrop_64 ac_simps)

lemma single_consts:
  "bit (0x80000000 :: int) n \<longleftrightarrow> n = 31" "bit (0x800 :: int) n \<longleftrightarrow> n = 11"
  "bit (0x80 :: int) n \<longleftrightarrow> n = 7"
  using bit_exp_iff [where 'a = int, of 31 n] bit_exp_iff [where 'a = int, of 11 n]
    bit_exp_iff [where 'a = int, of 7 n] by auto

lemma mask_consts:
  "(0xfe000000 :: u32) = push_bit 25 (mask 7)"
  "(0x7e0 :: u32) = push_bit 5 (mask 6)" "(0x1e :: u32) = push_bit 1 (mask 4)"
  "(0x7fe :: u32) = push_bit 1 (mask 10)"
  "(0xff000 :: u32) = push_bit 12 (mask 8)" "(0xfffff000 :: u32) = push_bit 12 (mask 20)"
  "(0x1f :: u32) = mask 5" "(0xfe0 :: u32) = push_bit 5 (mask 7)"
  by (simp_all add: mask_eq_exp_minus_1)

lemma bit_imm_s: "bit (imm_s insn) n \<longleftrightarrow>
    n < 64 \<and> bit insn (if n < 5 then n + 7 else if n < 11 then n + 20 else 31)"
  by (auto simp: imm_s_def bit_scast_32_64 bit_sdrop_64 mask_consts single_consts bit_simps ac_simps)

lemma bit_sign_part: "m < 32 \<Longrightarrow>
    bit (signed_drop_bit m (scast (insn AND 0x80000000 :: u32)) :: u64) n \<longleftrightarrow>
      31 - m \<le> n \<and> n < 64 \<and> bit insn 31"
  by (auto simp: bit_scast_32_64 bit_sdrop_64 mask_consts single_consts bit_simps)

lemma bit_imm_b: "bit (imm_b insn) n \<longleftrightarrow> n < 64 \<and> n \<noteq> 0 \<and>
    bit insn (if n < 5 then n + 7 else if n < 11 then n + 20 else if n = 11 then 7 else 31)"
proof -
  have "bit (push_bit 4 (ucast (insn AND 0x80)) :: u64) n \<longleftrightarrow> n = 11 \<and> bit insn 7"
    by (auto simp: mask_consts single_consts bit_simps)
  moreover have "bit (ucast (drop_bit 20 insn AND 0x7e0) :: u64) n \<longleftrightarrow>
      5 \<le> n \<and> n < 11 \<and> bit insn (n + 20)"
    by (auto simp: mask_consts single_consts bit_simps ac_simps)
  moreover have "bit (ucast (drop_bit 7 insn AND 0x1e) :: u64) n \<longleftrightarrow>
      1 \<le> n \<and> n < 5 \<and> bit insn (n + 7)"
    by (auto simp: mask_consts single_consts bit_simps ac_simps)
  ultimately show ?thesis by (auto simp: imm_b_def bit_or_iff bit_sign_part)
qed

lemma bit_imm_u: "bit (imm_u insn) n \<longleftrightarrow> 12 \<le> n \<and> n < 64 \<and> bit insn (if n < 31 then n else 31)"
  by (auto simp: imm_u_def bit_scast_32_64 mask_consts single_consts bit_simps)

lemma bit_imm_j: "bit (imm_j insn) n \<longleftrightarrow> n < 64 \<and> n \<noteq> 0 \<and>
    bit insn (if n < 11 then n + 20 else if n = 11 then 20 else if n < 20 then n else 31)"
proof -
  have "bit (ucast (insn AND 0xff000) :: u64) n \<longleftrightarrow> 12 \<le> n \<and> n < 20 \<and> bit insn n"
    by (auto simp: mask_consts single_consts bit_simps)
  moreover have "bit (ucast (drop_bit 9 insn AND 0x800) :: u64) n \<longleftrightarrow> n = 11 \<and> bit insn 20"
    by (auto simp: mask_consts single_consts bit_simps)
  moreover have "bit (ucast (drop_bit 20 insn AND 0x7fe) :: u64) n \<longleftrightarrow>
      1 \<le> n \<and> n < 11 \<and> bit insn (n + 20)"
    by (auto simp: mask_consts single_consts bit_simps ac_simps)
  ultimately show ?thesis by (auto simp: imm_j_def bit_or_iff bit_sign_part)
qed

lemma and7_less: "(x :: u32) AND 7 < 8" "(x :: u32) AND 0x1f < 32"
  using unat_take_bit_less [of 3 x] unat_take_bit_less [of 5 x]
  by (simp_all add: mask_simps word_less_nat_alt)

lemma less_8_cases:
  assumes "(x :: u32) < 8"
  shows "x = 0 \<or> x = 1 \<or> x = 2 \<or> x = 3 \<or> x = 4 \<or> x = 5 \<or> x = 6 \<or> x = 7"
proof -
  have "unat x < 8" using assms by (simp add: word_less_nat_alt)
  then have "unat x = 0 \<or> unat x = 1 \<or> unat x = 2 \<or> unat x = 3 \<or> unat x = 4 \<or> unat x = 5
      \<or> unat x = 6 \<or> unat x = 7" by linarith
  then show ?thesis by (simp add: word_unat_eq_iff)
qed

lemma take_small: "unat (a :: u32) < 2 ^ k \<Longrightarrow> k \<le> n \<Longrightarrow> take_bit n a = a"
  by (rule bit_word_eqI) (auto simp: bit_simps dest: bit_bound)

lemma bit_of_field: "take_bit w (drop_bit k a) = b \<Longrightarrow> n < w \<Longrightarrow> bit a (k + n) = bit (b :: u32) n"
  by (metis bit_drop_bit_eq bit_take_bit_iff comp_apply)

end
