(* ===== verification/CpuState.thy ===== *)
theory CpuState
  imports Bus Decode
begin

text \<open>
  The hart of \<open>crates/rv64-core/src/cpu.rs\<close>: the \<open>Cpu\<close> structure with its reset state, the
  monad the interpreter runs in, the accessors of the register file and of the FP state,
  and the bookkeeping of the translation caches (flushes, SFENCE.VMA, the permission
  contexts folded into every tag). Arrays indexed by a register number or a cache slot
  are functions of that index: every index of the sources is masked or decoded from a
  bit field of the right width. The rows of a cache are indexed by the access type
  (\<open>access as usize\<close>) or by the store flag (\<open>store as usize\<close>).
\<close>

section \<open>State\<close>

datatype stop_reason = Budget | Ecall | Break | Trap exn | Wfi

datatype access = Fetch | Load | Store

definition TLB_BITS :: nat where "TLB_BITS = 12"
definition TLB_SIZE :: nat where "TLB_SIZE = 4096"
definition TLB_INVALID :: u64 where "TLB_INVALID = NOT 0"
definition TLB_PAGE_MASK :: u64 where "TLB_PAGE_MASK = NOT 0xfff"
definition TLB_CTX_SUM :: u64 where "TLB_CTX_SUM = push_bit 2 1"
definition TLB_CTX_MXR :: u64 where "TLB_CTX_MXR = push_bit 3 1"
definition IRQ_POLL_INTERVAL :: u32 where "IRQ_POLL_INTERVAL = 32"

definition compressed_register :: "u32 \<Rightarrow> nat" where
  "compressed_register field = unat (field + 8)"

definition compressed_sext :: "u32 \<Rightarrow> nat \<Rightarrow> i64" where
  "compressed_sext value bits =
     scast (signed_drop_bit (32 - bits) (push_bit (32 - bits) value))"

definition VILL :: u64 where "VILL = push_bit 63 1"

record vector_state =
  vs_regs :: "nat \<Rightarrow> nat \<Rightarrow> u8"
  vs_vl :: u64
  vs_vtype :: u64
  vs_vstart :: u64
  vs_vxrm :: u8
  vs_vxsat :: bool

definition vector_default :: vector_state where
  "vector_default = \<lparr> vs_regs = (\<lambda>_ _. 0), vs_vl = 0, vs_vtype = VILL, vs_vstart = 0,
     vs_vxrm = 0, vs_vxsat = False \<rparr>"

record cpu =
  xreg :: "nat \<Rightarrow> u64"
  pcr :: u64
  insn_count :: u64
  reservation :: "u64 option"
  syscall_log :: "nat \<Rightarrow> u64 \<times> u64"
  syscall_log_pos :: nat
  freg :: "nat \<Rightarrow> u64"
  fcsr :: u32
  vector :: vector_state
  sys :: "sys_csrs option"
  host_sbi :: bool
  exc_counts :: "nat \<Rightarrow> u64"
  irq_counts :: "nat \<Rightarrow> u64"
  last_timer_trap :: "u64 list"
  jit_flush_gen :: u64
  irq_poll_cd :: u32
  map_gen :: u64
  tlb_flushes :: u64
  store_jtlb_clears :: u64
  sfence_all :: u64
  sfence_page :: u64
  sfence_foreign_asid :: u64
  tlb_tag :: "access \<Rightarrow> nat \<Rightarrow> u64"
  tlb_diff :: "access \<Rightarrow> nat \<Rightarrow> u64"
  jit_tlb_context :: u64
  jtlb_tag :: "bool \<Rightarrow> nat \<Rightarrow> u64"
  jtlb_off :: "bool \<Rightarrow> nat \<Rightarrow> i64"
  jtlb_hashed :: bool
  interpreter_fused_memory :: bool
  retain_tlb_on_privilege_change :: bool
  interpreter_fetch_tag :: u64
  interpreter_fetch_map_gen :: u64
  interpreter_fetch_pa_diff :: u64
  interpreter_fetch_linear_off :: i64

definition cpu_new :: cpu where
  "cpu_new = \<lparr> xreg = (\<lambda>_. 0), pcr = 0, insn_count = 0, reservation = None,
     syscall_log = (\<lambda>_. (NOT 0, 0)), syscall_log_pos = 0, freg = (\<lambda>_. 0), fcsr = 0,
     vector = vector_default, sys = None, host_sbi = False, exc_counts = (\<lambda>_. 0),
     irq_counts = (\<lambda>_. 0), last_timer_trap = replicate 13 0, jit_flush_gen = 0,
     irq_poll_cd = 0, map_gen = 0, tlb_flushes = 0, store_jtlb_clears = 0, sfence_all = 0,
     sfence_page = 0, sfence_foreign_asid = 0, tlb_tag = (\<lambda>_ _. TLB_INVALID),
     tlb_diff = (\<lambda>_ _. 0), jit_tlb_context = 0, jtlb_tag = (\<lambda>_ _. TLB_INVALID),
     jtlb_off = (\<lambda>_ _. 0), jtlb_hashed = False, interpreter_fused_memory = False,
     retain_tlb_on_privilege_change = True, interpreter_fetch_tag = TLB_INVALID,
     interpreter_fetch_map_gen = 0, interpreter_fetch_pa_diff = 0,
     interpreter_fetch_linear_off = 0 \<rparr>"

definition enable_system :: "u64 \<Rightarrow> cpu \<Rightarrow> cpu" where
  "enable_system hartid c = c\<lparr>sys := Some (sys_new\<lparr>mhartid := hartid\<rparr>),
     interpreter_fetch_tag := TLB_INVALID\<rparr>"

definition enable_host_sbi :: "cpu \<Rightarrow> cpu" where
  "enable_host_sbi c = c\<lparr>host_sbi := True\<rparr>"

section \<open>The interpreter's monad\<close>

text \<open>A method of \<open>Cpu\<close> with a bus argument acts on the pair of the hart and the bus.\<close>

type_synonym ('b, 'a) cpum = "(cpu \<times> 'b, exn, 'a) res"

definition getc :: "(cpu \<Rightarrow> 'a) \<Rightarrow> ('b, 'a) cpum" where
  "getc f = mget (\<lambda>s. f (fst s))"

definition modc :: "(cpu \<Rightarrow> cpu) \<Rightarrow> ('b, unit) cpum" where
  "modc f = mmod (\<lambda>(c, b). (f c, b))"

definition getb :: "('b \<Rightarrow> 'a) \<Rightarrow> ('b, 'a) cpum" where
  "getb f = mget (\<lambda>s. f (snd s))"

definition busm :: "('b, exn, 'a) res \<Rightarrow> ('b, 'a) cpum" where
  "busm m = (\<lambda>(c, b). case m b of (r, b') \<Rightarrow> (r, (c, b')))"

text \<open>\<open>return Err(Exception::IllegalInstruction { insn })\<close>.\<close>

definition illegal :: "u32 \<Rightarrow> ('b, 'a) cpum" where
  "illegal insn = throw (IllegalInstruction insn)"

lemma keeps_illegal [keeps_intros]: "keeps I (illegal insn)"
  by (simp add: illegal_def keeps_throw)

section \<open>Translation caches\<close>

definition flush_tlb :: "cpu \<Rightarrow> cpu" where
  "flush_tlb c = c\<lparr>tlb_flushes := tlb_flushes c + 1,
     tlb_tag := (\<lambda>_ _. TLB_INVALID), jtlb_tag := (\<lambda>_ _. TLB_INVALID),
     interpreter_fetch_tag := TLB_INVALID\<rparr>"

definition clear_store_jtlb :: "cpu \<Rightarrow> cpu" where
  "clear_store_jtlb c = c\<lparr>store_jtlb_clears := store_jtlb_clears c + 1,
     jtlb_tag := (jtlb_tag c)(True := (\<lambda>_. TLB_INVALID))\<rparr>"

definition tlb_index :: "u64 \<Rightarrow> nat" where
  "tlb_index va = unat (drop_bit 12 va AND (of_nat TLB_SIZE - 1))"

definition jit_tlb_hash_index :: "u64 \<Rightarrow> nat" where
  "jit_tlb_hash_index va =
     (let page = drop_bit 12 va in
      unat ((page XOR drop_bit TLB_BITS page) AND (of_nat TLB_SIZE - 1)))"

definition jit_tlb_index :: "cpu \<Rightarrow> u64 \<Rightarrow> nat" where
  "jit_tlb_index c va = (if jtlb_hashed c then jit_tlb_hash_index va else tlb_index va)"

text \<open>The loops of \<open>sfence_vma\<close> over the rows of a cache: one slot of each row.\<close>

definition evict_page :: "u64 \<Rightarrow> nat \<Rightarrow> (nat \<Rightarrow> u64) \<Rightarrow> (nat \<Rightarrow> u64)" where
  "evict_page page idx tags =
     (if tags idx AND TLB_PAGE_MASK = page then tags(idx := TLB_INVALID) else tags)"

definition sfence_vma :: "u64 option \<Rightarrow> u16 option \<Rightarrow> cpu \<Rightarrow> cpu" where
  "sfence_vma va' asid c =
     (let current_asid = (case sys c of None \<Rightarrow> 0
        | Some s \<Rightarrow> (ucast (drop_bit 44 (satp s) AND 0xffff) :: u16)) in
      if (case asid of None \<Rightarrow> False | Some target \<Rightarrow> target \<noteq> current_asid)
      then c\<lparr>sfence_foreign_asid := sfence_foreign_asid c + 1\<rparr>
      else
        let c = c\<lparr>map_gen := map_gen c + 1\<rparr> in
        case va' of
          None \<Rightarrow> flush_tlb (c\<lparr>sfence_all := sfence_all c + 1\<rparr>)
        | Some va \<Rightarrow>
            let c = c\<lparr>sfence_page := sfence_page c + 1\<rparr>;
                page = va AND TLB_PAGE_MASK;
                c = c\<lparr>tlb_tag := (\<lambda>a. evict_page page (tlb_index va) (tlb_tag c a))\<rparr>;
                jit_index = jit_tlb_index c va in
            c\<lparr>jtlb_tag := (\<lambda>st. evict_page page jit_index (jtlb_tag c st))\<rparr>)"

definition set_jit_tlb_hash :: "bool \<Rightarrow> cpu \<Rightarrow> cpu" where
  "set_jit_tlb_hash hashed c =
     (if jtlb_hashed c \<noteq> hashed
      then c\<lparr>jtlb_hashed := hashed, jtlb_tag := (\<lambda>_ _. TLB_INVALID)\<rparr> else c)"

definition set_interpreter_fused_memory :: "bool \<Rightarrow> cpu \<Rightarrow> cpu" where
  "set_interpreter_fused_memory enabled c = c\<lparr>interpreter_fused_memory := enabled\<rparr>"

definition set_privilege_tlb_retention :: "bool \<Rightarrow> cpu \<Rightarrow> cpu" where
  "set_privilege_tlb_retention retain c =
     (if retain_tlb_on_privilege_change c \<noteq> retain
      then flush_tlb (c\<lparr>retain_tlb_on_privilege_change := retain\<rparr>) else c)"

definition jtlb_entry :: "cpu \<Rightarrow> bool \<Rightarrow> nat \<Rightarrow> u64 \<times> i64" where
  "jtlb_entry c store index = (jtlb_tag c store index, jtlb_off c store index)"

definition publish_jtlb :: "bool \<Rightarrow> nat \<Rightarrow> u64 \<Rightarrow> i64 \<Rightarrow> cpu \<Rightarrow> cpu" where
  "publish_jtlb store index tag offset c =
     c\<lparr>jtlb_tag := (jtlb_tag c)(store := (jtlb_tag c store)(index := tag)),
       jtlb_off := (jtlb_off c)(store := (jtlb_off c store)(index := offset))\<rparr>"

section \<open>Permission contexts\<close>

text \<open>\<open>eff_mode\<close> unwraps \<open>sys\<close>: it is called only where \<open>sys\<close> is present.\<close>

definition eff_mode :: "sys_csrs \<Rightarrow> access \<Rightarrow> priv" where
  "eff_mode s access =
     (if access \<noteq> Fetch \<and> mstatus s AND MSTATUS_MPRV \<noteq> 0
      then mode_from_bits (drop_bit 11 (mstatus s AND MSTATUS_MPP)) else mode s)"

definition translation_context :: "cpu \<Rightarrow> access \<Rightarrow> u64" where
  "translation_context c access = (case sys c of None \<Rightarrow> 0
     | Some s \<Rightarrow>
        let context = priv_bits (eff_mode s access);
            context = (if access \<noteq> Fetch \<and> mstatus s AND MSTATUS_SUM \<noteq> 0
              then context OR TLB_CTX_SUM else context) in
        if access = Load \<and> mstatus s AND MSTATUS_MXR \<noteq> 0
        then context OR TLB_CTX_MXR else context)"

definition data_tlb_context :: "cpu \<Rightarrow> u64" where
  "data_tlb_context c = (case sys c of None \<Rightarrow> 0
     | Some s \<Rightarrow>
        let context = priv_bits (eff_mode s Load);
            context = (if mstatus s AND MSTATUS_SUM \<noteq> 0
              then context OR TLB_CTX_SUM else context) in
        if mstatus s AND MSTATUS_MXR \<noteq> 0
        then context OR TLB_CTX_MXR else context)"

definition translation_tag :: "cpu \<Rightarrow> u64 \<Rightarrow> access \<Rightarrow> u64" where
  "translation_tag c va access = (va AND TLB_PAGE_MASK) OR translation_context c access"

definition sync_jit_tlb_context :: "cpu \<Rightarrow> cpu" where
  "sync_jit_tlb_context c = c\<lparr>jit_tlb_context := data_tlb_context c\<rparr>"

definition privilege_changed :: "cpu \<Rightarrow> cpu" where
  "privilege_changed c = sync_jit_tlb_context
     (if \<not> retain_tlb_on_privilege_change c then flush_tlb c else c)"

definition jit_probe_tlb :: "cpu \<Rightarrow> u64 \<Rightarrow> bool \<Rightarrow> i64 option" where
  "jit_probe_tlb c va store =
     (let idx = jit_tlb_index c va;
          expected = (va AND TLB_PAGE_MASK) OR data_tlb_context c;
          (tag, offset) = jtlb_entry c store idx in
      if tag = expected then Some offset else None)"

definition jit_tlb_miss_kind :: "cpu \<Rightarrow> u64 \<Rightarrow> bool \<Rightarrow> u8" where
  "jit_tlb_miss_kind c va store =
     (let (tag, _) = jtlb_entry c store (jit_tlb_index c va);
          expected = (va AND TLB_PAGE_MASK) OR data_tlb_context c in
      if tag = expected then 0
      else if tag = TLB_INVALID then 1
      else if tag AND TLB_PAGE_MASK = va AND TLB_PAGE_MASK then 2
      else 3)"

section \<open>Registers and FP state\<close>

definition wr :: "nat \<Rightarrow> u64 \<Rightarrow> cpu \<Rightarrow> cpu" where
  "wr r val c = (if r \<noteq> 0 then c\<lparr>xreg := (xreg c)(r := val)\<rparr> else c)"

definition set_x :: "nat \<Rightarrow> u64 \<Rightarrow> cpu \<Rightarrow> cpu" where
  "set_x r val c = c\<lparr>xreg := (xreg c)(r := val)\<rparr>"

definition set_f :: "nat \<Rightarrow> u64 \<Rightarrow> cpu \<Rightarrow> cpu" where
  "set_f r val c = c\<lparr>freg := (freg c)(r := val)\<rparr>"

definition fp_check :: "u32 \<Rightarrow> ('b, unit) cpum" where
  "fp_check insn = mbind (getc sys) (\<lambda>s.
     case s of None \<Rightarrow> mret ()
     | Some s \<Rightarrow> if mstatus s AND MSTATUS_FS = 0 then throw (IllegalInstruction insn) else mret ())"

definition fp_dirty :: "cpu \<Rightarrow> cpu" where
  "fp_dirty c = (case sys c of None \<Rightarrow> c
     | Some s \<Rightarrow> c\<lparr>sys := Some (s\<lparr>mstatus := mstatus s OR MSTATUS_FS\<rparr>)\<rparr>)"

definition box32 :: "u32 \<Rightarrow> u64" where
  "box32 v = 0xffffffff00000000 OR ucast v"

section \<open>Facts about the monad\<close>

lemmas cpum_defs = getc_def modc_def getb_def busm_def

lemma getc_run [simp]: "getc f s = (Inr (f (fst s)), s)"
  by (simp add: getc_def)

lemma modc_run [simp]: "modc f s = (Inr (), (f (fst s), snd s))"
  by (simp add: modc_def split: prod.splits)

lemma getb_run [simp]: "getb f s = (Inr (f (snd s)), s)"
  by (simp add: getb_def)

lemma busm_run: "busm m (c, b) = (fst (m b), (c, snd (m b)))"
  by (simp add: busm_def split: prod.splits)

lemma bind_getc [simp]: "mbind (getc f) g s = g (f (fst s)) s"
  by (simp add: mbind_def)

lemma bind_getb [simp]: "mbind (getb f) g s = g (f (snd s)) s"
  by (simp add: mbind_def)

lemma bind_modc [simp]: "mbind (modc f) g s = g () (f (fst s), snd s)"
  by (simp add: mbind_def)

lemma keeps_getc [keeps_intros]: "keeps I (getc f)"
  by (simp add: getc_def keeps_mget)

lemma keeps_getb [keeps_intros]: "keeps I (getb f)"
  by (simp add: getb_def keeps_mget)

lemma keeps_at_getc [simp]: "keeps_at I (mbind (getc f) g) s = keeps_at I (g (f (fst s))) s"
  by (simp add: keeps_at_def)

lemma keeps_at_getb [simp]: "keeps_at I (mbind (getb f) g) s = keeps_at I (g (f (snd s))) s"
  by (simp add: keeps_at_def)

lemma keeps_at_modc [simp]:
  "keeps_at I (mbind (modc f) g) s = keeps_at I (g ()) (f (fst s), snd s)"
  "keeps_at I (modc f) s = I (f (fst s), snd s)"
  by (simp_all add: keeps_at_def)

lemma keeps_modc:
  "(\<And>c b. I (c, b) \<Longrightarrow> I (f c, b)) \<Longrightarrow> keeps I (modc f)"
  unfolding modc_def by (rule keeps_mmod) auto

lemma keeps_busm:
  assumes "\<And>c. keeps (\<lambda>b. I (c, b)) m"
  shows "keeps I (busm m)"
  unfolding keeps_def
proof (rule hoareI)
  fix s assume "I s"
  obtain c b where s: "s = (c, b)" by (cases s)
  with \<open>I s\<close> assms [of c] show "case busm m s of (Inr a, t) \<Rightarrow> I t
      | (Inl (Throw e), t) \<Rightarrow> I t | (Inl Panic, t) \<Rightarrow> False"
    unfolding keeps_def hoare_def busm_def
    by (auto split: prod.splits sum.splits abort.splits dest!: spec [of _ b])
qed

end
