(* ===== verification/Vector.thy ===== *)
theory Vector
  imports CpuState
begin

text \<open>
  The state of the vector unit, \<open>crates/rv64-core/src/cpu/vector.rs\<close>: decoding of \<open>vtype\<close>, the
  installation of a configuration, the \<open>vset*\<close> instructions and the \<open>mstatus.VS\<close> gate, the flat
  register file with its element accessors, register groups with their alignment and overlap
  rules, and the loop every element-wise instruction shares.
\<close>

section \<open>Configurations\<close>

definition VLEN_BITS :: nat where "VLEN_BITS = 128"
definition VLEN_BYTES :: nat where "VLEN_BYTES = 16"

record vector_config =
  sew :: nat
  lmul_num :: nat
  lmul_den :: nat
  lmul_exp :: int
  vlmax :: nat

definition config_decode :: "u64 \<Rightarrow> vector_config option" where
  "config_decode raw =
     (if raw AND VILL \<noteq> 0 \<or> drop_bit 8 raw \<noteq> 0 then None
      else
        let l = raw AND 7 in
        case (if l = 0 then Some 0 else if l = 1 then Some 1 else if l = 2 then Some 2
              else if l = 3 then Some 3 else if l = 5 then Some (-3) else if l = 6 then Some (-2)
              else if l = 7 then Some (-1) else None) of
          None \<Rightarrow> None
        | Some (e :: int) \<Rightarrow>
            let vsew = unat (drop_bit 3 raw AND 7) in
            if vsew > 3 then None
            else
              let sew_log = 3 + int vsew in
              if sew_log > 6 + e then None
              else
                let vlmax_log = 7 + e - sew_log in
                if vlmax_log < 0 then None
                else Some \<lparr> sew = 2 ^ nat sew_log,
                  lmul_num = (if e \<ge> 0 then 2 ^ nat e else 1),
                  lmul_den = (if e \<ge> 0 then 1 else 2 ^ nat (- e)),
                  lmul_exp = e, vlmax = 2 ^ nat vlmax_log \<rparr>)"

definition vs_config :: "vector_state \<Rightarrow> vector_config option" where
  "vs_config v = config_decode (vs_vtype v)"

definition install_config :: "u64 \<Rightarrow> nat \<Rightarrow> bool \<Rightarrow> u64 \<Rightarrow> bool \<Rightarrow> vector_state \<Rightarrow> u64 \<times> vector_state" where
  "install_config raw_type d rs1_is_zero avl immediate_avl v =
     (let old_vlmax = map_option vlmax (vs_config v);
          new_config = config_decode raw_type;
          retain_vl = (\<not> immediate_avl \<and> d = 0 \<and> rs1_is_zero);
          legal = (case new_config of None \<Rightarrow> None
            | Some n \<Rightarrow> if \<not> retain_vl \<or> old_vlmax = Some (vlmax n) then Some n else None);
          v = (case legal of
              Some config \<Rightarrow>
                v\<lparr>vs_vtype := raw_type AND 0xff,
                  vs_vl := (if immediate_avl then min avl (of_nat (vlmax config))
                    else if retain_vl then vs_vl v
                    else if rs1_is_zero then of_nat (vlmax config)
                    else min avl (of_nat (vlmax config)))\<rparr>
            | None \<Rightarrow> v\<lparr>vs_vtype := VILL, vs_vl := 0\<rparr>);
          v = v\<lparr>vs_vstart := 0\<rparr> in
      (vs_vl v, v))"

section \<open>The gate and the \<open>vset*\<close> instructions\<close>

definition unit_stride_memory_encoding :: "u32 \<Rightarrow> bool" where
  "unit_stride_memory_encoding insn \<longleftrightarrow>
     insn AND (push_bit 29 7 OR push_bit 28 1 OR push_bit 26 3 OR push_bit 25 1 OR push_bit 20 0x1f)
       = push_bit 25 1"

definition vector_enabled :: "cpu \<Rightarrow> bool" where
  "vector_enabled c \<longleftrightarrow> (case sys c of None \<Rightarrow> True | Some s \<Rightarrow> mstatus s AND MSTATUS_VS \<noteq> 0)"

definition vector_check :: "u32 \<Rightarrow> ('b, unit) cpum" where
  "vector_check insn = mbind (getc vector_enabled) (\<lambda>en.
     if en then mret () else throw (IllegalInstruction insn))"

definition vector_dirty :: "cpu \<Rightarrow> cpu" where
  "vector_dirty c = (case sys c of None \<Rightarrow> c
     | Some s \<Rightarrow> c\<lparr>sys := Some (s\<lparr>mstatus := mstatus s OR MSTATUS_VS\<rparr>)\<rparr>)"

definition exec_vector_config :: "u32 \<Rightarrow> ('b, unit) cpum" where
  "exec_vector_config insn =
     mbind (vector_check insn) (\<lambda>_.
     if funct3 insn \<noteq> 7 then throw (IllegalInstruction insn)
     else mbind (getc id) (\<lambda>c.
       let d = rd insn; s1 = rs1 insn in
       case (if drop_bit 30 insn = 3
               then Some (ucast (drop_bit 20 insn AND 0x3ff), of_nat s1, True, False)
             else if drop_bit 31 insn = 0
               then Some (ucast (drop_bit 20 insn AND 0x7ff), xreg c s1, False, s1 = 0)
             else if drop_bit 25 insn AND 0x3f = 0
               then Some (xreg c (rs2 insn), xreg c s1, False, s1 = 0)
             else None) of
         None \<Rightarrow> throw (IllegalInstruction insn)
       | Some (raw_type, avl, immediate_avl, rs1_is_zero) \<Rightarrow>
           modc (\<lambda>c. let (new_vl, v) = install_config raw_type d rs1_is_zero avl immediate_avl
                         (vector c) in
                     wr d new_vl (vector_dirty (c\<lparr>vector := v\<rparr>)))))"

section \<open>The register file\<close>

text \<open>
  The accessors of \<open>VectorState\<close>. \<open>read_element\<close> and \<open>write_element\<close> go through a raw pointer to
  the first byte of \<open>regs\<close>: an access that is not inside the 512 bytes of the register file
  is undefined behaviour there (a failed \<open>debug_assert!\<close> in a debug build). It has no value
  here, like an index out of range, and the caller panics.
\<close>

definition VREG_COUNT :: nat where "VREG_COUNT = 32"

definition flat_byte :: "vector_state \<Rightarrow> nat \<Rightarrow> u8" where
  "flat_byte v k = vs_regs v (k div VLEN_BYTES) (k mod VLEN_BYTES)"

definition put_bytes :: "nat \<Rightarrow> u8 list \<Rightarrow> vector_state \<Rightarrow> vector_state" where
  "put_bytes offset bs v = v\<lparr>vs_regs := (\<lambda>r k.
     let j = r * VLEN_BYTES + k in
     if k < VLEN_BYTES \<and> offset \<le> j \<and> j < offset + length bs then bs ! (j - offset)
     else vs_regs v r k)\<rparr>"

definition get_bytes :: "nat \<Rightarrow> nat \<Rightarrow> vector_state \<Rightarrow> u8 list" where
  "get_bytes offset n v = map (\<lambda>k. flat_byte v (offset + k)) [0..<n]"

definition eew_ok :: "nat \<Rightarrow> bool" where
  "eew_ok eew \<longleftrightarrow> eew = 8 \<or> eew = 16 \<or> eew = 32 \<or> eew = 64"

definition mask_bit :: "nat \<Rightarrow> vector_state \<Rightarrow> bool option" where
  "mask_bit index v = (if index div 8 < VLEN_BYTES
     then Some (bit (vs_regs v 0 (index div 8)) (index mod 8)) else None)"

definition set_flat_byte :: "nat \<Rightarrow> u8 \<Rightarrow> vector_state \<Rightarrow> vector_state option" where
  "set_flat_byte offset val v = (if offset div VLEN_BYTES < VREG_COUNT
     then Some (put_bytes offset [val] v) else None)"

definition read_element :: "nat \<Rightarrow> nat \<Rightarrow> nat \<Rightarrow> vector_state \<Rightarrow> u64 option" where
  "read_element reg index eew v =
     (let bytes = eew div 8; offset = reg * VLEN_BYTES + index * bytes in
      if eew_ok eew \<and> offset + bytes \<le> VREG_COUNT * VLEN_BYTES
      then Some (from_le_bytes (get_bytes offset bytes v)) else None)"

definition write_element :: "nat \<Rightarrow> nat \<Rightarrow> nat \<Rightarrow> u64 \<Rightarrow> vector_state \<Rightarrow> vector_state option" where
  "write_element reg index eew val v =
     (let bytes = eew div 8; offset = reg * VLEN_BYTES + index * bytes in
      if eew_ok eew \<and> offset + bytes \<le> VREG_COUNT * VLEN_BYTES
      then Some (put_bytes offset (to_le_bytes bytes val) v) else None)"

definition read_single_register_element :: "u8 list \<Rightarrow> nat \<Rightarrow> nat \<Rightarrow> u64 option" where
  "read_single_register_element bytes index eew =
     (let width = eew div 8; offset = index * width in
      if eew_ok eew \<and> offset + width \<le> length bytes
      then Some (from_le_bytes (take width (drop offset bytes))) else None)"

text \<open>
  \<open>regs[reg]\<close> as a whole, bit \<open>index\<close> of \<open>regs[reg]\<close> (\<open>regs[reg][index >> 3] & (1 << (index & 7))
  != 0\<close>), \<open>regs[reg][from..to].copy_from_slice(bs)\<close> and \<open>bs[from..to]\<close>.
\<close>

definition register_bytes :: "nat \<Rightarrow> vector_state \<Rightarrow> u8 list" where
  "register_bytes reg v = map (vs_regs v reg) [0..<VLEN_BYTES]"

definition register_bit :: "nat \<Rightarrow> nat \<Rightarrow> vector_state \<Rightarrow> bool option" where
  "register_bit reg index v = (if reg < VREG_COUNT \<and> index div 8 < VLEN_BYTES
     then Some (bit (vs_regs v reg (index div 8)) (index mod 8)) else None)"

definition copy_to_register :: "nat \<Rightarrow> nat \<Rightarrow> nat \<Rightarrow> u8 list \<Rightarrow> vector_state \<Rightarrow> vector_state option" where
  "copy_to_register reg i j bs v =
     (if reg < VREG_COUNT \<and> i \<le> j \<and> j \<le> VLEN_BYTES \<and> j - i = length bs
      then Some (put_bytes (reg * VLEN_BYTES + i) bs v) else None)"

definition byte_range :: "u8 list \<Rightarrow> nat \<Rightarrow> nat \<Rightarrow> u8 list option" where
  "byte_range bs i j = (if i \<le> j \<and> j \<le> length bs then Some (take (j - i) (drop i bs)) else None)"

definition set_register_bit :: "nat \<Rightarrow> nat \<Rightarrow> bool \<Rightarrow> vector_state \<Rightarrow> vector_state option" where
  "set_register_bit reg index val v =
     (if reg < VREG_COUNT \<and> index div 8 < VLEN_BYTES
      then let byte = vs_regs v reg (index div 8); b = push_bit (index mod 8) 1 in
        Some (put_bytes (reg * VLEN_BYTES + index div 8) [if val then byte OR b else byte AND NOT b] v)
      else None)"

section \<open>Register groups\<close>

record group_ratio =
  gr_num :: nat
  gr_den :: nat

definition MASK_REGISTER_RATIO :: group_ratio where
  "MASK_REGISTER_RATIO = \<lparr>gr_num = 1, gr_den = 1\<rparr>"

definition register_span :: "group_ratio \<Rightarrow> nat" where
  "register_span r = (if gr_num r < gr_den r then 1 else gr_num r div gr_den r)"

definition lmul :: "vector_config \<Rightarrow> group_ratio" where
  "lmul config = \<lparr>gr_num = lmul_num config, gr_den = lmul_den config\<rparr>"

text \<open>
  The common exponent of \<open>emul\<close> and \<open>emul_register_span\<close>. A decoded configuration has one of
  the four element widths, so the \<open>unreachable!\<close> arm of the match on \<open>self.sew\<close> has no case.
\<close>

definition width_log :: "nat \<Rightarrow> int option" where
  "width_log w = (if w = 8 then Some 3 else if w = 16 then Some 4 else if w = 32 then Some 5
     else if w = 64 then Some 6 else None)"

definition emul_exponent :: "vector_config \<Rightarrow> nat \<Rightarrow> int option" where
  "emul_exponent config eew =
     (case width_log eew of None \<Rightarrow> None
      | Some eew_log \<Rightarrow> (case width_log (sew config) of None \<Rightarrow> None
        | Some sew_log \<Rightarrow>
            let exponent = lmul_exp config + eew_log - sew_log in
            if -3 \<le> exponent \<and> exponent \<le> 3 then Some exponent else None))"

definition emul :: "vector_config \<Rightarrow> nat \<Rightarrow> group_ratio option" where
  "emul config eew = map_option (\<lambda>exponent.
     if exponent \<ge> 0 then \<lparr>gr_num = 2 ^ nat exponent, gr_den = 1\<rparr>
     else \<lparr>gr_num = 1, gr_den = 2 ^ nat (- exponent)\<rparr>) (emul_exponent config eew)"

definition emul_register_span :: "vector_config \<Rightarrow> nat \<Rightarrow> nat option" where
  "emul_register_span config eew = map_option (\<lambda>exponent.
     if exponent > 0 then 2 ^ nat exponent else 1) (emul_exponent config eew)"

definition validate_group :: "nat \<Rightarrow> group_ratio \<Rightarrow> nat \<Rightarrow> bool" where
  "validate_group base ratio nf \<longleftrightarrow>
     (let span = register_span ratio in
      nf \<noteq> 0 \<and> nf * gr_num ratio \<le> 8 * gr_den ratio \<and> (span = 1 \<or> base mod span = 0)
      \<and> base + span * nf \<le> VREG_COUNT)"

definition groups_overlap :: "nat \<Rightarrow> group_ratio \<Rightarrow> nat \<Rightarrow> nat \<Rightarrow> group_ratio \<Rightarrow> bool" where
  "groups_overlap a ar an b br \<longleftrightarrow>
     (let a_end = a + register_span ar * an; b_end = b + register_span br in a < b_end \<and> b < a_end)"

definition destination_source_overlap_legal ::
    "nat \<Rightarrow> group_ratio \<Rightarrow> nat \<Rightarrow> nat \<Rightarrow> group_ratio \<Rightarrow> nat \<Rightarrow> bool" where
  "destination_source_overlap_legal destination destination_ratio destination_eew source source_ratio
       source_eew =
     (if \<not> groups_overlap destination destination_ratio 1 source source_ratio then True
      else if destination_eew = source_eew then True
      else if destination_eew < source_eew then destination = source
      else gr_den source_ratio \<le> gr_num source_ratio \<and>
        destination + register_span destination_ratio = source + register_span source_ratio)"

definition mixed_width_sources_overlap ::
    "nat \<Rightarrow> group_ratio \<Rightarrow> nat \<Rightarrow> nat \<Rightarrow> group_ratio \<Rightarrow> nat \<Rightarrow> bool" where
  "mixed_width_sources_overlap first first_ratio first_eew second second_ratio second_eew \<longleftrightarrow>
     first_eew \<noteq> second_eew \<and> groups_overlap first first_ratio 1 second second_ratio"

section \<open>Elements\<close>

text \<open>
  Every \<open>i128\<close> of the file holds a sum, difference or product of two 64-bit values, shifted
  or clamped: it is its value as an \<open>int\<close>, and \<open>as u64\<close> is \<^term>\<open>word_of_int :: int \<Rightarrow> u64\<close>.
\<close>

definition element_mask :: "nat \<Rightarrow> u64" where
  "element_mask bits = (if bits = 64 then NOT 0 else push_bit bits 1 - 1)"

definition signed_element :: "u64 \<Rightarrow> nat \<Rightarrow> i64" where
  "signed_element val bits = (if bits = 64 then val
     else signed_drop_bit (64 - bits) (push_bit (64 - bits) val))"

definition simm5 :: "nat \<Rightarrow> u64" where
  "simm5 field = scast (signed_drop_bit 27 (push_bit 27 (of_nat field :: u32)))"

definition signed_narrow :: "u64 \<Rightarrow> nat \<Rightarrow> int" where
  "signed_narrow val bits = sint (signed_element val bits)"

definition fixed_round_increment :: "u128 \<Rightarrow> nat \<Rightarrow> u8 \<Rightarrow> u128" where
  "fixed_round_increment val shift vxrm =
     (if shift = 0 then 0
      else
        let retained_lsb = drop_bit shift val AND 1;
            highest_discarded = drop_bit (shift - 1) val AND 1;
            discarded_mask = push_bit shift 1 - 1;
            discarded = val AND discarded_mask in
        if vxrm AND 3 = 0 then highest_discarded
        else if vxrm AND 3 = 1 then
          highest_discarded AND (of_flag (discarded AND drop_bit 1 discarded_mask \<noteq> 0) OR retained_lsb)
        else if vxrm AND 3 = 2 then 0
        else of_flag (retained_lsb = 0 \<and> discarded \<noteq> 0))"

definition fixed_round_unsigned :: "u128 \<Rightarrow> nat \<Rightarrow> u8 \<Rightarrow> u128" where
  "fixed_round_unsigned val shift vxrm = drop_bit shift val + fixed_round_increment val shift vxrm"

definition fixed_round_signed :: "int \<Rightarrow> nat \<Rightarrow> u8 \<Rightarrow> int" where
  "fixed_round_signed val shift vxrm =
     drop_bit shift val + uint (fixed_round_increment (word_of_int val) shift vxrm)"

definition clamp :: "int \<Rightarrow> int \<Rightarrow> int \<Rightarrow> int" where
  "clamp lo hi x = (if x < lo then lo else if x > hi then hi else x)"

definition vector_width :: "u32 \<Rightarrow> nat option" where
  "vector_width f3 = (if f3 = 0 then Some 8 else if f3 = 5 then Some 16 else if f3 = 6 then Some 32
     else if f3 = 7 then Some 64 else None)"

section \<open>Element loops\<close>

definition vget :: "(vector_state \<Rightarrow> 'a option) \<Rightarrow> ('b, 'a) cpum" where
  "vget f = mbind (getc (\<lambda>c. f (vector c))) unwrap"

definition vmod :: "(vector_state \<Rightarrow> vector_state option) \<Rightarrow> ('b, unit) cpum" where
  "vmod f = mbind (vget f) (\<lambda>v. modc (\<lambda>c. c\<lparr>vector := v\<rparr>))"

definition set_vstart :: "u64 \<Rightarrow> ('b, unit) cpum" where
  "set_vstart i = modc (\<lambda>c. c\<lparr>vector := (vector c)\<lparr>vs_vstart := i\<rparr>\<rparr>)"

text \<open>\<open>(insn >> 25) & 1 != 0\<close>, \<open>self.vector.vstart as usize\<close>, \<open>self.vector.vl.min(config.vlmax as u64) as usize\<close>.\<close>

definition vm_bit :: "u32 \<Rightarrow> bool" where
  "vm_bit insn \<longleftrightarrow> drop_bit 25 insn AND 1 \<noteq> 0"

definition vstart_of :: "cpu \<Rightarrow> nat" where
  "vstart_of c = unat (vs_vstart (vector c))"

definition vl_of :: "vector_config \<Rightarrow> cpu \<Rightarrow> nat" where
  "vl_of config c = unat (min (vs_vl (vector c)) (of_nat (vlmax config)))"

text \<open>\<open>for index in start..vl { if masked && !self.vector.mask_bit(index) { continue; } .. }\<close>.\<close>

definition elements :: "bool \<Rightarrow> nat \<Rightarrow> nat \<Rightarrow> 'a \<Rightarrow> (nat \<Rightarrow> 'a \<Rightarrow> ('b, 'a) cpum) \<Rightarrow> ('b, 'a) cpum" where
  "elements masked start vl acc body = for_in [start..<vl] acc (\<lambda>index acc.
     if masked then mbind (vget (mask_bit index)) (\<lambda>m. if m then body index acc else mret acc)
     else body index acc)"

text \<open>The shape most instructions share: read \<open>vstart\<close> and \<open>vl\<close>, mark VS dirty, loop, clear \<open>vstart\<close>.\<close>

definition vector_loop :: "bool \<Rightarrow> vector_config \<Rightarrow> 'a \<Rightarrow> (nat \<Rightarrow> 'a \<Rightarrow> ('b, 'a) cpum) \<Rightarrow> ('b, 'a) cpum" where
  "vector_loop masked config acc body =
     mbind (getc (\<lambda>c. (vstart_of c, vl_of config c))) (\<lambda>(start, vl).
     mbind (modc vector_dirty) (\<lambda>_.
     mbind (elements masked start vl acc body) (\<lambda>acc.
     mbind (set_vstart 0) (\<lambda>_. mret acc))))"

text \<open>\<open>masked && mixed_width_sources_overlap(reg, ratio, eew, 0, MASK_REGISTER_RATIO, 1)\<close> and the like.\<close>

definition mask_source_overlap :: "nat \<Rightarrow> group_ratio \<Rightarrow> nat \<Rightarrow> bool" where
  "mask_source_overlap reg ratio eew \<longleftrightarrow> mixed_width_sources_overlap reg ratio eew 0 MASK_REGISTER_RATIO 1"

definition mask_overlap :: "nat \<Rightarrow> group_ratio \<Rightarrow> bool" where
  "mask_overlap reg ratio \<longleftrightarrow> groups_overlap reg ratio 1 0 MASK_REGISTER_RATIO"

end
