(* ===== verification/Mmu.thy ===== *)
theory Mmu
  imports CpuState
begin

text \<open>
  Address translation and memory access of \<open>crates/rv64-core/src/cpu.rs\<close>: the Sv39/Sv48
  page-table walk with its A/D update and TLB fill (\<open>translate_slow\<close>), the TLB-hit path
  (\<open>translate\<close>), the fused rows the JIT and the interpreter probe, and the loads and
  stores of 1, 2, 4 and 8 bytes with their page-crossing and direct-memory paths.
\<close>

section \<open>Translation\<close>

fun fault :: "access \<Rightarrow> u64 \<Rightarrow> exn" where
  "fault Fetch addr = InstructionPageFault addr"
| "fault Load addr = LoadPageFault addr"
| "fault Store addr = StorePageFault addr"

text \<open>
  One iteration of the loop of \<open>translate_slow\<close>, on the bus only: \<open>next\<close> is the next
  iteration, which gets the address of the next table.
\<close>

definition walk_level :: "'b bus_ops \<Rightarrow> access \<Rightarrow> u64 \<Rightarrow> priv \<Rightarrow> bool \<Rightarrow> bool \<Rightarrow> nat \<Rightarrow>
    (u64 \<Rightarrow> ('b, exn, u64) res) \<Rightarrow> u64 \<Rightarrow> ('b, exn, u64) res" where
  "walk_level B access va md sm mx level next table =
     (let vpn = drop_bit (12 + 9 * level) va AND 0x1ff;
          pte_addr = table + vpn * 8 in
      mbind (map_err (\<lambda>_. fault access va) (read64 B pte_addr)) (\<lambda>pte.
      let v = pte AND 1; r = drop_bit 1 pte AND 1; w = drop_bit 2 pte AND 1;
          x = drop_bit 3 pte AND 1 in
      if v = 0 \<or> (r = 0 \<and> w = 1) then throw (fault access va)
      else if r = 0 \<and> x = 0 then next (push_bit 12 (drop_bit 10 pte))
      else
        let ppn = drop_bit 10 pte in
        if level > 0 \<and> ppn AND (push_bit (9 * level) 1 - 1) \<noteq> 0 then throw (fault access va)
        else
          let u = (drop_bit 4 pte AND 1 \<noteq> 0) in
          if (md = User \<and> \<not> u) \<or> (md = Supervisor \<and> u \<and> \<not> (sm \<and> access \<noteq> Fetch))
          then throw (fault access va)
          else
            let ok = (case access of Fetch \<Rightarrow> x = 1 | Load \<Rightarrow> r = 1 \<or> (mx \<and> x = 1)
              | Store \<Rightarrow> w = 1) in
            if \<not> ok then throw (fault access va)
            else
              let new_pte = pte OR push_bit 6 1;
                  new_pte = (if access = Store then new_pte OR push_bit 7 1 else new_pte) in
              mbind (if new_pte \<noteq> pte
                then map_err (\<lambda>_. fault access va) (write64 B pte_addr new_pte) else mret ())
              (\<lambda>_.
              let mask = push_bit (12 + 9 * level) 1 - 1 in
              mret ((push_bit 12 ppn AND NOT mask) OR (va AND mask)))))"

primrec walk :: "'b bus_ops \<Rightarrow> access \<Rightarrow> u64 \<Rightarrow> priv \<Rightarrow> bool \<Rightarrow> bool \<Rightarrow> nat \<Rightarrow> u64 \<Rightarrow>
    ('b, exn, u64) res" where
  "walk B access va md sm mx 0 =
     walk_level B access va md sm mx 0 (\<lambda>_. throw (fault access va))"
| "walk B access va md sm mx (Suc level) =
     walk_level B access va md sm mx (Suc level) (walk B access va md sm mx level)"

definition tlb_fill :: "access \<Rightarrow> u64 \<Rightarrow> u64 \<Rightarrow> u64 \<Rightarrow> cpu \<Rightarrow> cpu" where
  "tlb_fill a va tag pa c =
     c\<lparr>tlb_tag := (tlb_tag c)(a := (tlb_tag c a)(tlb_index va := tag)),
       tlb_diff := (tlb_diff c)(a := (tlb_diff c a)(tlb_index va := pa - va))\<rparr>"

definition translate_slow :: "'b bus_ops \<Rightarrow> u64 \<Rightarrow> access \<Rightarrow> ('b, u64) cpum" where
  "translate_slow B va access = mbind (getc id) (\<lambda>c.
     let tag = translation_tag c va access in
     case sys c of None \<Rightarrow> panic
     | Some s \<Rightarrow>
       let md = eff_mode s access;
           vm = drop_bit 60 (satp s) in
       if vm = 0 \<or> md = Machine then mret va
       else if vm \<noteq> 8 \<and> vm \<noteq> 9 then throw (fault access va)
       else
         let levels = (if vm = 8 then 3 else 4);
             va_bits = 9 * levels + 12;
             ext = signed_drop_bit (va_bits - 1) va in
         if ext \<noteq> 0 \<and> ext \<noteq> - 1 then throw (fault access va)
         else
           let sm = (mstatus s AND MSTATUS_SUM \<noteq> 0);
               mx = (mstatus s AND MSTATUS_MXR \<noteq> 0);
               table = push_bit 12 (satp s AND 0xfffffffffff) in
           mbind (busm (walk B access va md sm mx (levels - 1) table)) (\<lambda>pa.
           mbind (modc (tlb_fill access va tag pa)) (\<lambda>_. mret pa)))"

definition translate :: "'b bus_ops \<Rightarrow> u64 \<Rightarrow> access \<Rightarrow> ('b, u64) cpum" where
  "translate B va access = mbind (getc id) (\<lambda>c.
     if sys c = None then mret va
     else
       let idx = tlb_index va;
           tag = translation_tag c va access in
       if tlb_tag c access idx = tag then mret (va + tlb_diff c access idx)
       else translate_slow B va access)"

section \<open>Fused rows\<close>

definition interpreter_fused_ptr :: "cpu \<Rightarrow> u64 \<Rightarrow> bool \<Rightarrow> u64 option" where
  "interpreter_fused_ptr c va store =
     (if \<not> interpreter_fused_memory c then None
      else
        let index = jit_tlb_index c va;
            expected = (va AND TLB_PAGE_MASK) OR jit_tlb_context c;
            (tag, offset) = jtlb_entry c store index in
        if tag = expected then Some (va + offset) else None)"

text \<open>Reads and writes of the process memory at an exposed address, \<open>n\<close> bytes, little-endian.\<close>

definition host_read :: "'b bus_ops \<Rightarrow> nat \<Rightarrow> u64 \<Rightarrow> 'b \<Rightarrow> 'a::len word" where
  "host_read B n address b =
     from_le_bytes (map (\<lambda>i. host_read8 B b (address + of_nat i)) [0..<n])"

fun host_write_bytes :: "'b bus_ops \<Rightarrow> u64 \<Rightarrow> u8 list \<Rightarrow> 'b \<Rightarrow> 'b" where
  "host_write_bytes B address [] b = b"
| "host_write_bytes B address (v # vs) b =
     host_write_bytes B (address + 1) vs (host_write8 B address v b)"

definition interpreter_direct_load :: "'b bus_ops \<Rightarrow> nat \<Rightarrow> u64 \<Rightarrow> ('b, u64) cpum" where
  "interpreter_direct_load B n address =
     (if n = 1 \<or> n = 2 \<or> n = 4 \<or> n = 8 then getb (host_read B n address) else panic)"

definition interpreter_direct_store :: "'b bus_ops \<Rightarrow> nat \<Rightarrow> u64 \<Rightarrow> u64 \<Rightarrow> ('b, unit) cpum" where
  "interpreter_direct_store B n address val =
     (if n = 1 \<or> n = 2 \<or> n = 4 \<or> n = 8
      then mmod (\<lambda>(c, b). (c, host_write_bytes B address (to_le_bytes n val) b)) else panic)"

definition fill_jtlb :: "'b bus_ops \<Rightarrow> u64 \<Rightarrow> u64 \<Rightarrow> bool \<Rightarrow> ('b, unit) cpum" where
  "fill_jtlb B va pa store = mbind (getb (\<lambda>b. jit_fast_off B b va pa store)) (\<lambda>o'.
     case o' of None \<Rightarrow> mret ()
     | Some off \<Rightarrow> modc (\<lambda>c. publish_jtlb store (jit_tlb_index c va)
         ((va AND TLB_PAGE_MASK) OR data_tlb_context c) off c))"

definition jit_fill_tlb :: "'b bus_ops \<Rightarrow> u64 \<Rightarrow> bool \<Rightarrow> ('b, i64 option) cpum" where
  "jit_fill_tlb B va store =
     mbind (to_ok (translate B va (if store then Store else Load))) (\<lambda>r.
     case r of None \<Rightarrow> mret None
     | Some pa \<Rightarrow>
       mbind (getb (\<lambda>b. jit_fast_off B b va pa store)) (\<lambda>o'.
       case o' of None \<Rightarrow> mret None
       | Some off \<Rightarrow>
         mbind (modc (\<lambda>c. publish_jtlb store (jit_tlb_index c va)
           ((va AND TLB_PAGE_MASK) OR data_tlb_context c) off c)) (\<lambda>_.
         mret (Some off))))"

definition jit_probe_fetch :: "'b bus_ops \<Rightarrow> u64 \<Rightarrow> ('b, u64 option) cpum" where
  "jit_probe_fetch B va = to_ok (translate B va Fetch)"

section \<open>Loads and stores\<close>

definition crosses_page :: "cpu \<Rightarrow> nat \<Rightarrow> u64 \<Rightarrow> bool" where
  "crosses_page c n va \<longleftrightarrow> sys c \<noteq> None \<and> (va AND 0xfff) + of_nat n > 0x1000"

text \<open>The byte loops of the page-crossing paths: \<open>i\<close> counts up, \<open>k\<close> bytes are left.\<close>

fun ld_bytes :: "'b bus_ops \<Rightarrow> u64 \<Rightarrow> nat \<Rightarrow> nat \<Rightarrow> u64 \<Rightarrow> ('b, u64) cpum" where
  "ld_bytes B va i 0 v = mret v"
| "ld_bytes B va i (Suc k) v =
     mbind (translate B (va + of_nat i) Load) (\<lambda>pa.
     mbind (busm (read8 B pa)) (\<lambda>byte.
     ld_bytes B va (Suc i) k (v OR push_bit (8 * i) (ucast byte))))"

fun st_bytes :: "'b bus_ops \<Rightarrow> u64 \<Rightarrow> nat \<Rightarrow> nat \<Rightarrow> u64 \<Rightarrow> ('b, unit) cpum" where
  "st_bytes B va i 0 val = mret ()"
| "st_bytes B va i (Suc k) val =
     mbind (translate B (va + of_nat i) Store) (\<lambda>pa.
     mbind (busm (write8 B pa (ucast (drop_bit (8 * i) val)))) (\<lambda>_.
     st_bytes B va (Suc i) k val))"

definition bus_load :: "'b bus_ops \<Rightarrow> nat \<Rightarrow> u64 \<Rightarrow> ('b, exn, u64) res" where
  "bus_load B n pa =
     (if n = 1 then mbind (read8 B pa) (\<lambda>v. mret (ucast v))
      else if n = 2 then mbind (read16 B pa) (\<lambda>v. mret (ucast v))
      else if n = 4 then mbind (read32 B pa) (\<lambda>v. mret (ucast v))
      else read64 B pa)"

definition bus_store :: "'b bus_ops \<Rightarrow> nat \<Rightarrow> u64 \<Rightarrow> u64 \<Rightarrow> ('b, exn, unit) res" where
  "bus_store B n pa val =
     (if n = 1 then write8 B pa (ucast val)
      else if n = 2 then write16 B pa (ucast val)
      else if n = 4 then write32 B pa (ucast val)
      else write64 B pa val)"

definition ld_slow :: "'b bus_ops \<Rightarrow> nat \<Rightarrow> u64 \<Rightarrow> ('b, u64) cpum" where
  "ld_slow B n va = mbind (getc (\<lambda>c. crosses_page c n va)) (\<lambda>cross.
     if cross then ld_bytes B va 0 n 0
     else
       mbind (translate B va Load) (\<lambda>pa.
       mbind (fill_jtlb B va pa False) (\<lambda>_.
       busm (bus_load B n pa))))"

definition ld :: "'b bus_ops \<Rightarrow> nat \<Rightarrow> u64 \<Rightarrow> ('b, u64) cpum" where
  "ld B n va = mbind (getc id) (\<lambda>c.
     if crosses_page c n va then ld_slow B n va
     else case interpreter_fused_ptr c va False of
       Some address \<Rightarrow> interpreter_direct_load B n address
     | None \<Rightarrow> ld_slow B n va)"

definition st_slow :: "'b bus_ops \<Rightarrow> nat \<Rightarrow> u64 \<Rightarrow> u64 \<Rightarrow> ('b, unit) cpum" where
  "st_slow B n va val = mbind (getc (\<lambda>c. crosses_page c n va)) (\<lambda>cross.
     if cross then st_bytes B va 0 n val
     else
       mbind (translate B va Store) (\<lambda>pa.
       mbind (fill_jtlb B va pa True) (\<lambda>_.
       busm (bus_store B n pa val))))"

definition st :: "'b bus_ops \<Rightarrow> nat \<Rightarrow> u64 \<Rightarrow> u64 \<Rightarrow> ('b, unit) cpum" where
  "st B n va val = mbind (getc id) (\<lambda>c.
     if crosses_page c n va then st_slow B n va val
     else case interpreter_fused_ptr c va True of
       Some address \<Rightarrow> interpreter_direct_store B n address val
     | None \<Rightarrow> st_slow B n va val)"

end
