(* ===== verification/Trap.thy ===== *)
theory Trap
  imports Vector Mmu
begin

text \<open>
  Traps, interrupts and CSR access of \<open>crates/rv64-core/src/cpu.rs\<close>: \<open>take_trap\<close> with its
  delegation and its diagnostics, \<open>exception_to_trap\<close>, the interrupt poll
  \<open>check_interrupts\<close>, \<open>csr_read\<close> and \<open>csr_write\<close>, and the returns MRET and SRET.
\<close>

section \<open>Trap entry\<close>

definition rdtime :: "u64 \<Rightarrow> sys_csrs \<Rightarrow> u64" where
  "rdtime count s = (if time_scale s = 0 then mtime s else count div time_scale s + time_offset s)"

definition record_timer_trap :: "sys_csrs \<Rightarrow> cpu \<Rightarrow> cpu" where
  "record_timer_trap s c =
     (let now = rdtime (insn_count c) s;
          prior = last_timer_trap c ! 6;
          delta = (if prior \<le> now then now - prior else 0);
          backwards = last_timer_trap c ! 12 + of_flag (prior \<noteq> 0 \<and> now < prior);
          min_delta = (if prior = 0 then 0
            else if last_timer_trap c ! 10 = 0 then delta
            else min (last_timer_trap c ! 10) delta);
          max_delta = max (last_timer_trap c ! 11) delta in
      c\<lparr>last_timer_trap := [pcr c, xreg c 4, sscratch s, mstatus s, satp s, priv_bits (mode s),
         now, insn_count c, time_scale s, time_offset s, min_delta, max_delta, backwards]\<rparr>)"

definition vectored :: "u64 \<Rightarrow> bool \<Rightarrow> u64 \<Rightarrow> u64" where
  "vectored tvec is_interrupt cause =
     (let base = tvec AND NOT 3 in
      if tvec AND 3 = 1 \<and> is_interrupt then base + 4 * cause else base)"

definition trap_to_s :: "u64 \<Rightarrow> u64 \<Rightarrow> bool \<Rightarrow> sys_csrs \<Rightarrow> cpu \<Rightarrow> cpu" where
  "trap_to_s cause tval is_interrupt s c =
     (let cause_val = (if is_interrupt then push_bit 63 1 OR cause else cause);
          sie = drop_bit 1 (mstatus s) AND 1;
          s' = s\<lparr>scause := cause_val, stval := tval, sepc := pcr c,
            mstatus := (mstatus s AND NOT (MSTATUS_SPIE OR MSTATUS_SPP OR MSTATUS_SIE))
              OR push_bit 5 sie OR (if mode s = Supervisor then MSTATUS_SPP else 0),
            mode := Supervisor\<rparr> in
      c\<lparr>sys := Some s', pcr := vectored (stvec s) is_interrupt cause\<rparr>)"

definition trap_to_m :: "u64 \<Rightarrow> u64 \<Rightarrow> bool \<Rightarrow> sys_csrs \<Rightarrow> cpu \<Rightarrow> cpu" where
  "trap_to_m cause tval is_interrupt s c =
     (let cause_val = (if is_interrupt then push_bit 63 1 OR cause else cause);
          mie = drop_bit 3 (mstatus s) AND 1;
          s' = s\<lparr>mcause := cause_val, mtval := tval, mepc := pcr c,
            mstatus := (mstatus s AND NOT (MSTATUS_MPIE OR MSTATUS_MPP OR MSTATUS_MIE))
              OR push_bit 7 mie OR push_bit 11 (priv_bits (mode s)),
            mode := Machine\<rparr> in
      c\<lparr>sys := Some s', pcr := vectored (mtvec s) is_interrupt cause\<rparr>)"

definition trap_target_s :: "u64 \<Rightarrow> bool \<Rightarrow> sys_csrs \<Rightarrow> bool" where
  "trap_target_s cause is_interrupt s \<longleftrightarrow>
     mode s \<noteq> Machine \<and>
     (if is_interrupt then mideleg s else medeleg s) AND push_bit (unat (cause AND 63)) 1 \<noteq> 0"

definition count_trap :: "u64 \<Rightarrow> bool \<Rightarrow> cpu \<Rightarrow> cpu" where
  "count_trap cause is_interrupt c =
     (let k = unat (cause AND 15) in
      if is_interrupt then c\<lparr>irq_counts := (irq_counts c)(k := irq_counts c k + 1)\<rparr>
      else c\<lparr>exc_counts := (exc_counts c)(k := exc_counts c k + 1)\<rparr>)"

text \<open>The ring buffer has 64 entries: an index past its end panics.\<close>

definition log_syscall :: "('b, unit) cpum" where
  "log_syscall = mbind (getc syscall_log_pos) (\<lambda>pos.
     if pos < 64 then
       modc (\<lambda>c. c\<lparr>syscall_log := (syscall_log c)(pos :=
           (xreg c 17, case sys c of None \<Rightarrow> 0 | Some s \<Rightarrow> satp s)),
         syscall_log_pos := (pos + 1) mod 64\<rparr>)
     else panic)"

definition take_trap :: "u64 \<Rightarrow> u64 \<Rightarrow> bool \<Rightarrow> ('b, unit) cpum" where
  "take_trap cause tval is_interrupt =
     mbind (modc (\<lambda>c. c\<lparr>irq_poll_cd := 0, reservation := None\<rparr>)) (\<lambda>_.
     mbind (if \<not> is_interrupt \<and> cause = 8 then log_syscall else mret ()) (\<lambda>_.
     mbind (modc (count_trap cause is_interrupt)) (\<lambda>_.
     mbind (modc (\<lambda>c. case sys c of None \<Rightarrow> c
       | Some s \<Rightarrow> if is_interrupt \<and> cause = 5 \<and> mode s = User then record_timer_trap s c else c))
     (\<lambda>_.
     mbind (getc sys) (\<lambda>s'.
     case s' of None \<Rightarrow> panic
     | Some s \<Rightarrow> modc (\<lambda>c. privilege_changed
         (if trap_target_s cause is_interrupt s then trap_to_s cause tval is_interrupt s c
          else trap_to_m cause tval is_interrupt s c)))))))"

fun exn_tval :: "u64 \<Rightarrow> exn \<Rightarrow> u64" where
  "exn_tval pc (InstructionAddressMisaligned addr) = addr"
| "exn_tval pc (InstructionAccessFault addr) = addr"
| "exn_tval pc (IllegalInstruction insn) = ucast insn"
| "exn_tval pc Breakpoint = pc"
| "exn_tval pc (LoadAddressMisaligned addr) = addr"
| "exn_tval pc (LoadAccessFault addr) = addr"
| "exn_tval pc (StoreAddressMisaligned addr) = addr"
| "exn_tval pc (StoreAccessFault addr) = addr"
| "exn_tval pc EnvironmentCallFromUMode = 0"
| "exn_tval pc EnvironmentCallFromSMode = 0"
| "exn_tval pc EnvironmentCallFromMMode = 0"
| "exn_tval pc (InstructionPageFault addr) = addr"
| "exn_tval pc (LoadPageFault addr) = addr"
| "exn_tval pc (StorePageFault addr) = addr"

definition exception_to_trap :: "exn \<Rightarrow> ('b, unit) cpum" where
  "exception_to_trap e = mbind (getc pcr) (\<lambda>pc. take_trap (exn_cause e) (exn_tval pc e) False)"

section \<open>Interrupts\<close>

definition deliverable :: "sys_csrs \<Rightarrow> nat \<Rightarrow> bool" where
  "deliverable s irq =
     (let m_enabled = (mode s \<noteq> Machine \<or> mstatus s AND MSTATUS_MIE \<noteq> 0);
          s_enabled = (mode s = User \<or> (mode s = Supervisor \<and> mstatus s AND MSTATUS_SIE \<noteq> 0)) in
      if mideleg s AND push_bit irq 1 \<noteq> 0
      then mode s = User \<or> (mode s = Supervisor \<and> s_enabled)
      else mode s \<noteq> Machine \<or> m_enabled)"

text \<open>The first interrupt of the priority list that is pending and deliverable.\<close>

fun first_irq :: "sys_csrs \<Rightarrow> nat list \<Rightarrow> nat option" where
  "first_irq s [] = None"
| "first_irq s (irq # irqs) =
     (if mip s AND mie s AND push_bit irq 1 \<noteq> 0 \<and> deliverable s irq then Some irq
      else first_irq s irqs)"

definition HW_LINES :: u64 where
  "HW_LINES = IRQ_MTIP OR IRQ_MSIP OR IRQ_MEIP OR IRQ_SEIP"

definition check_interrupts :: "'b bus_ops \<Rightarrow> ('b, bool) cpum" where
  "check_interrupts B = mbind (getc sys) (\<lambda>s'.
     case s' of None \<Rightarrow> mret False
     | Some s \<Rightarrow>
       mbind (busm (\<lambda>b. case irq_lines B b of (l, b') \<Rightarrow> (Inr l, b'))) (\<lambda>lines.
       let s = s\<lparr>mip := (mip s AND NOT HW_LINES) OR (lines AND HW_LINES)\<rparr> in
       mbind (modc (\<lambda>c. c\<lparr>sys := Some s\<rparr>)) (\<lambda>_.
       if mip s AND mie s = 0 then mret False
       else case first_irq s [11, 3, 7, 9, 1, 5] of
         None \<Rightarrow> mret False
       | Some irq \<Rightarrow> mbind (take_trap (of_nat irq) 0 True) (\<lambda>_. mret True))))"

section \<open>CSR access\<close>

definition csr_allowed :: "cpu \<Rightarrow> u32 \<Rightarrow> bool" where
  "csr_allowed c csr = (case sys c of None \<Rightarrow> True
     | Some s \<Rightarrow> \<not> (ucast (drop_bit 8 csr AND 3) > priv_bits (mode s)))"

definition csr_read_sys :: "sys_csrs \<Rightarrow> u32 \<Rightarrow> u64 option" where
  "csr_read_sys s csr =
     (let ms = (if mstatus s AND MSTATUS_FS = MSTATUS_FS \<or> mstatus s AND MSTATUS_VS = MSTATUS_VS
        then mstatus s OR MSTATUS_SD else mstatus s) in
      if csr = SSTATUS then Some (ms AND SSTATUS_MASK)
      else if csr = SIE then Some (mie s AND mideleg s)
      else if csr = STVEC then Some (stvec s)
      else if csr = SCOUNTEREN then Some (scounteren s)
      else if csr = SSCRATCH then Some (sscratch s)
      else if csr = SEPC then Some (sepc s)
      else if csr = SCAUSE then Some (scause s)
      else if csr = STVAL then Some (stval s)
      else if csr = SIP then Some (mip s AND mideleg s)
      else if csr = SATP then
        (if mode s = Supervisor \<and> mstatus s AND MSTATUS_TVM \<noteq> 0 then None else Some (satp s))
      else if csr = 0x7a0 then Some 1
      else if csr = 0x7a1 \<or> csr = 0x7a2 \<or> csr = 0x7a3 \<or> csr = 0x7a5 then Some 0
      else if csr = MSTATUS then Some ms
      else if csr = MISA then Some MISA_VALUE
      else if csr = MEDELEG then Some (medeleg s)
      else if csr = MIDELEG then Some (mideleg s)
      else if csr = MIE then Some (mie s)
      else if csr = MTVEC then Some (mtvec s)
      else if csr = MCOUNTEREN then Some (mcounteren s)
      else if csr = MSCRATCH then Some (mscratch s)
      else if csr = MEPC then Some (mepc s)
      else if csr = MCAUSE then Some (mcause s)
      else if csr = MTVAL then Some (mtval s)
      else if csr = MIP then Some (mip s)
      else if csr = MVENDORID \<or> csr = MARCHID \<or> csr = MIMPID then Some 0
      else if csr = MHARTID then Some (mhartid s)
      else None)"

definition csr_read :: "cpu \<Rightarrow> u32 \<Rightarrow> u64 option" where
  "csr_read c csr =
     (if \<not> csr_allowed c csr then None
      else if csr = FFLAGS then Some (ucast (fcsr c AND 0x1f))
      else if csr = FRM then Some (ucast (drop_bit 5 (fcsr c) AND 7))
      else if csr = FCSR then Some (ucast (fcsr c))
      else if csr = VSTART \<and> vector_enabled c then Some (vs_vstart (vector c))
      else if csr = VXSAT \<and> vector_enabled c then Some (of_flag (vs_vxsat (vector c)))
      else if csr = VXRM \<and> vector_enabled c then Some (ucast (vs_vxrm (vector c)))
      else if csr = VCSR \<and> vector_enabled c then
        Some (push_bit 1 (ucast (vs_vxrm (vector c))) OR of_flag (vs_vxsat (vector c)))
      else if csr = VL \<and> vector_enabled c then Some (vs_vl (vector c))
      else if csr = VTYPE \<and> vector_enabled c then Some (vs_vtype (vector c))
      else if csr = VLENB \<and> vector_enabled c then Some (of_nat VLEN_BYTES)
      else if csr = CYCLE \<or> csr = INSTRET \<or> csr = MCYCLE \<or> csr = MINSTRET then
        Some (insn_count c + (case sys c of None \<Rightarrow> 0 | Some s \<Rightarrow> minstret_off s))
      else if csr = TIME then
        Some (case sys c of None \<Rightarrow> insn_count c | Some s \<Rightarrow> rdtime (insn_count c) s)
      else if 0x3a0 \<le> csr \<and> csr \<le> 0x3af \<and> csr AND 1 = 0 then
        map_option (\<lambda>s. pmpcfg s (unat ((csr - 0x3a0) div 2))) (sys c)
      else if 0x3b0 \<le> csr \<and> csr \<le> 0x3ef then
        map_option (\<lambda>s. pmpaddr s (unat (csr - 0x3b0))) (sys c)
      else case sys c of None \<Rightarrow> None | Some s \<Rightarrow> csr_read_sys s csr)"

definition SSTATUS_W :: u64 where
  "SSTATUS_W = MSTATUS_SIE OR MSTATUS_SPIE OR MSTATUS_SPP OR MSTATUS_VS OR MSTATUS_FS
     OR MSTATUS_SUM OR MSTATUS_MXR"

definition MSTATUS_W :: u64 where
  "MSTATUS_W = MSTATUS_SIE OR MSTATUS_MIE OR MSTATUS_SPIE OR MSTATUS_MPIE OR MSTATUS_SPP
     OR MSTATUS_MPP OR MSTATUS_VS OR MSTATUS_FS OR MSTATUS_MPRV OR MSTATUS_SUM OR MSTATUS_MXR
     OR MSTATUS_TVM OR MSTATUS_TW OR MSTATUS_TSR"

definition MIP_W :: u64 where
  "MIP_W = IRQ_SSIP OR IRQ_STIP OR IRQ_SEIP"

text \<open>The arms of \<open>csr_write\<close> that change one field of \<open>sys\<close> and nothing else.\<close>

definition set_sys :: "(sys_csrs \<Rightarrow> sys_csrs) \<Rightarrow> cpu \<Rightarrow> bool \<times> cpu" where
  "set_sys f c = (case sys c of None \<Rightarrow> (False, c) | Some s \<Rightarrow> (True, c\<lparr>sys := Some (f s)\<rparr>))"

definition write_status :: "u64 \<Rightarrow> u64 \<Rightarrow> cpu \<Rightarrow> bool \<times> cpu" where
  "write_status w v c = (case sys c of None \<Rightarrow> (False, c)
     | Some s \<Rightarrow>
       let c = c\<lparr>sys := Some (s\<lparr>mstatus := (mstatus s AND NOT w) OR (v AND w)\<rparr>)\<rparr>;
           c = (if \<not> retain_tlb_on_privilege_change c then flush_tlb c else c) in
       (True, sync_jit_tlb_context c))"

definition write_satp :: "u64 \<Rightarrow> cpu \<Rightarrow> bool \<times> cpu" where
  "write_satp v c = (case sys c of None \<Rightarrow> (False, c)
     | Some s \<Rightarrow>
       if mode s = Supervisor \<and> mstatus s AND MSTATUS_TVM \<noteq> 0 then (False, c)
       else
         let m = drop_bit 60 v in
         if m = 0 \<or> m = 8 \<or> m = 9 then
           let changed = (satp s \<noteq> v);
               c = flush_tlb (c\<lparr>sys := Some (s\<lparr>satp := v\<rparr>)\<rparr>) in
           (True, if changed then c\<lparr>jit_flush_gen := jit_flush_gen c + 1, map_gen := map_gen c + 1\<rparr>
             else c)
         else (True, c))"

definition csr_write_s :: "u32 \<Rightarrow> u64 \<Rightarrow> cpu \<Rightarrow> (bool \<times> cpu) option" where
  "csr_write_s csr v c =
     (if csr = SSTATUS then Some (write_status SSTATUS_W v c)
      else if csr = SIE then
        Some (set_sys (\<lambda>s. s\<lparr>mie := (mie s AND NOT (mideleg s)) OR (v AND mideleg s)\<rparr>) c)
      else if csr = STVEC then Some (set_sys (\<lambda>s. s\<lparr>stvec := v AND NOT 2\<rparr>) c)
      else if csr = SCOUNTEREN then Some (set_sys (\<lambda>s. s\<lparr>scounteren := v AND 7\<rparr>) c)
      else if csr = SSCRATCH then Some (set_sys (\<lambda>s. s\<lparr>sscratch := v\<rparr>) c)
      else if csr = SEPC then Some (set_sys (\<lambda>s. s\<lparr>sepc := v AND NOT 1\<rparr>) c)
      else if csr = SCAUSE then Some (set_sys (\<lambda>s. s\<lparr>scause := v\<rparr>) c)
      else if csr = STVAL then Some (set_sys (\<lambda>s. s\<lparr>stval := v\<rparr>) c)
      else if csr = SIP then
        Some (set_sys (\<lambda>s. let m = IRQ_SSIP AND mideleg s in
          s\<lparr>mip := (mip s AND NOT m) OR (v AND m)\<rparr>) c)
      else if csr = SATP then Some (write_satp v c)
      else None)"

definition csr_write_m :: "u32 \<Rightarrow> u64 \<Rightarrow> cpu \<Rightarrow> bool \<times> cpu" where
  "csr_write_m csr v c =
     (if csr = 0x7a0 \<or> csr = 0x7a1 \<or> csr = 0x7a2 \<or> csr = 0x7a3 \<or> csr = 0x7a5 then (True, c)
      else if csr = MSTATUS then write_status MSTATUS_W v c
      else if csr = MISA then (True, c)
      else if csr = MEDELEG then set_sys (\<lambda>s. s\<lparr>medeleg := v\<rparr>) c
      else if csr = MIDELEG then set_sys (\<lambda>s. s\<lparr>mideleg := v AND MIP_W\<rparr>) c
      else if csr = MIE then set_sys (\<lambda>s. s\<lparr>mie := v\<rparr>) c
      else if csr = MTVEC then set_sys (\<lambda>s. s\<lparr>mtvec := v AND NOT 2\<rparr>) c
      else if csr = MCOUNTEREN then set_sys (\<lambda>s. s\<lparr>mcounteren := v AND 7\<rparr>) c
      else if csr = MSCRATCH then set_sys (\<lambda>s. s\<lparr>mscratch := v\<rparr>) c
      else if csr = MEPC then set_sys (\<lambda>s. s\<lparr>mepc := v AND NOT 1\<rparr>) c
      else if csr = MCAUSE then set_sys (\<lambda>s. s\<lparr>mcause := v\<rparr>) c
      else if csr = MTVAL then set_sys (\<lambda>s. s\<lparr>mtval := v\<rparr>) c
      else if csr = MIP then set_sys (\<lambda>s. s\<lparr>mip := (mip s AND NOT MIP_W) OR (v AND MIP_W)\<rparr>) c
      else (False, c))"

definition csr_write_u :: "u32 \<Rightarrow> u64 \<Rightarrow> cpu \<Rightarrow> (bool \<times> cpu) option" where
  "csr_write_u csr v c =
     (let vec = vector c in
      if csr = FFLAGS then Some (True, c\<lparr>fcsr := (fcsr c AND NOT 0x1f) OR (ucast v AND 0x1f)\<rparr>)
      else if csr = FRM then
        Some (True, c\<lparr>fcsr := (fcsr c AND NOT 0xe0) OR push_bit 5 (ucast v AND 7)\<rparr>)
      else if csr = FCSR then Some (True, c\<lparr>fcsr := ucast v AND 0xff\<rparr>)
      else if csr = VSTART \<and> vector_enabled c then
        Some (True, vector_dirty (c\<lparr>vector := vec\<lparr>vs_vstart := v AND (of_nat VLEN_BITS - 1)\<rparr>\<rparr>))
      else if csr = VXSAT \<and> vector_enabled c then
        Some (True, vector_dirty (c\<lparr>vector := vec\<lparr>vs_vxsat := (v AND 1 \<noteq> 0)\<rparr>\<rparr>))
      else if csr = VXRM \<and> vector_enabled c then
        Some (True, vector_dirty (c\<lparr>vector := vec\<lparr>vs_vxrm := ucast (v AND 3)\<rparr>\<rparr>))
      else if csr = VCSR \<and> vector_enabled c then
        Some (True, vector_dirty (c\<lparr>vector := vec\<lparr>vs_vxsat := (v AND 1 \<noteq> 0),
          vs_vxrm := ucast (drop_bit 1 v AND 3)\<rparr>\<rparr>))
      else if csr = MCYCLE \<or> csr = MINSTRET then
        Some (True, case sys c of None \<Rightarrow> c
          | Some s \<Rightarrow> c\<lparr>sys := Some (s\<lparr>minstret_off := v - (insn_count c + 1)\<rparr>)\<rparr>)
      else if 0x3a0 \<le> csr \<and> csr \<le> 0x3af \<and> csr AND 1 = 0 then
        Some (set_sys (\<lambda>s. s\<lparr>pmpcfg := (pmpcfg s)(unat ((csr - 0x3a0) div 2) := v)\<rparr>) c)
      else if 0x3b0 \<le> csr \<and> csr \<le> 0x3ef then
        Some (set_sys (\<lambda>s. s\<lparr>pmpaddr :=
          (pmpaddr s)(unat (csr - 0x3b0) := v AND 0x003fffffffffffff)\<rparr>) c)
      else None)"

definition csr_write :: "u32 \<Rightarrow> u64 \<Rightarrow> cpu \<Rightarrow> bool \<times> cpu" where
  "csr_write csr v c =
     (let c = c\<lparr>irq_poll_cd := 0\<rparr> in
      if drop_bit 10 csr = 3 then (False, c)
      else if \<not> csr_allowed c csr then (False, c)
      else case csr_write_u csr v c of
        Some r \<Rightarrow> r
      | None \<Rightarrow> (case csr_write_s csr v c of Some r \<Rightarrow> r | None \<Rightarrow> csr_write_m csr v c))"

end
