(* ===== verification/SoftFp.thy ===== *)
theory SoftFp
  imports Prelude
begin

text \<open>
  The software floating point of \<open>crates/rv64-core/src/softfp.rs\<close>. The macro \<open>softfp!\<close>, which
  the sources instantiate at \<open>sf32\<close> and \<open>sf64\<close>, is a family of functions over a format and a
  word type: \<open>F_SIZE\<close> is the length of the word, the double-width type \<open>$ul\<close> is \<^typ>\<open>nat\<close>.
  An \<open>i32\<close> exponent is an \<^typ>\<open>int\<close>: every exponent of the sources is within \<open>\<plusminus>2 ^ 14\<close>. A
  function that updates the flags \<open>fl\<close> returns them with its result.
\<close>

section \<open>Constants\<close>

definition FFLAG_INEXACT :: u32 where "FFLAG_INEXACT = push_bit 0 1"
definition FFLAG_UNDERFLOW :: u32 where "FFLAG_UNDERFLOW = push_bit 1 1"
definition FFLAG_OVERFLOW :: u32 where "FFLAG_OVERFLOW = push_bit 2 1"
definition FFLAG_DIVIDE_ZERO :: u32 where "FFLAG_DIVIDE_ZERO = push_bit 3 1"
definition FFLAG_INVALID_OP :: u32 where "FFLAG_INVALID_OP = push_bit 4 1"

definition RM_RNE :: u32 where "RM_RNE = 0"
definition RM_RTZ :: u32 where "RM_RTZ = 1"
definition RM_RDN :: u32 where "RM_RDN = 2"
definition RM_RUP :: u32 where "RM_RUP = 3"
definition RM_RMM :: u32 where "RM_RMM = 4"

record fp_format =
  MANT_SIZE :: nat
  EXP_SIZE :: nat

definition sf32 :: fp_format where "sf32 = \<lparr>MANT_SIZE = 23, EXP_SIZE = 8\<rparr>"
definition sf64 :: fp_format where "sf64 = \<lparr>MANT_SIZE = 52, EXP_SIZE = 11\<rparr>"

definition F_SIZE :: "'a::len word \<Rightarrow> nat" where
  "F_SIZE a = LENGTH('a)"

definition EXP_MASK :: "fp_format \<Rightarrow> nat" where
  "EXP_MASK F = 2 ^ EXP_SIZE F - 1"

definition MANT_MASK :: "fp_format \<Rightarrow> 'a::len word" where
  "MANT_MASK F = push_bit (MANT_SIZE F) 1 - 1"

definition SIGN_MASK :: "fp_format \<Rightarrow> 'a::len word" where
  "SIGN_MASK F = push_bit (LENGTH('a) - 1) 1"

definition RND_SIZE :: "fp_format \<Rightarrow> 'a::len word \<Rightarrow> nat" where
  "RND_SIZE F a = LENGTH('a) - 2 - MANT_SIZE F"

definition QNAN_MASK :: "fp_format \<Rightarrow> 'a::len word" where
  "QNAN_MASK F = push_bit (MANT_SIZE F - 1) 1"

definition QNAN :: "fp_format \<Rightarrow> 'a::len word" where
  "QNAN F = push_bit (MANT_SIZE F) (of_nat (EXP_MASK F)) OR push_bit (MANT_SIZE F - 1) 1"

text \<open>
  Shifts by an \<open>i32\<close>: without overflow checks the amount is taken modulo the width.
\<close>

definition shl_i :: "'a::len word \<Rightarrow> int \<Rightarrow> 'a word" where
  "shl_i a d = push_bit (nat (d mod int LENGTH('a))) a"

definition shr_i :: "'a::len word \<Rightarrow> int \<Rightarrow> 'a word" where
  "shr_i a d = drop_bit (nat (d mod int LENGTH('a))) a"

section \<open>Fields\<close>

definition sf_sign :: "'a::len word \<Rightarrow> u32" where
  "sf_sign a = ucast (drop_bit (LENGTH('a) - 1) a)"

definition sf_exp :: "fp_format \<Rightarrow> 'a::len word \<Rightarrow> int" where
  "sf_exp F a = uint ((ucast (drop_bit (MANT_SIZE F) a) :: u32) AND of_nat (EXP_MASK F))"

definition sf_mant :: "fp_format \<Rightarrow> 'a::len word \<Rightarrow> 'a word" where
  "sf_mant F a = a AND MANT_MASK F"

definition sf_pack :: "fp_format \<Rightarrow> u32 \<Rightarrow> int \<Rightarrow> 'a::len word \<Rightarrow> 'a word" where
  "sf_pack F sign e mant =
     push_bit (LENGTH('a) - 1) (ucast sign) OR push_bit (MANT_SIZE F) (ucast (word_of_int e :: u32))
       OR (mant AND MANT_MASK F)"

definition is_nan :: "fp_format \<Rightarrow> 'a::len word \<Rightarrow> bool" where
  "is_nan F a \<longleftrightarrow> sf_exp F a = int (EXP_MASK F) \<and> a AND MANT_MASK F \<noteq> 0"

definition is_signan :: "fp_format \<Rightarrow> 'a::len word \<Rightarrow> bool" where
  "is_signan F a \<longleftrightarrow>
     (ucast (drop_bit (MANT_SIZE F - 1) a) :: u32) AND (push_bit (EXP_SIZE F + 1) 1 - 1)
       = 2 * of_nat (EXP_MASK F) \<and> a AND MANT_MASK F \<noteq> 0"

section \<open>Rounding\<close>

definition rshift_rnd :: "'a::len word \<Rightarrow> int \<Rightarrow> 'a word" where
  "rshift_rnd a d =
     (if d = 0 then a
      else if d \<ge> int LENGTH('a) then of_flag (a \<noteq> 0)
      else let m = shl_i 1 d - 1 in shr_i a d OR of_flag (a AND m \<noteq> 0))"

definition rnd_addend :: "u32 \<Rightarrow> u32 \<Rightarrow> nat \<Rightarrow> 'a::len word" where
  "rnd_addend sign rm rnd_size =
     (if rm = RM_RNE \<or> rm = RM_RMM then push_bit (rnd_size - 1) 1
      else if rm = RM_RTZ then 0
      else if sign XOR (rm AND 1) \<noteq> 0 then push_bit rnd_size 1 - 1 else 0)"

definition round_pack :: "fp_format \<Rightarrow> u32 \<Rightarrow> int \<Rightarrow> 'a::len word \<Rightarrow> u32 \<Rightarrow> u32 \<Rightarrow> 'a word \<times> u32" where
  "round_pack F sign e mant rm fl =
     (let rs = RND_SIZE F mant;
          addend = rnd_addend sign rm rs;
          (e, mant, rnd_bits, fl) =
            (if e \<le> 0 then
               let is_subnormal = (e < 0 \<or> mant + addend < push_bit (LENGTH('a) - 1) 1);
                   mant = rshift_rnd mant (1 - e);
                   rnd_bits = mant AND (push_bit rs 1 - 1) in
               (1, mant, rnd_bits,
                if is_subnormal \<and> rnd_bits \<noteq> 0 then fl OR FFLAG_UNDERFLOW else fl)
             else (e, mant, mant AND (push_bit rs 1 - 1), fl));
          fl = (if rnd_bits \<noteq> 0 then fl OR FFLAG_INEXACT else fl);
          mant = drop_bit rs (mant + addend);
          mant = (if rm = RM_RNE \<and> rnd_bits = push_bit (rs - 1) 1 then mant AND NOT 1 else mant);
          e = e + uint (drop_bit (MANT_SIZE F + 1) mant);
          (e, mant, fl) =
            (if mant \<le> MANT_MASK F then (0, mant, fl)
             else if e \<ge> int (EXP_MASK F) then
               (if addend = 0 then (int (EXP_MASK F) - 1, MANT_MASK F, fl OR (FFLAG_OVERFLOW OR FFLAG_INEXACT))
                else (int (EXP_MASK F), 0, fl OR (FFLAG_OVERFLOW OR FFLAG_INEXACT)))
             else (e, mant, fl)) in
      (sf_pack F sign e mant, fl))"

definition normalize :: "fp_format \<Rightarrow> u32 \<Rightarrow> int \<Rightarrow> 'a::len word \<Rightarrow> u32 \<Rightarrow> u32 \<Rightarrow> 'a word \<times> u32" where
  "normalize F sign e mant rm fl =
     (let shift = int (leading_zeros mant) - 1 in
      round_pack F sign (e - shift) (shl_i mant shift) rm fl)"

definition normalize2 ::
  "fp_format \<Rightarrow> u32 \<Rightarrow> int \<Rightarrow> 'a::len word \<Rightarrow> 'a word \<Rightarrow> u32 \<Rightarrow> u32 \<Rightarrow> 'a word \<times> u32" where
  "normalize2 F sign e hi lo rm fl =
     (let l = (if hi = 0 then int LENGTH('a) + int (leading_zeros lo) else int (leading_zeros hi));
          shift = l - 1;
          e = e - shift;
          hi = (if shift = 0 then hi OR of_flag (lo \<noteq> 0)
            else if shift < int LENGTH('a) then
              (shl_i hi shift OR shr_i lo (int LENGTH('a) - shift)) OR of_flag (shl_i lo shift \<noteq> 0)
            else shl_i lo (shift - int LENGTH('a))) in
      round_pack F sign e hi rm fl)"

text \<open>\<open>normalize_subnormal\<close> returns the mantissa and the exponent it assigns.\<close>

definition normalize_subnormal :: "fp_format \<Rightarrow> 'a::len word \<Rightarrow> int \<times> 'a word" where
  "normalize_subnormal F mant =
     (let shift = int (MANT_SIZE F) - (int LENGTH('a) - 1 - int (leading_zeros mant)) in
      (1 - shift, shl_i mant shift))"

section \<open>Arithmetic\<close>

definition sf_add :: "fp_format \<Rightarrow> 'a::len word \<Rightarrow> 'a word \<Rightarrow> u32 \<Rightarrow> u32 \<Rightarrow> 'a word \<times> u32" where
  "sf_add F a0 b0 rm fl =
     (let swap = (a0 AND NOT (SIGN_MASK F) < b0 AND NOT (SIGN_MASK F));
          a = (if swap then b0 else a0);
          b = (if swap then a0 else b0);
          a_sign = sf_sign a; b_sign = sf_sign b;
          a_exp = sf_exp F a; b_exp = sf_exp F b;
          a_mant = push_bit 3 (a AND MANT_MASK F);
          b_mant = push_bit 3 (b AND MANT_MASK F) in
      if a_exp = int (EXP_MASK F) then
        (if a_mant \<noteq> 0 then
           (QNAN F, if a_mant AND push_bit 3 (QNAN_MASK F) = 0 \<or> is_signan F b
              then fl OR FFLAG_INVALID_OP else fl)
         else if b_exp = int (EXP_MASK F) \<and> a_sign \<noteq> b_sign then (QNAN F, fl OR FFLAG_INVALID_OP)
         else (a, fl))
      else
        let (a_exp, a_mant) = (if a_exp = 0 then (1, a_mant)
              else (a_exp, a_mant OR push_bit (MANT_SIZE F + 3) 1));
            (b_exp, b_mant) = (if b_exp = 0 then (1, b_mant)
              else (b_exp, b_mant OR push_bit (MANT_SIZE F + 3) 1));
            b_mant = rshift_rnd b_mant (a_exp - b_exp);
            (a_sign, a_mant) =
              (if a_sign = b_sign then (a_sign, a_mant + b_mant)
               else let a_mant = a_mant - b_mant in
                 (if a_mant = 0 then of_flag (rm = RM_RDN) else a_sign, a_mant)) in
        normalize F a_sign (a_exp + (int (RND_SIZE F a) - 3)) a_mant rm fl)"

definition sf_sub :: "fp_format \<Rightarrow> 'a::len word \<Rightarrow> 'a word \<Rightarrow> u32 \<Rightarrow> u32 \<Rightarrow> 'a word \<times> u32" where
  "sf_sub F a b rm fl = sf_add F a (b XOR SIGN_MASK F) rm fl"

definition mul_u :: "'a::len word \<Rightarrow> 'a word \<Rightarrow> 'a word \<times> 'a word" where
  "mul_u a b = (let r = unat a * unat b in (of_nat (r div 2 ^ LENGTH('a)), of_nat r))"

text \<open>The operand a multiplication or division works on: hidden bit set, subnormals normalised.\<close>

definition sf_unpack :: "fp_format \<Rightarrow> int \<Rightarrow> 'a::len word \<Rightarrow> int \<times> 'a word" where
  "sf_unpack F e mant =
     (if e = 0 then normalize_subnormal F mant else (e, mant OR push_bit (MANT_SIZE F) 1))"

definition sf_mul :: "fp_format \<Rightarrow> 'a::len word \<Rightarrow> 'a word \<Rightarrow> u32 \<Rightarrow> u32 \<Rightarrow> 'a word \<times> u32" where
  "sf_mul F a b rm fl =
     (let r_sign = sf_sign a XOR sf_sign b;
          a_exp = sf_exp F a; b_exp = sf_exp F b;
          a_mant = a AND MANT_MASK F; b_mant = b AND MANT_MASK F;
          em = int (EXP_MASK F) in
      if a_exp = em \<or> b_exp = em then
        (if is_nan F a \<or> is_nan F b then
           (QNAN F, if is_signan F a \<or> is_signan F b then fl OR FFLAG_INVALID_OP else fl)
         else if (a_exp = em \<and> b_exp = 0 \<and> b_mant = 0) \<or> (b_exp = em \<and> a_exp = 0 \<and> a_mant = 0)
           then (QNAN F, fl OR FFLAG_INVALID_OP)
         else (sf_pack F r_sign em 0, fl))
      else if a_exp = 0 \<and> a_mant = 0 then (sf_pack F r_sign 0 0, fl)
      else if b_exp = 0 \<and> b_mant = 0 then (sf_pack F r_sign 0 0, fl)
      else
        let (a_exp, a_mant) = sf_unpack F a_exp a_mant;
            (b_exp, b_mant) = sf_unpack F b_exp b_mant;
            r_exp = a_exp + b_exp - 2 ^ (EXP_SIZE F - 1) + 2;
            (r_mant, r_low) = mul_u (push_bit (RND_SIZE F a) a_mant)
              (push_bit (RND_SIZE F a + 1) b_mant);
            r_mant = r_mant OR of_flag (r_low \<noteq> 0) in
        normalize F r_sign r_exp r_mant rm fl)"

text \<open>
  \<open>fma\<close> after the special cases: the product \<open>r1:r0\<close> at exponent \<open>r_exp\<close> plus the addend
  \<open>c1:c0\<close> at exponent \<open>c_exp\<close>.
\<close>

definition fma_shift :: "int \<Rightarrow> 'a::len word \<Rightarrow> 'a word \<Rightarrow> 'a word \<times> 'a word" where
  "fma_shift shift c1 c0 =
     (if shift \<ge> 2 * int LENGTH('a) then (0, of_flag (c0 OR c1 \<noteq> 0))
      else if shift > int LENGTH('a) then (0, rshift_rnd c1 (shift - int LENGTH('a)))
      else if shift = int LENGTH('a) then (0, c1 OR of_flag (c0 \<noteq> 0))
      else if shift \<noteq> 0 then
        (let m = shl_i 1 shift - 1 in
         (shr_i c1 shift,
          shl_i c1 (int LENGTH('a) - shift) OR shr_i c0 shift OR of_flag (c0 AND m \<noteq> 0)))
      else (c1, c0))"

definition fma_sum :: "fp_format \<Rightarrow> u32 \<Rightarrow> int \<Rightarrow> 'a::len word \<Rightarrow> 'a word \<Rightarrow> u32 \<Rightarrow> int \<Rightarrow> 'a word \<Rightarrow>
    u32 \<Rightarrow> u32 \<Rightarrow> 'a word \<times> u32" where
  "fma_sum F r_sign r_exp r1 r0 c_sign c_exp c1 rm fl =
     (let c0 = 0;
          keep = (r_exp > c_exp \<or> (r_exp = c_exp \<and> r1 \<ge> c1));
          (r1, c1) = (if keep then (r1, c1) else (c1, r1));
          (r0, c0) = (if keep then (r0, c0) else (c0, r0));
          (r_exp, c_exp) = (if keep then (r_exp, c_exp) else (c_exp, r_exp));
          (r_sign, c_sign) = (if keep then (r_sign, c_sign) else (c_sign, r_sign));
          (c1, c0) = fma_shift (r_exp - c_exp) c1 c0 in
      if r_sign = c_sign then
        let r0 = r0 + c0;
            r1 = r1 + c1 + of_flag (r0 < c0) in
        normalize2 F r_sign r_exp r1 r0 rm fl
      else
        let tmp = r0;
            r0 = r0 - c0;
            r1 = r1 - c1 - of_flag (r0 > tmp);
            r_sign = (if r0 OR r1 = 0 then of_flag (rm = RM_RDN) else r_sign) in
        normalize2 F r_sign r_exp r1 r0 rm fl)"

definition fma_finite :: "fp_format \<Rightarrow> 'a::len word \<Rightarrow> 'a word \<Rightarrow> 'a word \<Rightarrow> u32 \<Rightarrow> u32 \<Rightarrow> 'a word \<times> u32" where
  "fma_finite F a b c rm fl =
     (let r_sign = sf_sign a XOR sf_sign b;
          (a_exp, a_mant) = sf_unpack F (sf_exp F a) (a AND MANT_MASK F);
          (b_exp, b_mant) = sf_unpack F (sf_exp F b) (b AND MANT_MASK F);
          c_exp = sf_exp F c; c_mant = c AND MANT_MASK F;
          r_exp = a_exp + b_exp - 2 ^ (EXP_SIZE F - 1) + 3;
          (r1, r0) = mul_u (push_bit (RND_SIZE F a) a_mant) (push_bit (RND_SIZE F a) b_mant);
          (r1, r0, r_exp) = (if r1 < push_bit (LENGTH('a) - 3) 1
            then (push_bit 1 r1 OR drop_bit (LENGTH('a) - 1) r0, push_bit 1 r0, r_exp - 1)
            else (r1, r0, r_exp)) in
      if c_exp = 0 \<and> c_mant = 0 then
        normalize F r_sign r_exp (r1 OR of_flag (r0 \<noteq> 0)) rm fl
      else
        let (c_exp, c_mant) = sf_unpack F c_exp c_mant;
            c_exp = c_exp + 1;
            c1 = push_bit (RND_SIZE F a - 1) c_mant in
        fma_sum F r_sign r_exp r1 r0 (sf_sign c) c_exp c1 rm fl)"

definition sf_fma :: "fp_format \<Rightarrow> 'a::len word \<Rightarrow> 'a word \<Rightarrow> 'a word \<Rightarrow> u32 \<Rightarrow> u32 \<Rightarrow> 'a word \<times> u32" where
  "sf_fma F a b c rm fl =
     (let c_sign = sf_sign c;
          r_sign = sf_sign a XOR sf_sign b;
          a_exp = sf_exp F a; b_exp = sf_exp F b; c_exp = sf_exp F c;
          a_mant = a AND MANT_MASK F; b_mant = b AND MANT_MASK F; c_mant = c AND MANT_MASK F;
          em = int (EXP_MASK F) in
      if a_exp = em \<or> b_exp = em \<or> c_exp = em then
        (if is_nan F a \<or> is_nan F b \<or> is_nan F c then
           (QNAN F, if is_signan F a \<or> is_signan F b \<or> is_signan F c
              then fl OR FFLAG_INVALID_OP else fl)
         else if (a_exp = em \<and> b_exp = 0 \<and> b_mant = 0) \<or> (b_exp = em \<and> a_exp = 0 \<and> a_mant = 0)
             \<or> ((a_exp = em \<or> b_exp = em) \<and> c_exp = em \<and> r_sign \<noteq> c_sign)
           then (QNAN F, fl OR FFLAG_INVALID_OP)
         else if c_exp = em then (sf_pack F c_sign em 0, fl)
         else (sf_pack F r_sign em 0, fl))
      else if (a_exp = 0 \<and> a_mant = 0) \<or> (b_exp = 0 \<and> b_mant = 0) then
        (if c_exp = 0 \<and> c_mant = 0 then
           (sf_pack F (if c_sign \<noteq> r_sign then of_flag (rm = RM_RDN) else r_sign) 0 0, fl)
         else (c, fl))
      else fma_finite F a b c rm fl)"

definition divrem_u :: "'a::len word \<Rightarrow> 'a word \<Rightarrow> 'a word \<Rightarrow> 'a word \<times> 'a word" where
  "divrem_u ah al b =
     (let a = unat ah * 2 ^ LENGTH('a) + unat al in (of_nat (a div unat b), of_nat (a mod unat b)))"

definition sf_div :: "fp_format \<Rightarrow> 'a::len word \<Rightarrow> 'a word \<Rightarrow> u32 \<Rightarrow> u32 \<Rightarrow> 'a word \<times> u32" where
  "sf_div F a b rm fl =
     (let r_sign = sf_sign a XOR sf_sign b;
          a_exp = sf_exp F a; b_exp = sf_exp F b;
          a_mant = a AND MANT_MASK F; b_mant = b AND MANT_MASK F;
          em = int (EXP_MASK F);
          nv = (if is_signan F a \<or> is_signan F b then fl OR FFLAG_INVALID_OP else fl) in
      if a_exp = em then
        (if a_mant \<noteq> 0 \<or> is_nan F b then (QNAN F, nv)
         else if b_exp = em then (QNAN F, fl OR FFLAG_INVALID_OP)
         else (sf_pack F r_sign em 0, fl))
      else if b_exp = em then
        (if b_mant \<noteq> 0 then (QNAN F, nv) else (sf_pack F r_sign 0 0, fl))
      else if b_exp = 0 \<and> b_mant = 0 then
        (if a_exp = 0 \<and> a_mant = 0 then (QNAN F, fl OR FFLAG_INVALID_OP)
         else (sf_pack F r_sign em 0, fl OR FFLAG_DIVIDE_ZERO))
      else
        let (b_exp, b_mant) = sf_unpack F b_exp b_mant in
        if a_exp = 0 \<and> a_mant = 0 then (sf_pack F r_sign 0 0, fl)
        else
          let (a_exp, a_mant) = sf_unpack F a_exp a_mant;
              r_exp = a_exp - b_exp + 2 ^ (EXP_SIZE F - 1) - 1;
              (r_mant, r) = divrem_u a_mant 0 (push_bit 2 b_mant);
              r_mant = (if r \<noteq> 0 then r_mant OR 1 else r_mant) in
          normalize F r_sign r_exp r_mant rm fl)"

text \<open>The Newton iteration of \<open>sqrtrem_u\<close>, on the double-width values.\<close>

function sqrt_loop :: "nat \<Rightarrow> nat \<Rightarrow> nat" where
  "sqrt_loop a s = (let u = (a div s + s) div 2 in if u \<ge> s then s else sqrt_loop a u)"
  by pat_completeness auto

termination
  by (relation "measure snd") (auto simp: Let_def)

definition sqrtrem_u :: "'a::len word \<Rightarrow> 'a word \<Rightarrow> 'a word \<times> bool" where
  "sqrtrem_u ah al =
     (if ah = 0 \<and> al = 0 then (0, False)
      else
        let a = unat ah * 2 ^ LENGTH('a) + unat al;
            l = (if ah \<noteq> 0 then 2 * LENGTH('a) - leading_zeros (ah - 1)
              else LENGTH('a) - leading_zeros (al - 1));
            s = sqrt_loop a (2 ^ ((l + 1) div 2)) in
        (of_nat s, a \<noteq> s * s))"

definition sf_sqrt :: "fp_format \<Rightarrow> 'a::len word \<Rightarrow> u32 \<Rightarrow> u32 \<Rightarrow> 'a word \<times> u32" where
  "sf_sqrt F a rm fl =
     (let a_sign = sf_sign a; a_exp = sf_exp F a; a_mant = a AND MANT_MASK F;
          em = int (EXP_MASK F) in
      if a_exp = em then
        (if a_mant \<noteq> 0 then (QNAN F, if is_signan F a then fl OR FFLAG_INVALID_OP else fl)
         else if a_sign \<noteq> 0 then (QNAN F, fl OR FFLAG_INVALID_OP)
         else (a, fl))
      else if a_sign \<noteq> 0 then
        (if a_exp = 0 \<and> a_mant = 0 then (a, fl) else (QNAN F, fl OR FFLAG_INVALID_OP))
      else if a_exp = 0 \<and> a_mant = 0 then (sf_pack F 0 0 0, fl)
      else
        let (a_exp, a_mant) = sf_unpack F a_exp a_mant;
            a_exp = a_exp - em div 2;
            (a_exp, a_mant) = (if a_exp mod 2 \<noteq> 0 then (a_exp - 1, push_bit 1 a_mant)
              else (a_exp, a_mant));
            a_exp = a_exp div 2 + em div 2;
            a_mant = push_bit (LENGTH('a) - 4 - MANT_SIZE F) a_mant;
            (root, inexact) = sqrtrem_u a_mant 0;
            root = (if inexact then root OR 1 else root) in
        normalize F a_sign a_exp root rm fl)"

section \<open>Comparison and classification\<close>

definition min_max_nan :: "fp_format \<Rightarrow> 'a::len word \<Rightarrow> 'a word \<Rightarrow> u32 \<Rightarrow> 'a word \<times> u32" where
  "min_max_nan F a b fl =
     (if is_nan F a then (if is_nan F b then QNAN F else b) else a,
      if is_signan F a \<or> is_signan F b then fl OR FFLAG_INVALID_OP else fl)"

definition sf_min :: "fp_format \<Rightarrow> 'a::len word \<Rightarrow> 'a word \<Rightarrow> u32 \<Rightarrow> 'a word \<times> u32" where
  "sf_min F a b fl =
     (if is_nan F a \<or> is_nan F b then min_max_nan F a b fl
      else if sf_sign a \<noteq> sf_sign b then (if sf_sign a \<noteq> 0 then a else b, fl)
      else (if of_flag (a < b) XOR sf_sign a \<noteq> 0 then a else b, fl))"

definition sf_max :: "fp_format \<Rightarrow> 'a::len word \<Rightarrow> 'a word \<Rightarrow> u32 \<Rightarrow> 'a word \<times> u32" where
  "sf_max F a b fl =
     (if is_nan F a \<or> is_nan F b then min_max_nan F a b fl
      else if sf_sign a \<noteq> sf_sign b then (if sf_sign a \<noteq> 0 then b else a, fl)
      else (if of_flag (a < b) XOR sf_sign a \<noteq> 0 then b else a, fl))"

definition sf_eq_quiet :: "fp_format \<Rightarrow> 'a::len word \<Rightarrow> 'a word \<Rightarrow> u32 \<Rightarrow> bool \<times> u32" where
  "sf_eq_quiet F a b fl =
     (if is_nan F a \<or> is_nan F b then
        (False, if is_signan F a \<or> is_signan F b then fl OR FFLAG_INVALID_OP else fl)
      else if push_bit 1 (a OR b) = 0 then (True, fl)
      else (a = b, fl))"

definition sf_le :: "fp_format \<Rightarrow> 'a::len word \<Rightarrow> 'a word \<Rightarrow> u32 \<Rightarrow> bool \<times> u32" where
  "sf_le F a b fl =
     (if is_nan F a \<or> is_nan F b then (False, fl OR FFLAG_INVALID_OP)
      else
        let a_sign = drop_bit (LENGTH('a) - 1) a; b_sign = drop_bit (LENGTH('a) - 1) b in
        (if a_sign \<noteq> b_sign then a_sign \<noteq> 0 \<or> push_bit 1 (a OR b) = 0
         else if a_sign \<noteq> 0 then a \<ge> b else a \<le> b, fl))"

definition sf_lt :: "fp_format \<Rightarrow> 'a::len word \<Rightarrow> 'a word \<Rightarrow> u32 \<Rightarrow> bool \<times> u32" where
  "sf_lt F a b fl =
     (if is_nan F a \<or> is_nan F b then (False, fl OR FFLAG_INVALID_OP)
      else
        let a_sign = drop_bit (LENGTH('a) - 1) a; b_sign = drop_bit (LENGTH('a) - 1) b in
        (if a_sign \<noteq> b_sign then a_sign \<noteq> 0 \<and> push_bit 1 (a OR b) \<noteq> 0
         else if a_sign \<noteq> 0 then a > b else a < b, fl))"

definition sf_fclass :: "fp_format \<Rightarrow> 'a::len word \<Rightarrow> u32" where
  "sf_fclass F a =
     (let a_sign = sf_sign a; a_exp = sf_exp F a; a_mant = a AND MANT_MASK F in
      if a_exp = int (EXP_MASK F) then
        (if a_mant \<noteq> 0 then
           (if a_mant AND QNAN_MASK F \<noteq> 0 then push_bit 9 1 else push_bit 8 1)
         else if a_sign \<noteq> 0 then push_bit 0 1 else push_bit 7 1)
      else if a_exp = 0 then
        (if a_mant = 0 then (if a_sign \<noteq> 0 then push_bit 3 1 else push_bit 4 1)
         else if a_sign \<noteq> 0 then push_bit 2 1 else push_bit 5 1)
      else if a_sign \<noteq> 0 then push_bit 1 1 else push_bit 6 1)"

section \<open>Conversions\<close>

text \<open>
  The macros \<open>cvt_f_to_i\<close> and \<open>cvt_i_to_f\<close>: \<open>'i\<close> is the integer type of the conversion. The
  flag \<open>uns\<close> is the argument \<open>unsigned\<close>.
\<close>

definition cvt_r_max :: "u32 \<Rightarrow> bool \<Rightarrow> 'i::len word" where
  "cvt_r_max a_sign uns =
     (if uns then ucast a_sign - 1 else push_bit (LENGTH('i) - 1) 1 - ucast (a_sign XOR 1))"

definition cvt_to_i :: "fp_format \<Rightarrow> 'a::len word \<Rightarrow> u32 \<Rightarrow> u32 \<Rightarrow> bool \<Rightarrow> 'i::len word \<times> u32" where
  "cvt_to_i F a rm fl uns =
     (let a_exp = sf_exp F a; a_mant = a AND MANT_MASK F;
          a_sign = (if a_exp = int (EXP_MASK F) \<and> a_mant \<noteq> 0 then 0 else sf_sign a);
          (a_exp, a_mant) = (if a_exp = 0 then (1, a_mant)
            else (a_exp, a_mant OR push_bit (MANT_SIZE F) 1));
          rs = RND_SIZE F a;
          a_mant = push_bit rs a_mant;
          a_exp = a_exp - int (EXP_MASK F) div 2 - int (MANT_SIZE F);
          r_max = (cvt_r_max a_sign uns :: 'i word);
          signed = (\<lambda>r :: 'i word. if a_sign \<noteq> 0 then - r else r) in
      if a_exp \<ge> 0 then
        (if a_exp \<le> int LENGTH('i) - 1 - int (MANT_SIZE F) then
           let r = shl_i (ucast (drop_bit rs a_mant) :: 'i word) a_exp in
           if r > r_max then (r_max, fl OR FFLAG_INVALID_OP) else (signed r, fl)
         else (r_max, fl OR FFLAG_INVALID_OP))
      else
        let a_mant = rshift_rnd a_mant (- a_exp);
            addend = rnd_addend a_sign rm rs;
            rnd_bits = a_mant AND (push_bit rs 1 - 1);
            a_mant = drop_bit rs (a_mant + addend);
            a_mant = (if rm = RM_RNE \<and> rnd_bits = push_bit (rs - 1) 1 then a_mant AND NOT 1
              else a_mant) in
        if unat a_mant > unat r_max then (r_max, fl OR FFLAG_INVALID_OP)
        else (signed (ucast a_mant), if rnd_bits \<noteq> 0 then fl OR FFLAG_INEXACT else fl))"

definition cvt_from_i :: "fp_format \<Rightarrow> 'i::len word \<Rightarrow> u32 \<Rightarrow> u32 \<Rightarrow> bool \<Rightarrow> 'a::len word \<times> u32" where
  "cvt_from_i F a rm fl uns =
     (let neg = (\<not> uns \<and> sint a < 0);
          a_sign = of_flag neg;
          r = (if neg then - a else a);
          a_exp = int (EXP_MASK F) div 2 + int LENGTH('a) - 2;
          l = int LENGTH('i) - int (if r = 0 then LENGTH('i) else leading_zeros r)
            - (int LENGTH('a) - 1);
          (r, a_exp) = (if l > 0
            then (let m = shl_i 1 l - 1 in (shr_i r l OR of_flag (r AND m \<noteq> 0), a_exp + l))
            else (r, a_exp)) in
      normalize F a_sign a_exp (ucast r) rm fl)"

definition cvt_sf32_sf64 :: "u32 \<Rightarrow> u32 \<Rightarrow> u64 \<times> u32" where
  "cvt_sf32_sf64 a fl =
     (let a_sign = (ucast (drop_bit 31 a) :: u64);
          a_exp = drop_bit 23 a AND 0xff;
          a_mant = a AND 0x7fffff in
      if a_exp = 0xff then
        (if a_mant \<noteq> 0 then (QNAN sf64, if is_signan sf32 a then fl OR FFLAG_INVALID_OP else fl)
         else (push_bit 63 a_sign OR push_bit 52 0x7ff, fl))
      else if a_exp = 0 then
        (if a_mant = 0 then (push_bit 63 a_sign, fl)
         else
           let shift = 23 - (31 - leading_zeros a_mant);
               e = 1 - int shift;
               mant = push_bit shift a_mant AND 0x7fffff;
               e = (word_of_int (e - 0x7f + 0x3ff) :: u64) in
           (push_bit 63 a_sign OR push_bit 52 e OR push_bit (52 - 23) (ucast mant), fl))
      else
        let e = (ucast (a_exp - 0x7f + 0x3ff) :: u64) in
        (push_bit 63 a_sign OR push_bit 52 e OR push_bit (52 - 23) (ucast a_mant), fl))"

definition rshift_rnd_u64 :: "u64 \<Rightarrow> int \<Rightarrow> u64" where
  "rshift_rnd_u64 a d =
     (if d = 0 then a
      else if d \<ge> 64 then of_flag (a \<noteq> 0)
      else let m = shl_i 1 d - 1 in shr_i a d OR of_flag (a AND m \<noteq> 0))"

definition round_pack_sf32 :: "u32 \<Rightarrow> int \<Rightarrow> u32 \<Rightarrow> u32 \<Rightarrow> u32 \<Rightarrow> u32 \<times> u32" where
  "round_pack_sf32 sign e mant rm fl =
     (let RND_SIZE = 7; MANT_SIZE = 23; EXP_MASK = 0xff;
          MANT_MASK = push_bit MANT_SIZE 1 - 1;
          addend = (if rm = RM_RNE \<or> rm = RM_RMM then push_bit (RND_SIZE - 1) 1
            else if rm = RM_RTZ then 0
            else if sign XOR (rm AND 1) \<noteq> 0 then push_bit RND_SIZE 1 - 1 else 0);
          (e, mant, rnd_bits, fl) =
            (if e \<le> 0 then
               let is_subnormal = (e < 0 \<or> mant + addend < push_bit 31 1);
                   mant = ucast (rshift_rnd_u64 (ucast mant) (1 - e));
                   rnd_bits = mant AND (push_bit RND_SIZE 1 - 1) in
               (1, mant, rnd_bits,
                if is_subnormal \<and> rnd_bits \<noteq> 0 then fl OR FFLAG_UNDERFLOW else fl)
             else (e, mant, mant AND (push_bit RND_SIZE 1 - 1), fl));
          fl = (if rnd_bits \<noteq> 0 then fl OR FFLAG_INEXACT else fl);
          mant = drop_bit RND_SIZE (mant + addend);
          mant = (if rm = RM_RNE \<and> rnd_bits = push_bit (RND_SIZE - 1) 1 then mant AND NOT 1
            else mant);
          e = e + uint (drop_bit (MANT_SIZE + 1) mant);
          (e, mant, fl) =
            (if mant \<le> MANT_MASK then (0, mant, fl)
             else if e \<ge> EXP_MASK then
               (if addend = 0 then (EXP_MASK - 1, MANT_MASK, fl OR (FFLAG_OVERFLOW OR FFLAG_INEXACT))
                else (EXP_MASK, 0, fl OR (FFLAG_OVERFLOW OR FFLAG_INEXACT)))
             else (e, mant, fl)) in
      (sf_pack sf32 sign e mant, fl))"

definition normalize_sf32_from :: "u32 \<Rightarrow> int \<Rightarrow> u32 \<Rightarrow> u32 \<Rightarrow> u32 \<Rightarrow> u32 \<times> u32" where
  "normalize_sf32_from sign e mant rm fl =
     (let shift = int (leading_zeros mant) - 1 in
      round_pack_sf32 sign (e - shift) (shl_i mant shift) rm fl)"

definition cvt_sf64_sf32 :: "u64 \<Rightarrow> u32 \<Rightarrow> u32 \<Rightarrow> u32 \<times> u32" where
  "cvt_sf64_sf32 a rm fl =
     (let a_sign = (ucast (drop_bit 63 a) :: u32);
          a_exp = uint (drop_bit 52 a AND 0x7ff);
          a_mant = a AND 0xfffffffffffff in
      if a_exp = 0x7ff then
        (if a_mant \<noteq> 0 then (QNAN sf32, if is_signan sf64 a then fl OR FFLAG_INVALID_OP else fl)
         else (sf_pack sf32 a_sign 0xff 0, fl))
      else if a_exp = 0 \<and> a_mant = 0 then (sf_pack sf32 a_sign 0 0, fl)
      else
        let shift = 52 - (63 - leading_zeros a_mant);
            (a_exp, a_mant) = (if a_exp = 0 then (1 - int shift, push_bit shift a_mant)
              else (a_exp, a_mant OR push_bit 52 1));
            exp32 = a_exp - 0x3ff + 0x7f;
            mant = rshift_rnd_u64 a_mant (52 - 30) in
        normalize_sf32_from a_sign exp32 (ucast mant) rm fl)"

definition cvt_sf64_sf32_rod :: "u64 \<Rightarrow> u32 \<Rightarrow> u32 \<times> u32" where
  "cvt_sf64_sf32_rod a fl =
     (let (result, local_flags) = cvt_sf64_sf32 a RM_RTZ 0;
          result = (if local_flags AND FFLAG_INEXACT \<noteq> 0 \<and> \<not> is_nan sf32 result
            then result OR 1 else result) in
      (result, fl OR local_flags))"

end
