(* ===== verification/Fpu.thy ===== *)
theory Fpu
  imports SoftFp CpuState
begin

text \<open>
  The floating-point instructions of \<open>crates/rv64-core/src/cpu.rs\<close>: rounding-mode resolution,
  the native fast paths \<open>fp_fast32\<close> and \<open>fp_fast64\<close>, and \<open>op_fp\<close>. The native \<open>+\<close>, \<open>-\<close>, \<open>*\<close> and
  \<open>/\<close> of \<open>f32\<close> and \<open>f64\<close>, which the fast paths apply to finite operands, are the IEEE 754
  operations in round-to-nearest-even: the exact result, rounded once.
\<close>

section \<open>Native arithmetic on finite operands\<close>

text \<open>The value of a finite float is \<open>fp_int F a * 2 powr fp_scale F a\<close>, both integers.\<close>

definition fp_bias :: "fp_format \<Rightarrow> int" where
  "fp_bias F = 2 ^ (EXP_SIZE F - 1) - 1"

definition fp_min_scale :: "fp_format \<Rightarrow> int" where
  "fp_min_scale F = 1 - fp_bias F - int (MANT_SIZE F)"

definition fp_scale :: "fp_format \<Rightarrow> 'a::len word \<Rightarrow> int" where
  "fp_scale F a = max 1 (sf_exp F a) - fp_bias F - int (MANT_SIZE F)"

definition fp_magnitude :: "fp_format \<Rightarrow> 'a::len word \<Rightarrow> nat" where
  "fp_magnitude F a =
     unat (sf_mant F a) + (if sf_exp F a = 0 then 0 else 2 ^ MANT_SIZE F)"

definition fp_neg :: "'a::len word \<Rightarrow> bool" where
  "fp_neg a \<longleftrightarrow> sf_sign a \<noteq> 0"

definition fp_int :: "fp_format \<Rightarrow> 'a::len word \<Rightarrow> int" where
  "fp_int F a = (if fp_neg a then - int (fp_magnitude F a) else int (fp_magnitude F a))"

fun bitlen :: "nat \<Rightarrow> nat" where
  "bitlen n = (if n = 0 then 0 else Suc (bitlen (n div 2)))"

declare bitlen.simps [simp del]

text \<open>\<open>p / q\<close> to the nearest integer, ties to even.\<close>

definition div_rne :: "nat \<Rightarrow> nat \<Rightarrow> nat" where
  "div_rne p q =
     (let k = p div q; r = p mod q in if 2 * r > q \<or> (2 * r = q \<and> odd k) then k + 1 else k)"

definition floor_lg :: "nat \<Rightarrow> nat \<Rightarrow> int" where
  "floor_lg p q =
     (let d = int (bitlen p) - int (bitlen q) in
      if p * 2 ^ nat (- d) \<ge> q * 2 ^ nat d then d else d - 1)"

text \<open>
  The float nearest to \<open>(p / q) * 2 powr e\<close>, for \<open>q > 0\<close>: \<open>n\<close> units of the quantum \<open>2 powr u\<close>,
  whose encoding is \<open>n + (u - min_scale) * 2 ^ MANT_SIZE\<close>, or infinity.
\<close>

definition ieee_round :: "fp_format \<Rightarrow> bool \<Rightarrow> nat \<Rightarrow> nat \<Rightarrow> int \<Rightarrow> 'a::len word" where
  "ieee_round F neg p q e =
     (let m = (if p = 0 then 0
        else
          let u = max (fp_min_scale F) (floor_lg p q + e - int (MANT_SIZE F));
              n = (if e \<ge> u then div_rne (p * 2 ^ nat (e - u)) q
                else div_rne p (q * 2 ^ nat (u - e))) in
          min (n + nat (u - fp_min_scale F) * 2 ^ MANT_SIZE F) (EXP_MASK F * 2 ^ MANT_SIZE F)) in
      of_nat m OR (if neg then SIGN_MASK F else 0))"

definition native_add :: "fp_format \<Rightarrow> 'a::len word \<Rightarrow> 'a word \<Rightarrow> 'a word" where
  "native_add F a b =
     (let e = min (fp_scale F a) (fp_scale F b);
          s = fp_int F a * 2 ^ nat (fp_scale F a - e) + fp_int F b * 2 ^ nat (fp_scale F b - e);
          neg = (if s = 0 then fp_neg a \<and> fp_neg b else s < 0) in
      ieee_round F neg (nat \<bar>s\<bar>) 1 e)"

definition native_sub :: "fp_format \<Rightarrow> 'a::len word \<Rightarrow> 'a word \<Rightarrow> 'a word" where
  "native_sub F a b = native_add F a (b XOR SIGN_MASK F)"

definition native_mul :: "fp_format \<Rightarrow> 'a::len word \<Rightarrow> 'a word \<Rightarrow> 'a word" where
  "native_mul F a b =
     ieee_round F (fp_neg a \<noteq> fp_neg b) (fp_magnitude F a * fp_magnitude F b) 1
       (fp_scale F a + fp_scale F b)"

definition native_div :: "fp_format \<Rightarrow> 'a::len word \<Rightarrow> 'a word \<Rightarrow> 'a word" where
  "native_div F a b =
     ieee_round F (fp_neg a \<noteq> fp_neg b) (fp_magnitude F a) (fp_magnitude F b)
       (fp_scale F a - fp_scale F b)"

section \<open>Rounding modes and fast paths\<close>

definition get_rm :: "cpu \<Rightarrow> u32 \<Rightarrow> u32 option" where
  "get_rm c rm_field =
     (let rm = (if rm_field = 7 then drop_bit 5 (fcsr c) AND 7 else rm_field) in
      if rm \<le> 4 then Some rm else None)"

definition fp_fast64 :: "u32 \<Rightarrow> u64 \<Rightarrow> u64 \<Rightarrow> u64 option" where
  "fp_fast64 op a b =
     (let ea = drop_bit 52 a AND 0x7ff; eb = drop_bit 52 b AND 0x7ff in
      if ea = 0x7ff \<or> eb = 0x7ff then None
      else if op = 3 \<and> push_bit 1 b = 0 then None
      else
        let rb = (if op = 0 then native_add sf64 a b
              else if op = 1 then native_sub sf64 a b
              else if op = 2 then native_mul sf64 a b
              else native_div sf64 a b);
            er = drop_bit 52 rb AND 0x7ff;
            ok = (if op = 0 \<or> op = 1 then er \<noteq> 0x7ff
              else if op = 2 then (1 \<le> er \<and> er \<le> 0x7fe)
                \<or> (push_bit 1 rb = 0 \<and> (push_bit 1 a = 0 \<or> push_bit 1 b = 0))
              else (1 \<le> er \<and> er \<le> 0x7fe) \<or> (push_bit 1 rb = 0 \<and> push_bit 1 a = 0)) in
        if ok then Some rb else None)"

definition fp_fast32 :: "u32 \<Rightarrow> u32 \<Rightarrow> u32 \<Rightarrow> u32 option" where
  "fp_fast32 op a b =
     (let ea = drop_bit 23 a AND 0xff; eb = drop_bit 23 b AND 0xff in
      if ea = 0xff \<or> eb = 0xff then None
      else if op = 3 \<and> push_bit 1 b = 0 then None
      else
        let rb = (if op = 0 then native_add sf32 a b
              else if op = 1 then native_sub sf32 a b
              else if op = 2 then native_mul sf32 a b
              else native_div sf32 a b);
            er = drop_bit 23 rb AND 0xff;
            ok = (if op = 0 \<or> op = 1 then er \<noteq> 0xff
              else if op = 2 then (1 \<le> er \<and> er \<le> 0xfe)
                \<or> (push_bit 1 rb = 0 \<and> (push_bit 1 a = 0 \<or> push_bit 1 b = 0))
              else (1 \<le> er \<and> er \<le> 0xfe) \<or> (push_bit 1 rb = 0 \<and> push_bit 1 a = 0)) in
        if ok then Some rb else None)"

section \<open>OP-FP\<close>

definition ub32 :: "u64 \<Rightarrow> u32" where
  "ub32 r = (if drop_bit 32 r = 0xffffffff then ucast r else 0x7fc00000)"

definition bx32 :: "u32 \<Rightarrow> u64" where
  "bx32 v = 0xffffffff00000000 OR ucast v"

definition set_f32 :: "nat \<Rightarrow> u32 \<times> u32 \<Rightarrow> cpu \<Rightarrow> cpu" where
  "set_f32 d p c = (set_f d (bx32 (fst p)) c)\<lparr>fcsr := fcsr c OR (snd p AND 0x1f)\<rparr>"

definition set_f64 :: "nat \<Rightarrow> u64 \<times> u32 \<Rightarrow> cpu \<Rightarrow> cpu" where
  "set_f64 d p c = (set_f d (fst p) c)\<lparr>fcsr := fcsr c OR (snd p AND 0x1f)\<rparr>"

definition set_xf :: "nat \<Rightarrow> u64 \<times> u32 \<Rightarrow> cpu \<Rightarrow> cpu" where
  "set_xf d p c = (wr d (fst p) c)\<lparr>fcsr := fcsr c OR (snd p AND 0x1f)\<rparr>"

definition sf_arith :: "fp_format \<Rightarrow> u32 \<Rightarrow> 'a::len word \<Rightarrow> 'a word \<Rightarrow> u32 \<Rightarrow> u32 \<Rightarrow> 'a word \<times> u32" where
  "sf_arith F op a b rm fl =
     (if op = 0 then sf_add F a b rm fl
      else if op = 1 then sf_sub F a b rm fl
      else if op = 2 then sf_mul F a b rm fl
      else sf_div F a b rm fl)"

text \<open>
  The groups of arms of \<open>op_fp\<close>; \<^const>\<open>None\<close> is \<open>Err(ill)\<close>. The flags start at 0 and are
  merged into \<open>fcsr\<close> at the end, except on the fast path, which returns before that.
\<close>

definition op_fp_arith :: "u32 \<Rightarrow> u32 \<Rightarrow> u32 \<Rightarrow> nat \<Rightarrow> nat \<Rightarrow> nat \<Rightarrow> cpu \<Rightarrow> cpu option" where
  "op_fp_arith op fmt f3 d s1 s2 c =
     (case get_rm c f3 of None \<Rightarrow> None
      | Some rm \<Rightarrow>
        let fast = (rm = RM_RNE \<and> fcsr c AND FFLAG_INEXACT \<noteq> 0) in
        if fmt = 0 then
          let a = ub32 (freg c s1); b = ub32 (freg c s2) in
          case (if fast then fp_fast32 op a b else None) of
            Some r \<Rightarrow> Some (set_f d (bx32 r) c)
          | None \<Rightarrow> Some (set_f32 d (sf_arith sf32 op a b rm 0) c)
        else
          let a = freg c s1; b = freg c s2 in
          case (if fast then fp_fast64 op a b else None) of
            Some r \<Rightarrow> Some (set_f d r c)
          | None \<Rightarrow> Some (set_f64 d (sf_arith sf64 op a b rm 0) c))"

definition op_fp_sqrt :: "u32 \<Rightarrow> u32 \<Rightarrow> nat \<Rightarrow> nat \<Rightarrow> cpu \<Rightarrow> cpu option" where
  "op_fp_sqrt fmt f3 d s1 c =
     (case get_rm c f3 of None \<Rightarrow> None
      | Some rm \<Rightarrow>
        if fmt = 0 then Some (set_f32 d (sf_sqrt sf32 (ub32 (freg c s1)) rm 0) c)
        else Some (set_f64 d (sf_sqrt sf64 (freg c s1) rm 0) c))"

definition op_fp_sgnj :: "u32 \<Rightarrow> u32 \<Rightarrow> nat \<Rightarrow> nat \<Rightarrow> nat \<Rightarrow> cpu \<Rightarrow> cpu option" where
  "op_fp_sgnj fmt f3 d s1 s2 c =
     (if fmt = 0 then
        let a = ub32 (freg c s1); b = ub32 (freg c s2) in
        if f3 = 0 then Some (set_f32 d ((a AND 0x7fffffff) OR (b AND 0x80000000), 0) c)
        else if f3 = 1 then Some (set_f32 d ((a AND 0x7fffffff) OR (NOT b AND 0x80000000), 0) c)
        else if f3 = 2 then Some (set_f32 d (a XOR (b AND 0x80000000), 0) c)
        else None
      else
        let a = freg c s1; b = freg c s2; S = push_bit 63 1 in
        if f3 = 0 then Some (set_f64 d ((a AND NOT S) OR (b AND S), 0) c)
        else if f3 = 1 then Some (set_f64 d ((a AND NOT S) OR (NOT b AND S), 0) c)
        else if f3 = 2 then Some (set_f64 d (a XOR (b AND S), 0) c)
        else None)"

definition op_fp_minmax :: "u32 \<Rightarrow> u32 \<Rightarrow> nat \<Rightarrow> nat \<Rightarrow> nat \<Rightarrow> cpu \<Rightarrow> cpu option" where
  "op_fp_minmax fmt f3 d s1 s2 c =
     (if fmt = 0 then
        let a = ub32 (freg c s1); b = ub32 (freg c s2) in
        if f3 = 0 then Some (set_f32 d (sf_min sf32 a b 0) c)
        else if f3 = 1 then Some (set_f32 d (sf_max sf32 a b 0) c)
        else None
      else
        let a = freg c s1; b = freg c s2 in
        if f3 = 0 then Some (set_f64 d (sf_min sf64 a b 0) c)
        else if f3 = 1 then Some (set_f64 d (sf_max sf64 a b 0) c)
        else None)"

definition op_fp_cvt_ff :: "u32 \<Rightarrow> u32 \<Rightarrow> nat \<Rightarrow> nat \<Rightarrow> nat \<Rightarrow> cpu \<Rightarrow> cpu option" where
  "op_fp_cvt_ff fmt f3 d s1 s2 c =
     (if fmt = 0 \<and> s2 = 1 then
        (case get_rm c f3 of None \<Rightarrow> None
         | Some rm \<Rightarrow> Some (set_f32 d (cvt_sf64_sf32 (freg c s1) rm 0) c))
      else if fmt = 1 \<and> s2 = 0 then Some (set_f64 d (cvt_sf32_sf64 (ub32 (freg c s1)) 0) c)
      else None)"

definition flag_u64 :: "bool \<times> u32 \<Rightarrow> u64 \<times> u32" where
  "flag_u64 p = (of_flag (fst p), snd p)"

definition op_fp_cmp :: "u32 \<Rightarrow> u32 \<Rightarrow> nat \<Rightarrow> nat \<Rightarrow> nat \<Rightarrow> cpu \<Rightarrow> cpu option" where
  "op_fp_cmp fmt f3 d s1 s2 c =
     (if fmt = 0 then
        let a = ub32 (freg c s1); b = ub32 (freg c s2) in
        if f3 = 2 then Some (set_xf d (flag_u64 (sf_eq_quiet sf32 a b 0)) c)
        else if f3 = 1 then Some (set_xf d (flag_u64 (sf_lt sf32 a b 0)) c)
        else if f3 = 0 then Some (set_xf d (flag_u64 (sf_le sf32 a b 0)) c)
        else None
      else
        let a = freg c s1; b = freg c s2 in
        if f3 = 2 then Some (set_xf d (flag_u64 (sf_eq_quiet sf64 a b 0)) c)
        else if f3 = 1 then Some (set_xf d (flag_u64 (sf_lt sf64 a b 0)) c)
        else if f3 = 0 then Some (set_xf d (flag_u64 (sf_le sf64 a b 0)) c)
        else None)"

text \<open>\<open>cvt_to_i32(..) as i32 as i64 as u64\<close> and \<open>cvt_to_i64(..)\<close>.\<close>

definition cvt_to_x :: "fp_format \<Rightarrow> nat \<Rightarrow> 'a::len word \<Rightarrow> u32 \<Rightarrow> (u64 \<times> u32) option" where
  "cvt_to_x F sel a rm =
     (let w = (\<lambda>p :: u32 \<times> u32. (scast (fst p) :: u64, snd p)) in
      if sel = 0 then Some (w (cvt_to_i F a rm 0 False))
      else if sel = 1 then Some (w (cvt_to_i F a rm 0 True))
      else if sel = 2 then Some (cvt_to_i F a rm 0 False)
      else if sel = 3 then Some (cvt_to_i F a rm 0 True)
      else None)"

definition op_fp_to_int :: "u32 \<Rightarrow> u32 \<Rightarrow> nat \<Rightarrow> nat \<Rightarrow> nat \<Rightarrow> cpu \<Rightarrow> cpu option" where
  "op_fp_to_int fmt f3 d s1 s2 c =
     (case get_rm c f3 of None \<Rightarrow> None
      | Some rm \<Rightarrow>
        map_option (\<lambda>p. set_xf d p c)
          (if fmt = 0 then cvt_to_x sf32 s2 (ub32 (freg c s1)) rm else cvt_to_x sf64 s2 (freg c s1) rm))"

definition cvt_from_x :: "fp_format \<Rightarrow> nat \<Rightarrow> u64 \<Rightarrow> u32 \<Rightarrow> ('a::len word \<times> u32) option" where
  "cvt_from_x F sel x rm =
     (if sel = 0 then Some (cvt_from_i F (ucast x :: u32) rm 0 False)
      else if sel = 1 then Some (cvt_from_i F (ucast x :: u32) rm 0 True)
      else if sel = 2 then Some (cvt_from_i F x rm 0 False)
      else if sel = 3 then Some (cvt_from_i F x rm 0 True)
      else None)"

definition op_fp_from_int :: "u32 \<Rightarrow> u32 \<Rightarrow> nat \<Rightarrow> nat \<Rightarrow> nat \<Rightarrow> cpu \<Rightarrow> cpu option" where
  "op_fp_from_int fmt f3 d s1 s2 c =
     (case get_rm c f3 of None \<Rightarrow> None
      | Some rm \<Rightarrow>
        if fmt = 0 then map_option (\<lambda>p. set_f32 d p c) (cvt_from_x sf32 s2 (xreg c s1) rm)
        else map_option (\<lambda>p. set_f64 d p c) (cvt_from_x sf64 s2 (xreg c s1) rm))"

definition op_fp_move :: "u32 \<Rightarrow> u32 \<Rightarrow> u32 \<Rightarrow> nat \<Rightarrow> nat \<Rightarrow> cpu \<Rightarrow> cpu option" where
  "op_fp_move op fmt f3 d s1 c =
     (if op = 0x1c \<and> fmt = 0 \<and> f3 = 0 then
        Some (set_xf d (scast (ucast (freg c s1) :: u32), 0) c)
      else if op = 0x1c \<and> fmt = 0 \<and> f3 = 1 then
        Some (set_xf d (ucast (sf_fclass sf32 (ub32 (freg c s1))), 0) c)
      else if op = 0x1c \<and> fmt = 1 \<and> f3 = 0 then Some (set_xf d (freg c s1, 0) c)
      else if op = 0x1c \<and> fmt = 1 \<and> f3 = 1 then
        Some (set_xf d (ucast (sf_fclass sf64 (freg c s1)), 0) c)
      else if op = 0x1e \<and> fmt = 0 \<and> f3 = 0 then Some (set_f32 d (ucast (xreg c s1), 0) c)
      else if op = 0x1e \<and> fmt = 1 \<and> f3 = 0 then Some (set_f64 d (xreg c s1, 0) c)
      else None)"

definition op_fp :: "u32 \<Rightarrow> cpu \<Rightarrow> cpu option" where
  "op_fp insn c =
     (let f7 = funct7 insn; fmt = f7 AND 3; op = drop_bit 2 f7; f3 = funct3 insn;
          d = rd insn; s1 = rs1 insn; s2 = rs2 insn in
      if fmt \<noteq> 0 \<and> fmt \<noteq> 1 then None
      else if op \<le> 3 then op_fp_arith op fmt f3 d s1 s2 c
      else if op = 0x0b \<and> s2 = 0 then op_fp_sqrt fmt f3 d s1 c
      else if op = 0x04 then op_fp_sgnj fmt f3 d s1 s2 c
      else if op = 0x05 then op_fp_minmax fmt f3 d s1 s2 c
      else if op = 0x08 then op_fp_cvt_ff fmt f3 d s1 s2 c
      else if op = 0x14 then op_fp_cmp fmt f3 d s1 s2 c
      else if op = 0x18 then op_fp_to_int fmt f3 d s1 s2 c
      else if op = 0x1a then op_fp_from_int fmt f3 d s1 s2 c
      else op_fp_move op fmt f3 d s1 c)"

section \<open>Fused multiply-add\<close>

definition op_fma :: "u32 \<Rightarrow> cpu \<Rightarrow> cpu option" where
  "op_fma insn c =
     (let rs3 = unat (drop_bit 27 insn);
          neg_prod = (opcode insn = 0x4b \<or> opcode insn = 0x4f);
          neg_c = (opcode insn = 0x47 \<or> opcode insn = 0x4f);
          fmt = drop_bit 25 insn AND 3 in
      case get_rm c (funct3 insn) of None \<Rightarrow> None
      | Some rm \<Rightarrow>
        if fmt = 0 then
          let a = ub32 (freg c (rs1 insn)); b = ub32 (freg c (rs2 insn)); cc = ub32 (freg c rs3);
              a = (if neg_prod then a XOR 0x80000000 else a);
              cc = (if neg_c then cc XOR 0x80000000 else cc) in
          Some (set_f32 (rd insn) (sf_fma sf32 a b cc rm 0) c)
        else if fmt = 1 then
          let a = freg c (rs1 insn); b = freg c (rs2 insn); cc = freg c rs3;
              a = (if neg_prod then a XOR push_bit 63 1 else a);
              cc = (if neg_c then cc XOR push_bit 63 1 else cc) in
          Some (set_f64 (rd insn) (sf_fma sf64 a b cc rm 0) c)
        else None)"

end
