(* ===== verification/Compressed.thy ===== *)
theory Compressed
  imports Decode
begin

text \<open>
  The RVC expander, \<open>crates/rv64-core/src/compressed.rs\<close>: the encoders of the 32-bit
  formats and the map from 16-bit instructions to 32-bit ones, with the facts that the
  decoder of \<open>decode.rs\<close> reads back the fields an encoder was given.
\<close>

section \<open>Encoders\<close>

definition enc_r :: "u32 \<Rightarrow> u32 \<Rightarrow> u32 \<Rightarrow> u32 \<Rightarrow> u32 \<Rightarrow> u32 \<Rightarrow> u32" where
  "enc_r op rd' f3 rs1' rs2' f7 =
     op OR push_bit 7 rd' OR push_bit 12 f3 OR push_bit 15 rs1' OR push_bit 20 rs2' OR push_bit 25 f7"

definition enc_i :: "u32 \<Rightarrow> u32 \<Rightarrow> u32 \<Rightarrow> u32 \<Rightarrow> i32 \<Rightarrow> u32" where
  "enc_i op rd' f3 rs1' imm =
     op OR push_bit 7 rd' OR push_bit 12 f3 OR push_bit 15 rs1' OR push_bit 20 (imm AND 0xfff)"

definition enc_s :: "u32 \<Rightarrow> u32 \<Rightarrow> u32 \<Rightarrow> u32 \<Rightarrow> i32 \<Rightarrow> u32" where
  "enc_s op f3 rs1' rs2' imm =
     op OR (push_bit 7 (imm AND 0x1f) OR push_bit 12 f3 OR push_bit 15 rs1' OR push_bit 20 rs2'
       OR push_bit 20 (imm AND 0xfe0))"

definition enc_b :: "u32 \<Rightarrow> u32 \<Rightarrow> u32 \<Rightarrow> u32 \<Rightarrow> i32 \<Rightarrow> u32" where
  "enc_b op f3 rs1' rs2' imm =
     op OR push_bit 7 (drop_bit 11 imm AND 1)
        OR push_bit 8 (drop_bit 1 imm AND 0xf)
        OR push_bit 12 f3
        OR push_bit 15 rs1'
        OR push_bit 20 rs2'
        OR push_bit 25 (drop_bit 5 imm AND 0x3f)
        OR push_bit 31 (drop_bit 12 imm AND 1)"

definition enc_u :: "u32 \<Rightarrow> u32 \<Rightarrow> u32 \<Rightarrow> u32" where
  "enc_u op rd' imm20 = op OR push_bit 7 rd' OR push_bit 12 imm20"

definition enc_j :: "u32 \<Rightarrow> u32 \<Rightarrow> i32 \<Rightarrow> u32" where
  "enc_j op rd' imm =
     op OR push_bit 7 rd'
        OR (imm AND 0xff000)
        OR push_bit 20 (drop_bit 11 imm AND 1)
        OR push_bit 21 (drop_bit 1 imm AND 0x3ff)
        OR push_bit 31 (drop_bit 20 imm AND 1)"

section \<open>Field helpers\<close>

definition creg :: "u32 \<Rightarrow> u32" where
  "creg f = f + 8"

definition sext :: "u32 \<Rightarrow> nat \<Rightarrow> i32" where
  "sext val bits = signed_drop_bit (32 - bits) (push_bit (32 - bits) val)"

definition OP :: u32 where "OP = 0x33"
definition OP32 :: u32 where "OP32 = 0x3b"
definition OPIMM :: u32 where "OPIMM = 0x13"
definition OPIMM32 :: u32 where "OPIMM32 = 0x1b"
definition LOAD :: u32 where "LOAD = 0x03"
definition STORE :: u32 where "STORE = 0x23"
definition LOADFP :: u32 where "LOADFP = 0x07"
definition STOREFP :: u32 where "STOREFP = 0x27"
definition LUI :: u32 where "LUI = 0x37"
definition JAL :: u32 where "JAL = 0x6f"
definition JALR :: u32 where "JALR = 0x67"
definition BRANCH :: u32 where "BRANCH = 0x63"

lemmas opcode_defs = OP_def OP32_def OPIMM_def OPIMM32_def LOAD_def STORE_def LOADFP_def
  STOREFP_def LUI_def JAL_def JALR_def BRANCH_def

section \<open>The expander\<close>

text \<open>The three quadrants; \<open>c\<close> is the halfword widened to 32 bits.\<close>

definition expand_q0 :: "u32 \<Rightarrow> u32 option" where
  "expand_q0 c = (
     let f3 = drop_bit 13 c AND 7;
         rd = creg (drop_bit 2 c AND 7);
         rs1 = creg (drop_bit 7 c AND 7);
         imm_w = push_bit 3 (drop_bit 10 c AND 7) OR push_bit 2 (drop_bit 6 c AND 1)
           OR push_bit 6 (drop_bit 5 c AND 1);
         imm_d = push_bit 3 (drop_bit 10 c AND 7) OR push_bit 6 (drop_bit 5 c AND 3) in
     if f3 = 0 then
       (let imm = push_bit 4 (drop_bit 11 c AND 3) OR push_bit 6 (drop_bit 7 c AND 0xf)
          OR push_bit 2 (drop_bit 6 c AND 1) OR push_bit 3 (drop_bit 5 c AND 1) in
        if imm = 0 then None else Some (enc_i OPIMM rd 0 2 imm))
     else if f3 = 2 then Some (enc_i LOAD rd 2 rs1 imm_w)
     else if f3 = 3 then Some (enc_i LOAD rd 3 rs1 imm_d)
     else if f3 = 6 then Some (enc_s STORE 2 rs1 rd imm_w)
     else if f3 = 7 then Some (enc_s STORE 3 rs1 rd imm_d)
     else if f3 = 1 then Some (enc_i LOADFP rd 3 rs1 imm_d)
     else if f3 = 5 then Some (enc_s STOREFP 3 rs1 rd imm_d)
     else None)"

definition expand_q1_alu :: "u32 \<Rightarrow> u32 option" where
  "expand_q1_alu c = (
     let imm6 = sext (push_bit 5 (drop_bit 12 c AND 1) OR (drop_bit 2 c AND 0x1f)) 6;
         rdp = creg (drop_bit 7 c AND 7);
         shamt = push_bit 5 (drop_bit 12 c AND 1) OR (drop_bit 2 c AND 0x1f);
         sel = drop_bit 10 c AND 3 in
     if sel = 0 then Some (enc_i OPIMM rdp 5 rdp shamt)
     else if sel = 1 then Some (enc_i OPIMM rdp 5 rdp (shamt OR 0x400))
     else if sel = 2 then Some (enc_i OPIMM rdp 7 rdp imm6)
     else
       (let rs2 = creg (drop_bit 2 c AND 7);
            k = push_bit 2 (drop_bit 12 c AND 1) OR (drop_bit 5 c AND 3) in
        if k = 0 then Some (enc_r OP rdp 0 rdp rs2 0x20)
        else if k = 1 then Some (enc_r OP rdp 4 rdp rs2 0)
        else if k = 2 then Some (enc_r OP rdp 6 rdp rs2 0)
        else if k = 3 then Some (enc_r OP rdp 7 rdp rs2 0)
        else if k = 4 then Some (enc_r OP32 rdp 0 rdp rs2 0x20)
        else if k = 5 then Some (enc_r OP32 rdp 0 rdp rs2 0)
        else None))"

definition expand_q1 :: "u32 \<Rightarrow> u32 option" where
  "expand_q1 c = (
     let f3 = drop_bit 13 c AND 7;
         rd = drop_bit 7 c AND 0x1f;
         imm6 = sext (push_bit 5 (drop_bit 12 c AND 1) OR (drop_bit 2 c AND 0x1f)) 6 in
     if f3 = 0 then Some (enc_i OPIMM rd 0 rd imm6)
     else if f3 = 1 then (if rd = 0 then None else Some (enc_i OPIMM32 rd 0 rd imm6))
     else if f3 = 2 then Some (enc_i OPIMM rd 0 0 imm6)
     else if f3 = 3 then
       (if rd = 2 then
          (let imm = sext (push_bit 9 (drop_bit 12 c AND 1) OR push_bit 4 (drop_bit 6 c AND 1)
             OR push_bit 6 (drop_bit 5 c AND 1) OR push_bit 7 (drop_bit 3 c AND 3)
             OR push_bit 5 (drop_bit 2 c AND 1)) 10 in
           if imm = 0 then None else Some (enc_i OPIMM 2 0 2 imm))
        else if imm6 = 0 then None else Some (enc_u LUI rd (imm6 AND 0xfffff)))
     else if f3 = 4 then expand_q1_alu c
     else if f3 = 5 then
       (let imm = sext (push_bit 11 (drop_bit 12 c AND 1) OR push_bit 4 (drop_bit 11 c AND 1)
          OR push_bit 8 (drop_bit 9 c AND 3) OR push_bit 10 (drop_bit 8 c AND 1)
          OR push_bit 6 (drop_bit 7 c AND 1) OR push_bit 7 (drop_bit 6 c AND 1)
          OR push_bit 1 (drop_bit 3 c AND 7) OR push_bit 5 (drop_bit 2 c AND 1)) 12 in
        Some (enc_j JAL 0 imm))
     else
       (let rs1 = creg (drop_bit 7 c AND 7);
            imm = sext (push_bit 8 (drop_bit 12 c AND 1) OR push_bit 3 (drop_bit 10 c AND 3)
              OR push_bit 6 (drop_bit 5 c AND 3) OR push_bit 1 (drop_bit 3 c AND 3)
              OR push_bit 5 (drop_bit 2 c AND 1)) 9 in
        Some (enc_b BRANCH (if f3 = 6 then 0 else 1) rs1 0 imm)))"

definition expand_q2 :: "u32 \<Rightarrow> u32 option" where
  "expand_q2 c = (
     let f3 = drop_bit 13 c AND 7;
         rd = drop_bit 7 c AND 0x1f;
         rs2 = drop_bit 2 c AND 0x1f;
         shamt = push_bit 5 (drop_bit 12 c AND 1) OR (drop_bit 2 c AND 0x1f);
         imm_lw = push_bit 5 (drop_bit 12 c AND 1) OR push_bit 2 (drop_bit 4 c AND 7)
           OR push_bit 6 (drop_bit 2 c AND 3);
         imm_ld = push_bit 5 (drop_bit 12 c AND 1) OR push_bit 3 (drop_bit 5 c AND 3)
           OR push_bit 6 (drop_bit 2 c AND 7);
         imm_sw = push_bit 2 (drop_bit 9 c AND 0xf) OR push_bit 6 (drop_bit 7 c AND 3);
         imm_sd = push_bit 3 (drop_bit 10 c AND 7) OR push_bit 6 (drop_bit 7 c AND 7);
         bit12 = drop_bit 12 c AND 1 in
     if f3 = 0 then Some (enc_i OPIMM rd 1 rd shamt)
     else if f3 = 2 then (if rd = 0 then None else Some (enc_i LOAD rd 2 2 imm_lw))
     else if f3 = 3 then (if rd = 0 then None else Some (enc_i LOAD rd 3 2 imm_ld))
     else if f3 = 4 then
       (if bit12 = 0 \<and> rd = 0 then None
        else if bit12 = 0 \<and> rs2 = 0 then Some (enc_i JALR 0 0 rd 0)
        else if bit12 = 0 then Some (enc_r OP rd 0 0 rs2 0)
        else if bit12 = 1 \<and> rd = 0 \<and> rs2 = 0 then Some 0x00100073
        else if bit12 = 1 \<and> rs2 = 0 then Some (enc_i JALR 1 0 rd 0)
        else if bit12 = 1 then Some (enc_r OP rd 0 rd rs2 0)
        else None)
     else if f3 = 6 then Some (enc_s STORE 2 2 rs2 imm_sw)
     else if f3 = 7 then Some (enc_s STORE 3 2 rs2 imm_sd)
     else if f3 = 1 then Some (enc_i LOADFP rd 3 2 imm_ld)
     else if f3 = 5 then Some (enc_s STOREFP 3 2 rs2 imm_sd)
     else None)"

text \<open>\<open>Err\<close> is not an outcome of \<open>expand\<close>: it returns an \<open>Option\<close> or reaches \<open>unreachable!()\<close>.\<close>

definition expand :: "u16 \<Rightarrow> ('s, 'e, u32 option) res" where
  "expand c16 = (
     let c = (ucast c16 :: u32) in
     if c = 0 then mret None
     else if c AND 3 = 0 then mret (expand_q0 c)
     else if c AND 3 = 1 then mret (expand_q1 c)
     else if c AND 3 = 2 then mret (expand_q2 c)
     else panic)"

section \<open>Decoding what an encoder produced\<close>

lemma bit_sext: "0 < b \<Longrightarrow> b < 32 \<Longrightarrow>
    bit (sext v b) n \<longleftrightarrow> n < 32 \<and> bit v (if n < b then n else b - 1)"
  by (auto simp: sext_def bit_sdrop_32 bit_simps)

lemma field_push: "k + w \<le> 32 \<Longrightarrow> take_bit w (drop_bit k (push_bit m (a :: u32))) =
    (if m \<le> k then take_bit w (drop_bit (k - m) a) else push_bit (m - k) (take_bit (w - (m - k)) a))"
  by (rule bit_word_eqI) (auto simp: bit_simps add.commute [of _ k])

lemma low_push: "w \<le> 32 \<Longrightarrow> take_bit w (push_bit m (a :: u32)) = push_bit m (take_bit (w - m) a)"
  by (rule bit_word_eqI) (auto simp: bit_simps)

lemma drop_small_8: "(a :: u32) < 8 \<Longrightarrow> 3 \<le> n \<Longrightarrow> drop_bit n a = 0"
  by (rule bit_word_eqI) (auto simp: bit_simps not_bits)

lemma drop_small_32: "(a :: u32) < 32 \<Longrightarrow> 5 \<le> n \<Longrightarrow> drop_bit n a = 0"
  by (rule bit_word_eqI) (auto simp: bit_simps not_bits)

lemma drop_small_128: "(a :: u32) < 128 \<Longrightarrow> 7 \<le> n \<Longrightarrow> drop_bit n a = 0"
  by (rule bit_word_eqI) (auto simp: bit_simps not_bits)

lemma take_small_8: "(a :: u32) < 8 \<Longrightarrow> 3 \<le> n \<Longrightarrow> take_bit n a = a"
  by (rule take_small [of a 3]) (simp_all add: word_less_nat_alt)

lemma take_small_32: "(a :: u32) < 32 \<Longrightarrow> 5 \<le> n \<Longrightarrow> take_bit n a = a"
  by (rule take_small [of a 5]) (simp_all add: word_less_nat_alt)

lemma take_small_128: "(a :: u32) < 128 \<Longrightarrow> 7 \<le> n \<Longrightarrow> take_bit n a = a"
  by (rule take_small [of a 7]) (simp_all add: word_less_nat_alt)

lemma drop_take: "m \<le> n \<Longrightarrow> drop_bit n (take_bit m (a :: u32)) = 0"
  by (rule bit_word_eqI) (auto simp: bit_simps)

lemma drop_mod2: "0 < n \<Longrightarrow> drop_bit n ((a :: u32) mod 2) = 0"
  using drop_take [of 1 n a] by (simp add: take_bit_Suc)

lemmas field_simps' = drop_take drop_mod2 field_push low_push drop_small_8 drop_small_32 drop_small_128
  take_small_8 take_small_32 take_small_128 take_bit_or drop_bit_or mask_simps

lemma funct7_take: "funct7 insn = take_bit 7 (drop_bit 25 insn)"
  unfolding funct7_def by (rule bit_word_eqI) (auto simp: bit_simps dest: bit_imp_le_length)

lemma enc_r_fields:
  assumes "op < 128" "r < 32" "f3 < 8" "s < 32" "t < 32" "f7 < 128"
  shows "opcode (enc_r op r f3 s t f7) = op" "rd (enc_r op r f3 s t f7) = unat r"
    "funct3 (enc_r op r f3 s t f7) = f3" "rs1 (enc_r op r f3 s t f7) = unat s"
    "rs2 (enc_r op r f3 s t f7) = unat t" "funct7 (enc_r op r f3 s t f7) = f7"
  using assms unfolding opcode_def rd_def funct3_def rs1_def rs2_def funct7_take enc_r_def
  by (simp_all add: field_simps')

lemma enc_i_fields:
  assumes "op < 128" "r < 32" "f3 < 8" "s < 32"
  shows "opcode (enc_i op r f3 s imm) = op" "rd (enc_i op r f3 s imm) = unat r"
    "funct3 (enc_i op r f3 s imm) = f3" "rs1 (enc_i op r f3 s imm) = unat s"
  using assms unfolding opcode_def rd_def funct3_def rs1_def enc_i_def
  by (simp_all add: field_simps')

lemma take_fe0: "take_bit 5 (imm AND 0xfe0 :: u32) = 0"
  by (rule bit_word_eqI) (auto simp: mask_consts bit_simps)

lemma enc_s_fields:
  assumes "op < 128" "f3 < 8" "s < 32" "t < 32"
  shows "opcode (enc_s op f3 s t imm) = op"
    "funct3 (enc_s op f3 s t imm) = f3" "rs1 (enc_s op f3 s t imm) = unat s"
    "rs2 (enc_s op f3 s t imm) = unat t"
  using assms unfolding opcode_def funct3_def rs1_def rs2_def enc_s_def
  by (simp_all add: field_simps' take_fe0)

lemma enc_b_fields:
  assumes "op < 128" "f3 < 8" "s < 32" "t < 32"
  shows "opcode (enc_b op f3 s t imm) = op"
    "funct3 (enc_b op f3 s t imm) = f3" "rs1 (enc_b op f3 s t imm) = unat s"
    "rs2 (enc_b op f3 s t imm) = unat t"
  using assms unfolding opcode_def funct3_def rs1_def rs2_def enc_b_def
  by (simp_all add: field_simps')

lemma enc_u_fields:
  assumes "op < 128" "r < 32"
  shows "opcode (enc_u op r imm) = op" "rd (enc_u op r imm) = unat r"
  using assms unfolding opcode_def rd_def enc_u_def
  by (simp_all add: field_simps')

lemma take_ff000: "take_bit 7 (imm AND 0xff000 :: u32) = 0" "take_bit 5 (drop_bit 7 (imm AND 0xff000 :: u32)) = 0"
  by (rule bit_word_eqI; auto simp: mask_consts bit_simps)+

lemma enc_j_fields:
  assumes "op < 128" "r < 32"
  shows "opcode (enc_j op r imm) = op" "rd (enc_j op r imm) = unat r"
  using assms unfolding opcode_def rd_def enc_j_def
  by (simp_all add: field_simps' take_ff000)

lemma bit_enc_i_imm:
  assumes "op < 128" "r < 32" "f3 < 8" "s < 32" "n < 12"
  shows "bit (enc_i op r f3 s imm) (20 + n) = bit imm n"
proof -
  have "take_bit 12 (drop_bit 20 (enc_i op r f3 s imm)) = take_bit 12 imm"
    using assms(1-4) unfolding enc_i_def by (simp add: field_simps')
  then show ?thesis using assms(5) by (simp add: bit_of_field bit_simps)
qed

lemma bit_imm_enc_i:
  assumes "op < 128" "r < 32" "f3 < 8" "s < 32"
  shows "bit (imm_i (enc_i op r f3 s imm)) n \<longleftrightarrow> n < 64 \<and> bit imm (if n < 11 then n else 11)"
  using bit_enc_i_imm [OF assms, of n imm] bit_enc_i_imm [OF assms, of 11 imm]
  by (simp add: bit_imm_i ac_simps)

lemma imm_enc_i_ucast:
  assumes "op < 128" "r < 32" "f3 < 8" "s < 32" "imm < 2048"
  shows "imm_i (enc_i op r f3 s imm) = ucast imm"
proof -
  have "\<And>n. bit imm n \<Longrightarrow> n < 11" using assms(5) bit_bound [of imm 11] by (simp add: word_less_nat_alt)
  then show ?thesis using assms by (intro bit_word_eqI) (auto simp: bit_imm_enc_i bit_simps)
qed

lemma bit_imm_enc_s:
  assumes "op < 128" "f3 < 8" "s < 32" "t < 32"
  shows "bit (imm_s (enc_s op f3 s t imm)) n \<longleftrightarrow> n < 64 \<and> bit imm (if n < 11 then n else 11)"
proof -
  have lo: "take_bit 5 (drop_bit 7 (enc_s op f3 s t imm)) = take_bit 5 imm"
    using assms unfolding enc_s_def by (simp add: field_simps' take_fe0)
  have hi: "take_bit 7 (drop_bit 25 (enc_s op f3 s t imm)) = take_bit 7 (drop_bit 5 imm)"
  proof -
    have "drop_bit 5 (imm AND 0xfe0) = take_bit 7 (drop_bit 5 imm)"
      by (rule bit_word_eqI) (auto simp: mask_consts bit_simps)
    then show ?thesis using assms unfolding enc_s_def by (simp add: field_simps')
  qed
  have "n < 5 \<Longrightarrow> bit (enc_s op f3 s t imm) (7 + n) = bit imm n"
    using bit_of_field [OF lo, of n] by (simp add: bit_simps)
  moreover have "5 \<le> k \<Longrightarrow> k < 12 \<Longrightarrow> bit (enc_s op f3 s t imm) (20 + k) = bit imm k" for k
    using bit_of_field [OF hi, of "k - 5"] by (simp add: bit_simps)
  from this [of 11] this [of n]
  have "bit (enc_s op f3 s t imm) 31 = bit imm 11"
    "5 \<le> n \<Longrightarrow> n < 12 \<Longrightarrow> bit (enc_s op f3 s t imm) (20 + n) = bit imm n" by simp_all
  ultimately show ?thesis by (auto simp: bit_imm_s ac_simps)
qed

lemma imm_enc_s_ucast:
  assumes "op < 128" "f3 < 8" "s < 32" "t < 32" "imm < 2048"
  shows "imm_s (enc_s op f3 s t imm) = ucast imm"
proof -
  have "\<And>n. bit imm n \<Longrightarrow> n < 11" using assms(5) bit_bound [of imm 11] by (simp add: word_less_nat_alt)
  then show ?thesis using assms by (intro bit_word_eqI) (auto simp: bit_imm_enc_s bit_simps)
qed

lemma bit_imm_enc_b:
  assumes "op < 128" "f3 < 8" "s < 32" "t < 32"
  shows "bit (imm_b (enc_b op f3 s t imm)) n \<longleftrightarrow> n < 64 \<and> n \<noteq> 0 \<and> bit imm (if n < 12 then n else 12)"
proof -
  let ?e = "enc_b op f3 s t imm"
  have b: "take_bit 4 (drop_bit 8 ?e) = take_bit 4 (drop_bit 1 imm)"
    and c: "take_bit 6 (drop_bit 25 ?e) = take_bit 6 (drop_bit 5 imm)"
    using assms unfolding enc_b_def by (simp_all add: field_simps')
  have "bit ?e 7 = bit imm 11" "bit ?e 31 = bit imm 12"
    using assms unfolding enc_b_def mask_lits by (simp_all add: bit_simps not_bits bit_iff_odd_drop_bit [of imm])
  moreover have "0 < n \<Longrightarrow> n < 5 \<Longrightarrow> bit ?e (7 + n) = bit imm n"
    using bit_of_field [OF b, of "n - 1"] by (simp add: bit_simps)
  moreover have "5 \<le> n \<Longrightarrow> n < 11 \<Longrightarrow> bit ?e (20 + n) = bit imm n"
    using bit_of_field [OF c, of "n - 5"] by (simp add: bit_simps)
  ultimately show ?thesis by (cases "n = 11") (auto simp: bit_imm_b ac_simps)
qed

lemma bit_imm_enc_j:
  assumes "op < 128" "r < 32"
  shows "bit (imm_j (enc_j op r imm)) n \<longleftrightarrow> n < 64 \<and> n \<noteq> 0 \<and> bit imm (if n < 20 then n else 20)"
proof -
  let ?e = "enc_j op r imm"
  have a: "take_bit 8 (drop_bit 12 ?e) = take_bit 8 (drop_bit 12 imm)"
  proof -
    have "take_bit 8 (drop_bit 12 (imm AND 0xff000)) = take_bit 8 (drop_bit 12 imm)"
      by (rule bit_word_eqI) (auto simp: mask_consts bit_simps)
    then show ?thesis using assms unfolding enc_j_def by (simp add: field_simps')
  qed
  have z: "take_bit 10 (drop_bit 21 (imm AND 0xff000)) = 0"
    by (rule bit_word_eqI) (auto simp: mask_consts bit_simps)
  have c: "take_bit 10 (drop_bit 21 ?e) = take_bit 10 (drop_bit 1 imm)"
    using assms z unfolding enc_j_def by (simp add: field_simps')
  have "bit ?e 20 = bit imm 11" "bit ?e 31 = bit imm 20"
    using assms unfolding enc_j_def mask_lits mask_consts by (simp_all add: bit_simps not_bits bit_iff_odd_drop_bit [of imm])
  moreover have "0 < n \<Longrightarrow> n < 11 \<Longrightarrow> bit ?e (20 + n) = bit imm n"
    using bit_of_field [OF c, of "n - 1"] by (simp add: bit_simps)
  moreover have "12 \<le> n \<Longrightarrow> n < 20 \<Longrightarrow> bit ?e n = bit imm n"
    using bit_of_field [OF a, of "n - 12"] by (simp add: bit_simps)
  ultimately show ?thesis by (auto simp: bit_imm_j ac_simps)
qed

end
