(* ===== verification/VectorInt.thy ===== *)
theory VectorInt
  imports Vector
begin

text \<open>
  The integer, mask, permutation and fixed-point instructions of the vector unit
  (\<open>crates/rv64-core/src/cpu/vector.rs\<close>), one definition per function, and their decoder
  \<open>exec_vector_integer\<close>. The element function of a loop (the \<open>match funct6\<close> of its body) is a
  definition of its own; an \<open>unreachable!\<close> arm is \<^term>\<open>None\<close>, which the loop unwraps.
\<close>

section \<open>Legality of the operands\<close>

definition integer_groups :: "u32 \<Rightarrow> vector_config \<Rightarrow> bool \<Rightarrow> bool \<Rightarrow> bool \<Rightarrow> ('b, unit) cpum" where
  "integer_groups insn config destination_is_mask needs_vs2 needs_vs1 =
     (let ratio = lmul config; d = rd insn; s2 = rs2 insn; s1 = rs1 insn; masked = (\<not> vm_bit insn);
          destination_ok = (if destination_is_mask then
              d < VREG_COUNT
              \<and> (\<not> needs_vs2
                \<or> destination_source_overlap_legal d MASK_REGISTER_RATIO 1 s2 ratio (sew config))
              \<and> (\<not> needs_vs1
                \<or> destination_source_overlap_legal d MASK_REGISTER_RATIO 1 s1 ratio (sew config))
            else validate_group d ratio 1 \<and> (\<not> masked \<or> \<not> mask_overlap d ratio)) in
      if \<not> destination_ok
        \<or> (needs_vs2 \<and> \<not> validate_group s2 ratio 1)
        \<or> (needs_vs1 \<and> \<not> validate_group s1 ratio 1)
        \<or> (masked \<and> ((needs_vs2 \<and> mask_source_overlap s2 ratio (sew config))
          \<or> (needs_vs1 \<and> mask_source_overlap s1 ratio (sew config))))
      then illegal insn else mret ())"

text \<open>The \<open>write_mask_element\<close> of the sources.\<close>

definition write_mask_element :: "nat \<Rightarrow> nat \<Rightarrow> bool \<Rightarrow> ('b, unit) cpum" where
  "write_mask_element reg index val = vmod (set_register_bit reg index val)"

section \<open>Moves and extensions\<close>

definition exec_vector_whole_move :: "u32 \<Rightarrow> vector_config \<Rightarrow> ('b, unit) cpum" where
  "exec_vector_whole_move insn config =
     (let count = rs1 insn + 1; evl = count * VLEN_BITS div sew config in
      mbind (getc vector) (\<lambda>v.
      if \<not> (count = 1 \<or> count = 2 \<or> count = 4 \<or> count = 8)
        \<or> \<not> vm_bit insn
        \<or> rd insn mod count \<noteq> 0 \<or> rs2 insn mod count \<noteq> 0
        \<or> rd insn + count > VREG_COUNT \<or> rs2 insn + count > VREG_COUNT
        \<or> unat (vs_vstart v) \<ge> evl
      then illegal insn
      else
        let start = unat (vs_vstart v) * (sew config div 8); bytes = count * VLEN_BYTES in
        mbind (if rd insn \<noteq> rs2 insn \<and> start < bytes
          then for_in [start..<bytes] () (\<lambda>offset _.
            vmod (set_flat_byte (rd insn * VLEN_BYTES + offset)
              (flat_byte v (rs2 insn * VLEN_BYTES + offset))))
          else mret ()) (\<lambda>_.
        mbind (set_vstart 0) (\<lambda>_. modc vector_dirty))))"

definition extension_kind :: "nat \<Rightarrow> (nat \<times> bool) option" where
  "extension_kind selector =
     (if selector = 2 then Some (8, False) else if selector = 3 then Some (8, True)
      else if selector = 4 then Some (4, False) else if selector = 5 then Some (4, True)
      else if selector = 6 then Some (2, False) else if selector = 7 then Some (2, True)
      else None)"

definition exec_vector_extension :: "u32 \<Rightarrow> vector_config \<Rightarrow> ('b, unit) cpum" where
  "exec_vector_extension insn config =
     (case extension_kind (rs1 insn) of None \<Rightarrow> illegal insn
      | Some (divisor, is_signed) \<Rightarrow>
        if sew config mod divisor \<noteq> 0 then illegal insn
        else let source_eew = sew config div divisor in
        if source_eew < 8 then illegal insn
        else let destination_ratio = lmul config; masked = (\<not> vm_bit insn) in
        case emul config source_eew of None \<Rightarrow> illegal insn
        | Some source_ratio \<Rightarrow>
          if \<not> validate_group (rd insn) destination_ratio 1
            \<or> \<not> validate_group (rs2 insn) source_ratio 1
            \<or> \<not> destination_source_overlap_legal (rd insn) destination_ratio (sew config)
                  (rs2 insn) source_ratio source_eew
            \<or> (masked \<and> mask_overlap (rd insn) destination_ratio)
            \<or> (masked \<and> mask_source_overlap (rs2 insn) source_ratio source_eew)
          then illegal insn
          else vector_loop masked config () (\<lambda>index _.
            mbind (vget (read_element (rs2 insn) index source_eew)) (\<lambda>source.
            vmod (write_element (rd insn) index (sew config)
              (if is_signed then signed_element source source_eew else source)))))"

section \<open>Slides and gathers\<close>

text \<open>
  The snapshot a permutation reads: the register alone when the group is one register, the
  whole state otherwise.
\<close>

definition snapshot_read :: "bool \<Rightarrow> vector_state \<Rightarrow> nat \<Rightarrow> nat \<Rightarrow> nat \<Rightarrow> u64 option" where
  "snapshot_read single_group v reg index eew =
     (if single_group then read_single_register_element (register_bytes reg v) index eew
      else read_element reg index eew v)"

definition slide_bytes :: "u32 \<Rightarrow> vector_config \<Rightarrow> nat \<Rightarrow> nat \<Rightarrow> nat \<Rightarrow> nat \<Rightarrow> vector_state \<Rightarrow> vector_state option" where
  "slide_bytes funct6 config d source_reg selected vl v =
     (let width = sew config div 8; source_register = register_bytes source_reg v in
      if funct6 = 0x0e then
        let first = min selected vl; count = vl - first in
        if count \<noteq> 0
        then Option.bind (byte_range source_register 0 (count * width)) (\<lambda>bs.
          copy_to_register d (first * width) (vl * width) bs v)
        else Some v
      else
        let count = min vl (vlmax config - selected) in
        Option.bind
          (if count \<noteq> 0
           then Option.bind (byte_range source_register (selected * width) ((selected + count) * width))
             (\<lambda>bs. copy_to_register d 0 (count * width) bs v)
           else Some v)
          (copy_to_register d (count * width) (vl * width)
            (replicate (vl * width - count * width) 0)))"

definition slide_source :: "u32 \<Rightarrow> nat \<Rightarrow> nat \<Rightarrow> nat option option" where
  "slide_source funct6 index selected =
     (if funct6 = 0x0c then Some (Some selected)
      else if funct6 = 0x0e then Some (if selected \<le> index then Some (index - selected) else None)
      else if funct6 = 0x0f then Some (if index + selected < 2 ^ 64 then Some (index + selected) else None)
      else None)"

definition slide_legal :: "u32 \<Rightarrow> vector_config \<Rightarrow> u32 \<Rightarrow> u32 \<Rightarrow> bool" where
  "slide_legal insn config funct6 format \<longleftrightarrow>
     (let ratio = lmul config; source_reg = rs2 insn; masked = (\<not> vm_bit insn);
          is_slide_up = (funct6 = 0x0e \<and> format \<noteq> 0);
          needs_index_group = (format = 0 \<and> funct6 = 0x0c) in
      \<not> (\<not> validate_group (rd insn) ratio 1 \<or> \<not> validate_group source_reg ratio 1
        \<or> (masked \<and> mask_overlap (rd insn) ratio)
        \<or> (masked \<and> mask_source_overlap source_reg ratio (sew config)))
      \<and> \<not> (is_slide_up \<and> rd insn = source_reg)
      \<and> \<not> (needs_index_group \<and> \<not> validate_group (rs1 insn) ratio 1)
      \<and> \<not> (needs_index_group \<and> masked \<and> mask_source_overlap (rs1 insn) ratio (sew config))
      \<and> \<not> (funct6 = 0x0c \<and> (groups_overlap (rd insn) ratio 1 source_reg ratio
          \<or> (needs_index_group \<and> groups_overlap (rd insn) ratio 1 (rs1 insn) ratio))))"

definition slide_element :: "u32 \<Rightarrow> vector_config \<Rightarrow> u32 \<Rightarrow> u32 \<Rightarrow> u64 \<Rightarrow> vector_state \<Rightarrow> nat \<Rightarrow> ('b, unit) cpum" where
  "slide_element insn config funct6 format scalar v index =
     (let single_group = (register_span (lmul config) = 1) in
      mbind (if funct6 = 0x0c \<and> format = 0
             then unwrap (snapshot_read single_group v (rs1 insn) index (sew config))
             else mret scalar) (\<lambda>selected.
      mbind (unwrap (slide_source funct6 index (unat selected))) (\<lambda>source_index.
      if funct6 = 0x0e \<and> index < unat selected then mret ()
      else
        mbind (case source_index of
            Some i \<Rightarrow> if i < vlmax config
              then unwrap (snapshot_read single_group v (rs2 insn) i (sew config)) else mret 0
          | None \<Rightarrow> mret 0) (\<lambda>val.
        vmod (write_element (rd insn) index (sew config) val)))))"

definition exec_vector_slide_or_gather :: "u32 \<Rightarrow> vector_config \<Rightarrow> u32 \<Rightarrow> u32 \<Rightarrow> ('b, unit) cpum" where
  "exec_vector_slide_or_gather insn config funct6 format =
     (if \<not> slide_legal insn config funct6 format then illegal insn
      else mbind (getc id) (\<lambda>c.
        let scalar = (if format = 3 then of_nat (rs1 insn) else if format = 4 then xreg c (rs1 insn) else 0);
            single_group = (register_span (lmul config) = 1); masked = (\<not> vm_bit insn);
            start = vstart_of c; vl = vl_of config c in
        mbind (modc vector_dirty) (\<lambda>_.
        mbind
          (if single_group \<and> \<not> masked \<and> start = 0 \<and> (funct6 = 0x0e \<or> funct6 = 0x0f)
           then vmod (slide_bytes funct6 config (rd insn) (rs2 insn) (unat scalar) vl)
           else elements masked start vl () (\<lambda>index _.
             slide_element insn config funct6 format scalar (vector c) index)) (\<lambda>_.
        set_vstart 0))))"

definition exec_vector_gather_ei16 :: "u32 \<Rightarrow> vector_config \<Rightarrow> ('b, unit) cpum" where
  "exec_vector_gather_ei16 insn config =
     (let data_ratio = lmul config; d = rd insn; source = rs2 insn; indices = rs1 insn;
          masked = (\<not> vm_bit insn) in
      case emul config 16 of None \<Rightarrow> illegal insn
      | Some index_ratio \<Rightarrow>
        if \<not> validate_group d data_ratio 1 \<or> \<not> validate_group source data_ratio 1
          \<or> \<not> validate_group indices index_ratio 1
          \<or> groups_overlap d data_ratio 1 source data_ratio
          \<or> groups_overlap d data_ratio 1 indices index_ratio
          \<or> (sew config \<noteq> 16 \<and> groups_overlap indices index_ratio 1 source data_ratio)
          \<or> (masked \<and> mask_overlap d data_ratio)
          \<or> (masked \<and> (mask_source_overlap source data_ratio (sew config)
              \<or> mask_source_overlap indices index_ratio 16))
        then illegal insn
        else vector_loop masked config () (\<lambda>index _.
          mbind (vget (read_element indices index 16)) (\<lambda>selected.
          mbind (if unat selected < vlmax config
                 then vget (read_element source (unat selected) (sew config)) else mret 0) (\<lambda>val.
          vmod (write_element d index (sew config) val)))))"

definition slide1_bytes :: "bool \<Rightarrow> nat \<Rightarrow> nat \<Rightarrow> nat \<Rightarrow> nat \<Rightarrow> u64 \<Rightarrow> vector_state \<Rightarrow> vector_state option" where
  "slide1_bytes up width vl d s scalar v =
     (let source_register = register_bytes s v; active_bytes = vl * width;
          scalar_bytes = take width (to_le_bytes 8 scalar) in
      if up then
        Option.bind (byte_range source_register 0 (active_bytes - width)) (\<lambda>bs.
        Option.bind (copy_to_register d width active_bytes bs v)
          (copy_to_register d 0 width scalar_bytes))
      else
        Option.bind (byte_range source_register width active_bytes) (\<lambda>bs.
        Option.bind (copy_to_register d 0 (active_bytes - width) bs v)
          (copy_to_register d (active_bytes - width) active_bytes scalar_bytes)))"

definition exec_vector_slide1 :: "u32 \<Rightarrow> vector_config \<Rightarrow> bool \<Rightarrow> ('b, unit) cpum" where
  "exec_vector_slide1 insn config up =
     (let ratio = lmul config; masked = (\<not> vm_bit insn) in
      if \<not> validate_group (rd insn) ratio 1 \<or> \<not> validate_group (rs2 insn) ratio 1
        \<or> (up \<and> rd insn = rs2 insn)
        \<or> (masked \<and> mask_overlap (rd insn) ratio)
        \<or> (masked \<and> mask_source_overlap (rs2 insn) ratio (sew config))
      then illegal insn
      else mbind (getc id) (\<lambda>c.
        let single_group = (register_span ratio = 1); start = vstart_of c; vl = vl_of config c;
            scalar = xreg c (rs1 insn) in
        mbind (modc vector_dirty) (\<lambda>_.
        mbind
          (if single_group \<and> \<not> masked \<and> start = 0 \<and> vl \<noteq> 0
           then vmod (slide1_bytes up (sew config div 8) vl (rd insn) (rs2 insn) scalar)
           else elements masked start vl () (\<lambda>index _.
             mbind (if up then
                 (if index = 0 then mret scalar
                  else unwrap (snapshot_read single_group (vector c) (rs2 insn) (index - 1) (sew config)))
               else if index + 1 = vl then mret scalar
               else unwrap (snapshot_read single_group (vector c) (rs2 insn) (index + 1) (sew config)))
               (\<lambda>val. vmod (write_element (rd insn) index (sew config) val)))) (\<lambda>_.
        set_vstart 0))))"

definition exec_vector_narrow_shift :: "u32 \<Rightarrow> vector_config \<Rightarrow> bool \<Rightarrow> ('b, unit) cpum" where
  "exec_vector_narrow_shift insn config arithmetic =
     (let wide_eew = sew config * 2; destination_ratio = lmul config; format = funct3 insn;
          masked = (\<not> vm_bit insn) in
      if wide_eew > 64 then illegal insn
      else case emul config wide_eew of None \<Rightarrow> illegal insn
      | Some source_ratio \<Rightarrow>
        if \<not> (format = 0 \<or> format = 3 \<or> format = 4)
          \<or> \<not> validate_group (rd insn) destination_ratio 1
          \<or> \<not> validate_group (rs2 insn) source_ratio 1
          \<or> (format = 0 \<and> \<not> validate_group (rs1 insn) destination_ratio 1)
          \<or> \<not> destination_source_overlap_legal (rd insn) destination_ratio (sew config)
                (rs2 insn) source_ratio wide_eew
          \<or> (format = 0 \<and> mixed_width_sources_overlap (rs2 insn) source_ratio wide_eew
                (rs1 insn) destination_ratio (sew config))
          \<or> (masked \<and> mask_overlap (rd insn) destination_ratio)
          \<or> (masked \<and> (mask_source_overlap (rs2 insn) source_ratio wide_eew
              \<or> (format = 0 \<and> mask_source_overlap (rs1 insn) destination_ratio (sew config))))
        then illegal insn
        else vector_loop masked config () (\<lambda>index _.
          mbind (if format = 0 then vget (read_element (rs1 insn) index (sew config))
                 else if format = 3 then mret (of_nat (rs1 insn))
                 else if format = 4 then getc (\<lambda>c. xreg c (rs1 insn))
                 else illegal insn) (\<lambda>amount.
          let shift = unat (amount AND of_nat (wide_eew - 1)) in
          mbind (vget (read_element (rs2 insn) index wide_eew)) (\<lambda>source.
          vmod (write_element (rd insn) index (sew config)
            (if arithmetic then signed_drop_bit shift (signed_element source wide_eew)
             else drop_bit shift source))))))"

section \<open>Masks\<close>

definition mask_logic_value :: "u32 \<Rightarrow> bool \<Rightarrow> bool \<Rightarrow> bool option" where
  "mask_logic_value funct6 a b =
     (if funct6 = 0x18 then Some (a \<and> \<not> b) else if funct6 = 0x19 then Some (a \<and> b)
      else if funct6 = 0x1a then Some (a \<or> b) else if funct6 = 0x1b then Some (a \<noteq> b)
      else if funct6 = 0x1c then Some (a \<or> \<not> b) else if funct6 = 0x1d then Some (\<not> (a \<and> b))
      else if funct6 = 0x1e then Some (\<not> (a \<or> b)) else if funct6 = 0x1f then Some (\<not> (a \<noteq> b))
      else None)"

definition exec_vector_mask_logic :: "u32 \<Rightarrow> vector_config \<Rightarrow> u32 \<Rightarrow> ('b, unit) cpum" where
  "exec_vector_mask_logic insn config funct6 =
     (if \<not> vm_bit insn then illegal insn
      else vector_loop False config () (\<lambda>index _.
        mbind (vget (register_bit (rs2 insn) index)) (\<lambda>a.
        mbind (vget (register_bit (rs1 insn) index)) (\<lambda>b.
        mbind (unwrap (mask_logic_value funct6 a b)) (\<lambda>val.
        write_mask_element (rd insn) index val)))))"

definition exec_vector_mask_query :: "u32 \<Rightarrow> vector_config \<Rightarrow> ('b, unit) cpum" where
  "exec_vector_mask_query insn config =
     mbind (getc id) (\<lambda>c.
     if vs_vstart (vector c) \<noteq> 0 then illegal insn
     else if \<not> (rs1 insn = 0x10 \<or> rs1 insn = 0x11) then illegal insn
     else
       mbind (elements (\<not> vm_bit insn) 0 (vl_of config c) (0 :: u64, None) (\<lambda>index (count, first).
         mbind (vget (register_bit (rs2 insn) index)) (\<lambda>is_set.
         mret (if is_set then (count + 1, case first of None \<Rightarrow> Some (of_nat index) | Some i \<Rightarrow> Some i)
           else (count, first))))) (\<lambda>(count, first).
       modc (wr (rd insn) (if rs1 insn = 0x10 then count
         else case first of None \<Rightarrow> NOT 0 | Some i \<Rightarrow> i))))"

definition exec_vector_mask_prefix :: "u32 \<Rightarrow> vector_config \<Rightarrow> ('b, unit) cpum" where
  "exec_vector_mask_prefix insn config =
     (let selector = rs1 insn; d = rd insn; source = rs2 insn; vm = vm_bit insn in
      mbind (getc id) (\<lambda>c.
      if vs_vstart (vector c) \<noteq> 0
        \<or> \<not> (selector = 1 \<or> selector = 2 \<or> selector = 3)
        \<or> d = source \<or> (\<not> vm \<and> d = 0)
      then illegal insn
      else
        mbind (modc vector_dirty) (\<lambda>_.
        mbind (elements (\<not> vm) 0 (vl_of config c) False (\<lambda>index found.
          mbind (vget (register_bit source index)) (\<lambda>source_set.
          let (val, found) = (if found then (False, found)
            else if source_set then (selector \<noteq> 1, True)
            else (selector \<noteq> 2, found)) in
          mbind (write_mask_element d index val) (\<lambda>_. mret found)))) (\<lambda>_.
        set_vstart 0))))"

definition exec_vector_iota :: "u32 \<Rightarrow> vector_config \<Rightarrow> ('b, unit) cpum" where
  "exec_vector_iota insn config =
     (let ratio = lmul config; d = rd insn; source = rs2 insn; vm = vm_bit insn in
      mbind (getc id) (\<lambda>c.
      if vs_vstart (vector c) \<noteq> 0
        \<or> \<not> validate_group d ratio 1
        \<or> groups_overlap d ratio 1 source MASK_REGISTER_RATIO
        \<or> (\<not> vm \<and> mask_overlap d ratio)
      then illegal insn
      else
        mbind (modc vector_dirty) (\<lambda>_.
        mbind (elements (\<not> vm) 0 (vl_of config c) (0 :: u64) (\<lambda>index count.
          mbind (vmod (write_element d index (sew config) count)) (\<lambda>_.
          mbind (vget (register_bit source index)) (\<lambda>is_set.
          mret (if is_set then count + 1 else count))))) (\<lambda>_.
        set_vstart 0))))"

definition exec_vector_compress :: "u32 \<Rightarrow> vector_config \<Rightarrow> ('b, unit) cpum" where
  "exec_vector_compress insn config =
     (let ratio = lmul config; d = rd insn; source = rs2 insn; selector = rs1 insn in
      mbind (getc id) (\<lambda>c.
      if vs_vstart (vector c) \<noteq> 0
        \<or> \<not> vm_bit insn
        \<or> \<not> validate_group d ratio 1 \<or> \<not> validate_group source ratio 1
        \<or> groups_overlap d ratio 1 source ratio
        \<or> groups_overlap d ratio 1 selector MASK_REGISTER_RATIO
      then illegal insn
      else
        mbind (modc vector_dirty) (\<lambda>_.
        mbind (for_in [0..<vl_of config c] (0 :: nat) (\<lambda>index output.
          mbind (vget (register_bit selector index)) (\<lambda>is_set.
          if is_set then
            mbind (vget (read_element source index (sew config))) (\<lambda>val.
            mbind (vmod (write_element d output (sew config) val)) (\<lambda>_. mret (output + 1)))
          else mret output))) (\<lambda>_.
        set_vstart 0))))"

section \<open>Reductions\<close>

definition reduction_value :: "u32 \<Rightarrow> nat \<Rightarrow> u64 \<Rightarrow> u64 \<Rightarrow> u64 option" where
  "reduction_value funct6 w accumulator val =
     (if funct6 = 0 then Some (accumulator + val)
      else if funct6 = 1 then Some (accumulator AND val)
      else if funct6 = 2 then Some (accumulator OR val)
      else if funct6 = 3 then Some (accumulator XOR val)
      else if funct6 = 4 then Some (min accumulator val)
      else if funct6 = 5 then Some (if sint (signed_element accumulator w) \<le> sint (signed_element val w)
        then accumulator else val)
      else if funct6 = 6 then Some (max accumulator val)
      else if funct6 = 7 then Some (if sint (signed_element val w) \<le> sint (signed_element accumulator w)
        then accumulator else val)
      else None)"

definition exec_vector_reduction :: "u32 \<Rightarrow> vector_config \<Rightarrow> u32 \<Rightarrow> ('b, unit) cpum" where
  "exec_vector_reduction insn config funct6 =
     (let masked = (\<not> vm_bit insn) in
      mbind (getc id) (\<lambda>c.
      if vs_vstart (vector c) \<noteq> 0
        \<or> \<not> validate_group (rs2 insn) (lmul config) 1
        \<or> (masked \<and> (mask_source_overlap (rs2 insn) (lmul config) (sew config)
            \<or> mask_source_overlap (rs1 insn) MASK_REGISTER_RATIO (sew config)))
      then illegal insn
      else
        mbind (vget (read_element (rs1 insn) 0 (sew config))) (\<lambda>accumulator.
        let vl = vl_of config c in
        if vl = 0 then set_vstart 0
        else
          mbind (elements masked 0 vl accumulator (\<lambda>index accumulator.
            mbind (vget (read_element (rs2 insn) index (sew config))) (\<lambda>val.
            unwrap (reduction_value funct6 (sew config) accumulator val)))) (\<lambda>accumulator.
          mbind (vmod (write_element (rd insn) 0 (sew config) accumulator)) (\<lambda>_.
          mbind (modc vector_dirty) (\<lambda>_. set_vstart 0))))))"

definition exec_vector_widen_reduction :: "u32 \<Rightarrow> vector_config \<Rightarrow> bool \<Rightarrow> ('b, unit) cpum" where
  "exec_vector_widen_reduction insn config is_signed =
     (let wide_eew = sew config * 2; masked = (\<not> vm_bit insn) in
      mbind (getc id) (\<lambda>c.
      if vs_vstart (vector c) \<noteq> 0
        \<or> wide_eew > 64
        \<or> \<not> validate_group (rs2 insn) (lmul config) 1
        \<or> mixed_width_sources_overlap (rs2 insn) (lmul config) (sew config)
              (rs1 insn) MASK_REGISTER_RATIO wide_eew
        \<or> (masked \<and> (mask_source_overlap (rs2 insn) (lmul config) (sew config)
            \<or> mask_source_overlap (rs1 insn) MASK_REGISTER_RATIO wide_eew))
      then illegal insn
      else
        mbind (vget (read_element (rs1 insn) 0 wide_eew)) (\<lambda>accumulator.
        let vl = vl_of config c in
        if vl = 0 then set_vstart 0
        else
          mbind (elements masked 0 vl accumulator (\<lambda>index accumulator.
            mbind (vget (read_element (rs2 insn) index (sew config))) (\<lambda>source.
            mret ((if is_signed
              then word_of_int (signed_narrow accumulator wide_eew + signed_narrow source (sew config))
              else accumulator + source) AND element_mask wide_eew)))) (\<lambda>accumulator.
          mbind (vmod (write_element (rd insn) 0 wide_eew accumulator)) (\<lambda>_.
          mbind (modc vector_dirty) (\<lambda>_. set_vstart 0))))))"

section \<open>Multiplication, division and carries\<close>

text \<open>The second operand of OPMVV and OPMVX: an element of \<open>vs1\<close> or the scalar \<open>rs1\<close>, masked.\<close>

definition rhs_operand :: "bool \<Rightarrow> u32 \<Rightarrow> nat \<Rightarrow> nat \<Rightarrow> ('b, u64) cpum" where
  "rhs_operand vector_rhs insn index w =
     mbind (if vector_rhs then vget (read_element (rs1 insn) index w) else getc (\<lambda>c. xreg c (rs1 insn)))
       (\<lambda>b. mret (b AND element_mask w))"

definition multiply_divide_value :: "u32 \<Rightarrow> nat \<Rightarrow> u64 \<Rightarrow> u64 \<Rightarrow> u64 option" where
  "multiply_divide_value funct6 w a b =
     (let signed_a = signed_element a w; signed_b = signed_element b w in
      if funct6 = 0x20 then Some (if b = 0 then element_mask w else a div b)
      else if funct6 = 0x21 then Some (if signed_b = 0 then - 1 else wrapping_div signed_a signed_b)
      else if funct6 = 0x22 then Some (if b = 0 then a else a mod b)
      else if funct6 = 0x23 then Some (if signed_b = 0 then a else wrapping_rem signed_a signed_b)
      else if funct6 = 0x24 then Some (ucast (drop_bit w (ucast a * ucast b :: u128)))
      else if funct6 = 0x25 then Some (a * b)
      else if funct6 = 0x26 then Some (word_of_int (drop_bit w (sint signed_a * uint b)))
      else if funct6 = 0x27 then Some (word_of_int (drop_bit w (sint signed_a * sint signed_b)))
      else None)"

definition exec_vector_multiply_divide :: "u32 \<Rightarrow> vector_config \<Rightarrow> u32 \<Rightarrow> bool \<Rightarrow> ('b, unit) cpum" where
  "exec_vector_multiply_divide insn config funct6 vector_rhs =
     mbind (integer_groups insn config False True vector_rhs) (\<lambda>_.
     vector_loop (\<not> vm_bit insn) config () (\<lambda>index _.
       mbind (vget (read_element (rs2 insn) index (sew config))) (\<lambda>a.
       mbind (rhs_operand vector_rhs insn index (sew config)) (\<lambda>b.
       mbind (unwrap (multiply_divide_value funct6 (sew config) a b)) (\<lambda>val.
       vmod (write_element (rd insn) index (sew config) (val AND element_mask (sew config))))))))"

definition carry_legal :: "u32 \<Rightarrow> vector_config \<Rightarrow> u32 \<Rightarrow> bool" where
  "carry_legal insn config funct6 \<longleftrightarrow>
     (let format = funct3 insn; vector_rhs = (format = 0); ratio = lmul config; d = rd insn;
          s2 = rs2 insn; s1 = rs1 insn; vm = vm_bit insn; mask_result = (funct6 = 0x11 \<or> funct6 = 0x13) in
      \<not> (\<not> (format = 0 \<or> format = 3 \<or> format = 4) \<or> ((funct6 = 0x12 \<or> funct6 = 0x13) \<and> format = 3))
      \<and> \<not> (\<not> validate_group s2 ratio 1
        \<or> (vector_rhs \<and> \<not> validate_group s1 ratio 1)
        \<or> (\<not> vm \<and> (mask_source_overlap s2 ratio (sew config)
            \<or> (vector_rhs \<and> mask_source_overlap s1 ratio (sew config)))))
      \<and> (if mask_result
         then \<not> (\<not> destination_source_overlap_legal d MASK_REGISTER_RATIO 1 s2 ratio (sew config)
           \<or> (vector_rhs
             \<and> \<not> destination_source_overlap_legal d MASK_REGISTER_RATIO 1 s1 ratio (sew config)))
         else \<not> (vm \<or> \<not> validate_group d ratio 1 \<or> mask_overlap d ratio)))"

definition exec_vector_carry :: "u32 \<Rightarrow> vector_config \<Rightarrow> u32 \<Rightarrow> ('b, unit) cpum" where
  "exec_vector_carry insn config funct6 =
     (let format = funct3 insn; d = rd insn; s2 = rs2 insn; s1 = rs1 insn; vm = vm_bit insn;
          mask_result = (funct6 = 0x11 \<or> funct6 = 0x13); width_mask = element_mask (sew config);
          subtract = (funct6 = 0x12 \<or> funct6 = 0x13) in
      if \<not> carry_legal insn config funct6 then illegal insn
      else vector_loop False config () (\<lambda>index _.
        mbind (vget (read_element s2 index (sew config))) (\<lambda>a.
        mbind (if format = 0 then vget (read_element s1 index (sew config))
               else if format = 3 then mret (simm5 s1)
               else if format = 4 then getc (\<lambda>c. xreg c s1)
               else panic) (\<lambda>b.
        let b = b AND width_mask in
        mbind (if vm then mret False else vget (mask_bit index)) (\<lambda>m.
        let carry = (of_flag m :: u64) in
        if mask_result then
          write_mask_element d index
            (if subtract then a < b \<or> (carry \<noteq> 0 \<and> a = b)
             else (ucast a + ucast b + ucast carry :: u128) > ucast width_mask)
        else
          vmod (write_element d index (sew config)
            ((if subtract then a - b - carry else a + b + carry) AND width_mask)))))))"

section \<open>Widening arithmetic\<close>

definition widen_add_sub_legal :: "u32 \<Rightarrow> vector_config \<Rightarrow> u32 \<Rightarrow> group_ratio \<Rightarrow> bool" where
  "widen_add_sub_legal insn config funct6 wide_ratio \<longleftrightarrow>
     (let wide_eew = sew config * 2; narrow_ratio = lmul config; format = funct3 insn;
          vector_rhs = (format = 2); masked = (\<not> vm_bit insn); wide_left = (funct6 \<ge> 0x34);
          left_ratio = (if wide_left then wide_ratio else narrow_ratio);
          left_eew = (if wide_left then wide_eew else sew config) in
      \<not> (\<not> (format = 2 \<or> format = 6) \<or> \<not> (0x30 \<le> funct6 \<and> funct6 \<le> 0x37))
      \<and> \<not> (\<not> validate_group (rd insn) wide_ratio 1
        \<or> \<not> validate_group (rs2 insn) left_ratio 1
        \<or> (vector_rhs \<and> \<not> validate_group (rs1 insn) narrow_ratio 1)
        \<or> (masked \<and> mask_overlap (rd insn) wide_ratio)
        \<or> \<not> destination_source_overlap_legal (rd insn) wide_ratio wide_eew (rs2 insn) left_ratio left_eew
        \<or> (vector_rhs \<and> \<not> destination_source_overlap_legal (rd insn) wide_ratio wide_eew
              (rs1 insn) narrow_ratio (sew config))
        \<or> (wide_left \<and> vector_rhs \<and> mixed_width_sources_overlap (rs2 insn) wide_ratio wide_eew
              (rs1 insn) narrow_ratio (sew config))
        \<or> (masked \<and> (mask_source_overlap (rs2 insn) left_ratio left_eew
            \<or> (vector_rhs \<and> mask_source_overlap (rs1 insn) narrow_ratio (sew config))))))"

definition widen_add_sub_value :: "u32 \<Rightarrow> nat \<Rightarrow> u64 \<Rightarrow> u64 \<Rightarrow> u64" where
  "widen_add_sub_value funct6 w a b =
     (let wide_left = (funct6 \<ge> 0x34); is_signed = (funct6 AND 1 \<noteq> 0); subtract = (funct6 AND 2 \<noteq> 0) in
      (if is_signed then
         let a = (if wide_left then signed_narrow a (w * 2) else signed_narrow a w);
             b = signed_narrow b w in
         word_of_int (if subtract then a - b else a + b)
       else if subtract then a - b
       else a + b) AND element_mask (w * 2))"

definition exec_vector_widen_add_sub :: "u32 \<Rightarrow> vector_config \<Rightarrow> u32 \<Rightarrow> ('b, unit) cpum" where
  "exec_vector_widen_add_sub insn config funct6 =
     (let wide_eew = sew config * 2; wide_left = (funct6 \<ge> 0x34) in
      if wide_eew > 64 then illegal insn
      else case emul config wide_eew of None \<Rightarrow> illegal insn
      | Some wide_ratio \<Rightarrow>
        if \<not> widen_add_sub_legal insn config funct6 wide_ratio then illegal insn
        else vector_loop (\<not> vm_bit insn) config () (\<lambda>index _.
          mbind (vget (read_element (rs2 insn) index (if wide_left then wide_eew else sew config))) (\<lambda>a.
          mbind (rhs_operand (funct3 insn = 2) insn index (sew config)) (\<lambda>b.
          vmod (write_element (rd insn) index wide_eew (widen_add_sub_value funct6 (sew config) a b))))))"

text \<open>The legality of widening multiplications, and of widening multiply-adds.\<close>

definition widen_product_legal :: "u32 \<Rightarrow> vector_config \<Rightarrow> group_ratio \<Rightarrow> bool \<Rightarrow> bool" where
  "widen_product_legal insn config wide_ratio accumulates \<longleftrightarrow>
     (let wide_eew = sew config * 2; narrow_ratio = lmul config; vector_rhs = (funct3 insn = 2);
          masked = (\<not> vm_bit insn) in
      \<not> (\<not> validate_group (rd insn) wide_ratio 1
        \<or> \<not> validate_group (rs2 insn) narrow_ratio 1
        \<or> (vector_rhs \<and> \<not> validate_group (rs1 insn) narrow_ratio 1)
        \<or> \<not> destination_source_overlap_legal (rd insn) wide_ratio wide_eew
              (rs2 insn) narrow_ratio (sew config)
        \<or> (vector_rhs \<and> \<not> destination_source_overlap_legal (rd insn) wide_ratio wide_eew
              (rs1 insn) narrow_ratio (sew config))
        \<or> (accumulates \<and> mixed_width_sources_overlap (rd insn) wide_ratio wide_eew
              (rs2 insn) narrow_ratio (sew config))
        \<or> (accumulates \<and> vector_rhs \<and> mixed_width_sources_overlap (rd insn) wide_ratio wide_eew
              (rs1 insn) narrow_ratio (sew config))
        \<or> (masked \<and> mask_overlap (rd insn) wide_ratio)
        \<or> (masked \<and> (mask_source_overlap (rs2 insn) narrow_ratio (sew config)
            \<or> (vector_rhs \<and> mask_source_overlap (rs1 insn) narrow_ratio (sew config))))))"

definition widen_multiply_value :: "u32 \<Rightarrow> nat \<Rightarrow> u64 \<Rightarrow> u64 \<Rightarrow> u64 option" where
  "widen_multiply_value funct6 w a b =
     (if funct6 = 0x38 then Some (ucast (ucast a * ucast b :: u128))
      else if funct6 = 0x3a then Some (word_of_int (signed_narrow a w * uint b))
      else if funct6 = 0x3b then Some (word_of_int (signed_narrow a w * signed_narrow b w))
      else None)"

definition exec_vector_widen_multiply :: "u32 \<Rightarrow> vector_config \<Rightarrow> u32 \<Rightarrow> ('b, unit) cpum" where
  "exec_vector_widen_multiply insn config funct6 =
     (let wide_eew = sew config * 2; format = funct3 insn in
      if wide_eew > 64 \<or> \<not> (funct6 = 0x38 \<or> funct6 = 0x3a \<or> funct6 = 0x3b) then illegal insn
      else if \<not> (format = 2 \<or> format = 6) then illegal insn
      else case emul config wide_eew of None \<Rightarrow> illegal insn
      | Some wide_ratio \<Rightarrow>
        if \<not> widen_product_legal insn config wide_ratio False then illegal insn
        else vector_loop (\<not> vm_bit insn) config () (\<lambda>index _.
          mbind (vget (read_element (rs2 insn) index (sew config))) (\<lambda>a.
          mbind (rhs_operand (format = 2) insn index (sew config)) (\<lambda>b.
          mbind (unwrap (widen_multiply_value funct6 (sew config) a b)) (\<lambda>product.
          vmod (write_element (rd insn) index wide_eew (product AND element_mask wide_eew)))))))"

definition integer_madd_value :: "u32 \<Rightarrow> u64 \<Rightarrow> u64 \<Rightarrow> u64 \<Rightarrow> u64 option" where
  "integer_madd_value funct6 source operand old =
     (let product = old * operand in
      if funct6 = 0x29 then Some (product + source)
      else if funct6 = 0x2b then Some (source - product)
      else if funct6 = 0x2d then Some (source * operand + old)
      else if funct6 = 0x2f then Some (old - source * operand)
      else None)"

definition exec_vector_integer_madd :: "u32 \<Rightarrow> vector_config \<Rightarrow> u32 \<Rightarrow> ('b, unit) cpum" where
  "exec_vector_integer_madd insn config funct6 =
     (let format = funct3 insn; vector_rhs = (format = 2) in
      if \<not> (format = 2 \<or> format = 6)
        \<or> \<not> (funct6 = 0x29 \<or> funct6 = 0x2b \<or> funct6 = 0x2d \<or> funct6 = 0x2f)
      then illegal insn
      else mbind (integer_groups insn config False True vector_rhs) (\<lambda>_.
        vector_loop (\<not> vm_bit insn) config () (\<lambda>index _.
          mbind (vget (read_element (rs2 insn) index (sew config))) (\<lambda>source.
          mbind (rhs_operand vector_rhs insn index (sew config)) (\<lambda>operand.
          mbind (vget (read_element (rd insn) index (sew config))) (\<lambda>old.
          mbind (unwrap (integer_madd_value funct6 source operand old)) (\<lambda>val.
          vmod (write_element (rd insn) index (sew config) (val AND element_mask (sew config))))))))))"

definition widen_madd_product :: "u32 \<Rightarrow> nat \<Rightarrow> u64 \<Rightarrow> u64 \<Rightarrow> u64 option" where
  "widen_madd_product funct6 w a b =
     (if funct6 = 0x3c then Some (ucast (ucast a * ucast b :: u128))
      else if funct6 = 0x3d then Some (word_of_int (signed_narrow a w * signed_narrow b w))
      else if funct6 = 0x3e then Some (word_of_int (signed_narrow a w * uint b))
      else if funct6 = 0x3f then Some (word_of_int (uint a * signed_narrow b w))
      else None)"

definition exec_vector_widen_madd :: "u32 \<Rightarrow> vector_config \<Rightarrow> u32 \<Rightarrow> ('b, unit) cpum" where
  "exec_vector_widen_madd insn config funct6 =
     (let wide_eew = sew config * 2; format = funct3 insn; vector_rhs = (format = 2) in
      if wide_eew > 64 \<or> \<not> (format = 2 \<or> format = 6) \<or> \<not> (0x3c \<le> funct6 \<and> funct6 \<le> 0x3f)
        \<or> (funct6 = 0x3e \<and> vector_rhs)
      then illegal insn
      else case emul config wide_eew of None \<Rightarrow> illegal insn
      | Some wide_ratio \<Rightarrow>
        if \<not> widen_product_legal insn config wide_ratio True then illegal insn
        else vector_loop (\<not> vm_bit insn) config () (\<lambda>index _.
          mbind (vget (read_element (rs2 insn) index (sew config))) (\<lambda>a.
          mbind (rhs_operand vector_rhs insn index (sew config)) (\<lambda>b.
          mbind (unwrap (widen_madd_product funct6 (sew config) a b)) (\<lambda>product.
          mbind (vget (read_element (rd insn) index wide_eew)) (\<lambda>old.
          vmod (write_element (rd insn) index wide_eew ((old + product) AND element_mask wide_eew))))))))"

section \<open>Fixed point\<close>

definition average_value :: "u32 \<Rightarrow> nat \<Rightarrow> u8 \<Rightarrow> u64 \<Rightarrow> u64 \<Rightarrow> u64" where
  "average_value funct6 w vxrm a b =
     (let is_signed = (funct6 AND 1 \<noteq> 0); subtract = (funct6 AND 2 \<noteq> 0) in
      if is_signed then
        word_of_int (fixed_round_signed
          (if subtract then signed_narrow a w - signed_narrow b w else signed_narrow a w + signed_narrow b w)
          1 vxrm)
      else if subtract then word_of_int (fixed_round_signed (uint a - uint b) 1 vxrm)
      else ucast (fixed_round_unsigned (ucast a + ucast b) 1 vxrm))"

definition exec_vector_average :: "u32 \<Rightarrow> vector_config \<Rightarrow> u32 \<Rightarrow> ('b, unit) cpum" where
  "exec_vector_average insn config funct6 =
     (let format = funct3 insn; vector_rhs = (format = 2) in
      if \<not> (format = 2 \<or> format = 6) \<or> \<not> (0x08 \<le> funct6 \<and> funct6 \<le> 0x0b) then illegal insn
      else mbind (integer_groups insn config False True vector_rhs) (\<lambda>_.
        vector_loop (\<not> vm_bit insn) config () (\<lambda>index _.
          mbind (vget (read_element (rs2 insn) index (sew config))) (\<lambda>a.
          mbind (rhs_operand vector_rhs insn index (sew config)) (\<lambda>b.
          mbind (getc (\<lambda>c. vs_vxrm (vector c))) (\<lambda>vxrm.
          vmod (write_element (rd insn) index (sew config)
            (average_value funct6 (sew config) vxrm a b AND element_mask (sew config)))))))))"

text \<open>The shift operand of OPIVV, OPIVI and OPIVX, reduced modulo the width \<open>w\<close>.\<close>

definition shift_operand :: "u32 \<Rightarrow> nat \<Rightarrow> nat \<Rightarrow> nat \<Rightarrow> ('b, nat) cpum" where
  "shift_operand insn index eew w =
     mbind (if funct3 insn = 0 then vget (read_element (rs1 insn) index eew)
            else if funct3 insn = 3 then mret (of_nat (rs1 insn))
            else if funct3 insn = 4 then getc (\<lambda>c. xreg c (rs1 insn))
            else panic) (\<lambda>amount. mret (unat (amount AND of_nat (w - 1))))"

definition exec_vector_scaling_shift :: "u32 \<Rightarrow> vector_config \<Rightarrow> bool \<Rightarrow> ('b, unit) cpum" where
  "exec_vector_scaling_shift insn config arithmetic =
     (let format = funct3 insn in
      if \<not> (format = 0 \<or> format = 3 \<or> format = 4) then illegal insn
      else mbind (integer_groups insn config False True (format = 0)) (\<lambda>_.
        vector_loop (\<not> vm_bit insn) config () (\<lambda>index _.
          mbind (vget (read_element (rs2 insn) index (sew config))) (\<lambda>source.
          mbind (shift_operand insn index (sew config) (sew config)) (\<lambda>shift.
          mbind (getc (\<lambda>c. vs_vxrm (vector c))) (\<lambda>vxrm.
          vmod (write_element (rd insn) index (sew config)
            ((if arithmetic
              then word_of_int (fixed_round_signed (signed_narrow source (sew config)) shift vxrm)
              else ucast (fixed_round_unsigned (ucast source) shift vxrm))
             AND element_mask (sew config)))))))))"

definition or_vxsat :: "bool \<Rightarrow> ('b, unit) cpum" where
  "or_vxsat saturated = modc (\<lambda>c. c\<lparr>vector := (vector c)\<lparr>vs_vxsat := vs_vxsat (vector c) \<or> saturated\<rparr>\<rparr>)"

text \<open>A loop with the local \<open>saturated\<close>, added to \<open>vxsat\<close> before \<open>vstart\<close> is cleared.\<close>

definition saturating_loop :: "bool \<Rightarrow> vector_config \<Rightarrow> (nat \<Rightarrow> bool \<Rightarrow> ('b, bool) cpum) \<Rightarrow> ('b, unit) cpum" where
  "saturating_loop masked config body =
     mbind (getc (\<lambda>c. (vstart_of c, vl_of config c))) (\<lambda>(start, vl).
     mbind (modc vector_dirty) (\<lambda>_.
     mbind (elements masked start vl False body) (\<lambda>saturated.
     mbind (or_vxsat saturated) (\<lambda>_. set_vstart 0))))"

definition exec_vector_fractional_multiply :: "u32 \<Rightarrow> vector_config \<Rightarrow> ('b, unit) cpum" where
  "exec_vector_fractional_multiply insn config =
     (let format = funct3 insn; vector_rhs = (format = 0); w = sew config;
          minimum = - (2 ^ (w - 1)); maximum = 2 ^ (w - 1) - 1 in
      if \<not> (format = 0 \<or> format = 4) then illegal insn
      else mbind (integer_groups insn config False True vector_rhs) (\<lambda>_.
        saturating_loop (\<not> vm_bit insn) config (\<lambda>index saturated.
          mbind (vget (read_element (rs2 insn) index w)) (\<lambda>a.
          mbind (rhs_operand vector_rhs insn index w) (\<lambda>b.
          mbind (getc (\<lambda>c. vs_vxrm (vector c))) (\<lambda>vxrm.
          let product = signed_narrow a w * signed_narrow b w;
              rounded = fixed_round_signed product (w - 1) vxrm;
              val = clamp minimum maximum rounded in
          mbind (vmod (write_element (rd insn) index w (word_of_int val AND element_mask w))) (\<lambda>_.
          mret (saturated \<or> val \<noteq> rounded))))))))"

text \<open>The value and the saturation flag of one clipped element.\<close>

definition clip_value :: "bool \<Rightarrow> nat \<Rightarrow> u8 \<Rightarrow> nat \<Rightarrow> u64 \<Rightarrow> u64 \<times> bool" where
  "clip_value is_signed w vxrm shift source =
     (if is_signed then
        let rounded = fixed_round_signed (signed_narrow source (w * 2)) shift vxrm;
            clipped = clamp (- (2 ^ (w - 1))) (2 ^ (w - 1) - 1) rounded in
        (word_of_int clipped, clipped \<noteq> rounded)
      else
        let rounded = fixed_round_unsigned (ucast source) shift vxrm;
            clipped = min rounded (ucast (element_mask w)) in
        (ucast clipped, clipped \<noteq> rounded))"

definition exec_vector_clip :: "u32 \<Rightarrow> vector_config \<Rightarrow> bool \<Rightarrow> ('b, unit) cpum" where
  "exec_vector_clip insn config is_signed =
     (let wide_eew = sew config * 2; destination_ratio = lmul config; format = funct3 insn;
          masked = (\<not> vm_bit insn) in
      if wide_eew > 64 then illegal insn
      else case emul config wide_eew of None \<Rightarrow> illegal insn
      | Some source_ratio \<Rightarrow>
        if \<not> (format = 0 \<or> format = 3 \<or> format = 4)
          \<or> \<not> validate_group (rd insn) destination_ratio 1
          \<or> \<not> validate_group (rs2 insn) source_ratio 1
          \<or> (format = 0 \<and> \<not> validate_group (rs1 insn) destination_ratio 1)
          \<or> \<not> destination_source_overlap_legal (rd insn) destination_ratio (sew config)
                (rs2 insn) source_ratio wide_eew
          \<or> (format = 0 \<and> mixed_width_sources_overlap (rs2 insn) source_ratio wide_eew
                (rs1 insn) destination_ratio (sew config))
          \<or> (masked \<and> mask_overlap (rd insn) destination_ratio)
          \<or> (masked \<and> (mask_source_overlap (rs2 insn) source_ratio wide_eew
              \<or> (format = 0 \<and> mask_source_overlap (rs1 insn) destination_ratio (sew config))))
        then illegal insn
        else saturating_loop masked config (\<lambda>index saturated.
          mbind (shift_operand insn index (sew config) wide_eew) (\<lambda>shift.
          mbind (vget (read_element (rs2 insn) index wide_eew)) (\<lambda>source.
          mbind (getc (\<lambda>c. vs_vxrm (vector c))) (\<lambda>vxrm.
          let (val, clipped) = clip_value is_signed (sew config) vxrm shift source in
          mbind (vmod (write_element (rd insn) index (sew config) (val AND element_mask (sew config)))) (\<lambda>_.
          mret (saturated \<or> clipped)))))))"

section \<open>Single-width arithmetic\<close>

text \<open>The encodings \<open>common_binary\<close> and \<open>supported_binary\<close> list, without 0x17.\<close>

definition supported_binary :: "u32 \<Rightarrow> u32 \<Rightarrow> bool" where
  "supported_binary funct6 format \<longleftrightarrow>
     (if funct6 = 0x00 \<or> funct6 = 0x09 \<or> funct6 = 0x0a \<or> funct6 = 0x0b \<or> funct6 = 0x18 \<or> funct6 = 0x19
        \<or> funct6 = 0x1c \<or> funct6 = 0x1d \<or> funct6 = 0x20 \<or> funct6 = 0x21 \<or> funct6 = 0x25 \<or> funct6 = 0x28
        \<or> funct6 = 0x29
      then format = 0 \<or> format = 3 \<or> format = 4
      else if funct6 = 0x02 \<or> funct6 = 0x04 \<or> funct6 = 0x05 \<or> funct6 = 0x06 \<or> funct6 = 0x07
        \<or> funct6 = 0x1a \<or> funct6 = 0x1b \<or> funct6 = 0x22 \<or> funct6 = 0x23
      then format = 0 \<or> format = 4
      else if funct6 = 0x03 \<or> funct6 = 0x1e \<or> funct6 = 0x1f then format = 3 \<or> format = 4
      else False)"

definition common_binary :: "u32 \<Rightarrow> u32 \<Rightarrow> bool" where
  "common_binary funct6 format \<longleftrightarrow>
     (if funct6 = 0x17 then format = 0 \<or> format = 3 \<or> format = 4 else supported_binary funct6 format)"

definition compare_value :: "u32 \<Rightarrow> nat \<Rightarrow> u64 \<Rightarrow> u64 \<Rightarrow> bool option" where
  "compare_value funct6 w a b =
     (if funct6 = 0x18 then Some (a = b)
      else if funct6 = 0x19 then Some (a \<noteq> b)
      else if funct6 = 0x1a then Some (a < b)
      else if funct6 = 0x1b then Some (slt (signed_element a w) (signed_element b w))
      else if funct6 = 0x1c then Some (a \<le> b)
      else if funct6 = 0x1d then Some (\<not> slt (signed_element b w) (signed_element a w))
      else if funct6 = 0x1e then Some (b < a)
      else if funct6 = 0x1f then Some (slt (signed_element b w) (signed_element a w))
      else None)"

definition signed_saturate :: "nat \<Rightarrow> int \<Rightarrow> u64 \<times> bool" where
  "signed_saturate w val =
     (let minimum = - (2 ^ (w - 1)); maximum = 2 ^ (w - 1) - 1 in
      (word_of_int (clamp minimum maximum val), val < minimum \<or> val > maximum))"

text \<open>The value of an element, before the final mask, and whether it saturated.\<close>

definition binary_value :: "u32 \<Rightarrow> nat \<Rightarrow> u64 \<Rightarrow> u64 \<Rightarrow> (u64 \<times> bool) option" where
  "binary_value funct6 w a b =
     (let sa = signed_element a w; sb = signed_element b w; msk = element_mask w;
          shift = unat (b AND of_nat (w - 1)) in
      if funct6 = 0x00 then Some (a + b, False)
      else if funct6 = 0x02 then Some (a - b, False)
      else if funct6 = 0x03 then Some (b - a, False)
      else if funct6 = 0x04 then Some (min a b, False)
      else if funct6 = 0x05 then Some (if slt sa sb then a else b, False)
      else if funct6 = 0x06 then Some (max a b, False)
      else if funct6 = 0x07 then Some (if slt sb sa then a else b, False)
      else if funct6 = 0x09 then Some (a AND b, False)
      else if funct6 = 0x0a then Some (a OR b, False)
      else if funct6 = 0x0b then Some (a XOR b, False)
      else if funct6 = 0x20 then
        let val = (ucast a + ucast b :: u128) in
        Some (if val > ucast msk then (msk, True) else (ucast val, False))
      else if funct6 = 0x21 then Some (signed_saturate w (sint sa + sint sb))
      else if funct6 = 0x22 then Some (if a < b then (0, True) else (a - b, False))
      else if funct6 = 0x23 then Some (signed_saturate w (sint sa - sint sb))
      else if funct6 = 0x25 then Some (push_bit shift a, False)
      else if funct6 = 0x28 then Some (drop_bit shift a, False)
      else if funct6 = 0x29 then Some (signed_drop_bit shift sa, False)
      else None)"

text \<open>
  The byte path of the unmasked bitwise operations: two loops over the flat register file,
  first eight bytes at a time, then byte by byte.
\<close>

definition bitwise_value :: "u32 \<Rightarrow> 'a::len word \<Rightarrow> 'a word \<Rightarrow> 'a word" where
  "bitwise_value funct6 a b =
     (if funct6 = 0x09 then a AND b else if funct6 = 0x0a then a OR b else a XOR b)"

function bitwise_words :: "u32 \<Rightarrow> nat \<Rightarrow> nat \<Rightarrow> nat \<Rightarrow> nat \<Rightarrow> nat \<Rightarrow> vector_state \<Rightarrow>
    (nat \<times> vector_state) option" where
  "bitwise_words funct6 dst src2 src1 byte_count offset v =
     (if offset + 8 \<le> byte_count then
        if src2 + offset + 8 \<le> VREG_COUNT * VLEN_BYTES \<and> src1 + offset + 8 \<le> VREG_COUNT * VLEN_BYTES
          \<and> dst + offset + 8 \<le> VREG_COUNT * VLEN_BYTES
        then
          let a = (from_le_bytes (get_bytes (src2 + offset) 8 v) :: u64);
              b = from_le_bytes (get_bytes (src1 + offset) 8 v) in
          bitwise_words funct6 dst src2 src1 byte_count (offset + 8)
            (put_bytes (dst + offset) (to_le_bytes 8 (bitwise_value funct6 a b)) v)
        else None
      else Some (offset, v))"
  by pat_completeness auto
termination by (relation "measure (\<lambda>(_, _, _, _, byte_count, offset, _). byte_count - offset)") auto

function bitwise_tail :: "u32 \<Rightarrow> nat \<Rightarrow> nat \<Rightarrow> nat \<Rightarrow> nat \<Rightarrow> nat \<Rightarrow> vector_state \<Rightarrow> vector_state option" where
  "bitwise_tail funct6 dst src2 src1 byte_count offset v =
     (if offset < byte_count then
        if src2 + offset < VREG_COUNT * VLEN_BYTES \<and> src1 + offset < VREG_COUNT * VLEN_BYTES
          \<and> dst + offset < VREG_COUNT * VLEN_BYTES
        then
          bitwise_tail funct6 dst src2 src1 byte_count (offset + 1)
            (put_bytes (dst + offset)
              [bitwise_value funct6 (flat_byte v (src2 + offset)) (flat_byte v (src1 + offset))] v)
        else None
      else Some v)"
  by pat_completeness auto
termination by (relation "measure (\<lambda>(_, _, _, _, byte_count, offset, _). byte_count - offset)") auto

definition bitwise_bytes :: "u32 \<Rightarrow> nat \<Rightarrow> nat \<Rightarrow> nat \<Rightarrow> nat \<Rightarrow> vector_state \<Rightarrow> vector_state option" where
  "bitwise_bytes funct6 d s2 s1 byte_count v =
     (let dst = d * VLEN_BYTES; src2 = s2 * VLEN_BYTES; src1 = s1 * VLEN_BYTES in
      Option.bind (bitwise_words funct6 dst src2 src1 byte_count 0 v) (\<lambda>(offset, v).
        bitwise_tail funct6 dst src2 src1 byte_count offset v))"

declare bitwise_words.simps [simp del] bitwise_tail.simps [simp del]

text \<open>One element of the loop of \<open>exec_vector_integer_binary\<close>.\<close>

definition binary_element :: "u32 \<Rightarrow> vector_config \<Rightarrow> u32 \<Rightarrow> u32 \<Rightarrow> nat \<Rightarrow> bool \<Rightarrow> ('b, bool) cpum" where
  "binary_element insn config funct6 format index saturated =
     (let vm = vm_bit insn; d = rd insn; s2 = rs2 insn; s1 = rs1 insn; w = sew config;
          comparison = (0x18 \<le> funct6 \<and> funct6 \<le> 0x1f);
          move_or_merge = (funct6 = 0x17 \<and> (format = 0 \<or> format = 3 \<or> format = 4)) in
      mbind (if move_or_merge \<and> vm then mret 0 else vget (read_element s2 index w)) (\<lambda>a.
      mbind (if format = 0 then vget (read_element s1 index w)
             else if format = 3 \<and> (funct6 = 0x25 \<or> funct6 = 0x28 \<or> funct6 = 0x29) then mret (of_nat s1)
             else if format = 3 then mret (simm5 s1)
             else if format = 4 then getc (\<lambda>c. xreg c s1)
             else panic) (\<lambda>b.
      let b = b AND element_mask w in
      if comparison then
        mbind (unwrap (compare_value funct6 w a b)) (\<lambda>result.
        mbind (write_mask_element d index result) (\<lambda>_. mret saturated))
      else
        mbind (if move_or_merge then
            mbind (if vm then mret True else vget (mask_bit index)) (\<lambda>m.
            mret (if m then b else a, False))
          else unwrap (binary_value funct6 w a b)) (\<lambda>(val, sat).
        mbind (vmod (write_element d index w (val AND element_mask w))) (\<lambda>_.
        mret (saturated \<or> sat))))))"

definition exec_vector_integer_binary :: "u32 \<Rightarrow> vector_config \<Rightarrow> u32 \<Rightarrow> u32 \<Rightarrow> ('b, unit) cpum" where
  "exec_vector_integer_binary insn config funct6 format =
     (let vm = vm_bit insn;
          comparison = (0x18 \<le> funct6 \<and> funct6 \<le> 0x1f);
          move_or_merge = (funct6 = 0x17 \<and> (format = 0 \<or> format = 3 \<or> format = 4));
          needs_vs1 = (format = 0); needs_vs2 = (\<not> move_or_merge \<or> \<not> vm) in
      if \<not> supported_binary funct6 format \<and> \<not> move_or_merge then illegal insn
      else if move_or_merge \<and> vm \<and> rs2 insn \<noteq> 0 then illegal insn
      else
        mbind (integer_groups insn config comparison needs_vs2 needs_vs1) (\<lambda>_.
        mbind (getc (\<lambda>c. (vstart_of c, vl_of config c))) (\<lambda>(start, vl).
        mbind (modc vector_dirty) (\<lambda>_.
        if vm \<and> start = 0 \<and> format = 0 \<and> (0x09 \<le> funct6 \<and> funct6 \<le> 0x0b) then
          mbind (vmod (bitwise_bytes funct6 (rd insn) (rs2 insn) (rs1 insn) (vl * (sew config div 8)))) (\<lambda>_.
          set_vstart 0)
        else
          mbind (elements (\<not> move_or_merge \<and> \<not> vm) start vl False
            (binary_element insn config funct6 format)) (\<lambda>saturated.
          mbind (if saturated then or_vxsat True else mret ()) (\<lambda>_.
          set_vstart 0))))))"

section \<open>The decoder\<close>

definition exec_vector_vid :: "u32 \<Rightarrow> vector_config \<Rightarrow> ('b, unit) cpum" where
  "exec_vector_vid insn config =
     mbind (integer_groups insn config False False False) (\<lambda>_.
     vector_loop (\<not> vm_bit insn) config () (\<lambda>index _.
       vmod (write_element (rd insn) index (sew config) (of_nat index))))"

text \<open>
  \<open>exec_vector_integer\<close>. The second occurrences of the slide and gather tests in the source,
  after the multiply and fixed-point families, repeat conditions that have already returned.
\<close>

definition exec_vector_integer :: "u32 \<Rightarrow> vector_config \<Rightarrow> ('b, unit) cpum" where
  "exec_vector_integer insn config =
     (let format = funct3 insn; funct6 = drop_bit 26 insn; vm = vm_bit insn; d = rd insn;
          s2 = rs2 insn; s1 = rs1 insn; ivxi = (format = 0 \<or> format = 3 \<or> format = 4);
          mvx = (format = 2 \<or> format = 6) in
      if format = 3 \<and> funct6 = 0x27 then exec_vector_whole_move insn config
      else if format = 6 \<and> funct6 = 0x10 \<and> vm \<and> s2 = 0 then
        mbind (getc id) (\<lambda>c.
        mbind (if vs_vl (vector c) > 0 \<and> vs_vstart (vector c) < vs_vl (vector c)
               then vmod (write_element d 0 (sew config) (xreg c s1)) else mret ()) (\<lambda>_.
        mbind (set_vstart 0) (\<lambda>_. modc vector_dirty)))
      else if format = 2 \<and> funct6 = 0x10 \<and> vm \<and> s1 = 0 then
        mbind (vget (read_element s2 0 (sew config))) (\<lambda>val.
        mbind (modc (wr d (signed_element val (sew config)))) (\<lambda>_. set_vstart 0))
      else if common_binary funct6 format then exec_vector_integer_binary insn config funct6 format
      else if format = 6 \<and> (funct6 = 0x0e \<or> funct6 = 0x0f) then exec_vector_slide1 insn config (funct6 = 0x0e)
      else if format = 0 \<and> funct6 = 0x0e then exec_vector_gather_ei16 insn config
      else if (funct6 = 0x0c \<or> funct6 = 0x0e \<or> funct6 = 0x0f) \<and> ivxi then
        exec_vector_slide_or_gather insn config funct6 format
      else if format = 2 \<and> funct6 = 0x12 then exec_vector_extension insn config
      else if format = 2 \<and> funct6 = 0x14 \<and> s2 = 0 \<and> s1 = 0x11 then exec_vector_vid insn config
      else if format = 2 \<and> funct6 = 0x10 \<and> (s1 = 0x10 \<or> s1 = 0x11) then exec_vector_mask_query insn config
      else if format = 2 \<and> funct6 = 0x14 \<and> (s1 = 1 \<or> s1 = 2 \<or> s1 = 3) then exec_vector_mask_prefix insn config
      else if format = 2 \<and> funct6 = 0x14 \<and> s1 = 0x10 then exec_vector_iota insn config
      else if format = 2 \<and> funct6 = 0x17 then exec_vector_compress insn config
      else if format = 2 \<and> 0x18 \<le> funct6 \<and> funct6 \<le> 0x1f then exec_vector_mask_logic insn config funct6
      else if format = 2 \<and> funct6 \<le> 0x07 then exec_vector_reduction insn config funct6
      else if format = 0 \<and> (funct6 = 0x30 \<or> funct6 = 0x31) then
        exec_vector_widen_reduction insn config (funct6 = 0x31)
      else if 0x10 \<le> funct6 \<and> funct6 \<le> 0x13 \<and> ivxi then exec_vector_carry insn config funct6
      else if mvx \<and> 0x20 \<le> funct6 \<and> funct6 \<le> 0x27 then
        exec_vector_multiply_divide insn config funct6 (format = 2)
      else if mvx \<and> 0x30 \<le> funct6 \<and> funct6 \<le> 0x37 then exec_vector_widen_add_sub insn config funct6
      else if mvx \<and> (funct6 = 0x38 \<or> funct6 = 0x3a \<or> funct6 = 0x3b) then
        exec_vector_widen_multiply insn config funct6
      else if mvx \<and> 0x3c \<le> funct6 \<and> funct6 \<le> 0x3f then exec_vector_widen_madd insn config funct6
      else if mvx \<and> (funct6 = 0x29 \<or> funct6 = 0x2b \<or> funct6 = 0x2d \<or> funct6 = 0x2f) then
        exec_vector_integer_madd insn config funct6
      else if mvx \<and> 0x08 \<le> funct6 \<and> funct6 \<le> 0x0b then exec_vector_average insn config funct6
      else if (format = 0 \<or> format = 4) \<and> funct6 = 0x27 then exec_vector_fractional_multiply insn config
      else if ivxi \<and> (funct6 = 0x2a \<or> funct6 = 0x2b) then
        exec_vector_scaling_shift insn config (funct6 = 0x2b)
      else if (funct6 = 0x2c \<or> funct6 = 0x2d) \<and> ivxi then exec_vector_narrow_shift insn config (funct6 = 0x2d)
      else if (funct6 = 0x2e \<or> funct6 = 0x2f) \<and> ivxi then exec_vector_clip insn config (funct6 = 0x2f)
      else illegal insn)"

end
