(* ===== verification/VectorFloat.thy ===== *)
theory VectorFloat
  imports VectorInt Fpu
begin

text \<open>
  The floating-point instructions of the vector unit (\<open>crates/rv64-core/src/cpu/vector.rs\<close>) on
  top of the soft-float routines. Functions with a \<open>flags: &mut u32\<close> argument take the flags
  and return the new ones.
\<close>

section \<open>Reciprocal estimates\<close>

definition FRSQRT7_TABLE :: "u64 list" where
  "FRSQRT7_TABLE = [
    52, 51, 50, 48, 47, 46, 44, 43, 42, 41, 40, 39, 38, 36, 35, 34, 33, 32, 31, 30, 30, 29, 28,
    27, 26, 25, 24, 23, 23, 22, 21, 20, 19, 19, 18, 17, 16, 16, 15, 14, 14, 13, 12, 12, 11, 10,
    10, 9, 9, 8, 7, 7, 6, 6, 5, 4, 4, 3, 3, 2, 2, 1, 1, 0, 127, 125, 123, 121, 119, 118, 116,
    114, 113, 111, 109, 108, 106, 105, 103, 102, 100, 99, 97, 96, 95, 93, 92, 91, 90, 88, 87,
    86, 85, 84, 83, 82, 80, 79, 78, 77, 76, 75, 74, 73, 72, 71, 70, 70, 69, 68, 67, 66, 65, 64,
    63, 63, 62, 61, 60, 59, 59, 58, 57, 56, 56, 55, 54, 53]"

definition FREC7_TABLE :: "u64 list" where
  "FREC7_TABLE = [
    127, 125, 123, 121, 119, 117, 116, 114, 112, 110, 109, 107, 105, 104, 102, 100, 99, 97, 96,
    94, 93, 91, 90, 88, 87, 85, 84, 83, 81, 80, 79, 77, 76, 75, 74, 72, 71, 70, 69, 68, 66, 65,
    64, 63, 62, 61, 60, 59, 58, 57, 56, 55, 54, 53, 52, 51, 50, 49, 48, 47, 46, 45, 44, 43, 42,
    41, 40, 40, 39, 38, 37, 36, 35, 35, 34, 33, 32, 31, 31, 30, 29, 28, 28, 27, 26, 25, 25, 24,
    23, 23, 22, 21, 21, 20, 19, 19, 18, 17, 17, 16, 15, 15, 14, 14, 13, 12, 12, 11, 11, 10, 9,
    9, 8, 8, 7, 7, 6, 5, 5, 4, 4, 3, 3, 2, 2, 1, 1, 0]"

definition fp_estimate_parts :: "u64 \<Rightarrow> nat \<Rightarrow> nat \<Rightarrow> u64 \<times> u64 \<times> u64" where
  "fp_estimate_parts val exp_bits frac_bits =
     (let frac_mask = push_bit frac_bits 1 - 1; exp_mask = push_bit exp_bits 1 - 1 in
      (drop_bit (frac_bits + exp_bits) val, drop_bit frac_bits val AND exp_mask, val AND frac_mask))"

text \<open>
  The normalisation loop \<open>while fraction >> (frac_bits - 1) == 0\<close> of both estimates: not
  ending is \<^term>\<open>None\<close>, like a table index out of range.
\<close>

partial_function (option) normalize_fraction :: "nat \<Rightarrow> u64 \<Rightarrow> u64 \<Rightarrow> (u64 \<times> u64) option" where
  "normalize_fraction frac_bits exponent fraction =
     (if drop_bit (frac_bits - 1) fraction = 0
      then normalize_fraction frac_bits (exponent - 1) (push_bit 1 fraction)
      else Some (exponent, fraction))"

definition table_entry :: "u64 list \<Rightarrow> u64 \<Rightarrow> u64 option" where
  "table_entry table index = (if unat index < length table then Some (table ! unat index) else None)"

definition rvv_frsqrt7 :: "u64 \<Rightarrow> nat \<Rightarrow> nat \<Rightarrow> u32 \<Rightarrow> (u64 \<times> u32) option" where
  "rvv_frsqrt7 val exp_bits frac_bits fl =
     (let (sign, exponent, fraction) = fp_estimate_parts val exp_bits frac_bits;
          exp_mask = push_bit exp_bits 1 - 1; frac_mask = push_bit frac_bits 1 - 1;
          quiet_bit = push_bit (frac_bits - 1) 1; infinity = push_bit frac_bits exp_mask;
          canonical_nan = infinity OR quiet_bit in
      if exponent = exp_mask \<and> fraction \<noteq> 0 then
        Some (canonical_nan, if fraction AND quiet_bit = 0 then fl OR FFLAG_INVALID_OP else fl)
      else if sign \<noteq> 0 \<and> (exponent \<noteq> 0 \<or> fraction \<noteq> 0) then
        Some (canonical_nan, fl OR FFLAG_INVALID_OP)
      else if exponent = 0 \<and> fraction = 0 then
        Some (push_bit (exp_bits + frac_bits) sign OR infinity, fl OR FFLAG_DIVIDE_ZERO)
      else if exponent = exp_mask then Some (0, fl)
      else
        Option.bind (if exponent = 0
          then map_option (\<lambda>(exponent, fraction). (exponent, push_bit 1 fraction AND frac_mask))
            (normalize_fraction frac_bits exponent fraction)
          else Some (exponent, fraction)) (\<lambda>(exponent, fraction).
        map_option (\<lambda>entry.
          let output_fraction = push_bit (frac_bits - 7) entry;
              half_exp_mask = push_bit (exp_bits - 1) 1 - 1;
              output_exponent = (3 * half_exp_mask + NOT exponent) div 2 in
          (push_bit (exp_bits + frac_bits) sign OR push_bit frac_bits (output_exponent AND exp_mask)
             OR output_fraction, fl))
          (table_entry FRSQRT7_TABLE
            (push_bit 6 (exponent AND 1) OR drop_bit (frac_bits - 6) fraction))))"

definition frec7_finite :: "nat \<Rightarrow> nat \<Rightarrow> u64 \<Rightarrow> u64 \<Rightarrow> u64 \<Rightarrow> u64 option" where
  "frec7_finite exp_bits frac_bits sign_field exponent fraction =
     map_option (\<lambda>entry.
       let exp_mask = push_bit exp_bits 1 - 1; frac_mask = push_bit frac_bits 1 - 1;
           output_fraction = push_bit (frac_bits - 7) entry;
           half_exp_mask = push_bit (exp_bits - 1) 1 - 1;
           output_exponent = 2 * half_exp_mask + NOT exponent;
           (output_exponent, output_fraction) =
             (if output_exponent = 0 \<or> output_exponent = NOT 0 then
                let output_fraction = drop_bit 1 output_fraction OR push_bit (frac_bits - 1) 1 in
                if output_exponent = NOT 0 then (0, drop_bit 1 output_fraction)
                else (output_exponent, output_fraction)
              else (output_exponent, output_fraction)) in
       sign_field OR push_bit frac_bits (output_exponent AND exp_mask) OR (output_fraction AND frac_mask))
     (table_entry FREC7_TABLE (drop_bit (frac_bits - 7) fraction))"

definition rvv_frec7 :: "u64 \<Rightarrow> nat \<Rightarrow> nat \<Rightarrow> u32 \<Rightarrow> u32 \<Rightarrow> (u64 \<times> u32) option" where
  "rvv_frec7 val exp_bits frac_bits rm fl =
     (let (sign, exponent, fraction) = fp_estimate_parts val exp_bits frac_bits;
          exp_mask = push_bit exp_bits 1 - 1; frac_mask = push_bit frac_bits 1 - 1;
          quiet_bit = push_bit (frac_bits - 1) 1; infinity = push_bit frac_bits exp_mask;
          sign_field = push_bit (exp_bits + frac_bits) sign in
      if exponent = exp_mask \<and> fraction = 0 then Some (sign_field, fl)
      else if exponent = 0 \<and> fraction = 0 then Some (sign_field OR infinity, fl OR FFLAG_DIVIDE_ZERO)
      else if exponent = exp_mask then
        Some (infinity OR quiet_bit, if fraction AND quiet_bit = 0 then fl OR FFLAG_INVALID_OP else fl)
      else if exponent = 0 then
        Option.bind (normalize_fraction frac_bits exponent fraction) (\<lambda>(exponent, fraction).
        let fraction = push_bit 1 fraction AND frac_mask in
        if exponent \<noteq> 0 \<and> exponent \<noteq> NOT 0 then
          let greatest_finite = infinity - 1;
              finite = (rm = RM_RTZ \<or> (rm = RM_RDN \<and> sign = 0) \<or> (rm = RM_RUP \<and> sign \<noteq> 0)) in
          Some (sign_field OR (if finite then greatest_finite else infinity),
            fl OR (FFLAG_OVERFLOW OR FFLAG_INEXACT))
        else map_option (\<lambda>r. (r, fl)) (frec7_finite exp_bits frac_bits sign_field exponent fraction))
      else map_option (\<lambda>r. (r, fl)) (frec7_finite exp_bits frac_bits sign_field exponent fraction))"

definition fp32_to_integer_width :: "u32 \<Rightarrow> nat \<Rightarrow> bool \<Rightarrow> u32 \<Rightarrow> u32 \<Rightarrow> u64 \<times> u32" where
  "fp32_to_integer_width val width uns rm fl =
     (let (converted, local) = (cvt_to_i sf32 val rm 0 uns :: u64 \<times> u32);
          bad = local AND FFLAG_INVALID_OP \<noteq> 0;
          bad_flags = fl OR ((local AND NOT FFLAG_INEXACT) OR FFLAG_INVALID_OP) in
      if uns then
        let maximum = element_mask width in
        if bad \<or> converted > maximum then (min converted maximum, bad_flags)
        else (converted, fl OR local)
      else
        let converted = sint converted; minimum = - (2 ^ (width - 1)); maximum = 2 ^ (width - 1) - 1 in
        if bad \<or> converted < minimum \<or> converted > maximum
        then (word_of_int (clamp minimum maximum converted) AND element_mask width, bad_flags)
        else (word_of_int converted AND element_mask width, fl OR local))"

section \<open>Scalars and element functions\<close>

definition scalar_float_bits :: "nat \<Rightarrow> nat \<Rightarrow> cpu \<Rightarrow> u64" where
  "scalar_float_bits reg w c =
     (if w = 32 then
        let val = freg c reg in
        if drop_bit 32 val = 0xffffffff then ucast (ucast val :: u32) else ucast (QNAN sf32 :: u32)
      else freg c reg)"

definition write_scalar_float_bits :: "nat \<Rightarrow> nat \<Rightarrow> u64 \<Rightarrow> cpu \<Rightarrow> cpu" where
  "write_scalar_float_bits reg w val =
     set_f reg (if w = 32 then 0xffffffff00000000 OR ucast (ucast val :: u32) else val)"

text \<open>\<open>a as u64\<close> of the result of an operation on \<open>f32\<close> bits.\<close>

definition widen_result :: "u32 \<times> u32 \<Rightarrow> u64 \<times> u32" where
  "widen_result p = (ucast (fst p), snd p)"

definition fp_binary :: "fp_format \<Rightarrow> u32 \<Rightarrow> 'a::len word \<Rightarrow> 'a word \<Rightarrow> u32 \<Rightarrow> u32 \<Rightarrow> ('a word \<times> u32) option" where
  "fp_binary F funct6 a b rm fl =
     (if funct6 = 0x00 then Some (sf_add F a b rm fl)
      else if funct6 = 0x02 then Some (sf_sub F a b rm fl)
      else if funct6 = 0x04 then Some (sf_min F a b fl)
      else if funct6 = 0x06 then Some (sf_max F a b fl)
      else if funct6 = 0x08 then Some ((a AND NOT (SIGN_MASK F)) OR (b AND SIGN_MASK F), fl)
      else if funct6 = 0x09 then Some ((a AND NOT (SIGN_MASK F)) OR (NOT b AND SIGN_MASK F), fl)
      else if funct6 = 0x0a then Some ((a AND NOT (SIGN_MASK F)) OR ((a XOR b) AND SIGN_MASK F), fl)
      else if funct6 = 0x20 then Some (sf_div F a b rm fl)
      else if funct6 = 0x21 then Some (sf_div F b a rm fl)
      else if funct6 = 0x24 then Some (sf_mul F a b rm fl)
      else if funct6 = 0x27 then Some (sf_sub F b a rm fl)
      else None)"

definition vector_fp_binary :: "nat \<Rightarrow> u32 \<Rightarrow> u64 \<Rightarrow> u64 \<Rightarrow> u32 \<Rightarrow> u32 \<Rightarrow> (u64 \<times> u32) option" where
  "vector_fp_binary w funct6 a b rm fl =
     (if w = 32 then map_option widen_result (fp_binary sf32 funct6 (ucast a :: u32) (ucast b) rm fl)
      else if w = 64 then fp_binary sf64 funct6 a b rm fl
      else None)"

definition vector_fp_fma :: "nat \<Rightarrow> u32 \<Rightarrow> u64 \<Rightarrow> u64 \<Rightarrow> u64 \<Rightarrow> u32 \<Rightarrow> u32 \<Rightarrow> (u64 \<times> u32) option" where
  "vector_fp_fma w funct6 old a b rm fl =
     (let (x, y, z) = (if funct6 < 0x2c then (old, b, a) else (a, b, old));
          negate_product = (funct6 = 0x29 \<or> funct6 = 0x2b \<or> funct6 = 0x2d \<or> funct6 = 0x2f);
          negate_addend = (funct6 = 0x29 \<or> funct6 = 0x2a \<or> funct6 = 0x2d \<or> funct6 = 0x2e) in
      if w = 32 then
        let sm = (ucast (SIGN_MASK sf32 :: u32) :: u64);
            x = (if negate_product then x XOR sm else x); z = (if negate_addend then z XOR sm else z) in
        Some (widen_result (sf_fma sf32 (ucast x) (ucast y) (ucast z) rm fl))
      else if w = 64 then
        let x = (if negate_product then x XOR SIGN_MASK sf64 else x);
            z = (if negate_addend then z XOR SIGN_MASK sf64 else z) in
        Some (sf_fma sf64 x y z rm fl)
      else None)"

definition fp_compare :: "fp_format \<Rightarrow> u32 \<Rightarrow> 'a::len word \<Rightarrow> 'a word \<Rightarrow> u32 \<Rightarrow> (bool \<times> u32) option" where
  "fp_compare F funct6 a b fl =
     (if funct6 = 0x18 then Some (sf_eq_quiet F a b fl)
      else if funct6 = 0x19 then Some (sf_le F a b fl)
      else if funct6 = 0x1b then Some (sf_lt F a b fl)
      else if funct6 = 0x1c then Some (apfst Not (sf_eq_quiet F a b fl))
      else if funct6 = 0x1d then Some (sf_lt F b a fl)
      else if funct6 = 0x1f then Some (sf_le F b a fl)
      else None)"

definition vector_fp_compare :: "nat \<Rightarrow> u32 \<Rightarrow> u64 \<Rightarrow> u64 \<Rightarrow> u32 \<Rightarrow> (bool \<times> u32) option" where
  "vector_fp_compare w funct6 a b fl =
     (if w = 32 then fp_compare sf32 funct6 (ucast a :: u32) (ucast b) fl
      else if w = 64 then fp_compare sf64 funct6 a b fl
      else None)"

section \<open>Loops\<close>

definition or_fcsr :: "u32 \<Rightarrow> ('b, unit) cpum" where
  "or_fcsr fl = modc (\<lambda>c. c\<lparr>fcsr := fcsr c OR (fl AND 0x1f)\<rparr>)"

definition float_loop :: "bool \<Rightarrow> vector_config \<Rightarrow> (nat \<Rightarrow> u32 \<Rightarrow> ('b, u32) cpum) \<Rightarrow> ('b, unit) cpum" where
  "float_loop masked config body =
     mbind (getc (\<lambda>c. (vstart_of c, vl_of config c))) (\<lambda>(start, vl).
     mbind (modc vector_dirty) (\<lambda>_.
     mbind (modc fp_dirty) (\<lambda>_.
     mbind (elements masked start vl 0 body) (\<lambda>fl.
     mbind (or_fcsr fl) (\<lambda>_. set_vstart 0)))))"

text \<open>\<open>self.get_rm(7).ok_or(IllegalInstruction)?\<close>.\<close>

definition dynamic_rm :: "u32 \<Rightarrow> ('b, u32) cpum" where
  "dynamic_rm insn = mbind (getc (\<lambda>c. get_rm c 7)) (\<lambda>rm. ok_or rm (IllegalInstruction insn))"

definition float_unary_value :: "nat \<Rightarrow> nat \<Rightarrow> u64 \<Rightarrow> u32 \<Rightarrow> u32 \<Rightarrow> (u64 \<times> u32) option" where
  "float_unary_value w selector source rm fl =
     (if w = 32 then
        let source = (ucast source :: u32) in
        if selector = 0 then Some (widen_result (sf_sqrt sf32 source rm fl))
        else if selector = 4 then rvv_frsqrt7 (ucast source) 8 23 fl
        else if selector = 5 then rvv_frec7 (ucast source) 8 23 rm fl
        else if selector = 0x10 then Some (ucast (sf_fclass sf32 source), fl)
        else None
      else
        if selector = 0 then Some (sf_sqrt sf64 source rm fl)
        else if selector = 4 then rvv_frsqrt7 source 11 52 fl
        else if selector = 5 then rvv_frec7 source 11 52 rm fl
        else if selector = 0x10 then Some (ucast (sf_fclass sf64 source), fl)
        else None)"

definition exec_vector_float_unary :: "u32 \<Rightarrow> vector_config \<Rightarrow> nat \<Rightarrow> ('b, unit) cpum" where
  "exec_vector_float_unary insn config selector =
     (let ratio = lmul config; masked = (\<not> vm_bit insn) in
      if \<not> validate_group (rd insn) ratio 1 \<or> \<not> validate_group (rs2 insn) ratio 1
        \<or> (masked \<and> mask_overlap (rd insn) ratio)
        \<or> (masked \<and> mask_source_overlap (rs2 insn) ratio (sew config))
        \<or> \<not> (selector = 0 \<or> selector = 4 \<or> selector = 5 \<or> selector = 0x10)
      then illegal insn
      else mbind (if selector = 5 then dynamic_rm insn else if selector = 0 then dynamic_rm insn else mret 0) (\<lambda>rm.
        float_loop masked config (\<lambda>index fl.
          mbind (vget (read_element (rs2 insn) index (sew config))) (\<lambda>source.
          mbind (unwrap (float_unary_value (sew config) selector source rm fl)) (\<lambda>(val, fl).
          mbind (vmod (write_element (rd insn) index (sew config) val)) (\<lambda>_. mret fl))))))"

section \<open>Conversions\<close>

definition convert_widths :: "nat \<Rightarrow> nat \<Rightarrow> (nat \<times> nat) option" where
  "convert_widths selector w =
     (if selector \<le> 0x07 then Some (w, w)
      else if selector \<le> 0x0f then Some (w, w * 2)
      else if selector \<le> 0x17 then Some (w * 2, w)
      else None)"

definition convert_supported :: "nat \<Rightarrow> nat \<Rightarrow> bool" where
  "convert_supported selector w \<longleftrightarrow>
     (if selector \<le> 3 \<or> selector = 6 \<or> selector = 7 then w = 32 \<or> w = 64
      else if selector = 0x08 \<or> selector = 0x09 \<or> selector = 0x0c \<or> selector = 0x0e \<or> selector = 0x0f then w = 32
      else if selector = 0x0a \<or> selector = 0x0b then w = 16 \<or> w = 32
      else if selector = 0x10 \<or> selector = 0x11 \<or> selector = 0x16 \<or> selector = 0x17 then w = 16 \<or> w = 32
      else if 0x12 \<le> selector \<and> selector \<le> 0x15 then w = 32
      else False)"

text \<open>
  The \<open>match selector\<close> of the loop, with the widths of the source and the destination; an
  unlisted selector is the illegal instruction of the last arm.
\<close>

definition convert_value :: "nat \<Rightarrow> nat \<Rightarrow> nat \<Rightarrow> u64 \<Rightarrow> u32 \<Rightarrow> u32 \<Rightarrow> (u64 \<times> u32) option" where
  "convert_value selector source_eew destination_eew source rm fl =
     (let s32 = (ucast source :: u32) in
      if selector = 0x00 \<or> selector = 0x06 then
        Some (if source_eew = 32 then widen_result (cvt_to_i sf32 s32 rm fl True)
          else cvt_to_i sf64 source rm fl True)
      else if selector = 0x01 \<or> selector = 0x07 then
        Some (if source_eew = 32 then widen_result (cvt_to_i sf32 s32 rm fl False)
          else cvt_to_i sf64 source rm fl False)
      else if selector = 0x02 then
        Some (if destination_eew = 32 then widen_result (cvt_from_i sf32 s32 rm fl True)
          else cvt_from_i sf64 source rm fl True)
      else if selector = 0x03 then
        Some (if destination_eew = 32 then widen_result (cvt_from_i sf32 s32 rm fl False)
          else cvt_from_i sf64 source rm fl False)
      else if selector = 0x08 \<or> selector = 0x0e then Some (cvt_to_i sf32 s32 rm fl True)
      else if selector = 0x09 \<or> selector = 0x0f then Some (cvt_to_i sf32 s32 rm fl False)
      else if selector = 0x0a then
        Some (if destination_eew = 32
          then widen_result (cvt_from_i sf32 (ucast (ucast source :: u16) :: u32) rm fl True)
          else cvt_from_i sf64 s32 rm fl True)
      else if selector = 0x0b then
        Some (if destination_eew = 32
          then widen_result (cvt_from_i sf32 (ucast (signed_element source source_eew) :: u32) rm fl False)
          else cvt_from_i sf64 s32 rm fl False)
      else if selector = 0x0c then Some (cvt_sf32_sf64 s32 fl)
      else if selector = 0x10 \<or> selector = 0x16 then
        Some (if source_eew = 32 then fp32_to_integer_width s32 destination_eew True rm fl
          else widen_result (cvt_to_i sf64 source rm fl True))
      else if selector = 0x11 \<or> selector = 0x17 then
        Some (if source_eew = 32 then fp32_to_integer_width s32 destination_eew False rm fl
          else widen_result (cvt_to_i sf64 source rm fl False))
      else if selector = 0x12 then Some (widen_result (cvt_from_i sf32 source rm fl True))
      else if selector = 0x13 then Some (widen_result (cvt_from_i sf32 source rm fl False))
      else if selector = 0x14 then Some (widen_result (cvt_sf64_sf32 source rm fl))
      else if selector = 0x15 then Some (widen_result (cvt_sf64_sf32_rod source fl))
      else None)"

definition exec_vector_float_convert :: "u32 \<Rightarrow> vector_config \<Rightarrow> nat \<Rightarrow> ('b, unit) cpum" where
  "exec_vector_float_convert insn config selector =
     (case convert_widths selector (sew config) of None \<Rightarrow> illegal insn
      | Some (source_eew, destination_eew) \<Rightarrow>
        if \<not> convert_supported selector (sew config) then illegal insn
        else case emul config source_eew of None \<Rightarrow> illegal insn
        | Some source_ratio \<Rightarrow> (case emul config destination_eew of None \<Rightarrow> illegal insn
          | Some destination_ratio \<Rightarrow>
            let masked = (\<not> vm_bit insn); operation = selector mod 8 in
            if \<not> validate_group (rd insn) destination_ratio 1
              \<or> \<not> validate_group (rs2 insn) source_ratio 1
              \<or> \<not> destination_source_overlap_legal (rd insn) destination_ratio destination_eew
                    (rs2 insn) source_ratio source_eew
              \<or> (masked \<and> mask_overlap (rd insn) destination_ratio)
              \<or> (masked \<and> mask_source_overlap (rs2 insn) source_ratio source_eew)
            then illegal insn
            else mbind (if operation = 6 \<or> operation = 7 then mret RM_RTZ
                else if selector = 0x15 then mret RM_RTZ else dynamic_rm insn) (\<lambda>rm.
              float_loop masked config (\<lambda>index fl.
                mbind (vget (read_element (rs2 insn) index source_eew)) (\<lambda>source.
                mbind (ok_or (convert_value selector source_eew destination_eew source rm fl)
                  (IllegalInstruction insn)) (\<lambda>(val, fl).
                mbind (vmod (write_element (rd insn) index destination_eew val)) (\<lambda>_. mret fl)))))))"

section \<open>Widening arithmetic\<close>

definition float_widen_binary_legal :: "u32 \<Rightarrow> vector_config \<Rightarrow> u32 \<Rightarrow> group_ratio \<Rightarrow> bool" where
  "float_widen_binary_legal insn config funct6 wide_ratio \<longleftrightarrow>
     (let wide_eew = sew config * 2; vector_rhs = (funct3 insn = 1); narrow_ratio = lmul config;
          wide_left = (funct6 = 0x34 \<or> funct6 = 0x36); masked = (\<not> vm_bit insn);
          left_ratio = (if wide_left then wide_ratio else narrow_ratio);
          left_eew = (if wide_left then wide_eew else sew config) in
      \<not> (\<not> validate_group (rd insn) wide_ratio 1
        \<or> \<not> validate_group (rs2 insn) left_ratio 1
        \<or> (vector_rhs \<and> \<not> validate_group (rs1 insn) narrow_ratio 1)
        \<or> \<not> destination_source_overlap_legal (rd insn) wide_ratio wide_eew (rs2 insn) left_ratio left_eew
        \<or> (vector_rhs \<and> \<not> destination_source_overlap_legal (rd insn) wide_ratio wide_eew
              (rs1 insn) narrow_ratio (sew config))
        \<or> (wide_left \<and> vector_rhs \<and> mixed_width_sources_overlap (rs2 insn) wide_ratio wide_eew
              (rs1 insn) narrow_ratio (sew config))
        \<or> (masked \<and> mask_overlap (rd insn) wide_ratio)
        \<or> (masked \<and> (mask_source_overlap (rs2 insn) left_ratio left_eew
            \<or> (vector_rhs \<and> mask_source_overlap (rs1 insn) narrow_ratio (sew config))))))"

text \<open>\<open>scalar.unwrap_or_else(|| self.vector.read_element(rs1, index, sew))\<close>.\<close>

definition float_rhs :: "u64 option \<Rightarrow> nat \<Rightarrow> nat \<Rightarrow> nat \<Rightarrow> ('b, u64) cpum" where
  "float_rhs scalar reg index w = (case scalar of Some x \<Rightarrow> mret x | None \<Rightarrow> vget (read_element reg index w))"

definition float_widen_value :: "u32 \<Rightarrow> u64 \<Rightarrow> u64 \<Rightarrow> u32 \<Rightarrow> u32 \<Rightarrow> (u64 \<times> u32) option" where
  "float_widen_value funct6 left right rm fl =
     (if funct6 = 0x30 \<or> funct6 = 0x34 then Some (sf_add sf64 left right rm fl)
      else if funct6 = 0x32 \<or> funct6 = 0x36 then Some (sf_sub sf64 left right rm fl)
      else if funct6 = 0x38 then Some (sf_mul sf64 left right rm fl)
      else None)"

definition exec_vector_float_widen_binary :: "u32 \<Rightarrow> vector_config \<Rightarrow> u32 \<Rightarrow> ('b, unit) cpum" where
  "exec_vector_float_widen_binary insn config funct6 =
     (let wide_eew = sew config * 2; format = funct3 insn;
          wide_left = (funct6 = 0x34 \<or> funct6 = 0x36) in
      if \<not> (sew config = 32 \<and> wide_eew = 64) then illegal insn
      else if \<not> (format = 1 \<or> format = 5)
        \<or> \<not> (funct6 = 0x30 \<or> funct6 = 0x32 \<or> funct6 = 0x34 \<or> funct6 = 0x36 \<or> funct6 = 0x38)
      then illegal insn
      else case emul config wide_eew of None \<Rightarrow> illegal insn
      | Some wide_ratio \<Rightarrow>
        if \<not> float_widen_binary_legal insn config funct6 wide_ratio then illegal insn
        else
          mbind (dynamic_rm insn) (\<lambda>rm.
          mbind (getc (\<lambda>c. if format = 1 then None else Some (scalar_float_bits (rs1 insn) (sew config) c))) (\<lambda>scalar.
          float_loop (\<not> vm_bit insn) config (\<lambda>index fl.
            mbind (vget (read_element (rs2 insn) index (if wide_left then wide_eew else sew config))) (\<lambda>a.
            let (left, fl) = (if wide_left then (a, fl) else cvt_sf32_sf64 (ucast a) fl) in
            mbind (float_rhs scalar (rs1 insn) index (sew config)) (\<lambda>narrow_right.
            let (right, fl) = cvt_sf32_sf64 (ucast narrow_right) fl in
            mbind (unwrap (float_widen_value funct6 left right rm fl)) (\<lambda>(val, fl).
            mbind (vmod (write_element (rd insn) index wide_eew val)) (\<lambda>_. mret fl))))))))"

definition float_widen_fma_legal :: "u32 \<Rightarrow> vector_config \<Rightarrow> group_ratio \<Rightarrow> bool" where
  "float_widen_fma_legal insn config wide_ratio \<longleftrightarrow>
     (let wide_eew = sew config * 2; vector_rhs = (funct3 insn = 1); narrow_ratio = lmul config;
          masked = (\<not> vm_bit insn) in
      \<not> (\<not> validate_group (rd insn) wide_ratio 1
        \<or> \<not> validate_group (rs2 insn) narrow_ratio 1
        \<or> (vector_rhs \<and> \<not> validate_group (rs1 insn) narrow_ratio 1)
        \<or> \<not> destination_source_overlap_legal (rd insn) wide_ratio wide_eew
              (rs2 insn) narrow_ratio (sew config)
        \<or> (vector_rhs \<and> \<not> destination_source_overlap_legal (rd insn) wide_ratio wide_eew
              (rs1 insn) narrow_ratio (sew config))
        \<or> mixed_width_sources_overlap (rd insn) wide_ratio wide_eew (rs2 insn) narrow_ratio (sew config)
        \<or> (vector_rhs \<and> mixed_width_sources_overlap (rd insn) wide_ratio wide_eew
              (rs1 insn) narrow_ratio (sew config))
        \<or> (masked \<and> mask_overlap (rd insn) wide_ratio)
        \<or> (masked \<and> (mask_source_overlap (rs2 insn) narrow_ratio (sew config)
            \<or> (vector_rhs \<and> mask_source_overlap (rs1 insn) narrow_ratio (sew config))))))"

definition exec_vector_float_widen_fma :: "u32 \<Rightarrow> vector_config \<Rightarrow> u32 \<Rightarrow> ('b, unit) cpum" where
  "exec_vector_float_widen_fma insn config funct6 =
     (let wide_eew = sew config * 2; format = funct3 insn in
      if \<not> (sew config = 32 \<and> wide_eew = 64) \<or> \<not> (0x3c \<le> funct6 \<and> funct6 \<le> 0x3f) then illegal insn
      else if \<not> (format = 1 \<or> format = 5) then illegal insn
      else case emul config wide_eew of None \<Rightarrow> illegal insn
      | Some wide_ratio \<Rightarrow>
        if \<not> float_widen_fma_legal insn config wide_ratio then illegal insn
        else
          mbind (dynamic_rm insn) (\<lambda>rm.
          mbind (getc (\<lambda>c. if format = 1 then None else Some (scalar_float_bits (rs1 insn) (sew config) c))) (\<lambda>scalar.
          float_loop (\<not> vm_bit insn) config (\<lambda>index fl.
            mbind (vget (read_element (rs2 insn) index (sew config))) (\<lambda>narrow_a.
            let (a, fl) = cvt_sf32_sf64 (ucast narrow_a) fl in
            mbind (float_rhs scalar (rs1 insn) index (sew config)) (\<lambda>narrow_b.
            let (b, fl) = cvt_sf32_sf64 (ucast narrow_b) fl in
            mbind (vget (read_element (rd insn) index wide_eew)) (\<lambda>old.
            let product_left = (if funct6 = 0x3d \<or> funct6 = 0x3f then a XOR SIGN_MASK sf64 else a);
                addend = (if funct6 = 0x3d \<or> funct6 = 0x3e then old XOR SIGN_MASK sf64 else old);
                (val, fl) = sf_fma sf64 product_left b addend rm fl in
            mbind (vmod (write_element (rd insn) index wide_eew val)) (\<lambda>_. mret fl))))))))"

definition exec_vector_float_widen_reduction :: "u32 \<Rightarrow> vector_config \<Rightarrow> ('b, unit) cpum" where
  "exec_vector_float_widen_reduction insn config =
     (let wide_eew = sew config * 2; masked = (\<not> vm_bit insn) in
      mbind (getc id) (\<lambda>c.
      if vs_vstart (vector c) \<noteq> 0
        \<or> \<not> (sew config = 32 \<and> wide_eew = 64)
        \<or> \<not> validate_group (rs2 insn) (lmul config) 1
        \<or> mixed_width_sources_overlap (rs2 insn) (lmul config) (sew config)
              (rs1 insn) MASK_REGISTER_RATIO wide_eew
        \<or> (masked \<and> (mask_source_overlap (rs2 insn) (lmul config) (sew config)
            \<or> mask_source_overlap (rs1 insn) MASK_REGISTER_RATIO wide_eew))
      then illegal insn
      else
        mbind (dynamic_rm insn) (\<lambda>rm.
        mbind (vget (read_element (rs1 insn) 0 wide_eew)) (\<lambda>accumulator.
        let vl = vl_of config c in
        if vl = 0 then set_vstart 0
        else
          mbind (elements masked 0 vl (accumulator, 0) (\<lambda>index (accumulator, fl).
            mbind (vget (read_element (rs2 insn) index (sew config))) (\<lambda>source.
            let (source, fl) = cvt_sf32_sf64 (ucast source) fl in
            mret (sf_add sf64 accumulator source rm fl)))) (\<lambda>(accumulator, fl).
          mbind (vmod (write_element (rd insn) 0 wide_eew accumulator)) (\<lambda>_.
          mbind (or_fcsr fl) (\<lambda>_.
          mbind (modc vector_dirty) (\<lambda>_.
          mbind (modc fp_dirty) (\<lambda>_. set_vstart 0)))))))))"

section \<open>The decoder\<close>

text \<open>The arms of \<open>exec_vector_float\<close>: merge, slide by one, reductions, and the element-wise rest.\<close>

definition float_merge :: "u32 \<Rightarrow> vector_config \<Rightarrow> ('b, unit) cpum" where
  "float_merge insn config =
     (let ratio = lmul config; vm = vm_bit insn in
      if \<not> validate_group (rd insn) ratio 1
        \<or> (\<not> vm \<and> \<not> validate_group (rs2 insn) ratio 1)
        \<or> (vm \<and> rs2 insn \<noteq> 0)
        \<or> (\<not> vm \<and> mask_overlap (rd insn) ratio)
        \<or> (\<not> vm \<and> mask_source_overlap (rs2 insn) ratio (sew config))
      then illegal insn
      else mbind (getc (scalar_float_bits (rs1 insn) (sew config))) (\<lambda>scalar.
        vector_loop False config () (\<lambda>index _.
          mbind (if vm then mret scalar
            else mbind (vget (mask_bit index)) (\<lambda>m.
              if m then mret scalar else vget (read_element (rs2 insn) index (sew config)))) (\<lambda>val.
          vmod (write_element (rd insn) index (sew config) val)))))"

definition float_slide1 :: "u32 \<Rightarrow> vector_config \<Rightarrow> u32 \<Rightarrow> ('b, unit) cpum" where
  "float_slide1 insn config funct6 =
     (let ratio = lmul config; vm = vm_bit insn in
      if \<not> validate_group (rd insn) ratio 1 \<or> \<not> validate_group (rs2 insn) ratio 1
        \<or> (funct6 = 0x0e \<and> rd insn = rs2 insn)
        \<or> (\<not> vm \<and> mask_overlap (rd insn) ratio)
        \<or> (\<not> vm \<and> mask_source_overlap (rs2 insn) ratio (sew config))
      then illegal insn
      else mbind (getc id) (\<lambda>c.
        let source = vector c; scalar = scalar_float_bits (rs1 insn) (sew config) c;
            start = vstart_of c; vl = vl_of config c in
        mbind (modc vector_dirty) (\<lambda>_.
        mbind (for_in [start..<vl] () (\<lambda>index _.
          mbind (if vm then mret True else unwrap (mask_bit index source)) (\<lambda>m.
          if \<not> m then mret ()
          else
            mbind (if funct6 = 0x0e then
                (if index = 0 then mret scalar
                 else unwrap (read_element (rs2 insn) (index - 1) (sew config) source))
              else if index + 1 = vl then mret scalar
              else unwrap (read_element (rs2 insn) (index + 1) (sew config) source)) (\<lambda>val.
            vmod (write_element (rd insn) index (sew config) val))))) (\<lambda>_.
        set_vstart 0))))"

definition float_reduction :: "u32 \<Rightarrow> vector_config \<Rightarrow> u32 \<Rightarrow> ('b, unit) cpum" where
  "float_reduction insn config funct6 =
     (let ratio = lmul config; vm = vm_bit insn; selector = rs1 insn in
      mbind (getc id) (\<lambda>c.
      if vs_vstart (vector c) \<noteq> 0
        \<or> \<not> validate_group (rs2 insn) ratio 1
        \<or> (\<not> vm \<and> (mask_source_overlap (rs2 insn) ratio (sew config)
            \<or> mask_source_overlap selector MASK_REGISTER_RATIO (sew config)))
      then illegal insn
      else
        mbind (if funct6 = 0x01 \<or> funct6 = 0x03 then dynamic_rm insn else mret 0) (\<lambda>rm.
        mbind (vget (read_element selector 0 (sew config))) (\<lambda>accumulator.
        let vl = vl_of config c in
        if vl = 0 then set_vstart 0
        else
          mbind (elements (\<not> vm) 0 vl (accumulator, 0) (\<lambda>index (accumulator, fl).
            mbind (vget (read_element (rs2 insn) index (sew config))) (\<lambda>val.
            unwrap (vector_fp_binary (sew config)
              (if funct6 = 0x05 then 0x04 else if funct6 = 0x07 then 0x06 else 0x00)
              accumulator val rm fl)))) (\<lambda>(accumulator, fl).
          mbind (vmod (write_element (rd insn) 0 (sew config) accumulator)) (\<lambda>_.
          mbind (or_fcsr fl) (\<lambda>_.
          mbind (modc vector_dirty) (\<lambda>_. modc fp_dirty))))))))"

definition float_comparison :: "u32 \<Rightarrow> bool" where
  "float_comparison funct6 \<longleftrightarrow> funct6 = 0x18 \<or> funct6 = 0x19 \<or> funct6 = 0x1b \<or> funct6 = 0x1c
     \<or> funct6 = 0x1d \<or> funct6 = 0x1f"

definition float_fused :: "u32 \<Rightarrow> bool" where
  "float_fused funct6 \<longleftrightarrow> 0x28 \<le> funct6 \<and> funct6 \<le> 0x2f"

definition float_ordinary :: "u32 \<Rightarrow> bool" where
  "float_ordinary funct6 \<longleftrightarrow> funct6 = 0x00 \<or> funct6 = 0x02 \<or> funct6 = 0x04 \<or> funct6 = 0x06 \<or> funct6 = 0x08
     \<or> funct6 = 0x09 \<or> funct6 = 0x0a \<or> funct6 = 0x20 \<or> funct6 = 0x21 \<or> funct6 = 0x24 \<or> funct6 = 0x27"

definition float_elementwise_legal :: "u32 \<Rightarrow> vector_config \<Rightarrow> u32 \<Rightarrow> bool" where
  "float_elementwise_legal insn config funct6 \<longleftrightarrow>
     (let format = funct3 insn; selector = rs1 insn; vm = vm_bit insn; ratio = lmul config;
          destination_ok = (if float_comparison funct6 then
              rd insn < VREG_COUNT
              \<and> destination_source_overlap_legal (rd insn) MASK_REGISTER_RATIO 1 (rs2 insn) ratio (sew config)
              \<and> (format \<noteq> 1
                \<or> destination_source_overlap_legal (rd insn) MASK_REGISTER_RATIO 1 selector ratio (sew config))
            else validate_group (rd insn) ratio 1 \<and> (vm \<or> \<not> mask_overlap (rd insn) ratio)) in
      \<not> ((\<not> float_comparison funct6 \<and> \<not> float_fused funct6 \<and> \<not> float_ordinary funct6)
        \<or> \<not> (format = 1 \<or> format = 5)
        \<or> \<not> validate_group (rs2 insn) ratio 1
        \<or> (format = 1 \<and> \<not> validate_group selector ratio 1)
        \<or> \<not> destination_ok
        \<or> (\<not> vm \<and> (mask_source_overlap (rs2 insn) ratio (sew config)
            \<or> (format = 1 \<and> mask_source_overlap selector ratio (sew config))))
        \<or> (format = 1 \<and> (funct6 = 0x21 \<or> funct6 = 0x27 \<or> funct6 = 0x1d \<or> funct6 = 0x1f))))"

definition float_elementwise :: "u32 \<Rightarrow> vector_config \<Rightarrow> u32 \<Rightarrow> ('b, unit) cpum" where
  "float_elementwise insn config funct6 =
     (let selector = rs1 insn; fused = float_fused funct6;
          rounding_required = (fused \<or> funct6 = 0x00 \<or> funct6 = 0x02 \<or> funct6 = 0x20 \<or> funct6 = 0x21
            \<or> funct6 = 0x24 \<or> funct6 = 0x27) in
      if \<not> float_elementwise_legal insn config funct6 then illegal insn
      else
        mbind (if rounding_required then dynamic_rm insn else mret 0) (\<lambda>rm.
        mbind (getc (\<lambda>c. if funct3 insn = 5 then Some (scalar_float_bits selector (sew config) c) else None)) (\<lambda>scalar.
        float_loop (\<not> vm_bit insn) config (\<lambda>index fl.
          mbind (vget (read_element (rs2 insn) index (sew config))) (\<lambda>a.
          mbind (float_rhs scalar selector index (sew config)) (\<lambda>b.
          if float_comparison funct6 then
            mbind (ok_or (vector_fp_compare (sew config) funct6 a b fl) (IllegalInstruction insn)) (\<lambda>(result, fl).
            mbind (write_mask_element (rd insn) index result) (\<lambda>_. mret fl))
          else
            mbind (if fused then
                mbind (vget (read_element (rd insn) index (sew config))) (\<lambda>old.
                mret (vector_fp_fma (sew config) funct6 old a b rm fl))
              else mret (vector_fp_binary (sew config) funct6 a b rm fl)) (\<lambda>r.
            mbind (ok_or r (IllegalInstruction insn)) (\<lambda>(val, fl).
            mbind (vmod (write_element (rd insn) index (sew config) val)) (\<lambda>_. mret fl)))))))))"

definition exec_vector_float :: "u32 \<Rightarrow> vector_config \<Rightarrow> ('b, unit) cpum" where
  "exec_vector_float insn config =
     mbind (fp_check insn) (\<lambda>_.
     let format = funct3 insn; funct6 = drop_bit 26 insn; selector = rs1 insn; vm = vm_bit insn in
     if format = 1 \<and> funct6 = 0x12 then exec_vector_float_convert insn config selector
     else if \<not> (sew config = 32 \<or> sew config = 64) then illegal insn
     else if format = 1 \<and> funct6 = 0x13 then exec_vector_float_unary insn config selector
     else if (format = 1 \<or> format = 5)
       \<and> (funct6 = 0x30 \<or> funct6 = 0x32 \<or> funct6 = 0x34 \<or> funct6 = 0x36 \<or> funct6 = 0x38)
     then exec_vector_float_widen_binary insn config funct6
     else if (format = 1 \<or> format = 5) \<and> 0x3c \<le> funct6 \<and> funct6 \<le> 0x3f
     then exec_vector_float_widen_fma insn config funct6
     else if format = 1 \<and> (funct6 = 0x31 \<or> funct6 = 0x33)
     then exec_vector_float_widen_reduction insn config
     else if format = 5 \<and> funct6 = 0x10 \<and> vm \<and> rs2 insn = 0 then
       mbind (getc id) (\<lambda>c.
       mbind (if vs_vl (vector c) > 0 \<and> vs_vstart (vector c) < vs_vl (vector c)
         then vmod (write_element (rd insn) 0 (sew config) (scalar_float_bits selector (sew config) c))
         else mret ()) (\<lambda>_.
       mbind (set_vstart 0) (\<lambda>_. modc vector_dirty)))
     else if format = 1 \<and> funct6 = 0x10 \<and> vm \<and> selector = 0 then
       mbind (vget (read_element (rs2 insn) 0 (sew config))) (\<lambda>val.
       mbind (modc (write_scalar_float_bits (rd insn) (sew config) val)) (\<lambda>_.
       mbind (set_vstart 0) (\<lambda>_.
       mbind (modc vector_dirty) (\<lambda>_. modc fp_dirty))))
     else if format = 5 \<and> funct6 = 0x17 then float_merge insn config
     else if format = 5 \<and> (funct6 = 0x0e \<or> funct6 = 0x0f) then float_slide1 insn config funct6
     else if format = 1 \<and> (funct6 = 0x01 \<or> funct6 = 0x03 \<or> funct6 = 0x05 \<or> funct6 = 0x07)
     then float_reduction insn config funct6
     else float_elementwise insn config funct6)"

end
