(* ===== verification/VectorMem.thy ===== *)
theory VectorMem
  imports Vector Mmu
begin

text \<open>
  The memory instructions of the vector unit (\<open>crates/rv64-core/src/cpu/vector.rs\<close>): unit-stride,
  strided, indexed, segmented, mask and whole-register transfers, with the two paths that copy
  between the register file and directly addressed RAM.
\<close>

section \<open>Element transfers\<close>

definition vector_load_element :: "'b bus_ops \<Rightarrow> u64 \<Rightarrow> nat \<Rightarrow> ('b, u64) cpum" where
  "vector_load_element B address eew =
     (if eew = 8 then ld B 1 address else if eew = 16 then ld B 2 address
      else if eew = 32 then ld B 4 address else if eew = 64 then ld B 8 address else panic)"

definition vector_store_element :: "'b bus_ops \<Rightarrow> u64 \<Rightarrow> nat \<Rightarrow> u64 \<Rightarrow> ('b, unit) cpum" where
  "vector_store_element B address eew val =
     (if eew = 8 then st B 1 address val else if eew = 16 then st B 2 address val
      else if eew = 32 then st B 4 address val else if eew = 64 then st B 8 address val else panic)"

text \<open>The body of an element loop: a load into, or a store from, element \<open>index\<close> of \<open>reg\<close>.\<close>

definition transfer_element :: "'b bus_ops \<Rightarrow> bool \<Rightarrow> nat \<Rightarrow> nat \<Rightarrow> nat \<Rightarrow> u64 \<Rightarrow> ('b, unit) cpum" where
  "transfer_element B load reg index eew address =
     (if load then
        mbind (vector_load_element B address eew) (\<lambda>val. vmod (write_element reg index eew val))
      else
        mbind (vget (read_element reg index eew)) (\<lambda>val. vector_store_element B address eew val))"

text \<open>\<open>if let Err(exception) = result { self.vector.vstart = index as u64; return Err(exception); }\<close>.\<close>

definition fault_at :: "nat \<Rightarrow> ('b, 'a) cpum \<Rightarrow> ('b, 'a) cpum" where
  "fault_at index m = mtry m mret (\<lambda>e. mbind (set_vstart (of_nat index)) (\<lambda>_. throw e))"

section \<open>Direct transfers\<close>

definition vector_direct_span :: "'b bus_ops \<Rightarrow> u64 \<Rightarrow> nat \<Rightarrow> bool \<Rightarrow> ('b, u64 option) cpum" where
  "vector_direct_span B address byte_count store =
     mbind (getc id) (\<lambda>c.
     if \<not> interpreter_fused_memory c \<or> byte_count = 0 then mret None
     else if unat address + (byte_count - 1) \<ge> 2 ^ 64 then mret None
     else
       let last = address + of_nat (byte_count - 1) in
       if address AND TLB_PAGE_MASK \<noteq> last AND TLB_PAGE_MASK then mret None
       else case interpreter_fused_ptr c address store of
         Some pointer \<Rightarrow> mret (Some pointer)
       | None \<Rightarrow>
           mbind (translate B address (if store then Store else Load)) (\<lambda>physical.
           mbind (fill_jtlb B address physical store) (\<lambda>_.
           getc (\<lambda>c. interpreter_fused_ptr c address store))))"

text \<open>
  \<open>copy_nonoverlapping\<close> between the register file at \<open>vector_offset\<close> and the memory at an exposed
  address; a range that leaves the register file is undefined behaviour and panics here.
\<close>

definition copy_span :: "'b bus_ops \<Rightarrow> bool \<Rightarrow> nat \<Rightarrow> u64 \<Rightarrow> nat \<Rightarrow> ('b, unit) cpum" where
  "copy_span B load vector_offset pointer n =
     (if vector_offset + n \<le> VREG_COUNT * VLEN_BYTES then
        if load then
          mbind (getb (\<lambda>b. map (\<lambda>i. host_read8 B b (pointer + of_nat i)) [0..<n])) (\<lambda>bs.
          modc (\<lambda>c. c\<lparr>vector := put_bytes vector_offset bs (vector c)\<rparr>))
        else mmod (\<lambda>(c, b). (c, host_write_bytes B pointer (get_bytes vector_offset n (vector c)) b))
      else panic)"

function unit_stride_direct_loop :: "'b bus_ops \<Rightarrow> bool \<Rightarrow> u64 \<Rightarrow> nat \<Rightarrow> nat \<Rightarrow> nat \<Rightarrow> nat \<Rightarrow> ('b, nat) cpum" where
  "unit_stride_direct_loop B load base first_reg vl element_bytes index =
     (if index < vl then
        let byte_offset = index * element_bytes;
            address = base + of_nat byte_offset;
            bytes_to_page = 0x1000 - unat (address AND 0xfff);
            page_elements = bytes_to_page div element_bytes in
        if page_elements = 0 then mret index
        else
          let run_elements = min page_elements (vl - index);
              byte_count = run_elements * element_bytes in
          mbind (fault_at index (vector_direct_span B address byte_count (\<not> load))) (\<lambda>p.
          case p of None \<Rightarrow> mret index
          | Some memory_pointer \<Rightarrow>
              mbind (copy_span B load (first_reg * VLEN_BYTES + byte_offset) memory_pointer byte_count) (\<lambda>_.
              unit_stride_direct_loop B load base first_reg vl element_bytes (index + run_elements)))
      else mret index)"
  by pat_completeness auto
termination by (relation "measure (\<lambda>(_, _, _, _, vl, _, index). vl - index)") auto

declare unit_stride_direct_loop.simps [simp del]

definition exec_unit_stride_direct :: "'b bus_ops \<Rightarrow> bool \<Rightarrow> u64 \<Rightarrow> nat \<Rightarrow> nat \<Rightarrow> nat \<Rightarrow> nat \<Rightarrow> ('b, nat) cpum" where
  "exec_unit_stride_direct B load base first_reg start vl element_bytes =
     (if start \<ge> vl then mbind (set_vstart 0) (\<lambda>_. mret vl)
      else
        mbind (unit_stride_direct_loop B load base first_reg vl element_bytes start) (\<lambda>index.
        mbind (if index = vl then set_vstart 0 else mret ()) (\<lambda>_. mret index)))"

definition exec_strided_direct :: "'b bus_ops \<Rightarrow> bool \<Rightarrow> u64 \<Rightarrow> nat \<Rightarrow> nat \<Rightarrow> nat \<Rightarrow> nat \<Rightarrow> u64 \<Rightarrow> ('b, bool) cpum" where
  "exec_strided_direct B load base first_reg start vl element_bytes stride =
     (if start \<ge> vl then mbind (set_vstart 0) (\<lambda>_. mret True)
      else mbind (getc interpreter_fused_memory) (\<lambda>fused.
        if \<not> fused then mret False
        else
          let step = sint stride;
              first_address = uint base + step * int start;
              last_address = uint base + step * int (vl - 1);
              maximum_start = 2 ^ 64 - 1 - int (element_bytes - 1) in
          if \<not> (0 \<le> first_address \<and> first_address \<le> maximum_start)
            \<or> \<not> (0 \<le> last_address \<and> last_address \<le> maximum_start)
          then mret False
          else
            let low = (word_of_int (min first_address last_address) :: u64);
                high = word_of_int (max first_address last_address) + of_nat element_bytes - 1 in
            if low AND TLB_PAGE_MASK \<noteq> high AND TLB_PAGE_MASK then mret False
            else
              mbind (fault_at start
                (vector_direct_span B (word_of_int first_address) element_bytes (\<not> load))) (\<lambda>p.
              case p of None \<Rightarrow> mret False
              | Some first_pointer \<Rightarrow>
                  mbind (for_in [start..<vl] () (\<lambda>index _.
                    copy_span B load (first_reg * VLEN_BYTES + index * element_bytes)
                      (first_pointer + word_of_int (step * int (index - start))) element_bytes)) (\<lambda>_.
                  mbind (set_vstart 0) (\<lambda>_. mret True)))))"

section \<open>Unit stride\<close>

definition exec_unit_stride_memory :: "'b bus_ops \<Rightarrow> bool \<Rightarrow> u32 \<Rightarrow> nat \<Rightarrow> u64 \<Rightarrow> nat \<Rightarrow> vector_config \<Rightarrow> ('b, unit) cpum" where
  "exec_unit_stride_memory B load insn eew base first_reg config =
     (case (if eew = sew config then Some (register_span (lmul config)) else emul_register_span config eew) of
        None \<Rightarrow> illegal insn
      | Some span \<Rightarrow>
        if (span > 1 \<and> first_reg mod span \<noteq> 0) \<or> first_reg + span > VREG_COUNT then illegal insn
        else
          let element_bytes = eew div 8 in
          mbind (getc (\<lambda>c. (vstart_of c, vl_of config c))) (\<lambda>(start, vl).
          mbind (modc vector_dirty) (\<lambda>_.
          mbind (exec_unit_stride_direct B load base first_reg start vl element_bytes) (\<lambda>start.
          if start = vl then mret ()
          else
            mbind (for_in [start..<vl] () (\<lambda>index _.
              fault_at index (transfer_element B load first_reg index eew
                (base + of_nat (index * element_bytes))))) (\<lambda>_.
            set_vstart 0)))))"

text \<open>\<open>self.vector.vstart != 0 && self.vector.vstart >= config.vlmax as u64\<close>.\<close>

definition vstart_illegal :: "vector_config \<Rightarrow> cpu \<Rightarrow> bool" where
  "vstart_illegal config c \<longleftrightarrow> vs_vstart (vector c) \<noteq> 0 \<and> vs_vstart (vector c) \<ge> of_nat (vlmax config)"

definition exec_unit_stride_memory_insn :: "'b bus_ops \<Rightarrow> u32 \<Rightarrow> bool \<Rightarrow> ('b, unit) cpum" where
  "exec_unit_stride_memory_insn B insn load =
     mbind (vector_check insn) (\<lambda>_.
     mbind (ok_or (vector_width (funct3 insn)) (IllegalInstruction insn)) (\<lambda>eew.
     mbind (getc (\<lambda>c. vs_config (vector c))) (\<lambda>o'.
     mbind (ok_or o' (IllegalInstruction insn)) (\<lambda>config.
     mbind (getc id) (\<lambda>c.
     if vstart_illegal config c then illegal insn
     else exec_unit_stride_memory B load insn eew (xreg c (rs1 insn)) (rd insn) config)))))"

section \<open>Whole registers and masks\<close>

definition exec_whole_register_memory :: "'b bus_ops \<Rightarrow> u32 \<Rightarrow> bool \<Rightarrow> nat \<Rightarrow> u64 \<Rightarrow> nat \<Rightarrow> nat \<Rightarrow> ('b, unit) cpum" where
  "exec_whole_register_memory B insn load eew base first_reg register_count =
     (let evl = register_count * VLEN_BITS div eew in
      mbind (getc vstart_of) (\<lambda>start.
      if \<not> (register_count = 1 \<or> register_count = 2 \<or> register_count = 4 \<or> register_count = 8)
        \<or> first_reg mod register_count \<noteq> 0
        \<or> first_reg + register_count > VREG_COUNT
        \<or> (\<not> load \<and> eew \<noteq> 8)
        \<or> start \<ge> evl
      then illegal insn
      else
        let element_bytes = eew div 8; evl = register_count * VLEN_BYTES div element_bytes in
        mbind (modc vector_dirty) (\<lambda>_.
        mbind (for_in [start..<evl] () (\<lambda>index _.
          fault_at index (transfer_element B load first_reg index eew
            (base + of_nat (index * element_bytes))))) (\<lambda>_.
        set_vstart 0))))"

definition mask_byte :: "'b bus_ops \<Rightarrow> bool \<Rightarrow> u64 \<Rightarrow> nat \<Rightarrow> nat \<Rightarrow> ('b, unit) cpum" where
  "mask_byte B load base reg index =
     (let address = base + of_nat index in
      if load then
        mbind (vector_load_element B address 8) (\<lambda>val.
        vmod (copy_to_register reg index (index + 1) [ucast val]))
      else
        mbind (vget (\<lambda>v. if index < VLEN_BYTES then Some (vs_regs v reg index) else None)) (\<lambda>byte.
        vector_store_element B address 8 (ucast byte)))"

definition exec_mask_memory :: "'b bus_ops \<Rightarrow> bool \<Rightarrow> u64 \<Rightarrow> nat \<Rightarrow> ('b, unit) cpum" where
  "exec_mask_memory B load base reg =
     mbind (getc (\<lambda>c. (unat (vs_vl (vector c) + 7) div 8, vstart_of c))) (\<lambda>(evl, start).
     mbind (modc vector_dirty) (\<lambda>_.
     mbind (for_in [start..<evl] () (\<lambda>index _. fault_at index (mask_byte B load base reg index))) (\<lambda>_.
     set_vstart 0)))"

section \<open>The general form\<close>

text \<open>The overlap rules of indexed and masked transfers, field by field.\<close>

definition indexed_legal :: "bool \<Rightarrow> bool \<Rightarrow> nat \<Rightarrow> nat \<Rightarrow> group_ratio \<Rightarrow> nat \<Rightarrow> nat \<Rightarrow> group_ratio \<Rightarrow> nat \<Rightarrow> bool" where
  "indexed_legal load masked nf first_reg data_ratio data_eew aux index_ratio eew \<longleftrightarrow>
     list_all (\<lambda>field.
       let data_reg = first_reg + field * register_span data_ratio in
       if load then
         \<not> (\<not> destination_source_overlap_legal data_reg data_ratio data_eew aux index_ratio eew
           \<or> (nf > 1 \<and> groups_overlap data_reg data_ratio 1 aux index_ratio))
       else \<not> mixed_width_sources_overlap data_reg data_ratio data_eew aux index_ratio eew) [0..<nf]
     \<and> \<not> (masked \<and> mask_source_overlap aux index_ratio eew)"

definition masked_store_legal :: "nat \<Rightarrow> nat \<Rightarrow> group_ratio \<Rightarrow> nat \<Rightarrow> bool" where
  "masked_store_legal nf first_reg data_ratio data_eew \<longleftrightarrow>
     list_all (\<lambda>field. \<not> mask_source_overlap (first_reg + field * register_span data_ratio) data_ratio data_eew)
       [0..<nf]"

text \<open>
  The element loop. A fault of a fault-only-first load past element zero shortens \<open>vl\<close> and
  ends the instruction (\<open>return Ok(())\<close>, here \<^term>\<open>True\<close>).
\<close>

fun until_stop :: "nat list \<Rightarrow> (nat \<Rightarrow> ('b, bool) cpum) \<Rightarrow> ('b, bool) cpum" where
  "until_stop [] body = mret False"
| "until_stop (i # is) body = mbind (body i) (\<lambda>stop. if stop then mret True else until_stop is body)"

definition memory_element :: "'b bus_ops \<Rightarrow> bool \<Rightarrow> bool \<Rightarrow> u32 \<Rightarrow> nat \<Rightarrow> nat \<Rightarrow> nat \<Rightarrow> u64 \<Rightarrow> u64 \<Rightarrow> nat \<Rightarrow> nat \<Rightarrow> nat \<Rightarrow> nat \<Rightarrow>
    ('b, bool) cpum" where
  "memory_element B load fault_only_first mop aux eew nf base stride first_reg data_span data_eew index =
     (let element_bytes = data_eew div 8 in
      mbind (if mop = 0 then mret (of_nat (index * nf * element_bytes))
             else if mop = 2 then mret (stride * of_nat index)
             else if mop = 1 \<or> mop = 3 then vget (read_element aux index eew)
             else panic) (\<lambda>element_offset.
      mtry (for_in [0..<nf] () (\<lambda>field _.
          transfer_element B load (first_reg + field * data_span) index data_eew
            (base + element_offset + of_nat (field * element_bytes))))
        (\<lambda>_. mret False)
        (\<lambda>e. if fault_only_first \<and> index \<noteq> 0
             then mbind (modc (\<lambda>c. c\<lparr>vector := (vector c)\<lparr>vs_vl := of_nat index, vs_vstart := 0\<rparr>\<rparr>)) (\<lambda>_. mret True)
             else mbind (set_vstart (of_nat index)) (\<lambda>_. throw e))))"

definition memory_elements :: "'b bus_ops \<Rightarrow> bool \<Rightarrow> bool \<Rightarrow> bool \<Rightarrow> u32 \<Rightarrow> nat \<Rightarrow> nat \<Rightarrow> nat \<Rightarrow> u64 \<Rightarrow> u64 \<Rightarrow> nat \<Rightarrow> nat \<Rightarrow> nat \<Rightarrow>
    nat \<Rightarrow> nat \<Rightarrow> ('b, unit) cpum" where
  "memory_elements B load masked fault_only_first mop aux eew nf base stride first_reg data_span data_eew start vl =
     mbind (until_stop [start..<vl] (\<lambda>index.
       mbind (if masked then vget (mask_bit index) else mret True) (\<lambda>m.
       if \<not> m then mret False
       else memory_element B load fault_only_first mop aux eew nf base stride first_reg data_span data_eew index)))
     (\<lambda>stop. if stop then mret () else set_vstart 0)"

text \<open>The part of \<open>exec_vector_memory\<close> after the unit-stride and mask forms.\<close>

definition exec_general_memory :: "'b bus_ops \<Rightarrow> u32 \<Rightarrow> bool \<Rightarrow> nat \<Rightarrow> vector_config \<Rightarrow> ('b, unit) cpum" where
  "exec_general_memory B insn load eew config =
     (let mop = drop_bit 26 insn AND 3; masked = (\<not> vm_bit insn); aux = unat (drop_bit 20 insn AND 0x1f);
          nf = unat (drop_bit 29 insn AND 7) + 1; first_reg = rd insn;
          fault_only_first = (load \<and> mop = 0 \<and> aux = 0x10);
          indexed = (mop = 1 \<or> mop = 3); data_eew = (if indexed then sew config else eew) in
      if mop = 0 \<and> aux \<noteq> 0 \<and> \<not> fault_only_first then illegal insn
      else if \<not> load \<and> fault_only_first then illegal insn
      else case emul config data_eew of None \<Rightarrow> illegal insn
      | Some data_ratio \<Rightarrow>
        if \<not> validate_group first_reg data_ratio nf then illegal insn
        else case (if indexed then
              (case emul config eew of None \<Rightarrow> None
               | Some ratio \<Rightarrow> if \<not> validate_group aux ratio 1 then None else Some (Some ratio))
            else Some None) of
          None \<Rightarrow> illegal insn
        | Some index_ratio \<Rightarrow>
          if load \<and> masked \<and> groups_overlap first_reg data_ratio nf 0 MASK_REGISTER_RATIO then illegal insn
          else if (case index_ratio of None \<Rightarrow> False
            | Some r \<Rightarrow> \<not> indexed_legal load masked nf first_reg data_ratio data_eew aux r eew) then illegal insn
          else if \<not> load \<and> masked \<and> \<not> masked_store_legal nf first_reg data_ratio data_eew then illegal insn
          else
            mbind (getc id) (\<lambda>c.
            let base = xreg c (rs1 insn); stride = (if mop = 2 then xreg c aux else 0);
                start = vstart_of c; vl = vl_of config c in
            mbind (modc vector_dirty) (\<lambda>_.
            mbind (if mop = 2 \<and> \<not> masked \<and> nf = 1
                   then exec_strided_direct B load base first_reg start vl (data_eew div 8) stride
                   else mret False) (\<lambda>done.
            if done then mret ()
            else memory_elements B load masked fault_only_first mop aux eew nf base stride first_reg
              (register_span data_ratio) data_eew start vl))))"

definition exec_vector_memory :: "'b bus_ops \<Rightarrow> u32 \<Rightarrow> bool \<Rightarrow> ('b, unit) cpum" where
  "exec_vector_memory B insn load =
     mbind (vector_check insn) (\<lambda>_.
     mbind (ok_or (vector_width (funct3 insn)) (IllegalInstruction insn)) (\<lambda>eew.
     mbind (getc id) (\<lambda>c.
     let mew = drop_bit 28 insn AND 1; mop = drop_bit 26 insn AND 3; masked = (\<not> vm_bit insn);
         aux = unat (drop_bit 20 insn AND 0x1f); nf = unat (drop_bit 29 insn AND 7) + 1;
         first_reg = rd insn; base = xreg c (rs1 insn) in
     if mew \<noteq> 0 then illegal insn
     else if mop = 0 \<and> \<not> masked \<and> aux = 8 then
       exec_whole_register_memory B insn load eew base first_reg nf
     else
       mbind (ok_or (vs_config (vector c)) (IllegalInstruction insn)) (\<lambda>config.
       if vstart_illegal config c then illegal insn
       else if mop = 0 \<and> \<not> masked \<and> aux = 0 \<and> nf = 1 then
         exec_unit_stride_memory B load insn eew base first_reg config
       else if mop = 0 \<and> \<not> masked \<and> aux = 0x0b \<and> nf = 1 \<and> eew = 8 then exec_mask_memory B load base first_reg
       else exec_general_memory B insn load eew config))))"

end
