(* ===== verification/VectorUnit.thy ===== *)
theory VectorUnit
  imports VectorInt VectorFloat VectorMem
begin

text \<open>
  The entry point of OP-V, \<open>exec_vector_op\<close> of \<open>crates/rv64-core/src/cpu/vector.rs\<close>.
\<close>

definition exec_vector_op :: "u32 \<Rightarrow> ('b, unit) cpum" where
  "exec_vector_op insn =
     (if funct3 insn = 7 then exec_vector_config insn
      else
        mbind (vector_check insn) (\<lambda>_.
        mbind (getc id) (\<lambda>c.
        mbind (ok_or (vs_config (vector c)) (IllegalInstruction insn)) (\<lambda>config.
        let whole_register_move = (funct3 insn = 3 \<and> drop_bit 26 insn = 0x27) in
        if \<not> whole_register_move \<and> vstart_illegal config c then illegal insn
        else if funct3 insn = 1 \<or> funct3 insn = 5 then exec_vector_float insn config
        else exec_vector_integer insn config))))"

end
