(* ===== verification/Exec.thy ===== *)
theory Exec
  imports Trap Fpu Compressed VectorUnit
begin

text \<open>
  The complete decoder of \<open>crates/rv64-core/src/cpu.rs\<close>: the arms of \<open>step\<close> for the 32-bit
  instructions, the direct RV64C dispatcher \<open>step_compressed\<close>, and \<open>step\<close> itself. An arm
  returns what the common tail of \<open>step\<close> needs, the next PC and an optional stop, or the
  value of an early \<open>return Ok(..)\<close>.
\<close>

datatype outcome = Next u64 "stop_reason option" | Done "stop_reason option"

text \<open>The value a register write needs, or the illegal-instruction exception.\<close>

definition wr_or_illegal :: "u32 \<Rightarrow> u64 \<Rightarrow> u64 option \<Rightarrow> ('b, outcome) cpum" where
  "wr_or_illegal insn next_pc v = (case v of None \<Rightarrow> illegal insn
     | Some val \<Rightarrow> mbind (modc (wr (rd insn) val)) (\<lambda>_. mret (Next next_pc None)))"

section \<open>Integer computation\<close>

definition branch_taken :: "u32 \<Rightarrow> u64 \<Rightarrow> u64 \<Rightarrow> bool option" where
  "branch_taken f3 a b =
     (if f3 = 0 then Some (a = b)
      else if f3 = 1 then Some (a \<noteq> b)
      else if f3 = 4 then Some (sint a < sint b)
      else if f3 = 5 then Some (sint a \<ge> sint b)
      else if f3 = 6 then Some (a < b)
      else if f3 = 7 then Some (a \<ge> b)
      else None)"

definition op_imm_value :: "u32 \<Rightarrow> u64 \<Rightarrow> u64" where
  "op_imm_value insn a =
     (let imm = imm_i insn; shamt = unat (imm AND 0x3f); f3 = funct3 insn in
      if f3 = 0 then a + imm
      else if f3 = 1 then push_bit shamt a
      else if f3 = 2 then of_flag (sint a < sint imm)
      else if f3 = 3 then of_flag (a < imm)
      else if f3 = 4 then a XOR imm
      else if f3 = 5 then
        (if drop_bit 26 insn = 0x10 then signed_drop_bit shamt a else drop_bit shamt a)
      else if f3 = 6 then a OR imm
      else a AND imm)"

definition op_imm32_value :: "u32 \<Rightarrow> u64 \<Rightarrow> u64 option" where
  "op_imm32_value insn x =
     (let a = (ucast x :: u32); imm = imm_i insn; shamt = unat (imm AND 0x1f); f3 = funct3 insn in
      map_option (\<lambda>v. scast (v :: u32))
        (if f3 = 0 then Some (a + ucast imm)
         else if f3 = 1 then Some (push_bit shamt a)
         else if f3 = 5 then
           Some (if funct7 insn = 0x20 then signed_drop_bit shamt a else drop_bit shamt a)
         else None))"

definition mulh :: "u64 \<Rightarrow> u64 \<Rightarrow> u64" where
  "mulh a b = ucast (signed_drop_bit 64 ((scast a :: u128) * scast b))"

definition mulhsu :: "u64 \<Rightarrow> u64 \<Rightarrow> u64" where
  "mulhsu a b = ucast (signed_drop_bit 64 ((scast a :: u128) * ucast b))"

definition mulhu :: "u64 \<Rightarrow> u64 \<Rightarrow> u64" where
  "mulhu a b = ucast (drop_bit 64 ((ucast a :: u128) * ucast b))"

definition op_value :: "u32 \<Rightarrow> u32 \<Rightarrow> u64 \<Rightarrow> u64 \<Rightarrow> u64 option" where
  "op_value f7 f3 a b =
     (let shamt = unat (b AND 0x3f) in
      if f7 = 0 \<and> f3 = 0 then Some (a + b)
      else if f7 = 0x20 \<and> f3 = 0 then Some (a - b)
      else if f7 = 0 \<and> f3 = 1 then Some (push_bit shamt a)
      else if f7 = 0 \<and> f3 = 2 then Some (of_flag (sint a < sint b))
      else if f7 = 0 \<and> f3 = 3 then Some (of_flag (a < b))
      else if f7 = 0 \<and> f3 = 4 then Some (a XOR b)
      else if f7 = 0 \<and> f3 = 5 then Some (drop_bit shamt a)
      else if f7 = 0x20 \<and> f3 = 5 then Some (signed_drop_bit shamt a)
      else if f7 = 0 \<and> f3 = 6 then Some (a OR b)
      else if f7 = 0 \<and> f3 = 7 then Some (a AND b)
      else if f7 = 1 \<and> f3 = 0 then Some (a * b)
      else if f7 = 1 \<and> f3 = 1 then Some (mulh a b)
      else if f7 = 1 \<and> f3 = 2 then Some (mulhsu a b)
      else if f7 = 1 \<and> f3 = 3 then Some (mulhu a b)
      else if f7 = 1 \<and> f3 = 4 then Some (if b = 0 then NOT 0 else wrapping_div a b)
      else if f7 = 1 \<and> f3 = 5 then Some (if b = 0 then NOT 0 else a div b)
      else if f7 = 1 \<and> f3 = 6 then Some (if b = 0 then a else wrapping_rem a b)
      else if f7 = 1 \<and> f3 = 7 then Some (if b = 0 then a else a mod b)
      else None)"

definition op32_value :: "u32 \<Rightarrow> u32 \<Rightarrow> u64 \<Rightarrow> u64 \<Rightarrow> u64 option" where
  "op32_value f7 f3 x y =
     (let a = (ucast x :: u32); b = (ucast y :: u32); shamt = unat (b AND 0x1f) in
      map_option (\<lambda>v. scast (v :: u32))
        (if f7 = 0 \<and> f3 = 0 then Some (a + b)
         else if f7 = 0x20 \<and> f3 = 0 then Some (a - b)
         else if f7 = 0 \<and> f3 = 1 then Some (push_bit shamt a)
         else if f7 = 0 \<and> f3 = 5 then Some (drop_bit shamt a)
         else if f7 = 0x20 \<and> f3 = 5 then Some (signed_drop_bit shamt a)
         else if f7 = 1 \<and> f3 = 0 then Some (a * b)
         else if f7 = 1 \<and> f3 = 4 then Some (if b = 0 then NOT 0 else wrapping_div a b)
         else if f7 = 1 \<and> f3 = 5 then Some (if b = 0 then NOT 0 else a div b)
         else if f7 = 1 \<and> f3 = 6 then Some (if b = 0 then a else wrapping_rem a b)
         else if f7 = 1 \<and> f3 = 7 then Some (if b = 0 then a else a mod b)
         else None))"

section \<open>Loads, stores and atomics\<close>

definition sext8 :: "u64 \<Rightarrow> u64" where "sext8 v = scast (ucast v :: u8)"
definition sext16 :: "u64 \<Rightarrow> u64" where "sext16 v = scast (ucast v :: u16)"
definition sext32 :: "u64 \<Rightarrow> u64" where "sext32 v = scast (ucast v :: u32)"

definition exec_load :: "'b bus_ops \<Rightarrow> u32 \<Rightarrow> u64 \<Rightarrow> ('b, outcome) cpum" where
  "exec_load B insn next_pc = mbind (getc (\<lambda>c. xreg c (rs1 insn) + imm_i insn)) (\<lambda>addr.
     let f3 = funct3 insn;
         fin = (\<lambda>g v. mbind (modc (wr (rd insn) (g v))) (\<lambda>_. mret (Next next_pc None))) in
     if f3 = 0 then mbind (ld B 1 addr) (fin sext8)
     else if f3 = 1 then mbind (ld B 2 addr) (fin sext16)
     else if f3 = 2 then mbind (ld B 4 addr) (fin sext32)
     else if f3 = 3 then mbind (ld B 8 addr) (fin id)
     else if f3 = 4 then mbind (ld B 1 addr) (fin id)
     else if f3 = 5 then mbind (ld B 2 addr) (fin id)
     else if f3 = 6 then mbind (ld B 4 addr) (fin id)
     else illegal insn)"

definition exec_store :: "'b bus_ops \<Rightarrow> u32 \<Rightarrow> u64 \<Rightarrow> ('b, outcome) cpum" where
  "exec_store B insn next_pc = mbind (getc id) (\<lambda>c.
     let addr = xreg c (rs1 insn) + imm_s insn; val = xreg c (rs2 insn); f3 = funct3 insn in
     mbind (if f3 = 0 then st B 1 addr val
            else if f3 = 1 then st B 2 addr val
            else if f3 = 2 then st B 4 addr val
            else if f3 = 3 then st B 8 addr val
            else illegal insn) (\<lambda>_. mret (Next next_pc None)))"

definition aload :: "'b bus_ops \<Rightarrow> bool \<Rightarrow> u64 \<Rightarrow> ('b, u64) cpum" where
  "aload B is64 addr =
     (if is64 then ld B 8 addr else mbind (ld B 4 addr) (\<lambda>v. mret (sext32 v)))"

definition astore :: "'b bus_ops \<Rightarrow> bool \<Rightarrow> u64 \<Rightarrow> u64 \<Rightarrow> ('b, unit) cpum" where
  "astore B is64 addr v = (if is64 then st B 8 addr v else st B 4 addr v)"

definition amo_value :: "bool \<Rightarrow> u32 \<Rightarrow> u64 \<Rightarrow> u64 \<Rightarrow> u64 option" where
  "amo_value is64 funct5 old src =
     (let (co, cs) = (if is64 then (old, src)
            else (ucast (ucast old :: u32), ucast (ucast src :: u32)));
          signed_lt = (if is64 then sint co < sint cs
            else sint (ucast co :: u32) < sint (ucast cs :: u32)) in
      if funct5 = 0x01 then Some src
      else if funct5 = 0x00 then Some (old + src)
      else if funct5 = 0x04 then Some (old XOR src)
      else if funct5 = 0x0c then Some (old AND src)
      else if funct5 = 0x08 then Some (old OR src)
      else if funct5 = 0x10 then Some (if signed_lt then old else src)
      else if funct5 = 0x14 then Some (if \<not> signed_lt \<and> co \<noteq> cs then old else src)
      else if funct5 = 0x18 then Some (if co < cs then old else src)
      else if funct5 = 0x1c then Some (if co > cs then old else src)
      else None)"

definition exec_amo :: "'b bus_ops \<Rightarrow> u32 \<Rightarrow> u64 \<Rightarrow> ('b, outcome) cpum" where
  "exec_amo B insn next_pc = mbind (getc id) (\<lambda>c.
     let addr = xreg c (rs1 insn); src = xreg c (rs2 insn); funct5 = drop_bit 2 (funct7 insn) in
     if funct3 insn \<noteq> 2 \<and> funct3 insn \<noteq> 3 then illegal insn
     else
       let is64 = (funct3 insn = 3) in
       if funct5 = 0x02 then
         mbind (aload B is64 addr) (\<lambda>v.
         mbind (modc (\<lambda>c. wr (rd insn) v (c\<lparr>reservation := Some addr\<rparr>))) (\<lambda>_.
         mret (Next next_pc None)))
       else if funct5 = 0x03 then
         mbind (if reservation c = Some addr
             then mbind (astore B is64 addr src) (\<lambda>_. modc (wr (rd insn) 0))
             else modc (wr (rd insn) 1)) (\<lambda>_.
         mbind (modc (\<lambda>c. c\<lparr>reservation := None\<rparr>)) (\<lambda>_.
         mret (Next next_pc None)))
       else
         mbind (aload B is64 addr) (\<lambda>old.
         case amo_value is64 funct5 old src of
           None \<Rightarrow> illegal insn
         | Some new \<Rightarrow>
             mbind (astore B is64 addr new) (\<lambda>_.
             mbind (modc (wr (rd insn) old)) (\<lambda>_.
             mret (Next next_pc None)))))"

section \<open>Floating point and vector arms\<close>

definition vector_width_f3 :: "u32 \<Rightarrow> bool" where
  "vector_width_f3 f3 \<longleftrightarrow> f3 = 0 \<or> f3 = 5 \<or> f3 = 6 \<or> f3 = 7"

definition exec_vmem :: "'b bus_ops \<Rightarrow> u32 \<Rightarrow> bool \<Rightarrow> ('b, unit) cpum" where
  "exec_vmem B insn load =
     (if unit_stride_memory_encoding insn then exec_unit_stride_memory_insn B insn load
      else exec_vector_memory B insn load)"

definition exec_load_fp :: "'b bus_ops \<Rightarrow> u32 \<Rightarrow> u64 \<Rightarrow> ('b, outcome) cpum" where
  "exec_load_fp B insn next_pc =
     (if vector_width_f3 (funct3 insn)
      then mbind (exec_vmem B insn True) (\<lambda>_. mret (Next next_pc None))
      else
        mbind (fp_check insn) (\<lambda>_.
        mbind (modc fp_dirty) (\<lambda>_.
        mbind (getc (\<lambda>c. xreg c (rs1 insn) + imm_i insn)) (\<lambda>addr.
        if funct3 insn = 2 then
          mbind (ld B 4 addr) (\<lambda>v.
          mbind (modc (set_f (rd insn) (box32 (ucast v)))) (\<lambda>_. mret (Next next_pc None)))
        else if funct3 insn = 3 then
          mbind (ld B 8 addr) (\<lambda>v.
          mbind (modc (set_f (rd insn) v)) (\<lambda>_. mret (Next next_pc None)))
        else illegal insn))))"

definition exec_store_fp :: "'b bus_ops \<Rightarrow> u32 \<Rightarrow> u64 \<Rightarrow> ('b, outcome) cpum" where
  "exec_store_fp B insn next_pc =
     (if vector_width_f3 (funct3 insn)
      then mbind (exec_vmem B insn False) (\<lambda>_. mret (Next next_pc None))
      else
        mbind (fp_check insn) (\<lambda>_.
        mbind (getc id) (\<lambda>c.
        let addr = xreg c (rs1 insn) + imm_s insn; v = freg c (rs2 insn) in
        mbind (if funct3 insn = 2 then st B 4 addr v
               else if funct3 insn = 3 then st B 8 addr v
               else illegal insn) (\<lambda>_. mret (Next next_pc None)))))"

definition exec_op_v :: "u32 \<Rightarrow> u64 \<Rightarrow> ('b, outcome) cpum" where
  "exec_op_v insn next_pc =
     mbind (if funct3 insn = 7 then exec_vector_config insn else exec_vector_op insn)
       (\<lambda>_. mret (Next next_pc None))"

text \<open>OP-FP and the fused multiply-adds, after the FS gate.\<close>

definition exec_fp :: "(u32 \<Rightarrow> cpu \<Rightarrow> cpu option) \<Rightarrow> u32 \<Rightarrow> u64 \<Rightarrow> ('b, outcome) cpum" where
  "exec_fp f insn next_pc =
     mbind (fp_check insn) (\<lambda>_.
     mbind (modc fp_dirty) (\<lambda>_.
     mbind (getc (f insn)) (\<lambda>r.
     case r of None \<Rightarrow> illegal insn
     | Some c \<Rightarrow> mbind (modc (\<lambda>_. c)) (\<lambda>_. mret (Next next_pc None)))))"

section \<open>SYSTEM\<close>

definition exec_ecall :: "u64 \<Rightarrow> ('b, outcome) cpum" where
  "exec_ecall next_pc = mbind (getc id) (\<lambda>c.
     case sys c of None \<Rightarrow> mret (Next next_pc (Some Ecall))
     | Some s \<Rightarrow>
       if host_sbi c \<and> mode s = Supervisor then mret (Next next_pc (Some Ecall))
       else
         mbind (take_trap (case mode s of User \<Rightarrow> 8 | Supervisor \<Rightarrow> 9 | Machine \<Rightarrow> 11) 0 False) (\<lambda>_.
         mbind (modc (\<lambda>c. c\<lparr>insn_count := insn_count c + 1\<rparr>)) (\<lambda>_.
         mret (Done None))))"

definition exec_ebreak :: "u64 \<Rightarrow> ('b, outcome) cpum" where
  "exec_ebreak next_pc = mbind (getc sys) (\<lambda>s.
     if s \<noteq> None then throw Breakpoint else mret (Next next_pc (Some Break)))"

definition mret_csrs :: "sys_csrs \<Rightarrow> sys_csrs" where
  "mret_csrs s =
     (let mpp = mode_from_bits (drop_bit 11 (mstatus s AND MSTATUS_MPP));
          mpie = drop_bit 7 (mstatus s) AND 1;
          ms = (mstatus s AND NOT (MSTATUS_MIE OR MSTATUS_MPIE OR MSTATUS_MPP))
            OR push_bit 3 mpie OR MSTATUS_MPIE;
          ms = (if mpp \<noteq> Machine then ms AND NOT MSTATUS_MPRV else ms) in
      s\<lparr>mstatus := ms, mode := mpp\<rparr>)"

definition sret_csrs :: "sys_csrs \<Rightarrow> sys_csrs" where
  "sret_csrs s =
     (let spp = (if mstatus s AND MSTATUS_SPP \<noteq> 0 then Supervisor else User);
          spie = drop_bit 5 (mstatus s) AND 1;
          ms = (mstatus s AND NOT (MSTATUS_SIE OR MSTATUS_SPIE OR MSTATUS_SPP))
            OR push_bit 1 spie OR MSTATUS_SPIE;
          ms = (if spp \<noteq> Machine then ms AND NOT MSTATUS_MPRV else ms) in
      s\<lparr>mstatus := ms, mode := spp\<rparr>)"

definition exec_mret :: "u32 \<Rightarrow> ('b, outcome) cpum" where
  "exec_mret insn =
     mbind (modc (\<lambda>c. c\<lparr>irq_poll_cd := 0\<rparr>)) (\<lambda>_.
     mbind (getc sys) (\<lambda>s'.
     case s' of None \<Rightarrow> illegal insn
     | Some s \<Rightarrow>
       if mode s \<noteq> Machine then illegal insn
       else mbind (modc (\<lambda>c. privilege_changed (c\<lparr>sys := Some (mret_csrs s)\<rparr>))) (\<lambda>_.
         mret (Next (mepc s) None))))"

definition exec_sret :: "u32 \<Rightarrow> ('b, outcome) cpum" where
  "exec_sret insn =
     mbind (modc (\<lambda>c. c\<lparr>irq_poll_cd := 0\<rparr>)) (\<lambda>_.
     mbind (getc sys) (\<lambda>s'.
     case s' of None \<Rightarrow> illegal insn
     | Some s \<Rightarrow>
       if mode s = User \<or> (mode s = Supervisor \<and> mstatus s AND MSTATUS_TSR \<noteq> 0) then illegal insn
       else mbind (modc (\<lambda>c. privilege_changed (c\<lparr>sys := Some (sret_csrs s)\<rparr>))) (\<lambda>_.
         mret (Next (sepc s) None))))"

definition exec_wfi :: "u32 \<Rightarrow> u64 \<Rightarrow> ('b, outcome) cpum" where
  "exec_wfi insn next_pc = mbind (getc sys) (\<lambda>s'.
     case s' of None \<Rightarrow> mret (Next next_pc None)
     | Some s \<Rightarrow>
       if mode s = User \<or> (mode s = Supervisor \<and> mstatus s AND MSTATUS_TW \<noteq> 0) then illegal insn
       else if mip s AND mie s = 0 then mret (Next next_pc (Some Wfi))
       else mret (Next next_pc None))"

definition exec_sfence :: "u32 \<Rightarrow> u64 \<Rightarrow> ('b, outcome) cpum" where
  "exec_sfence insn next_pc = mbind (getc sys) (\<lambda>s'.
     if (case s' of None \<Rightarrow> False
         | Some s \<Rightarrow> mode s = User \<or> (mode s = Supervisor \<and> mstatus s AND MSTATUS_TVM \<noteq> 0))
     then illegal insn
     else mbind (modc (\<lambda>c.
         let va = (if rs1 insn \<noteq> 0 then Some (xreg c (rs1 insn)) else None);
             asid = (if rs2 insn \<noteq> 0 then Some (ucast (xreg c (rs2 insn))) else None) in
         sfence_vma va asid c)) (\<lambda>_. mret (Next next_pc None)))"

definition exec_csr :: "u32 \<Rightarrow> u64 \<Rightarrow> ('b, outcome) cpum" where
  "exec_csr insn next_pc =
     (let f3 = funct3 insn; csr = drop_bit 20 insn in
      mbind (if csr \<le> 3 then mbind (fp_check insn) (\<lambda>_. modc fp_dirty) else mret ()) (\<lambda>_.
      mbind (getc id) (\<lambda>c.
      let src = (if f3 \<ge> 5 then of_nat (rs1 insn) else xreg c (rs1 insn)) in
      case csr_read c csr of None \<Rightarrow> illegal insn
      | Some old \<Rightarrow>
        let src_is_zero = (if f3 \<ge> 5 then src = 0 else rs1 insn = 0);
            k = f3 AND 3;
            new = (if k = 1 then Some src
              else if k = 2 \<and> \<not> src_is_zero then Some (old OR src)
              else if k = 3 \<and> \<not> src_is_zero then Some (old AND NOT src)
              else None) in
        mbind (case new of None \<Rightarrow> mret ()
          | Some v \<Rightarrow>
            mbind (getc (\<lambda>c. fst (csr_write csr v c))) (\<lambda>ok.
            mbind (modc (\<lambda>c. snd (csr_write csr v c))) (\<lambda>_.
            if ok then mret () else illegal insn))) (\<lambda>_.
        mbind (modc (wr (rd insn) old)) (\<lambda>_. mret (Next next_pc None))))))"

definition exec_system :: "u32 \<Rightarrow> u64 \<Rightarrow> ('b, outcome) cpum" where
  "exec_system insn next_pc =
     (if insn = 0x00000073 then exec_ecall next_pc
      else if insn = 0x00100073 then exec_ebreak next_pc
      else if insn = 0x30200073 then exec_mret insn
      else if insn = 0x10200073 then exec_sret insn
      else if insn = 0x10500073 then exec_wfi insn next_pc
      else if funct7 insn = 0x09 \<and> funct3 insn = 0 then exec_sfence insn next_pc
      else if (1 \<le> funct3 insn \<and> funct3 insn \<le> 3) \<or> (5 \<le> funct3 insn \<and> funct3 insn \<le> 7)
        then exec_csr insn next_pc
      else illegal insn)"

section \<open>The 32-bit decoder\<close>

definition exec_jal :: "u32 \<Rightarrow> u64 \<Rightarrow> u64 \<Rightarrow> ('b, outcome) cpum" where
  "exec_jal insn pc next_pc =
     mbind (modc (wr (rd insn) next_pc)) (\<lambda>_. mret (Next (pc + imm_j insn) None))"

definition exec_jalr :: "u32 \<Rightarrow> u64 \<Rightarrow> ('b, outcome) cpum" where
  "exec_jalr insn next_pc =
     mbind (getc (\<lambda>c. (xreg c (rs1 insn) + imm_i insn) AND NOT 1)) (\<lambda>target.
     mbind (modc (wr (rd insn) next_pc)) (\<lambda>_. mret (Next target None)))"

definition exec_branch :: "u32 \<Rightarrow> u64 \<Rightarrow> u64 \<Rightarrow> ('b, outcome) cpum" where
  "exec_branch insn pc next_pc =
     mbind (getc (\<lambda>c. branch_taken (funct3 insn) (xreg c (rs1 insn)) (xreg c (rs2 insn)))) (\<lambda>t.
     case t of None \<Rightarrow> illegal insn
     | Some taken \<Rightarrow> mret (Next (if taken then pc + imm_b insn else next_pc) None))"

definition exec32 :: "'b bus_ops \<Rightarrow> u32 \<Rightarrow> u64 \<Rightarrow> u64 \<Rightarrow> ('b, outcome) cpum" where
  "exec32 B insn pc next_pc =
     (let opc = opcode insn in
      if opc = 0x37 then wr_or_illegal insn next_pc (Some (imm_u insn))
      else if opc = 0x17 then wr_or_illegal insn next_pc (Some (pc + imm_u insn))
      else if opc = 0x6f then exec_jal insn pc next_pc
      else if opc = 0x67 then exec_jalr insn next_pc
      else if opc = 0x63 then exec_branch insn pc next_pc
      else if opc = 0x03 then exec_load B insn next_pc
      else if opc = 0x23 then exec_store B insn next_pc
      else if opc = 0x13 then
        mbind (getc (\<lambda>c. op_imm_value insn (xreg c (rs1 insn)))) (\<lambda>v.
        wr_or_illegal insn next_pc (Some v))
      else if opc = 0x1b then
        mbind (getc (\<lambda>c. op_imm32_value insn (xreg c (rs1 insn)))) (wr_or_illegal insn next_pc)
      else if opc = 0x33 then
        mbind (getc (\<lambda>c. op_value (funct7 insn) (funct3 insn) (xreg c (rs1 insn)) (xreg c (rs2 insn))))
          (wr_or_illegal insn next_pc)
      else if opc = 0x3b then
        mbind (getc (\<lambda>c. op32_value (funct7 insn) (funct3 insn) (xreg c (rs1 insn)) (xreg c (rs2 insn))))
          (wr_or_illegal insn next_pc)
      else if opc = 0x2f then exec_amo B insn next_pc
      else if opc = 0x07 then exec_load_fp B insn next_pc
      else if opc = 0x27 then exec_store_fp B insn next_pc
      else if opc = 0x57 then exec_op_v insn next_pc
      else if opc = 0x43 \<or> opc = 0x47 \<or> opc = 0x4b \<or> opc = 0x4f then exec_fp op_fma insn next_pc
      else if opc = 0x53 then exec_fp op_fp insn next_pc
      else if opc = 0x0f then mret (Next next_pc None)
      else if opc = 0x73 then exec_system insn next_pc
      else illegal insn)"

text \<open>The common tail: commit the next PC and count the instruction.\<close>

definition retire :: "outcome \<Rightarrow> ('b, stop_reason option) cpum" where
  "retire r = (case r of Done stop \<Rightarrow> mret stop
     | Next next_pc stop \<Rightarrow>
       mbind (modc (\<lambda>c. c\<lparr>pcr := next_pc, insn_count := insn_count c + 1\<rparr>)) (\<lambda>_. mret stop))"

section \<open>The RV64C dispatcher\<close>

text \<open>
  \<open>step_compressed\<close>, by quadrant; \<open>c\<close> is the halfword widened to 32 bits, \<open>ci\<close> the halfword.
  The illegal encodings report the halfword itself.
\<close>

definition fin_wr :: "nat \<Rightarrow> u64 \<Rightarrow> u64 \<Rightarrow> ('b, outcome) cpum" where
  "fin_wr r next_pc v = mbind (modc (wr r v)) (\<lambda>_. mret (Next next_pc None))"

text \<open>The FP forms expand the instruction for the exception of the FS gate.\<close>

definition c_fp_check :: "u16 \<Rightarrow> ('b, unit) cpum" where
  "c_fp_check ci = mbind (expand ci) (\<lambda>e. mbind (unwrap e) fp_check)"

definition exec_c0 :: "'b bus_ops \<Rightarrow> u16 \<Rightarrow> u64 \<Rightarrow> ('b, outcome) cpum" where
  "exec_c0 B ci next_pc =
     (let c = (ucast ci :: u32);
          f3 = drop_bit 13 c AND 7;
          r = compressed_register (drop_bit 2 c AND 7);
          s = compressed_register (drop_bit 7 c AND 7);
          imm_w = push_bit 3 (drop_bit 10 c AND 7) OR push_bit 2 (drop_bit 6 c AND 1)
            OR push_bit 6 (drop_bit 5 c AND 1);
          imm_d = push_bit 3 (drop_bit 10 c AND 7) OR push_bit 6 (drop_bit 5 c AND 3);
          done = (\<lambda>_. mret (Next next_pc None)) in
      if f3 = 0 then
        (let immediate = push_bit 4 (drop_bit 11 c AND 3) OR push_bit 6 (drop_bit 7 c AND 0xf)
           OR push_bit 2 (drop_bit 6 c AND 1) OR push_bit 3 (drop_bit 5 c AND 1) in
         if immediate = 0 then illegal c
         else mbind (getc (\<lambda>h. xreg h 2 + ucast immediate)) (fin_wr r next_pc))
      else if f3 = 1 then
        mbind (c_fp_check ci) (\<lambda>_.
        mbind (modc fp_dirty) (\<lambda>_.
        mbind (getc (\<lambda>h. xreg h s + ucast imm_d)) (\<lambda>address.
        mbind (ld B 8 address) (\<lambda>v.
        mbind (modc (set_f r v)) done))))
      else if f3 = 2 then
        mbind (getc (\<lambda>h. xreg h s + ucast imm_w)) (\<lambda>address.
        mbind (ld B 4 address) (\<lambda>v. fin_wr r next_pc (sext32 v)))
      else if f3 = 3 then
        mbind (getc (\<lambda>h. xreg h s + ucast imm_d)) (\<lambda>address.
        mbind (ld B 8 address) (fin_wr r next_pc))
      else if f3 = 5 then
        mbind (c_fp_check ci) (\<lambda>_.
        mbind (getc id) (\<lambda>h.
        mbind (st B 8 (xreg h s + ucast imm_d) (freg h r)) done))
      else if f3 = 6 then
        mbind (getc id) (\<lambda>h.
        mbind (st B 4 (xreg h s + ucast imm_w) (xreg h r)) done)
      else if f3 = 7 then
        mbind (getc id) (\<lambda>h.
        mbind (st B 8 (xreg h s + ucast imm_d) (xreg h r)) done)
      else illegal c)"

definition c_alu :: "u32 \<Rightarrow> u64 \<Rightarrow> u64 \<Rightarrow> u64 option" where
  "c_alu c x y =
     (let immediate = compressed_sext (push_bit 5 (drop_bit 12 c AND 1) OR (drop_bit 2 c AND 0x1f)) 6;
          shift = unat (push_bit 5 (drop_bit 12 c AND 1) OR (drop_bit 2 c AND 0x1f));
          sel = drop_bit 10 c AND 3;
          k = push_bit 2 (drop_bit 12 c AND 1) OR (drop_bit 5 c AND 3) in
      if sel = 0 then Some (drop_bit shift x)
      else if sel = 1 then Some (signed_drop_bit shift x)
      else if sel = 2 then Some (x AND immediate)
      else if k = 0 then Some (x - y)
      else if k = 1 then Some (x XOR y)
      else if k = 2 then Some (x OR y)
      else if k = 3 then Some (x AND y)
      else if k = 4 then Some (scast ((ucast x :: u32) - ucast y))
      else if k = 5 then Some (scast ((ucast x :: u32) + ucast y))
      else None)"

definition exec_c1_alu :: "u32 \<Rightarrow> u64 \<Rightarrow> ('b, outcome) cpum" where
  "exec_c1_alu c next_pc =
     (let rdp = compressed_register (drop_bit 7 c AND 7);
          s = compressed_register (drop_bit 2 c AND 7) in
      mbind (getc (\<lambda>h. c_alu c (xreg h rdp) (xreg h s))) (\<lambda>v.
      case v of None \<Rightarrow> illegal c
      | Some v \<Rightarrow> mbind (modc (set_x rdp v)) (\<lambda>_. mret (Next next_pc None))))"

definition exec_c1 :: "u32 \<Rightarrow> u64 \<Rightarrow> u64 \<Rightarrow> ('b, outcome) cpum" where
  "exec_c1 c pc next_pc =
     (let f3 = drop_bit 13 c AND 7;
          r = unat (drop_bit 7 c AND 0x1f);
          immediate = compressed_sext (push_bit 5 (drop_bit 12 c AND 1) OR (drop_bit 2 c AND 0x1f)) 6 in
      if f3 = 0 then mbind (getc (\<lambda>h. xreg h r + immediate)) (fin_wr r next_pc)
      else if f3 = 1 then
        (if r = 0 then illegal c
         else mbind (getc (\<lambda>h. scast ((ucast (xreg h r) :: u32) + ucast immediate)))
           (fin_wr r next_pc))
      else if f3 = 2 then fin_wr r next_pc immediate
      else if f3 = 3 then
        (if r = 2 then
           (let value = compressed_sext (push_bit 9 (drop_bit 12 c AND 1)
              OR push_bit 4 (drop_bit 6 c AND 1) OR push_bit 6 (drop_bit 5 c AND 1)
              OR push_bit 7 (drop_bit 3 c AND 3) OR push_bit 5 (drop_bit 2 c AND 1)) 10 in
            if value = 0 then illegal c
            else mbind (modc (\<lambda>h. set_x 2 (xreg h 2 + value) h)) (\<lambda>_. mret (Next next_pc None)))
         else if immediate = 0 then illegal c
         else fin_wr r next_pc (push_bit 12 immediate))
      else if f3 = 4 then exec_c1_alu c next_pc
      else if f3 = 5 then
        (let immediate = compressed_sext (push_bit 11 (drop_bit 12 c AND 1)
           OR push_bit 4 (drop_bit 11 c AND 1) OR push_bit 8 (drop_bit 9 c AND 3)
           OR push_bit 10 (drop_bit 8 c AND 1) OR push_bit 6 (drop_bit 7 c AND 1)
           OR push_bit 7 (drop_bit 6 c AND 1) OR push_bit 1 (drop_bit 3 c AND 7)
           OR push_bit 5 (drop_bit 2 c AND 1)) 12 in
         mret (Next (pc + immediate) None))
      else
        (let s = compressed_register (drop_bit 7 c AND 7);
             immediate = compressed_sext (push_bit 8 (drop_bit 12 c AND 1)
               OR push_bit 3 (drop_bit 10 c AND 3) OR push_bit 6 (drop_bit 5 c AND 3)
               OR push_bit 1 (drop_bit 3 c AND 3) OR push_bit 5 (drop_bit 2 c AND 1)) 9 in
         mbind (getc (\<lambda>h. if f3 = 6 then xreg h s = 0 else xreg h s \<noteq> 0)) (\<lambda>taken.
         mret (Next (if taken then pc + immediate else next_pc) None))))"

definition exec_c2_misc :: "u32 \<Rightarrow> u64 \<Rightarrow> ('b, outcome) cpum" where
  "exec_c2_misc c next_pc =
     (let r = unat (drop_bit 7 c AND 0x1f);
          s = unat (drop_bit 2 c AND 0x1f);
          bit12 = drop_bit 12 c AND 1 in
      if bit12 = 0 \<and> r = 0 then illegal c
      else if bit12 = 0 \<and> s = 0 then mbind (getc (\<lambda>h. xreg h r AND NOT 1)) (\<lambda>t. mret (Next t None))
      else if bit12 = 0 then mbind (getc (\<lambda>h. xreg h s)) (fin_wr r next_pc)
      else if bit12 = 1 \<and> r = 0 \<and> s = 0 then
        mbind (getc sys) (\<lambda>y. if y \<noteq> None then throw Breakpoint else mret (Next next_pc (Some Break)))
      else if bit12 = 1 \<and> s = 0 then
        mbind (getc (\<lambda>h. xreg h r AND NOT 1)) (\<lambda>target.
        mbind (modc (set_x 1 next_pc)) (\<lambda>_. mret (Next target None)))
      else if bit12 = 1 then mbind (getc (\<lambda>h. xreg h r + xreg h s)) (fin_wr r next_pc)
      else panic)"

definition exec_c2 :: "'b bus_ops \<Rightarrow> u16 \<Rightarrow> u64 \<Rightarrow> ('b, outcome) cpum" where
  "exec_c2 B ci next_pc =
     (let c = (ucast ci :: u32);
          f3 = drop_bit 13 c AND 7;
          r = unat (drop_bit 7 c AND 0x1f);
          s = unat (drop_bit 2 c AND 0x1f);
          shift = unat (push_bit 5 (drop_bit 12 c AND 1) OR (drop_bit 2 c AND 0x1f));
          imm_lw = push_bit 5 (drop_bit 12 c AND 1) OR push_bit 2 (drop_bit 4 c AND 7)
            OR push_bit 6 (drop_bit 2 c AND 3);
          imm_ld = push_bit 5 (drop_bit 12 c AND 1) OR push_bit 3 (drop_bit 5 c AND 3)
            OR push_bit 6 (drop_bit 2 c AND 7);
          imm_sw = push_bit 2 (drop_bit 9 c AND 0xf) OR push_bit 6 (drop_bit 7 c AND 3);
          imm_sd = push_bit 3 (drop_bit 10 c AND 7) OR push_bit 6 (drop_bit 7 c AND 7);
          done = (\<lambda>_. mret (Next next_pc None)) in
      if f3 = 0 then mbind (getc (\<lambda>h. push_bit shift (xreg h r))) (fin_wr r next_pc)
      else if f3 = 1 then
        mbind (c_fp_check ci) (\<lambda>_.
        mbind (modc fp_dirty) (\<lambda>_.
        mbind (getc (\<lambda>h. xreg h 2 + ucast imm_ld)) (\<lambda>address.
        mbind (ld B 8 address) (\<lambda>v.
        mbind (modc (set_f r v)) done))))
      else if f3 = 2 then
        (if r = 0 then illegal c
         else mbind (getc (\<lambda>h. xreg h 2 + ucast imm_lw)) (\<lambda>address.
           mbind (ld B 4 address) (\<lambda>v. fin_wr r next_pc (sext32 v))))
      else if f3 = 3 then
        (if r = 0 then illegal c
         else mbind (getc (\<lambda>h. xreg h 2 + ucast imm_ld)) (\<lambda>address.
           mbind (ld B 8 address) (fin_wr r next_pc)))
      else if f3 = 4 then exec_c2_misc c next_pc
      else if f3 = 5 then
        mbind (c_fp_check ci) (\<lambda>_.
        mbind (getc id) (\<lambda>h.
        mbind (st B 8 (xreg h 2 + ucast imm_sd) (freg h s)) done))
      else if f3 = 6 then
        mbind (getc id) (\<lambda>h.
        mbind (st B 4 (xreg h 2 + ucast imm_sw) (xreg h s)) done)
      else
        mbind (getc id) (\<lambda>h.
        mbind (st B 8 (xreg h 2 + ucast imm_sd) (xreg h s)) done))"

definition exec16 :: "'b bus_ops \<Rightarrow> u16 \<Rightarrow> u64 \<Rightarrow> ('b, outcome) cpum" where
  "exec16 B ci pc =
     (let c = (ucast ci :: u32); next_pc = pc + 2 in
      if c = 0 then illegal c
      else if c AND 3 = 0 then exec_c0 B ci next_pc
      else if c AND 3 = 1 then exec_c1 c pc next_pc
      else if c AND 3 = 2 then exec_c2 B ci next_pc
      else panic)"

definition step_compressed :: "'b bus_ops \<Rightarrow> u16 \<Rightarrow> ('b, stop_reason option) cpum" where
  "step_compressed B ci = mbind (getc pcr) (\<lambda>pc. mbind (exec16 B ci pc) retire)"

section \<open>One instruction\<close>

definition step :: "'b bus_ops \<Rightarrow> ('b, stop_reason option) cpum" where
  "step B =
     mbind (getc pcr) (\<lambda>pc.
     mbind (translate B pc Fetch) (\<lambda>pa.
     mbind (busm (fetch16 B pa)) (\<lambda>lo16.
     let lo = (ucast lo16 :: u32) in
     if lo AND 3 \<noteq> 3 then step_compressed B lo16
     else
       let pc2 = pc + 2 in
       mbind (if pc2 AND 0xfff = 0 then translate B pc2 Fetch else mret (pa + 2)) (\<lambda>pa2.
       mbind (busm (fetch16 B pa2)) (\<lambda>hi.
       let insn = lo OR push_bit 16 (ucast hi) in
       mbind (exec32 B insn pc (pc + 4)) retire)))))"

end
