(* ===== verification/Tier0.thy ===== *)
theory Tier0
  imports Exec
begin

text \<open>
  The integrated scalar decoder of \<open>crates/rv64-core/src/cpu.rs\<close>: the slice-local executable
  page capability (\<open>scalar_fetch16\<close>), the 32-bit and the compressed scalar decoders, which
  the sources write out a second time next to \<open>step\<close>. They are translated from their own
  lines and keep PC and retirement out of the hart.
\<close>

section \<open>State\<close>

datatype t0_step = Retired u64 | Stopped u64 stop_reason | Slow

record fetch_capability =
  cap_tag :: u64
  cap_pa_diff :: u64
  cap_linear_off :: i64

text \<open>The capability is a mutable argument: it is part of the state of the decoder.\<close>

type_synonym ('b, 'a) t0m = "(fetch_capability \<times> cpu \<times> 'b, exn, 'a) res"

definition hart :: "('b, 'a) cpum \<Rightarrow> ('b, 'a) t0m" where
  "hart m = (\<lambda>(k, s). case m s of (r, s') \<Rightarrow> (r, (k, s')))"

definition getcap :: "(fetch_capability \<Rightarrow> 'a) \<Rightarrow> ('b, 'a) t0m" where
  "getcap f = mget (\<lambda>s. f (fst s))"

definition setcap :: "fetch_capability \<Rightarrow> ('b, unit) t0m" where
  "setcap k = mmod (\<lambda>s. (k, snd s))"

section \<open>Instruction fetch\<close>

definition scalar_fetch16_slow ::
  "'b bus_ops \<Rightarrow> u64 \<Rightarrow> u64 \<Rightarrow> ('b, u64 \<times> u16 \<times> u64 option) t0m" where
  "scalar_fetch16_slow B va tag =
     mbind (hart (translate B va Fetch)) (\<lambda>pa.
     mbind (hart (getb (\<lambda>b. jit_fast_off B b va pa False))) (\<lambda>o'.
     case o' of
       Some off \<Rightarrow>
         let address = va + off in
         mbind (hart (getb (host_read B 2 address))) (\<lambda>instruction.
         mbind (setcap \<lparr>cap_tag = tag, cap_pa_diff = pa - va, cap_linear_off = off\<rparr>) (\<lambda>_.
         mret (pa, instruction, Some address)))
     | None \<Rightarrow>
         mbind (hart (busm (fetch16 B pa))) (\<lambda>instruction. mret (pa, instruction, None))))"

definition scalar_fetch16 ::
  "'b bus_ops \<Rightarrow> u64 \<Rightarrow> u64 \<Rightarrow> ('b, u64 \<times> u16 \<times> u64 option) t0m" where
  "scalar_fetch16 B va context =
     (let tag = (va AND TLB_PAGE_MASK) OR context in
      mbind (getcap id) (\<lambda>k.
      if cap_tag k = tag then
        let address = va + cap_linear_off k in
        mbind (hart (getb (host_read B 2 address))) (\<lambda>instruction.
        mret (va + cap_pa_diff k, instruction, Some address))
      else scalar_fetch16_slow B va tag))"

section \<open>The 32-bit scalar decoder\<close>

definition t0_wr :: "nat \<Rightarrow> u64 \<Rightarrow> u64 \<Rightarrow> ('b, t0_step) cpum" where
  "t0_wr r next_pc v = mbind (modc (wr r v)) (\<lambda>_. mret (Retired next_pc))"

definition t0_branch :: "u32 \<Rightarrow> u64 \<Rightarrow> u64 \<Rightarrow> ('b, t0_step) cpum" where
  "t0_branch insn pc next_pc = mbind (getc id) (\<lambda>c.
     let a = xreg c (rs1 insn); b = xreg c (rs2 insn); f3 = funct3 insn;
         taken = (\<lambda>t. mret (Retired (if t then pc + imm_b insn else next_pc))) in
     if f3 = 0 then taken (a = b)
     else if f3 = 1 then taken (a \<noteq> b)
     else if f3 = 4 then taken (sint a < sint b)
     else if f3 = 5 then taken (sint a \<ge> sint b)
     else if f3 = 6 then taken (a < b)
     else if f3 = 7 then taken (a \<ge> b)
     else illegal insn)"

definition t0_load :: "'b bus_ops \<Rightarrow> u32 \<Rightarrow> u64 \<Rightarrow> ('b, t0_step) cpum" where
  "t0_load B insn next_pc = mbind (getc (\<lambda>c. xreg c (rs1 insn) + imm_i insn)) (\<lambda>addr.
     let f3 = funct3 insn; r = rd insn in
     if f3 = 0 then mbind (ld B 1 addr) (\<lambda>v. t0_wr r next_pc (scast (ucast v :: u8)))
     else if f3 = 1 then mbind (ld B 2 addr) (\<lambda>v. t0_wr r next_pc (scast (ucast v :: u16)))
     else if f3 = 2 then mbind (ld B 4 addr) (\<lambda>v. t0_wr r next_pc (scast (ucast v :: u32)))
     else if f3 = 3 then mbind (ld B 8 addr) (t0_wr r next_pc)
     else if f3 = 4 then mbind (ld B 1 addr) (t0_wr r next_pc)
     else if f3 = 5 then mbind (ld B 2 addr) (t0_wr r next_pc)
     else if f3 = 6 then mbind (ld B 4 addr) (t0_wr r next_pc)
     else illegal insn)"

definition t0_store :: "'b bus_ops \<Rightarrow> u32 \<Rightarrow> u64 \<Rightarrow> ('b, t0_step) cpum" where
  "t0_store B insn next_pc = mbind (getc id) (\<lambda>c.
     let addr = xreg c (rs1 insn) + imm_s insn; val = xreg c (rs2 insn); f3 = funct3 insn;
         done = (\<lambda>_. mret (Retired next_pc)) in
     if f3 = 0 then mbind (st B 1 addr val) done
     else if f3 = 1 then mbind (st B 2 addr val) done
     else if f3 = 2 then mbind (st B 4 addr val) done
     else if f3 = 3 then mbind (st B 8 addr val) done
     else illegal insn)"

definition t0_op_imm :: "u32 \<Rightarrow> u64 \<Rightarrow> ('b, t0_step) cpum" where
  "t0_op_imm insn next_pc = mbind (getc (\<lambda>c. xreg c (rs1 insn))) (\<lambda>a.
     let imm = imm_i insn; shamt = unat (imm AND 0x3f); f3 = funct3 insn; w = t0_wr (rd insn) next_pc in
     if f3 = 0 then w (a + imm)
     else if f3 = 1 then w (push_bit shamt a)
     else if f3 = 2 then w (of_flag (sint a < sint imm))
     else if f3 = 3 then w (of_flag (a < imm))
     else if f3 = 4 then w (a XOR imm)
     else if f3 = 5 then
       w (if drop_bit 26 insn = 0x10 then signed_drop_bit shamt a else drop_bit shamt a)
     else if f3 = 6 then w (a OR imm)
     else if f3 = 7 then w (a AND imm)
     else panic)"

definition t0_op_imm32 :: "u32 \<Rightarrow> u64 \<Rightarrow> ('b, t0_step) cpum" where
  "t0_op_imm32 insn next_pc = mbind (getc (\<lambda>c. xreg c (rs1 insn))) (\<lambda>x.
     let a = (ucast x :: u32); imm = imm_i insn; shamt = unat (imm AND 0x1f); f3 = funct3 insn;
         w = (\<lambda>v :: u32. t0_wr (rd insn) next_pc (scast v)) in
     if f3 = 0 then w (a + ucast imm)
     else if f3 = 1 then w (push_bit shamt a)
     else if f3 = 5 then
       w (if funct7 insn = 0x20 then signed_drop_bit shamt a else drop_bit shamt a)
     else illegal insn)"

definition t0_op :: "u32 \<Rightarrow> u64 \<Rightarrow> ('b, t0_step) cpum" where
  "t0_op insn next_pc = mbind (getc id) (\<lambda>c.
     let a = xreg c (rs1 insn); b = xreg c (rs2 insn); shamt = unat (b AND 0x3f);
         w = t0_wr (rd insn) next_pc; k = (funct7 insn, funct3 insn) in
     if k = (0, 0) then w (a + b)
     else if k = (0x20, 0) then w (a - b)
     else if k = (0, 1) then w (push_bit shamt a)
     else if k = (0, 2) then w (of_flag (sint a < sint b))
     else if k = (0, 3) then w (of_flag (a < b))
     else if k = (0, 4) then w (a XOR b)
     else if k = (0, 5) then w (drop_bit shamt a)
     else if k = (0x20, 5) then w (signed_drop_bit shamt a)
     else if k = (0, 6) then w (a OR b)
     else if k = (0, 7) then w (a AND b)
     else if k = (1, 0) then w (a * b)
     else if k = (1, 1) then w (ucast (signed_drop_bit 64 ((scast a :: u128) * scast b)))
     else if k = (1, 2) then w (ucast (signed_drop_bit 64 ((scast a :: u128) * ucast b)))
     else if k = (1, 3) then w (ucast (drop_bit 64 ((ucast a :: u128) * ucast b)))
     else if k = (1, 4) then w (if b = 0 then NOT 0 else wrapping_div a b)
     else if k = (1, 5) then w (if b = 0 then NOT 0 else a div b)
     else if k = (1, 6) then w (if b = 0 then a else wrapping_rem a b)
     else if k = (1, 7) then w (if b = 0 then a else a mod b)
     else illegal insn)"

definition t0_op32 :: "u32 \<Rightarrow> u64 \<Rightarrow> ('b, t0_step) cpum" where
  "t0_op32 insn next_pc = mbind (getc id) (\<lambda>c.
     let a = (ucast (xreg c (rs1 insn)) :: u32); b = (ucast (xreg c (rs2 insn)) :: u32);
         shamt = unat (b AND 0x1f); k = (funct7 insn, funct3 insn);
         w = (\<lambda>v :: u32. t0_wr (rd insn) next_pc (scast v)) in
     if k = (0, 0) then w (a + b)
     else if k = (0x20, 0) then w (a - b)
     else if k = (0, 1) then w (push_bit shamt a)
     else if k = (0, 5) then w (drop_bit shamt a)
     else if k = (0x20, 5) then w (signed_drop_bit shamt a)
     else if k = (1, 0) then w (a * b)
     else if k = (1, 4) then w (if b = 0 then NOT 0 else wrapping_div a b)
     else if k = (1, 5) then w (if b = 0 then NOT 0 else a div b)
     else if k = (1, 6) then w (if b = 0 then a else wrapping_rem a b)
     else if k = (1, 7) then w (if b = 0 then a else a mod b)
     else illegal insn)"

definition t0_vector :: "'b bus_ops \<Rightarrow> u32 \<Rightarrow> u64 \<Rightarrow> ('b, t0_step) cpum" where
  "t0_vector B insn next_pc =
     (let opc = opcode insn; done = (\<lambda>_. mret (Retired next_pc)) in
      if opc = 0x07 then
        (if unit_stride_memory_encoding insn
         then mbind (exec_unit_stride_memory_insn B insn True) done
         else mbind (exec_vector_memory B insn True) done)
      else if opc = 0x27 then
        (if unit_stride_memory_encoding insn
         then mbind (exec_unit_stride_memory_insn B insn False) done
         else mbind (exec_vector_memory B insn False) done)
      else if funct3 insn = 7 then mbind (exec_vector_config insn) done
      else mbind (exec_vector_op insn) done)"

definition t0_exec32 :: "'b bus_ops \<Rightarrow> u32 \<Rightarrow> u64 \<Rightarrow> ('b, t0_step) cpum" where
  "t0_exec32 B insn pc =
     (let opc = opcode insn; next_pc = pc + 4; f3 = funct3 insn in
      if opc = 0x37 then t0_wr (rd insn) next_pc (imm_u insn)
      else if opc = 0x17 then t0_wr (rd insn) next_pc (pc + imm_u insn)
      else if opc = 0x6f then
        mbind (modc (wr (rd insn) next_pc)) (\<lambda>_. mret (Retired (pc + imm_j insn)))
      else if opc = 0x67 then
        mbind (getc (\<lambda>c. (xreg c (rs1 insn) + imm_i insn) AND NOT 1)) (\<lambda>target.
        mbind (modc (wr (rd insn) next_pc)) (\<lambda>_. mret (Retired target)))
      else if opc = 0x63 then t0_branch insn pc next_pc
      else if opc = 0x03 then t0_load B insn next_pc
      else if opc = 0x23 then t0_store B insn next_pc
      else if opc = 0x13 then t0_op_imm insn next_pc
      else if opc = 0x1b then t0_op_imm32 insn next_pc
      else if opc = 0x33 then t0_op insn next_pc
      else if opc = 0x3b then t0_op32 insn next_pc
      else if opc = 0x07 \<and> (f3 = 0 \<or> f3 = 5 \<or> f3 = 6 \<or> f3 = 7) then t0_vector B insn next_pc
      else if opc = 0x27 \<and> (f3 = 0 \<or> f3 = 5 \<or> f3 = 6 \<or> f3 = 7) then t0_vector B insn next_pc
      else if opc = 0x57 then t0_vector B insn next_pc
      else mret Slow)"

section \<open>The compressed scalar decoder\<close>

definition t0_c0 :: "'b bus_ops \<Rightarrow> u32 \<Rightarrow> u64 \<Rightarrow> ('b, t0_step) cpum" where
  "t0_c0 B c next_pc =
     (let f3 = drop_bit 13 c AND 7;
          r = compressed_register (drop_bit 2 c AND 7);
          s = compressed_register (drop_bit 7 c AND 7);
          imm_w = push_bit 3 (drop_bit 10 c AND 7) OR push_bit 2 (drop_bit 6 c AND 1)
            OR push_bit 6 (drop_bit 5 c AND 1);
          imm_d = push_bit 3 (drop_bit 10 c AND 7) OR push_bit 6 (drop_bit 5 c AND 3) in
      if f3 = 0 then
        (let immediate = push_bit 4 (drop_bit 11 c AND 3) OR push_bit 6 (drop_bit 7 c AND 0xf)
           OR push_bit 2 (drop_bit 6 c AND 1) OR push_bit 3 (drop_bit 5 c AND 1) in
         if immediate = 0 then illegal c
         else mbind (getc (\<lambda>h. xreg h 2 + ucast immediate)) (t0_wr r next_pc))
      else if f3 = 1 \<or> f3 = 5 then mret Slow
      else if f3 = 2 then
        mbind (getc (\<lambda>h. xreg h s + ucast imm_w)) (\<lambda>address.
        mbind (ld B 4 address) (\<lambda>v. t0_wr r next_pc (scast (ucast v :: u32))))
      else if f3 = 3 then
        mbind (getc (\<lambda>h. xreg h s + ucast imm_d)) (\<lambda>address.
        mbind (ld B 8 address) (t0_wr r next_pc))
      else if f3 = 6 then
        mbind (getc id) (\<lambda>h.
        mbind (st B 4 (xreg h s + ucast imm_w) (xreg h r)) (\<lambda>_. mret (Retired next_pc)))
      else if f3 = 7 then
        mbind (getc id) (\<lambda>h.
        mbind (st B 8 (xreg h s + ucast imm_d) (xreg h r)) (\<lambda>_. mret (Retired next_pc)))
      else illegal c)"

definition t0_c1_alu :: "u32 \<Rightarrow> u64 \<Rightarrow> ('b, t0_step) cpum" where
  "t0_c1_alu c next_pc = mbind (getc id) (\<lambda>h.
     let rdp = compressed_register (drop_bit 7 c AND 7);
         s = compressed_register (drop_bit 2 c AND 7);
         x = xreg h rdp; y = xreg h s;
         immediate = compressed_sext (push_bit 5 (drop_bit 12 c AND 1) OR (drop_bit 2 c AND 0x1f)) 6;
         shift = unat (push_bit 5 (drop_bit 12 c AND 1) OR (drop_bit 2 c AND 0x1f));
         sel = drop_bit 10 c AND 3;
         k = push_bit 2 (drop_bit 12 c AND 1) OR (drop_bit 5 c AND 3);
         put = (\<lambda>v. mbind (modc (set_x rdp v)) (\<lambda>_. mret (Retired next_pc))) in
     if sel = 0 then put (drop_bit shift x)
     else if sel = 1 then put (signed_drop_bit shift x)
     else if sel = 2 then put (x AND immediate)
     else if k = 0 then put (x - y)
     else if k = 1 then put (x XOR y)
     else if k = 2 then put (x OR y)
     else if k = 3 then put (x AND y)
     else if k = 4 then put (scast ((ucast x :: u32) - ucast y))
     else if k = 5 then put (scast ((ucast x :: u32) + ucast y))
     else illegal c)"

definition t0_c1 :: "u32 \<Rightarrow> u64 \<Rightarrow> u64 \<Rightarrow> ('b, t0_step) cpum" where
  "t0_c1 c pc next_pc =
     (let f3 = drop_bit 13 c AND 7;
          r = unat (drop_bit 7 c AND 0x1f);
          immediate = compressed_sext (push_bit 5 (drop_bit 12 c AND 1) OR (drop_bit 2 c AND 0x1f)) 6 in
      if f3 = 0 then mbind (getc (\<lambda>h. xreg h r + immediate)) (t0_wr r next_pc)
      else if f3 = 1 then
        (if r = 0 then illegal c
         else mbind (getc (\<lambda>h. scast ((ucast (xreg h r) :: u32) + ucast immediate)))
           (t0_wr r next_pc))
      else if f3 = 2 then t0_wr r next_pc immediate
      else if f3 = 3 then
        (if r = 2 then
           (let value = compressed_sext (push_bit 9 (drop_bit 12 c AND 1)
              OR push_bit 4 (drop_bit 6 c AND 1) OR push_bit 6 (drop_bit 5 c AND 1)
              OR push_bit 7 (drop_bit 3 c AND 3) OR push_bit 5 (drop_bit 2 c AND 1)) 10 in
            if value = 0 then illegal c
            else mbind (modc (\<lambda>h. set_x 2 (xreg h 2 + value) h)) (\<lambda>_. mret (Retired next_pc)))
         else if immediate = 0 then illegal c
         else t0_wr r next_pc (push_bit 12 immediate))
      else if f3 = 4 then t0_c1_alu c next_pc
      else if f3 = 5 then
        (let immediate = compressed_sext (push_bit 11 (drop_bit 12 c AND 1)
           OR push_bit 4 (drop_bit 11 c AND 1) OR push_bit 8 (drop_bit 9 c AND 3)
           OR push_bit 10 (drop_bit 8 c AND 1) OR push_bit 6 (drop_bit 7 c AND 1)
           OR push_bit 7 (drop_bit 6 c AND 1) OR push_bit 1 (drop_bit 3 c AND 7)
           OR push_bit 5 (drop_bit 2 c AND 1)) 12 in
         mret (Retired (pc + immediate)))
      else
        (let s = compressed_register (drop_bit 7 c AND 7);
             immediate = compressed_sext (push_bit 8 (drop_bit 12 c AND 1)
               OR push_bit 3 (drop_bit 10 c AND 3) OR push_bit 6 (drop_bit 5 c AND 3)
               OR push_bit 1 (drop_bit 3 c AND 3) OR push_bit 5 (drop_bit 2 c AND 1)) 9 in
         mbind (getc (\<lambda>h. if f3 = 6 then xreg h s = 0 else xreg h s \<noteq> 0)) (\<lambda>taken.
         mret (Retired (if taken then pc + immediate else next_pc)))))"

definition t0_c2_misc :: "u32 \<Rightarrow> u64 \<Rightarrow> ('b, t0_step) cpum" where
  "t0_c2_misc c next_pc =
     (let r = unat (drop_bit 7 c AND 0x1f);
          s = unat (drop_bit 2 c AND 0x1f);
          bit12 = drop_bit 12 c AND 1 in
      if bit12 = 0 \<and> r = 0 then illegal c
      else if bit12 = 0 \<and> s = 0 then mbind (getc (\<lambda>h. xreg h r AND NOT 1)) (\<lambda>t. mret (Retired t))
      else if bit12 = 0 then mbind (getc (\<lambda>h. xreg h s)) (t0_wr r next_pc)
      else if bit12 = 1 \<and> r = 0 \<and> s = 0 then
        mbind (getc sys) (\<lambda>y. if y \<noteq> None then throw Breakpoint else mret (Stopped next_pc Break))
      else if bit12 = 1 \<and> s = 0 then
        mbind (getc (\<lambda>h. xreg h r AND NOT 1)) (\<lambda>target.
        mbind (modc (set_x 1 next_pc)) (\<lambda>_. mret (Retired target)))
      else if bit12 = 1 then mbind (getc (\<lambda>h. xreg h r + xreg h s)) (t0_wr r next_pc)
      else panic)"

definition t0_c2 :: "'b bus_ops \<Rightarrow> u32 \<Rightarrow> u64 \<Rightarrow> ('b, t0_step) cpum" where
  "t0_c2 B c next_pc =
     (let f3 = drop_bit 13 c AND 7;
          r = unat (drop_bit 7 c AND 0x1f);
          s = unat (drop_bit 2 c AND 0x1f);
          shift = unat (push_bit 5 (drop_bit 12 c AND 1) OR (drop_bit 2 c AND 0x1f));
          imm_lw = push_bit 5 (drop_bit 12 c AND 1) OR push_bit 2 (drop_bit 4 c AND 7)
            OR push_bit 6 (drop_bit 2 c AND 3);
          imm_ld = push_bit 5 (drop_bit 12 c AND 1) OR push_bit 3 (drop_bit 5 c AND 3)
            OR push_bit 6 (drop_bit 2 c AND 7);
          imm_sw = push_bit 2 (drop_bit 9 c AND 0xf) OR push_bit 6 (drop_bit 7 c AND 3);
          imm_sd = push_bit 3 (drop_bit 10 c AND 7) OR push_bit 6 (drop_bit 7 c AND 7) in
      if f3 = 0 then mbind (getc (\<lambda>h. push_bit shift (xreg h r))) (t0_wr r next_pc)
      else if f3 = 1 \<or> f3 = 5 then mret Slow
      else if f3 = 2 then
        (if r = 0 then illegal c
         else mbind (getc (\<lambda>h. xreg h 2 + ucast imm_lw)) (\<lambda>address.
           mbind (ld B 4 address) (\<lambda>v. t0_wr r next_pc (scast (ucast v :: u32)))))
      else if f3 = 3 then
        (if r = 0 then illegal c
         else mbind (getc (\<lambda>h. xreg h 2 + ucast imm_ld)) (\<lambda>address.
           mbind (ld B 8 address) (t0_wr r next_pc)))
      else if f3 = 4 then t0_c2_misc c next_pc
      else if f3 = 6 then
        mbind (getc id) (\<lambda>h.
        mbind (st B 4 (xreg h 2 + ucast imm_sw) (xreg h s)) (\<lambda>_. mret (Retired next_pc)))
      else
        mbind (getc id) (\<lambda>h.
        mbind (st B 8 (xreg h 2 + ucast imm_sd) (xreg h s)) (\<lambda>_. mret (Retired next_pc))))"

definition scalar_t0_compressed :: "'b bus_ops \<Rightarrow> u16 \<Rightarrow> u64 \<Rightarrow> ('b, t0_step) cpum" where
  "scalar_t0_compressed B instruction pc =
     (let c = (ucast instruction :: u32); next_pc = pc + 2 in
      if c = 0 then illegal c
      else if c AND 3 = 0 then t0_c0 B c next_pc
      else if c AND 3 = 1 then t0_c1 c pc next_pc
      else if c AND 3 = 2 then t0_c2 B c next_pc
      else panic)"

definition scalar_t0_step :: "'b bus_ops \<Rightarrow> u64 \<Rightarrow> u64 \<Rightarrow> ('b, t0_step) t0m" where
  "scalar_t0_step B pc fetch_context =
     mbind (scalar_fetch16 B pc fetch_context) (\<lambda>(pa, lo16, linear_fetch).
     let lo = (ucast lo16 :: u32) in
     if lo AND 3 \<noteq> 3 then hart (scalar_t0_compressed B lo16 pc)
     else
       let pc2 = pc + 2 in
       mbind (if pc2 AND 0xfff = 0
           then mbind (scalar_fetch16 B pc2 fetch_context) (\<lambda>(_, hi, _). mret hi)
         else case linear_fetch of
           Some address \<Rightarrow> hart (getb (host_read B 2 (address + 2)))
         | None \<Rightarrow> hart (busm (fetch16 B (pa + 2)))) (\<lambda>hi.
       let insn = lo OR push_bit 16 (ucast hi) in
       hart (t0_exec32 B insn pc)))"

end
