(* ===== verification/Run.thy ===== *)
theory Run
  imports Tier0
begin

text \<open>
  The run loops of \<open>crates/rv64-core/src/cpu.rs\<close>: \<open>run\<close>, \<open>run_until\<close>, \<open>run_until_observed\<close>,
  \<open>run_traced\<close>, and the integrated scalar driver with its variants. A \<open>for _ in 0..budget\<close>
  loop, or \<open>while consumed < budget\<close> with one \<open>consumed += 1\<close> per iteration, recurses on the
  number of iterations left, so every loop terminates by construction. The callbacks are
  \<open>FnMut\<close>: they act on an environment of their own, the first component of the state.
\<close>

section \<open>Callbacks\<close>

type_synonym ('k, 'b, 'a) runm = "('k \<times> cpu \<times> 'b, exn, 'a) res"

definition onhart :: "('b, 'a) cpum \<Rightarrow> ('k, 'b, 'a) runm" where
  "onhart m = (\<lambda>(k, s). case m s of (r, s') \<Rightarrow> (r, (k, s')))"

definition call :: "('k \<Rightarrow> 'a \<times> 'k) \<Rightarrow> ('k, 'b, 'a) runm" where
  "call f = (\<lambda>(k, s). case f k of (a, k') \<Rightarrow> (Inr a, (k', s)))"

text \<open>The opening of every loop body: poll the interrupt lines every 32 instructions.\<close>

definition poll :: "'b bus_ops \<Rightarrow> bool \<Rightarrow> ('b, unit) cpum" where
  "poll B system =
     (if \<not> system then mret ()
      else mbind (getc irq_poll_cd) (\<lambda>cd.
        if cd = 0 then
          mbind (modc (\<lambda>c. c\<lparr>irq_poll_cd := IRQ_POLL_INTERVAL\<rparr>)) (\<lambda>_.
          mbind (check_interrupts B) (\<lambda>_. mret ()))
        else modc (\<lambda>c. c\<lparr>irq_poll_cd := irq_poll_cd c - 1\<rparr>)))"

text \<open>An exception becomes a guest trap in system mode and a stop otherwise.\<close>

definition deliver :: "bool \<Rightarrow> exn \<Rightarrow> ('b, stop_reason option) cpum" where
  "deliver system e =
     (if system then mbind (exception_to_trap e) (\<lambda>_. mret None) else mret (Some (Trap e)))"

definition step_or_trap :: "'b bus_ops \<Rightarrow> bool \<Rightarrow> ('b, stop_reason option) cpum" where
  "step_or_trap B system = mtry (step B) mret (deliver system)"

section \<open>Loops over the complete decoder\<close>

primrec run_loop :: "'b bus_ops \<Rightarrow> bool \<Rightarrow> nat \<Rightarrow> ('b, stop_reason) cpum" where
  "run_loop B system 0 = mret Budget"
| "run_loop B system (Suc n) =
     mbind (poll B system) (\<lambda>_.
     mbind (step_or_trap B system) (\<lambda>r.
     case r of Some stop \<Rightarrow> mret stop | None \<Rightarrow> run_loop B system n))"

definition run :: "'b bus_ops \<Rightarrow> u64 \<Rightarrow> ('b, stop_reason) cpum" where
  "run B budget =
     mbind (getc (\<lambda>c. sys c \<noteq> None)) (\<lambda>system. run_loop B system (unat budget))"

primrec run_until_loop :: "'b bus_ops \<Rightarrow> bool \<Rightarrow> (u64 \<Rightarrow> 'k \<Rightarrow> bool \<times> 'k) \<Rightarrow> nat \<Rightarrow>
    ('k, 'b, stop_reason) runm" where
  "run_until_loop B system stop_at 0 = mret Budget"
| "run_until_loop B system stop_at (Suc n) =
     mbind (onhart (poll B system)) (\<lambda>_.
     mbind (onhart (step_or_trap B system)) (\<lambda>r.
     case r of Some stop \<Rightarrow> mret stop
     | None \<Rightarrow>
       mbind (onhart (getc pcr)) (\<lambda>pc.
       mbind (call (stop_at pc)) (\<lambda>stop.
       if stop then mret Budget else run_until_loop B system stop_at n))))"

definition run_until :: "'b bus_ops \<Rightarrow> u64 \<Rightarrow> (u64 \<Rightarrow> 'k \<Rightarrow> bool \<times> 'k) \<Rightarrow>
    ('k, 'b, stop_reason) runm" where
  "run_until B budget stop_at =
     mbind (onhart (getc (\<lambda>c. sys c \<noteq> None))) (\<lambda>system.
     run_until_loop B system stop_at (unat budget))"

text \<open>\<open>(satp, mode)\<close> of the hart, as the observers see it; \<open>sequential\<close> is the +2/+4 test.\<close>

definition satp_mode :: "cpu \<Rightarrow> u64 \<times> u8" where
  "satp_mode c = (case sys c of None \<Rightarrow> (0, NOT 0) | Some s \<Rightarrow> (satp s, ucast (priv_bits (mode s))))"

definition sequential :: "u64 \<Rightarrow> u64 \<Rightarrow> nat \<Rightarrow> bool" where
  "sequential previous_pc pc n \<longleftrightarrow>
     unat previous_pc + n < 2 ^ 64 \<and> previous_pc + of_nat n = pc"

definition observe :: "'b bus_ops \<Rightarrow> (u64 \<Rightarrow> u64 \<Rightarrow> u64 \<Rightarrow> u8 \<Rightarrow> 'k \<Rightarrow> 'k) \<Rightarrow> u64 \<Rightarrow>
    ('k, 'b, bool) runm" where
  "observe B observe_target target =
     mbind (onhart (jit_probe_fetch B target)) (\<lambda>p.
     case p of None \<Rightarrow> mret False
     | Some pa \<Rightarrow>
       mbind (onhart (getc satp_mode)) (\<lambda>(sa, md).
       mbind (call (\<lambda>k. ((), observe_target target pa sa md k))) (\<lambda>_. mret True)))"

primrec run_until_observed_loop :: "'b bus_ops \<Rightarrow> bool \<Rightarrow>
    (u64 \<Rightarrow> 'k \<Rightarrow> bool \<times> 'k) \<Rightarrow> (u64 \<Rightarrow> u64 \<Rightarrow> u64 \<Rightarrow> u8 \<Rightarrow> 'k \<Rightarrow> 'k) \<Rightarrow> nat \<Rightarrow> bool \<Rightarrow>
    ('k, 'b, stop_reason) runm" where
  "run_until_observed_loop B system stop_at observe_target 0 observed = mret Budget"
| "run_until_observed_loop B system stop_at observe_target (Suc n) observed =
     mbind (onhart (poll B system)) (\<lambda>_.
     mbind (onhart (getc pcr)) (\<lambda>previous_pc.
     mbind (onhart (step_or_trap B system)) (\<lambda>r.
     case r of Some stop \<Rightarrow> mret stop
     | None \<Rightarrow>
       mbind (onhart (getc pcr)) (\<lambda>pc.
       mbind (call (stop_at pc)) (\<lambda>stop.
       if stop then mret Budget
       else
         mbind (if \<not> observed \<and> \<not> sequential previous_pc pc 2 \<and> \<not> sequential previous_pc pc 4
             then observe B observe_target pc else mret observed) (\<lambda>seen.
         run_until_observed_loop B system stop_at observe_target n seen))))))"

definition run_until_observed :: "'b bus_ops \<Rightarrow> u64 \<Rightarrow>
    (u64 \<Rightarrow> 'k \<Rightarrow> bool \<times> 'k) \<Rightarrow> (u64 \<Rightarrow> u64 \<Rightarrow> u64 \<Rightarrow> u8 \<Rightarrow> 'k \<Rightarrow> 'k) \<Rightarrow>
    ('k, 'b, stop_reason) runm" where
  "run_until_observed B budget stop_at observe_target =
     mbind (onhart (getc (\<lambda>c. sys c \<noteq> None))) (\<lambda>system.
     run_until_observed_loop B system stop_at observe_target (unat budget) False)"

record instruction_trace =
  tr_icount :: u64
  tr_va :: u64
  tr_pa :: u64
  tr_next_va :: u64
  tr_satp :: u64
  tr_mode :: u8
  tr_ilen :: u8

definition traced_step :: "'b bus_ops \<Rightarrow> bool \<Rightarrow>
    (instruction_trace \<Rightarrow> 'k \<Rightarrow> 'k) \<Rightarrow> ('k, 'b, stop_reason option) runm" where
  "traced_step B system trace =
     mbind (onhart (getc pcr)) (\<lambda>va.
     mbind (onhart (jit_probe_fetch B va)) (\<lambda>p.
     mbind (case p of None \<Rightarrow> mret 0
       | Some pa \<Rightarrow> mbind (onhart (to_ok (busm (fetch16 B pa)))) (\<lambda>r.
           mret (case r of None \<Rightarrow> 0 | Some insn \<Rightarrow> if insn AND 3 = 3 then 4 else 2))) (\<lambda>ilen.
     mbind (onhart (getc satp_mode)) (\<lambda>(sa, md).
     mbind (onhart (getc insn_count)) (\<lambda>before.
     mtry (onhart (step B))
       (\<lambda>stop.
         mbind (onhart (getc id)) (\<lambda>c.
         mbind (case p of None \<Rightarrow> mret ()
           | Some pa \<Rightarrow>
             if insn_count c \<noteq> before then
               call (\<lambda>k. ((), trace \<lparr>tr_icount = insn_count c, tr_va = va, tr_pa = pa,
                 tr_next_va = pcr c, tr_satp = sa, tr_mode = md, tr_ilen = ilen\<rparr> k))
             else mret ()) (\<lambda>_. mret stop)))
       (\<lambda>e. onhart (deliver system e)))))))"

primrec run_traced_loop :: "'b bus_ops \<Rightarrow> bool \<Rightarrow>
    (instruction_trace \<Rightarrow> 'k \<Rightarrow> 'k) \<Rightarrow> nat \<Rightarrow> ('k, 'b, stop_reason) runm" where
  "run_traced_loop B system trace 0 = mret Budget"
| "run_traced_loop B system trace (Suc n) =
     mbind (onhart (poll B system)) (\<lambda>_.
     mbind (traced_step B system trace) (\<lambda>r.
     case r of Some stop \<Rightarrow> mret stop | None \<Rightarrow> run_traced_loop B system trace n))"

definition run_traced :: "'b bus_ops \<Rightarrow> u64 \<Rightarrow>
    (instruction_trace \<Rightarrow> 'k \<Rightarrow> 'k) \<Rightarrow> ('k, 'b, stop_reason) runm" where
  "run_traced B budget trace =
     mbind (onhart (getc (\<lambda>c. sys c \<noteq> None))) (\<lambda>system. run_traced_loop B system trace (unat budget))"

section \<open>The integrated scalar driver\<close>

definition commit_scalar_t0_state :: "u64 \<Rightarrow> u64 \<Rightarrow> cpu \<Rightarrow> cpu" where
  "commit_scalar_t0_state pc retired c = c\<lparr>pcr := pc, insn_count := insn_count c + retired\<rparr>"

definition publish_scalar_fetch_capability :: "fetch_capability \<Rightarrow> cpu \<Rightarrow> cpu" where
  "publish_scalar_fetch_capability k c =
     c\<lparr>interpreter_fetch_tag := cap_tag k, interpreter_fetch_map_gen := map_gen c,
       interpreter_fetch_pa_diff := cap_pa_diff k, interpreter_fetch_linear_off := cap_linear_off k\<rparr>"

definition fetch_context_of :: "cpu \<Rightarrow> u64" where
  "fetch_context_of c = (case sys c of None \<Rightarrow> 0 | Some s \<Rightarrow> priv_bits (mode s))"

definition initial_capability :: "cpu \<Rightarrow> fetch_capability" where
  "initial_capability c =
     (if interpreter_fetch_map_gen c = map_gen c
      then \<lparr>cap_tag = interpreter_fetch_tag c, cap_pa_diff = interpreter_fetch_pa_diff c,
        cap_linear_off = interpreter_fetch_linear_off c\<rparr>
      else \<lparr>cap_tag = TLB_INVALID, cap_pa_diff = 0, cap_linear_off = 0\<rparr>)"

text \<open>The locals of the driver that survive an iteration.\<close>

record t0_locals =
  l_pc :: u64
  l_retired :: u64
  l_observed :: bool
  l_context :: u64
  l_fetch :: fetch_capability

definition t0_poll :: "'b bus_ops \<Rightarrow> bool \<Rightarrow> t0_locals \<Rightarrow> ('b, t0_locals) cpum" where
  "t0_poll B system l =
     (if \<not> system then mret l
      else mbind (getc irq_poll_cd) (\<lambda>cd.
        if cd = 0 then
          mbind (modc (\<lambda>c. (commit_scalar_t0_state (l_pc l) (l_retired l) c)
            \<lparr>irq_poll_cd := IRQ_POLL_INTERVAL\<rparr>)) (\<lambda>_.
          mbind (check_interrupts B) (\<lambda>taken.
          mbind (getc id) (\<lambda>c.
          let l = l\<lparr>l_retired := 0\<rparr>;
              l = (if taken then l\<lparr>l_fetch := (l_fetch l)\<lparr>cap_tag := TLB_INVALID\<rparr>,
                l_context := fetch_context_of c\<rparr> else l) in
          mret (l\<lparr>l_pc := pcr c\<rparr>))))
        else mbind (modc (\<lambda>c. c\<lparr>irq_poll_cd := irq_poll_cd c - 1\<rparr>)) (\<lambda>_. mret l)))"

text \<open>\<open>scalar_t0_step\<close> on the capability of the locals, which it returns on every outcome.\<close>

definition t0_try :: "('b, t0_step) t0m \<Rightarrow> t0_locals \<Rightarrow> ('b, (exn + t0_step) \<times> t0_locals) cpum" where
  "t0_try m l = (\<lambda>s. case m (l_fetch l, s) of
      (Inr r, (k, s')) \<Rightarrow> (Inr (Inr r, l\<lparr>l_fetch := k\<rparr>), s')
    | (Inl (Throw e), (k, s')) \<Rightarrow> (Inr (Inl e, l\<lparr>l_fetch := k\<rparr>), s')
    | (Inl Panic, (k, s')) \<Rightarrow> (Inl Panic, s'))"

definition t0_reset :: "t0_locals \<Rightarrow> t0_locals" where
  "t0_reset l = l\<lparr>l_retired := 0, l_fetch := (l_fetch l)\<lparr>cap_tag := TLB_INVALID\<rparr>\<rparr>"

definition t0_resume :: "t0_locals \<Rightarrow> ('b, stop_reason option \<times> t0_locals) cpum" where
  "t0_resume l = mbind (getc id) (\<lambda>c. mret (None, l\<lparr>l_pc := pcr c, l_context := fetch_context_of c\<rparr>))"

definition t0_dispatch :: "'b bus_ops \<Rightarrow> bool \<Rightarrow> t0_locals \<Rightarrow>
    ('b, stop_reason option \<times> t0_locals) cpum" where
  "t0_dispatch B system l =
     mbind (t0_try (scalar_t0_step B (l_pc l) (l_context l)) l) (\<lambda>(r, l).
     case r of
       Inr (Retired next_pc) \<Rightarrow> mret (None, l\<lparr>l_pc := next_pc, l_retired := l_retired l + 1\<rparr>)
     | Inr (Stopped next_pc stop) \<Rightarrow>
         mbind (modc (\<lambda>c. publish_scalar_fetch_capability (l_fetch l)
           (commit_scalar_t0_state next_pc (l_retired l + 1) c))) (\<lambda>_. mret (Some stop, l))
     | Inr Slow \<Rightarrow>
         mbind (modc (commit_scalar_t0_state (l_pc l) (l_retired l))) (\<lambda>_.
         mbind (step_or_trap B system) (\<lambda>r.
         case r of Some stop \<Rightarrow> mret (Some stop, l) | None \<Rightarrow> t0_resume (t0_reset l)))
     | Inl e \<Rightarrow>
         mbind (modc (commit_scalar_t0_state (l_pc l) (l_retired l))) (\<lambda>_.
         if system then mbind (exception_to_trap e) (\<lambda>_. t0_resume (t0_reset l))
         else mret (Some (Trap e), l)))"

definition t0_observe :: "'b bus_ops \<Rightarrow> (u64 \<Rightarrow> u64 \<Rightarrow> u64 \<Rightarrow> u8 \<Rightarrow> 'k \<Rightarrow> 'k) \<Rightarrow> u64 \<Rightarrow> t0_locals \<Rightarrow>
    ('k, 'b, t0_locals) runm" where
  "t0_observe B observe_target previous_pc l =
     (if \<not> l_observed l \<and> \<not> sequential previous_pc (l_pc l) 2 \<and> \<not> sequential previous_pc (l_pc l) 4
      then
        mbind (onhart (modc (commit_scalar_t0_state (l_pc l) (l_retired l)))) (\<lambda>_.
        mbind (observe B observe_target (l_pc l)) (\<lambda>seen.
        mret (l\<lparr>l_retired := 0, l_observed := seen\<rparr>)))
      else mret l)"

definition t0_finish :: "t0_locals \<Rightarrow> ('k, 'b, stop_reason) runm" where
  "t0_finish l = mbind (onhart (modc (\<lambda>c. publish_scalar_fetch_capability (l_fetch l)
     (commit_scalar_t0_state (l_pc l) (l_retired l) c)))) (\<lambda>_. mret Budget)"

primrec t0_loop :: "'b bus_ops \<Rightarrow> bool \<Rightarrow> bool \<Rightarrow> bool \<Rightarrow> (u64 \<Rightarrow> 'k \<Rightarrow> bool \<times> 'k) \<Rightarrow>
    (u64 \<Rightarrow> u64 \<Rightarrow> u64 \<Rightarrow> u8 \<Rightarrow> 'k \<Rightarrow> 'k) \<Rightarrow> nat \<Rightarrow> t0_locals \<Rightarrow> ('k, 'b, stop_reason) runm" where
  "t0_loop B system check_stop observe_on stop_at observe_target 0 l = t0_finish l"
| "t0_loop B system check_stop observe_on stop_at observe_target (Suc n) l =
     mbind (onhart (t0_poll B system l)) (\<lambda>l.
     let previous_pc = l_pc l in
     mbind (onhart (t0_dispatch B system l)) (\<lambda>(r, l).
     case r of Some stop \<Rightarrow> mret stop
     | None \<Rightarrow>
       mbind (if check_stop then call (stop_at (l_pc l)) else mret False) (\<lambda>stop.
       if stop then t0_finish l
       else
         mbind (if observe_on then t0_observe B observe_target previous_pc l else mret l) (\<lambda>l.
         t0_loop B system check_stop observe_on stop_at observe_target n l))))"

definition run_integrated_scalar_t0 :: "'b bus_ops \<Rightarrow> bool \<Rightarrow> bool \<Rightarrow> u64 \<Rightarrow>
    (u64 \<Rightarrow> 'k \<Rightarrow> bool \<times> 'k) \<Rightarrow> (u64 \<Rightarrow> u64 \<Rightarrow> u64 \<Rightarrow> u8 \<Rightarrow> 'k \<Rightarrow> 'k) \<Rightarrow> ('k, 'b, stop_reason) runm" where
  "run_integrated_scalar_t0 B check_stop observe_on budget stop_at observe_target =
     mbind (onhart (getc id)) (\<lambda>c.
     t0_loop B (sys c \<noteq> None) check_stop observe_on stop_at observe_target (unat budget)
       \<lparr>l_pc = pcr c, l_retired = 0, l_observed = False, l_context = fetch_context_of c,
        l_fetch = initial_capability c\<rparr>)"

definition run_integrated_scalar :: "'b bus_ops \<Rightarrow> u64 \<Rightarrow> (unit, 'b, stop_reason) runm" where
  "run_integrated_scalar B budget =
     run_integrated_scalar_t0 B False False budget (\<lambda>_ k. (False, k)) (\<lambda>_ _ _ _ k. k)"

definition run_integrated_scalar_until :: "'b bus_ops \<Rightarrow> u64 \<Rightarrow>
    (u64 \<Rightarrow> 'k \<Rightarrow> bool \<times> 'k) \<Rightarrow> ('k, 'b, stop_reason) runm" where
  "run_integrated_scalar_until B budget stop_at =
     run_integrated_scalar_t0 B True False budget stop_at (\<lambda>_ _ _ _ k. k)"

definition run_integrated_scalar_until_observed :: "'b bus_ops \<Rightarrow> u64 \<Rightarrow>
    (u64 \<Rightarrow> 'k \<Rightarrow> bool \<times> 'k) \<Rightarrow> (u64 \<Rightarrow> u64 \<Rightarrow> u64 \<Rightarrow> u8 \<Rightarrow> 'k \<Rightarrow> 'k) \<Rightarrow> ('k, 'b, stop_reason) runm" where
  "run_integrated_scalar_until_observed B budget stop_at observe_target =
     run_integrated_scalar_t0 B True True budget stop_at observe_target"

section \<open>Generated-code entries\<close>

text \<open>
  \<open>CompiledEntryMap\<close>: a view of the dispatch lines of the JIT, \<open>tags\<close> giving the 64-bit word at
  an index from the base pointer.
\<close>

record compiled_entry_map =
  cem_tags :: "nat \<Rightarrow> u64"
  cem_slot_mask :: u64
  cem_stride_words :: nat
  cem_fold_shift :: nat
  cem_require_nonnegative_index :: bool

definition count_ones :: "'a::len word \<Rightarrow> nat" where
  "count_ones a = length (filter (bit a) [0..<LENGTH('a)])"

definition compiled_entry_slot :: "u64 \<Rightarrow> u64 \<Rightarrow> u64" where
  "compiled_entry_slot pc slot_mask =
     (let fold_shift = count_ones slot_mask + 1 in
      (drop_bit 1 pc XOR drop_bit fold_shift pc) AND slot_mask)"

definition from_strided_pc_tags :: "(nat \<Rightarrow> u64) \<Rightarrow> u64 \<Rightarrow> nat \<Rightarrow> compiled_entry_map" where
  "from_strided_pc_tags tags slots stride_words =
     \<lparr>cem_tags = tags, cem_slot_mask = slots - 1, cem_stride_words = stride_words,
      cem_fold_shift = trailing_zeros slots + 1, cem_require_nonnegative_index = False\<rparr>"

definition from_strided_dispatch_lines :: "(nat \<Rightarrow> u64) \<Rightarrow> u64 \<Rightarrow> nat \<Rightarrow> compiled_entry_map" where
  "from_strided_dispatch_lines tags slots stride_words =
     (from_strided_pc_tags tags slots stride_words)\<lparr>cem_require_nonnegative_index := True\<rparr>"

definition contains :: "compiled_entry_map \<Rightarrow> u64 \<Rightarrow> bool" where
  "contains m pc =
     (let slot = unat ((drop_bit 1 pc XOR drop_bit (cem_fold_shift m) pc) AND cem_slot_mask m);
          line = slot * cem_stride_words m in
      cem_tags m line = pc \<and>
      (\<not> cem_require_nonnegative_index m \<or> sint (ucast (cem_tags m (line + 1)) :: i32) \<ge> 0))"

definition run_integrated_scalar_until_compiled :: "'b bus_ops \<Rightarrow> u64 \<Rightarrow>
    compiled_entry_map \<Rightarrow> (unit, 'b, stop_reason) runm" where
  "run_integrated_scalar_until_compiled B budget compiled =
     run_integrated_scalar_t0 B True False budget (\<lambda>pc k. (contains compiled pc, k)) (\<lambda>_ _ _ _ k. k)"

definition jit_exec_vector :: "'b bus_ops \<Rightarrow> u32 \<Rightarrow> ('b, unit) cpum" where
  "jit_exec_vector B insn =
     (let opc = opcode insn in
      if opc = 0x07 \<and> vector_width_f3 (funct3 insn) then exec_vmem B insn True
      else if opc = 0x27 \<and> vector_width_f3 (funct3 insn) then exec_vmem B insn False
      else if opc = 0x57 \<and> funct3 insn = 7 then exec_vector_config insn
      else if opc = 0x57 then exec_vector_op insn
      else illegal insn)"

end
