(* ===== verification/RvcCorrect.thy ===== *)
theory RvcCorrect
  imports Exec
begin

text \<open>
  The direct RV64C dispatcher against the expander: on every halfword that \<open>expand\<close> maps to
  a 32-bit instruction, \<open>step_compressed\<close> does what the complete decoder does on that
  instruction, and on every halfword \<open>expand\<close> rejects it raises the illegal-instruction
  exception.
\<close>

section \<open>Immediates\<close>

lemma bit_compressed_sext: "0 < b \<Longrightarrow> b < 32 \<Longrightarrow>
    bit (compressed_sext v b) n \<longleftrightarrow> n < 64 \<and> bit v (if n < b then n else b - 1)"
  by (auto simp: compressed_sext_def bit_scast_32_64 bit_sdrop_32 bit_simps)

lemma imm_enc_i_sext:
  assumes "op < 128" "r < 32" "f3 < 8" "s < 32" "0 < b" "b < 12"
  shows "imm_i (enc_i op r f3 s (sext v b)) = compressed_sext v b"
  using assms by (intro bit_word_eqI) (auto simp: bit_imm_enc_i bit_sext bit_compressed_sext)

lemma imm_enc_b_sext:
  assumes "op < 128" "f3 < 8" "s < 32" "t < 32" "0 < b" "b < 12" "\<not> bit v 0"
  shows "imm_b (enc_b op f3 s t (sext v b)) = compressed_sext v b"
proof (intro bit_word_eqI)
  fix n show "bit (imm_b (enc_b op f3 s t (sext v b))) n = bit (compressed_sext v b) n"
    using assms by (cases "n = 0") (auto simp: bit_imm_enc_b bit_sext bit_compressed_sext)
qed

lemma imm_enc_j_sext:
  assumes "op < 128" "r < 32" "0 < b" "b < 20" "\<not> bit v 0"
  shows "imm_j (enc_j op r (sext v b)) = compressed_sext v b"
proof (intro bit_word_eqI)
  fix n show "bit (imm_j (enc_j op r (sext v b))) n = bit (compressed_sext v b) n"
    using assms by (cases "n = 0") (auto simp: bit_imm_enc_j bit_sext bit_compressed_sext)
qed

lemma imm_enc_u_sext:
  assumes "op < 128" "r < 32"
  shows "imm_u (enc_u op r (sext v 6 AND 0xfffff)) = push_bit 12 (compressed_sext v 6)"
proof -
  have "take_bit 20 (drop_bit 12 (enc_u op r (sext v 6 AND 0xfffff))) = take_bit 20 (sext v 6)"
    using assms unfolding enc_u_def by (simp add: field_simps')
  from bit_of_field [OF this]
  have *: "12 \<le> n \<Longrightarrow> n < 32 \<Longrightarrow> bit (enc_u op r (sext v 6 AND 0xfffff)) n = bit (sext v 6) (n - 12)" for n
    using le_Suc_ex [of 12 n] by (auto simp: bit_simps)
  have "bit (enc_u op r (sext v 6 AND 0xfffff)) 31 = bit v 5"
    using * [of 31] by (simp add: bit_sext)
  then show ?thesis
    by (intro bit_word_eqI) (use * in \<open>auto simp: bit_imm_u bit_sext bit_compressed_sext bit_simps\<close>)
qed

lemma creg_less: "f < 8 \<Longrightarrow> creg f < 32"
  by (simp add: creg_def word_less_nat_alt unat_plus_if')

lemma less_2048: "(\<And>n. bit (a :: u32) n \<Longrightarrow> n < 11) \<Longrightarrow> a < 2048"
proof -
  assume b: "\<And>n. bit a n \<Longrightarrow> n < 11"
  have "take_bit 11 a = a" by (rule bit_word_eqI) (auto simp: bit_simps dest: b)
  then show ?thesis using unat_take_bit_less [of 11 a] by (simp add: word_less_nat_alt)
qed

lemma imm_bounds:
  "push_bit 4 (drop_bit 11 c AND 3) OR push_bit 6 (drop_bit 7 c AND 0xf)
     OR push_bit 2 (drop_bit 6 c AND 1) OR push_bit 3 (drop_bit 5 c AND 1) < (2048 :: u32)"
  "push_bit 3 (drop_bit 10 c AND 7) OR push_bit 2 (drop_bit 6 c AND 1)
     OR push_bit 6 (drop_bit 5 c AND 1) < (2048 :: u32)"
  "push_bit 3 (drop_bit 10 c AND 7) OR push_bit 6 (drop_bit 5 c AND 3) < (2048 :: u32)"
  "push_bit 5 (drop_bit 12 c AND 1) OR push_bit 2 (drop_bit 4 c AND 7)
     OR push_bit 6 (drop_bit 2 c AND 3) < (2048 :: u32)"
  "push_bit 5 (drop_bit 12 c AND 1) OR push_bit 3 (drop_bit 5 c AND 3)
     OR push_bit 6 (drop_bit 2 c AND 7) < (2048 :: u32)"
  "push_bit 2 (drop_bit 9 c AND 0xf) OR push_bit 6 (drop_bit 7 c AND 3) < (2048 :: u32)"
  "push_bit 3 (drop_bit 10 c AND 7) OR push_bit 6 (drop_bit 7 c AND 7) < (2048 :: u32)"
  by (rule less_2048; unfold mask_lits; simp only: bit_simps; linarith)+

lemma c_regs [simp]: "creg (x AND 7) < 32" "(x :: u32) AND 0x1f < 32"
  by (simp_all add: creg_less and7_less)

lemma unat_creg: "unat (creg f) = compressed_register f"
  by (simp add: creg_def compressed_register_def)

text \<open>The decoder on the encodings the expander produces.\<close>

lemma x_addi: "r < 32 \<Longrightarrow> s < 32 \<Longrightarrow> exec32 B (enc_i OPIMM r 0 s imm) pc np =
    mbind (getc (\<lambda>h. xreg h (unat s) + imm_i (enc_i OPIMM r 0 s imm))) (fin_wr (unat r) np)"
  by (simp add: exec32_def opcode_defs enc_i_fields op_imm_value_def wr_or_illegal_def Let_def
      fin_wr_def[abs_def])

lemma x_lw: "r < 32 \<Longrightarrow> s < 32 \<Longrightarrow> exec32 B (enc_i LOAD r 2 s imm) pc np =
    mbind (getc (\<lambda>h. xreg h (unat s) + imm_i (enc_i LOAD r 2 s imm))) (\<lambda>a.
    mbind (ld B 4 a) (\<lambda>v. fin_wr (unat r) np (sext32 v)))"
  by (simp add: exec32_def opcode_defs enc_i_fields exec_load_def Let_def fin_wr_def)

lemma x_ld: "r < 32 \<Longrightarrow> s < 32 \<Longrightarrow> exec32 B (enc_i LOAD r 3 s imm) pc np =
    mbind (getc (\<lambda>h. xreg h (unat s) + imm_i (enc_i LOAD r 3 s imm))) (\<lambda>a.
    mbind (ld B 8 a) (fin_wr (unat r) np))"
  by (simp add: exec32_def opcode_defs enc_i_fields exec_load_def Let_def fin_wr_def[abs_def])

lemma x_sw: "s < 32 \<Longrightarrow> t < 32 \<Longrightarrow> exec32 B (enc_s STORE 2 s t imm) pc np =
    mbind (getc id) (\<lambda>h. mbind (st B 4 (xreg h (unat s) + imm_s (enc_s STORE 2 s t imm))
      (xreg h (unat t))) (\<lambda>_. mret (Next np None)))"
  by (simp add: exec32_def opcode_defs enc_s_fields exec_store_def Let_def)

lemma x_sd: "s < 32 \<Longrightarrow> t < 32 \<Longrightarrow> exec32 B (enc_s STORE 3 s t imm) pc np =
    mbind (getc id) (\<lambda>h. mbind (st B 8 (xreg h (unat s) + imm_s (enc_s STORE 3 s t imm))
      (xreg h (unat t))) (\<lambda>_. mret (Next np None)))"
  by (simp add: exec32_def opcode_defs enc_s_fields exec_store_def Let_def)

lemma x_fld: "r < 32 \<Longrightarrow> s < 32 \<Longrightarrow> exec32 B (enc_i LOADFP r 3 s imm) pc np =
    mbind (fp_check (enc_i LOADFP r 3 s imm)) (\<lambda>_. mbind (modc fp_dirty) (\<lambda>_.
    mbind (getc (\<lambda>h. xreg h (unat s) + imm_i (enc_i LOADFP r 3 s imm))) (\<lambda>a.
    mbind (ld B 8 a) (\<lambda>v. mbind (modc (set_f (unat r) v)) (\<lambda>_. mret (Next np None))))))"
  by (simp add: exec32_def opcode_defs enc_i_fields exec_load_fp_def Let_def vector_width_f3_def)

lemma x_fsd: "s < 32 \<Longrightarrow> t < 32 \<Longrightarrow> exec32 B (enc_s STOREFP 3 s t imm) pc np =
    mbind (fp_check (enc_s STOREFP 3 s t imm)) (\<lambda>_.
    mbind (getc id) (\<lambda>h. mbind (st B 8 (xreg h (unat s) + imm_s (enc_s STOREFP 3 s t imm))
      (freg h (unat t))) (\<lambda>_. mret (Next np None))))"
  by (simp add: exec32_def opcode_defs enc_s_fields exec_store_fp_def Let_def vector_width_f3_def)

lemma small_consts [simp]: "OPIMM < 128" "OPIMM32 < 128" "LOAD < 128" "STORE < 128" "LOADFP < 128"
  "STOREFP < 128" "LUI < 128" "JAL < 128" "JALR < 128" "BRANCH < 128" "OP < 128" "OP32 < 128"
  by (simp_all add: opcode_defs)

lemma expand_q0_run: "ucast ci \<noteq> (0 :: u32) \<Longrightarrow> ucast ci AND 3 = (0 :: u32) \<Longrightarrow>
    expand ci = mret (expand_q0 (ucast ci))"
  by (simp add: expand_def Let_def)

lemma expand_q2_run: "ucast ci AND 3 = (2 :: u32) \<Longrightarrow>
    expand ci = mret (expand_q2 (ucast ci))"
  by (auto simp: expand_def Let_def)

lemma c0_agrees:
  assumes "ucast ci \<noteq> (0 :: u32)" "ucast ci AND 3 = (0 :: u32)"
  shows "exec_c0 B ci np = (case expand_q0 (ucast ci) of None \<Rightarrow> illegal (ucast ci)
    | Some insn \<Rightarrow> exec32 B insn pc np)"
  by (simp add: exec_c0_def expand_q0_def Let_def x_addi x_lw x_ld x_sw x_sd x_fld x_fsd
      imm_enc_i_ucast imm_enc_s_ucast imm_bounds unat_creg c_fp_check_def
      expand_q0_run [OF assms] unwrap_def del: push_bit_and)

lemma shamt_less: "push_bit 5 (drop_bit 12 c AND 1) OR (drop_bit 2 c AND 0x1f) < (64 :: u32)"
proof -
  have "take_bit 6 (push_bit 5 (drop_bit 12 c AND 1) OR (drop_bit 2 c AND 0x1f)) =
      push_bit 5 (drop_bit 12 c AND 1) OR (drop_bit 2 c AND 0x1f)"
    unfolding mask_lits by (rule bit_word_eqI) (auto simp: bit_simps)
  then show ?thesis
    using unat_take_bit_less [of 6 "push_bit 5 (drop_bit 12 c AND 1) OR (drop_bit 2 c AND 0x1f)"]
    by (simp add: word_less_nat_alt del: push_bit_and)
qed

lemma unat_ucast_up: "unat (ucast (sh :: u32) :: u64) = unat sh"
  using unsigned_less [of sh, where 'a = nat]
  by (simp add: unsigned_ucast_eq take_bit_nat_eq_self)

lemma take6: "(sh :: u32) < 64 \<Longrightarrow> take_bit 6 sh = sh"
  by (rule take_small [of sh 6]) (simp_all add: word_less_nat_alt)

lemma drop6: "(sh :: u32) < 64 \<Longrightarrow> drop_bit 6 sh = 0"
  using bit_bound [of sh 6] by (intro bit_word_eqI) (auto simp: bit_simps word_less_nat_alt)

lemma sh_or_less: "(sh :: u32) < 64 \<Longrightarrow> sh OR 0x400 < 2048"
proof (rule less_2048)
  fix n assume "sh < 64" "bit (sh OR 0x400) n"
  moreover have "bit (0x400 :: int) n \<longleftrightarrow> n = 10" using bit_exp_iff [where 'a = int, of 10 n] by auto
  ultimately show "n < 11" using bit_bound [of sh 6 n] by (auto simp: bit_or_iff word_less_nat_alt)
qed

lemma sh_less: "(sh :: u32) < 64 \<Longrightarrow> sh < 2048"
  by (simp add: word_less_nat_alt)

lemma unat_shamt: "(ucast (i :: u32) :: u64) AND 0x3f = ucast (take_bit 6 i)"
  by (rule bit_word_eqI) (auto simp: mask_simps bit_simps)

lemma enc_i_top: "r < 32 \<Longrightarrow> s < 32 \<Longrightarrow> f3 < 8 \<Longrightarrow> op < 128 \<Longrightarrow>
    drop_bit 26 (enc_i op r f3 s imm) = take_bit 6 (drop_bit 6 imm)"
proof -
  assume a: "r < 32" "s < 32" "f3 < 8" "op < 128"
  have "drop_bit 26 (enc_i op r f3 s imm) = take_bit 6 (drop_bit 26 (enc_i op r f3 s imm))"
    by (rule bit_word_eqI) (auto simp: bit_simps dest: bit_imp_le_length)
  also have "\<dots> = take_bit 6 (drop_bit 6 (take_bit 12 imm))"
    using a unfolding enc_i_def by (simp add: field_simps')
  also have "\<dots> = take_bit 6 (drop_bit 6 imm)"
    by (rule bit_word_eqI) (auto simp: bit_simps)
  finally show ?thesis .
qed

lemma x_srli: "r < 32 \<Longrightarrow> sh < 64 \<Longrightarrow> exec32 B (enc_i OPIMM r 5 r sh) pc np =
    mbind (getc (\<lambda>h. drop_bit (unat sh) (xreg h (unat r)))) (fin_wr (unat r) np)"
  by (simp add: exec32_def opcode_defs(3) enc_i_fields op_imm_value_def wr_or_illegal_def Let_def
      fin_wr_def[abs_def] imm_enc_i_ucast sh_less sh_or_less unat_shamt take6 drop6 enc_i_top unat_ucast_up)

lemma x_srai: "r < 32 \<Longrightarrow> sh < 64 \<Longrightarrow> exec32 B (enc_i OPIMM r 5 r (sh OR 0x400)) pc np =
    mbind (getc (\<lambda>h. signed_drop_bit (unat sh) (xreg h (unat r)))) (fin_wr (unat r) np)"
  by (simp add: exec32_def opcode_defs(3) enc_i_fields op_imm_value_def wr_or_illegal_def Let_def
      fin_wr_def[abs_def] imm_enc_i_ucast sh_less sh_or_less unat_shamt take6 drop6 enc_i_top unat_ucast_up)

lemma x_slli: "r < 32 \<Longrightarrow> sh < 64 \<Longrightarrow> exec32 B (enc_i OPIMM r 1 r sh) pc np =
    mbind (getc (\<lambda>h. push_bit (unat sh) (xreg h (unat r)))) (fin_wr (unat r) np)"
  by (simp add: exec32_def opcode_defs(3) enc_i_fields op_imm_value_def wr_or_illegal_def Let_def
      fin_wr_def[abs_def] imm_enc_i_ucast sh_less sh_or_less unat_shamt take6 drop6 enc_i_top unat_ucast_up)

lemma x_andi: "r < 32 \<Longrightarrow> exec32 B (enc_i OPIMM r 7 r imm) pc np =
    mbind (getc (\<lambda>h. xreg h (unat r) AND imm_i (enc_i OPIMM r 7 r imm))) (fin_wr (unat r) np)"
  by (simp add: exec32_def opcode_defs enc_i_fields op_imm_value_def wr_or_illegal_def Let_def
      fin_wr_def[abs_def])

lemma x_addiw: "r < 32 \<Longrightarrow> exec32 B (enc_i OPIMM32 r 0 r imm) pc np =
    mbind (getc (\<lambda>h. scast ((ucast (xreg h (unat r)) :: u32) + ucast (imm_i (enc_i OPIMM32 r 0 r imm)))))
      (fin_wr (unat r) np)"
  by (rule ext) (simp add: exec32_def opcode_defs enc_i_fields op_imm32_value_def wr_or_illegal_def Let_def
      fin_wr_def[abs_def])

lemma x_lui: "r < 32 \<Longrightarrow> exec32 B (enc_u LUI r imm) pc np = fin_wr (unat r) np (imm_u (enc_u LUI r imm))"
  by (simp add: exec32_def opcode_defs enc_u_fields wr_or_illegal_def Let_def fin_wr_def)

lemma x_op: "r < 32 \<Longrightarrow> s < 32 \<Longrightarrow> t < 32 \<Longrightarrow> f3 < 8 \<Longrightarrow> f7 < 128 \<Longrightarrow>
    exec32 B (enc_r OP r f3 s t f7) pc np =
    mbind (getc (\<lambda>h. op_value f7 f3 (xreg h (unat s)) (xreg h (unat t))))
      (wr_or_illegal (enc_r OP r f3 s t f7) np)"
  by (simp add: exec32_def opcode_defs enc_r_fields Let_def)

lemma x_op32: "r < 32 \<Longrightarrow> s < 32 \<Longrightarrow> t < 32 \<Longrightarrow> f3 < 8 \<Longrightarrow> f7 < 128 \<Longrightarrow>
    exec32 B (enc_r OP32 r f3 s t f7) pc np =
    mbind (getc (\<lambda>h. op32_value f7 f3 (xreg h (unat s)) (xreg h (unat t))))
      (wr_or_illegal (enc_r OP32 r f3 s t f7) np)"
  by (simp add: exec32_def opcode_defs enc_r_fields Let_def)

lemma x_jal: "r < 32 \<Longrightarrow> exec32 B (enc_j JAL r imm) pc np =
    mbind (modc (wr (unat r) np)) (\<lambda>_. mret (Next (pc + imm_j (enc_j JAL r imm)) None))"
  by (simp add: exec32_def opcode_defs enc_j_fields Let_def exec_jal_def)

lemma x_jalr: "r < 32 \<Longrightarrow> s < 32 \<Longrightarrow> exec32 B (enc_i JALR r 0 s imm) pc np =
    mbind (getc (\<lambda>h. (xreg h (unat s) + imm_i (enc_i JALR r 0 s imm)) AND NOT 1)) (\<lambda>target.
     mbind (modc (wr (unat r) np)) (\<lambda>_. mret (Next target None)))"
  by (simp add: exec32_def opcode_defs enc_i_fields Let_def exec_jalr_def)

lemma x_branch: "s < 32 \<Longrightarrow> t < 32 \<Longrightarrow> f3 < 8 \<Longrightarrow> exec32 B (enc_b BRANCH f3 s t imm) pc np =
    mbind (getc (\<lambda>c. branch_taken f3 (xreg c (unat s)) (xreg c (unat t)))) (\<lambda>tk.
     case tk of None \<Rightarrow> illegal (enc_b BRANCH f3 s t imm)
     | Some taken \<Rightarrow> mret (Next (if taken then pc + imm_b (enc_b BRANCH f3 s t imm) else np) None))"
  unfolding opcode_defs by (simp add: exec32_def enc_b_fields Let_def exec_branch_def)

lemma wr_set_x: "r \<noteq> 0 \<Longrightarrow> wr r v = set_x r v"
  by (rule ext) (simp add: wr_def set_x_def)

lemma c_reg_nonzero: "compressed_register (x AND 7) \<noteq> 0"
  using unat_take_bit_less [of 3 x]
  by (simp add: compressed_register_def mask_simps unat_eq_0 unat_plus_if')

lemma sext_zero: "0 < b \<Longrightarrow> b < 32 \<Longrightarrow> compressed_sext v b = 0 \<longleftrightarrow> sext v b = 0"
proof
  assume b: "0 < b" "b < 32"
  show "sext v b = 0" if "compressed_sext v b = 0"
  proof (rule bit_word_eqI)
    fix n assume "n < LENGTH(32)"
    then show "bit (sext v b) n = bit (0 :: i32) n"
      using that b bit_compressed_sext [of b v n] by (simp add: bit_sext)
  qed
  show "compressed_sext v b = 0" if "sext v b = 0"
  proof (rule bit_word_eqI)
    fix n
    show "bit (compressed_sext v b) n = bit (0 :: i64) n"
      using that b bit_sext [of b v n] bit_sext [of b v "b - 1"] by (auto simp: bit_compressed_sext)
  qed
qed

lemma x_sub: "op_value 0x20 0 a b = Some (a - b)" "op_value 0 4 a b = Some (a XOR b)"
  "op_value 0 6 a b = Some (a OR b)" "op_value 0 7 a b = Some (a AND b)" "op_value 0 0 a b = Some (a + b)"
  "op32_value 0x20 0 a b = Some (scast ((ucast a :: u32) - ucast b))"
  "op32_value 0 0 a b = Some (scast ((ucast a :: u32) + ucast b))"
  by (simp_all add: op_value_def op32_value_def Let_def)

lemma c1_alu_agrees:
  "exec_c1_alu c np zs = (case expand_q1_alu c of None \<Rightarrow> illegal c zs
     | Some insn \<Rightarrow> exec32 B insn pc np zs)"
  by (simp add: exec_c1_alu_def expand_q1_alu_def c_alu_def Let_def x_srli x_srai x_andi x_op x_op32
      x_sub enc_r_fields shamt_less imm_enc_i_sext unat_creg fin_wr_def wr_or_illegal_def wr_set_x c_reg_nonzero
      del: push_bit_and)

lemma c1_agrees:
  assumes "xreg (fst zs) 0 = 0"
  shows "exec_c1 c pc np zs = (case expand_q1 c of None \<Rightarrow> illegal c zs
    | Some insn \<Rightarrow> exec32 B insn pc np zs)"
proof -
  define j where "j = push_bit 11 (drop_bit 12 c AND 1) OR push_bit 4 (drop_bit 11 c AND 1)
      OR push_bit 8 (drop_bit 9 c AND 3) OR push_bit 10 (drop_bit 8 c AND 1)
      OR push_bit 6 (drop_bit 7 c AND 1) OR push_bit 7 (drop_bit 6 c AND 1)
      OR push_bit 1 (drop_bit 3 c AND 7) OR push_bit 5 (drop_bit 2 c AND 1)"
  define b where "b = push_bit 8 (drop_bit 12 c AND 1) OR push_bit 3 (drop_bit 10 c AND 3)
      OR push_bit 6 (drop_bit 5 c AND 3) OR push_bit 1 (drop_bit 3 c AND 3)
      OR push_bit 5 (drop_bit 2 c AND 1)"
  have jb: "\<not> bit j 0" "\<not> bit b 0"
    unfolding j_def b_def by (simp_all only: bit_or_iff bit_push_bit_iff) simp_all
  have r0: "(unat (drop_bit 7 c AND 0x1f) = 0) = (drop_bit 7 c AND 0x1f = 0)"
    "(unat (drop_bit 7 c AND 0x1f) = 2) = (drop_bit 7 c AND 0x1f = 2)"
    by (auto simp: word_unat_eq_iff)
  have br: "branch_taken 0 x 0 = Some (x = 0)" "branch_taken 1 x 0 = Some (x \<noteq> 0)" for x
    by (simp_all add: branch_taken_def)
  show ?thesis
    using assms unfolding exec_c1_def expand_q1_def Let_def j_def [symmetric] b_def [symmetric] r0
    by (simp add: c1_alu_agrees [of c np zs B pc] x_addi x_addiw x_lui x_jal x_branch
        imm_enc_i_sext imm_enc_u_sext imm_enc_j_sext imm_enc_b_sext unat_creg fin_wr_def sext_zero
        br jb wr_def set_x_def del: push_bit_and)
qed

lemma c2_misc_agrees:
  assumes "xreg (fst zs) 0 = 0" "drop_bit 13 c AND 7 = 4"
  shows "exec_c2_misc c np zs = (case expand_q2 c of None \<Rightarrow> illegal c zs
    | Some insn \<Rightarrow> exec32 B insn pc np zs)"
proof -
  have u: "(unat (x AND 0x1f) = 0) = (x AND 0x1f = 0)" for x :: u32
    by (simp add: unat_eq_0)
  have eb: "exec32 B 0x00100073 pc np = exec_ebreak np"
    by (simp add: exec32_def exec_system_def opcode_def Let_def)
  have one: "x AND 1 = (0 :: u32) \<or> x AND 1 = 1" for x
    by (simp add: and_one_eq mod_2_eq_odd)
  show ?thesis
    using assms one [of "drop_bit 12 c"] unfolding exec_c2_misc_def expand_q2_def Let_def u
    by (auto simp: x_jalr x_op x_sub enc_r_fields imm_enc_i_ucast eb exec_ebreak_def
        fin_wr_def wr_or_illegal_def wr_def set_x_def u)
qed

lemma c2_agrees:
  assumes "ucast ci AND 3 = (2 :: u32)" "xreg (fst zs) 0 = 0"
  shows "exec_c2 B ci np zs = (case expand_q2 (ucast ci) of None \<Rightarrow> illegal (ucast ci) zs
    | Some insn \<Rightarrow> exec32 B insn pc np zs)"
proof (cases "drop_bit 13 (ucast ci :: u32) AND 7 = 4")
  case True
  then show ?thesis
    using c2_misc_agrees [OF assms(2) True, of np B pc] by (simp add: exec_c2_def Let_def)
next
  case False
  have u: "(unat (x AND 0x1f) = 0) = (x AND 0x1f = 0)" for x :: u32
    by (simp add: unat_eq_0)
  have "drop_bit 13 (ucast ci :: u32) AND 7 \<in> {0, 1, 2, 3, 5, 6, 7}"
    using False less_8_cases [OF and7_less(1), of "drop_bit 13 (ucast ci :: u32)"] by blast
  then show ?thesis
    using assms(2) False unfolding exec_c2_def expand_q2_def Let_def u
    by (auto simp: x_slli x_lw x_ld x_sw x_sd x_fld x_fsd shamt_less imm_enc_i_ucast
        imm_enc_s_ucast imm_bounds u c_fp_check_def expand_q2_run [OF assms(1)] expand_q2_def unwrap_def
        simp del: push_bit_and)
qed

section \<open>The dispatcher and the expander agree\<close>

lemma exec16_agrees:
  assumes "ucast ci AND 3 \<noteq> (3 :: u32)" and "xreg (fst z) 0 = 0"
    and "expand ci () = (Inr r, ())"
  shows "exec16 B ci pc z = (case r of None \<Rightarrow> illegal (ucast ci) z
    | Some insn \<Rightarrow> exec32 B insn pc (pc + 2) z)"
proof -
  have q: "ucast ci AND 3 = (0 :: u32) \<or> ucast ci AND 3 = (1 :: u32) \<or> ucast ci AND 3 = (2 :: u32)"
    using assms(3) by (auto simp: expand_def Let_def split: if_splits)
  show ?thesis
  proof (cases "ucast ci = (0 :: u32)")
    case True
    with assms(3) show ?thesis by (simp add: exec16_def expand_def Let_def)
  next
    case nz: False
    from q show ?thesis
    proof (elim disjE)
      assume "ucast ci AND 3 = (0 :: u32)"
      with nz assms(3) show ?thesis
        using c0_agrees [of ci B "pc + 2" pc] by (auto simp: exec16_def expand_def Let_def split: option.splits)
    next
      assume "ucast ci AND 3 = (1 :: u32)"
      with nz assms(2,3) show ?thesis
        using c1_agrees [of z "ucast ci" pc "pc + 2" B] by (simp add: exec16_def expand_def Let_def)
    next
      assume "ucast ci AND 3 = (2 :: u32)"
      with nz assms(2,3) show ?thesis
        using c2_agrees [of ci z B "pc + 2" pc] by (simp add: exec16_def expand_def Let_def)
    qed
  qed
qed

text \<open>
  C1: the interpreter's direct RV64C dispatcher is equivalent to expanding the halfword and
  executing the 32-bit instruction with a 2-byte length: same outcome, same hart, same bus,
  on every halfword that is not a 32-bit prefix and every state whose x0 is zero. A halfword
  the expander rejects raises the illegal-instruction exception and changes nothing.
\<close>

theorem step_compressed_expand:
  assumes "ucast ci AND 3 \<noteq> (3 :: u32)" and "xreg (fst z) 0 = 0"
    and "expand ci () = (Inr r, ())"
  shows "step_compressed B ci z = (case r of
      None \<Rightarrow> (Inl (Throw (IllegalInstruction (ucast ci))), z)
    | Some insn \<Rightarrow> mbind (exec32 B insn (pcr (fst z)) (pcr (fst z) + 2)) retire z)"
  using exec16_agrees [OF assms, of B "pcr (fst z)"]
  by (cases r) (simp_all add: step_compressed_def mbind_def illegal_def)

theorem step_compressed_expand_witness:
  "step_compressed flat_bus 0x1101 (cpu_new, flat_new 0 []) =
     mbind (exec32 flat_bus 0xfe010113 0 2) retire (cpu_new, flat_new 0 [])"
proof -
  have "expand 0x1101 () = (Inr (Some 0xfe010113), ())"
    by (simp add: expand_def expand_q1_def Let_def sext_def enc_i_def OPIMM_def)
  then show ?thesis
    using step_compressed_expand [of "0x1101" "(cpu_new, flat_new 0 [])" "Some 0xfe010113" flat_bus]
    by (simp add: cpu_new_def)
qed

end
