(* ===== verification/VectorSafe.thy ===== *)
theory VectorSafe
  imports VectorUnit
begin

text \<open>
  Memory safety of the vector unit. Every access the integer group makes to the register file is
  in range: the legality tests on register groups bound the offset of every element below
  \<open>vl\<close>, and \<open>vl\<close> is at most 128. The contract \<open>vector_host\<close> names what the unit needs of the
  invariant of the hart around it; the operations keep every invariant that meets it and never
  panic.
\<close>

section \<open>Decoded configurations\<close>

definition config_ok :: "vector_config \<Rightarrow> bool" where
  "config_ok config \<longleftrightarrow> (\<exists>raw. config_decode raw = Some config)"

lemma config_cases:
  assumes "config_ok config"
  obtains e s where "-3 \<le> e" "e \<le> 3" "3 \<le> s" "s \<le> 6" "s \<le> 6 + e"
    "sew config = 2 ^ nat s" "lmul_exp config = e" "vlmax config = 2 ^ nat (7 + e - s)"
    "lmul_num config = (if e \<ge> 0 then 2 ^ nat e else 1)" "lmul_den config = (if e \<ge> 0 then 1 else 2 ^ nat (- e))"
proof -
  from assms obtain raw where r: "config_decode raw = Some config" unfolding config_ok_def ..
  define vsew where "vsew = unat (drop_bit 3 raw AND 7)"
  let ?e = "lmul_exp config"
  from r have "-3 \<le> ?e \<and> ?e \<le> 3 \<and> vsew \<le> 3 \<and> 3 + int vsew \<le> 6 + ?e \<and>
     config = \<lparr> sew = 2 ^ nat (3 + int vsew), lmul_num = (if ?e \<ge> 0 then 2 ^ nat ?e else 1),
       lmul_den = (if ?e \<ge> 0 then 1 else 2 ^ nat (- ?e)), lmul_exp = ?e,
       vlmax = 2 ^ nat (7 + ?e - (3 + int vsew)) \<rparr>"
    unfolding config_decode_def Let_def vsew_def [symmetric]
    by (auto split: if_splits option.splits)
  then show thesis by (intro that [of ?e "3 + int vsew"]) (auto elim: ssubst)
qed

lemma int_small_cases: "-3 \<le> e \<Longrightarrow> e \<le> 3 \<Longrightarrow> (e::int) = -3 \<or> e = -2 \<or> e = -1 \<or> e = 0 \<or> e = 1 \<or> e = 2 \<or> e = 3"
  by arith

lemma int_log_cases: "3 \<le> s \<Longrightarrow> s \<le> 6 \<Longrightarrow> (s::int) = 3 \<or> s = 4 \<or> s = 5 \<or> s = 6"
  by arith

lemma config_vlmax: "config_ok config \<Longrightarrow> 0 < vlmax config \<and> vlmax config \<le> 128"
proof (erule config_cases)
  fix e s :: int assume "-3 \<le> e" "e \<le> 3" "3 \<le> s" "s \<le> 6" "s \<le> 6 + e" "vlmax config = 2 ^ nat (7 + e - s)"
  then show ?thesis using power_increasing [of "nat (7 + e - s)" 7 "2::nat"] by simp
qed

lemma config_sew: "config_ok config \<Longrightarrow> eew_ok (sew config)"
  by (erule config_cases, drule int_log_cases) (auto simp: eew_ok_def)

lemma emul_sew: "config_ok config \<Longrightarrow> emul config (sew config) = Some (lmul config)"
  by (erule config_cases, drule int_log_cases, assumption)
    (auto simp: emul_def emul_exponent_def width_log_def lmul_def)

section \<open>Elements inside the register file\<close>

definition fits :: "nat \<Rightarrow> nat \<Rightarrow> nat \<Rightarrow> bool" where
  "fits reg index eew \<longleftrightarrow> eew_ok eew \<and> reg * 16 + (index + 1) * (eew div 8) \<le> 512"

lemma emul_cases:
  assumes "emul config eew = Some r"
  obtains w s where "width_log eew = Some w" "width_log (sew config) = Some s"
    "-3 \<le> lmul_exp config + w - s" "lmul_exp config + w - s \<le> 3"
    "register_span r = (if lmul_exp config + w - s \<ge> 0 then 2 ^ nat (lmul_exp config + w - s) else 1)"
proof -
  from assms obtain w s where *: "width_log eew = Some w" "width_log (sew config) = Some s"
    "-3 \<le> lmul_exp config + w - s" "lmul_exp config + w - s \<le> 3"
    "r = (if lmul_exp config + w - s \<ge> 0 then \<lparr>gr_num = 2 ^ nat (lmul_exp config + w - s), gr_den = 1\<rparr>
      else \<lparr>gr_num = 1, gr_den = 2 ^ nat (- (lmul_exp config + w - s))\<rparr>)"
    unfolding emul_def emul_exponent_def Let_def by (auto split: option.splits if_splits)
  moreover have "1 < (2::nat) ^ nat (- (lmul_exp config + w - s))" if "\<not> lmul_exp config + w - s \<ge> 0"
    using that one_less_power [of "2::nat" "nat (- (lmul_exp config + w - s))"] by simp
  ultimately show thesis by (intro that [OF *(1-4)]) (auto simp: register_span_def)
qed

lemma width_logD: "width_log eew = Some w \<Longrightarrow> eew_ok eew \<and> 3 \<le> w \<and> w \<le> 6 \<and> eew div 8 = 2 ^ nat (w - 3) \<and> eew = 2 ^ nat w"
  by (auto simp: width_log_def eew_ok_def split: if_splits)

lemma group_bytes:
  assumes c: "config_ok config" and r: "emul config eew = Some r"
  shows "vlmax config * (eew div 8) \<le> 16 * register_span r"
proof -
  obtain e s where e: "-3 \<le> e" "e \<le> 3" "3 \<le> s" "s \<le> 6" "s \<le> 6 + e"
    "sew config = 2 ^ nat s" "lmul_exp config = e" "vlmax config = 2 ^ nat (7 + e - s)"
    using config_cases [OF c] by metis
  obtain w s' where w: "width_log eew = Some w" "width_log (sew config) = Some s'" "-3 \<le> e + w - s'" "e + w - s' \<le> 3"
    "register_span r = (if e + w - s' \<ge> 0 then 2 ^ nat (e + w - s') else 1)"
    using emul_cases [OF r] e(7) by metis
  have "nat s' = nat s" using width_logD [OF w(2)] e(6) by (metis power_inject_exp one_less_numeral_iff semiring_norm(76))
  then have s': "s' = s" using width_logD [OF w(2)] e by simp
  note wb = width_logD [OF w(1)]
  have "vlmax config * (eew div 8) = 2 ^ (nat (7 + e - s) + nat (w - 3))"
    unfolding e(8) using wb by (metis power_add)
  also have "nat (7 + e - s) + nat (w - 3) = nat (4 + (e + w - s))" using e wb by linarith
  also have "(2::nat) ^ nat (4 + (e + w - s)) \<le> 16 * register_span r"
  proof (cases "e + w - s \<ge> 0")
    case True
    then have "nat (4 + (e + w - s)) = 4 + nat (e + w - s)" by linarith
    with True show ?thesis by (simp add: w(5) s' power_add)
  next
    case False
    then have "(2::nat) ^ nat (4 + (e + w - s)) \<le> 2 ^ 4" by (intro power_increasing) auto
    with False show ?thesis by (simp add: w(5) s')
  qed
  finally show ?thesis .
qed

lemma fits_group:
  assumes "config_ok config" "emul config eew = Some r" "validate_group base r nf" "f < nf" "i < vlmax config"
  shows "fits (base + f * register_span r) i eew"
proof -
  obtain w where "width_log eew = Some w" using emul_cases [OF assms(2)] by metis
  then have "eew_ok eew" using width_logD by blast
  have "(i + 1) * (eew div 8) \<le> vlmax config * (eew div 8)"
    using assms(5) by (intro mult_le_mono1) simp
  also have "\<dots> \<le> 16 * register_span r" by (rule group_bytes [OF assms(1,2)])
  finally have "(i + 1) * (eew div 8) \<le> 16 * register_span r" .
  moreover have "(f + 1) * register_span r \<le> nf * register_span r"
    using assms(4) by (intro mult_le_mono1) simp
  moreover have "base + register_span r * nf \<le> 32"
    using assms(3) by (auto simp: validate_group_def Let_def VREG_COUNT_def)
  ultimately have "(base + f * register_span r) * 16 + (i + 1) * (eew div 8) \<le> 512"
    by (simp add: algebra_simps)
  with \<open>eew_ok eew\<close> show ?thesis by (simp add: fits_def)
qed

lemma fits_emul: "config_ok config \<Longrightarrow> emul config eew = Some r \<Longrightarrow> validate_group base r 1 \<Longrightarrow> i < vlmax config \<Longrightarrow> fits base i eew"
  using fits_group [of config eew r base 1 0 i] by simp

lemma fits_lmul: "config_ok config \<Longrightarrow> validate_group base (lmul config) 1 \<Longrightarrow> i < vlmax config \<Longrightarrow> fits base i (sew config)"
  by (rule fits_emul [OF _ emul_sew])

lemma fits_first: "reg < 32 \<Longrightarrow> eew_ok eew \<Longrightarrow> fits reg 0 eew"
  by (auto simp: fits_def eew_ok_def)

lemma word_between: "a \<le> x \<Longrightarrow> x \<le> b \<Longrightarrow> unat a \<le> unat x \<and> unat x \<le> unat (b :: u32)"
  by (simp add: word_le_nat_alt)

lemma mask_logic_some: "0x18 \<le> f \<Longrightarrow> f \<le> 0x1f \<Longrightarrow> mask_logic_value f a b \<noteq> None"
  by (drule (1) word_between) (auto simp: mask_logic_value_def word_unat_eq_iff)

lemma multiply_divide_some: "0x20 \<le> f \<Longrightarrow> f \<le> 0x27 \<Longrightarrow> multiply_divide_value f w a b \<noteq> None"
  by (drule (1) word_between) (auto simp: multiply_divide_value_def Let_def word_unat_eq_iff)

lemma reduction_some: "f \<le> 7 \<Longrightarrow> reduction_value f w a b \<noteq> None"
  by (drule word_between [rotated, of _ _ 0]) (auto simp: reduction_value_def word_unat_eq_iff)

lemma widen_madd_some: "0x3c \<le> f \<Longrightarrow> f \<le> 0x3f \<Longrightarrow> widen_madd_product f w a b \<noteq> None"
  by (drule (1) word_between) (auto simp: widen_madd_product_def word_unat_eq_iff)

lemma compare_some: "0x18 \<le> f \<Longrightarrow> f \<le> 0x1f \<Longrightarrow> compare_value f w a b \<noteq> None"
  by (drule (1) word_between) (auto simp: compare_value_def word_unat_eq_iff)

lemma binary_ops:
  assumes "supported_binary f fm" and "\<not> (0x18 \<le> f \<and> f \<le> 0x1f)"
  shows "f = 0x00 \<or> f = 0x02 \<or> f = 0x03 \<or> f = 0x04 \<or> f = 0x05 \<or> f = 0x06 \<or> f = 0x07 \<or> f = 0x09 \<or> f = 0x0a \<or> f = 0x0b
     \<or> f = 0x20 \<or> f = 0x21 \<or> f = 0x22 \<or> f = 0x23 \<or> f = 0x25 \<or> f = 0x28 \<or> f = 0x29"
proof (rule ccontr)
  assume n: "\<not> ?thesis"
  with assms(1) have "f = 0x18 \<or> f = 0x19 \<or> f = 0x1a \<or> f = 0x1b \<or> f = 0x1c \<or> f = 0x1d \<or> f = 0x1e \<or> f = 0x1f"
    unfolding supported_binary_def by argo
  with assms(2) show False by auto
qed

lemma binary_some: "supported_binary f fm \<Longrightarrow> \<not> (0x18 \<le> f \<and> f \<le> 0x1f) \<Longrightarrow> binary_value f w a b \<noteq> None"
  by (drule (1) binary_ops, elim disjE) (simp_all add: binary_value_def Let_def)

lemma binary_formats: "supported_binary f fm \<Longrightarrow> fm = 0 \<or> fm = 3 \<or> fm = 4"
  by (auto simp: supported_binary_def split: if_splits)

lemma put_bytes_vl [simp]: "vs_vl (put_bytes off bs v) = vs_vl v"
  by (simp add: put_bytes_def)

lemma copy_to_register_eq:
  "reg < 32 \<Longrightarrow> i \<le> j \<Longrightarrow> j \<le> 16 \<Longrightarrow> j - i = length bs \<Longrightarrow>
    copy_to_register reg i j bs v = Some (put_bytes (reg * 16 + i) bs v)"
  by (simp add: copy_to_register_def VREG_COUNT_def VLEN_BYTES_def)

lemma length_register_bytes [simp]: "length (register_bytes r v) = 16"
  by (simp add: register_bytes_def VLEN_BYTES_def)

lemma single_group_bytes:
  assumes "config_ok config" "register_span (lmul config) = 1" "n \<le> vlmax config"
  shows "n * (sew config div 8) \<le> 16"
proof -
  have "n * (sew config div 8) \<le> vlmax config * (sew config div 8)" using assms(3) by (rule mult_le_mono1)
  also have "\<dots> \<le> 16 * register_span (lmul config)" by (rule group_bytes [OF assms(1) emul_sew [OF assms(1)]])
  finally show ?thesis using assms(2) by simp
qed

lemma snapshot_some:
  assumes "config_ok config" "validate_group r (lmul config) 1" "i < vlmax config"
  shows "snapshot_read (register_span (lmul config) = 1) v r i (sew config) \<noteq> None"
proof -
  have "fits r i (sew config)" by (rule fits_lmul [OF assms])
  moreover have "(i + 1) * (sew config div 8) \<le> 16" if "register_span (lmul config) = 1"
    using assms that by (intro single_group_bytes) auto
  ultimately show ?thesis
    by (auto simp: snapshot_read_def read_single_register_element_def read_element_def fits_def Let_def
        VREG_COUNT_def VLEN_BYTES_def add.commute)
qed

lemma slide1_some:
  assumes "d < 32" "vl * width \<le> 16" "vl \<noteq> 0" "width \<le> 8"
  shows "\<exists>v'. slide1_bytes up width vl d s scalar v = Some v' \<and> vs_vl v' = vs_vl v"
proof -
  have "width \<le> vl * width" using assms(3) by (cases vl) auto
  with assms show ?thesis
    by (auto simp: slide1_bytes_def byte_range_def copy_to_register_eq Let_def)
qed

lemma slide_some:
  assumes "d < 32" "vl * width \<le> 16" "vlmax config * width \<le> 16" "width = sew config div 8"
  shows "\<exists>v'. slide_bytes funct6 config d s sel vl v = Some v' \<and> vs_vl v' = vs_vl v"
proof -
  have a: "(sel + min vl (vlmax config - sel)) * width \<le> 16" if "vlmax config - sel \<noteq> 0"
  proof -
    have "(sel + min vl (vlmax config - sel)) * width \<le> vlmax config * width"
      using that by (intro mult_le_mono1) simp
    with assms(3) show ?thesis by (rule order_trans [rotated])
  qed
  have b: "(vl - min sel vl) * width \<le> vl * width" "min vl (vlmax config - sel) * width \<le> vl * width"
    "min sel vl * width \<le> vl * width"
    by (simp_all add: mult_le_mono1)
  show ?thesis
    unfolding slide_bytes_def Let_def assms(4) [symmetric]
    using assms(1,2) a b
    by (auto simp: byte_range_def copy_to_register_eq diff_mult_distrib algebra_simps)
qed

lemma bitwise_words_some:
  assumes "src2 + n \<le> 512" "src1 + n \<le> 512" "dst + n \<le> 512"
  shows "\<exists>off v'. bitwise_words f dst src2 src1 n offset v = Some (off, v') \<and> vs_vl v' = vs_vl v"
  using assms
proof (induction f dst src2 src1 n offset v rule: bitwise_words.induct)
  case (1 f dst src2 src1 n offset v)
  show ?case
  proof (cases "offset + 8 \<le> n")
    case True
    with 1 show ?thesis
      by (subst bitwise_words.simps) (auto simp: VREG_COUNT_def VLEN_BYTES_def Let_def)
  qed (subst bitwise_words.simps, simp)
qed

lemma bitwise_tail_some:
  assumes "src2 + n \<le> 512" "src1 + n \<le> 512" "dst + n \<le> 512"
  shows "\<exists>v'. bitwise_tail f dst src2 src1 n offset v = Some v' \<and> vs_vl v' = vs_vl v"
  using assms
proof (induction f dst src2 src1 n offset v rule: bitwise_tail.induct)
  case (1 f dst src2 src1 n offset v)
  show ?case
  proof (cases "offset < n")
    case True
    with 1 show ?thesis
      by (subst bitwise_tail.simps) (auto simp: VREG_COUNT_def VLEN_BYTES_def Let_def)
  qed (subst bitwise_tail.simps, simp)
qed

lemma bitwise_bytes_some:
  assumes "s2 * 16 + n \<le> 512" "s1 * 16 + n \<le> 512" "d * 16 + n \<le> 512"
  shows "\<exists>v'. bitwise_bytes f d s2 s1 n v = Some v' \<and> vs_vl v' = vs_vl v"
proof -
  obtain off v' where w: "bitwise_words f (d * 16) (s2 * 16) (s1 * 16) n 0 v = Some (off, v')" "vs_vl v' = vs_vl v"
    using bitwise_words_some [OF assms] by blast
  with bitwise_tail_some [OF assms, of f off v'] show ?thesis
    by (auto simp: bitwise_bytes_def VLEN_BYTES_def)
qed

lemma group_range:
  assumes c: "config_ok config" and g: "validate_group base (lmul config) 1" and n: "n \<le> vlmax config"
  shows "base * 16 + n * (sew config div 8) \<le> 512"
proof -
  have "n * (sew config div 8) \<le> vlmax config * (sew config div 8)" using n by (rule mult_le_mono1)
  also have "\<dots> \<le> 16 * register_span (lmul config)" by (rule group_bytes [OF c emul_sew [OF c]])
  finally show ?thesis
    using g by (auto simp: validate_group_def Let_def VREG_COUNT_def)
qed

section \<open>The contract with the hart\<close>

text \<open>
  What the vector unit needs of the invariant \<open>I\<close> of its hart: \<open>vl\<close> never exceeds VLEN, and the
  parts of the hart the unit writes do not matter to \<open>I\<close> as long as that bound is kept.
\<close>

locale vector_host =
  fixes I :: "cpu \<times> 'b \<Rightarrow> bool"
  assumes vl_bound: "I (c, b) \<Longrightarrow> vs_vl (vector c) \<le> 128"
    and upd_vector: "I (c, b) \<Longrightarrow> vs_vl v \<le> 128 \<Longrightarrow> I (c\<lparr>vector := v\<rparr>, b)"
    and upd_dirty: "I (c, b) \<Longrightarrow> I (vector_dirty c, b)" "I (c, b) \<Longrightarrow> I (fp_dirty c, b)"
    and upd_regs: "I (c, b) \<Longrightarrow> I (wr r x c, b)" "I (c, b) \<Longrightarrow> I (set_f r x c, b)"
    and upd_fcsr: "I (c, b) \<Longrightarrow> I (c\<lparr>fcsr := f\<rparr>, b)"
begin

lemma keeps_unwrap: "x \<noteq> None \<Longrightarrow> keeps I (unwrap x)"
  by (auto simp: unwrap_def keeps_ret)

lemma keeps_vget: "(\<And>v. f v \<noteq> None) \<Longrightarrow> keeps I (vget f)"
  unfolding vget_def by (rule keeps_atI) (auto simp: keeps_at_def unwrap_def split: option.splits)

lemma keeps_vmod:
  assumes "\<And>v. \<exists>v'. f v = Some v' \<and> vs_vl v' = vs_vl v"
  shows "keeps I (vmod f)"
  unfolding vmod_def vget_def
proof (rule keeps_atI)
  fix s assume s: "I s"
  obtain v' where v: "f (vector (fst s)) = Some v'" "vs_vl v' = vs_vl (vector (fst s))"
    using assms by blast
  moreover have "I ((fst s)\<lparr>vector := v'\<rparr>, snd s)"
    using s vl_bound [of "fst s" "snd s"] v(2) by (intro upd_vector) auto
  ultimately show "keeps_at I (mbind (mbind (getc (\<lambda>c. f (vector c))) unwrap) (\<lambda>v. modc (\<lambda>c. c\<lparr>vector := v\<rparr>))) s"
    by (simp add: mbind_assoc unwrap_def keeps_at_def)
qed

lemma keeps_read: "fits reg index eew \<Longrightarrow> keeps I (vget (read_element reg index eew))"
  by (rule keeps_vget) (auto simp: read_element_def fits_def Let_def VREG_COUNT_def VLEN_BYTES_def)

lemma keeps_write: "fits reg index eew \<Longrightarrow> keeps I (vmod (write_element reg index eew x))"
  by (rule keeps_vmod) (auto simp: write_element_def fits_def put_bytes_def Let_def VREG_COUNT_def VLEN_BYTES_def)

lemma keeps_mask: "index < 128 \<Longrightarrow> keeps I (vget (mask_bit index))"
  by (rule keeps_vget) (auto simp: mask_bit_def VLEN_BYTES_def)

lemma keeps_register_bit: "reg < 32 \<Longrightarrow> index < 128 \<Longrightarrow> keeps I (vget (register_bit reg index))"
  by (rule keeps_vget) (auto simp: register_bit_def VLEN_BYTES_def VREG_COUNT_def)

lemma keeps_write_mask: "reg < 32 \<Longrightarrow> index < 128 \<Longrightarrow> keeps I (write_mask_element reg index x)"
  unfolding write_mask_element_def
  by (rule keeps_vmod) (auto simp: set_register_bit_def put_bytes_def Let_def VLEN_BYTES_def VREG_COUNT_def)

lemma keeps_set_vstart: "keeps I (set_vstart i)"
  unfolding set_vstart_def by (rule keeps_modc) (auto intro!: upd_vector dest: vl_bound)

lemma keeps_or_vxsat: "keeps I (or_vxsat x)"
  unfolding or_vxsat_def by (rule keeps_modc) (auto intro!: upd_vector dest: vl_bound)

lemma keeps_or_fcsr: "keeps I (or_fcsr x)"
  unfolding or_fcsr_def by (rule keeps_modc) (rule upd_fcsr)

lemma keeps_dirty: "keeps I (modc vector_dirty)" "keeps I (modc fp_dirty)" "keeps I (modc (wr r x))"
    "keeps I (modc (write_scalar_float_bits r w y))"
  unfolding write_scalar_float_bits_def by (auto intro!: keeps_modc upd_dirty upd_regs)

lemma keeps_check: "keeps I (vector_check insn)" "keeps I (fp_check insn)" "keeps I (dynamic_rm insn)"
  unfolding vector_check_def fp_check_def dynamic_rm_def by (intro keeps_intros)+

lemma keeps_elements:
  assumes "vl \<le> 128" and "\<And>i acc. i < vl \<Longrightarrow> keeps I (body i acc)"
  shows "keeps I (elements masked start vl acc body)"
  unfolding elements_def using assms by (auto intro!: keeps_for_in keeps_intros keeps_mask)

end

lemma vl_of_le: "config_ok config \<Longrightarrow> vl_of config c \<le> vlmax config"
proof -
  assume c: "config_ok config"
  then have "unat (of_nat (vlmax config) :: u64) = vlmax config" using config_vlmax [OF c] by simp
  moreover have "unat (min (vs_vl (vector c)) (of_nat (vlmax config))) \<le> unat (of_nat (vlmax config) :: u64)"
    by (simp add: word_le_nat_alt [symmetric])
  ultimately show ?thesis by (simp add: vl_of_def)
qed

lemma vl_less: "i < vl_of config c \<Longrightarrow> config_ok config \<Longrightarrow> i < vlmax config \<and> i < 128"
  using vl_of_le [of config c] config_vlmax [of config] by auto

lemma vl_Suc: "i < vl_of config c \<Longrightarrow> Suc i \<noteq> vl_of config c \<Longrightarrow> config_ok config \<Longrightarrow> Suc i < vlmax config"
  using vl_of_le [of config c] by linarith

context vector_host
begin

lemma keeps_elements_vl:
  assumes "config_ok config" and "\<And>i acc. i < vl_of config c \<Longrightarrow> i < vlmax config \<Longrightarrow> i < 128 \<Longrightarrow> keeps I (body i acc)"
  shows "keeps I (elements masked start (vl_of config c) acc body)"
  using vl_of_le [OF assms(1), of c] config_vlmax [OF assms(1)] by (auto intro!: keeps_elements assms(2))

lemma keeps_vector_loop:
  assumes "config_ok config" and "\<And>i acc. i < vlmax config \<Longrightarrow> i < 128 \<Longrightarrow> keeps I (body i acc)"
  shows "keeps I (vector_loop masked config acc body)"
  unfolding vector_loop_def
  by (rule keeps_atI) (auto intro!: keeps_atD [of I] keeps_intros keeps_dirty upd_dirty keeps_elements_vl assms keeps_set_vstart)

lemma keeps_saturating_loop:
  assumes "config_ok config" and "\<And>i acc. i < vlmax config \<Longrightarrow> i < 128 \<Longrightarrow> keeps I (body i acc)"
  shows "keeps I (saturating_loop masked config body)"
  unfolding saturating_loop_def
  by (rule keeps_atI) (auto intro!: keeps_atD [of I] keeps_intros keeps_dirty upd_dirty keeps_elements_vl assms keeps_set_vstart keeps_or_vxsat)

lemma keeps_float_loop:
  assumes "config_ok config" and "\<And>i acc. i < vlmax config \<Longrightarrow> i < 128 \<Longrightarrow> keeps I (body i acc)"
  shows "keeps I (float_loop masked config body)"
  unfolding float_loop_def
  by (rule keeps_atI) (auto intro!: keeps_atD [of I] keeps_intros keeps_dirty upd_dirty keeps_elements_vl assms keeps_set_vstart keeps_or_fcsr)

lemmas unit_intros = keeps_bind keeps_if keeps_ret keeps_throw keeps_ok_or keeps_getc keeps_case_option keeps_case_prod
  keeps_illegal keeps_check keeps_dirty keeps_set_vstart keeps_or_vxsat keeps_or_fcsr
  keeps_vector_loop keeps_saturating_loop keeps_float_loop keeps_elements_vl

lemma keeps_integer_groups: "keeps I (integer_groups insn config a b d)"
  unfolding integer_groups_def Let_def by (intro keeps_if keeps_illegal keeps_ret)

lemma keeps_extension: "config_ok config \<Longrightarrow> keeps I (exec_vector_extension insn config)"
  unfolding exec_vector_extension_def Let_def
  by (intro unit_intros keeps_read keeps_write) (auto intro: fits_emul fits_lmul)

lemma keeps_narrow_shift: "config_ok config \<Longrightarrow> keeps I (exec_vector_narrow_shift insn config ar)"
  unfolding exec_vector_narrow_shift_def Let_def
  by (intro unit_intros keeps_read keeps_write) (auto intro: fits_emul fits_lmul)

lemma keeps_rhs: "fits (rs1 insn) index w \<or> \<not> v \<Longrightarrow> keeps I (rhs_operand v insn index w)"
  unfolding rhs_operand_def by (auto intro!: keeps_bind keeps_read keeps_getc keeps_ret)

lemma keeps_gather_ei16: "config_ok config \<Longrightarrow> keeps I (exec_vector_gather_ei16 insn config)"
  unfolding exec_vector_gather_ei16_def Let_def
  by (intro unit_intros keeps_read keeps_write) (auto intro: fits_emul fits_lmul)

lemma keeps_mask_logic: "config_ok config \<Longrightarrow> 0x18 \<le> funct6 \<Longrightarrow> funct6 \<le> 0x1f \<Longrightarrow> keeps I (exec_vector_mask_logic insn config funct6)"
  unfolding exec_vector_mask_logic_def Let_def
  by (intro unit_intros keeps_register_bit keeps_write_mask keeps_unwrap mask_logic_some) auto

lemma keeps_mask_query: "config_ok config \<Longrightarrow> keeps I (exec_vector_mask_query insn config)"
  unfolding exec_vector_mask_query_def Let_def
  by (intro unit_intros keeps_register_bit) auto

lemma keeps_mask_prefix: "config_ok config \<Longrightarrow> keeps I (exec_vector_mask_prefix insn config)"
  unfolding exec_vector_mask_prefix_def Let_def
  by (intro unit_intros keeps_register_bit keeps_write_mask) auto

lemma keeps_iota: "config_ok config \<Longrightarrow> keeps I (exec_vector_iota insn config)"
  unfolding exec_vector_iota_def Let_def
  by (intro unit_intros keeps_register_bit keeps_write) (auto intro: fits_lmul)

lemma keeps_groups:
  assumes "(\<not> a \<Longrightarrow> validate_group (rd insn) (lmul config) 1) \<Longrightarrow> (b \<Longrightarrow> validate_group (rs2 insn) (lmul config) 1) \<Longrightarrow>
    (d \<Longrightarrow> validate_group (rs1 insn) (lmul config) 1) \<Longrightarrow> keeps I (f ())"
  shows "keeps I (mbind (integer_groups insn config a b d) f)"
  using assms unfolding integer_groups_def Let_def by (auto simp: illegal_def keeps_throw split: if_splits)

lemma keeps_multiply_divide: "config_ok config \<Longrightarrow> 0x20 \<le> funct6 \<Longrightarrow> funct6 \<le> 0x27 \<Longrightarrow> keeps I (exec_vector_multiply_divide insn config funct6 v)"
  unfolding exec_vector_multiply_divide_def
  by (intro keeps_groups unit_intros keeps_read keeps_rhs keeps_write keeps_unwrap multiply_divide_some) (auto intro: fits_lmul)

lemma keeps_madd: "config_ok config \<Longrightarrow> keeps I (exec_vector_integer_madd insn config funct6)"
  unfolding exec_vector_integer_madd_def Let_def
  by (intro keeps_groups keeps_if unit_intros keeps_read keeps_rhs keeps_write keeps_unwrap)
    (auto simp: integer_madd_value_def Let_def intro: fits_lmul)

lemma keeps_average: "config_ok config \<Longrightarrow> keeps I (exec_vector_average insn config funct6)"
  unfolding exec_vector_average_def Let_def
  by (intro keeps_groups unit_intros keeps_read keeps_rhs keeps_write) (auto intro: fits_lmul)

lemma keeps_shift_operand:
  assumes "funct3 insn = 0 \<Longrightarrow> fits (rs1 insn) index eew" "funct3 insn = 0 \<or> funct3 insn = 3 \<or> funct3 insn = 4"
  shows "keeps I (shift_operand insn index eew w)"
  unfolding shift_operand_def using assms
  by (intro keeps_bind keeps_ret keeps_if keeps_read keeps_getc) auto

lemma keeps_scaling_shift: "config_ok config \<Longrightarrow> keeps I (exec_vector_scaling_shift insn config ar)"
  unfolding exec_vector_scaling_shift_def Let_def
  by (intro keeps_groups unit_intros keeps_read keeps_shift_operand keeps_write) (auto intro: fits_lmul)

lemma keeps_fractional: "config_ok config \<Longrightarrow> keeps I (exec_vector_fractional_multiply insn config)"
  unfolding exec_vector_fractional_multiply_def Let_def
  by (intro keeps_groups unit_intros keeps_read keeps_rhs keeps_write) (auto intro: fits_lmul)

lemma keeps_clip: "config_ok config \<Longrightarrow> keeps I (exec_vector_clip insn config is_signed)"
  unfolding exec_vector_clip_def Let_def
  by (intro unit_intros keeps_read keeps_shift_operand keeps_write) (auto intro: fits_lmul fits_emul)

lemma keeps_widen_add_sub: "config_ok config \<Longrightarrow> keeps I (exec_vector_widen_add_sub insn config funct6)"
  unfolding exec_vector_widen_add_sub_def widen_add_sub_legal_def Let_def
  by (intro unit_intros keeps_read keeps_rhs keeps_write) (auto intro: fits_lmul fits_emul split: if_splits)

lemma keeps_widen_multiply: "config_ok config \<Longrightarrow> keeps I (exec_vector_widen_multiply insn config funct6)"
  unfolding exec_vector_widen_multiply_def widen_product_legal_def Let_def
  by (intro unit_intros keeps_read keeps_rhs keeps_write keeps_unwrap) (auto simp: widen_multiply_value_def intro: fits_lmul fits_emul)

lemma keeps_widen_madd: "config_ok config \<Longrightarrow> keeps I (exec_vector_widen_madd insn config funct6)"
  unfolding exec_vector_widen_madd_def widen_product_legal_def Let_def
  by (intro unit_intros keeps_read keeps_rhs keeps_write keeps_unwrap widen_madd_some) (auto intro: fits_lmul fits_emul)

lemma keeps_reduction: "config_ok config \<Longrightarrow> funct6 \<le> 7 \<Longrightarrow> keeps I (exec_vector_reduction insn config funct6)"
  unfolding exec_vector_reduction_def Let_def
  by (intro unit_intros keeps_read keeps_write keeps_unwrap reduction_some) (auto intro: fits_lmul fits_first config_sew)

lemma keeps_carry: "config_ok config \<Longrightarrow> keeps I (exec_vector_carry insn config funct6)"
  unfolding exec_vector_carry_def carry_legal_def Let_def
  by (intro unit_intros keeps_read keeps_write keeps_mask keeps_write_mask) (auto intro: fits_lmul)

lemma keeps_widen_reduction: "config_ok config \<Longrightarrow> keeps I (exec_vector_widen_reduction insn config is_signed)"
proof -
  assume c: "config_ok config"
  then have "\<not> sew config * 2 > 64 \<Longrightarrow> eew_ok (sew config * 2)"
    using config_sew [OF c] by (auto simp: eew_ok_def)
  with c show ?thesis
    unfolding exec_vector_widen_reduction_def Let_def
    by (intro unit_intros keeps_read keeps_write) (auto intro: fits_lmul fits_first)
qed

lemma keeps_for_count:
  assumes "\<And>i k. i < n \<Longrightarrow> k \<le> i \<Longrightarrow> hoare I (body i k) (\<lambda>k' s. I s \<and> k' \<le> Suc i) (\<lambda>_. I)"
  shows "keeps I (for_in [0..<n] (0 :: nat) body)"
proof -
  have "keeps I (for_in [m..<n] k body)" if "k \<le> m" for m k
    using that
  proof (induction "n - m" arbitrary: m k)
    case 0
    then have "[m..<n] = []" by simp
    then show ?case by (simp only: for_in.simps keeps_ret)
  next
    case (Suc d)
    then have m: "m < n" by simp
    have "hoare I (mbind (body m k) (\<lambda>acc. for_in [Suc m..<n] acc body)) (\<lambda>_. I) (\<lambda>_. I)"
    proof (rule hoare_bind [OF assms [OF m Suc.prems]])
      fix a
      show "hoare (\<lambda>s. I s \<and> a \<le> Suc m) (for_in [Suc m..<n] a body) (\<lambda>_. I) (\<lambda>_. I)"
        using Suc.hyps(1) [of "Suc m" a] Suc.hyps(2) unfolding keeps_def hoare_def by auto
    qed
    then show ?case using m by (simp add: keeps_def upt_conv_Cons)
  qed
  then show ?thesis by simp
qed

lemma hoare_keeps: "keeps I m \<Longrightarrow> (\<And>a. hoare I (f a) Q (\<lambda>_. I)) \<Longrightarrow> hoare I (mbind m f) Q (\<lambda>_. I)"
  unfolding keeps_def by (rule hoare_bind)

lemma hoare_ret: "(\<And>s. I s \<Longrightarrow> Q a s) \<Longrightarrow> hoare I (mret a) Q E"
  by (simp add: hoare_def)

lemma keeps_compress: "config_ok config \<Longrightarrow> keeps I (exec_vector_compress insn config)"
  unfolding exec_vector_compress_def Let_def
  by (intro unit_intros keeps_for_count hoare_keeps hoare_if hoare_ret keeps_register_bit keeps_read keeps_write)
    (auto intro!: fits_lmul dest!: vl_less)

lemma keeps_whole_move: "config_ok config \<Longrightarrow> keeps I (exec_vector_whole_move insn config)"
  unfolding exec_vector_whole_move_def Let_def
  by (intro unit_intros keeps_for_in keeps_vmod)
    (auto simp: set_flat_byte_def VLEN_BYTES_def VREG_COUNT_def)

lemma keeps_slide1:
  assumes c: "config_ok config"
  shows "keeps I (exec_vector_slide1 insn config up)"
proof -
  have w: "sew config div 8 \<le> 8" using config_sew [OF c] by (auto simp: eew_ok_def)
  have b: "vl_of config x * (sew config div 8) \<le> 16" if "register_span (lmul config) = 1" for x
    using c that vl_of_le [OF c] by (rule single_group_bytes)
  show ?thesis
    unfolding exec_vector_slide1_def Let_def
    using b w
    by (intro unit_intros c keeps_vmod slide1_some keeps_unwrap snapshot_some keeps_write)
      (auto intro!: fits_lmul c intro: vl_Suc)
qed

lemma keeps_slide_element:
  assumes c: "config_ok config" and i: "i < vlmax config" and l: "slide_legal insn config funct6 format"
    and f: "funct6 = 0x0c \<or> funct6 = 0x0e \<or> funct6 = 0x0f"
  shows "keeps I (slide_element insn config funct6 format scalar v i)"
proof -
  have g: "validate_group (rd insn) (lmul config) 1" "validate_group (rs2 insn) (lmul config) 1"
    "funct6 = 0x0c \<and> format = 0 \<Longrightarrow> validate_group (rs1 insn) (lmul config) 1"
    using l unfolding slide_legal_def Let_def by auto
  show ?thesis
    unfolding slide_element_def Let_def
    by (intro unit_intros c i g keeps_unwrap snapshot_some keeps_write fits_lmul)
      (use f in \<open>auto simp: slide_source_def\<close>)
qed

lemma keeps_slide_or_gather:
  assumes c: "config_ok config" and f: "funct6 = 0x0c \<or> funct6 = 0x0e \<or> funct6 = 0x0f"
  shows "keeps I (exec_vector_slide_or_gather insn config funct6 format)"
proof -
  have b: "vl_of config x * (sew config div 8) \<le> 16" "vlmax config * (sew config div 8) \<le> 16"
    if "register_span (lmul config) = 1" for x
    using single_group_bytes [OF c that] vl_of_le [OF c] by auto
  show ?thesis
    unfolding exec_vector_slide_or_gather_def Let_def
    by (intro unit_intros c f keeps_vmod slide_some keeps_slide_element) (use b f in auto)
qed

lemma keeps_binary_element:
  assumes c: "config_ok config" and i: "i < vlmax config" "i < 128"
    and s: "supported_binary funct6 format \<or> mm" "mm = (funct6 = 0x17 \<and> (format = 0 \<or> format = 3 \<or> format = 4))"
    and g: "\<not> (0x18 \<le> funct6 \<and> funct6 \<le> 0x1f) \<Longrightarrow> validate_group (rd insn) (lmul config) 1"
     "\<not> mm \<or> \<not> vm_bit insn \<Longrightarrow> validate_group (rs2 insn) (lmul config) 1"
     "format = 0 \<Longrightarrow> validate_group (rs1 insn) (lmul config) 1"
  shows "keeps I (binary_element insn config funct6 format i sat)"
proof -
  have "format = 0 \<or> format = 3 \<or> format = 4" using s binary_formats by blast
  then show ?thesis
    unfolding binary_element_def Let_def s(2) [symmetric]
    by (intro unit_intros keeps_read keeps_mask keeps_write_mask keeps_write keeps_unwrap fits_lmul c i g compare_some binary_some)
      (use s(1) in auto)
qed

lemma keeps_getc_bind: "(\<And>c. keeps I (f (g c))) \<Longrightarrow> keeps I (mbind (getc g) f)"
  by (rule keeps_atI) (auto intro: keeps_atD)

lemma keeps_range:
  "(\<And>c. keeps I (f (vstart_of c) (vl_of config c))) \<Longrightarrow>
    keeps I (mbind (getc (\<lambda>c. (vstart_of c, vl_of config c))) (\<lambda>(start, vl). f start vl))"
  by (rule keeps_getc_bind) simp

lemma keeps_integer_binary:
  assumes c: "config_ok config"
  shows "keeps I (exec_vector_integer_binary insn config funct6 format)"
proof -
  have n: "9 \<le> funct6 \<and> funct6 \<le> 11 \<Longrightarrow> \<not> (0x18 \<le> funct6 \<and> funct6 \<le> 0x1f) \<and> funct6 \<noteq> 0x17" for funct6 :: u32
    by (auto simp: word_le_nat_alt)
  show ?thesis
    unfolding exec_vector_integer_binary_def Let_def
    by (intro keeps_if keeps_illegal keeps_groups keeps_range keeps_bind keeps_dirty keeps_set_vstart keeps_ret
        keeps_or_vxsat keeps_elements_vl keeps_vmod bitwise_bytes_some group_range c vl_of_le keeps_binary_element [OF c _ _ _ refl])
      (use n in auto)
qed

lemma keeps_vid: "config_ok config \<Longrightarrow> keeps I (exec_vector_vid insn config)"
  unfolding exec_vector_vid_def
  by (intro keeps_groups unit_intros keeps_write) (auto intro: fits_lmul)

end

end
