(* ===== verification/VectorSafeFloat.thy ===== *)
theory VectorSafeFloat
  imports VectorSafe
begin

text \<open>
  The decoder of the integer group and the floating-point group of the vector unit keep every
  invariant that meets the contract \<open>vector_host\<close>, and the reciprocal estimates never miss
  their tables.
\<close>

section \<open>The integer decoder and the conversions\<close>

context vector_host
begin

lemma keeps_arm: "(c \<Longrightarrow> keeps I m) \<Longrightarrow> keeps I n \<Longrightarrow> keeps I (if c then m else n)"
  by simp

lemma keeps_vector_integer:
  assumes c: "config_ok config"
  shows "keeps I (exec_vector_integer insn config)"
  unfolding exec_vector_integer_def Let_def
  by (intro keeps_arm keeps_bind keeps_getc keeps_ret keeps_illegal keeps_dirty keeps_set_vstart keeps_read keeps_write
      keeps_whole_move keeps_integer_binary keeps_slide1 keeps_gather_ei16 keeps_slide_or_gather keeps_extension
      keeps_vid keeps_mask_query keeps_mask_prefix keeps_iota keeps_compress keeps_mask_logic keeps_reduction
      keeps_widen_reduction keeps_carry keeps_multiply_divide keeps_widen_add_sub keeps_widen_multiply
      keeps_widen_madd keeps_madd keeps_average keeps_fractional keeps_scaling_shift keeps_narrow_shift keeps_clip
      fits_first config_sew reg_less c) auto

lemma keeps_float_rhs: "scalar \<noteq> None \<or> fits reg index w \<Longrightarrow> keeps I (float_rhs scalar reg index w)"
  unfolding float_rhs_def by (auto split: option.splits intro: keeps_ret keeps_read)

lemma keeps_float_convert: "config_ok config \<Longrightarrow> keeps I (exec_vector_float_convert insn config selector)"
  unfolding exec_vector_float_convert_def Let_def
  by (intro unit_intros keeps_read keeps_write) (auto intro: fits_emul)

lemma keeps_float_widen_reduction: "config_ok config \<Longrightarrow> keeps I (exec_vector_float_widen_reduction insn config)"
  unfolding exec_vector_float_widen_reduction_def Let_def
  by (intro unit_intros keeps_read keeps_write) (auto dest: fits_lmul intro: fits_first simp: eew_ok_def)

lemma keeps_float_merge: "config_ok config \<Longrightarrow> keeps I (float_merge insn config)"
  unfolding float_merge_def Let_def
  by (intro unit_intros keeps_mask keeps_read keeps_write) (auto intro: fits_lmul)
end

section \<open>Floating-point elements\<close>

lemma float_widen_binary_legalD:
  assumes "float_widen_binary_legal insn config funct6 r"
  shows "validate_group (rd insn) r 1" "funct6 = 0x34 \<or> funct6 = 0x36 \<Longrightarrow> validate_group (rs2 insn) r 1"
    "\<not> (funct6 = 0x34 \<or> funct6 = 0x36) \<Longrightarrow> validate_group (rs2 insn) (lmul config) 1"
    "funct3 insn = 1 \<Longrightarrow> validate_group (rs1 insn) (lmul config) 1"
  using assms unfolding float_widen_binary_legal_def Let_def by auto

lemma float_widen_fma_legalD:
  assumes "float_widen_fma_legal insn config r"
  shows "validate_group (rd insn) r 1" "validate_group (rs2 insn) (lmul config) 1"
    "funct3 insn = 1 \<Longrightarrow> validate_group (rs1 insn) (lmul config) 1"
  using assms unfolding float_widen_fma_legal_def Let_def by auto

lemma float_elementwise_legalD:
  assumes "float_elementwise_legal insn config funct6"
  shows "\<not> float_comparison funct6 \<Longrightarrow> validate_group (rd insn) (lmul config) 1" "validate_group (rs2 insn) (lmul config) 1"
    "funct3 insn \<noteq> 5 \<Longrightarrow> validate_group (rs1 insn) (lmul config) 1" "funct3 insn = 1 \<or> funct3 insn = 5"
  using assms unfolding float_elementwise_legal_def Let_def by (auto split: if_splits)

lemma fits_sew: "config_ok config \<Longrightarrow> sew config = w \<Longrightarrow> validate_group base (lmul config) 1 \<Longrightarrow> i < vlmax config \<Longrightarrow> fits base i w"
  using fits_lmul by blast

lemma fp_reduction_some: "w = 32 \<or> w = 64 \<Longrightarrow> f = 0 \<or> f = 4 \<or> f = 6 \<Longrightarrow> vector_fp_binary w f a b rm fl \<noteq> None"
  by (elim disjE) (simp_all add: vector_fp_binary_def fp_binary_def del: not_None_eq)

lemma read_some: "fits r i w \<Longrightarrow> read_element r i w v \<noteq> None"
  by (auto simp: read_element_def fits_def Let_def VREG_COUNT_def VLEN_BYTES_def)

lemma mask_some: "i < 128 \<Longrightarrow> mask_bit i v \<noteq> None"
  by (auto simp: mask_bit_def VLEN_BYTES_def)

context vector_host
begin

lemma keeps_float_widen_binary: "config_ok config \<Longrightarrow> keeps I (exec_vector_float_widen_binary insn config funct6)"
  unfolding exec_vector_float_widen_binary_def Let_def
  by (intro keeps_getc_bind unit_intros keeps_read keeps_write keeps_unwrap keeps_float_rhs)
    (auto simp: float_widen_value_def intro: fits_emul fits_sew float_widen_binary_legalD)

lemma keeps_float_widen_fma: "config_ok config \<Longrightarrow> keeps I (exec_vector_float_widen_fma insn config funct6)"
  unfolding exec_vector_float_widen_fma_def Let_def
  by (intro keeps_getc_bind unit_intros keeps_read keeps_write keeps_unwrap keeps_float_rhs)
    (auto intro: fits_emul fits_sew float_widen_fma_legalD)

lemma keeps_float_elementwise: "config_ok config \<Longrightarrow> keeps I (float_elementwise insn config funct6)"
  unfolding float_elementwise_def Let_def
  by (intro keeps_getc_bind unit_intros keeps_read keeps_write keeps_write_mask keeps_float_rhs)
    (auto dest: float_elementwise_legalD intro: fits_lmul)

lemma keeps_float_slide1:
  assumes c: "config_ok config"
  shows "keeps I (float_slide1 insn config funct6)"
  unfolding float_slide1_def Let_def
  by (intro unit_intros keeps_for_in keeps_unwrap mask_some read_some keeps_write fits_lmul c)
    (auto dest: vl_less [OF _ c] intro: vl_Suc c)

lemma keeps_float_reduction: "config_ok config \<Longrightarrow> sew config = 32 \<or> sew config = 64 \<Longrightarrow> keeps I (float_reduction insn config funct6)"
  unfolding float_reduction_def Let_def
  by (intro unit_intros keeps_unwrap keeps_read keeps_write fp_reduction_some)
    (auto intro: fits_lmul fits_first config_sew)

end

section \<open>Reciprocal estimates\<close>

lemma drop_bit_zero: "drop_bit k (x :: u64) = 0 \<longleftrightarrow> unat x < 2 ^ k"
proof -
  have "unat (drop_bit k x) = unat x div 2 ^ k" by (rule trans [OF unat_drop_bit_eq drop_bit_eq_div])
  then show ?thesis by (auto simp: word_unat_eq_iff div_eq_0_iff simp del: unat_eq_zero)
qed

lemma normalize_fraction_ends:
  assumes "0 < n" "n < 64" "2 ^ (n - 1) \<le> unat fraction * 2 ^ k"
  shows "\<exists>e f. normalize_fraction n exponent fraction = Some (e, f)"
  using assms(3)
proof (induction k arbitrary: exponent fraction)
  case 0
  then have "drop_bit (n - 1) fraction \<noteq> 0"
    by (simp add: drop_bit_zero)
  then show ?case by (subst normalize_fraction.simps) simp
next
  case (Suc k)
  show ?case
  proof (cases "drop_bit (n - 1) fraction = 0")
    case True
    then have "unat fraction < 2 ^ (n - 1)"
      by (simp only: drop_bit_zero)
    moreover have "(2::nat) ^ (n - 1) \<le> 2 ^ 62" using assms(2) by (intro power_increasing) auto
    ultimately have "unat (push_bit 1 fraction) = 2 * unat fraction"
      by (simp add: push_bit_eq_mult unat_mult_lem [THEN iffD1])
    with Suc.prems have "2 ^ (n - 1) \<le> unat (push_bit 1 fraction) * 2 ^ k" by simp
    from Suc.IH [OF this, of "exponent - 1"] True show ?thesis
      by (subst normalize_fraction.simps) simp
  next
    case False
    then show ?thesis by (subst normalize_fraction.simps) simp
  qed
qed

lemma normalize_fraction_some:
  assumes "0 < n" "n < 64" "fraction \<noteq> 0"
  shows "\<exists>e f. normalize_fraction n exponent fraction = Some (e, f)"
proof -
  have "2 ^ (n - 1) \<le> unat fraction * 2 ^ (n - 1)" using assms(3) by (simp add: word_unat_eq_iff)
  from normalize_fraction_ends [OF assms(1,2) this] show ?thesis .
qed

lemma table_entry_some: "length t = 128 \<Longrightarrow> unat i < 128 \<Longrightarrow> \<exists>x. table_entry t i = Some x"
  by (simp add: table_entry_def)

lemma length_tables: "length FRSQRT7_TABLE = 128" "length FREC7_TABLE = 128"
  by (simp_all add: FRSQRT7_TABLE_def FREC7_TABLE_def)

lemma fraction_index:
  assumes "k \<le> n" "n < 64"
  shows "unat (drop_bit (n - k) (x AND (push_bit n 1 - 1)) :: u64) < 2 ^ k"
proof -
  have "x AND (push_bit n 1 - 1) = take_bit n x"
    by (simp add: take_bit_eq_mask mask_eq_decr_exp push_bit_eq_mult)
  moreover have "drop_bit (n - k) (take_bit n x) = take_bit k (drop_bit (n - k) x)"
    using assms(1) by (simp add: take_bit_drop_bit)
  ultimately show ?thesis by (simp add: unsigned_take_bit_eq)
qed

lemma frsqrt7_index:
  assumes "6 \<le> n" "n < 64"
  shows "unat (push_bit 6 (e AND 1) OR drop_bit (n - 6) (x AND (push_bit n 1 - 1)) :: u64) < 128"
proof -
  define b where "b = (drop_bit (n - 6) (x AND (push_bit n 1 - 1)) :: u64)"
  have "unat b < 64" unfolding b_def using fraction_index [OF assms, of x] by simp
  then have "unat (take_bit 7 b) = unat b"
    by (simp only: unsigned_take_bit_eq) (simp add: take_bit_eq_mod)
  then have "take_bit 7 b = b" by (simp only: word_unat_eq_iff)
  moreover have "take_bit 7 (push_bit 6 (e AND 1)) = (push_bit 6 (e AND 1) :: u64)"
    by (simp add: bit_field0)
  ultimately have "take_bit 7 (push_bit 6 (e AND 1) OR b) = push_bit 6 (e AND 1) OR b"
    by simp
  then show ?thesis unfolding b_def [symmetric] using unat_take_bit_less [of 7 "push_bit 6 (e AND 1) OR b"] by simp
qed

lemma frsqrt7_some:
  assumes "7 \<le> n" "n < 64"
  shows "rvv_frsqrt7 val m n fl \<noteq> None"
proof -
  obtain s e f where p: "fp_estimate_parts val m n = (s, e, f)" by (cases "fp_estimate_parts val m n")
  then have f: "f = val AND (push_bit n 1 - 1)" by (simp add: fp_estimate_parts_def Let_def)
  have t: "\<exists>r. table_entry FRSQRT7_TABLE (push_bit 6 (e AND 1) OR drop_bit (n - 6) (x AND (push_bit n 1 - 1))) = Some r" for e x
    using assms by (intro table_entry_some length_tables frsqrt7_index) auto
  have "\<exists>e' f'. normalize_fraction n e f = Some (e', f')" if "f \<noteq> 0"
    using normalize_fraction_some [of n f e] assms that by auto
  then show ?thesis
    using t [of e val] t unfolding rvv_frsqrt7_def p Let_def prod.case
    by (auto simp: f split: option.splits)
qed

lemma frec7_some:
  assumes "7 \<le> n" "n < 64"
  shows "rvv_frec7 val m n rm fl \<noteq> None"
proof -
  obtain s e f where p: "fp_estimate_parts val m n = (s, e, f)" by (cases "fp_estimate_parts val m n")
  then have f: "f = val AND (push_bit n 1 - 1)" by (simp add: fp_estimate_parts_def Let_def)
  have t: "\<exists>r. frec7_finite m n sf e (x AND (push_bit n 1 - 1)) = Some r" for sf e x
    using assms fraction_index [of 7 n x] table_entry_some [OF length_tables(2)]
    by (auto simp: frec7_finite_def)
  have "\<exists>e' f'. normalize_fraction n e f = Some (e', f')" if "f \<noteq> 0"
    using normalize_fraction_some [of n f e] assms that by auto
  then show ?thesis
    using t [of _ e val] t unfolding rvv_frec7_def p Let_def prod.case
    by (auto simp: f split: option.splits)
qed

lemma float_unary_some:
  "selector = 0 \<or> selector = 4 \<or> selector = 5 \<or> selector = 0x10 \<Longrightarrow> float_unary_value w selector source rm fl \<noteq> None"
  using frsqrt7_some [of 23] frsqrt7_some [of 52] frec7_some [of 23] frec7_some [of 52]
  by (auto simp: float_unary_value_def Let_def simp del: not_None_eq)

context vector_host
begin

lemma keeps_float_unary: "config_ok config \<Longrightarrow> keeps I (exec_vector_float_unary insn config selector)"
  unfolding exec_vector_float_unary_def Let_def
  by (intro unit_intros keeps_read keeps_write keeps_unwrap float_unary_some) (auto intro: fits_lmul)

lemma keeps_vector_float:
  assumes c: "config_ok config"
  shows "keeps I (exec_vector_float insn config)"
proof -
  have r: "\<not> \<not> (sew config = 32 \<or> sew config = 64) \<Longrightarrow> keeps I (float_reduction insn config f)" for f
    using keeps_float_reduction [OF c] by blast
  show ?thesis
    unfolding exec_vector_float_def Let_def
    by (intro keeps_if keeps_bind keeps_check keeps_getc keeps_ret keeps_illegal keeps_dirty keeps_set_vstart
        keeps_read keeps_write keeps_float_convert keeps_float_unary keeps_float_widen_binary keeps_float_widen_fma
        keeps_float_widen_reduction keeps_float_merge keeps_float_slide1 r keeps_float_elementwise
        fits_first config_sew reg_less c; assumption)
qed

end

end
