(* ===== verification/VectorSafeMem.thy ===== *)
theory VectorSafeMem
  imports VectorSafeFloat
begin

text \<open>
  The vector loads and stores keep every invariant that also meets the contract
  \<open>vector_memory_host\<close>, which adds the scalar memory operations a vector transfer calls. With the
  configuration instructions this covers every entry of the unit.
\<close>

section \<open>Memory instructions\<close>

locale vector_memory_host = vector_host I for I :: "cpu \<times> 'b \<Rightarrow> bool" +
  fixes B :: "'b bus_ops"
  assumes load_keeps: "n = 1 \<or> n = 2 \<or> n = 4 \<or> n = 8 \<Longrightarrow> keeps I (ld B n va)"
    and store_keeps: "n = 1 \<or> n = 2 \<or> n = 4 \<or> n = 8 \<Longrightarrow> keeps I (st B n va x)"
    and translate_keeps: "keeps I (translate B va acc)"
    and fill_keeps: "keeps I (fill_jtlb B va pa sf)"
    and host_keeps: "I (c, b) \<Longrightarrow> I (c, host_write8 B a y b)"
begin

lemma host_write_keeps: "I (c, b) \<Longrightarrow> I (c, host_write_bytes B a bs b)"
  by (induction bs arbitrary: a b) (auto intro: host_keeps)

lemma keeps_load_element: "eew_ok eew \<Longrightarrow> keeps I (vector_load_element B a eew)"
  unfolding vector_load_element_def eew_ok_def by (intro keeps_if load_keeps) auto

lemma keeps_store_element: "eew_ok eew \<Longrightarrow> keeps I (vector_store_element B a eew x)"
  unfolding vector_store_element_def eew_ok_def by (intro keeps_if store_keeps) auto

lemma keeps_transfer: "fits reg index eew \<Longrightarrow> keeps I (transfer_element B load reg index eew a)"
  unfolding transfer_element_def
  by (intro keeps_if keeps_bind keeps_load_element keeps_store_element keeps_read keeps_write) (auto simp: fits_def)

lemma keeps_fault_at: "keeps I m \<Longrightarrow> keeps I (fault_at i m)"
  unfolding fault_at_def by (intro keeps_mtry keeps_ret keeps_bind keeps_set_vstart keeps_throw)

lemma keeps_direct_span: "keeps I (vector_direct_span B a n sf)"
  unfolding vector_direct_span_def Let_def
  by (intro keeps_bind keeps_getc keeps_if keeps_ret keeps_case_option translate_keeps fill_keeps)

lemma keeps_copy_span: "off + n \<le> 512 \<Longrightarrow> keeps I (copy_span B load off p n)"
  unfolding copy_span_def
proof (intro keeps_if keeps_bind keeps_getb)
  show "keeps I (modc (\<lambda>c. c\<lparr>vector := put_bytes off bs (vector c)\<rparr>))" for bs
    by (rule keeps_modc) (auto intro!: upd_vector dest: vl_bound)
  show "keeps I (mmod (\<lambda>(c, b). (c, host_write_bytes B p (get_bytes off n (vector c)) b)))"
    by (rule keeps_mmod) (auto intro: host_write_keeps)
qed (simp add: VREG_COUNT_def VLEN_BYTES_def)

lemma keeps_unit_stride_loop:
  assumes "first * 16 + vl * w \<le> 512"
  shows "keeps I (unit_stride_direct_loop B load base first vl w index)"
proof (induction "vl - index" arbitrary: index rule: less_induct)
  case less
  have b: "first * 16 + index * w + min k (vl - index) * w \<le> 512" if "index < vl" for k
  proof -
    have "(index + min k (vl - index)) * w \<le> vl * w" using that by (intro mult_le_mono1) simp
    with assms show ?thesis by (simp add: add_mult_distrib)
  qed
  show ?case
    by (subst unit_stride_direct_loop.simps, unfold Let_def)
      (intro keeps_if keeps_ret keeps_bind keeps_fault_at keeps_direct_span keeps_case_option keeps_copy_span less,
        simp_all add: b VLEN_BYTES_def)
qed

lemma keeps_unit_stride_direct:
  "first * 16 + vl * w \<le> 512 \<Longrightarrow> keeps I (exec_unit_stride_direct B load base first start vl w)"
  unfolding exec_unit_stride_direct_def
  by (intro keeps_if keeps_ret keeps_bind keeps_set_vstart keeps_unit_stride_loop)

lemma keeps_strided_direct:
  assumes "first * 16 + vl * w \<le> 512"
  shows "keeps I (exec_strided_direct B load base first start vl w stride)"
proof -
  have "first * 16 + i * w + w \<le> 512" if "i < vl" for i
    using mult_le_mono1 [of "Suc i" vl w] that assms by simp
  then show ?thesis
    unfolding exec_strided_direct_def Let_def
    by (intro keeps_if keeps_ret keeps_bind keeps_getc keeps_set_vstart keeps_fault_at keeps_direct_span keeps_case_option
        keeps_for_in keeps_copy_span) (auto simp: VLEN_BYTES_def)
qed

lemma keeps_whole_register:
  assumes "eew_ok eew"
  shows "keeps I (exec_whole_register_memory B insn load eew base first n)"
proof -
  have "fits first i eew" if "first + n \<le> 32" "i < n * 16 div (eew div 8)" for i
  proof -
    have "(i + 1) * (eew div 8) \<le> n * 16"
      using that(2) assms by (auto simp: eew_ok_def)
    with that assms show ?thesis by (simp add: fits_def)
  qed
  then show ?thesis
    unfolding exec_whole_register_memory_def Let_def
    by (intro keeps_bind keeps_if keeps_getc keeps_illegal keeps_dirty keeps_for_in keeps_fault_at keeps_transfer keeps_set_vstart)
      (auto simp: VLEN_BYTES_def VREG_COUNT_def)
qed

lemma keeps_mask_byte: "reg < 32 \<Longrightarrow> i < 16 \<Longrightarrow> keeps I (mask_byte B load base reg i)"
  unfolding mask_byte_def Let_def
  by (intro keeps_if keeps_bind keeps_load_element keeps_store_element keeps_vget keeps_vmod)
    (auto simp: eew_ok_def VLEN_BYTES_def copy_to_register_eq)

lemma keeps_mask_memory:
  assumes "reg < 32"
  shows "keeps I (exec_mask_memory B load base reg)"
proof (rule keeps_atI)
  fix s assume s: "I s"
  define evl where "evl = unat (vs_vl (vector (fst s)) + 7) div 8"
  have "vs_vl (vector (fst s)) \<le> 128" using vl_bound [of "fst s" "snd s"] s by simp
  then have "unat (vs_vl (vector (fst s))) \<le> 128" by (simp add: word_le_nat_alt)
  then have "evl \<le> 16" unfolding evl_def by (simp add: unat_plus_if_size word_size)
  then have "keeps I (mbind (modc vector_dirty) (\<lambda>_. mbind (for_in [start..<evl] () (\<lambda>index _.
      fault_at index (mask_byte B load base reg index))) (\<lambda>_. set_vstart 0)))" for start
    by (intro keeps_bind keeps_dirty keeps_set_vstart keeps_for_in keeps_fault_at keeps_mask_byte assms) auto
  from keeps_atD [OF this s] show "keeps_at I (exec_mask_memory B load base reg) s"
    unfolding exec_mask_memory_def by (simp add: evl_def)
qed

lemma unit_stride_range:
  assumes c: "config_ok config" and e: "eew_ok eew" and n: "n \<le> vlmax config"
    and s: "(if eew = sew config then Some (register_span (lmul config)) else emul_register_span config eew) = Some span"
    and f: "first + span \<le> 32"
  shows "first * 16 + n * (eew div 8) \<le> 512"
proof -
  obtain r where r: "emul config eew = Some r" "register_span r = span"
  proof (cases "eew = sew config")
    case True
    with s emul_sew [OF c] that show ?thesis by auto
  next
    case False
    with s obtain x where x: "emul_exponent config eew = Some x" "span = (if x > 0 then 2 ^ nat x else 1)"
      by (auto simp: emul_register_span_def)
    then have "\<exists>r. emul config eew = Some r \<and> register_span r = span"
      using one_less_power [of "2::nat" "nat (- x)"] by (auto simp: emul_def register_span_def)
    with that show ?thesis by blast
  qed
  have "n * (eew div 8) \<le> vlmax config * (eew div 8)" using n by (rule mult_le_mono1)
  also have "\<dots> \<le> 16 * span" using group_bytes [OF c r(1)] r(2) by simp
  finally show ?thesis using f by simp
qed

lemma keeps_unit_stride_memory:
  assumes c: "config_ok config" and e: "eew_ok eew"
  shows "keeps I (exec_unit_stride_memory B load insn eew base first config)"
proof -
  let ?span = "if eew = sew config then Some (register_span (lmul config)) else emul_register_span config eew"
  have r: "first * 16 + vl_of config x * (eew div 8) \<le> 512" if "?span = Some span" "\<not> 32 < first + span" for x span
    using that by (intro unit_stride_range [OF c e vl_of_le [OF c]]) auto
  have t: "fits first i eew" if "?span = Some span" "\<not> 32 < first + span" "i < vl_of config x" for i x span
    using mult_le_mono1 [of "Suc i" "vl_of config x" "eew div 8"] r [OF that(1,2), of x] that(3) e by (simp add: fits_def)
  show ?thesis
    unfolding exec_unit_stride_memory_def Let_def
    by (intro keeps_range keeps_case_option keeps_if keeps_bind keeps_illegal keeps_dirty keeps_unit_stride_direct keeps_ret
        keeps_for_in keeps_fault_at keeps_transfer keeps_set_vstart r t)
     (auto simp: VREG_COUNT_def)
qed

lemma keeps_until_stop: "(\<And>i. i \<in> set xs \<Longrightarrow> keeps I (body i)) \<Longrightarrow> keeps I (until_stop xs body)"
  by (induction xs) (auto intro!: keeps_ret keeps_bind keeps_if)

lemma keeps_shorten: "i \<le> 128 \<Longrightarrow> keeps I (modc (\<lambda>c. c\<lparr>vector := (vector c)\<lparr>vs_vl := of_nat i, vs_vstart := 0\<rparr>\<rparr>))"
proof (rule keeps_modc)
  fix c b assume "i \<le> 128" "I (c, b)"
  then have "(of_nat i :: u64) \<le> 128" by (simp add: word_le_nat_alt)
  with \<open>I (c, b)\<close> show "I (c\<lparr>vector := (vector c)\<lparr>vs_vl := of_nat i, vs_vstart := 0\<rparr>\<rparr>, b)"
    by (intro upd_vector) auto
qed

lemma keeps_memory_element:
  assumes "\<And>f. f < nf \<Longrightarrow> fits (first + f * span) i w" "mop = 1 \<or> mop = 3 \<Longrightarrow> fits aux i eew"
    "mop = 0 \<or> mop = 1 \<or> mop = 2 \<or> mop = 3" "i < 128"
  shows "keeps I (memory_element B load fof mop aux eew nf base stride first span w i)"
  unfolding memory_element_def Let_def
  by (intro keeps_bind keeps_if keeps_ret keeps_read keeps_mtry keeps_for_in keeps_transfer keeps_set_vstart keeps_throw
      keeps_shorten) (use assms in auto)

lemma keeps_memory_elements:
  assumes "\<And>f i. f < nf \<Longrightarrow> i < vl \<Longrightarrow> fits (first + f * span) i w" "\<And>i. mop = 1 \<or> mop = 3 \<Longrightarrow> i < vl \<Longrightarrow> fits aux i eew"
    "mop = 0 \<or> mop = 1 \<or> mop = 2 \<or> mop = 3" "vl \<le> 128"
  shows "keeps I (memory_elements B load masked fof mop aux eew nf base stride first span w start vl)"
  unfolding memory_elements_def
  by (intro keeps_bind keeps_until_stop keeps_if keeps_mask keeps_ret keeps_memory_element keeps_set_vstart) (use assms in auto)

end

lemma mop_cases: "(x :: u32) AND 3 = 0 \<or> x AND 3 = 1 \<or> x AND 3 = 2 \<or> x AND 3 = 3"
proof -
  have "unat (x AND 3) < 4" using unat_take_bit_less [of 2 x] by (simp add: mask_lits)
  then have "unat (x AND 3) = 0 \<or> unat (x AND 3) = 1 \<or> unat (x AND 3) = 2 \<or> unat (x AND 3) = 3" by arith
  then show ?thesis by (simp add: word_unat_eq_iff)
qed

lemma emul_range:
  assumes c: "config_ok config" and r: "emul config w = Some r" and g: "validate_group base r 1" and n: "n \<le> vlmax config"
  shows "base * 16 + n * (w div 8) \<le> 512"
proof -
  have "n * (w div 8) \<le> vlmax config * (w div 8)" using n by (rule mult_le_mono1)
  also have "\<dots> \<le> 16 * register_span r" by (rule group_bytes [OF c r])
  finally show ?thesis
    using g by (auto simp: validate_group_def Let_def VREG_COUNT_def)
qed

context vector_host
begin

lemma keeps_with_width:
  "(\<And>w. eew_ok w \<Longrightarrow> keeps I (f w)) \<Longrightarrow> keeps I (mbind (ok_or (vector_width x) e) f)"
  by (auto simp: vector_width_def ok_or_def eew_ok_def keeps_throw)

lemma keeps_with_config:
  "(\<And>config. config_ok config \<Longrightarrow> keeps I (f config)) \<Longrightarrow> keeps I (mbind (ok_or (vs_config v) e) f)"
  by (cases "vs_config v") (auto simp: ok_or_def keeps_throw config_ok_def vs_config_def)

lemma keeps_getc_config:
  "(\<And>config. config_ok config \<Longrightarrow> keeps I (f config)) \<Longrightarrow>
   keeps I (mbind (getc (\<lambda>c. vs_config (vector c))) (\<lambda>o'. mbind (ok_or o' e) f))"
  by (intro keeps_getc_bind keeps_with_config)

lemma install_config_vl:
  assumes "vs_vl v \<le> 128"
  shows "vs_vl (snd (install_config t d z avl im v)) \<le> 128"
proof -
  have b: "of_nat (vlmax config) \<le> (128 :: u64)" if "config_decode t = Some config" for config
  proof -
    have "vlmax config \<le> 128" using config_vlmax [of config] that unfolding config_ok_def by blast
    then show ?thesis by (simp add: word_le_nat_alt unat_of_nat)
  qed
  show ?thesis
    using assms by (auto simp: install_config_def Let_def min_def split: option.splits if_splits dest!: b)
qed

lemma keeps_vector_config: "keeps I (exec_vector_config insn)"
proof -
  have "I (wr d (fst r) (vector_dirty (c\<lparr>vector := snd r\<rparr>)), b)"
    if "I (c, b)" "r = install_config t d z avl im (vector c)" for c b r t d z avl im
    using that vl_bound [OF that(1)] by (auto intro!: upd_regs upd_dirty upd_vector install_config_vl)
  then have "keeps I (modc (\<lambda>c. let (new_vl, v) = install_config t d z avl im (vector c) in
      wr d new_vl (vector_dirty (c\<lparr>vector := v\<rparr>))))" for t d z avl im
    by (intro keeps_modc) (simp add: case_prod_beta)
  then show ?thesis
    unfolding exec_vector_config_def
    by (intro keeps_bind [OF keeps_check(1)] keeps_if keeps_throw keeps_getc_bind) (auto simp: Let_def keeps_throw split: option.splits)
qed

lemma keeps_vector_op: "keeps I (exec_vector_op insn)"
  unfolding exec_vector_op_def Let_def
  by (intro keeps_if keeps_vector_config keeps_bind [OF keeps_check(1)] keeps_bind [OF keeps_getc] keeps_with_config
      keeps_illegal keeps_vector_float keeps_vector_integer)

end

context vector_memory_host
begin

lemma keeps_general_memory:
  assumes c: "config_ok config"
  shows "keeps I (exec_general_memory B insn load eew config)"
proof -
  let ?mop = "drop_bit 26 insn AND 3"
  have f: "fits (base + f * register_span r) i w"
    if "emul config w = Some r" "\<not> \<not> validate_group base r nf" "f < nf" "i < vl_of config x" for base r nf w f i x
    using that vl_less [OF that(4) c] by (intro fits_group [OF c]) auto
  have a: "fits aux i eew"
    if "(if ?mop = 1 \<or> ?mop = 3 then (case emul config eew of None \<Rightarrow> None
               | Some ratio \<Rightarrow> if \<not> validate_group aux ratio 1 then None else Some (Some ratio)) else Some None) = Some ir"
      "?mop = 1 \<or> ?mop = 3" "i < vl_of config x" for aux i x ir
    using that vl_less [OF that(3) c] by (auto split: option.splits if_splits intro: fits_emul [OF c, OF sym])
  have d: "first * 16 + vl_of config x * (w div 8) \<le> 512"
    if "emul config w = Some r" "\<not> \<not> validate_group first r nf" "?mop = 2 \<and> m \<and> nf = 1" for first r w nf x m
    using that vl_of_le [OF c] by (intro emul_range [OF c]) auto
  have v: "vl_of config x \<le> 128" for x using vl_of_le [OF c, of x] config_vlmax [OF c] by simp
  show ?thesis
    unfolding exec_general_memory_def Let_def
    by (intro keeps_if keeps_illegal keeps_case_option keeps_getc_bind keeps_bind keeps_dirty keeps_ret
        keeps_strided_direct keeps_memory_elements mop_cases v f d a; assumption)
qed

lemma keeps_vector_memory: "keeps I (exec_vector_memory B insn load)"
  unfolding exec_vector_memory_def Let_def
  by (intro keeps_bind [OF keeps_check(1)] keeps_with_width keeps_bind [OF keeps_getc] keeps_with_config
      keeps_if keeps_illegal keeps_whole_register
      keeps_unit_stride_memory keeps_mask_memory keeps_general_memory reg_less)

lemma keeps_unit_stride_insn: "keeps I (exec_unit_stride_memory_insn B insn load)"
  unfolding exec_unit_stride_memory_insn_def
  by (intro keeps_bind [OF keeps_check(1)] keeps_with_width keeps_getc_config keeps_bind [OF keeps_getc]
      keeps_if keeps_illegal keeps_unit_stride_memory reg_less)

end

end
