(* ===== verification/Safety.thy ===== *)
theory Safety
  imports Run RvcCorrect VectorSafeMem
begin

text \<open>
  Safety of the interpreter. The hart invariant \<open>hart_inv\<close> says that x0 reads zero, that the
  syscall ring index is in range, that the vector length is at most 128, that the system flag of
  the loop matches the hart, and what is asked of the instruction count and the bus. Every
  operation of the model keeps it and none panics, over any bus that meets the contract of the
  locale \<open>quiet_bus\<close>; a run retires at most its budget and lets no exception escape. The result is
  read off for a flat memory of given base and size through the interpretation \<open>image\<close>.
\<close>

lemma hoareD:
  "hoare P m Q E \<Longrightarrow> P s \<Longrightarrow> (case m s of (Inr a, t) \<Rightarrow> Q a t | (Inl (Throw e), t) \<Rightarrow> E e t | (Inl Panic, t) \<Rightarrow> False)"
  unfolding hoare_def by (drule spec, drule mp)

section \<open>The hart invariant\<close>

definition hart_inv :: "(u64 \<Rightarrow> 'b \<Rightarrow> bool) \<Rightarrow> bool \<Rightarrow> cpu \<times> 'b \<Rightarrow> bool" where
  "hart_inv J system s \<longleftrightarrow>
     xreg (fst s) 0 = 0 \<and> syscall_log_pos (fst s) < 64 \<and>
     (sys (fst s) \<noteq> None \<longleftrightarrow> system) \<and> vs_vl (vector (fst s)) \<le> 128 \<and> J (insn_count (fst s)) (snd s)"

definition cpu_same :: "cpu \<Rightarrow> cpu \<Rightarrow> bool" where
  "cpu_same c d \<longleftrightarrow> xreg d 0 = xreg c 0 \<and> syscall_log_pos d = syscall_log_pos c \<and>
     (sys d \<noteq> None \<longleftrightarrow> sys c \<noteq> None) \<and> vs_vl (vector d) = vs_vl (vector c) \<and> insn_count d = insn_count c"

lemma hart_inv_same: "hart_inv J system (c, b) \<Longrightarrow> cpu_same c d \<Longrightarrow> hart_inv J system (d, b)"
  by (simp add: hart_inv_def cpu_same_def)

named_theorems same_intros

lemma cpu_same_refl [same_intros]: "cpu_same c c"
  by (simp add: cpu_same_def)

lemma cpu_same_trans: "cpu_same c d \<Longrightarrow> cpu_same d e \<Longrightarrow> cpu_same c e"
  by (simp add: cpu_same_def)

lemma same_flush [same_intros]: "cpu_same c (flush_tlb c)"
  by (simp add: cpu_same_def flush_tlb_def)

lemma same_sync [same_intros]: "cpu_same c (sync_jit_tlb_context c)"
  by (simp add: cpu_same_def sync_jit_tlb_context_def)

lemma same_privilege [same_intros]: "cpu_same c (privilege_changed c)"
  by (simp add: cpu_same_def privilege_changed_def sync_jit_tlb_context_def flush_tlb_def)

lemma same_sfence [same_intros]: "cpu_same c (sfence_vma va asid c)"
  by (auto simp: cpu_same_def sfence_vma_def flush_tlb_def Let_def split: option.splits)

lemma same_wr [same_intros]: "cpu_same c (wr r v c)"
  by (simp add: cpu_same_def wr_def)

lemma same_set_x [same_intros]: "r \<noteq> 0 \<Longrightarrow> cpu_same c (set_x r v c)"
  by (simp add: cpu_same_def set_x_def)

lemma same_set_f [same_intros]: "cpu_same c (set_f r v c)"
  by (simp add: cpu_same_def set_f_def)

lemma same_fp_dirty [same_intros]: "cpu_same c (fp_dirty c)"
  by (simp add: cpu_same_def fp_dirty_def split: option.splits)

lemma same_vector_dirty [same_intros]: "cpu_same c (vector_dirty c)"
  by (simp add: cpu_same_def vector_dirty_def split: option.splits)

lemma same_tlb_fill [same_intros]: "cpu_same c (tlb_fill a va tag pa c)"
  by (simp add: cpu_same_def tlb_fill_def)

lemma same_publish [same_intros]: "cpu_same c (publish_jtlb sf i t o' c)"
  by (simp add: cpu_same_def publish_jtlb_def)

lemma same_fregs [same_intros]: "cpu_same c (set_f32 d p c)" "cpu_same c (set_f64 d q c)" "cpu_same c (set_xf d q c)"
  by (simp_all add: cpu_same_def set_f32_def set_f64_def set_xf_def set_f_def wr_def)

lemma same_op_fp: "op_fp insn c = Some d \<Longrightarrow> cpu_same c d"
  unfolding op_fp_def op_fp_arith_def op_fp_sqrt_def op_fp_sgnj_def op_fp_minmax_def op_fp_cvt_ff_def
    op_fp_cmp_def op_fp_to_int_def op_fp_from_int_def op_fp_move_def Let_def
  by (auto split: if_splits option.splits intro: same_intros)

lemma same_op_fma: "op_fma insn c = Some d \<Longrightarrow> cpu_same c d"
  by (auto simp: op_fma_def Let_def split: if_splits option.splits intro: same_intros)

lemma same_set_sys: "cpu_same c (snd (set_sys f c))"
  by (simp add: cpu_same_def set_sys_def split: option.splits)

lemma same_write_status: "cpu_same c (snd (write_status w v c))"
  by (simp add: cpu_same_def write_status_def Let_def flush_tlb_def sync_jit_tlb_context_def
      split: option.splits)

lemma same_write_satp: "cpu_same c (snd (write_satp v c))"
  by (simp add: cpu_same_def write_satp_def Let_def flush_tlb_def split: option.splits)

lemma same_csr_write_s: "csr_write_s csr v c = Some r \<Longrightarrow> cpu_same c (snd r)"
  by (auto simp: csr_write_s_def same_set_sys same_write_status same_write_satp split: if_splits)

lemma same_csr_write_m: "cpu_same c (snd (csr_write_m csr v c))"
  by (simp add: csr_write_m_def same_set_sys same_write_status cpu_same_refl)

lemma same_vector_dirty_upd: "vs_vl x = vs_vl (vector c) \<Longrightarrow> cpu_same c (vector_dirty (c\<lparr>vector := x\<rparr>))"
  by (simp add: cpu_same_def vector_dirty_def split: option.splits)

lemma same_csr_write_u: "csr_write_u csr v c = Some r \<Longrightarrow> cpu_same c (snd r)"
  unfolding csr_write_u_def Let_def
  by (auto simp: same_set_sys same_vector_dirty_upd cpu_same_def [of c "fcsr_update _ _"]
      cpu_same_def [of c "sys_update _ _"] cpu_same_refl split: if_splits option.splits)

lemma same_csr_write: "cpu_same c (snd (csr_write csr v c))"
proof -
  let ?c = "c\<lparr>irq_poll_cd := 0\<rparr>"
  have "cpu_same c ?c" by (simp add: cpu_same_def)
  moreover have "cpu_same ?c (snd (csr_write csr v c))"
    unfolding csr_write_def Let_def
    by (auto simp: cpu_same_refl same_csr_write_m split: option.splits
        dest: same_csr_write_u same_csr_write_s)
  ultimately show ?thesis by (rule cpu_same_trans)
qed

section \<open>State updates and traps\<close>

lemma keeps_modc_same: "(\<And>c. cpu_same c (f c)) \<Longrightarrow> keeps (hart_inv J system) (modc f)"
  by (rule keeps_modc) (rule hart_inv_same)

lemma keeps_busm_inv:
  assumes "\<And>k. keeps (J k) m"
  shows "keeps (hart_inv J system) (busm m)"
proof (rule keeps_busm, rule keeps_atI)
  fix c b assume h: "hart_inv J system (c, b)"
  then have "keeps_at (J (insn_count c)) m b" by (intro keeps_atD [OF assms]) (simp add: hart_inv_def)
  with h show "keeps_at (\<lambda>b. hart_inv J system (c, b)) m b"
    by (auto simp: keeps_at_def hart_inv_def split: prod.splits sum.splits abort.splits)
qed

lemma keeps_wr [keeps_intros]: "keeps (hart_inv J system) (modc (wr r v))"
  by (intro keeps_modc_same same_intros)

lemma keeps_fin_wr [keeps_intros]: "keeps (hart_inv J system) (fin_wr r np v)"
  unfolding fin_wr_def by (intro keeps_intros)

lemma keeps_wr_or_illegal [keeps_intros]: "keeps (hart_inv J system) (wr_or_illegal insn np v)"
  unfolding wr_or_illegal_def by (intro keeps_intros)

lemma keeps_fp_check [keeps_intros]: "keeps I (fp_check insn)"
  unfolding fp_check_def by (intro keeps_intros)

lemma keeps_fp_dirty [keeps_intros]: "keeps (hart_inv J system) (modc fp_dirty)"
  by (intro keeps_modc_same same_intros)

lemma keeps_set_f [keeps_intros]: "keeps (hart_inv J system) (modc (set_f r v))"
  by (intro keeps_modc_same same_intros)

text \<open>Trap entry and delivery.\<close>

lemma hart_inv_sys: "hart_inv J system s \<Longrightarrow> (sys (fst s) \<noteq> None) = system"
  by (simp add: hart_inv_def)

lemma keeps_log_syscall: "keeps (hart_inv J system) log_syscall"
  by (rule keeps_atI) (auto simp: log_syscall_def hart_inv_def)

lemma keeps_enter_trap: "keeps (hart_inv J True) (mbind (getc sys) (\<lambda>s'.
     case s' of None \<Rightarrow> panic
     | Some s \<Rightarrow> modc (\<lambda>c. privilege_changed
         (if trap_target_s cause irq s then trap_to_s cause tval irq s c
          else trap_to_m cause tval irq s c))))"
  by (rule keeps_atI) (auto simp: hart_inv_def privilege_changed_def trap_to_s_def trap_to_m_def Let_def
      sync_jit_tlb_context_def flush_tlb_def)

lemma keeps_take_trap: "keeps (hart_inv J True) (take_trap cause tval irq)"
  unfolding take_trap_def
proof (intro keeps_enter_trap keeps_bind keeps_if keeps_ret keeps_log_syscall)
  show "keeps (hart_inv J True) (modc (\<lambda>c. c\<lparr>irq_poll_cd := 0, reservation := None\<rparr>))"
    by (rule keeps_modc_same) (simp add: cpu_same_def)
  show "keeps (hart_inv J True) (modc (count_trap cause irq))"
    by (rule keeps_modc_same) (simp add: cpu_same_def count_trap_def Let_def)
  show "keeps (hart_inv J True) (modc (\<lambda>c. case sys c of None \<Rightarrow> c
       | Some s \<Rightarrow> if irq \<and> cause = 5 \<and> mode s = User then record_timer_trap s c else c))"
    by (rule keeps_modc_same) (simp add: cpu_same_def record_timer_trap_def Let_def split: option.splits)
qed

lemma keeps_exception_to_trap: "keeps (hart_inv J True) (exception_to_trap e)"
  unfolding exception_to_trap_def by (intro keeps_bind keeps_getc keeps_take_trap)

lemma keeps_deliver: "keeps (hart_inv J system) (deliver system e)"
  unfolding deliver_def by (cases system) (simp_all add: keeps_bind keeps_ret keeps_exception_to_trap)

text \<open>The hart invariant is one the vector unit keeps.\<close>

interpretation hart: vector_host "hart_inv J system" for J :: "u64 \<Rightarrow> 'b \<Rightarrow> bool" and system
  by unfold_locales (auto simp: hart_inv_def vector_dirty_def fp_dirty_def wr_def set_f_def split: option.splits)

text \<open>Operations that raise no exception.\<close>

definition nothrow :: "('s, 'e, 'a) res \<Rightarrow> bool" where
  "nothrow m \<longleftrightarrow> (\<forall>s e. fst (m s) \<noteq> Inl (Throw e))"

named_theorems nothrow_intros

lemma nothrow_prims [nothrow_intros]: "nothrow (mret a)" "nothrow panic" "nothrow (getc f)" "nothrow (modc g)"
  by (auto simp: nothrow_def getc_def modc_def split: prod.splits)

lemma nothrow_bind [nothrow_intros]:
  assumes "nothrow m" and "\<And>a. nothrow (f a)"
  shows "nothrow (mbind m f)"
  unfolding nothrow_def
proof (intro allI)
  fix s e
  obtain r t where r: "m s = (r, t)" by (cases "m s")
  show "fst (mbind m f s) \<noteq> Inl (Throw e)"
  proof (cases r)
    case (Inl x)
    with assms(1) r have "x \<noteq> Throw e" unfolding nothrow_def by (metis fst_conv)
    with r Inl show ?thesis by (simp add: mbind_def)
  next
    case (Inr a)
    with assms(2) [of a] r show ?thesis by (simp add: mbind_def nothrow_def)
  qed
qed

lemma nothrow_if [nothrow_intros]: "nothrow m \<Longrightarrow> nothrow n \<Longrightarrow> nothrow (if c then m else n)"
  by simp

lemma nothrow_option [nothrow_intros]:
  "nothrow m \<Longrightarrow> (\<And>a. nothrow (f a)) \<Longrightarrow> nothrow (case r of None \<Rightarrow> m | Some a \<Rightarrow> f a)"
  by (cases r) auto

lemma nothrow_mtry: "(\<And>a. nothrow (f a)) \<Longrightarrow> (\<And>e. nothrow (h e)) \<Longrightarrow> nothrow (mtry m f h)"
  unfolding nothrow_def mtry_def by (auto split: prod.splits sum.splits abort.splits)

lemma nothrow_lines [nothrow_intros]: "nothrow (busm (\<lambda>b. case irq_lines B b of (l, b') \<Rightarrow> (Inr l, b')))"
  by (auto simp: nothrow_def busm_def split: prod.splits)

lemma nothrow_take_trap [nothrow_intros]: "nothrow (take_trap k v i)"
  unfolding take_trap_def log_syscall_def by (intro nothrow_intros)

context quiet_bus
begin

abbreviation I where "I K system \<equiv> hart_inv (\<lambda>k b. K k \<and> inv b) system"

lemma keeps_bus:
  assumes "keeps inv m"
  shows "keeps (I K system) (busm m)"
proof (rule keeps_busm_inv, rule keeps_atI)
  fix k b assume "K k \<and> inv b"
  with keeps_atD [OF assms, of b] show "keeps_at (\<lambda>b. K k \<and> inv b) m b"
    by (auto simp: keeps_at_def split: prod.splits sum.splits abort.splits)
qed

lemma keeps_walk: "keeps inv (walk B acc va md sm mx level table)"
proof (induction level arbitrary: table)
  case 0
  show ?case unfolding walk.simps walk_level_def Let_def
    by (intro keeps_intros keeps_bus_ops)
next
  case (Suc level)
  show ?case unfolding walk.simps walk_level_def Let_def
    by (intro keeps_intros keeps_bus_ops Suc.IH)
qed

lemma keeps_translate [keeps_intros]: "keeps (I K system) (translate B va acc)"
proof (rule keeps_atI)
  fix s assume s: "I K system s"
  show "keeps_at (I K system) (translate B va acc) s"
  proof (cases "sys (fst s)")
    case None
    with s show ?thesis by (simp add: translate_def)
  next
    case (Some y)
    have w: "keeps (I K system) (mbind (busm (walk B acc va md sm mx l t)) (\<lambda>pa.
        mbind (modc (tlb_fill acc va tag pa)) (\<lambda>_. mret pa)))" for md sm mx l t tag
      by (intro keeps_intros keeps_bus keeps_walk keeps_modc_same same_intros)
    show ?thesis
      using Some s by (simp add: translate_def translate_slow_def Let_def keeps_atD [OF w])
  qed
qed

end

section \<open>Memory and instructions\<close>

definition mem_width :: "nat \<Rightarrow> bool" where
  "mem_width n \<longleftrightarrow> n = 1 \<or> n = 2 \<or> n = 4 \<or> n = 8"

lemma mem_widths [simp]: "mem_width 1" "mem_width (Suc 0)" "mem_width 2" "mem_width 4" "mem_width 8"
  by (simp_all add: mem_width_def)

context quiet_bus
begin

lemma keeps_fill_jtlb [keeps_intros]: "keeps (I K system) (fill_jtlb B va pa sf)"
  unfolding fill_jtlb_def by (intro keeps_intros keeps_modc_same same_intros)

lemma keeps_bus_load: "keeps inv (bus_load B n pa)"
  unfolding bus_load_def by (intro keeps_intros keeps_bus_ops)

lemma keeps_bus_store: "keeps inv (bus_store B n pa v)"
  unfolding bus_store_def by (intro keeps_intros keeps_bus_ops)

lemma keeps_ld_bytes: "keeps (I K system) (ld_bytes B va i k v)"
  by (induction k arbitrary: i v) (auto intro!: keeps_intros keeps_bus keeps_bus_ops)

lemma keeps_st_bytes: "keeps (I K system) (st_bytes B va i k v)"
  by (induction k arbitrary: i) (auto intro!: keeps_intros keeps_bus keeps_bus_ops)

lemma inv_host_write: "inv b \<Longrightarrow> inv (host_write_bytes B a vs b)"
  by (induction vs arbitrary: a b) (auto intro: inv_host_write8)

lemma keeps_ld_slow: "keeps (I K system) (ld_slow B n va)"
  unfolding ld_slow_def by (intro keeps_intros keeps_ld_bytes keeps_bus keeps_bus_load)

lemma keeps_st_slow: "keeps (I K system) (st_slow B n va v)"
  unfolding st_slow_def by (intro keeps_intros keeps_st_bytes keeps_bus keeps_bus_store)

lemma keeps_direct_load: "mem_width n \<Longrightarrow> keeps (I K system) (interpreter_direct_load B n a)"
  unfolding interpreter_direct_load_def mem_width_def by (auto intro: keeps_getb)

lemma keeps_direct_store: "mem_width n \<Longrightarrow> keeps (I K system) (interpreter_direct_store B n a v)"
  unfolding interpreter_direct_store_def mem_width_def
  by (auto intro!: keeps_mmod simp: hart_inv_def inv_host_write inv_host_write8)

lemma keeps_ld: "mem_width n \<Longrightarrow> keeps (I K system) (ld B n va)"
  unfolding ld_def by (intro keeps_intros keeps_ld_slow keeps_direct_load)

lemma keeps_st: "mem_width n \<Longrightarrow> keeps (I K system) (st B n va v)"
  unfolding st_def by (intro keeps_intros keeps_st_slow keeps_direct_store)

lemmas keeps_mem = keeps_ld [OF mem_widths(1)] keeps_ld [OF mem_widths(3)] keeps_ld [OF mem_widths(4)]
  keeps_ld [OF mem_widths(5)] keeps_st [OF mem_widths(1)] keeps_st [OF mem_widths(3)]
  keeps_st [OF mem_widths(4)] keeps_st [OF mem_widths(5)]

lemma keeps_exec_load [keeps_intros]: "keeps (I K system) (exec_load B insn np)"
  unfolding exec_load_def Let_def by (intro keeps_mem keeps_intros)

lemma keeps_exec_store [keeps_intros]: "keeps (I K system) (exec_store B insn np)"
  unfolding exec_store_def Let_def by (intro keeps_mem keeps_intros)

lemma keeps_exec_amo [keeps_intros]: "keeps (I K system) (exec_amo B insn np)"
proof -
  have "cpu_same c (wr r v (c\<lparr>reservation := x\<rparr>))" "cpu_same c (c\<lparr>reservation := x\<rparr>)" for c r v x
    by (simp_all add: cpu_same_def wr_def)
  then show ?thesis
    unfolding exec_amo_def aload_def astore_def Let_def
    by (intro keeps_mem keeps_intros keeps_modc_same)
qed

end

sublocale quiet_bus \<subseteq> vmem: vector_memory_host "hart_inv (\<lambda>k b. K k \<and> inv b) system" B for K system
  by unfold_locales (auto simp: hart_inv_def mem_width_def
      intro: keeps_ld keeps_st keeps_translate keeps_fill_jtlb inv_host_write8)

lemma keeps_exec_fp:
  assumes "\<And>insn c d. f insn c = Some d \<Longrightarrow> cpu_same c d"
  shows "keeps (hart_inv J system) (exec_fp f insn np)"
  unfolding exec_fp_def
proof (intro keeps_bind [OF keeps_fp_check] keeps_bind [OF keeps_fp_dirty])
  show "keeps (hart_inv J system) (mbind (getc (f insn)) (\<lambda>r. case r of None \<Rightarrow> illegal insn
     | Some c \<Rightarrow> mbind (modc (\<lambda>_. c)) (\<lambda>_. mret (Next np None))))"
    by (rule keeps_atI) (auto simp: illegal_def split: option.splits dest!: assms intro: hart_inv_same)
qed

lemma keeps_ebreak: "keeps I (exec_ebreak np)"
  unfolding exec_ebreak_def by (intro keeps_intros)

lemma keeps_wfi: "keeps I (exec_wfi insn np)"
  unfolding exec_wfi_def by (intro keeps_intros)

lemma keeps_sfence: "keeps (hart_inv J system) (exec_sfence insn np)"
  unfolding exec_sfence_def Let_def by (intro keeps_intros keeps_modc_same same_intros)

lemma same_ret: "cpu_same c (privilege_changed (c\<lparr>sys := Some x\<rparr>))" if "sys c \<noteq> None" for x
  using that by (simp add: cpu_same_def privilege_changed_def sync_jit_tlb_context_def flush_tlb_def)

lemma keeps_mret: "keeps (hart_inv J system) (exec_mret insn)"
  by (rule keeps_atI) (auto simp: exec_mret_def hart_inv_def illegal_def privilege_changed_def
      sync_jit_tlb_context_def flush_tlb_def split: option.splits)

lemma keeps_sret: "keeps (hart_inv J system) (exec_sret insn)"
  by (rule keeps_atI) (auto simp: exec_sret_def hart_inv_def illegal_def privilege_changed_def
      sync_jit_tlb_context_def flush_tlb_def split: option.splits)

lemma keeps_exec_csr: "keeps (hart_inv J system) (exec_csr insn np)"
  unfolding exec_csr_def Let_def by (intro keeps_intros keeps_modc_same same_csr_write)

lemma keeps_exec_system: "insn \<noteq> 0x73 \<Longrightarrow> keeps (hart_inv J system) (exec_system insn np)"
  unfolding exec_system_def
  by (simp only: if_False) (intro keeps_intros keeps_ebreak keeps_wfi keeps_sfence keeps_mret keeps_sret keeps_exec_csr)

text \<open>An instruction counts itself as retired or leaves that to \<open>retire\<close>; only ECALL does the former.\<close>

definition retired :: "outcome \<Rightarrow> u64 \<Rightarrow> u64" where
  "retired r n = (case r of Done _ \<Rightarrow> n + 1 | Next _ _ \<Rightarrow> n)"

definition nodone :: "('b, outcome) cpum \<Rightarrow> bool" where
  "nodone m \<longleftrightarrow> (\<forall>s x. fst (m s) \<noteq> Inr (Done x))"

named_theorems nodone_intros

lemma nodone_prims [nodone_intros]: "nodone (mret (Next a b))" "nodone (illegal insn)" "nodone (throw e)"
  by (simp_all add: nodone_def illegal_def)

lemma nodone_bind [nodone_intros]: "(\<And>a. nodone (f a)) \<Longrightarrow> nodone (mbind m f)"
  by (auto simp: nodone_def mbind_def split: prod.splits sum.splits)

lemma nodone_if [nodone_intros]: "nodone m \<Longrightarrow> nodone n \<Longrightarrow> nodone (if c then m else n)"
  by simp

lemma nodone_option [nodone_intros]:
  "nodone m \<Longrightarrow> (\<And>a. nodone (f a)) \<Longrightarrow> nodone (case r of None \<Rightarrow> m | Some a \<Rightarrow> f a)"
  by (cases r) auto

lemma nodone_exec_system: "insn \<noteq> 0x73 \<Longrightarrow> nodone (exec_system insn np)"
  unfolding exec_system_def exec_ebreak_def exec_mret_def exec_sret_def exec_wfi_def exec_sfence_def exec_csr_def Let_def
  by (simp only: if_False) (intro nodone_intros)

lemma nodone_exec32: "insn \<noteq> 0x73 \<Longrightarrow> nodone (exec32 B insn pc np)"
  unfolding exec32_def exec_jal_def exec_jalr_def exec_branch_def exec_load_def exec_store_def exec_amo_def exec_load_fp_def
    exec_store_fp_def exec_op_v_def exec_fp_def wr_or_illegal_def Let_def
  by (intro nodone_intros nodone_exec_system)

context quiet_bus
begin

lemma keeps_exec32:
  assumes "insn \<noteq> 0x73"
  shows "keeps (I K system) (exec32 B insn pc np)"
proof -
  note v = vmem.keeps_vector_op vmem.keeps_vector_config vmem.keeps_vector_memory vmem.keeps_unit_stride_insn
  have lf: "keeps (I K system) (exec_load_fp B insn np)"
    unfolding exec_load_fp_def exec_vmem_def by (intro keeps_mem v keeps_intros)
  have sf: "keeps (I K system) (exec_store_fp B insn np)"
    unfolding exec_store_fp_def exec_vmem_def Let_def by (intro keeps_mem v keeps_intros)
  have ov: "keeps (I K system) (exec_op_v insn np)"
    unfolding exec_op_v_def by (intro v keeps_intros)
  have br: "keeps (I K system) (exec_branch insn pc np)" "keeps (I K system) (exec_jal insn pc np)"
    "keeps (I K system) (exec_jalr insn np)"
    unfolding exec_branch_def exec_jal_def exec_jalr_def by (intro keeps_intros)+
  show ?thesis
    unfolding exec32_def Let_def
    by (intro keeps_if keeps_exec_load keeps_exec_store keeps_exec_amo lf sf ov br
        keeps_exec_fp same_op_fp same_op_fma keeps_exec_system [OF assms] keeps_intros; assumption)
qed

abbreviation N where "N n system \<equiv> I (\<lambda>k. k = n) system"

text \<open>What an instruction does to the count: nothing when it raises an exception.\<close>

abbreviation counts where
  "counts system m \<equiv> (\<forall>n. hoare (N n system) m (\<lambda>r. N (retired r n) system) (\<lambda>_. N n system))"

lemma counts_keeps:
  assumes "\<And>K. keeps (I K system) m" "nodone m"
  shows "counts system m"
proof (intro allI hoareI)
  fix n s assume s: "N n system s"
  have "keeps_at (N n system) m s" by (rule keeps_atD [OF assms(1) s])
  moreover have "fst (m s) \<noteq> Inr (Done x)" for x using assms(2) unfolding nodone_def by blast
  ultimately show "case m s of (Inr a, t) \<Rightarrow> N (retired a n) system t | (Inl (Throw e), t) \<Rightarrow> N n system t | (Inl Panic, t) \<Rightarrow> False"
    unfolding keeps_at_def by (auto simp: retired_def split: prod.splits sum.splits abort.splits outcome.splits)
qed

lemma ecall_counts: "counts system (exec_ecall np)"
proof (intro allI hoareI)
  fix n s assume s: "N n system s"
  show "case exec_ecall np s of (Inr a, t) \<Rightarrow> N (retired a n) system t
      | (Inl (Throw e), t) \<Rightarrow> N n system t | (Inl Panic, t) \<Rightarrow> False"
  proof (cases "system \<and> (\<exists>y. sys (fst s) = Some y \<and> \<not> (host_sbi (fst s) \<and> mode y = Supervisor))")
    case True
    then obtain y where y: "sys (fst s) = Some y" "\<not> (host_sbi (fst s) \<and> mode y = Supervisor)" by blast
    let ?k = "case mode y of User \<Rightarrow> 8 | Supervisor \<Rightarrow> 9 | Machine \<Rightarrow> 11"
    obtain r t where t: "take_trap ?k 0 False s = (r, t)" by (rule prod.exhaust)
    have "keeps_at (N n system) (take_trap ?k 0 False) s" using keeps_atD [OF keeps_take_trap, of _ s] s True by simp
    moreover have "fst (take_trap ?k 0 False s) \<noteq> Inl (Throw e)" for e
      using nothrow_take_trap unfolding nothrow_def by blast
    ultimately have "r = Inr ()" "N n system t" using t by (auto simp: keeps_at_def split: sum.splits abort.splits)
    then show ?thesis using y t
      by (auto simp: exec_ecall_def mbind_def getc_def mget_def modc_def mmod_def mret_def retired_def hart_inv_def split: prod.splits)
  next
    case False
    then show ?thesis using s
      by (auto simp: exec_ecall_def mbind_def getc_def mget_def mret_def retired_def hart_inv_def split: option.splits)
  qed
qed

lemma exec32_counts: "counts system (exec32 B insn pc np)"
proof (cases "insn = 0x73")
  case True
  then have "exec32 B insn pc np = exec_ecall np" by (simp add: exec32_def exec_system_def opcode_def)
  then show ?thesis using ecall_counts by simp
next
  case False
  then show ?thesis by (intro counts_keeps keeps_exec32 nodone_exec32)
qed

lemma retire_counts: "hoare (N (retired r n) system) (retire r) (\<lambda>_. N (n + 1) system) E"
  by (rule hoareI) (cases r; auto simp: retire_def retired_def mbind_def modc_def mmod_def mret_def hart_inv_def)

end

section \<open>Steps and loops\<close>

lemma and3_cases: "(x :: u32) AND 3 = 0 \<or> x AND 3 = 1 \<or> x AND 3 = 2 \<or> x AND 3 = 3"
proof -
  define y where "y = x AND 3"
  have "y = take_bit 2 x" unfolding y_def mask_lits by (simp add: take_bit_eq_mask)
  then have "unat y < 4" using unat_take_bit_less [of 2 x] by simp
  then have "unat y = 0 \<or> unat y = 1 \<or> unat y = 2 \<or> unat y = 3" by arith
  then show ?thesis
    unfolding y_def [symmetric] by (simp add: word_unat_eq_iff)
qed

lemma expand_runs:
  assumes "ucast ci AND 3 \<noteq> (3 :: u32)"
  obtains r where "expand ci () = (Inr r, ())"
proof -
  have "\<exists>r. expand ci () = (Inr r, ())"
    using assms and3_cases [of "ucast ci"] by (auto simp: expand_def Let_def mret_def)
  with that show ?thesis by blast
qed

context quiet_bus
begin

lemma hoare_keeps_bind:
  "keeps J m \<Longrightarrow> (\<And>a. hoare J (f a) R (\<lambda>_. J)) \<Longrightarrow> hoare J (mbind m f) R (\<lambda>_. J)"
  unfolding keeps_def by (rule hoare_bind)

lemma exec16_counts:
  assumes "ucast ci AND 3 \<noteq> (3 :: u32)"
  shows "counts system (exec16 B ci pc)"
proof (intro allI hoareI)
  fix n s assume s: "N n system s"
  obtain r where r: "expand ci () = (Inr r, ())" using expand_runs [OF assms] .
  have e: "exec16 B ci pc s = (case r of None \<Rightarrow> illegal (ucast ci) s
      | Some insn \<Rightarrow> exec32 B insn pc (pc + 2) s)"
    using s by (intro exec16_agrees [OF assms _ r]) (simp add: hart_inv_def)
  show "case exec16 B ci pc s of (Inr a, t) \<Rightarrow> N (retired a n) system t
      | (Inl (Throw e), t) \<Rightarrow> N n system t | (Inl Panic, t) \<Rightarrow> False"
  proof (cases r)
    case None
    then show ?thesis using e s by (simp add: illegal_def)
  next
    case (Some insn)
    then show ?thesis using e s hoareD [OF exec32_counts [of system insn pc "pc + 2", rule_format] s] by simp
  qed
qed

lemma step_counts: "hoare (N n system) (step B) (\<lambda>_. N (n + 1) system) (\<lambda>_. N n system)"
proof -
  have c: "hoare (N n system) (mbind m retire) (\<lambda>_. N (n + 1) system) (\<lambda>_. N n system)" if "counts system m" for m
    using that by (intro hoare_bind [OF _ retire_counts]) blast
  show ?thesis
    unfolding step_def step_compressed_def Let_def
    by (intro hoare_keeps_bind keeps_getc keeps_translate keeps_bus keeps_fetch16 hoare_if c exec16_counts exec32_counts
        keeps_if keeps_ret; assumption)
qed

lemma keeps_lines: "keeps (I K system) (busm (\<lambda>b. case irq_lines B b of (l, b') \<Rightarrow> (Inr l, b')))"
proof (intro keeps_bus keeps_atI)
  fix b assume "inv b"
  then show "keeps_at inv (\<lambda>b. case irq_lines B b of (l, b') \<Rightarrow> (Inr l, b')) b"
    using inv_irq_lines [of b] by (cases "irq_lines B b") (simp add: keeps_at_def)
qed

lemma keeps_check_interrupts: "keeps (I K True) (check_interrupts B)"
proof -
  have m: "keeps (I K True) (modc (\<lambda>c. c\<lparr>sys := Some (s c)\<rparr>))" for s
    by (rule keeps_atI) (auto simp: hart_inv_def keeps_at_def modc_def mmod_def)
  show ?thesis
    unfolding check_interrupts_def Let_def
    by (intro keeps_intros keeps_lines keeps_take_trap m)
qed

lemma keeps_poll: "keeps (I K system) (poll B system)"
proof (cases system)
  case True
  have m: "keeps (I K True) (modc (\<lambda>c. c\<lparr>irq_poll_cd := g c\<rparr>))" for g
    by (intro keeps_modc_same) (simp add: cpu_same_def)
  from True show ?thesis
    unfolding poll_def
    by (simp only: if_False not_True_eq_False) (intro keeps_bind keeps_getc keeps_if keeps_ret keeps_check_interrupts m)
qed (simp add: poll_def keeps_ret del: mret_def)

lemma step_or_trap_counts:
  "hoare (N n system) (step_or_trap B system)
     (\<lambda>r s. \<exists>j\<le>1. (r = Some Ecall \<longrightarrow> 0 < j) \<and> N (n + of_nat j) system s) (\<lambda>_. N n system)"
proof (rule hoareI)
  fix s assume s: "N n system s"
  obtain r t where r: "step B s = (r, t)" by (rule prod.exhaust)
  note st = hoareD [OF step_counts [of n system] s]
  show "case step_or_trap B system s of
      (Inr r, t) \<Rightarrow> \<exists>j\<le>1. (r = Some Ecall \<longrightarrow> 0 < j) \<and> N (n + of_nat j) system t
    | (Inl (Throw e), t) \<Rightarrow> N n system t | (Inl Panic, t) \<Rightarrow> False"
  proof (cases r)
    case (Inr stop)
    then have "N (n + of_nat 1) system t" using st r by simp
    then show ?thesis using r Inr by (auto simp: step_or_trap_def mtry_def intro: exI [of _ 1])
  next
    case (Inl e)
    then obtain x where x: "e = Throw x" "N n system t" using st r by (cases e) simp_all
    have d: "keeps_at (N n system) (deliver system x) t" by (rule keeps_atD [OF keeps_deliver x(2)])
    have "fst (deliver system x t) \<noteq> Inr (Some Ecall)"
      by (auto simp: deliver_def mbind_def mret_def split: prod.splits sum.splits)
    then show ?thesis using r Inl x d unfolding keeps_at_def
      by (auto simp: step_or_trap_def mtry_def intro: exI [of _ 0] split: prod.splits sum.splits abort.splits)
  qed
qed

text \<open>
  A run retires at most one instruction per unit of its budget, and at least one when it stops at an
  environment call.
\<close>

lemma run_loop_counts:
  "hoare (N n system) (run_loop B system k)
     (\<lambda>stop s. \<exists>j\<le>k. (stop = Ecall \<longrightarrow> 0 < j) \<and> N (n + of_nat j) system s) (\<lambda>_. I (\<lambda>_. True) system)"
proof (induction k arbitrary: n)
  case 0
  show ?case unfolding run_loop.simps by (rule hoareI) (auto simp: mret_def)
next
  case (Suc k)
  have rest: "hoare (\<lambda>s. \<exists>j\<le>1. (r = Some Ecall \<longrightarrow> 0 < j) \<and> N (n + of_nat j) system s)
      (case r of None \<Rightarrow> run_loop B system k | Some stop \<Rightarrow> mret stop)
      (\<lambda>stop s. \<exists>j\<le>Suc k. (stop = Ecall \<longrightarrow> 0 < j) \<and> N (n + of_nat j) system s) (\<lambda>_. I (\<lambda>_. True) system)" for r
  proof (cases r)
    case None
    show ?thesis
    proof (rule hoareI)
      fix s assume "\<exists>j\<le>1. (r = Some Ecall \<longrightarrow> 0 < j) \<and> N (n + of_nat j) system s"
      then obtain j where j: "j \<le> 1" "N (n + of_nat j) system s" by blast
      have "case run_loop B system k s of
          (Inr stop, t) \<Rightarrow> \<exists>i\<le>k. (stop = Ecall \<longrightarrow> 0 < i) \<and> N (n + of_nat j + of_nat i) system t
        | (Inl (Throw e), t) \<Rightarrow> I (\<lambda>_. True) system t | (Inl Panic, t) \<Rightarrow> False"
        by (rule hoareD [OF Suc j(2)])
      then show "case (case r of None \<Rightarrow> run_loop B system k | Some stop \<Rightarrow> mret stop) s of
          (Inr stop, t) \<Rightarrow> \<exists>i\<le>Suc k. (stop = Ecall \<longrightarrow> 0 < i) \<and> N (n + of_nat i) system t
        | (Inl (Throw e), t) \<Rightarrow> I (\<lambda>_. True) system t | (Inl Panic, t) \<Rightarrow> False"
        using None j(1) by (auto simp: add.assoc simp flip: of_nat_add split: prod.splits sum.splits abort.splits
            intro!: exI [of _ "j + _"])
    qed
  next
    case (Some stop)
    have "\<exists>i\<le>Suc k. (stop = Ecall \<longrightarrow> 0 < i) \<and> N (n + of_nat i) system s"
      if e: "\<exists>j\<le>1. (r = Some Ecall \<longrightarrow> 0 < j) \<and> N (n + of_nat j) system s" for s
    proof -
      obtain j where "j \<le> 1" "r = Some Ecall \<longrightarrow> 0 < j" "N (n + of_nat j) system s" using e by blast
      then show ?thesis using Some by (intro exI [of _ j]) auto
    qed
    then show ?thesis using Some by (intro hoareI) (simp add: mret_def)
  qed
  show ?case unfolding run_loop.simps
    by (rule hoare_bind [where Q = "\<lambda>_. N n system"], rule hoare_weaken [OF keeps_poll [unfolded keeps_def]];
        (rule hoare_bind [OF hoare_weaken [OF step_or_trap_counts [of n system]] rest])?; (auto simp: hart_inv_def)?)
qed

theorem run_counts:
  "hoare (N n system) (run B budget)
     (\<lambda>stop s. \<exists>j\<le>unat budget. (stop = Ecall \<longrightarrow> 0 < j) \<and> N (n + of_nat j) system s) (\<lambda>_. I (\<lambda>_. True) system)"
proof (rule hoareI)
  fix s assume s: "N n system s"
  then have "run B budget s = run_loop B system (unat budget) s"
    by (simp add: run_def hart_inv_def mbind_def getc_def mget_def)
  then show "case run B budget s of
      (Inr stop, t) \<Rightarrow> \<exists>j\<le>unat budget. (stop = Ecall \<longrightarrow> 0 < j) \<and> N (n + of_nat j) system t
    | (Inl (Throw e), t) \<Rightarrow> I (\<lambda>_. True) system t | (Inl Panic, t) \<Rightarrow> False"
    using hoareD [OF run_loop_counts [of n system "unat budget"] s] by simp
qed

theorem keeps_run: "keeps (I (\<lambda>_. True) system) (run B budget)"
proof (rule keeps_atI)
  fix s assume "I (\<lambda>_. True) system s"
  then have s: "N (insn_count (fst s)) system s" by (simp add: hart_inv_def)
  show "keeps_at (I (\<lambda>_. True) system) (run B budget) s"
    using hoareD [OF run_counts [of "insn_count (fst s)" system budget] s]
    unfolding keeps_at_def by (auto simp: hart_inv_def split: prod.splits sum.splits abort.splits)
qed

end

text \<open>No exception leaves the run loop: it is a stop or a trap.\<close>

lemma nothrow_run_loop: "nothrow (run_loop B system n)"
proof (induction n)
  case (Suc n)
  then show ?case
    unfolding run_loop.simps poll_def check_interrupts_def step_or_trap_def deliver_def
      exception_to_trap_def Let_def
    by (intro nothrow_intros nothrow_mtry)
qed (simp only: run_loop.simps nothrow_intros)

lemma nothrow_run: "nothrow (run B budget)"
  unfolding run_def by (intro nothrow_intros nothrow_run_loop)

lemma no_abort:
  assumes k: "keeps J m" and n: "nothrow m" and s: "J s"
  obtains a t where "m s = (Inr a, t)" "J t"
proof -
  obtain r t where r: "m s = (r, t)" by (cases "m s")
  show thesis
  proof (cases r)
    case (Inl x)
    then show ?thesis
    proof (cases x)
      case (Throw e)
      with n Inl r have False unfolding nothrow_def by (metis fst_conv)
      then show ?thesis ..
    next
      case Panic
      with keeps_atD [OF k s] Inl r show ?thesis by (simp add: keeps_at_def)
    qed
  next
    case (Inr a)
    with keeps_atD [OF k s] r that show ?thesis by (simp add: keeps_at_def)
  qed
qed

text \<open>A quiet flat memory with a given base and size.\<close>

definition flat_image :: "u64 \<Rightarrow> nat \<Rightarrow> flat_memory \<Rightarrow> bool" where
  "flat_image b n m \<longleftrightarrow> flat_quiet m \<and> fm_base m = b \<and> length (fm_mem m) = n"

lemma flat_store_image:
  "flat_image b n m \<Longrightarrow> flat_in m addr (length ys) \<Longrightarrow> flat_image b n (flat_store m addr ys)"
  using flat_store_quiet [of m addr ys] by (auto simp: flat_image_def flat_store_def flat_in_def)

lemma flat_image_not_wraps: "flat_image b n m \<Longrightarrow> k \<le> 8 \<Longrightarrow> \<not> flat_wraps m addr k"
  by (simp add: flat_image_def flat_quiet_not_wraps)

lemma flat_image_wf: "flat_image b n m \<Longrightarrow> flat_wf m"
  by (simp add: flat_image_def flat_quiet_def)

lemma keeps_image_read: "k \<le> 8 \<Longrightarrow> keeps (flat_image b n) (flat_read k addr)"
  by (rule keeps_atI) (auto simp: keeps_at_def flat_read_run flat_image_not_wraps flat_image_wf)

lemma keeps_image_write: "k \<le> 8 \<Longrightarrow> keeps (flat_image b n) (flat_write k addr v)"
  by (rule keeps_atI) (auto simp: keeps_at_def flat_write_run flat_image_not_wraps flat_store_image flat_image_wf)

interpretation image: quiet_bus flat_bus "flat_image b n" for b n
  by unfold_locales (simp_all add: flat_bus_def keeps_image_read keeps_image_write default_irq_lines_def)

section \<open>Properties\<close>

text \<open>
  C2: for every budget and program, over a flat memory of less than \<open>2 ^ 63\<close> bytes whose base is
  at least 8, and from every hart in which x0 is zero, the index of the syscall ring is below 64
  and the vector length is at most 128 (all three hold at reset), running the interpreter returns
  a stop reason: it never panics and never leaks an exception. It retires at most \<open>budget\<close>
  instructions, and at least one when it stops at a system call. In the state it leaves the three
  conditions hold again, the hart has not gained or lost its privileged state, and the memory has
  the same base and size. The whole instruction set is covered, the vector unit included: no
  vector instruction reaches outside the register file. Over a base below 8 an access that ends
  past \<open>2 ^ 64\<close> panics, as the lemma \<open>run_base_zero_panics\<close> below shows.
\<close>

theorem run_safe:
  assumes "xreg c 0 = 0" and "syscall_log_pos c < 64" and "vs_vl (vector c) \<le> 128"
    and "length (fm_mem m) < 2 ^ 63" and "8 \<le> unat (fm_base m)"
  shows "\<exists>stop c' m' j. run flat_bus budget (c, m) = (Inr stop, (c', m')) \<and>
    j \<le> unat budget \<and> (stop = Ecall \<longrightarrow> 0 < j) \<and> insn_count c' = insn_count c + of_nat j \<and>
    xreg c' 0 = 0 \<and> syscall_log_pos c' < 64 \<and> vs_vl (vector c') \<le> 128 \<and>
    (sys c' = None \<longleftrightarrow> sys c = None) \<and>
    fm_base m' = fm_base m \<and> length (fm_mem m') = length (fm_mem m)"
proof -
  let ?J = "\<lambda>n k m'. k = n \<and> flat_image (fm_base m) (length (fm_mem m)) m'"
  have s: "hart_inv (?J (insn_count c)) (sys c \<noteq> None) (c, m)"
    using assms by (simp add: hart_inv_def flat_image_def flat_quiet_def flat_wf_def)
  obtain r c' m' where r: "run flat_bus budget (c, m) = (r, (c', m'))" by (metis surj_pair)
  have "\<And>e. r \<noteq> Inl (Throw e)" using nothrow_run r unfolding nothrow_def by (metis fst_conv)
  then show ?thesis
    using hoareD [OF image.run_counts s, of budget] r
    by (auto simp: hart_inv_def flat_image_def split: sum.splits abort.splits)
qed

text \<open>
  The bound on the base is needed: over a memory at address 0, as the user-mode machine has it, a
  doubleword load from the last four bytes of the address space panics. The program is
  \<open>ld a0, -4(zero)\<close>.
\<close>

definition wild_load :: flat_memory where
  "wild_load = flat_new 0 [0x03, 0x35, 0xc0, 0xff, 0, 0, 0, 0]"

lemma unat_minus_4: "unat (- 4 :: u64) = 2 ^ 64 - 4"
  by simp

lemma wild_load_reads:
  "read16 flat_bus 0 wild_load = (Inr 0x3503, wild_load)"
  "read16 flat_bus 2 wild_load = (Inr 0xffc0, wild_load)"
  "read64 flat_bus (- 4) wild_load = (Inl Panic, wild_load)"
proof -
  have w: "flat_wf wild_load" by (simp add: flat_wf_def wild_load_def flat_new_def)
  show "read64 flat_bus (- 4) wild_load = (Inl Panic, wild_load)"
    using flat_read_run [OF w, of 8 "- 4", where 'a = 64]
    by (simp add: flat_bus_def flat_in_def flat_wraps_def wild_load_def flat_new_def unat_minus_4)
qed (code_simp+)

lemma flat_bus_jit: "jit_fast_off flat_bus b va pa store = None"
  by (simp add: flat_bus_def default_jit_fast_off_def)

lemma run_base_zero_panics: "fst (run flat_bus 1 (cpu_new, wild_load)) = Inl Panic"
proof -
  have c: "sys cpu_new = None" "pcr cpu_new = 0" "xreg cpu_new 0 = 0" "\<not> interpreter_fused_memory cpu_new"
    by (simp_all add: cpu_new_def)
  have "step flat_bus (cpu_new, wild_load) = mbind (exec32 flat_bus 0xffc03503 0 4) retire (cpu_new, wild_load)"
    using c by (simp add: step_def translate_def busm_def mbind_def fetch16_def map_err_def wild_load_reads Let_def)
  moreover have "ld flat_bus 8 (- 4) (cpu_new, wild_load) = (Inl Panic, (cpu_new, wild_load))"
    using c by (simp add: ld_def ld_slow_def crosses_page_def interpreter_fused_ptr_def translate_def fill_jtlb_def
      flat_bus_jit busm_def bus_load_def mbind_def wild_load_reads)
  then have "exec32 flat_bus 0xffc03503 0 4 (cpu_new, wild_load) = (Inl Panic, (cpu_new, wild_load))"
    using c by (simp add: exec32_def opcode_def exec_load_def funct3_def rs1_def imm_i_def Let_def mbind_def)
  ultimately show ?thesis using c by (simp add: run_def poll_def step_or_trap_def mtry_def mbind_def)
qed

theorem run_safe_witness:
  "\<exists>stop c' m' j. run flat_bus 1000 (cpu_new, flat_new 0x1000 [0x13, 0x05, 0x10, 0, 0x73, 0, 0, 0]) = (Inr stop, (c', m')) \<and>
    j \<le> unat (1000 :: u64) \<and> (stop = Ecall \<longrightarrow> 0 < j) \<and> insn_count c' = insn_count cpu_new + of_nat j \<and>
    xreg c' 0 = 0 \<and> syscall_log_pos c' < 64 \<and> vs_vl (vector c') \<le> 128 \<and> (sys c' = None \<longleftrightarrow> sys cpu_new = None) \<and>
    fm_base m' = fm_base (flat_new 0x1000 [0x13, 0x05, 0x10, 0, 0x73, 0, 0, 0]) \<and>
    length (fm_mem m') = length (fm_mem (flat_new 0x1000 [0x13, 0x05, 0x10, 0, 0x73, 0, 0, 0]))"
  by (rule run_safe) (simp_all add: cpu_new_def vector_default_def flat_new_def)

end
