(* ===== verification/VectorCorrect.thy ===== *)
theory VectorCorrect
  imports VectorSafeFloat
begin

text \<open>
  What the vector instructions compute. Elements are read back as they were written, and the
  single-width binary operations, the byte path of the bitwise ones included, set every active
  element of the destination to the operation on the elements the sources had before the
  instruction and leave the rest of the register file alone.
\<close>

section \<open>Bytes and elements\<close>

unbundle bit_operations_syntax

lemma flat_byte_put:
  "flat_byte (put_bytes off bs v) k = (if off \<le> k \<and> k < off + length bs then bs ! (k - off) else flat_byte v k)"
  by (auto simp: flat_byte_def put_bytes_def VLEN_BYTES_def Let_def)

lemma get_put_same: "n = length bs \<Longrightarrow> get_bytes off n (put_bytes off bs v) = bs"
  by (auto simp: get_bytes_def flat_byte_put intro: nth_equalityI)

lemma get_put_apart:
  "off + n \<le> off' \<or> off' + length bs \<le> off \<Longrightarrow> get_bytes off n (put_bytes off' bs v) = get_bytes off n v"
  by (auto simp: get_bytes_def flat_byte_put)

definition element :: "nat \<Rightarrow> nat \<Rightarrow> nat \<Rightarrow> vector_state \<Rightarrow> u64" where
  "element reg index w v = from_le_bytes (get_bytes (reg * 16 + index * (w div 8)) (w div 8) v)"

lemma read_element_fits: "fits reg i w \<Longrightarrow> read_element reg i w v = Some (element reg i w v)"
  by (simp add: read_element_def element_def fits_def Let_def VREG_COUNT_def VLEN_BYTES_def add.commute)

lemma write_element_fits:
  "fits reg i w \<Longrightarrow> write_element reg i w x v
     = Some (put_bytes (reg * 16 + i * (w div 8)) (to_le_bytes (w div 8) x) v)"
  by (simp add: write_element_def fits_def Let_def VREG_COUNT_def VLEN_BYTES_def add.commute)

lemma element_mask_bits: "eew_ok w \<Longrightarrow> element_mask w = mask w"
  by (auto simp: eew_ok_def element_mask_def mask_eq_exp_minus_1 push_bit_eq_mult)

lemma eew_bytes: "eew_ok w \<Longrightarrow> 8 * (w div 8) = w \<and> 0 < w div 8 \<and> w \<le> 64"
  by (auto simp: eew_ok_def)

lemma bit_element: "bit (from_le_bytes bs :: u64) k \<Longrightarrow> k < 8 * length bs"
  by (auto simp: bit_from_le_bytes)

lemma from_to_le_bytes: "eew_ok w \<Longrightarrow> from_le_bytes (to_le_bytes (w div 8) (x :: u64)) = x AND element_mask w"
proof (rule bit_word_eqI)
  fix k assume w: "eew_ok w" and k: "k < LENGTH(64)"
  then have "k div 8 < w div 8 \<longleftrightarrow> k < w" by (auto simp: eew_ok_def)
  with w k show "bit (from_le_bytes (to_le_bytes (w div 8) x) :: u64) k = bit (x AND element_mask w) k"
    by (auto simp: bit_from_le_bytes nth_to_le_bytes bit_simps element_mask_bits)
qed

lemma element_masked: "eew_ok w \<Longrightarrow> element r i w v AND element_mask w = element r i w v"
proof (rule bit_word_eqI)
  fix k assume w: "eew_ok w" and k: "k < LENGTH(64)"
  have "bit (element r i w v) k \<Longrightarrow> k < w"
    using bit_element [of "get_bytes (r * 16 + i * (w div 8)) (w div 8) v" k] eew_bytes [OF w]
    by (simp add: element_def get_bytes_def)
  then show "bit (element r i w v AND element_mask w) k = bit (element r i w v) k"
    using w k by (auto simp: bit_simps element_mask_bits)
qed

lemma element_write_same:
  "eew_ok w \<Longrightarrow> element r i w (put_bytes (r * 16 + i * (w div 8)) (to_le_bytes (w div 8) x) v) = x AND element_mask w"
  by (simp add: element_def get_put_same from_to_le_bytes)

section \<open>Storing a set of elements\<close>

text \<open>The elements \<open>is\<close> of the group at \<open>d\<close> for which \<open>g\<close> gives a value, stored in turn.\<close>

definition store_elements :: "nat \<Rightarrow> nat \<Rightarrow> (nat \<Rightarrow> u64 option) \<Rightarrow> nat list \<Rightarrow> vector_state \<Rightarrow> vector_state" where
  "store_elements d w g is v = fold (\<lambda>i v. case g i of None \<Rightarrow> v
     | Some x \<Rightarrow> put_bytes (d * 16 + i * (w div 8)) (to_le_bytes (w div 8) x) v) is v"

lemma store_elements_simps [simp]:
  "store_elements d w g [] v = v"
  "store_elements d w g (is @ [i]) v = (case g i of None \<Rightarrow> store_elements d w g is v
     | Some x \<Rightarrow> put_bytes (d * 16 + i * (w div 8)) (to_le_bytes (w div 8) x) (store_elements d w g is v))"
  by (simp_all add: store_elements_def split: option.split)

lemma store_elements_apart:
  assumes "\<And>i. i \<in> set is \<Longrightarrow> off + n \<le> d * 16 + i * (w div 8) \<or> d * 16 + i * (w div 8) + w div 8 \<le> off"
  shows "get_bytes off n (store_elements d w g is v) = get_bytes off n v"
  using assms
proof (induction "is" rule: rev_induct)
  case (snoc i "is")
  then show ?case by (auto split: option.splits simp: get_put_apart)
qed simp

lemma index_apart: "i \<noteq> j \<Longrightarrow> i * b + b \<le> j * b \<or> j * b + b \<le> i * (b :: nat)"
  by (metis add.commute add_leD1 linorder_neqE_nat mult_Suc mult_le_mono1 not_less_eq_eq leI Suc_leI)

lemma element_store:
  assumes "distinct is" "eew_ok w"
  shows "element d j w (store_elements d w g is v) =
    (if j \<in> set is \<and> g j \<noteq> None then the (g j) AND element_mask w else element d j w v)"
  using assms(1)
proof (induction "is" rule: rev_induct)
  case (snoc i "is")
  show ?case
  proof (cases "j = i")
    case True
    have "element d j w (store_elements d w g is v) = element d j w v"
      using snoc True by simp
    with True assms(2) show ?thesis by (auto split: option.splits simp: element_write_same)
  next
    case False
    have "element d j w (put_bytes (d * 16 + i * (w div 8)) (to_le_bytes (w div 8) x) v') = element d j w v'" for x :: u64 and v'
      using index_apart [OF False, of "w div 8"] unfolding element_def
      by (subst get_put_apart) auto
    with snoc False show ?thesis by (auto split: option.splits)
  qed
qed simp

lemma store_elements_fields [simp]:
  "vs_vl (store_elements d w g is v) = vs_vl v" "vs_vtype (store_elements d w g is v) = vs_vtype v"
  "vs_vstart (store_elements d w g is v) = vs_vstart v" "vs_vxrm (store_elements d w g is v) = vs_vxrm v"
  "vs_vxsat (store_elements d w g is v) = vs_vxsat v"
  by (induction "is" rule: rev_induct) (auto simp: put_bytes_def split: option.splits)

section \<open>Register groups of one width\<close>

lemma groups_same_or_apart:
  assumes "validate_group d r 1" "validate_group s r 1"
  shows "d = s \<or> d + register_span r \<le> s \<or> s + register_span r \<le> d"
proof (cases "register_span r = 1")
  case False
  let ?n = "register_span r"
  from False assms have "?n dvd d" "?n dvd s"
    by (auto simp: validate_group_def Let_def mod_eq_0_iff_dvd)
  then obtain a b where "d = ?n * a" "s = ?n * b" unfolding dvd_def by blast
  then show ?thesis using index_apart [of a b ?n] by (cases "a = b") (auto simp: mult.commute)
qed auto

lemma group_element_end:
  assumes "config_ok config" "i < vlmax config"
  shows "i * (sew config div 8) + sew config div 8 \<le> 16 * register_span (lmul config)"
proof -
  have "(i + 1) * (sew config div 8) \<le> vlmax config * (sew config div 8)"
    using assms(2) by (intro mult_le_mono1) simp
  also have "\<dots> \<le> 16 * register_span (lmul config)" by (rule group_bytes [OF assms(1) emul_sew [OF assms(1)]])
  finally show ?thesis by simp
qed

lemma element_store_source:
  assumes c: "config_ok config" and g: "validate_group d (lmul config) 1" "validate_group s (lmul config) 1"
    and l: "\<And>i. i \<in> set is \<Longrightarrow> i < vlmax config" and j: "j < vlmax config" "j \<notin> set is"
  shows "element s j (sew config) (store_elements d (sew config) g is v) = element s j (sew config) v"
  unfolding element_def
proof (subst store_elements_apart)
  fix i assume i: "i \<in> set is"
  let ?b = "sew config div 8"
  have e: "i * ?b + ?b \<le> 16 * register_span (lmul config)" "j * ?b + ?b \<le> 16 * register_span (lmul config)"
    using group_element_end [OF c] l [OF i] j(1) by blast+
  have "i \<noteq> j" using i j(2) by blast
  from groups_same_or_apart [OF g] index_apart [OF this, of ?b] e
  show "s * 16 + j * ?b + ?b \<le> d * 16 + i * ?b \<or> d * 16 + i * ?b + ?b \<le> s * 16 + j * ?b"
    by (elim disjE) linarith+
qed simp

lemma mask_bit_flat: "i < 128 \<Longrightarrow> mask_bit i v = Some (bit (flat_byte v (i div 8)) (i mod 8))"
  by (auto simp: mask_bit_def flat_byte_def VLEN_BYTES_def)

lemma flat_byte_store_apart:
  assumes "\<And>i. i \<in> set is \<Longrightarrow> k < d * 16 + i * (w div 8) \<or> d * 16 + i * (w div 8) + w div 8 \<le> k"
  shows "flat_byte (store_elements d w g is v) k = flat_byte v k"
  using store_elements_apart [of "is" k 1 d w g v] assms by (force simp: get_bytes_def)

lemma lmul_span_pos: "config_ok config \<Longrightarrow> 0 < register_span (lmul config)"
  using group_element_end [of config 0] config_vlmax [of config] eew_bytes [OF config_sew, of config]
  by (cases "register_span (lmul config)") auto

lemma mask_span: "register_span MASK_REGISTER_RATIO = 1"
  by (simp add: register_span_def MASK_REGISTER_RATIO_def)

lemma mask_bit_store:
  assumes "config_ok config" "\<not> mask_overlap d (lmul config)" "i < 128"
  shows "mask_bit i (store_elements d w g is v) = mask_bit i v"
proof -
  have "0 < d"
    using assms(2) lmul_span_pos [OF assms(1)]
    by (cases d) (auto simp: mask_overlap_def groups_overlap_def Let_def mask_span)
  then have "i div 8 < d * 16" using assms(3) by (cases d) auto
  then show ?thesis using assms(3) by (simp add: mask_bit_flat) (subst flat_byte_store_apart, auto)
qed

section \<open>Loops over the elements\<close>

lemma for_in_upt:
  assumes "\<And>i acc. m \<le> i \<Longrightarrow> i < n \<Longrightarrow> body i acc (S i) = (Inr (h i acc), S (Suc i))" and "m \<le> n"
  shows "for_in [m..<n] acc body (S m) = (Inr (fold h [m..<n] acc), S n)"
  using assms(2,1)
proof (induction n rule: dec_induct)
  case (step n)
  then show ?case by (simp add: for_in_append mbind_def)
qed simp

section \<open>Single-width binary operations\<close>

text \<open>
  The second operand of element \<open>i\<close>, whether the element is active, and the result of the
  operation with its saturation flag, all read from the hart before the instruction.
\<close>

definition binary_operand :: "u32 \<Rightarrow> nat \<Rightarrow> u32 \<Rightarrow> u32 \<Rightarrow> nat \<Rightarrow> cpu \<Rightarrow> u64" where
  "binary_operand insn w funct6 format i c =
     (if format = 0 then element (rs1 insn) i w (vector c)
      else if format = 3 \<and> (funct6 = 0x25 \<or> funct6 = 0x28 \<or> funct6 = 0x29) then of_nat (rs1 insn)
      else if format = 3 then simm5 (rs1 insn)
      else xreg c (rs1 insn)) AND element_mask w"

definition active :: "u32 \<Rightarrow> nat \<Rightarrow> cpu \<Rightarrow> bool" where
  "active insn i c \<longleftrightarrow> vm_bit insn \<or> mask_bit i (vector c) = Some True"

definition binary_result :: "u32 \<Rightarrow> nat \<Rightarrow> u32 \<Rightarrow> u32 \<Rightarrow> nat \<Rightarrow> cpu \<Rightarrow> u64 \<times> bool" where
  "binary_result insn w funct6 format i c =
     the (binary_value funct6 w (element (rs2 insn) i w (vector c)) (binary_operand insn w funct6 format i c))"

abbreviation binary_store :: "u32 \<Rightarrow> nat \<Rightarrow> u32 \<Rightarrow> u32 \<Rightarrow> cpu \<Rightarrow> nat \<Rightarrow> u64 option" where
  "binary_store insn w funct6 format c i \<equiv> if active insn i c
     then Some (fst (binary_result insn w funct6 format i c) AND element_mask w) else None"

lemma vget_run: "f (vector (fst s)) = Some a \<Longrightarrow> mbind (vget f) g s = g a s"
  by (simp add: vget_def mbind_assoc unwrap_def)

lemma vmod_run: "f (vector (fst s)) = Some v \<Longrightarrow> mbind (vmod f) g s = g () ((fst s)\<lparr>vector := v\<rparr>, snd s)"
  by (simp add: vmod_def vget_def mbind_assoc unwrap_def)

text \<open>The hart once the elements \<open>m..<k\<close> have been written.\<close>

definition binary_state :: "u32 \<Rightarrow> nat \<Rightarrow> u32 \<Rightarrow> u32 \<Rightarrow> nat \<Rightarrow> cpu \<Rightarrow> nat \<Rightarrow> cpu" where
  "binary_state insn w funct6 format m h k = h\<lparr>vector :=
     store_elements (rd insn) w (binary_store insn w funct6 format h) [m..<k] (vector h)\<rparr>"

lemma binary_element_run:
  assumes c: "config_ok config" and g: "validate_group (rd insn) (lmul config) 1" "validate_group (rs2 insn) (lmul config) 1"
      "format = 0 \<Longrightarrow> validate_group (rs1 insn) (lmul config) 1"
    and f: "supported_binary funct6 format" "\<not> (0x18 \<le> funct6 \<and> funct6 \<le> 0x1f)"
    and i: "i < vlmax config" "m \<le> i" and a: "active insn i h" and w: "w = sew config"
  shows "binary_element insn config funct6 format i sat (binary_state insn w funct6 format m h i, b)
    = (Inr (sat \<or> snd (binary_result insn w funct6 format i h)), (binary_state insn w funct6 format m h (Suc i), b))"
proof -
  let ?S = "binary_state insn w funct6 format m h"
  have e: "read_element s i w (vector (?S i)) = Some (element s i w (vector h))"
    if "validate_group s (lmul config) 1" for s
    using i fits_lmul [OF c that i(1)] unfolding binary_state_def w
    by (subst read_element_fits) (auto intro!: element_store_source [OF c g(1) that])
  have nm: "funct6 \<noteq> 0x17"
    using f by (auto simp: supported_binary_def split: if_splits)
  have fm: "format = 0 \<or> format = 3 \<or> format = 4" using binary_formats [OF f(1)] .
  obtain r where r: "binary_value funct6 w (element (rs2 insn) i w (vector h)) (binary_operand insn w funct6 format i h) = Some r"
    using binary_some [OF f] by blast
  have x: "xreg (?S i) = xreg h" by (simp add: binary_state_def)
  have wr: "write_element (rd insn) i w (fst r AND element_mask w) (vector (?S i)) = Some (vector (?S (Suc i)))"
    using a r i c g(1) unfolding binary_state_def w
    by (simp add: write_element_fits fits_lmul binary_result_def)
  have u: "(?S i)\<lparr>vector := vector (?S (Suc i))\<rparr> = ?S (Suc i)" by (simp add: binary_state_def)
  have k: "mbind (unwrap (binary_value funct6 w (element (rs2 insn) i w (vector h)) y)) (\<lambda>(val, t).
      mbind (vmod (write_element (rd insn) i w (val AND element_mask w))) (\<lambda>_. mret (sat \<or> t))) (?S i, b) =
    (Inr (sat \<or> snd (binary_result insn w funct6 format i h)), (?S (Suc i), b))"
    if "y = binary_operand insn w funct6 format i h" for y
    using that r wr u by (simp add: vmod_run binary_result_def unwrap_def case_prod_beta)
  show ?thesis
    using fm e [OF g(2)] e [OF g(3)] f(2) x k [OF refl]
    unfolding binary_element_def Let_def w [symmetric]
    by (auto simp: nm vget_run binary_operand_def)
qed

lemma binary_elements_run:
  assumes c: "config_ok config" and g: "validate_group (rd insn) (lmul config) 1" "validate_group (rs2 insn) (lmul config) 1"
      "format = 0 \<Longrightarrow> validate_group (rs1 insn) (lmul config) 1" "vm_bit insn \<or> \<not> mask_overlap (rd insn) (lmul config)"
    and f: "supported_binary funct6 format" "\<not> (0x18 \<le> funct6 \<and> funct6 \<le> 0x1f)"
    and n: "n \<le> vlmax config" and w: "w = sew config"
  shows "elements (\<not> vm_bit insn) m n False (binary_element insn config funct6 format) (h, b)
    = (Inr (\<exists>i\<in>{m..<n}. active insn i h \<and> snd (binary_result insn w funct6 format i h)),
       (binary_state insn w funct6 format m h n, b))"
proof (cases "m \<le> n")
  case True
  let ?S = "binary_state insn w funct6 format m h"
  let ?h = "\<lambda>i sat. sat \<or> active insn i h \<and> snd (binary_result insn w funct6 format i h)"
  let ?body = "\<lambda>i sat. if \<not> vm_bit insn then mbind (vget (mask_bit i)) (\<lambda>m. if m
      then binary_element insn config funct6 format i sat else mret sat)
    else binary_element insn config funct6 format i sat"
  have s: "?body i sat (?S i, b) = (Inr (?h i sat), (?S (Suc i), b))"
    if "m \<le> i" "i < n" for i sat
  proof -
    have i: "i < vlmax config" "i < 128" using that n config_vlmax [OF c] by auto
    have "mask_bit i (vector (?S i)) = mask_bit i (vector h)" if "\<not> vm_bit insn"
      using mask_bit_store [OF c _ i(2)] g(4) that by (auto simp: binary_state_def)
    moreover obtain x where "mask_bit i (vector h) = Some x" using mask_bit_flat [OF i(2)] by blast
    moreover have "?S (Suc i) = ?S i" if "\<not> active insn i h" using that \<open>m \<le> i\<close> by (simp add: binary_state_def)
    ultimately show ?thesis
      using binary_element_run [OF c g(1-3) f i(1) that(1) _ w, of h sat b]
      by (cases x; cases "vm_bit insn") (auto simp: vget_run active_def)
  qed
  have "fold ?h xs sat = (sat \<or> (\<exists>i\<in>set xs. active insn i h \<and> snd (binary_result insn w funct6 format i h)))" for xs sat
    by (induction xs arbitrary: sat) auto
  moreover have "?S m = h" by (simp add: binary_state_def)
  ultimately show ?thesis
    unfolding elements_def
    using for_in_upt [of m n ?body "\<lambda>i. (?S i, b)" ?h False, OF s True] by simp
qed (simp add: elements_def binary_state_def)

section \<open>The byte path\<close>

lemma vector_eqI:
  assumes "\<And>k. flat_byte a k = flat_byte b k" "\<And>r k. 16 \<le> k \<Longrightarrow> vs_regs a r k = vs_regs b r k"
    "vs_vl a = vs_vl b" "vs_vtype a = vs_vtype b" "vs_vstart a = vs_vstart b" "vs_vxrm a = vs_vxrm b" "vs_vxsat a = vs_vxsat b"
  shows "a = (b :: vector_state)"
proof -
  have "vs_regs a r k = vs_regs b r k" for r k
    using assms(1) [of "r * 16 + k"] assms(2) [of k r] by (cases "k < 16") (auto simp: flat_byte_def VLEN_BYTES_def)
  then have "vs_regs a = vs_regs b" by blast
  with assms show ?thesis by (cases a, cases b) simp
qed

lemma put_bytes_fields [simp]:
  "vs_vtype (put_bytes off bs v) = vs_vtype v" "vs_vstart (put_bytes off bs v) = vs_vstart v"
  "vs_vxrm (put_bytes off bs v) = vs_vxrm v" "vs_vxsat (put_bytes off bs v) = vs_vxsat v"
  "16 \<le> k \<Longrightarrow> vs_regs (put_bytes off bs v) r k = vs_regs v r k"
  by (simp_all add: put_bytes_def VLEN_BYTES_def)

text \<open>\<open>v'\<close> is \<open>v\<close> with the bytes \<open>dst..<dst + n\<close> set to \<open>f\<close> of their index.\<close>

definition bytes_set :: "nat \<Rightarrow> nat \<Rightarrow> (nat \<Rightarrow> u8) \<Rightarrow> vector_state \<Rightarrow> vector_state \<Rightarrow> bool" where
  "bytes_set dst n f v v' \<longleftrightarrow>
     (\<forall>k. flat_byte v' k = (if dst \<le> k \<and> k < dst + n then f (k - dst) else flat_byte v k)) \<and>
     (\<forall>r k. 16 \<le> k \<longrightarrow> vs_regs v' r k = vs_regs v r k) \<and>
     vs_vl v' = vs_vl v \<and> vs_vtype v' = vs_vtype v \<and> vs_vstart v' = vs_vstart v \<and> vs_vxrm v' = vs_vxrm v \<and>
     vs_vxsat v' = vs_vxsat v"

lemma bytes_set_unique: "bytes_set dst n f v a \<Longrightarrow> bytes_set dst n f v b \<Longrightarrow> a = b"
  by (rule vector_eqI) (simp_all add: bytes_set_def)

lemma bytes_set_0: "bytes_set dst 0 f v v"
  by (auto simp: bytes_set_def)

lemma bytes_set_put:
  assumes "bytes_set dst n f v v'" and "\<And>j. j < length bs \<Longrightarrow> bs ! j = f (n + j)"
  shows "bytes_set dst (n + length bs) f v (put_bytes (dst + n) bs v')"
  using assms by (auto simp: bytes_set_def flat_byte_put)

lemma bit_bitwise: "bit (bitwise_value f a b) k = (if f = 0x09 then bit a k \<and> bit b k
    else if f = 0x0a then bit a k \<or> bit b k else bit a k \<noteq> bit (b :: 'a::len word) k)"
  by (simp add: bitwise_value_def bit_simps)

lemma bitwise_byte:
  assumes "j < n" "n \<le> 8" "length xs = n" "length ys = n"
  shows "to_le_bytes n (bitwise_value f (from_le_bytes xs :: u64) (from_le_bytes ys)) ! j = bitwise_value f (xs ! j) (ys ! j)"
proof (rule bit_word_eqI)
  fix k assume "k < LENGTH(8)"
  then have k: "(8 * j + k) div 8 = j" "(8 * j + k) mod 8 = k" "8 * j + k < 64" "k < 8" using assms(1,2) by auto
  then show "bit (to_le_bytes n (bitwise_value f (from_le_bytes xs :: u64) (from_le_bytes ys)) ! j) k
      = bit (bitwise_value f (xs ! j) (ys ! j)) k"
    using assms by (simp add: nth_to_le_bytes bit_ucast_iff bit_drop_bit_eq bit_bitwise bit_from_le_bytes)
qed

abbreviation bitwise_at :: "u32 \<Rightarrow> nat \<Rightarrow> nat \<Rightarrow> vector_state \<Rightarrow> nat \<Rightarrow> u8" where
  "bitwise_at f src2 src1 v k \<equiv> bitwise_value f (flat_byte v (src2 + k)) (flat_byte v (src1 + k))"

definition same_or_apart :: "nat \<Rightarrow> nat \<Rightarrow> nat \<Rightarrow> bool" where
  "same_or_apart dst src n \<longleftrightarrow> src = dst \<or> src + n \<le> dst \<or> dst + n \<le> src"

lemma bytes_set_source:
  "bytes_set dst o' f v v' \<Longrightarrow> same_or_apart dst src n \<Longrightarrow> o' \<le> k \<Longrightarrow> k < n \<Longrightarrow> flat_byte v' (src + k) = flat_byte v (src + k)"
  by (auto simp: bytes_set_def same_or_apart_def)

lemma bitwise_words_set:
  assumes "src2 + n \<le> 512" "src1 + n \<le> 512" "dst + n \<le> 512" "same_or_apart dst src2 n" "same_or_apart dst src1 n"
    and "bytes_set dst offset (bitwise_at f src2 src1 v) v v'" "offset \<le> n"
  shows "\<exists>o' v''. bitwise_words f dst src2 src1 n offset v' = Some (o', v'') \<and> o' \<le> n \<and>
    bytes_set dst o' (bitwise_at f src2 src1 v) v v''"
  using assms
proof (induction f dst src2 src1 n offset v' rule: bitwise_words.induct)
  case (1 f dst src2 src1 n offset v')
  show ?case
  proof (cases "offset + 8 \<le> n")
    case True
    let ?x = "bitwise_value f (from_le_bytes (get_bytes (src2 + offset) 8 v') :: u64) (from_le_bytes (get_bytes (src1 + offset) 8 v'))"
    have "bytes_set dst (offset + length (to_le_bytes 8 ?x)) (bitwise_at f src2 src1 v) v
        (put_bytes (dst + offset) (to_le_bytes 8 ?x) v')"
    proof (rule bytes_set_put [OF "1.prems"(6)])
      fix j assume j: "j < length (to_le_bytes 8 ?x)"
      then have "flat_byte v' (s + (offset + j)) = flat_byte v (s + (offset + j))" if "same_or_apart dst s n" for s
        using True by (intro bytes_set_source [OF "1.prems"(6) that]) auto
      then show "to_le_bytes 8 ?x ! j = bitwise_at f src2 src1 v (offset + j)"
        using j "1.prems"(4,5) by (simp add: bitwise_byte get_bytes_def add.assoc)
    qed
    then show ?thesis
      using "1.IH" [OF True _ refl refl] "1.prems" True
      by (subst bitwise_words.simps) (auto simp: VREG_COUNT_def VLEN_BYTES_def Let_def)
  qed (use 1 in \<open>subst bitwise_words.simps, auto\<close>)
qed

lemma bitwise_tail_set:
  assumes "src2 + n \<le> 512" "src1 + n \<le> 512" "dst + n \<le> 512" "same_or_apart dst src2 n" "same_or_apart dst src1 n"
    and "bytes_set dst offset (bitwise_at f src2 src1 v) v v'" "offset \<le> n"
  shows "\<exists>v''. bitwise_tail f dst src2 src1 n offset v' = Some v'' \<and> bytes_set dst n (bitwise_at f src2 src1 v) v v''"
  using assms
proof (induction f dst src2 src1 n offset v' rule: bitwise_tail.induct)
  case (1 f dst src2 src1 n offset v')
  show ?case
  proof (cases "offset < n")
    case True
    let ?x = "bitwise_at f src2 src1 v' offset"
    have "bytes_set dst (offset + length [?x]) (bitwise_at f src2 src1 v) v (put_bytes (dst + offset) [?x] v')"
      using True "1.prems"(4,5) by (intro bytes_set_put [OF "1.prems"(6)]) (auto simp: bytes_set_source [OF "1.prems"(6)])
    then show ?thesis
      using "1.IH" "1.prems" True
      by (subst bitwise_tail.simps) (auto simp: VREG_COUNT_def VLEN_BYTES_def)
  qed (use 1 in \<open>subst bitwise_tail.simps, auto\<close>)
qed

lemma bitwise_bytes_set:
  assumes "s2 * 16 + n \<le> 512" "s1 * 16 + n \<le> 512" "d * 16 + n \<le> 512"
    "same_or_apart (d * 16) (s2 * 16) n" "same_or_apart (d * 16) (s1 * 16) n"
  shows "\<exists>v'. bitwise_bytes f d s2 s1 n v = Some v' \<and> bytes_set (d * 16) n (bitwise_at f (s2 * 16) (s1 * 16) v) v v'"
proof -
  obtain o' v' where "bitwise_words f (d * 16) (s2 * 16) (s1 * 16) n 0 v = Some (o', v')" "o' \<le> n"
      "bytes_set (d * 16) o' (bitwise_at f (s2 * 16) (s1 * 16) v) v v'"
    using bitwise_words_set [OF assms bytes_set_0] by blast
  with bitwise_tail_set [OF assms] show ?thesis by (auto simp: bitwise_bytes_def VLEN_BYTES_def)
qed

lemma store_bytes_set:
  assumes "\<And>i. i < n \<Longrightarrow> \<exists>x. g i = Some x \<and> (\<forall>j < w div 8. to_le_bytes (w div 8) x ! j = F (i * (w div 8) + j))"
  shows "bytes_set (d * 16) (n * (w div 8)) F v (store_elements d w g [0..<n] v)"
  using assms
proof (induction n)
  case (Suc n)
  from Suc.prems [of n] obtain x where "g n = Some x" "\<forall>j < w div 8. to_le_bytes (w div 8) x ! j = F (n * (w div 8) + j)"
    by auto
  with bytes_set_put [OF Suc.IH, of "to_le_bytes (w div 8) x"] Suc.prems show ?case
    by (simp add: add.commute)
qed (simp add: bytes_set_0)

lemma bitwise_masked:
  assumes "eew_ok w"
  shows "bitwise_value f (element r i w v) (element r' j w v) AND element_mask w
    = bitwise_value f (element r i w v) (element r' j w v)"
proof -
  have "bit (element a k w v) m \<Longrightarrow> m < w" for a k m
    using arg_cong [OF element_masked [OF assms, of a k v], of "\<lambda>x. bit x m"] assms
    by (auto simp: bit_simps element_mask_bits)
  then show ?thesis
    using assms eew_bytes [OF assms]
    by (intro bit_word_eqI) (auto simp: bit_simps bit_bitwise element_mask_bits)
qed

lemma binary_value_bitwise: "0x09 \<le> f \<Longrightarrow> f \<le> 0x0b \<Longrightarrow> binary_value f w a b = Some (bitwise_value f a b, False)"
proof -
  assume "0x09 \<le> f" "f \<le> 0x0b"
  then have "unat f = 9 \<or> unat f = 10 \<or> unat f = 11" by (auto simp: word_le_nat_alt)
  then have "f = 9 \<or> f = 10 \<or> f = 11" by (auto simp: word_unat_eq_iff)
  then show ?thesis by (auto simp: binary_value_def bitwise_value_def)
qed

lemma same_or_apart_group:
  assumes c: "config_ok config" and g: "validate_group d (lmul config) 1" "validate_group s (lmul config) 1"
    and n: "n \<le> vlmax config"
  shows "same_or_apart (d * 16) (s * 16) (n * (sew config div 8))"
proof -
  have "n * (sew config div 8) \<le> vlmax config * (sew config div 8)" using n by (rule mult_le_mono1)
  also have "\<dots> \<le> 16 * register_span (lmul config)" by (rule group_bytes [OF c emul_sew [OF c]])
  finally have "n * (sew config div 8) \<le> 16 * register_span (lmul config)" .
  with groups_same_or_apart [OF g] show ?thesis unfolding same_or_apart_def by (elim disjE) linarith+
qed

lemma binary_result_bitwise:
  assumes "0x09 \<le> f" "f \<le> 0x0b" "eew_ok w"
  shows "binary_result insn w f 0 i h = (bitwise_value f (element (rs2 insn) i w (vector h)) (element (rs1 insn) i w (vector h)), False)"
  using assms by (simp add: binary_result_def binary_operand_def binary_value_bitwise element_masked)

lemma bitwise_bytes_store:
  assumes c: "config_ok config" and g: "validate_group (rd insn) (lmul config) 1" "validate_group (rs2 insn) (lmul config) 1"
      "validate_group (rs1 insn) (lmul config) 1"
    and f: "0x09 \<le> f" "f \<le> 0x0b" and n: "n \<le> vlmax config" and vm: "vm_bit insn" and w: "w = sew config"
  shows "bitwise_bytes f (rd insn) (rs2 insn) (rs1 insn) (n * (w div 8)) (vector h)
    = Some (vector (binary_state insn w f 0 0 h n))"
proof -
  let ?F = "bitwise_at f (rs2 insn * 16) (rs1 insn * 16) (vector h)"
  have e: "eew_ok w" using config_sew [OF c] w by simp
  note b = eew_bytes [OF e]
  obtain v' where v': "bitwise_bytes f (rd insn) (rs2 insn) (rs1 insn) (n * (w div 8)) (vector h) = Some v'"
      "bytes_set (rd insn * 16) (n * (w div 8)) ?F (vector h) v'"
    using bitwise_bytes_set [OF group_range [OF c g(2) n] group_range [OF c g(3) n] group_range [OF c g(1) n]
        same_or_apart_group [OF c g(1,2) n] same_or_apart_group [OF c g(1,3) n], of f "vector h"] w by blast
  have "bytes_set (rd insn * 16) (n * (w div 8)) ?F (vector h)
      (store_elements (rd insn) w (binary_store insn w f 0 h) [0..<n] (vector h))"
  proof (rule store_bytes_set)
    fix i assume "i < n"
    have "to_le_bytes (w div 8) (bitwise_value f (element (rs2 insn) i w (vector h)) (element (rs1 insn) i w (vector h))) ! j
        = ?F (i * (w div 8) + j)" if "j < w div 8" for j
      unfolding element_def using that b by (subst bitwise_byte) (auto simp: get_bytes_def add.assoc)
    then show "\<exists>x. binary_store insn w f 0 h i = Some x \<and> (\<forall>j < w div 8. to_le_bytes (w div 8) x ! j = ?F (i * (w div 8) + j))"
      using vm by (simp add: active_def binary_result_bitwise [OF f e] bitwise_masked [OF e])
  qed
  with v' show ?thesis by (simp add: binary_state_def bytes_set_unique)
qed

section \<open>Signed elements\<close>

lemma signed_element_take:
  assumes "eew_ok w" shows "signed_element x w = signed_take_bit (w - 1) x"
proof (rule bit_word_eqI)
  fix n assume "n < LENGTH(64)"
  with assms show "bit (signed_element x w) n = bit (signed_take_bit (w - 1) x) n"
    by (cases "n = w - 1") (auto simp: eew_ok_def signed_element_def bit_simps min_def)
qed

lemma bit_signed_narrow:
  assumes "eew_ok w" shows "bit (signed_narrow x w) m = bit x (min m (w - 1))"
proof -
  have "min (min m 63) (w - 1) = min m (w - 1)" "w - 1 < 64" using assms by (auto simp: eew_ok_def)
  then show ?thesis
    using assms by (auto simp: signed_narrow_def signed_element_take bit_sint_iff bit_simps min_def)
qed

lemma signed_narrow_of_int:
  assumes w: "eew_ok w" and k: "- (2 ^ (w - 1)) \<le> k" "k < 2 ^ (w - 1)"
  shows "signed_narrow (word_of_int k AND element_mask w) w = k"
proof (rule bit_eqI)
  fix m
  have "signed_take_bit (w - 1) k = k" using k by (simp add: signed_take_bit_int_eq_self)
  then have "bit k m = bit (signed_take_bit (w - 1) k) m" by simp
  also have "\<dots> = bit k (min (w - 1) m)" by (simp add: bit_signed_take_bit_iff)
  finally show "bit (signed_narrow (word_of_int k AND element_mask w) w) m = bit k m"
    using w eew_bytes [OF w] by (auto simp: bit_signed_narrow bit_simps element_mask_bits min.commute)
qed

lemma unat_element_mask: "eew_ok w \<Longrightarrow> unat (element_mask w) = 2 ^ w - 1"
  by (auto simp: eew_ok_def element_mask_def unsigned_minus_1_eq_mask mask_eq_exp_minus_1)

lemma unat_wide: "unat (ucast a :: u128) = unat (a :: u64)"
proof -
  have "unat a < 2 ^ LENGTH(64)" by (rule unsigned_less)
  then show ?thesis by (simp add: unsigned_ucast_eq take_bit_nat_eq_self)
qed

lemma unat_wide_sum: "unat (ucast a + ucast b :: u128) = unat (a :: u64) + unat (b :: u64)"
proof -
  have "unat a < 2 ^ LENGTH(64)" "unat b < 2 ^ LENGTH(64)" by (rule unsigned_less)+
  then show ?thesis by (simp add: unat_word_ariths unat_wide)
qed

lemma signed_saturate_spec:
  assumes w: "eew_ok w"
  shows "signed_narrow (fst (signed_saturate w k) AND element_mask w) w = clamp (- (2 ^ (w - 1))) (2 ^ (w - 1) - 1) k"
    and "snd (signed_saturate w k) \<longleftrightarrow> \<not> (- (2 ^ (w - 1)) \<le> k \<and> k < 2 ^ (w - 1))"
proof -
  let ?k = "clamp (- (2 ^ (w - 1))) (2 ^ (w - 1) - 1) k"
  have "- (2 ^ (w - 1)) \<le> ?k" "?k < 2 ^ (w - 1)" by (auto simp: clamp_def)
  from signed_narrow_of_int [OF w this] show "signed_narrow (fst (signed_saturate w k) AND element_mask w) w = ?k"
    by (simp add: signed_saturate_def Let_def)
  show "snd (signed_saturate w k) \<longleftrightarrow> \<not> (- (2 ^ (w - 1)) \<le> k \<and> k < 2 ^ (w - 1))"
    by (auto simp: signed_saturate_def Let_def)
qed

section \<open>Normalisation\<close>

lemma normalize_fraction_counts:
  assumes "0 < n" "n < 64" "0 < unat f" "unat f < 2 ^ n"
  shows "\<exists>k < n. normalize_fraction n e f = Some (e - of_nat k, push_bit k f) \<and> unat (push_bit k f) = unat f * 2 ^ k \<and>
    2 ^ (n - 1) \<le> unat f * 2 ^ k \<and> unat f * 2 ^ k < 2 ^ n"
proof -
  have ends: "\<exists>k \<le> m. normalize_fraction n e f = Some (e - of_nat k, push_bit k f) \<and> unat (push_bit k f) = unat f * 2 ^ k \<and>
    2 ^ (n - 1) \<le> unat f * 2 ^ k \<and> unat f * 2 ^ k < 2 ^ n" if "2 ^ (n - 1) \<le> unat f * 2 ^ m" "unat f < 2 ^ n" for m
    using that
  proof (induction m arbitrary: e f)
    case 0
    then show ?case by (subst normalize_fraction.simps) (auto simp: drop_bit_zero)
  next
    case (Suc m)
    show ?case
    proof (cases "drop_bit (n - 1) f = 0")
      case True
      then have u: "unat f < 2 ^ (n - 1)" by (simp only: drop_bit_zero)
      moreover have "(2::nat) ^ (n - 1) \<le> 2 ^ 62" using assms(2) by (intro power_increasing) auto
      ultimately have d: "unat (push_bit 1 f) = 2 * unat f"
        by (simp add: push_bit_eq_mult unat_mult_lem [THEN iffD1])
      have "(2::nat) ^ n = 2 * 2 ^ (n - 1)" using assms(1) by (cases n) auto
      with u d Suc.prems have "2 ^ (n - 1) \<le> unat (push_bit 1 f) * 2 ^ m" "unat (push_bit 1 f) < 2 ^ n" by auto
      from Suc.IH [OF this, of "e - 1"] obtain k where k: "k \<le> m" "normalize_fraction n (e - 1) (push_bit 1 f) =
          Some (e - 1 - of_nat k, push_bit k (push_bit 1 f))" "unat (push_bit k (push_bit 1 f)) = unat (push_bit 1 f) * 2 ^ k"
          "2 ^ (n - 1) \<le> unat (push_bit 1 f) * 2 ^ k" "unat (push_bit 1 f) * 2 ^ k < 2 ^ n" by blast
      then show ?thesis
        using True d by (intro exI [of _ "Suc k"], subst normalize_fraction.simps) (auto simp: algebra_simps)
    next
      case False
      then show ?thesis
        using Suc.prems by (intro exI [of _ 0], subst normalize_fraction.simps) (auto simp: drop_bit_zero)
    qed
  qed
  have "2 ^ (n - 1) \<le> unat f * 2 ^ (n - 1)" using assms(3) by simp
  from ends [OF this assms(4)] obtain k where "k \<le> n - 1" "normalize_fraction n e f = Some (e - of_nat k, push_bit k f)"
      "unat (push_bit k f) = unat f * 2 ^ k" "2 ^ (n - 1) \<le> unat f * 2 ^ k" "unat f * 2 ^ k < 2 ^ n" by blast
  with assms(1) show ?thesis by (intro exI [of _ k]) auto
qed

section \<open>Properties\<close>

text \<open>The test of \<open>integer_groups\<close> for a destination that is not a mask.\<close>

definition binary_legal :: "u32 \<Rightarrow> vector_config \<Rightarrow> u32 \<Rightarrow> bool" where
  "binary_legal insn config format \<longleftrightarrow>
     validate_group (rd insn) (lmul config) 1 \<and> validate_group (rs2 insn) (lmul config) 1
     \<and> (format = 0 \<longrightarrow> validate_group (rs1 insn) (lmul config) 1)
     \<and> (vm_bit insn \<or> \<not> mask_overlap (rd insn) (lmul config)
        \<and> \<not> mask_source_overlap (rs2 insn) (lmul config) (sew config)
        \<and> (format = 0 \<longrightarrow> \<not> mask_source_overlap (rs1 insn) (lmul config) (sew config)))"

lemma integer_groups_legal:
  "integer_groups insn config False True (format = 0) = (if binary_legal insn config format then mret () else illegal insn)"
  by (auto simp: integer_groups_def binary_legal_def Let_def fun_eq_iff)

lemma vector_dirty_fields [simp]:
  "vector (vector_dirty c) = vector c" "xreg (vector_dirty c) = xreg c"
  by (simp_all add: vector_dirty_def split: option.splits)

lemma binary_reads_dirty [simp]:
  "active insn i (vector_dirty c) = active insn i c" "binary_result insn w f m i (vector_dirty c) = binary_result insn w f m i c"
  by (simp_all add: active_def binary_result_def binary_operand_def)

text \<open>The hart after a legal single-width operation that is not a comparison.\<close>

definition binary_done :: "u32 \<Rightarrow> vector_config \<Rightarrow> u32 \<Rightarrow> u32 \<Rightarrow> cpu \<Rightarrow> cpu" where
  "binary_done insn config f format c =
     (let h = vector_dirty c; m = vstart_of c; n = vl_of config c; w = sew config;
          v = vector (binary_state insn w f format m h n) in
      h\<lparr>vector := v\<lparr>vs_vxsat := vs_vxsat v \<or> (\<exists>i\<in>{m..<n}. active insn i c \<and> snd (binary_result insn w f format i c)),
         vs_vstart := 0\<rparr>\<rparr>)"

lemma exec_binary_run:
  assumes c: "config_ok config" and f: "supported_binary f format" "\<not> (0x18 \<le> f \<and> f \<le> 0x1f)"
    and l: "binary_legal insn config format"
  shows "exec_vector_integer_binary insn config f format (c, b :: 'b) = (Inr (), (binary_done insn config f format c, b))"
proof -
  have nm: "f \<noteq> 0x17" using f by (auto simp: supported_binary_def split: if_splits)
  note g = l [unfolded binary_legal_def]
  have ig: "integer_groups insn config False True (format = 0) = (mret () :: ('b, unit) cpum)"
    using l by (simp add: integer_groups_legal)
  have pre: "exec_vector_integer_binary insn config f format (c, b) =
      (if vm_bit insn \<and> vstart_of c = 0 \<and> format = 0 \<and> (0x09 \<le> f \<and> f \<le> 0x0b)
       then mbind (vmod (bitwise_bytes f (rd insn) (rs2 insn) (rs1 insn) (vl_of config c * (sew config div 8)))) (\<lambda>_. set_vstart 0)
       else mbind (elements (\<not> vm_bit insn) (vstart_of c) (vl_of config c) False (binary_element insn config f format))
         (\<lambda>saturated. mbind (if saturated then or_vxsat True else mret ()) (\<lambda>_. set_vstart 0))) (vector_dirty c, b)"
    using f nm ig by (auto simp: exec_vector_integer_binary_def Let_def)
  show ?thesis
  proof (cases "vm_bit insn \<and> vstart_of c = 0 \<and> format = 0 \<and> (0x09 \<le> f \<and> f \<le> 0x0b)")
    case True
    have "bitwise_bytes f (rd insn) (rs2 insn) (rs1 insn) (vl_of config c * (sew config div 8)) (vector (vector_dirty c))
        = Some (vector (binary_state insn (sew config) f 0 0 (vector_dirty c) (vl_of config c)))"
      using True g by (intro bitwise_bytes_store [OF c _ _ _ _ _ vl_of_le [OF c] _ refl]) auto
    moreover have "\<not> snd (binary_result insn (sew config) f 0 i c)" for i
      using True by (simp add: binary_result_bitwise config_sew [OF c])
    ultimately show ?thesis
      using True unfolding pre
      by (simp add: vmod_run set_vstart_def binary_done_def Let_def binary_state_def)
  next
    case False
    let ?t = "\<exists>i\<in>{vstart_of c..<vl_of config c}. active insn i c \<and> snd (binary_result insn (sew config) f format i c)"
    let ?v = "vector (binary_state insn (sew config) f format (vstart_of c) (vector_dirty c) (vl_of config c))"
    have "elements (\<not> vm_bit insn) (vstart_of c) (vl_of config c) False (binary_element insn config f format) (vector_dirty c, b) =
      (Inr (\<exists>i\<in>{vstart_of c..<vl_of config c}. active insn i c \<and> snd (binary_result insn (sew config) f format i c)),
       (binary_state insn (sew config) f format (vstart_of c) (vector_dirty c) (vl_of config c), b))"
      using g by (subst binary_elements_run [OF c _ _ _ _ f vl_of_le [OF c] refl]) auto
    moreover have "binary_done insn config f format c = (vector_dirty c)\<lparr>vector := ?v\<lparr>vs_vxsat := vs_vxsat ?v \<or> ?t, vs_vstart := 0\<rparr>\<rparr>"
      by (simp only: binary_done_def Let_def)
    moreover have "?v\<lparr>vs_vxsat := vs_vxsat ?v\<rparr> = ?v" by simp
    moreover have "(binary_state insn (sew config) f format (vstart_of c) (vector_dirty c) (vl_of config c))\<lparr>vector := x\<rparr>
        = (vector_dirty c)\<lparr>vector := x\<rparr>" for x
      by (simp add: binary_state_def)
    ultimately show ?thesis
      using False unfolding pre
      by (cases ?t) (auto simp: mbind_def [of "elements _ _ _ _ _"] or_vxsat_def set_vstart_def simp del: store_elements_fields)
  qed
qed

lemma element_fields [simp]: "element r i w (v\<lparr>vs_vstart := x\<rparr>) = element r i w v" "element r i w (v\<lparr>vs_vxsat := y\<rparr>) = element r i w v"
  by (simp_all add: element_def get_bytes_def flat_byte_def)

lemma store_elements_outside:
  assumes c: "config_ok config" and n: "n \<le> vlmax config" and r: "r < d \<or> d + register_span (lmul config) \<le> r"
  shows "vs_regs (store_elements d (sew config) g [m..<n] v) r k = vs_regs v r k"
proof (cases "k < 16")
  case True
  have "flat_byte (store_elements d (sew config) g [m..<n] v) (r * 16 + k) = flat_byte v (r * 16 + k)"
  proof (rule flat_byte_store_apart)
    fix i assume "i \<in> set [m..<n]"
    then have "i * (sew config div 8) + sew config div 8 \<le> 16 * register_span (lmul config)"
      using n by (intro group_element_end [OF c]) auto
    with r True show "r * 16 + k < d * 16 + i * (sew config div 8) \<or>
        d * 16 + i * (sew config div 8) + sew config div 8 \<le> r * 16 + k"
      by (elim disjE) linarith+
  qed
  with True show ?thesis by (simp add: flat_byte_def VLEN_BYTES_def)
next
  case False
  then show ?thesis
    by (induction n) (auto simp: store_elements_def split: option.splits)
qed

text \<open>
  C5: a single-width vector operation that is not a comparison either is illegal, and then
  changes nothing, or sets every active element of the destination between \<open>vstart\<close> and \<open>vl\<close> to the
  operation on the elements the sources had before the instruction, and leaves the inactive
  elements, the tail and every register outside the destination group alone. It sets the
  sticky saturation flag when an active element saturated and clears \<open>vstart\<close>. This holds when
  the destination is one of the sources, and for the byte path the bitwise operations take.
\<close>

theorem vector_binary_elements:
  assumes "config_decode raw = Some config" "supported_binary f format" "\<not> (0x18 \<le> f \<and> f \<le> 0x1f)"
  defines "w \<equiv> sew config"
  shows "if binary_legal insn config format then
      (\<exists>c'. exec_vector_integer_binary insn config f format (c, b) = (Inr (), (c', b)) \<and>
        (\<forall>i < vlmax config. element (rd insn) i w (vector c') =
          (if vstart_of c \<le> i \<and> i < vl_of config c \<and> active insn i c
           then fst (binary_result insn w f format i c) AND element_mask w else element (rd insn) i w (vector c))) \<and>
        (\<forall>r k. r < rd insn \<or> rd insn + register_span (lmul config) \<le> r \<longrightarrow>
          vs_regs (vector c') r k = vs_regs (vector c) r k) \<and>
        (vs_vxsat (vector c') \<longleftrightarrow> vs_vxsat (vector c) \<or>
          (\<exists>i\<in>{vstart_of c..<vl_of config c}. active insn i c \<and> snd (binary_result insn w f format i c))) \<and>
        vs_vstart (vector c') = 0 \<and> vs_vl (vector c') = vs_vl (vector c) \<and> vs_vtype (vector c') = vs_vtype (vector c))
    else exec_vector_integer_binary insn config f format (c, b) = (Inl (Throw (IllegalInstruction insn)), (c, b))"
    (is "if _ then \<exists>c'. ?P c' else _")
proof (cases "binary_legal insn config format")
  case True
  have c: "config_ok config" using assms(1) by (auto simp: config_ok_def)
  have e: "element (rd insn) i w (vector (binary_done insn config f format c)) =
      (if vstart_of c \<le> i \<and> i < vl_of config c \<and> active insn i c
       then fst (binary_result insn w f format i c) AND element_mask w else element (rd insn) i w (vector c))" for i
    unfolding binary_done_def binary_state_def Let_def w_def
    by (simp add: element_store config_sew [OF c] and.assoc)
  have o: "vs_regs (vector (binary_done insn config f format c)) r k = vs_regs (vector c) r k"
    if "r < rd insn \<or> rd insn + register_span (lmul config) \<le> r" for r k
    using store_elements_outside [OF c vl_of_le [OF c] that] by (simp add: binary_done_def binary_state_def Let_def)
  have x: "vs_vxsat (vector (binary_done insn config f format c)) \<longleftrightarrow> vs_vxsat (vector c) \<or>
        (\<exists>i\<in>{vstart_of c..<vl_of config c}. active insn i c \<and> snd (binary_result insn w f format i c))"
      "vs_vstart (vector (binary_done insn config f format c)) = 0"
      "vs_vl (vector (binary_done insn config f format c)) = vs_vl (vector c)"
      "vs_vtype (vector (binary_done insn config f format c)) = vs_vtype (vector c)"
    by (simp_all add: binary_done_def binary_state_def Let_def w_def)
  have "?P (binary_done insn config f format c)"
    by (intro conjI allI impI exec_binary_run [OF c assms(2,3) True] e o x)
  then have "\<exists>c'. ?P c'" by (rule exI)
  with True show ?thesis by (simp only: if_True)
next
  case False
  have "f \<noteq> 0x17" using assms(2) by (auto simp: supported_binary_def split: if_splits)
  with False assms(2,3) show ?thesis
    by (auto simp: exec_vector_integer_binary_def Let_def illegal_def integer_groups_legal)
qed


definition byte_config :: vector_config where
  "byte_config = \<lparr>sew = 8, lmul_num = 1, lmul_den = 1, lmul_exp = 0, vlmax = 16\<rparr>"

definition sample_vectors :: cpu where
  "sample_vectors = cpu_new\<lparr>vector := vector_default\<lparr>vs_regs := (\<lambda>r k. of_nat (r + k)), vs_vl := 16, vs_vtype := 0\<rparr>\<rparr>"

theorem vector_binary_elements_witness:
  "\<exists>c'. exec_vector_integer_binary 0x022081d7 byte_config 0 0 (sample_vectors, ()) = (Inr (), (c', ())) \<and>
     element 3 5 8 (vector c') = 13 \<and> vs_regs (vector c') 4 1 = 5"
proof -
  have d: "config_decode 0 = Some byte_config" by (simp add: config_decode_def byte_config_def Let_def)
  have s: "supported_binary 0 0" by (simp add: supported_binary_def)
  have l: "binary_legal 0x022081d7 byte_config 0"
    by (simp add: binary_legal_def validate_group_def register_span_def lmul_def byte_config_def rd_def rs1_def rs2_def
        vm_bit_def VREG_COUNT_def Let_def)
  have "vl_of byte_config sample_vectors = 16" "vstart_of sample_vectors = 0" "active 0x022081d7 5 sample_vectors"
    by (simp_all add: vl_of_def vstart_of_def active_def sample_vectors_def vector_default_def byte_config_def vm_bit_def)
  moreover have "fst (binary_result 0x022081d7 8 0 0 5 sample_vectors) AND element_mask 8 = 13"
    by (simp add: binary_result_def binary_value_def binary_operand_def element_def get_bytes_def flat_byte_def
        sample_vectors_def vector_default_def VLEN_BYTES_def rs1_def rs2_def element_mask_def Let_def)
  moreover have "vs_regs (vector sample_vectors) 4 1 = 5" by (simp add: sample_vectors_def)
  ultimately show ?thesis
    using vector_binary_elements [OF d s, where insn = "0x022081d7" and c = sample_vectors and b = "()"] l
    by (force simp: byte_config_def rd_def register_span_def lmul_def)
qed

text \<open>
  C6: the byte path of the unmasked bitwise operations, eight bytes at a time and then byte by
  byte over the flat register file, leaves exactly the register file the element loop leaves, for
  every legal choice of groups: a source may be the destination.
\<close>

theorem bitwise_path_equivalent:
  assumes "config_decode raw = Some config" "validate_group (rd insn) (lmul config) 1"
    "validate_group (rs2 insn) (lmul config) 1" "validate_group (rs1 insn) (lmul config) 1"
    "0x09 \<le> f" "f \<le> 0x0b" "vm_bit insn" "n \<le> vlmax config"
  shows "mbind (vmod (bitwise_bytes f (rd insn) (rs2 insn) (rs1 insn) (n * (sew config div 8)))) (\<lambda>_. mret False) (h, b)
    = elements (\<not> vm_bit insn) 0 n False (binary_element insn config f 0) (h, b)"
proof -
  have c: "config_ok config" using assms(1) by (auto simp: config_ok_def)
  have u: "unat f = 9 \<or> unat f = 10 \<or> unat f = 11" using assms(5,6) by (auto simp: word_le_nat_alt)
  then have f: "supported_binary f 0" "\<not> (0x18 \<le> f \<and> f \<le> 0x1f)"
    by (auto simp: supported_binary_def word_unat_eq_iff word_le_nat_alt)
  have "\<not> snd (binary_result insn (sew config) f 0 i h)" for i
    using assms(5,6) by (simp add: binary_result_bitwise config_sew [OF c])
  then show ?thesis
    using binary_elements_run [OF c assms(2,3,4) _ f assms(8) refl, of 0 h b] assms(7)
      bitwise_bytes_store [OF c assms(2,3,4,5,6,8,7) refl, of h]
    by (simp add: vmod_run binary_state_def)
qed

theorem bitwise_path_equivalent_witness:
  "mbind (vmod (bitwise_bytes 0x0b 3 2 1 16)) (\<lambda>_. mret False) (sample_vectors, ())
    = elements (\<not> vm_bit 0x2e2081d7) 0 16 False (binary_element 0x2e2081d7 byte_config 0x0b 0) (sample_vectors, ())"
proof -
  have d: "config_decode 0 = Some byte_config" by (simp add: config_decode_def byte_config_def Let_def)
  have v: "rd 0x2e2081d7 = 3" "rs2 0x2e2081d7 = 2" "rs1 0x2e2081d7 = 1" "vm_bit 0x2e2081d7"
    by (simp_all add: rd_def rs1_def rs2_def vm_bit_def)
  have g: "validate_group r (lmul byte_config) 1" if "r < 32" for r
    using that by (simp add: validate_group_def register_span_def lmul_def byte_config_def VREG_COUNT_def Let_def)
  show ?thesis
    using bitwise_path_equivalent [OF d, where insn = "0x2e2081d7" and f = "0x0b" and n = 16 and h = sample_vectors and b = "()"] g
    by (simp add: v byte_config_def)
qed

text \<open>
  C25: the saturating operations never leave the range of the element and flag exactly the
  results that do not fit: \<open>vsaddu\<close> is the sum cut at \<open>2^w - 1\<close>, \<open>vssubu\<close> the difference cut at 0,
  \<open>vsadd\<close> and \<open>vssub\<close> the exact sum and difference of the two's-complement values clamped to
  \<open>-2^(w-1) .. 2^(w-1) - 1\<close>; the flag is set exactly when the exact result is outside.
\<close>

theorem saturating_values:
  assumes w: "eew_ok w" and "unat a < 2 ^ w" "unat b < 2 ^ w"
  defines "lo \<equiv> - (2 ^ (w - 1))" and "hi \<equiv> 2 ^ (w - 1) - 1"
  shows "(\<exists>r. binary_value 0x20 w a b = Some (r, 2 ^ w \<le> unat a + unat b) \<and> unat r = min (unat a + unat b) (2 ^ w - 1)) \<and>
    (\<exists>r. binary_value 0x22 w a b = Some (r, unat a < unat b) \<and> unat r = unat a - unat b) \<and>
    (\<exists>r. let k = signed_narrow a w + signed_narrow b w in
      binary_value 0x21 w a b = Some (r, \<not> (lo \<le> k \<and> k \<le> hi)) \<and> signed_narrow (r AND element_mask w) w = clamp lo hi k) \<and>
    (\<exists>r. let k = signed_narrow a w - signed_narrow b w in
      binary_value 0x23 w a b = Some (r, \<not> (lo \<le> k \<and> k \<le> hi)) \<and> signed_narrow (r AND element_mask w) w = clamp lo hi k)"
proof -
  have p: "0 < (2 :: nat) ^ w" by simp
  have m: "unat (ucast (element_mask w) :: u128) = 2 ^ w - 1"
    by (simp add: unat_wide unat_element_mask [OF w])
  have g: "ucast (element_mask w) < (ucast a + ucast b :: u128) \<longleftrightarrow> 2 ^ w \<le> unat a + unat b"
    unfolding word_less_nat_alt unat_wide_sum m using p by linarith
  have u: "unat (ucast (ucast a + ucast b :: u128) :: u64) = unat a + unat b" if "\<not> 2 ^ w \<le> unat a + unat b"
  proof -
    have "unat a + unat b < 2 ^ w" using that by simp
    also have "(2 :: nat) ^ w \<le> 2 ^ 64" using eew_bytes [OF w] by (intro power_increasing) auto
    finally show ?thesis by (simp add: unsigned_ucast_eq unat_wide_sum take_bit_nat_eq_self)
  qed
  have "\<exists>r. binary_value 0x20 w a b = Some (r, 2 ^ w \<le> unat a + unat b) \<and> unat r = min (unat a + unat b) (2 ^ w - 1)"
    using u by (auto simp: binary_value_def Let_def g unat_element_mask [OF w])
  moreover have "\<exists>r. binary_value 0x22 w a b = Some (r, unat a < unat b) \<and> unat r = unat a - unat b"
    by (auto simp: binary_value_def Let_def word_less_nat_alt unat_sub word_le_nat_alt not_less)
  moreover have "binary_value 0x21 w a b = Some (signed_saturate w (signed_narrow a w + signed_narrow b w))"
      "binary_value 0x23 w a b = Some (signed_saturate w (signed_narrow a w - signed_narrow b w))"
    by (simp_all add: binary_value_def Let_def signed_narrow_def)
  moreover have "\<exists>r. signed_saturate w k = (r, \<not> (lo \<le> k \<and> k \<le> hi)) \<and> signed_narrow (r AND element_mask w) w = clamp lo hi k" for k
    using signed_saturate_spec [OF w, of k] unfolding lo_def hi_def by (intro exI [of _ "fst (signed_saturate w k)"]) (auto simp: prod_eq_iff)
  ultimately show ?thesis by (auto simp: Let_def)
qed

theorem saturating_values_witness:
  "\<exists>r. binary_value 0x20 8 200 100 = Some (r, True) \<and> unat r = 255"
  using saturating_values [of 8 200 100] by (auto simp: eew_ok_def)

text \<open>
  C26: the normalisation loop of the reciprocal estimates ends for every subnormal operand: it
  runs \<open>k < frac_bits\<close> times, once per leading zero, takes \<open>k\<close> from the exponent and brings the top
  bit of the fraction to its place without losing a bit. Both estimates therefore return a
  value for every operand, at both precisions.
\<close>

theorem estimates_terminate:
  "(0 < n \<and> n < 64 \<and> 0 < unat f \<and> unat f < 2 ^ n \<longrightarrow>
     (\<exists>k < n. normalize_fraction n e f = Some (e - of_nat k, push_bit k f) \<and> unat (push_bit k f) = unat f * 2 ^ k \<and>
        2 ^ (n - 1) \<le> unat f * 2 ^ k \<and> unat f * 2 ^ k < 2 ^ n)) \<and>
   (\<exists>r. rvv_frsqrt7 x 8 23 fl = Some r) \<and> (\<exists>r. rvv_frsqrt7 x 11 52 fl = Some r) \<and>
   (\<exists>r. rvv_frec7 x 8 23 rm fl = Some r) \<and> (\<exists>r. rvv_frec7 x 11 52 rm fl = Some r)"
  using normalize_fraction_counts [of n f e] frsqrt7_some [of 23 x 8 fl] frsqrt7_some [of 52 x 11 fl]
    frec7_some [of 23 x 8 rm fl] frec7_some [of 52 x 11 rm fl]
  by auto

theorem estimates_terminate_witness:
  "\<exists>k < 23. normalize_fraction 23 0 5 = Some (0 - of_nat k, push_bit k 5) \<and> 2 ^ 22 \<le> 5 * (2 :: nat) ^ k"
  using estimates_terminate [of 23 5 0 0 0 0] by auto

text \<open>
  C24: \<open>vset{i}vl{i}\<close> keeps the vector length within the register group. The value written to
  the destination is the new \<open>vl\<close>; an unsupported type, or one that cannot keep the old \<open>vl\<close>, is
  recorded as illegal with \<open>vl = 0\<close>; otherwise the new type is the one asked for and \<open>vl\<close> is the
  request cut at VLMAX, VLMAX itself, or the old length, never more than VLMAX. The register file
  is not touched and \<open>vstart\<close> is cleared.
\<close>

theorem install_config_bounds:
  assumes "case vs_config v of None \<Rightarrow> vs_vl v = 0 | Some old \<Rightarrow> unat (vs_vl v) \<le> vlmax old"
  shows "let r = install_config raw d rs1_is_zero avl immediate v in
    fst r = vs_vl (snd r) \<and> vs_vstart (snd r) = 0 \<and> vs_regs (snd r) = vs_regs v \<and>
    (case vs_config (snd r) of
       None \<Rightarrow> vs_vtype (snd r) = VILL \<and> vs_vl (snd r) = 0
     | Some config \<Rightarrow> config_decode raw = Some config \<and> unat (vs_vl (snd r)) \<le> vlmax config \<and>
         unat (vs_vl (snd r)) =
           (if immediate then min (unat avl) (vlmax config)
            else if rs1_is_zero then if d = 0 then unat (vs_vl v) else vlmax config
            else min (unat avl) (vlmax config)))"
proof -
  have raw: "raw AND 0xff = raw" if "config_decode raw = Some config" for config
  proof -
    have "drop_bit 8 raw = 0" using that by (auto simp: config_decode_def split: if_splits)
    then have "take_bit 8 raw = raw" using bits_ident [of 8 raw] by simp
    moreover have "take_bit 8 raw = raw AND 0xff" by (simp add: take_bit_eq_mask mask_eq_exp_minus_1)
    ultimately show ?thesis by simp
  qed
  have m: "unat (of_nat (vlmax config) :: u64) = vlmax config" if "config_decode raw = Some config" for config
  proof -
    have "vlmax config \<le> 128" using config_vlmax [of config] that unfolding config_ok_def by blast
    then show ?thesis by (simp add: unat_of_nat)
  qed
  have ill: "config_decode VILL = None" by (simp add: config_decode_def VILL_def)
  show ?thesis
    using assms(1) raw m
    unfolding install_config_def Let_def vs_config_def
    by (auto simp: min_def word_le_nat_alt ill split: option.splits if_splits)
qed

theorem install_config_bounds_witness:
  "let r = install_config 0 5 False 100 False vector_default in
     fst r = 16 \<and> unat (vs_vl (snd r)) \<le> 16"
proof -
  have "vs_config vector_default = None" "vs_vl vector_default = 0"
    by (simp_all add: vs_config_def config_decode_def vector_default_def VILL_def)
  then show ?thesis
    using install_config_bounds [of vector_default 0 5 False 100 False]
    by (simp add: Let_def install_config_def config_decode_def vs_config_def)
qed

end
