(* ===== verification/AluCorrect.thy ===== *)
theory AluCorrect
  imports Exec
begin

text \<open>
  Correctness of the integer arms of \<open>step\<close> against arithmetic on the integers: division and
  remainder with the RISC-V conventions for zero divisors and overflow, the high halves of
  the product, and the 32-bit forms.
\<close>

section \<open>Truncating division\<close>

lemma sint_bounds: "- (2 ^ (LENGTH('a) - 1)) \<le> sint (a :: 'a::len word)" "sint a < 2 ^ (LENGTH('a) - 1)"
  by (rule sint_ge, rule sint_lt)

lemma trunc_div_rem: "(x :: int) = y * (sgn x * sgn y * (\<bar>x\<bar> div \<bar>y\<bar>)) + sgn x * (\<bar>x\<bar> mod \<bar>y\<bar>)"
proof -
  have "y * (sgn x * sgn y * (\<bar>x\<bar> div \<bar>y\<bar>)) = sgn x * (\<bar>y\<bar> * (\<bar>x\<bar> div \<bar>y\<bar>))"
    by (simp add: abs_sgn mult_ac)
  then have "y * (sgn x * sgn y * (\<bar>x\<bar> div \<bar>y\<bar>)) + sgn x * (\<bar>x\<bar> mod \<bar>y\<bar>) =
      sgn x * (\<bar>y\<bar> * (\<bar>x\<bar> div \<bar>y\<bar>) + \<bar>x\<bar> mod \<bar>y\<bar>)"
    by (simp only: distrib_left)
  then show ?thesis by (simp only: mult_div_mod_eq sgn_mult_abs)
qed

lemma wrapping_div_rem: "a = b * wrapping_div a b + wrapping_rem a (b :: 'a::len word)"
proof -
  have "a = word_of_int (sint a)" by simp
  also have "\<dots> = word_of_int (sint b) * wrapping_div a b + wrapping_rem a b"
    by (subst trunc_div_rem [of "sint a" "sint b"]) (simp only: wrapping_div_def wrapping_rem_def wi_hom_syms)
  finally show ?thesis by simp
qed

lemma sint_word_of_int:
  "- (2 ^ (LENGTH('a) - 1)) \<le> k \<Longrightarrow> k < 2 ^ (LENGTH('a) - 1) \<Longrightarrow> sint (word_of_int k :: 'a::len word) = k"
  by (simp add: sint_sbintrunc' signed_take_bit_int_eq_self)

lemma sint_wrapping_rem:
  assumes "(b :: 'a::len word) \<noteq> 0"
  shows "sint (wrapping_rem a b) = sgn (sint a) * (\<bar>sint a\<bar> mod \<bar>sint b\<bar>)"
proof -
  define r where "r = \<bar>sint a\<bar> mod \<bar>sint b\<bar>"
  have b: "0 < \<bar>sint b\<bar>" using assms by (simp add: signed_eq_0_iff)
  then have "0 \<le> r" "r < \<bar>sint b\<bar>" by (simp_all add: r_def)
  moreover have "\<bar>sint b\<bar> \<le> 2 ^ (LENGTH('a) - 1)" using sint_bounds [of b] by linarith
  ultimately have "- (2 ^ (LENGTH('a) - 1)) \<le> sgn (sint a) * r \<and> sgn (sint a) * r < 2 ^ (LENGTH('a) - 1)"
    by (cases "sint a" "0 :: int" rule: linorder_cases) auto
  then have "sint (word_of_int (sgn (sint a) * r) :: 'a word) = sgn (sint a) * r"
    by (intro sint_word_of_int) auto
  then show ?thesis by (simp add: wrapping_rem_def r_def)
qed

lemma sint_wrapping_div:
  assumes b: "(b :: 'a::len word) \<noteq> 0" and ov: "sint a \<noteq> - (2 ^ (LENGTH('a) - 1)) \<or> b \<noteq> - 1"
  shows "sint (wrapping_div a b) = sgn (sint a) * sgn (sint b) * (\<bar>sint a\<bar> div \<bar>sint b\<bar>)"
proof -
  define w where "w = (2 :: int) ^ (LENGTH('a) - 1)"
  define q where "q = \<bar>sint a\<bar> div \<bar>sint b\<bar>"
  have b0: "sint b \<noteq> 0" using b by (simp add: signed_eq_0_iff)
  have w: "- w \<le> sint a" "sint a < w" using sint_bounds [of a] by (simp_all add: w_def)
  have q0: "0 \<le> q" using b0 by (simp add: q_def pos_imp_zdiv_nonneg_iff)
  have qb: "q * \<bar>sint b\<bar> \<le> \<bar>sint a\<bar>"
    using b0 div_mult_mod_eq [of "\<bar>sint a\<bar>" "\<bar>sint b\<bar>"] pos_mod_sign [of "\<bar>sint b\<bar>" "\<bar>sint a\<bar>"]
    unfolding q_def by linarith
  have "q * 1 \<le> q * \<bar>sint b\<bar>" using q0 b0 by (intro mult_left_mono) auto
  with qb have qa: "q \<le> \<bar>sint a\<bar>" by linarith
  have "- w \<le> sgn (sint a) * sgn (sint b) * q \<and> sgn (sint a) * sgn (sint b) * q < w"
  proof (cases "q < w")
    case True
    with q0 show ?thesis by (auto simp: sgn_if)
  next
    case False
    then have a: "sint a = - w" and "q = w" using qa w by auto
    have "w * \<bar>sint b\<bar> \<le> w * 1" using qb a \<open>q = w\<close> by (simp add: w_def)
    then have "\<bar>sint b\<bar> \<le> 1" by (simp add: w_def mult_le_cancel_left)
    with b0 have "\<bar>sint b\<bar> = 1" by linarith
    moreover have "sint b \<noteq> - 1"
    proof
      assume "sint b = - 1"
      moreover have "word_of_int (sint b) = b" by simp
      ultimately have "b = - 1" by simp
      with ov a show False by (simp add: w_def)
    qed
    ultimately have "sint b = 1" by auto
    with a \<open>q = w\<close> show ?thesis by (auto simp: w_def)
  qed
  then show ?thesis
    unfolding wrapping_div_def q_def w_def by (intro sint_word_of_int) auto
qed


lemma wrapping_overflow:
  assumes "sint (a :: 'a::len word) = - (2 ^ (LENGTH('a) - 1))" and "1 < LENGTH('a)"
  shows "wrapping_div a (- 1) = a" "wrapping_rem a (- 1) = 0"
proof -
  have m1: "sint (- 1 :: 'a word) = - 1" by simp
  have "sgn (sint a) * sgn (- 1 :: int) * (\<bar>sint a\<bar> div \<bar>- 1 :: int\<bar>) = \<bar>sint a\<bar>"
    by (simp add: assms(1))
  also have "word_of_int \<bar>sint a\<bar> = (word_of_int (sint a) :: 'a word)"
  proof -
    have "(2 :: 'a word) * 2 ^ (LENGTH('a) - 1) = 0"
      using assms(2) by (simp flip: power_Suc)
    then show ?thesis by (simp add: assms(1) eq_neg_iff_add_eq_0)
  qed
  finally have "wrapping_div a (- 1) = word_of_int (sint a)"
    unfolding wrapping_div_def m1 .
  then show "wrapping_div a (- 1) = a" by simp
  show "wrapping_rem a (- 1) = 0" unfolding wrapping_rem_def m1 by simp
qed

text \<open>What the architecture asks of a quotient and a remainder.\<close>

definition sdiv_spec :: "'a::len word \<Rightarrow> 'a word \<Rightarrow> 'a word \<Rightarrow> 'a word \<Rightarrow> bool" where
  "sdiv_spec a b q r \<longleftrightarrow> a = b * q + r \<and>
     (if b = 0 then q = - 1 \<and> r = a
      else if sint a = - (2 ^ (LENGTH('a) - 1)) \<and> b = - 1 then q = a \<and> r = 0
      else sint q = sgn (sint a) * sgn (sint b) * (\<bar>sint a\<bar> div \<bar>sint b\<bar>) \<and>
        \<bar>sint r\<bar> < \<bar>sint b\<bar> \<and> (r = 0 \<or> sgn (sint r) = sgn (sint a)))"

definition udiv_spec :: "'a::len word \<Rightarrow> 'a word \<Rightarrow> 'a word \<Rightarrow> 'a word \<Rightarrow> bool" where
  "udiv_spec a b q r \<longleftrightarrow>
     (if b = 0 then q = - 1 \<and> r = a else uint a = uint b * uint q + uint r \<and> r < b)"

lemma sdiv_spec_wrapping:
  assumes "1 < LENGTH('a)"
  shows "sdiv_spec a (b :: 'a::len word) (if b = 0 then NOT 0 else wrapping_div a b)
    (if b = 0 then a else wrapping_rem a b)"
proof (cases "b = 0")
  case False
  then have b0: "sint b \<noteq> 0" by (simp add: signed_eq_0_iff)
  have r: "sint (wrapping_rem a b) = sgn (sint a) * (\<bar>sint a\<bar> mod \<bar>sint b\<bar>)"
    by (rule sint_wrapping_rem [OF False])
  have "0 \<le> \<bar>sint a\<bar> mod \<bar>sint b\<bar>" "\<bar>sint a\<bar> mod \<bar>sint b\<bar> < \<bar>sint b\<bar>" using b0 by simp_all
  then have "\<bar>sint (wrapping_rem a b)\<bar> < \<bar>sint b\<bar>"
    and "sint (wrapping_rem a b) = 0 \<or> sgn (sint (wrapping_rem a b)) = sgn (sint a)"
    unfolding r by (auto simp: abs_mult sgn_if split: if_splits)
  with False wrapping_overflow [of a] assms sint_wrapping_div [OF False, of a] wrapping_div_rem [of a b]
  show ?thesis by (auto simp: sdiv_spec_def signed_eq_0_iff)
qed (simp add: sdiv_spec_def)

lemma udiv_spec_word: "udiv_spec a b (if b = 0 then NOT 0 else a div b) (if b = 0 then a else a mod b)"
proof (cases "b = 0")
  case False
  then have "0 < uint b" using uint_0_iff [of b] uint_ge_0 [of b] by linarith
  with False show ?thesis by (simp add: udiv_spec_def uint_div_distrib uint_mod_distrib word_less_def)
qed (simp add: udiv_spec_def)

text \<open>
  C27: DIV, REM, DIVU and REMU meet the RISC-V definition for every pair of operands. The signed
  forms satisfy a = b * q + r, truncate towards zero, give the remainder the sign of the
  dividend, return -1 and the dividend for a zero divisor, and return the dividend and 0 on
  the one overflowing quotient. The unsigned forms are Euclidean division, with all ones and
  the dividend for a zero divisor.
\<close>

theorem op_value_division:
  "(\<exists>q r. op_value 1 4 a b = Some q \<and> op_value 1 6 a b = Some r \<and> sdiv_spec a b q r) \<and>
   (\<exists>q r. op_value 1 5 a b = Some q \<and> op_value 1 7 a b = Some r \<and> udiv_spec a b q r)"
  using sdiv_spec_wrapping [of a b] udiv_spec_word [of a b] by (simp add: op_value_def)

text \<open>
  C28: DIVW, REMW, DIVUW and REMUW meet the same definition on the low words of their operands,
  and the 32-bit results are sign-extended.
\<close>

theorem op32_value_division:
  "(\<exists>q r. op32_value 1 4 x y = Some (scast q) \<and> op32_value 1 6 x y = Some (scast r) \<and>
      sdiv_spec (ucast x) (ucast y) (q :: u32) r) \<and>
   (\<exists>q r. op32_value 1 5 x y = Some (scast q) \<and> op32_value 1 7 x y = Some (scast r) \<and>
      udiv_spec (ucast x) (ucast y) (q :: u32) r)"
proof -
  define a b where "a = (ucast x :: u32)" and "b = (ucast y :: u32)"
  have "op32_value 1 4 x y = Some (scast (if b = 0 then NOT 0 else wrapping_div a b))"
    "op32_value 1 6 x y = Some (scast (if b = 0 then a else wrapping_rem a b))"
    "op32_value 1 5 x y = Some (scast (if b = 0 then NOT 0 else a div b))"
    "op32_value 1 7 x y = Some (scast (if b = 0 then a else a mod b))"
    by (simp_all add: op32_value_def a_def b_def Let_def)
  with sdiv_spec_wrapping [of a b] udiv_spec_word [of a b] show ?thesis
    unfolding a_def [symmetric] b_def [symmetric] by force
qed

lemma mulhu_product: "uint a * uint b = uint (mulhu a b) * 2 ^ 64 + uint (a * b)"
proof -
  define p where "p = uint a * uint b"
  have ab: "0 \<le> uint a" "uint a < 2 ^ 64" "0 \<le> uint b" "uint b < 2 ^ 64"
    using uint_lt2p [of a] uint_lt2p [of b] by simp_all
  have "p \<le> (2 ^ 64 - 1) * (2 ^ 64 - 1)" unfolding p_def using ab by (intro mult_mono) auto
  then have p: "0 \<le> p" "p < 2 ^ 128" using ab by (simp_all add: p_def)
  have up: "uint (ucast x :: u128) = uint x" for x :: u64
    by (simp add: unsigned_ucast_eq take_bit_int_eq_self_iff order.strict_trans2 [OF uint_lt2p])
  have "uint ((ucast a :: u128) * ucast b) = p"
    using p by (simp add: uint_word_ariths(3) up p_def)
  then have "uint (drop_bit 64 ((ucast a :: u128) * ucast b)) = p div 2 ^ 64"
    by (simp add: drop_bit_eq_div uint_div_distrib)
  moreover have "p div 2 ^ 64 < 2 ^ 64" using p by (simp add: div_less_iff_less_mult zdiv_mono1)
  ultimately have "uint (mulhu a b) = p div 2 ^ 64"
    using p by (simp add: mulhu_def unsigned_ucast_eq take_bit_int_eq_self)
  moreover have "uint (a * b) = p mod 2 ^ 64" by (simp add: uint_word_ariths(3) p_def)
  ultimately show ?thesis by (simp add: p_def)
qed

lemma high_signed:
  assumes x: "x = (word_of_int p :: u128)" and p: "- (2 ^ 127) \<le> p" "p < 2 ^ 127"
  shows "sint (ucast (signed_drop_bit 64 x) :: u64) = p div 2 ^ 64"
proof -
  have "sint x = p" using sint_word_of_int [where 'a = 128, of p] p x by simp
  then have h: "sint (signed_drop_bit 64 x) = p div 2 ^ 64"
    by (simp add: sint_signed_drop_bit_eq drop_bit_eq_div)
  have "(ucast (signed_drop_bit 64 x) :: u64) = scast (signed_drop_bit 64 x)"
    by (simp add: down_cast_same [symmetric] is_down)
  then have u: "(ucast (signed_drop_bit 64 x) :: u64) = word_of_int (p div 2 ^ 64)"
    by (simp only: scast_eq h)
  have "- (2 ^ 63) \<le> p div 2 ^ 64" using zdiv_mono1 [OF p(1), of "2 ^ 64"] by simp
  moreover have "p div 2 ^ 64 < 2 ^ 63" using p(2) by (simp add: div_less_iff_less_mult)
  ultimately show ?thesis unfolding u using sint_word_of_int [where 'a = 64, of "p div 2 ^ 64"] by simp
qed

lemma low_product: "uint (word_of_int p :: u64) = p mod 2 ^ 64"
  by (simp add: uint_word_of_int)

lemma product_bound:
  assumes "\<bar>x\<bar> \<le> 2 ^ 63" "\<bar>y\<bar> < (2 :: int) ^ 64"
  shows "- (2 ^ 127) \<le> x * y" "x * y < 2 ^ 127"
proof -
  have "\<bar>x * y\<bar> \<le> 2 ^ 63 * (2 ^ 64 - 1)" unfolding abs_mult using assms by (intro mult_mono) auto
  then show "- (2 ^ 127) \<le> x * y" "x * y < 2 ^ 127" by (auto simp: abs_le_iff)
qed

lemma sint_abs: "\<bar>sint (a :: u64)\<bar> \<le> 2 ^ 63"
  using sint_bounds [of a] by simp

text \<open>
  C29: MUL with MULH, MULHSU and MULHU gives the exact 128-bit product: the low word together
  with the signed, mixed and unsigned high word is the product of the operands read as
  signed, signed times unsigned, and unsigned integers.
\<close>

theorem op_value_high_product:
  "\<exists>l h hu hsu. op_value 1 0 a b = Some l \<and> op_value 1 1 a b = Some h \<and>
     op_value 1 2 a b = Some hsu \<and> op_value 1 3 a b = Some hu \<and>
     sint a * sint b = sint h * 2 ^ 64 + uint l \<and>
     sint a * uint b = sint hsu * 2 ^ 64 + uint l \<and>
     uint a * uint b = uint hu * 2 ^ 64 + uint l"
proof -
  have s: "(scast x :: u128) = word_of_int (sint x)" and u: "(ucast x :: u128) = word_of_int (uint x)"
    for x :: u64 by (rule scast_eq, rule ucast_eq)
  have "sint b < 2 ^ 64" "- (2 ^ 64) < sint b" using sint_bounds [of b] by simp_all
  then have b: "\<bar>sint b\<bar> < 2 ^ 64" by simp
  have "\<bar>uint b\<bar> < 2 ^ 64" using uint_lt2p [of b] by simp
  note bounds = product_bound [OF sint_abs [of a] b] product_bound [OF sint_abs [of a] this]
  have h1: "sint (mulh a b) = sint a * sint b div 2 ^ 64"
    unfolding mulh_def by (rule high_signed) (simp_all only: s wi_hom_mult bounds)
  have h2: "sint (mulhsu a b) = sint a * uint b div 2 ^ 64"
    unfolding mulhsu_def by (rule high_signed) (simp_all only: s u wi_hom_mult bounds)
  have l1: "uint (a * b) = sint a * sint b mod 2 ^ 64"
    using low_product [of "sint a * sint b"] by (simp add: wi_hom_mult [symmetric])
  have l2: "uint (a * b) = sint a * uint b mod 2 ^ 64"
    using low_product [of "sint a * uint b"] by (simp add: wi_hom_mult [symmetric])
  have "sint a * sint b = sint (mulh a b) * 2 ^ 64 + uint (a * b)"
    by (simp only: h1 l1 div_mult_mod_eq)
  moreover have "sint a * uint b = sint (mulhsu a b) * 2 ^ 64 + uint (a * b)"
    by (simp only: h2 l2 div_mult_mod_eq)
  ultimately show ?thesis
    using mulhu_product [of a b] by (simp only: op_value_def Let_def) simp
qed

text \<open>
  C30: the W forms of OP-32 depend only on the low 32 bits of their operands, and each result is
  the sign extension of its own low word.
\<close>

theorem op32_value_low_word:
  "op32_value f7 f3 x y = op32_value f7 f3 (sext32 x) (sext32 y) \<and>
   (case op32_value f7 f3 x y of None \<Rightarrow> True | Some v \<Rightarrow> v = sext32 v)"
proof -
  have "(ucast (scast (u :: u32) :: u64) :: u32) = u" for u
    by (rule bit_word_eqI) (simp add: bit_simps)
  then show ?thesis by (auto simp: op32_value_def sext32_def Let_def split: option.splits)
qed

end
