(* ===== verification/TrapCorrect.thy ===== *)
theory TrapCorrect
  imports Exec
begin

text \<open>
  Correctness of traps, interrupts and CSR access: trap entry as one update of the privileged
  state, MRET and SRET undoing it, the priority of pending interrupts, the privilege check
  and the WARL masks of the CSRs, and the reservation that a trap drops.
\<close>

section \<open>Bits of the status word\<close>

lemma bit_status:
  "bit MSTATUS_SIE n \<longleftrightarrow> n = 1" "bit MSTATUS_MIE n \<longleftrightarrow> n = 3" "bit MSTATUS_SPIE n \<longleftrightarrow> n = 5"
  "bit MSTATUS_MPIE n \<longleftrightarrow> n = 7" "bit MSTATUS_SPP n \<longleftrightarrow> n = 8" "bit MSTATUS_VS n \<longleftrightarrow> n = 9 \<or> n = 10"
  "bit MSTATUS_MPP n \<longleftrightarrow> n = 11 \<or> n = 12" "bit MSTATUS_FS n \<longleftrightarrow> n = 13 \<or> n = 14"
  "bit MSTATUS_MPRV n \<longleftrightarrow> n = 17" "bit MSTATUS_SUM n \<longleftrightarrow> n = 18" "bit MSTATUS_MXR n \<longleftrightarrow> n = 19"
  "bit MSTATUS_TVM n \<longleftrightarrow> n = 20" "bit MSTATUS_TW n \<longleftrightarrow> n = 21" "bit MSTATUS_TSR n \<longleftrightarrow> n = 22"
  "bit MSTATUS_UXL n \<longleftrightarrow> n = 32 \<or> n = 33" "bit MSTATUS_SD n \<longleftrightarrow> n = 63"
  unfolding csr_bits by (simp_all only: bit_single bit_pair) auto

lemma bit_priv: "bit (push_bit 11 (priv_bits m)) n \<longleftrightarrow> n = 11 \<and> m \<noteq> User \<or> n = 12 \<and> m = Machine"
  using bit_single [of 11 n] bit_pair [of 11 n] unfolding priv_bits.simps
  by (cases m) (simp_all only: priv_bits.simps, auto)

lemma bit_priv_bits: "bit (priv_bits m) n \<longleftrightarrow> n = 0 \<and> m \<noteq> User \<or> n = 1 \<and> m = Machine"
  using bit_single [of 0 n] bit_pair [of 0 n] unfolding push_bit_0_id id_apply
  by (cases m) (simp_all only: priv_bits.simps, auto)

text \<open>Bit extensionality with the status masks unfolded.\<close>

lemmas status_bits = bit_and_iff bit_or_iff bit_not_iff bit_drop_bit_eq comp_apply bit_priv bit_priv_bits bit_status

lemma mpp_field:
  "drop_bit 11 (((x AND NOT (MSTATUS_MPIE OR MSTATUS_MPP OR MSTATUS_MIE))
     OR (if p then MSTATUS_MPIE else 0) OR push_bit 11 (priv_bits m)) AND MSTATUS_MPP) = priv_bits m"
  by (rule bit_word_eqI) (cases p; simp only: status_bits if_True if_False bit_0_eq bot_apply bot_bool_def; auto)

lemma mret_after_trap:
  "(((x AND NOT (MSTATUS_MPIE OR MSTATUS_MPP OR MSTATUS_MIE))
     OR (if bit x 3 then MSTATUS_MPIE else 0) OR push_bit 11 (priv_bits m))
    AND NOT (MSTATUS_MIE OR MSTATUS_MPIE OR MSTATUS_MPP))
    OR (if bit x 3 then MSTATUS_MIE else 0) OR MSTATUS_MPIE = (x AND NOT MSTATUS_MPP) OR MSTATUS_MPIE"
  by (rule bit_word_eqI) (cases "bit x 3"; simp only: status_bits if_True if_False bit_0_eq bot_apply bot_bool_def; auto)

lemma sret_after_trap:
  "(((x AND NOT (MSTATUS_SPIE OR MSTATUS_SPP OR MSTATUS_SIE))
     OR (if bit x 1 then MSTATUS_SPIE else 0) OR (if p then MSTATUS_SPP else 0))
    AND NOT (MSTATUS_SIE OR MSTATUS_SPIE OR MSTATUS_SPP))
    OR (if bit x 1 then MSTATUS_SIE else 0) OR MSTATUS_SPIE = (x AND NOT MSTATUS_SPP) OR MSTATUS_SPIE"
  by (rule bit_word_eqI) (cases "bit x 1"; cases p; simp only: status_bits if_True if_False bit_0_eq bot_apply bot_bool_def; auto)

section \<open>Trap entry and return\<close>

lemmas status_masks = MSTATUS_SIE_def MSTATUS_MIE_def MSTATUS_SPIE_def MSTATUS_MPIE_def MSTATUS_SPP_def
  MSTATUS_MPP_def MSTATUS_MPRV_def MSTATUS_TSR_def

definition trap_csrs :: "u64 \<Rightarrow> u64 \<Rightarrow> bool \<Rightarrow> u64 \<Rightarrow> sys_csrs \<Rightarrow> sys_csrs" where
  "trap_csrs cause tval is_interrupt pc s =
     (let k = (if is_interrupt then push_bit 63 1 OR cause else cause) in
      if trap_target_s cause is_interrupt s
      then s\<lparr>scause := k, stval := tval, sepc := pc,
        mstatus := (mstatus s AND NOT (MSTATUS_SPIE OR MSTATUS_SPP OR MSTATUS_SIE))
          OR (if bit (mstatus s) 1 then MSTATUS_SPIE else 0) OR (if mode s = Supervisor then MSTATUS_SPP else 0),
        mode := Supervisor\<rparr>
      else s\<lparr>mcause := k, mtval := tval, mepc := pc,
        mstatus := (mstatus s AND NOT (MSTATUS_MPIE OR MSTATUS_MPP OR MSTATUS_MIE))
          OR (if bit (mstatus s) 3 then MSTATUS_MPIE else 0) OR push_bit 11 (priv_bits (mode s)),
        mode := Machine\<rparr>)"

text \<open>The diagnostics of a trap leave the architectural state alone.\<close>

definition arch_same :: "cpu \<Rightarrow> cpu \<Rightarrow> bool" where
  "arch_same c d \<longleftrightarrow> xreg d = xreg c \<and> freg d = freg c \<and> pcr d = pcr c \<and> sys d = sys c \<and>
     insn_count d = insn_count c \<and> reservation d = reservation c \<and> irq_poll_cd d = irq_poll_cd c \<and>
     fcsr d = fcsr c \<and> vector d = vector c \<and> (syscall_log_pos c < 64 \<longrightarrow> syscall_log_pos d < 64)"

lemma arch_same_trans: "arch_same c d \<Longrightarrow> arch_same d e \<Longrightarrow> arch_same c e"
  by (simp add: arch_same_def)

lemma arch_log: "syscall_log_pos c < 64 \<Longrightarrow> \<exists>d. log_syscall (c, b) = (Inr (), (d, b)) \<and> arch_same c d"
  by (simp add: log_syscall_def arch_same_def)

lemma arch_count: "arch_same c (count_trap k i c)"
  by (simp add: count_trap_def arch_same_def Let_def)

lemma arch_timer: "arch_same c (record_timer_trap s c)"
  by (simp add: record_timer_trap_def arch_same_def Let_def)

lemma pie_move: "push_bit 5 (drop_bit 1 (x :: u64) AND 1) = (if bit x 1 then MSTATUS_SPIE else 0)"
  "push_bit 7 (drop_bit 3 (x :: u64) AND 1) = (if bit x 3 then MSTATUS_MPIE else 0)"
  unfolding MSTATUS_SPIE_def MSTATUS_MPIE_def by (rule bit_move)+

lemma trap_entry_csrs:
  "sys (if trap_target_s k i s then trap_to_s k v i s c else trap_to_m k v i s c) = Some (trap_csrs k v i (pcr c) s)"
  "pcr (if trap_target_s k i s then trap_to_s k v i s c else trap_to_m k v i s c) =
    vectored (if trap_target_s k i s then stvec s else mtvec s) i k"
  unfolding trap_to_s_def trap_to_m_def trap_csrs_def pie_move Let_def by simp_all

lemma arch_privilege:
  "sys (privilege_changed c) = sys c" "pcr (privilege_changed c) = pcr c"
  "reservation (privilege_changed c) = reservation c" "irq_poll_cd (privilege_changed c) = irq_poll_cd c"
  "xreg (privilege_changed c) = xreg c" "freg (privilege_changed c) = freg c"
  "fcsr (privilege_changed c) = fcsr c" "vector (privilege_changed c) = vector c"
  "insn_count (privilege_changed c) = insn_count c" "syscall_log_pos (privilege_changed c) = syscall_log_pos c"
  by (simp_all add: privilege_changed_def sync_jit_tlb_context_def flush_tlb_def)

lemma arch_entry:
  "reservation (trap_to_s k v i s c) = reservation c" "irq_poll_cd (trap_to_s k v i s c) = irq_poll_cd c"
  "xreg (trap_to_s k v i s c) = xreg c" "freg (trap_to_s k v i s c) = freg c"
  "fcsr (trap_to_s k v i s c) = fcsr c" "vector (trap_to_s k v i s c) = vector c"
  "insn_count (trap_to_s k v i s c) = insn_count c" "syscall_log_pos (trap_to_s k v i s c) = syscall_log_pos c"
  "reservation (trap_to_m k v i s c) = reservation c" "irq_poll_cd (trap_to_m k v i s c) = irq_poll_cd c"
  "xreg (trap_to_m k v i s c) = xreg c" "freg (trap_to_m k v i s c) = freg c"
  "fcsr (trap_to_m k v i s c) = fcsr c" "vector (trap_to_m k v i s c) = vector c"
  "insn_count (trap_to_m k v i s c) = insn_count c" "syscall_log_pos (trap_to_m k v i s c) = syscall_log_pos c"
  by (simp_all add: trap_to_s_def trap_to_m_def Let_def)

lemma take_trap_run:
  assumes s: "sys c = Some s" and pos: "syscall_log_pos c < 64"
  shows "\<exists>c'. take_trap cause tval is_interrupt (c, b) = (Inr (), (c', b)) \<and>
    arch_same (c\<lparr>sys := Some (trap_csrs cause tval is_interrupt (pcr c) s), reservation := None,
      irq_poll_cd := 0, pcr := vectored (if trap_target_s cause is_interrupt s then stvec s else mtvec s)
        is_interrupt cause\<rparr>) c'"
proof -
  define c1 where "c1 = c\<lparr>irq_poll_cd := 0, reservation := None\<rparr>"
  obtain c2 where c2: "(if \<not> is_interrupt \<and> cause = 8 then log_syscall else mret ()) (c1, b) = (Inr (), (c2, b))"
    and a2: "arch_same c1 c2"
  proof (cases "\<not> is_interrupt \<and> cause = 8")
    case True
    with arch_log [of c1 b] pos that show ?thesis by (auto simp: c1_def)
  next
    case False
    with that [of c1] show ?thesis by (simp add: arch_same_def)
  qed
  define c3 where "c3 = count_trap cause is_interrupt c2"
  define c4 where "c4 = (case sys c3 of None \<Rightarrow> c3
    | Some s \<Rightarrow> if is_interrupt \<and> cause = 5 \<and> mode s = User then record_timer_trap s c3 else c3)"
  have "arch_same c3 c4" unfolding c4_def
    by (auto simp: arch_timer split: option.split) (simp_all add: arch_same_def)
  then have a4: "arch_same c1 c4"
    using a2 arch_count [of c2 cause is_interrupt] by (auto simp: c3_def intro: arch_same_trans)
  then have s4: "sys c4 = Some s" "pcr c4 = pcr c" using s by (simp_all add: arch_same_def c1_def)
  define c5 where "c5 = privilege_changed (if trap_target_s cause is_interrupt s
    then trap_to_s cause tval is_interrupt s c4 else trap_to_m cause tval is_interrupt s c4)"
  have "take_trap cause tval is_interrupt (c, b) = (Inr (), (c5, b))"
    unfolding take_trap_def bind_modc fst_conv snd_conv c1_def [symmetric]
    by (subst mbind_run_Inr [where m = "if _ then _ else _", OF c2])
      (simp only: bind_modc bind_getc fst_conv snd_conv c3_def [symmetric] c4_def [symmetric] s4 option.case modc_run c5_def)
  moreover have "sys c5 = Some (trap_csrs cause tval is_interrupt (pcr c) s)"
    "pcr c5 = vectored (if trap_target_s cause is_interrupt s then stvec s else mtvec s) is_interrupt cause"
    unfolding c5_def arch_privilege trap_entry_csrs s4(2) by simp_all
  moreover have "arch_same (c1\<lparr>sys := sys c5, pcr := pcr c5\<rparr>) c5"
    using a4 pos unfolding arch_same_def c5_def arch_privilege
    by (auto simp: arch_entry)
  ultimately show ?thesis by (auto simp: arch_same_def c1_def)
qed


lemma ie_move: "push_bit 3 (drop_bit 7 (x :: u64) AND 1) = (if bit x 7 then MSTATUS_MIE else 0)"
  "push_bit 1 (drop_bit 5 (x :: u64) AND 1) = (if bit x 5 then MSTATUS_SIE else 0)"
  unfolding MSTATUS_SIE_def MSTATUS_MIE_def by (rule bit_move)+

lemma saved_ie:
  "bit ((x AND NOT (MSTATUS_MPIE OR MSTATUS_MPP OR MSTATUS_MIE))
     OR (if bit x 3 then MSTATUS_MPIE else 0) OR push_bit 11 (priv_bits m)) 7 = bit x 3"
  "bit ((x AND NOT (MSTATUS_SPIE OR MSTATUS_SPP OR MSTATUS_SIE))
     OR (if bit x 1 then MSTATUS_SPIE else 0) OR (if p then MSTATUS_SPP else 0)) 5 = bit x 1"
  by (simp_all add: bit_or_iff bit_and_iff bit_not_iff bit_status bit_priv del: push_bit_of_1)

lemma mret_of_trap:
  assumes "\<not> trap_target_s cause is_interrupt s"
  shows "mret_csrs (trap_csrs cause tval is_interrupt pc s) =
    s\<lparr>mcause := (if is_interrupt then push_bit 63 1 OR cause else cause), mtval := tval,
      mepc := pc, mstatus := ((mstatus s AND NOT MSTATUS_MPP) OR MSTATUS_MPIE) AND
        (if mode s = Machine then NOT 0 else NOT MSTATUS_MPRV)\<rparr>"
proof -
  define k where "k = (if is_interrupt then push_bit 63 1 OR cause else cause)"
  define x where "x = (mstatus s AND NOT (MSTATUS_MPIE OR MSTATUS_MPP OR MSTATUS_MIE))
    OR (if bit (mstatus s) 3 then MSTATUS_MPIE else 0) OR push_bit 11 (priv_bits (mode s))"
  have t: "trap_csrs cause tval is_interrupt pc s =
      s\<lparr>mcause := k, mtval := tval, mepc := pc, mstatus := x, mode := Machine\<rparr>"
    using assms unfolding trap_csrs_def Let_def k_def x_def by simp
  have mpp: "mode_from_bits (drop_bit 11 (x AND MSTATUS_MPP)) = mode s"
    unfolding x_def mpp_field by simp
  have ms: "(x AND NOT (MSTATUS_MIE OR MSTATUS_MPIE OR MSTATUS_MPP)) OR
      push_bit 3 (drop_bit 7 x AND 1) OR MSTATUS_MPIE = (mstatus s AND NOT MSTATUS_MPP) OR MSTATUS_MPIE"
    unfolding ie_move x_def saved_ie by (rule mret_after_trap)
  have "mstatus (trap_csrs cause tval is_interrupt pc s) = x" unfolding t by simp
  then show ?thesis
    unfolding mret_csrs_def Let_def by (simp only: mpp ms) (simp add: t k_def)
qed

lemma sret_of_trap:
  assumes "trap_target_s cause is_interrupt s"
  shows "sret_csrs (trap_csrs cause tval is_interrupt pc s) =
    s\<lparr>scause := (if is_interrupt then push_bit 63 1 OR cause else cause), stval := tval,
      sepc := pc, mstatus := ((mstatus s AND NOT MSTATUS_SPP) OR MSTATUS_SPIE) AND NOT MSTATUS_MPRV\<rparr>"
proof -
  define k where "k = (if is_interrupt then push_bit 63 1 OR cause else cause)"
  define x where "x = (mstatus s AND NOT (MSTATUS_SPIE OR MSTATUS_SPP OR MSTATUS_SIE))
    OR (if bit (mstatus s) 1 then MSTATUS_SPIE else 0) OR (if mode s = Supervisor then MSTATUS_SPP else 0)"
  have t: "trap_csrs cause tval is_interrupt pc s =
      s\<lparr>scause := k, stval := tval, sepc := pc, mstatus := x, mode := Supervisor\<rparr>"
    using assms unfolding trap_csrs_def Let_def k_def x_def by simp
  have "bit x 8 \<longleftrightarrow> mode s = Supervisor"
    unfolding x_def bit_or_iff bit_and_iff bit_not_iff by (simp add: bit_status)
  then have spp: "x AND MSTATUS_SPP \<noteq> 0 \<longleftrightarrow> mode s = Supervisor"
    unfolding MSTATUS_SPP_def flag_and by simp
  have ms: "(x AND NOT (MSTATUS_SIE OR MSTATUS_SPIE OR MSTATUS_SPP)) OR
      push_bit 1 (drop_bit 5 x AND 1) OR MSTATUS_SPIE = (mstatus s AND NOT MSTATUS_SPP) OR MSTATUS_SPIE"
    unfolding ie_move x_def saved_ie by (rule sret_after_trap)
  have "mode s = Supervisor \<or> mode s = User"
    using assms by (cases "mode s") (auto simp: trap_target_s_def)
  moreover have "mstatus (trap_csrs cause tval is_interrupt pc s) = x" unfolding t by simp
  ultimately show ?thesis
    unfolding sret_csrs_def Let_def by (elim disjE) (simp_all only: spp ms, simp_all add: t k_def)
qed

text \<open>
  C17: a trap taken to machine mode followed by MRET resumes the interrupted hart: the next PC is
  the interrupted PC, integer and floating-point registers are untouched, the mode and the
  interrupt-enable bit are back, and the only privileged state that differs is mcause, mtval,
  mepc and, in mstatus, MPIE set, MPP cleared and MPRV cleared when the mode is below M.
\<close>

theorem trap_mret_return:
  assumes s: "sys c = Some s" and pos: "syscall_log_pos c < 64" and m: "\<not> trap_target_s cause is_interrupt s"
  shows "\<exists>c'. mbind (take_trap cause tval is_interrupt) (\<lambda>_. exec_mret insn) (c, b) =
      (Inr (Next (pcr c) None), (c', b)) \<and> xreg c' = xreg c \<and> freg c' = freg c \<and>
    sys c' = Some (s\<lparr>mcause := (if is_interrupt then push_bit 63 1 OR cause else cause), mtval := tval,
      mepc := pcr c,
      mstatus := ((mstatus s AND NOT MSTATUS_MPP) OR MSTATUS_MPIE) AND
        (if mode s = Machine then NOT 0 else NOT MSTATUS_MPRV)\<rparr>)"
proof -
  obtain c1 where t: "take_trap cause tval is_interrupt (c, b) = (Inr (), (c1, b))"
    and a: "arch_same (c\<lparr>sys := Some (trap_csrs cause tval is_interrupt (pcr c) s), reservation := None,
      irq_poll_cd := 0, pcr := vectored (mtvec s) is_interrupt cause\<rparr>) c1"
    using take_trap_run [OF s pos, of cause tval is_interrupt b] m by auto
  define s1 where "s1 = trap_csrs cause tval is_interrupt (pcr c) s"
  have s1: "sys c1 = Some s1" "mode s1 = Machine" "mepc s1 = pcr c"
    using a m by (simp_all add: arch_same_def s1_def trap_csrs_def Let_def)
  have csrs: "mret_csrs s1 = s\<lparr>mcause := (if is_interrupt then push_bit 63 1 OR cause else cause), mtval := tval,
      mepc := pcr c, mstatus := ((mstatus s AND NOT MSTATUS_MPP) OR MSTATUS_MPIE) AND
        (if mode s = Machine then NOT 0 else NOT MSTATUS_MPRV)\<rparr>"
    unfolding s1_def by (rule mret_of_trap [OF m])
  have "mbind (take_trap cause tval is_interrupt) (\<lambda>_. exec_mret insn) (c, b) =
      (Inr (Next (pcr c) None), (privilege_changed (c1\<lparr>irq_poll_cd := 0, sys := Some (mret_csrs s1)\<rparr>), b))"
    using s1 by (simp add: mbind_run_Inr [where m = "take_trap _ _ _", OF t] exec_mret_def)
  then show ?thesis
    using a by (simp add: csrs arch_privilege arch_same_def)
qed


text \<open>
  C18: a trap delegated to supervisor mode followed by SRET (with TSR clear) resumes the
  interrupted hart in the same way, through scause, stval, sepc, SPIE and SPP.
\<close>

theorem trap_sret_return:
  assumes s: "sys c = Some s" and pos: "syscall_log_pos c < 64" and d: "trap_target_s cause is_interrupt s"
    and tsr: "\<not> bit (mstatus s) 22"
  shows "\<exists>c'. mbind (take_trap cause tval is_interrupt) (\<lambda>_. exec_sret insn) (c, b) =
      (Inr (Next (pcr c) None), (c', b)) \<and> xreg c' = xreg c \<and> freg c' = freg c \<and>
    sys c' = Some (s\<lparr>scause := (if is_interrupt then push_bit 63 1 OR cause else cause), stval := tval,
      sepc := pcr c, mstatus := ((mstatus s AND NOT MSTATUS_SPP) OR MSTATUS_SPIE) AND NOT MSTATUS_MPRV\<rparr>)"
proof -
  obtain c1 where t: "take_trap cause tval is_interrupt (c, b) = (Inr (), (c1, b))"
    and a: "arch_same (c\<lparr>sys := Some (trap_csrs cause tval is_interrupt (pcr c) s), reservation := None,
      irq_poll_cd := 0, pcr := vectored (stvec s) is_interrupt cause\<rparr>) c1"
    using take_trap_run [OF s pos, of cause tval is_interrupt b] d by auto
  define s1 where "s1 = trap_csrs cause tval is_interrupt (pcr c) s"
  have s1: "sys c1 = Some s1" "mode s1 = Supervisor" "sepc s1 = pcr c"
    using a d by (simp_all add: arch_same_def s1_def trap_csrs_def Let_def)
  have "\<not> bit (mstatus s1) 22"
    using tsr d unfolding s1_def trap_csrs_def Let_def by (simp add: bit_or_iff bit_and_iff bit_status)
  then have "mstatus s1 AND MSTATUS_TSR = 0"
    using flag_and [of "mstatus s1" 22] unfolding MSTATUS_TSR_def by simp
  then have "mbind (take_trap cause tval is_interrupt) (\<lambda>_. exec_sret insn) (c, b) =
      (Inr (Next (pcr c) None), (privilege_changed (c1\<lparr>irq_poll_cd := 0, sys := Some (sret_csrs s1)\<rparr>), b))"
    using s1 by (simp add: mbind_run_Inr [where m = "take_trap _ _ _", OF t] exec_sret_def)
  then show ?thesis
    using a unfolding s1_def sret_of_trap [OF d] by (simp add: arch_privilege arch_same_def)
qed

section \<open>Interrupts\<close>

definition irq_ready :: "sys_csrs \<Rightarrow> nat \<Rightarrow> bool" where
  "irq_ready s irq \<longleftrightarrow> bit (mip s) irq \<and> bit (mie s) irq \<and>
     (if bit (mideleg s) irq
      then mode s < Supervisor \<or> (mode s = Supervisor \<and> bit (mstatus s) 1)
      else mode s < Machine \<or> (mode s = Machine \<and> bit (mstatus s) 3))"

lemma priv_less: "m < Supervisor \<longleftrightarrow> m = User" "m < Machine \<longleftrightarrow> m \<noteq> Machine"
  by (cases m; simp add: less_priv_def)+

lemma deliverable_ready:
  assumes "irq < 64"
  shows "(mip s AND mie s AND push_bit irq 1 \<noteq> 0 \<and> deliverable s irq) \<longleftrightarrow> irq_ready s irq"
proof -
  have "(mip s AND mie s AND push_bit irq 1 \<noteq> 0) \<longleftrightarrow> bit (mip s) irq \<and> bit (mie s) irq"
    unfolding and.assoc [symmetric] flag_and using assms by (simp add: bit_and_iff)
  moreover have "deliverable s irq \<longleftrightarrow> (if bit (mideleg s) irq
      then mode s < Supervisor \<or> (mode s = Supervisor \<and> bit (mstatus s) 1)
      else mode s < Machine \<or> (mode s = Machine \<and> bit (mstatus s) 3))"
    unfolding deliverable_def Let_def MSTATUS_SIE_def MSTATUS_MIE_def flag_and priv_less using assms by auto
  ultimately show ?thesis by (simp add: irq_ready_def)
qed

lemma first_irq_find:
  "(\<forall>i\<in>set irqs. i < 64) \<Longrightarrow> first_irq s irqs = List.find (irq_ready s) irqs"
  by (induction irqs) (simp_all add: deliverable_ready del: push_bit_of_1)

lemma not_pending: "mip s AND mie s = 0 \<Longrightarrow> \<not> irq_ready s i"
  by (metis bit_and_iff bit_0_eq bot_apply bot_bool_def irq_ready_def)

text \<open>
  C19: an interrupt poll refreshes the hardware lines of mip and then takes the first interrupt,
  in the order MEI, MSI, MTI, SEI, SSI, STI, that is pending, enabled and not masked for the
  current mode by its (delegated) global enable; with none it changes nothing else.
\<close>

theorem check_interrupts_priority:
  assumes s: "sys c = Some s" and pos: "syscall_log_pos c < 64" and l: "irq_lines B b = (lines, b')"
    and s1: "s1 = s\<lparr>mip := (mip s AND NOT HW_LINES) OR (lines AND HW_LINES)\<rparr>"
  shows "case List.find (irq_ready s1) [11, 3, 7, 9, 1, 5] of
      None \<Rightarrow> check_interrupts B (c, b) = (Inr False, (c\<lparr>sys := Some s1\<rparr>, b'))
    | Some irq \<Rightarrow> \<exists>c'. check_interrupts B (c, b) = (Inr True, (c', b')) \<and>
        sys c' = Some (trap_csrs (of_nat irq) 0 True (pcr c) s1) \<and>
        pcr c' = vectored (if trap_target_s (of_nat irq) True s1 then stvec s1 else mtvec s1) True (of_nat irq)"
proof -
  have run: "check_interrupts B (c, b) = (if mip s1 AND mie s1 = 0 then mret False
      else case first_irq s1 [11, 3, 7, 9, 1, 5] of None \<Rightarrow> mret False
        | Some irq \<Rightarrow> mbind (take_trap (of_nat irq) 0 True) (\<lambda>_. mret True)) (c\<lparr>sys := Some s1\<rparr>, b')"
    using s l unfolding s1 check_interrupts_def
    by (simp add: mbind_run_Inr [of "busm _" "(c, b)" lines "(c, b')"] busm_run Let_def)
  have f: "first_irq s1 [11, 3, 7, 9, 1, 5] = List.find (irq_ready s1) [11, 3, 7, 9, 1, 5]"
    by (rule first_irq_find) simp
  show ?thesis
  proof (cases "List.find (irq_ready s1) [11, 3, 7, 9, 1, 5]")
    case None
    with run f show ?thesis by simp
  next
    case (Some irq)
    then have "irq_ready s1 irq" by (simp only: find_Some_iff) blast
    then have "mip s1 AND mie s1 \<noteq> 0" using not_pending by blast
    moreover obtain c' where "take_trap (of_nat irq) 0 True (c\<lparr>sys := Some s1\<rparr>, b') = (Inr (), (c', b'))"
      and "sys c' = Some (trap_csrs (of_nat irq) 0 True (pcr c) s1)"
      and "pcr c' = vectored (if trap_target_s (of_nat irq) True s1 then stvec s1 else mtvec s1) True (of_nat irq)"
      using take_trap_run [of "c\<lparr>sys := Some s1\<rparr>" s1 "of_nat irq" 0 True b'] pos by (auto simp: arch_same_def)
    ultimately show ?thesis
      using run f Some by (simp add: mbind_run_Inr)
  qed
qed

section \<open>CSR access\<close>

definition user_csrs :: "u32 set" where
  "user_csrs = {FFLAGS, FRM, FCSR, VSTART, VXSAT, VXRM, VCSR, VL, VTYPE, VLENB, CYCLE, INSTRET,
     MCYCLE, MINSTRET, TIME}"

lemma csr_read_one:
  assumes "sys c = Some s" and "csr_allowed c csr" and "csr \<notin> user_csrs" and "csr < 0x3a0"
  shows "csr_read c csr = csr_read_sys s csr"
proof -
  have "\<not> 0x3a0 \<le> csr" "\<not> 0x3b0 \<le> csr" using assms(4) order.strict_trans2 [of csr "0x3a0" "0x3b0"] by auto
  with assms show ?thesis by (simp add: csr_read_def user_csrs_def)
qed

lemma masked_write: "((x AND NOT w) OR (v AND w)) AND w = v AND (w :: u64)"
    "((x AND NOT w) OR (v AND w)) AND NOT w = x AND NOT (w :: u64)"
  by (rule bit_word_eqI; auto simp: bit_simps)+

text \<open>A register whose read returns a plain mask of what was written.\<close>

definition csr_mask :: "u32 \<Rightarrow> u64 option" where
  "csr_mask csr =
     map_of [(STVEC, NOT 2), (SCOUNTEREN, 7), (SSCRATCH, NOT 0), (SEPC, NOT 1), (SCAUSE, NOT 0),
       (STVAL, NOT 0), (MEDELEG, NOT 0), (MIDELEG, MIP_W), (MIE, NOT 0), (MTVEC, NOT 2),
       (MCOUNTEREN, 7), (MSCRATCH, NOT 0), (MEPC, NOT 1), (MCAUSE, NOT 0), (MTVAL, NOT 0),
       (FFLAGS, 0x1f), (FRM, 7), (FCSR, 0xff)] csr"

definition status_view :: "u64 \<Rightarrow> u64" where
  "status_view x = (if x AND MSTATUS_FS = MSTATUS_FS \<or> x AND MSTATUS_VS = MSTATUS_VS then x OR MSTATUS_SD else x)"

definition merge_bits :: "u64 \<Rightarrow> u64 \<Rightarrow> u64 \<Rightarrow> u64" where
  "merge_bits w old v = (old AND NOT w) OR (v AND w)"

definition csr_readback :: "u32 \<Rightarrow> u64 \<Rightarrow> sys_csrs \<Rightarrow> u64 option" where
  "csr_readback csr v s =
     (if drop_bit 10 csr = 3 then None else case csr_mask csr of Some m \<Rightarrow> Some (v AND m)
      | None \<Rightarrow>
        if csr = SSTATUS then Some (status_view (merge_bits SSTATUS_W (mstatus s) v) AND SSTATUS_MASK)
        else if csr = MSTATUS then Some (status_view (merge_bits MSTATUS_W (mstatus s) v))
        else if csr = SIE then Some (v AND mideleg s)
        else if csr = SIP then Some (merge_bits (IRQ_SSIP AND mideleg s) (mip s) v AND mideleg s)
        else if csr = MIP then Some (merge_bits MIP_W (mip s) v)
        else if csr = SATP then
          (if mode s = Supervisor \<and> mstatus s AND MSTATUS_TVM \<noteq> 0 then None
           else Some (if drop_bit 60 v \<in> {0, 8, 9} then v else satp s))
        else if csr = MISA then Some MISA_VALUE
        else if csr = 0x7a0 then Some 1
        else if csr \<in> {0x7a1, 0x7a2, 0x7a3, 0x7a5} then Some 0
        else if csr \<in> {MCYCLE, MINSTRET} then Some (v - 1)
        else if 0x3a0 \<le> csr \<and> csr \<le> 0x3af \<and> csr AND 1 = 0 then Some v
        else if 0x3b0 \<le> csr \<and> csr \<le> 0x3ef then Some (v AND 0x003fffffffffffff)
        else if csr \<in> {VSTART, VXSAT, VXRM, VCSR} \<and> mstatus s AND MSTATUS_VS \<noteq> 0
        then Some (v AND (if csr = VSTART then of_nat VLEN_BITS - 1 else if csr = VXSAT then 1
          else if csr = VXRM then 3 else 7))
        else None)"

definition csr_arm :: "u32 \<Rightarrow> u64 \<Rightarrow> cpu \<Rightarrow> bool \<times> cpu" where
  "csr_arm csr v c = (case csr_write_u csr v c of Some r \<Rightarrow> r
     | None \<Rightarrow> (case csr_write_s csr v c of Some r \<Rightarrow> r | None \<Rightarrow> csr_write_m csr v c))"

lemma csr_write_arm:
  assumes "csr_allowed c csr" "drop_bit 10 csr \<noteq> 3"
  shows "csr_write csr v c = csr_arm csr v (c\<lparr>irq_poll_cd := 0\<rparr>)"
  using assms by (simp add: csr_write_def csr_arm_def csr_allowed_def Let_def)

definition csr_reads_back :: "u32 \<Rightarrow> u64 \<Rightarrow> cpu \<Rightarrow> u64 option \<Rightarrow> bool" where
  "csr_reads_back csr v c r \<longleftrightarrow> (case r of
       None \<Rightarrow> csr_arm csr v c = (False, c)
     | Some x \<Rightarrow> \<exists>c'. csr_arm csr v c = (True, c') \<and> csr_read c' csr = Some x)"


lemmas csr_arm_defs = csr_arm_def csr_write_u_def csr_write_s_def csr_write_m_def set_sys_def Let_def
lemmas readback_defs = csr_reads_back_def csr_read_def csr_read_sys_def csr_allowed_def

lemma csr_reads_backI: "csr_arm csr v c = (True, c') \<Longrightarrow> csr_read c' csr = Some x \<Longrightarrow> csr_reads_back csr v c (Some x)"
  by (simp add: csr_reads_back_def)

lemma rb_mask:
  assumes s: "sys c = Some s" and a: "csr_allowed c csr" and m: "csr_mask csr = Some m" "csr \<notin> {FFLAGS, FRM, FCSR}"
  shows "csr_reads_back csr v c (Some (v AND m))"
proof -
  have k: "csr \<in> {STVEC, SCOUNTEREN, SSCRATCH, SEPC, SCAUSE, STVAL, MEDELEG, MIDELEG, MIE, MTVEC,
      MCOUNTEREN, MSCRATCH, MEPC, MCAUSE, MTVAL}"
    using m by (simp add: csr_mask_def split: if_splits)
  then show ?thesis using m s a
    by (elim insertE emptyE) (auto simp add: csr_mask_def csr_arm_defs readback_defs csr_addr)
qed

lemma fcsr_fields:
  fixes x :: u32 and v :: u64
  shows "(ucast (((x AND NOT 0x1f) OR (ucast v AND 0x1f)) AND 0x1f) :: u64) = v AND 0x1f"
    "(ucast (drop_bit 5 ((x AND NOT 0xe0) OR push_bit 5 (ucast v AND 7)) AND 7) :: u64) = v AND 7"
    "(ucast (ucast v AND 0xff :: u32) :: u64) = v AND 0xff"
proof -
  have m: "(0x1f :: u64) = mask 5" "(7 :: u64) = mask 3" "(0xff :: u64) = mask 8"
    "(0x1f :: u32) = mask 5" "(7 :: u32) = mask 3" "(0xff :: u32) = mask 8"
    "(0xe0 :: u32) = push_bit 5 (mask 3)" by (simp_all add: mask_eq_exp_minus_1)
  show "(ucast (((x AND NOT 0x1f) OR (ucast v AND 0x1f)) AND 0x1f) :: u64) = v AND 0x1f"
    "(ucast (drop_bit 5 ((x AND NOT 0xe0) OR push_bit 5 (ucast v AND 7)) AND 7) :: u64) = v AND 7"
    "(ucast (ucast v AND 0xff :: u32) :: u64) = v AND 0xff"
    unfolding m by (rule bit_word_eqI; auto simp: bit_simps)+
qed

lemma rb_fcsr:
  assumes s: "sys c = Some s"
  shows "csr_reads_back FFLAGS v c (Some (v AND 0x1f))" "csr_reads_back FRM v c (Some (v AND 7))"
    "csr_reads_back FCSR v c (Some (v AND 0xff))"
proof -
  have r: "csr_read (c\<lparr>fcsr := x\<rparr>) FFLAGS = Some (ucast (x AND 0x1f))"
    "csr_read (c\<lparr>fcsr := x\<rparr>) FRM = Some (ucast (drop_bit 5 x AND 7))"
    "csr_read (c\<lparr>fcsr := x\<rparr>) FCSR = Some (ucast x)" for x
    using s by (simp_all add: csr_read_def csr_allowed_def csr_addr)
  have w: "csr_arm FFLAGS v c = (True, c\<lparr>fcsr := (fcsr c AND NOT 0x1f) OR (ucast v AND 0x1f)\<rparr>)"
    "csr_arm FRM v c = (True, c\<lparr>fcsr := (fcsr c AND NOT 0xe0) OR push_bit 5 (ucast v AND 7)\<rparr>)"
    "csr_arm FCSR v c = (True, c\<lparr>fcsr := ucast v AND 0xff\<rparr>)"
    by (simp_all add: csr_arm_defs csr_addr)
  show "csr_reads_back FFLAGS v c (Some (v AND 0x1f))" "csr_reads_back FRM v c (Some (v AND 7))"
    "csr_reads_back FCSR v c (Some (v AND 0xff))"
    by (rule csr_reads_backI, rule w, unfold r fcsr_fields, rule refl)+
qed

lemma rb_status:
  assumes s: "sys c = Some s" 
  shows "csr_allowed c SSTATUS \<Longrightarrow> csr_reads_back SSTATUS v c (Some (status_view (merge_bits SSTATUS_W (mstatus s) v) AND SSTATUS_MASK))"
    "csr_allowed c MSTATUS \<Longrightarrow> csr_reads_back MSTATUS v c (Some (status_view (merge_bits MSTATUS_W (mstatus s) v)))"
  using s by (simp_all add: csr_arm_defs readback_defs csr_addr write_status_def flush_tlb_def sync_jit_tlb_context_def status_view_def merge_bits_def)

lemma rb_irq:
  assumes s: "sys c = Some s" 
  shows "csr_allowed c SIE \<Longrightarrow> csr_reads_back SIE v c (Some (v AND mideleg s))"
    "csr_allowed c SIP \<Longrightarrow> csr_reads_back SIP v c (Some (merge_bits (IRQ_SSIP AND mideleg s) (mip s) v AND mideleg s))"
    "csr_allowed c MIP \<Longrightarrow> csr_reads_back MIP v c (Some (merge_bits MIP_W (mip s) v))"
  using s by (simp_all add: csr_arm_defs readback_defs csr_addr merge_bits_def masked_write)


lemma rb_satp:
  assumes s: "sys c = Some s" "csr_allowed c SATP"
  shows "csr_reads_back SATP v c (if mode s = Supervisor \<and> mstatus s AND MSTATUS_TVM \<noteq> 0 then None
           else Some (if drop_bit 60 v \<in> {0, 8, 9} then v else satp s))"
proof -
  have "csr_arm SATP v c = write_satp v c" by (simp add: csr_arm_defs csr_addr)
  moreover have "csr_read d SATP = csr_read_sys t SATP" if "sys d = Some t" "mode t = mode s" for d t
    using s that by (simp add: csr_read_def csr_allowed_def csr_addr)
  ultimately show ?thesis using s(1)
    by (simp add: csr_reads_back_def write_satp_def csr_read_sys_def csr_addr flush_tlb_def Let_def)
qed

lemma rb_fixed:
  assumes s: "sys c = Some s" "csr_allowed c csr"
  shows "csr = MISA \<Longrightarrow> csr_reads_back csr v c (Some MISA_VALUE)"
    "csr = 0x7a0 \<Longrightarrow> csr_reads_back csr v c (Some 1)"
    "csr \<in> {0x7a1, 0x7a2, 0x7a3, 0x7a5} \<Longrightarrow> csr_reads_back csr v c (Some 0)"
    "csr \<in> {MCYCLE, MINSTRET} \<Longrightarrow> csr_reads_back csr v c (Some (v - 1))"
  using s by - ((elim insertE emptyE)?; simp add: csr_arm_defs readback_defs csr_addr)+

lemma vcsr_fields:
  fixes v :: u64
  shows "(of_flag (v AND 1 \<noteq> 0) :: u64) = v AND 1" "(ucast (ucast (v AND 3) :: u8) :: u64) = v AND 3"
    "push_bit 1 (ucast (ucast (drop_bit 1 v AND 3) :: u8) :: u64) OR of_flag (v AND 1 \<noteq> 0) = v AND 7"
proof -
  show f: "(of_flag (v AND 1 \<noteq> 0) :: u64) = v AND 1" by (simp add: of_flag_def and_one_eq)
  have m: "(3 :: u64) = mask 2" "(7 :: u64) = mask 3" "(1 :: u64) = mask 1" by (simp_all add: mask_eq_exp_minus_1)
  show "(ucast (ucast (v AND 3) :: u8) :: u64) = v AND 3"
    unfolding m by (rule bit_word_eqI; auto simp: bit_simps)
  show "push_bit 1 (ucast (ucast (drop_bit 1 v AND 3) :: u8) :: u64) OR of_flag (v AND 1 \<noteq> 0) = v AND 7"
    unfolding f unfolding m
    by (rule bit_word_eqI) (simp only: bit_or_iff bit_and_iff bit_push_bit_iff bit_drop_bit_eq
      bit_ucast_iff bit_mask_iff comp_apply, auto)
qed

lemma rb_vector:
  assumes s: "sys c = Some s" and e: "mstatus s AND MSTATUS_VS \<noteq> 0"
  shows "csr_reads_back VSTART v c (Some (v AND (of_nat VLEN_BITS - 1)))" "csr_reads_back VXSAT v c (Some (v AND 1))"
    "csr_reads_back VXRM v c (Some (v AND 3))" "csr_reads_back VCSR v c (Some (v AND 7))"
proof -
  define t where "t = s\<lparr>mstatus := mstatus s OR MSTATUS_VS\<rparr>"
  have "MSTATUS_VS \<noteq> 0" using e by auto
  then have r: "csr_read (c\<lparr>sys := Some t, vector := x\<rparr>) VSTART = Some (vs_vstart x)"
    "csr_read (c\<lparr>sys := Some t, vector := x\<rparr>) VXSAT = Some (of_flag (vs_vxsat x))"
    "csr_read (c\<lparr>sys := Some t, vector := x\<rparr>) VXRM = Some (ucast (vs_vxrm x))"
    "csr_read (c\<lparr>sys := Some t, vector := x\<rparr>) VCSR = Some (push_bit 1 (ucast (vs_vxrm x)) OR of_flag (vs_vxsat x))" for x
    by (simp_all add: csr_read_def csr_allowed_def csr_addr vector_enabled_def t_def)
  have q: "vs_vstart (x\<lparr>vs_vstart := a\<rparr>) = a" "vs_vxsat (x\<lparr>vs_vxsat := y\<rparr>) = y" "vs_vxrm (x\<lparr>vs_vxrm := z\<rparr>) = z"
    "vs_vxsat (x\<lparr>vs_vxsat := y, vs_vxrm := z\<rparr>) = y" for x :: vector_state and a y z by simp_all
  have w: "csr_arm VSTART v c = (True, c\<lparr>sys := Some t, vector := (vector c)\<lparr>vs_vstart := v AND (of_nat VLEN_BITS - 1)\<rparr>\<rparr>)"
    "csr_arm VXSAT v c = (True, c\<lparr>sys := Some t, vector := (vector c)\<lparr>vs_vxsat := (v AND 1 \<noteq> 0)\<rparr>\<rparr>)"
    "csr_arm VXRM v c = (True, c\<lparr>sys := Some t, vector := (vector c)\<lparr>vs_vxrm := ucast (v AND 3)\<rparr>\<rparr>)"
    "csr_arm VCSR v c = (True, c\<lparr>sys := Some t, vector := (vector c)\<lparr>vs_vxsat := (v AND 1 \<noteq> 0),
       vs_vxrm := ucast (drop_bit 1 v AND 3)\<rparr>\<rparr>)"
    using s e by (simp_all add: csr_arm_defs csr_addr vector_enabled_def vector_dirty_def t_def)
  show "csr_reads_back VSTART v c (Some (v AND (of_nat VLEN_BITS - 1)))" "csr_reads_back VXSAT v c (Some (v AND 1))"
    "csr_reads_back VXRM v c (Some (v AND 3))" "csr_reads_back VCSR v c (Some (v AND 7))"
    by (rule csr_reads_backI, rule w, unfold r q, rule arg_cong [where f = Some], (rule refl vcsr_fields)+)+
qed

lemma rb_pmp:
  assumes s: "sys c = Some s" and a: "csr_allowed c csr"
  shows "0x3a0 \<le> csr \<Longrightarrow> csr \<le> 0x3af \<Longrightarrow> csr AND 1 = 0 \<Longrightarrow> csr_reads_back csr v c (Some v)"
    "0x3b0 \<le> csr \<Longrightarrow> csr \<le> 0x3ef \<Longrightarrow> csr_reads_back csr v c (Some (v AND 0x003fffffffffffff))"
proof -
  have n: "csr \<notin> {FFLAGS, FRM, FCSR, VSTART, VXSAT, VXRM, VCSR, VL, VTYPE, VLENB, CYCLE, INSTRET,
      MCYCLE, MINSTRET, TIME}" if "0x3a0 \<le> csr" "csr \<le> 0x3ef"
    using that by (auto simp: csr_addr word_le_nat_alt)
  show "csr_reads_back csr v c (Some v)" if "0x3a0 \<le> csr" "csr \<le> 0x3af" "csr AND 1 = 0"
  proof -
    have "csr \<le> 0x3ef" using that(2) by (rule order_trans) simp
    from n [OF that(1) this] that s a show ?thesis by (simp add: csr_arm_defs readback_defs)
  qed
  show "csr_reads_back csr v c (Some (v AND 0x003fffffffffffff))" if "0x3b0 \<le> csr" "csr \<le> 0x3ef"
  proof -
    have "0x3a0 \<le> csr" using order_trans [OF _ that(1), of "0x3a0"] by simp
    moreover have "\<not> csr \<le> 0x3af" using order.strict_trans2 [OF _ that(1), of "0x3af"] by (simp add: not_le)
    ultimately show ?thesis using n [OF _ that(2)] that s a by (simp add: csr_arm_defs readback_defs)
  qed
qed

lemma rb_none:
  assumes "csr_mask csr = None" "sys c = Some s"
    and "csr \<notin> {SSTATUS, MSTATUS, SIE, SIP, MIP, SATP, MISA, 0x7a0, 0x7a1, 0x7a2, 0x7a3, 0x7a5, MCYCLE, MINSTRET}"
    and "\<not> (0x3a0 \<le> csr \<and> csr \<le> 0x3af \<and> csr AND 1 = 0)" "\<not> (0x3b0 \<le> csr \<and> csr \<le> 0x3ef)"
    and "\<not> (csr \<in> {VSTART, VXSAT, VXRM, VCSR} \<and> mstatus s AND MSTATUS_VS \<noteq> 0)"
  shows "csr_reads_back csr v c None"
proof -
  have m: "csr \<notin> {STVEC, SCOUNTEREN, SSCRATCH, SEPC, SCAUSE, STVAL, MEDELEG, MIDELEG, MIE, MTVEC,
      MCOUNTEREN, MSCRATCH, MEPC, MCAUSE, MTVAL, FFLAGS, FRM, FCSR}"
    using assms(1) by (auto simp: csr_mask_def split: if_splits)
  have "vector_enabled c \<longleftrightarrow> mstatus s AND MSTATUS_VS \<noteq> 0" using assms(2) by (simp add: vector_enabled_def)
  then have "csr_write_u csr v c = None" unfolding csr_write_u_def Let_def using assms(3-6) m by (simp only: if_False) auto
  moreover have "csr_write_s csr v c = None" unfolding csr_write_s_def using assms(3) m by simp
  moreover have "csr_write_m csr v c = (False, c)" unfolding csr_write_m_def using assms(3) m by simp
  ultimately show ?thesis by (simp add: csr_reads_back_def csr_arm_def)
qed

lemma rb_if:
  "(P \<Longrightarrow> csr_reads_back csr v c x) \<Longrightarrow> (\<not> P \<Longrightarrow> csr_reads_back csr v c y) \<Longrightarrow> csr_reads_back csr v c (if P then x else y)"
  by simp

lemma csr_arm_reads_back:
  assumes s: "sys c = Some s" and a: "csr_allowed c csr" and w: "drop_bit 10 csr \<noteq> 3"
  shows "csr_reads_back csr v c (csr_readback csr v s)"
proof (cases "csr_mask csr")
  case (Some m)
  then have r: "csr_readback csr v s = Some (v AND m)" using w by (simp add: csr_readback_def)
  show ?thesis
  proof (cases "csr \<in> {FFLAGS, FRM, FCSR}")
    case True
    with Some rb_fcsr [OF s, of v] show ?thesis unfolding r
      by (elim insertE emptyE) (simp_all add: csr_mask_def csr_addr)
  next
    case False
    with rb_mask [OF s a Some] show ?thesis by (simp add: r)
  qed
next
  case None
  have rb: "csr = SSTATUS \<Longrightarrow> csr_reads_back csr v c (Some (status_view (merge_bits SSTATUS_W (mstatus s) v) AND SSTATUS_MASK))"
    "csr = MSTATUS \<Longrightarrow> csr_reads_back csr v c (Some (status_view (merge_bits MSTATUS_W (mstatus s) v)))"
    "csr = SIE \<Longrightarrow> csr_reads_back csr v c (Some (v AND mideleg s))"
    "csr = SIP \<Longrightarrow> csr_reads_back csr v c (Some (merge_bits (IRQ_SSIP AND mideleg s) (mip s) v AND mideleg s))"
    "csr = MIP \<Longrightarrow> csr_reads_back csr v c (Some (merge_bits MIP_W (mip s) v))"
    "csr = SATP \<Longrightarrow> csr_reads_back csr v c (if mode s = Supervisor \<and> mstatus s AND MSTATUS_TVM \<noteq> 0 then None
           else Some (if drop_bit 60 v \<in> {0, 8, 9} then v else satp s))"
    "0x3a0 \<le> csr \<and> csr \<le> 0x3af \<and> csr AND 1 = 0 \<Longrightarrow> csr_reads_back csr v c (Some v)"
    "0x3b0 \<le> csr \<and> csr \<le> 0x3ef \<Longrightarrow> csr_reads_back csr v c (Some (v AND 0x003fffffffffffff))"
    using rb_status [OF s, of v] rb_irq [OF s, of v] rb_satp [OF s, of v] rb_pmp [OF s a, of v] a by blast+
  have vec: "csr_reads_back csr v c (Some (v AND (if csr = VSTART then of_nat VLEN_BITS - 1 else if csr = VXSAT then 1
          else if csr = VXRM then 3 else 7)))"
    if "csr \<in> {VSTART, VXSAT, VXRM, VCSR} \<and> mstatus s AND MSTATUS_VS \<noteq> 0"
  proof -
    have "VXSAT \<noteq> VSTART" "VXRM \<noteq> VSTART" "VXRM \<noteq> VXSAT" "VCSR \<noteq> VSTART" "VCSR \<noteq> VXSAT" "VCSR \<noteq> VXRM"
      by (simp_all add: csr_addr)
    with that rb_vector [OF s, of v] show ?thesis by (elim conjE insertE emptyE) simp_all
  qed
  show ?thesis unfolding csr_readback_def None option.case
    apply (subst if_not_P [OF w])
    apply (rule rb_if, erule rb rb_fixed [OF s a] vec)+
    by (rule rb_none [OF None s]) simp_all
qed

text \<open>
  C21: every CSR write at a sufficient privilege, on every CSR number, in a hart with privileged
  state. The write fails and changes nothing but the interrupt-poll countdown, or it succeeds and
  a read then returns the value in the table \<open>csr_readback\<close>: the written value masked to the
  writable bits; the writable bits merged into the old value for the status and pending words;
  the enabled bits that are delegated for sie; the old value for a satp of an unsupported
  translation mode, and a failure for satp in supervisor mode with TVM set; the constants of
  misa and the trigger registers; one less than the written value for the counters, so that the
  next instruction reads the value itself. A read-only, a vector CSR with the vector unit off or
  an unknown CSR number makes the write fail.
\<close>

theorem csr_warl_readback:
  assumes s: "sys c = Some s" and p: "ucast (drop_bit 8 csr AND 3) \<le> priv_bits (mode s)"
  shows "case csr_readback csr v s of
      None \<Rightarrow> csr_write csr v c = (False, c\<lparr>irq_poll_cd := 0\<rparr>)
    | Some x \<Rightarrow> \<exists>c'. csr_write csr v c = (True, c') \<and> csr_read c' csr = Some x"
proof (cases "drop_bit 10 csr = 3")
  case True
  then show ?thesis by (simp add: csr_readback_def csr_write_def)
next
  case False
  let ?c = "c\<lparr>irq_poll_cd := 0\<rparr>"
  have a: "csr_allowed c csr" "csr_allowed ?c csr" using s p by (simp_all add: csr_allowed_def not_less)
  have "csr_reads_back csr v ?c (csr_readback csr v s)"
    by (rule csr_arm_reads_back [OF _ a(2) False]) (simp add: s)
  then show ?thesis unfolding csr_reads_back_def csr_write_arm [OF a(1) False] .
qed

text \<open>
  C22: a CSR whose address asks for a higher privilege than the current mode cannot be read, and
  a write to it fails and changes nothing but the interrupt-poll countdown.
\<close>

theorem csr_privilege:
  assumes "sys c = Some s" and "priv_bits (mode s) < ucast (drop_bit 8 csr AND 3)"
  shows "csr_read c csr = None \<and> csr_write csr v c = (False, c\<lparr>irq_poll_cd := 0\<rparr>)"
proof -
  have "\<not> csr_allowed c csr" "\<not> csr_allowed (c\<lparr>irq_poll_cd := 0\<rparr>) csr"
    using assms by (simp_all add: csr_allowed_def)
  then show ?thesis by (simp add: csr_read_def csr_write_def Let_def)
qed

lemma masked_read: "((if p then x OR MSTATUS_SD else x) AND SSTATUS_MASK) AND SSTATUS_W = x AND SSTATUS_W"
  by (rule bit_word_eqI; cases p)
    (simp_all add: SSTATUS_MASK_def SSTATUS_W_def bit_and_iff bit_or_iff bit_status, auto)

text \<open>
  C23: a write to sstatus reaches exactly its window of mstatus: the writable bits take the
  written value, every other bit of mstatus and every other privileged register keeps its
  value, and a read of sstatus shows the written bits and nothing outside its mask.
\<close>

theorem sstatus_window:
  assumes s: "sys c = Some s" and m: "mode s \<noteq> User"
  shows "\<exists>c' x. csr_write SSTATUS v c = (True, c') \<and> sys c' = Some (s\<lparr>mstatus := x\<rparr>) \<and>
    x AND SSTATUS_W = v AND SSTATUS_W \<and> x AND NOT SSTATUS_W = mstatus s AND NOT SSTATUS_W \<and>
    (\<exists>r. csr_read c' SSTATUS = Some r \<and> r AND SSTATUS_W = v AND SSTATUS_W \<and> r AND NOT SSTATUS_MASK = 0)"
proof -
  define x where "x = (mstatus s AND NOT SSTATUS_W) OR (v AND SSTATUS_W)"
  have a: "csr_allowed d SSTATUS" if "sys d = Some (s\<lparr>mstatus := y\<rparr>)" for d y
    using m that by (cases "mode s") (simp_all add: csr_allowed_def csr_addr)
  have a0: "csr_allowed (c\<lparr>irq_poll_cd := 0\<rparr>) SSTATUS" using s m
    by (cases "mode s") (simp_all add: csr_allowed_def csr_addr)
  have u: "csr_write_u SSTATUS v d = None" for d by (simp add: csr_addr csr_write_u_def Let_def)
  have ss: "csr_write_s SSTATUS v d = Some (write_status SSTATUS_W v d)" for d by (simp add: csr_write_s_def)
  obtain c' where w: "csr_write SSTATUS v c = (True, c')" and s': "sys c' = Some (s\<lparr>mstatus := x\<rparr>)"
  proof -
    have "drop_bit 10 SSTATUS \<noteq> 3" by (simp add: csr_addr)
    then have "csr_write SSTATUS v c = write_status SSTATUS_W v (c\<lparr>irq_poll_cd := 0\<rparr>)"
      using a0 by (simp add: csr_write_def u ss Let_def)
    with that s show ?thesis
      by (simp add: write_status_def x_def Let_def sync_jit_tlb_context_def flush_tlb_def split: if_splits)
  qed
  define r where "r = (if x AND MSTATUS_FS = MSTATUS_FS \<or> x AND MSTATUS_VS = MSTATUS_VS
      then x OR MSTATUS_SD else x) AND SSTATUS_MASK"
  have "csr_read c' SSTATUS = Some r"
    using csr_read_one [OF s' a [OF s']] by (simp add: csr_addr user_csrs_def csr_read_sys_def r_def)
  moreover have "x AND SSTATUS_W = v AND SSTATUS_W" "x AND NOT SSTATUS_W = mstatus s AND NOT SSTATUS_W"
    by (simp_all only: x_def masked_write)
  moreover have "r AND SSTATUS_W = x AND SSTATUS_W" unfolding r_def by (rule masked_read)
  moreover have "r AND NOT SSTATUS_MASK = 0" by (simp add: r_def and.assoc)
  ultimately show ?thesis using w s' by metis
qed

section \<open>Reservations\<close>

definition is_sc :: "u32 \<Rightarrow> bool" where
  "is_sc insn \<longleftrightarrow> (funct3 insn = 2 \<or> funct3 insn = 3) \<and> drop_bit 2 (funct7 insn) = 3"

lemma sc_fails:
  assumes "is_sc insn" and "reservation c \<noteq> Some (xreg c (rs1 insn))"
  shows "exec_amo B insn np (c, b) = (Inr (Next np None), ((wr (rd insn) 1 c)\<lparr>reservation := None\<rparr>, b))"
  using assms by (auto simp: exec_amo_def is_sc_def Let_def mbind_def getc_def modc_def mget_def mmod_def mret_def)

text \<open>
  C20: a trap between a load-reserved and its store-conditional makes the store-conditional fail:
  it writes 1 to its destination, does not touch the bus, and leaves no reservation.
\<close>

theorem sc_after_trap:
  assumes sc: "is_sc insn" and s: "sys c = Some s" and pos: "syscall_log_pos c < 64"
  shows "\<exists>c'. mbind (take_trap cause tval is_interrupt) (\<lambda>_. exec_amo B insn np) (c, b) =
      (Inr (Next np None), (c', b)) \<and>
    xreg c' = (if rd insn = 0 then xreg c else (xreg c)(rd insn := 1)) \<and> reservation c' = None"
proof -
  obtain c1 where t: "take_trap cause tval is_interrupt (c, b) = (Inr (), (c1, b))"
    and x: "xreg c1 = xreg c" and r: "reservation c1 = None"
    using take_trap_run [OF s pos, of cause tval is_interrupt b] by (auto simp: arch_same_def)
  then show ?thesis
    by (simp add: mbind_run_Inr [where m = "take_trap _ _ _", OF t] sc_fails [OF sc] wr_def)
qed


section \<open>Witnesses\<close>

text \<open>A hart in system mode with the given privileged state.\<close>

definition sample_hart :: "sys_csrs \<Rightarrow> cpu" where
  "sample_hart s = cpu_new\<lparr>sys := Some s\<rparr>"

lemma sample_hart_sys: "sys (sample_hart s) = Some s"
  by (simp add: sample_hart_def)

lemma sample_hart_log: "syscall_log_pos (sample_hart s) < 64"
  by (simp add: sample_hart_def cpu_new_def)

lemma sample_hart_pc: "pcr (sample_hart s) = 0"
  by (simp add: sample_hart_def cpu_new_def)

theorem trap_mret_return_witness:
  "\<exists>c'. mbind (take_trap 2 7 False) (\<lambda>_. exec_mret 0x30200073) (sample_hart sys_new, flat_new 0 []) =
      (Inr (Next 0 None), (c', flat_new 0 [])) \<and>
    sys c' = Some (sys_new\<lparr>mcause := 2, mtval := 7, mepc := 0,
      mstatus := (mstatus sys_new AND NOT MSTATUS_MPP) OR MSTATUS_MPIE\<rparr>)"
proof -
  have "\<not> trap_target_s 2 False sys_new" by (simp add: trap_target_s_def sys_new_def)
  from trap_mret_return [OF sample_hart_sys sample_hart_log this, of 7 "0x30200073" "flat_new 0 []"]
  show ?thesis by (auto simp: sample_hart_pc sys_new_def)
qed

theorem trap_sret_return_witness:
  "\<exists>c'. mbind (take_trap 8 0 False) (\<lambda>_. exec_sret 0x10200073)
      (sample_hart (sys_new\<lparr>mode := User, medeleg := 0x100\<rparr>), flat_new 0 []) =
      (Inr (Next 0 None), (c', flat_new 0 [])) \<and> (\<exists>s. sys c' = Some s \<and> mode s = User)"
proof -
  let ?f = "sys_new\<lparr>mode := User, medeleg := 0x100\<rparr>"
  have d: "trap_target_s 8 False ?f" by (simp add: trap_target_s_def)
  have "\<not> bit (mstatus ?f) 22"
    by (simp add: sys_new_def MSTATUS_UXL_def MSTATUS_SXL_def)
  from trap_sret_return [OF sample_hart_sys sample_hart_log d this, of 0 "0x10200073" "flat_new 0 []"]
  show ?thesis by (auto simp: sample_hart_pc)
qed

theorem check_interrupts_priority_witness:
  "\<exists>c'. check_interrupts (flat_bus\<lparr>irq_lines := (\<lambda>b. (0x888, b))\<rparr>)
      (sample_hart (sys_new\<lparr>mode := User, mie := 0x880\<rparr>), flat_new 0 []) = (Inr True, (c', flat_new 0 [])) \<and>
    (\<exists>s. sys c' = Some s \<and> mcause s = push_bit 63 1 OR 11)"
proof -
  let ?f = "sys_new\<lparr>mode := User, mie := 0x880\<rparr>" and ?B = "flat_bus\<lparr>irq_lines := (\<lambda>b. (0x888, b))\<rparr>"
  define s1 where "s1 = ?f\<lparr>mip := (mip ?f AND NOT HW_LINES) OR (0x888 AND HW_LINES)\<rparr>"
  have l: "irq_lines ?B (flat_new 0 []) = (0x888, flat_new 0 [])" by simp
  have "List.find (irq_ready s1) [11, 3, 7, 9, 1, 5] = Some 11"
    by (simp add: irq_ready_def s1_def sys_new_def HW_LINES_def csr_bits priv_less)
  with check_interrupts_priority [OF sample_hart_sys sample_hart_log l s1_def]
  show ?thesis
    by (auto simp: trap_csrs_def trap_target_s_def s1_def sys_new_def Let_def)
qed

theorem csr_warl_readback_witness:
  "(\<exists>c'. csr_write MEPC 0x1003 (sample_hart sys_new) = (True, c') \<and> csr_read c' MEPC = Some (0x1003 AND NOT 1)) \<and>
   (\<exists>c'. csr_write SATP 0x1000000000000005 (sample_hart sys_new) = (True, c') \<and> csr_read c' SATP = Some 0) \<and>
   csr_write TIME 5 (sample_hart sys_new) = (False, (sample_hart sys_new)\<lparr>irq_poll_cd := 0\<rparr>)"
proof -
  have p: "ucast (drop_bit 8 csr AND 3) \<le> priv_bits (mode sys_new)" if "csr \<in> {MEPC, SATP, TIME}" for csr :: u32
    using that by (auto simp: csr_addr sys_new_def)
  have r: "csr_readback MEPC 0x1003 sys_new = Some (0x1003 AND NOT 1)"
    "csr_readback SATP 0x1000000000000005 sys_new = Some 0" "csr_readback TIME 5 sys_new = None"
    by (simp_all add: csr_readback_def csr_mask_def csr_addr sys_new_def)
  show ?thesis
    using csr_warl_readback [OF sample_hart_sys p, of MEPC "0x1003"] csr_warl_readback [OF sample_hart_sys p, of SATP "0x1000000000000005"]
      csr_warl_readback [OF sample_hart_sys p, of TIME 5] unfolding r by simp
qed

theorem csr_privilege_witness:
  "csr_read (sample_hart (sys_new\<lparr>mode := Supervisor\<rparr>)) MSTATUS = None"
  using csr_privilege [OF sample_hart_sys, of "sys_new\<lparr>mode := Supervisor\<rparr>" MSTATUS]
  by (simp add: csr_addr)

theorem sstatus_window_witness:
  "\<exists>c' x. csr_write SSTATUS 0x2 (sample_hart (sys_new\<lparr>mode := Supervisor\<rparr>)) = (True, c') \<and>
    sys c' = Some (sys_new\<lparr>mode := Supervisor, mstatus := x\<rparr>) \<and> x AND SSTATUS_W = 2 AND SSTATUS_W"
  using sstatus_window [OF sample_hart_sys, of "sys_new\<lparr>mode := Supervisor\<rparr>" 2] by auto

theorem sc_after_trap_witness:
  "\<exists>c'. mbind (take_trap 2 0 False) (\<lambda>_. exec_amo flat_bus 0x18b532af 4) (sample_hart sys_new, flat_new 0 []) =
      (Inr (Next 4 None), (c', flat_new 0 [])) \<and> xreg c' 5 = 1 \<and> reservation c' = None"
proof -
  have "is_sc 0x18b532af" by (simp add: is_sc_def funct3_def funct7_def)
  from sc_after_trap [OF this sample_hart_sys [of sys_new] sample_hart_log, of 2 0 False flat_bus 4 "flat_new 0 []"]
  show ?thesis by (auto simp: rd_def)
qed

end
