(* ===== verification/TlbWalk.thy ===== *)
theory TlbWalk
  imports TrapCorrect
begin

text \<open>
  The page-table walk of \<open>crates/rv64-core/src/cpu.rs\<close> as a function of the table memory: the
  leaf a virtual address reaches (\<open>pte_find\<close>), the permission check (\<open>pte_accept\<close>), the A/D
  update (\<open>pte_touch\<close>) and the physical address (\<open>pte_pa\<close>). The locale \<open>table_memory\<close> is what
  the walk relies on of the bus; inside it, \<open>walk\<close> and \<open>translate_slow\<close> are proved to compute
  that function (\<open>xlate\<close>).
\<close>

section \<open>Page-table entries\<close>

definition pte_valid :: "u64 \<Rightarrow> bool" where
  "pte_valid pte \<longleftrightarrow> bit pte 0 \<and> (bit pte 1 \<or> \<not> bit pte 2)"

definition pte_pointer :: "u64 \<Rightarrow> bool" where
  "pte_pointer pte \<longleftrightarrow> \<not> bit pte 1 \<and> \<not> bit pte 3"

definition pte_aligned :: "nat \<Rightarrow> u64 \<Rightarrow> bool" where
  "pte_aligned level pte \<longleftrightarrow> (\<forall>i < 9 * level. \<not> bit pte (10 + i))"

definition pte_permits :: "access \<Rightarrow> priv \<Rightarrow> bool \<Rightarrow> bool \<Rightarrow> u64 \<Rightarrow> bool" where
  "pte_permits access md sm mx pte \<longleftrightarrow>
     (md = User \<longrightarrow> bit pte 4) \<and> (md = Supervisor \<and> bit pte 4 \<longrightarrow> sm \<and> access \<noteq> Fetch) \<and>
     (case access of Fetch \<Rightarrow> bit pte 3 | Load \<Rightarrow> bit pte 1 \<or> (mx \<and> bit pte 3) | Store \<Rightarrow> bit pte 2)"

definition pte_touch :: "access \<Rightarrow> u64 \<Rightarrow> u64" where
  "pte_touch access pte = (if access = Store then pte OR push_bit 6 1 OR push_bit 7 1 else pte OR push_bit 6 1)"

definition pte_pa :: "nat \<Rightarrow> u64 \<Rightarrow> u64 \<Rightarrow> u64" where
  "pte_pa level pte va = (push_bit 12 (drop_bit 10 pte) AND NOT (mask (12 + 9 * level)))
     OR (va AND mask (12 + 9 * level))"

definition pte_slot :: "nat \<Rightarrow> u64 \<Rightarrow> u64 \<Rightarrow> u64" where
  "pte_slot level table va = table + (drop_bit (12 + 9 * level) va AND 0x1ff) * 8"

text \<open>The entry a walk ends at: its level, its address and its content.\<close>

primrec pte_find :: "(u64 \<Rightarrow> u64 option) \<Rightarrow> u64 \<Rightarrow> nat \<Rightarrow> u64 \<Rightarrow> (nat \<times> u64 \<times> u64) option" where
  "pte_find mem va 0 table = (case mem (pte_slot 0 table va) of
     Some pte \<Rightarrow> if pte_valid pte \<and> \<not> pte_pointer pte then Some (0, pte_slot 0 table va, pte) else None
   | None \<Rightarrow> None)"
| "pte_find mem va (Suc level) table = (case mem (pte_slot (Suc level) table va) of
     Some pte \<Rightarrow> if \<not> pte_valid pte then None
       else if pte_pointer pte then pte_find mem va level (push_bit 12 (drop_bit 10 pte))
       else Some (Suc level, pte_slot (Suc level) table va, pte)
   | None \<Rightarrow> None)"

lemma misaligned: "(0 < level \<and> drop_bit 10 pte AND (push_bit (9 * level) 1 - 1) \<noteq> 0) \<longleftrightarrow> \<not> pte_aligned level pte"
proof -
  have "push_bit (9 * level) (1 :: u64) - 1 = mask (9 * level)" by (simp add: mask_eq_decr_exp)
  then have "(drop_bit 10 pte AND (push_bit (9 * level) 1 - 1) \<noteq> 0) \<longleftrightarrow> (\<exists>i<9 * level. bit pte (10 + i))"
    by (simp only: low_mask bit_drop_bit_eq comp_apply)
  then show ?thesis by (auto simp: pte_aligned_def)
qed

definition pte_accept :: "access \<Rightarrow> priv \<Rightarrow> bool \<Rightarrow> bool \<Rightarrow> nat \<Rightarrow> u64 \<Rightarrow> bool" where
  "pte_accept access md sm mx level pte \<longleftrightarrow> pte_aligned level pte \<and> pte_permits access md sm mx pte"

lemma walk_level_run:
  assumes r: "read64 B (pte_slot level table va) b = (Inr pte, b)"
  shows "walk_level B access va md sm mx level nxt table b =
    (if \<not> pte_valid pte then (Inl (Throw (fault access va)), b)
     else if pte_pointer pte then nxt (push_bit 12 (drop_bit 10 pte)) b
     else if \<not> pte_accept access md sm mx level pte then (Inl (Throw (fault access va)), b)
     else mbind (if pte_touch access pte \<noteq> pte
         then map_err (\<lambda>_. fault access va) (write64 B (pte_slot level table va) (pte_touch access pte)) else mret ())
       (\<lambda>_. mret (pte_pa level pte va)) b)"
proof -
  have m: "push_bit (12 + 9 * level) (1 :: u64) - 1 = mask (12 + 9 * level)" by (simp add: mask_eq_decr_exp)
  have r': "map_err (\<lambda>_. fault access va) (read64 B (pte_slot level table va)) b = (Inr pte, b)"
    using r by (simp add: map_err_def)
  define usr where "usr = ((md = User \<longrightarrow> bit pte 4) \<and> (md = Supervisor \<and> bit pte 4 \<longrightarrow> sm \<and> access \<noteq> Fetch))"
  define acc where "acc = (case access of Fetch \<Rightarrow> bit pte 3 | Load \<Rightarrow> bit pte 1 \<or> (mx \<and> bit pte 3) | Store \<Rightarrow> bit pte 2)"
  have c1: "(\<not> bit pte 0 \<or> \<not> bit pte 1 \<and> bit pte 2) = (\<not> pte_valid pte)" by (auto simp: pte_valid_def)
  have c2: "(\<not> bit pte 1 \<and> \<not> bit pte 3) = pte_pointer pte" by (simp add: pte_pointer_def)
  have c3: "(md = User \<and> \<not> \<not> \<not> bit pte 4 \<or> md = Supervisor \<and> \<not> \<not> bit pte 4 \<and> \<not> (sm \<and> access \<noteq> Fetch)) = (\<not> usr)"
    by (auto simp: usr_def)
  have c4: "pte_accept access md sm mx level pte = (pte_aligned level pte \<and> usr \<and> acc)"
    by (simp add: pte_accept_def pte_permits_def usr_def acc_def)
  have t: "(if access = Store then (pte OR push_bit 6 1) OR push_bit 7 1 else pte OR push_bit 6 1) = pte_touch access pte"
    by (simp add: pte_touch_def or.assoc)
  show ?thesis
    unfolding walk_level_def Let_def pte_slot_def [symmetric] mbind_run_Inr [where m = "map_err _ _", OF r']
      bit_field1 bit_field0 [of pte] flag_eq misaligned m pte_pa_def [symmetric] acc_def [symmetric] c1 c2 c3 c4 t
    by (simp add: pte_slot_def)
qed

locale table_memory =
  fixes B :: "'b bus_ops" and word_at :: "'b \<Rightarrow> u64 \<Rightarrow> u64 option" and inv :: "'b \<Rightarrow> bool"
  assumes read_word: "inv b \<Longrightarrow> take_bit 3 a = 0 \<Longrightarrow> word_at b a = Some w \<Longrightarrow> read64 B a b = (Inr w, b)"
    and read_fault: "inv b \<Longrightarrow> take_bit 3 a = 0 \<Longrightarrow> word_at b a = None \<Longrightarrow>
      \<exists>e. read64 B a b = (Inl (Throw e), b)"
    and write_word: "inv b \<Longrightarrow> take_bit 3 a = 0 \<Longrightarrow> word_at b a = Some w \<Longrightarrow>
      \<exists>b'. write64 B a v b = (Inr (), b') \<and> inv b' \<and>
        (\<forall>a'. take_bit 3 a' = 0 \<longrightarrow> word_at b' a' = (if a' = a then Some v else word_at b a'))"

lemma aligned_add: "take_bit 3 (x :: u64) = 0 \<Longrightarrow> take_bit 3 y = 0 \<Longrightarrow> take_bit 3 (x + y) = 0"
  unfolding take_bit_eq_0_iff by (rule dvd_add)

lemma aligned_mul8: "take_bit 3 (x * 8 :: u64) = 0"
  unfolding take_bit_eq_0_iff by simp

lemma aligned_slot: "take_bit 3 table = 0 \<Longrightarrow> take_bit 3 (pte_slot level table va) = 0"
  unfolding pte_slot_def by (intro aligned_add aligned_mul8)

lemma aligned_table: "take_bit 3 (push_bit 12 x :: u64) = 0"
  by (rule bit_word_eqI) (auto simp: bit_simps)

lemma pte_find_cong:
  "(\<And>a. take_bit 3 a = 0 \<Longrightarrow> m a = n a) \<Longrightarrow> take_bit 3 table = 0 \<Longrightarrow>
    pte_find m va level table = pte_find n va level table"
proof (induction level arbitrary: table)
  case (Suc level)
  then show ?case using Suc.IH [OF Suc.prems(1) aligned_table] by (simp add: aligned_slot split: option.split)
qed (simp add: aligned_slot)

lemma pte_find_at:
  "pte_find m va level table = Some (l, a, pte) \<Longrightarrow> take_bit 3 table = 0 \<Longrightarrow>
    l \<le> level \<and> take_bit 3 a = 0 \<and> m a = Some pte \<and> pte_valid pte \<and> \<not> pte_pointer pte"
proof (induction level arbitrary: table)
  case (Suc level)
  then show ?case using Suc.IH [OF _ aligned_table] 
    by (fastforce simp: aligned_slot split: option.splits if_splits)
qed (auto simp: aligned_slot split: option.splits if_splits)

definition touched :: "(u64 \<Rightarrow> u64 option) \<Rightarrow> u64 \<Rightarrow> u64 \<Rightarrow> (u64 \<Rightarrow> u64 option) \<Rightarrow> bool" where
  "touched m a v n \<longleftrightarrow> (\<forall>a'. take_bit 3 a' = 0 \<longrightarrow> n a' = (if a' = a then Some v else m a'))"

lemma bit_pte_touch: "bit (pte_touch acc pte) n \<longleftrightarrow> bit pte n \<or> n = 6 \<or> (acc = Store \<and> n = 7)"
  unfolding pte_touch_def by (simp only: bit_or_iff bit_single split: if_split) auto

lemma pte_touch_bits: "n \<noteq> 6 \<Longrightarrow> n \<noteq> 7 \<Longrightarrow> bit (pte_touch acc pte) n = bit pte n"
  by (simp add: bit_pte_touch)

lemma pte_touch_kind: "pte_valid (pte_touch acc pte) = pte_valid pte" "pte_pointer (pte_touch acc pte) = pte_pointer pte"
  "pte_accept a md sm mx l (pte_touch acc pte) = pte_accept a md sm mx l pte"
  by (simp_all add: pte_valid_def pte_pointer_def pte_accept_def pte_permits_def pte_aligned_def pte_touch_bits
      split: access.split)

lemma pte_touch_pa: "pte_pa l (pte_touch acc pte) va = pte_pa l pte va"
proof -
  have "drop_bit 10 (pte_touch acc pte) = drop_bit 10 pte"
    by (rule bit_word_eqI) (simp add: bit_drop_bit_eq pte_touch_bits)
  then show ?thesis by (simp add: pte_pa_def)
qed

lemma pte_touch_stable: "pte_touch a p = p \<Longrightarrow> pte_touch a (pte_touch b p) = pte_touch b p"
proof (rule bit_word_eqI)
  fix n assume p: "pte_touch a p = p"
  have "bit (pte_touch a p) n = bit p n" by (simp only: p)
  then show "bit (pte_touch a (pte_touch b p)) n = bit (pte_touch b p) n"
    by (auto simp: bit_pte_touch)
qed

lemma pte_touch_idem: "pte_touch a (pte_touch a pte) = pte_touch a pte"
  by (rule bit_word_eqI) (auto simp: bit_pte_touch)

lemma walk_level_fault:
  "read64 B (pte_slot level table va) b = (Inl (Throw e), b) \<Longrightarrow>
    walk_level B access va md sm mx level nxt table b = (Inl (Throw (fault access va)), b)"
  unfolding walk_level_def Let_def pte_slot_def [symmetric] by (simp add: mbind_def map_err_def)

lemma touched_refl: "m ad = Some p \<Longrightarrow> touched m ad p m"
  by (simp add: touched_def)

lemma pte_find_touched:
  assumes "m ad = Some pte" "pte_valid pte" "\<not> pte_pointer pte" "touched m ad (pte_touch acc pte) n"
  shows "take_bit 3 table = 0 \<Longrightarrow> pte_find n va level table =
    map_option (\<lambda>(l, a, p). (l, a, if a = ad then pte_touch acc p else p)) (pte_find m va level table)"
proof (induction level arbitrary: table)
  case 0
  then have "n (pte_slot 0 table va) = (if pte_slot 0 table va = ad then Some (pte_touch acc pte) else m (pte_slot 0 table va))"
    using assms(4) by (simp add: touched_def aligned_slot)
  with assms(1-3) show ?case by (auto simp: pte_touch_kind split: option.split)
next
  case (Suc level)
  then have "n (pte_slot (Suc level) table va) =
      (if pte_slot (Suc level) table va = ad then Some (pte_touch acc pte) else m (pte_slot (Suc level) table va))"
    using assms(4) by (simp add: touched_def aligned_slot)
  with assms(1-3) Suc.IH [OF aligned_table] show ?case by (auto simp: pte_touch_kind split: option.split)
qed

context table_memory
begin

text \<open>The accepting tail of a level: the A/D update.\<close>

lemma touch_run:
  assumes "inv b" and "take_bit 3 ad = 0" and "word_at b ad = Some p"
  shows "\<exists>b'. mbind (if pte_touch a p \<noteq> p then map_err f (write64 B ad (pte_touch a p)) else mret ())
      (\<lambda>_. mret pa) b = (Inr pa, b') \<and> inv b' \<and>
    touched (word_at b) ad (pte_touch a p) (word_at b') \<and> (pte_touch a p = p \<longrightarrow> b' = b)"
proof (cases "pte_touch a p = p")
  case True
  with assms show ?thesis by (simp add: touched_refl)
next
  case False
  obtain b' where "write64 B ad (pte_touch a p) b = (Inr (), b')" "inv b'"
    "touched (word_at b) ad (pte_touch a p) (word_at b')"
    using write_word [OF assms, of "pte_touch a p"] unfolding touched_def by blast
  with False show ?thesis by (simp add: mbind_def map_err_def)
qed

lemma walk_run:
  assumes "inv b" and "take_bit 3 table = 0"
  shows "case pte_find (word_at b) va n table of
      None \<Rightarrow> walk B a va md sm mx n table b = (Inl (Throw (fault a va)), b)
    | Some (l, ad, p) \<Rightarrow>
        (if pte_accept a md sm mx l p
         then \<exists>b'. walk B a va md sm mx n table b = (Inr (pte_pa l p va), b') \<and> inv b' \<and>
           touched (word_at b) ad (pte_touch a p) (word_at b') \<and> (pte_touch a p = p \<longrightarrow> b' = b)
         else walk B a va md sm mx n table b = (Inl (Throw (fault a va)), b))"
  using assms(2)
proof (induction n arbitrary: table)
  case 0
  have al: "take_bit 3 (pte_slot 0 table va) = 0" by (rule aligned_slot [OF 0])
  show ?case
  proof (cases "word_at b (pte_slot 0 table va)")
    case None
    then obtain e where "read64 B (pte_slot 0 table va) b = (Inl (Throw e), b)"
      using read_fault [OF assms(1) al] by blast
    then show ?thesis using None by (simp add: walk_level_fault)
  next
    case (Some p)
    obtain b' where eq: "mbind (if pte_touch a p \<noteq> p then map_err (\<lambda>_. fault a va)
        (write64 B (pte_slot 0 table va) (pte_touch a p)) else mret ()) (\<lambda>_. mret (pte_pa 0 p va)) b =
        (Inr (pte_pa 0 p va), b')" and b': "inv b'"
      "touched (word_at b) (pte_slot 0 table va) (pte_touch a p) (word_at b')" "pte_touch a p = p \<longrightarrow> b' = b"
      using touch_run [OF assms(1) al Some, of a "\<lambda>_. fault a va" "pte_pa 0 p va"] by (elim exE conjE)
    show ?thesis
      unfolding walk.simps walk_level_run [OF read_word [OF assms(1) al Some]] eq
      using Some b' by (cases "pte_valid p"; cases "pte_pointer p"; cases "pte_accept a md sm mx 0 p") simp_all
  qed
next
  case (Suc n)
  have al: "take_bit 3 (pte_slot (Suc n) table va) = 0" by (rule aligned_slot [OF Suc.prems])
  show ?case
  proof (cases "word_at b (pte_slot (Suc n) table va)")
    case None
    then obtain e where "read64 B (pte_slot (Suc n) table va) b = (Inl (Throw e), b)"
      using read_fault [OF assms(1) al] by blast
    then show ?thesis using None by (simp add: walk_level_fault)
  next
    case (Some p)
    obtain b' where eq: "mbind (if pte_touch a p \<noteq> p then map_err (\<lambda>_. fault a va)
        (write64 B (pte_slot (Suc n) table va) (pte_touch a p)) else mret ()) (\<lambda>_. mret (pte_pa (Suc n) p va)) b =
        (Inr (pte_pa (Suc n) p va), b')" and b': "inv b'"
      "touched (word_at b) (pte_slot (Suc n) table va) (pte_touch a p) (word_at b')" "pte_touch a p = p \<longrightarrow> b' = b"
      using touch_run [OF assms(1) al Some, of a "\<lambda>_. fault a va" "pte_pa (Suc n) p va"] by (elim exE conjE)
    show ?thesis
      unfolding walk.simps walk_level_run [OF read_word [OF assms(1) al Some]] eq
      using Some b' Suc.IH [OF aligned_table [of "drop_bit 10 p"]]
      by (cases "pte_valid p"; cases "pte_pointer p"; cases "pte_accept a md sm mx (Suc n) p") simp_all
  qed
qed

end

section \<open>Translation tags\<close>

definition ctx_tag :: "access \<Rightarrow> priv \<Rightarrow> bool \<Rightarrow> bool \<Rightarrow> u64 \<Rightarrow> u64" where
  "ctx_tag a md sm mx va = (va AND TLB_PAGE_MASK) OR priv_bits md
     OR (if a \<noteq> Fetch \<and> sm then TLB_CTX_SUM else 0) OR (if a = Load \<and> mx then TLB_CTX_MXR else 0)"

lemma bit_page_mask: "bit (va AND TLB_PAGE_MASK) n \<longleftrightarrow> 12 \<le> n \<and> bit va n"
proof -
  have "(0xfff :: u64) = mask 12" by (simp add: mask_eq_decr_exp)
  then show ?thesis
    unfolding TLB_PAGE_MASK_def \<open>0xfff = mask 12\<close> bit_and_iff bit_not_iff bit_mask_iff
    by (auto dest: bit_imp_le_length)
qed

lemma bit_ctx_tag:
  "bit (ctx_tag a md sm mx va) n \<longleftrightarrow> (12 \<le> n \<and> bit va n) \<or> (n = 0 \<and> md \<noteq> User) \<or> (n = 1 \<and> md = Machine)
    \<or> (n = 2 \<and> a \<noteq> Fetch \<and> sm) \<or> (n = 3 \<and> a = Load \<and> mx)"
proof -
  have "bit (if p then TLB_CTX_SUM else 0) n \<longleftrightarrow> n = 2 \<and> p" "bit (if p then TLB_CTX_MXR else 0) n \<longleftrightarrow> n = 3 \<and> p" for p
    unfolding TLB_CTX_SUM_def TLB_CTX_MXR_def using bit_single [of 2 n] bit_single [of 3 n] by (cases p; simp)+
  then show ?thesis unfolding ctx_tag_def bit_or_iff bit_page_mask bit_priv_bits
    by (simp only: disj_assoc conj_assoc)
qed

lemma tag_of_hart:
  "sys c = Some s \<Longrightarrow> translation_tag c va a =
    ctx_tag a (eff_mode s a) (mstatus s AND MSTATUS_SUM \<noteq> 0) (mstatus s AND MSTATUS_MXR \<noteq> 0) va"
  by (simp add: translation_tag_def translation_context_def ctx_tag_def Let_def ac_simps)

lemma ctx_tag_inject:
  assumes "ctx_tag a md sm mx va = ctx_tag a md' sm' mx' va'"
  shows "md = md'" "a \<noteq> Fetch \<Longrightarrow> sm = sm'" "a = Load \<Longrightarrow> mx = mx'" "12 \<le> n \<Longrightarrow> bit va n = bit va' n"
proof -
  have e: "bit (ctx_tag a md sm mx va) k = bit (ctx_tag a md' sm' mx' va') k" for k by (simp only: assms)
  show "md = md'" using e [of 0] e [of 1] by (cases md; cases md') (auto simp: bit_ctx_tag)
  show "a \<noteq> Fetch \<Longrightarrow> sm = sm'" using e [of 2] by (auto simp: bit_ctx_tag)
  show "a = Load \<Longrightarrow> mx = mx'" using e [of 3] by (auto simp: bit_ctx_tag)
  show "12 \<le> n \<Longrightarrow> bit va n = bit va' n" using e [of n] by (auto simp: bit_ctx_tag)
qed

lemma ctx_tag_valid: "ctx_tag a md sm mx va \<noteq> TLB_INVALID"
proof -
  have "bit TLB_INVALID 4" by (simp add: TLB_INVALID_def)
  moreover have "\<not> bit (ctx_tag a md sm mx va) 4" by (simp add: bit_ctx_tag)
  ultimately show ?thesis by metis
qed

section \<open>Translation as a function of the page tables\<close>

definition sv_levels :: "u64 \<Rightarrow> nat option" where
  "sv_levels vm = (if vm = 8 then Some 3 else if vm = 9 then Some 4 else None)"

definition canonical :: "nat \<Rightarrow> u64 \<Rightarrow> bool" where
  "canonical levels va \<longleftrightarrow> (let ext = signed_drop_bit (9 * levels + 12 - 1) va in ext = 0 \<or> ext = - 1)"

definition root_table :: "u64 \<Rightarrow> u64" where
  "root_table sa = push_bit 12 (sa AND 0xfffffffffff)"

definition xlate :: "(u64 \<Rightarrow> u64 option) \<Rightarrow> u64 \<Rightarrow> access \<Rightarrow> priv \<Rightarrow> bool \<Rightarrow> bool \<Rightarrow> u64 \<Rightarrow>
    (nat \<times> u64 \<times> u64) option" where
  "xlate mem sa a md sm mx va = (case sv_levels (drop_bit 60 sa) of None \<Rightarrow> None
     | Some levels \<Rightarrow>
       if \<not> canonical levels va then None
       else case pte_find mem va (levels - 1) (root_table sa) of None \<Rightarrow> None
         | Some (l, ad, p) \<Rightarrow> if pte_accept a md sm mx l p then Some (l, ad, p) else None)"

definition translates :: "cpu \<Rightarrow> access \<Rightarrow> bool" where
  "translates c a \<longleftrightarrow> (case sys c of None \<Rightarrow> False
     | Some s \<Rightarrow> drop_bit 60 (satp s) \<noteq> 0 \<and> eff_mode s a \<noteq> Machine)"

lemma bind_busm: "mbind (busm m) f (c, b) =
    (case m b of (Inl e, b') \<Rightarrow> (Inl e, (c, b')) | (Inr r, b') \<Rightarrow> f r (c, b'))"
  by (simp add: mbind_def busm_def split: prod.splits sum.splits)

context table_memory
begin

lemma translate_slow_run:
  assumes i: "inv b" and s: "sys c = Some s" and v: "drop_bit 60 (satp s) \<noteq> 0" "eff_mode s a \<noteq> Machine"
  shows "case xlate (word_at b) (satp s) a (eff_mode s a) (mstatus s AND MSTATUS_SUM \<noteq> 0)
      (mstatus s AND MSTATUS_MXR \<noteq> 0) va of
      None \<Rightarrow> translate_slow B va a (c, b) = (Inl (Throw (fault a va)), (c, b))
    | Some (l, ad, p) \<Rightarrow> \<exists>b'. translate_slow B va a (c, b) =
          (Inr (pte_pa l p va), (tlb_fill a va (translation_tag c va a) (pte_pa l p va) c, b')) \<and> inv b' \<and>
        touched (word_at b) ad (pte_touch a p) (word_at b') \<and> (pte_touch a p = p \<longrightarrow> b' = b)"
proof -
  let ?sm = "mstatus s AND MSTATUS_SUM \<noteq> 0" and ?mx = "mstatus s AND MSTATUS_MXR \<noteq> 0"
  show ?thesis
  proof (cases "sv_levels (drop_bit 60 (satp s))")
    case None
    with s v show ?thesis by (simp add: xlate_def translate_slow_def sv_levels_def Let_def split: if_splits)
  next
    case (Some levels)
    let ?w = "walk B a va (eff_mode s a) ?sm ?mx (levels - 1) (root_table (satp s))"
    have lv: "drop_bit 60 (satp s) = 8 \<and> levels = 3 \<or> drop_bit 60 (satp s) = 9 \<and> levels = 4"
      using Some by (auto simp: sv_levels_def split: if_splits)
    have slow: "translate_slow B va a (c, b) = (if \<not> canonical levels va then throw (fault a va)
        else mbind (busm ?w) (\<lambda>pa. mbind (modc (tlb_fill a va (translation_tag c va a) pa)) (\<lambda>_. mret pa))) (c, b)"
      using lv s v by (auto simp: translate_slow_def canonical_def root_table_def Let_def)
    have "take_bit 3 (root_table (satp s)) = 0" unfolding root_table_def by (rule aligned_table)
    note w = walk_run [OF i this, where va = va and n = "levels - 1" and a = a and md = "eff_mode s a" and sm = ?sm and mx = ?mx]
    show ?thesis
    proof (cases "canonical levels va")
      case False
      with Some slow show ?thesis by (simp add: xlate_def)
    next
      case True
      from True Some slow w show ?thesis
        by (auto simp: xlate_def bind_busm split: option.splits if_splits)
    qed
  qed
qed

end

end
