(* ===== verification/TlbCorrect.thy ===== *)
theory TlbCorrect
  imports TlbWalk
begin

text \<open>
  Correctness of the translation cache: a row of the cache is coherent when it agrees with the
  page tables. A hart with coherent rows translates exactly as the walk does; translations,
  traps, returns, CSR writes and fences keep the rows coherent, and a fence makes them coherent
  again after an edit of the tables.
\<close>

section \<open>Addresses of one page\<close>

definition same_page :: "u64 \<Rightarrow> u64 \<Rightarrow> bool" where
  "same_page va va' \<longleftrightarrow> drop_bit 12 va = drop_bit 12 va'"

lemma same_page_bits: "same_page va va' \<longleftrightarrow> (\<forall>n\<ge>12. bit va n = bit va' n)"
proof
  assume e: "same_page va va'"
  show "\<forall>n\<ge>12. bit va n = bit va' n"
  proof (intro allI impI)
    fix n :: nat assume "12 \<le> n"
    then obtain k where n: "n = 12 + k" using le_Suc_ex by blast
    have "bit (drop_bit 12 va) k = bit (drop_bit 12 va') k" using e by (simp only: same_page_def)
    then show "bit va n = bit va' n" by (simp add: bit_drop_bit_eq n)
  qed
next
  assume "\<forall>n\<ge>12. bit va n = bit va' n"
  then show "same_page va va'"
    unfolding same_page_def by (intro bit_word_eqI) (simp add: bit_drop_bit_eq)
qed

lemma same_page_drop: "same_page va va' \<Longrightarrow> 12 \<le> k \<Longrightarrow> drop_bit k va = drop_bit k va'"
  unfolding same_page_bits by (auto simp: bit_eq_iff bit_drop_bit_eq)

lemma same_page_slot: "same_page va va' \<Longrightarrow> pte_slot l t va = pte_slot l t va'"
  unfolding pte_slot_def by (simp add: same_page_drop)

lemma same_page_find: "same_page va va' \<Longrightarrow> pte_find mem va n t = pte_find mem va' n t"
  by (induction n arbitrary: t) (auto simp: same_page_slot split: option.split)

lemma same_page_index: "same_page va va' \<Longrightarrow> tlb_index va = tlb_index va'"
  by (simp add: tlb_index_def same_page_def)

lemma same_page_canonical:
  assumes "same_page va va'" and "0 < levels"
  shows "canonical levels va = canonical levels va'"
proof -
  have "signed_drop_bit (9 * levels + 12 - 1) va = signed_drop_bit (9 * levels + 12 - 1) va'"
  proof (rule bit_word_eqI)
    fix n
    have "12 \<le> (9 * levels + 12 - 1) + n" "12 \<le> (63 :: nat)" using assms(2) by auto
    then show "bit (signed_drop_bit (9 * levels + 12 - 1) va) n = bit (signed_drop_bit (9 * levels + 12 - 1) va') n"
      using assms(1) unfolding same_page_bits by (simp add: bit_signed_drop_bit_iff)
  qed
  then show ?thesis by (simp add: canonical_def Let_def)
qed

lemma pte_pa_split: "pte_pa l p va - va = (push_bit 12 (drop_bit 10 p) AND NOT (mask (12 + 9 * l))) - (va AND NOT (mask (12 + 9 * l)))"
proof -
  let ?m = "mask (12 + 9 * l) :: u64"
  have "(push_bit 12 (drop_bit 10 p) AND NOT ?m) AND (va AND ?m) = 0"
    by (rule bit_word_eqI) (auto simp: bit_simps)
  then have "pte_pa l p va = (push_bit 12 (drop_bit 10 p) AND NOT ?m) + (va AND ?m)"
    unfolding pte_pa_def by (rule disjunctive_add_eq_or [symmetric])
  moreover have "(va AND ?m) AND (va AND NOT ?m) = 0" "(va AND ?m) OR (va AND NOT ?m) = va"
    by (rule bit_word_eqI, auto simp: bit_simps)+
  then have "(va AND ?m) + (va AND NOT ?m) = va"
    using disjunctive_add_eq_or [of "va AND ?m" "va AND NOT ?m"] by simp
  ultimately show ?thesis by (simp add: algebra_simps)
qed

lemma same_page_pa: "same_page va va' \<Longrightarrow> pte_pa l p va - va = pte_pa l p va' - va'"
proof -
  assume "same_page va va'"
  then have "va AND NOT (mask (12 + 9 * l)) = va' AND NOT (mask (12 + 9 * l))"
    unfolding same_page_bits by (intro bit_word_eqI) (auto simp: bit_simps)
  then show ?thesis unfolding pte_pa_split by simp
qed

lemma pte_accept_cong: "(a \<noteq> Fetch \<Longrightarrow> sm = sm') \<Longrightarrow> (a = Load \<Longrightarrow> mx = mx') \<Longrightarrow>
    pte_accept a md sm mx l p = pte_accept a md sm' mx' l p"
  unfolding pte_accept_def pte_permits_def by (cases a) auto

lemma xlate_cong:
  assumes "same_page va va'" "a \<noteq> Fetch \<Longrightarrow> sm = sm'" "a = Load \<Longrightarrow> mx = mx'"
  shows "xlate mem sa a md sm mx va = xlate mem sa a md sm' mx' va'"
proof -
  have c: "canonical 3 va = canonical 3 va'" "canonical 4 va = canonical 4 va'"
    using same_page_canonical [OF assms(1)] by simp_all
  have p: "pte_accept a md sm mx l p = pte_accept a md sm' mx' l p" for l p
    by (rule pte_accept_cong [OF assms(2,3)])
  show ?thesis
    unfolding xlate_def sv_levels_def same_page_find [OF assms(1)]
    by (auto simp: c p split: option.split)
qed

lemma ctx_tag_page: "ctx_tag a md sm mx va = ctx_tag a md' sm' mx' va' \<Longrightarrow> same_page va va'"
  unfolding same_page_bits using ctx_tag_inject(4) by blast

section \<open>Coherence of the translation cache\<close>

text \<open>
  Every valid row agrees with the page tables: the walk for its page in its permission context
  succeeds, the leaf already carries the A/D bits the access sets, and the row's offset is the
  leaf's.
\<close>

definition row_agrees :: "(u64 \<Rightarrow> u64 option) \<Rightarrow> u64 \<Rightarrow> access \<Rightarrow> priv \<Rightarrow> bool \<Rightarrow> bool \<Rightarrow> u64 \<Rightarrow> u64 \<Rightarrow> bool" where
  "row_agrees mem sa a md sm mx va diff \<longleftrightarrow> drop_bit 60 sa \<noteq> 0 \<and> md \<noteq> Machine \<and>
     (case xlate mem sa a md sm mx va of None \<Rightarrow> False
      | Some (l, ad, p) \<Rightarrow> pte_touch a p = p \<and> pte_pa l p va - va = diff)"

definition tlb_coherent :: "cpu \<Rightarrow> (u64 \<Rightarrow> u64 option) \<Rightarrow> bool" where
  "tlb_coherent c mem \<longleftrightarrow> (\<forall>s. sys c = Some s \<longrightarrow> (\<forall>a md sm mx va.
     tlb_tag c a (tlb_index va) = ctx_tag a md sm mx va \<longrightarrow>
     row_agrees mem (satp s) a md sm mx va (tlb_diff c a (tlb_index va))))"

lemma tlb_coherentI:
  assumes "\<And>s a md sm mx va. sys c = Some s \<Longrightarrow> tlb_tag c a (tlb_index va) = ctx_tag a md sm mx va \<Longrightarrow>
    row_agrees mem (satp s) a md sm mx va (tlb_diff c a (tlb_index va))"
  shows "tlb_coherent c mem"
  using assms by (simp add: tlb_coherent_def)

lemma tlb_coherentD:
  "tlb_coherent c mem \<Longrightarrow> sys c = Some s \<Longrightarrow> tlb_tag c a (tlb_index va) = ctx_tag a md sm mx va \<Longrightarrow>
    row_agrees mem (satp s) a md sm mx va (tlb_diff c a (tlb_index va))"
  by (simp add: tlb_coherent_def)

lemma row_agrees_cong:
  assumes "ctx_tag a md sm mx va = ctx_tag a md' sm' mx' va'"
  shows "row_agrees mem sa a md sm mx va d = row_agrees mem sa a md' sm' mx' va' d"
proof -
  have "md = md'" by (rule ctx_tag_inject(1) [OF assms])
  moreover have "xlate mem sa a md sm mx va = xlate mem sa a md sm' mx' va'"
    using ctx_tag_inject(2,3) [OF assms] ctx_tag_page [OF assms] by (intro xlate_cong)
  ultimately show ?thesis
    unfolding row_agrees_def using same_page_pa [OF ctx_tag_page [OF assms]] by (simp split: option.split)
qed

lemma tlb_fill_same:
  "tlb_tag c a (tlb_index va) = tag \<Longrightarrow> tlb_diff c a (tlb_index va) = pa - va \<Longrightarrow> tlb_fill a va tag pa c = c"
  unfolding tlb_fill_def by (simp add: fun_upd_idem)

lemma coherent_flush: "tlb_coherent (flush_tlb c) mem"
  by (rule tlb_coherentI) (simp add: flush_tlb_def ctx_tag_valid [symmetric] del: ctx_tag_valid)

lemma coherent_rows:
  "tlb_coherent c mem \<Longrightarrow> tlb_tag d = tlb_tag c \<Longrightarrow> tlb_diff d = tlb_diff c \<Longrightarrow>
    map_option satp (sys d) = map_option satp (sys c) \<Longrightarrow> tlb_coherent d mem"
  by (cases "sys c") (auto simp: tlb_coherent_def)

lemma coherent_fill:
  assumes co: "tlb_coherent c mem" and s: "sys c = Some s" and tag: "tag = ctx_tag a md sm mx va"
    and row: "row_agrees mem (satp s) a md sm mx va (pa - va)"
  shows "tlb_coherent (tlb_fill a va tag pa c) mem"
proof (rule tlb_coherentI)
  fix s' a' md' sm' mx' va'
  assume s': "sys (tlb_fill a va tag pa c) = Some s'"
    and t: "tlb_tag (tlb_fill a va tag pa c) a' (tlb_index va') = ctx_tag a' md' sm' mx' va'"
  have [simp]: "s' = s" using s s' by (simp add: tlb_fill_def)
  show "row_agrees mem (satp s') a' md' sm' mx' va' (tlb_diff (tlb_fill a va tag pa c) a' (tlb_index va'))"
  proof (cases "a' = a \<and> tlb_index va' = tlb_index va")
    case True
    with t tag have "ctx_tag a md sm mx va = ctx_tag a md' sm' mx' va'" by (simp add: tlb_fill_def)
    from row_agrees_cong [OF this] row True show ?thesis by (simp add: tlb_fill_def)
  next
    case False
    with t tlb_coherentD [OF co s, of a' va' md' sm' mx'] show ?thesis by (auto simp: tlb_fill_def)
  qed
qed

text \<open>Setting the A/D bits of a leaf keeps every row.\<close>

lemma xlate_touched:
  assumes "m ad = Some p" "pte_valid p" "\<not> pte_pointer p" "touched m ad (pte_touch acc p) n"
  shows "xlate n sa a md sm mx va = map_option (\<lambda>(l, x, q). (l, x, if x = ad then pte_touch acc q else q))
    (xlate m sa a md sm mx va)"
proof -
  have "take_bit 3 (root_table sa) = 0" unfolding root_table_def by (rule aligned_table)
  then have f: "pte_find n va k (root_table sa) = map_option (\<lambda>(l, a, p). (l, a, if a = ad then pte_touch acc p else p))
      (pte_find m va k (root_table sa))" for k
    by (rule pte_find_touched [OF assms])
  show ?thesis unfolding xlate_def f by (auto simp: pte_touch_kind split: option.split)
qed

lemma xlate_at:
  assumes "xlate m sa a md sm mx va = Some (l, ad, p)"
  shows "take_bit 3 ad = 0" "m ad = Some p" "pte_valid p" "\<not> pte_pointer p" "pte_accept a md sm mx l p"
proof -
  have "take_bit 3 (root_table sa) = 0" unfolding root_table_def by (rule aligned_table)
  moreover obtain k where "pte_find m va k (root_table sa) = Some (l, ad, p)"
    and ok: "pte_accept a md sm mx l p"
    using assms by (auto simp: xlate_def split: option.splits if_splits)
  ultimately show "take_bit 3 ad = 0" "m ad = Some p" "pte_valid p" "\<not> pte_pointer p"
    using pte_find_at by blast+
  show "pte_accept a md sm mx l p" by (rule ok)
qed

lemma row_touched:
  assumes "m ad = Some p" "pte_valid p" "\<not> pte_pointer p" "touched m ad (pte_touch acc p) n"
    and "row_agrees m sa a md sm mx va d"
  shows "row_agrees n sa a md sm mx va d"
  using assms(5) unfolding row_agrees_def xlate_touched [OF assms(1-4)]
  by (auto simp: pte_touch_pa pte_touch_stable split: option.splits)

lemma coherent_touched:
  "tlb_coherent c m \<Longrightarrow> m ad = Some p \<Longrightarrow> pte_valid p \<Longrightarrow> \<not> pte_pointer p \<Longrightarrow>
    touched m ad (pte_touch acc p) n \<Longrightarrow> tlb_coherent c n"
  unfolding tlb_coherent_def using row_touched by blast

context table_memory
begin

lemma translate_uncached:
  assumes "inv b" and s: "sys c = Some s" and co: "tlb_coherent c (word_at b)"
  shows "translate B va a (c, b) = translate_slow B va a (c, b)"
proof (cases "tlb_tag c a (tlb_index va) = translation_tag c va a")
  case True
  let ?md = "eff_mode s a" and ?sm = "mstatus s AND MSTATUS_SUM \<noteq> 0" and ?mx = "mstatus s AND MSTATUS_MXR \<noteq> 0"
  let ?x = "xlate (word_at b) (satp s) a ?md ?sm ?mx va"
  have "row_agrees (word_at b) (satp s) a ?md ?sm ?mx va (tlb_diff c a (tlb_index va))"
    using True tag_of_hart [OF s, of va a] by (intro tlb_coherentD [OF co s]) simp
  then obtain l ad p where v: "drop_bit 60 (satp s) \<noteq> 0" "?md \<noteq> Machine" and x: "?x = Some (l, ad, p)"
    and p: "pte_touch a p = p" and d: "pte_pa l p va - va = tlb_diff c a (tlb_index va)"
    unfolding row_agrees_def by (auto split: option.splits)
  have "translate_slow B va a (c, b) = (Inr (pte_pa l p va), (tlb_fill a va (translation_tag c va a) (pte_pa l p va) c, b))"
    using translate_slow_run [OF assms(1) s v, of va] x p by auto
  moreover have "tlb_fill a va (translation_tag c va a) (pte_pa l p va) c = c"
    using True d by (intro tlb_fill_same) simp_all
  moreover have "va + tlb_diff c a (tlb_index va) = pte_pa l p va" using d by (simp add: algebra_simps flip: d)
  ultimately show ?thesis using True s by (simp add: translate_def Let_def)
qed (simp add: translate_def s Let_def)

lemma translate_coherent:
  assumes "inv b" and co: "tlb_coherent c (word_at b)" and r: "translate B va a (c, b) = (r, (c', b'))"
  shows "inv b' \<and> tlb_coherent c' (word_at b')"
proof (cases "sys c")
  case None
  with r assms show ?thesis by (simp add: translate_def)
next
  case (Some s)
  let ?md = "eff_mode s a" and ?sm = "mstatus s AND MSTATUS_SUM \<noteq> 0" and ?mx = "mstatus s AND MSTATUS_MXR \<noteq> 0"
  let ?x = "xlate (word_at b) (satp s) a ?md ?sm ?mx va"
  have slow: "translate_slow B va a (c, b) = (r, (c', b'))"
    using translate_uncached [OF assms(1) Some co] r by simp
  show ?thesis
  proof (cases "drop_bit 60 (satp s) = 0 \<or> ?md = Machine")
    case True
    with slow Some assms show ?thesis by (auto simp: translate_slow_def Let_def)
  next
    case False
    then have v: "drop_bit 60 (satp s) \<noteq> 0" "?md \<noteq> Machine" by simp_all
    show ?thesis
    proof (cases ?x)
      case None
      with translate_slow_run [OF assms(1) Some v, of va] slow assms show ?thesis by simp
    next
      case x: (Some y)
      obtain l ad p where y: "y = (l, ad, p)" by (cases y)
      from translate_slow_run [OF assms(1) Some v, of va] slow x y
      have c': "c' = tlb_fill a va (translation_tag c va a) (pte_pa l p va) c" and "inv b'"
        and t: "touched (word_at b) ad (pte_touch a p) (word_at b')" by auto
      note at = xlate_at [OF x [unfolded y]]
      have "row_agrees (word_at b') (satp s) a ?md ?sm ?mx va (pte_pa l p va - va)"
        unfolding row_agrees_def xlate_touched [OF at(2-4) t] x y using v by (simp add: pte_touch_idem pte_touch_pa)
      then have "tlb_coherent c' (word_at b')"
        unfolding c' using coherent_touched [OF co at(2-4) t] Some tag_of_hart [OF Some]
        by (intro coherent_fill) auto
      with \<open>inv b'\<close> show ?thesis by simp
    qed
  qed
qed

end

section \<open>Relations a computation respects\<close>

text \<open>
  \<open>moves R m c\<close>: run from the hart \<open>c\<close>, whatever the outcome, \<open>m\<close> leaves the bus alone and
  relates \<open>c\<close> to the hart it leaves by \<open>R\<close>.
\<close>

definition moves :: "(cpu \<Rightarrow> cpu \<Rightarrow> bool) \<Rightarrow> ('b, 'a) cpum \<Rightarrow> cpu \<Rightarrow> bool" where
  "moves R m c \<longleftrightarrow> (\<forall>b r c' b'. m (c, b) = (r, (c', b')) \<longrightarrow> R c c' \<and> b' = b)"

lemma movesD: "moves R m c \<Longrightarrow> m (c, b) = (r, (c', b')) \<Longrightarrow> R c c' \<and> b' = b"
  by (simp add: moves_def)

locale transitive_move =
  fixes R :: "cpu \<Rightarrow> cpu \<Rightarrow> bool"
  assumes refl: "R c c" and trans: "R c d \<Longrightarrow> R d e \<Longrightarrow> R c e"
begin

lemma moves_mret: "moves R (mret a) c" and moves_throw: "moves R (throw e) c"
  and moves_panic: "moves R panic c" and moves_getc: "moves R (getc g) c"
  by (simp_all add: moves_def refl)

lemma moves_modc: "R c (h c) \<Longrightarrow> moves R (modc h) c"
  by (simp add: moves_def)

lemma moves_bind: "moves R m c \<Longrightarrow> (\<And>a d. R c d \<Longrightarrow> moves R (f a) d) \<Longrightarrow> moves R (mbind m f) c"
  unfolding moves_def mbind_def by (fastforce split: prod.splits sum.splits intro: trans)

lemma moves_get: "moves R (f (g c)) c \<Longrightarrow> moves R (mbind (getc g) f) c"
  by (simp add: moves_def)

lemma moves_case: "(v = None \<Longrightarrow> moves R m c) \<Longrightarrow> (\<And>x. v = Some x \<Longrightarrow> moves R (f x) c) \<Longrightarrow>
    moves R (case v of None \<Rightarrow> m | Some x \<Rightarrow> f x) c"
  by (cases v) simp_all

lemma moves_if: "(p \<Longrightarrow> moves R m c) \<Longrightarrow> (\<not> p \<Longrightarrow> moves R n c) \<Longrightarrow> moves R (if p then m else n) c"
  by simp

lemma moves_illegal: "moves R (illegal insn) c"
  unfolding illegal_def by (rule moves_throw)

lemma moves_fp_check: "moves R (fp_check insn) c"
  unfolding fp_check_def by (intro moves_get moves_case moves_if moves_mret moves_throw)

lemmas moves_rules = moves_get moves_bind moves_case moves_if moves_mret moves_throw moves_panic moves_getc
  moves_illegal moves_fp_check

end

section \<open>Rows a hart keeps\<close>

text \<open>Every row of \<open>d\<close> is invalid or a row of \<open>c\<close>, in the same address space.\<close>

definition rows_kept :: "cpu \<Rightarrow> cpu \<Rightarrow> bool" where
  "rows_kept c d \<longleftrightarrow> (\<forall>a i. tlb_tag d a i = TLB_INVALID \<or>
     (tlb_tag d a i = tlb_tag c a i \<and> tlb_diff d a i = tlb_diff c a i \<and>
      map_option satp (sys d) = map_option satp (sys c)))"

interpretation kept: transitive_move rows_kept
proof
  show "rows_kept c c" for c by (simp add: rows_kept_def)
  show "rows_kept c e" if "rows_kept c d" "rows_kept d e" for c d e
    using that unfolding rows_kept_def by metis
qed

lemma coherent_kept:
  assumes co: "tlb_coherent c mem" and k: "rows_kept c d"
  shows "tlb_coherent d mem"
proof (rule tlb_coherentI)
  fix s a md sm mx va
  assume s: "sys d = Some s" and t: "tlb_tag d a (tlb_index va) = ctx_tag a md sm mx va"
  then have r: "tlb_tag c a (tlb_index va) = ctx_tag a md sm mx va" "tlb_diff d a (tlb_index va) = tlb_diff c a (tlb_index va)"
    and "map_option satp (sys c) = Some (satp s)"
    using k ctx_tag_valid [of a md sm mx va] unfolding rows_kept_def by (metis option.map(2))+
  then obtain s0 where "sys c = Some s0" "satp s0 = satp s" by (cases "sys c") auto
  with tlb_coherentD [OF co _ r(1)] r(2) show "row_agrees mem (satp s) a md sm mx va (tlb_diff d a (tlb_index va))"
    by metis
qed

lemma kept_same:
  "tlb_tag d = tlb_tag c \<Longrightarrow> tlb_diff d = tlb_diff c \<Longrightarrow> map_option satp (sys d) = map_option satp (sys c) \<Longrightarrow> rows_kept c d"
  by (simp add: rows_kept_def)

lemma kept_flush: "rows_kept c (flush_tlb d)"
  by (simp add: rows_kept_def flush_tlb_def)

lemma kept_flushed: "tlb_tag d = (\<lambda>_ _. TLB_INVALID) \<Longrightarrow> rows_kept c d"
  by (simp add: rows_kept_def)

lemma kept_privilege:
  assumes "tlb_tag d = tlb_tag c" "tlb_diff d = tlb_diff c" "map_option satp (sys d) = map_option satp (sys c)"
  shows "rows_kept c (privilege_changed d)"
  using assms by (auto simp: rows_kept_def privilege_changed_def sync_jit_tlb_context_def flush_tlb_def)

lemma kept_sfence: "rows_kept c (sfence_vma va asid c)"
  by (auto simp: rows_kept_def sfence_vma_def flush_tlb_def evict_page_def Let_def split: option.splits)

lemma kept_dirty: "rows_kept c (fp_dirty c)" "rows_kept c (wr r v c)"
  by (rule kept_same; simp add: fp_dirty_def wr_def split: option.split)+

lemma kept_set_sys: "(\<And>s. satp (f s) = satp s) \<Longrightarrow> tlb_tag d = tlb_tag c \<Longrightarrow> tlb_diff d = tlb_diff c \<Longrightarrow>
    sys d = sys c \<Longrightarrow> rows_kept c (snd (set_sys f d))"
  by (rule kept_same) (auto simp: set_sys_def split: option.split)

lemma kept_status: "rows_kept c (snd (write_status w v (c\<lparr>irq_poll_cd := k\<rparr>)))"
  by (auto simp: rows_kept_def write_status_def Let_def sync_jit_tlb_context_def flush_tlb_def split: option.split)

lemma kept_satp: "rows_kept c (snd (write_satp v (c\<lparr>irq_poll_cd := k\<rparr>)))"
  by (auto simp: rows_kept_def write_satp_def Let_def flush_tlb_def split: option.split)

lemma kept_arm:
  "(if p then Some x else y) = Some r \<Longrightarrow> rows_kept c (snd x) \<Longrightarrow> (y = Some r \<Longrightarrow> rows_kept c (snd r)) \<Longrightarrow>
    rows_kept c (snd r)"
  by (auto split: if_splits)

lemma kept_arm_m: "rows_kept c (snd x) \<Longrightarrow> rows_kept c (snd y) \<Longrightarrow> rows_kept c (snd (if p then x else y))"
  by simp

lemma kept_csr_s: "csr_write_s csr v (c\<lparr>irq_poll_cd := k\<rparr>) = Some r \<Longrightarrow> rows_kept c (snd r)"
  unfolding csr_write_s_def Let_def
  by (erule kept_arm, (rule kept_status kept_satp | (rule kept_set_sys; simp)))+ simp

lemma kept_csr_m: "rows_kept c (snd (csr_write_m csr v (c\<lparr>irq_poll_cd := k\<rparr>)))"
  unfolding csr_write_m_def
  by (intro kept_arm_m kept_status kept_set_sys) (simp_all add: kept_same)

lemma kept_csr_u: "csr_write_u csr v (c\<lparr>irq_poll_cd := k\<rparr>) = Some r \<Longrightarrow> rows_kept c (snd r)"
  unfolding csr_write_u_def Let_def
  by (erule kept_arm, ((rule kept_set_sys; simp) | (rule kept_same; simp add: vector_dirty_def split: option.split)))+ simp

lemma kept_csr: "rows_kept c (snd (csr_write csr v c))"
  unfolding csr_write_def Let_def
  by (auto simp: kept_csr_u kept_csr_s kept_csr_m intro: kept_same split: option.split)


section \<open>The privileged instructions keep coherence\<close>

lemma moves_log: "moves rows_kept log_syscall c"
  unfolding log_syscall_def by (intro kept.moves_rules kept.moves_modc kept_same) simp_all

lemma moves_trap: "moves rows_kept (take_trap cause tval i) c"
  unfolding take_trap_def
  by (intro kept.moves_rules kept.moves_modc moves_log kept_same kept_privilege)
    (auto simp: count_trap_def record_timer_trap_def trap_to_s_def trap_to_m_def Let_def split: option.split)

lemma csrs_satp: "satp (mret_csrs s) = satp s" "satp (sret_csrs s) = satp s"
  by (simp_all add: mret_csrs_def sret_csrs_def Let_def)

lemma moves_system: "moves rows_kept (exec_system insn np) c"
proof -
  have "moves rows_kept (exec_mret insn) c" "moves rows_kept (exec_sret insn) c"
    unfolding exec_mret_def exec_sret_def
    by (intro kept.moves_rules kept.moves_modc kept_same kept_privilege; simp add: csrs_satp)+
  moreover have "moves rows_kept (exec_csr insn np) c"
    unfolding exec_csr_def Let_def by (intro kept.moves_rules kept.moves_modc kept_dirty kept_csr)
  moreover have "moves rows_kept (exec_sfence insn np) c"
    unfolding exec_sfence_def Let_def by (intro kept.moves_rules kept.moves_modc kept_sfence)
  moreover have "moves rows_kept (exec_wfi insn np) c" "moves rows_kept (exec_ebreak np) c"
    unfolding exec_wfi_def exec_ebreak_def by (intro kept.moves_rules)+
  moreover have "moves rows_kept (exec_ecall np) c"
    unfolding exec_ecall_def by (intro kept.moves_rules moves_trap kept.moves_modc kept_same) simp_all
  ultimately show ?thesis unfolding exec_system_def by (intro kept.moves_if kept.moves_illegal)
qed

section \<open>Flat memory as table memory\<close>

lemma splice_here: "d \<le> length xs \<Longrightarrow> take (length ys) (drop d (take d xs @ ys @ zs)) = ys"
  by simp

lemma splice_frame:
  assumes "e + n \<le> d \<or> d + k \<le> e" "length ys = k" "d + k \<le> length xs"
  shows "take n (drop e (take d xs @ ys @ drop (d + k) xs)) = take n (drop e xs)"
proof (cases "e + n \<le> d")
  case True
  have "take n (drop e (take d xs)) = take n (take (d - e) (drop e xs))" by (simp only: List.drop_take)
  also have "\<dots> = take n (drop e xs)" using True by (simp only: take_take min_def) simp
  finally show ?thesis using assms(3) True by simp
next
  case False
  with assms have "d + k \<le> e" by simp
  then show ?thesis using assms by (simp add: min_def)
qed

definition flat_word :: "flat_memory \<Rightarrow> u64 \<Rightarrow> u64 option" where
  "flat_word m a = (if flat_in m a 8
     then Some (from_le_bytes (take 8 (drop (unat a - unat (fm_base m)) (fm_mem m)))) else None)"

lemma aligned_apart:
  assumes "take_bit 3 (a :: u64) = 0" "take_bit 3 a' = 0" "a \<noteq> a'"
  shows "unat a' + 8 \<le> unat a \<or> unat a + 8 \<le> unat a'"
proof -
  have d: "8 dvd unat x" if "take_bit 3 x = 0" for x :: u64
  proof -
    have "unat (x mod 2 ^ 3) = 0" using that by (simp only: take_bit_eq_mod unat_0)
    then show ?thesis by (simp add: unat_mod dvd_eq_mod_eq_0)
  qed
  obtain k l where "unat a = 8 * k" "unat a' = 8 * l" using d assms(1,2) by (metis dvdE)
  moreover have "unat a \<noteq> unat a'" using assms(3) by (simp add: word_unat_eq_iff)
  ultimately show ?thesis by auto
qed

lemma flat_word_store:
  assumes "flat_in m a 8" "take_bit 3 a = 0" "take_bit 3 a' = 0"
  shows "flat_word (flat_store m a (to_le_bytes 8 v)) a' = (if a' = a then Some v else flat_word m a')"
proof -
  let ?d = "unat a - unat (fm_base m)"
  have i: "flat_in (flat_store m a (to_le_bytes 8 v)) x n = flat_in m x n" for x n
    using assms(1) by (simp add: flat_in_def flat_store_def)
  show ?thesis
  proof (cases "a' = a")
    case True
    with assms(1) show ?thesis
      by (simp add: flat_word_def i) (simp add: flat_store_def flat_in_def from_le_bytes_to_le_bytes)
  next
    case False
    have "take 8 (drop (unat a' - unat (fm_base m)) (fm_mem (flat_store m a (to_le_bytes 8 v)))) =
        take 8 (drop (unat a' - unat (fm_base m)) (fm_mem m))" if "flat_in m a' 8"
    proof -
      have "unat a' - unat (fm_base m) + 8 \<le> ?d \<or> ?d + 8 \<le> unat a' - unat (fm_base m)"
        using aligned_apart [OF assms(2,3)] assms(1) False that by (auto simp: flat_in_def word_le_nat_alt)
      moreover have "?d + 8 \<le> length (fm_mem m)" using assms(1) by (simp add: flat_in_def)
      moreover have e: "fm_mem (flat_store m a (to_le_bytes 8 v)) =
          take ?d (fm_mem m) @ to_le_bytes 8 v @ drop (?d + 8) (fm_mem m)" by (simp add: flat_store_def)
      ultimately show ?thesis unfolding e by (intro splice_frame length_to_le_bytes)
    qed
    with False show ?thesis unfolding flat_word_def i by (simp add: flat_store_def)
  qed
qed

interpretation flat_tables: table_memory flat_bus flat_word flat_quiet
proof
  fix b a w and v :: u64 assume q: "flat_quiet b"
  then have w: "flat_wf b" "\<not> flat_wraps b a 8" using flat_quiet_not_wraps by (auto simp: flat_quiet_def)
  note r = flat_read_run [OF w(1), of 8 a] flat_write_run [OF w(1), of 8 a v]
  show "flat_word b a = Some w \<Longrightarrow> read64 flat_bus a b = (Inr w, b)"
    using r by (auto simp: flat_bus_def flat_word_def split: if_splits)
  show "flat_word b a = None \<Longrightarrow> \<exists>e. read64 flat_bus a b = (Inl (Throw e), b)"
    using r w by (auto simp: flat_bus_def flat_word_def split: if_splits)
  assume al: "take_bit 3 a = 0" and "flat_word b a = Some w"
  then have "flat_in b a 8" by (auto simp: flat_word_def split: if_splits)
  then show "\<exists>b'. write64 flat_bus a v b = (Inr (), b') \<and> flat_quiet b' \<and>
      (\<forall>a'. take_bit 3 a' = 0 \<longrightarrow> flat_word b' a' = (if a' = a then Some v else flat_word b a'))"
    using r flat_word_store [OF _ al] flat_store_quiet [OF q, of a "to_le_bytes 8 v"] by (simp add: flat_bus_def)
qed

section \<open>Fences after page-table edits\<close>

lemma page_mask_tag: "ctx_tag a md sm mx va AND TLB_PAGE_MASK = pg AND TLB_PAGE_MASK \<longleftrightarrow> same_page va pg"
proof -
  have "ctx_tag a md sm mx va AND TLB_PAGE_MASK = va AND TLB_PAGE_MASK"
    by (rule bit_word_eqI) (auto simp: bit_page_mask bit_ctx_tag)
  moreover have "va AND TLB_PAGE_MASK = pg AND TLB_PAGE_MASK \<longleftrightarrow> same_page va pg"
  proof
    assume "va AND TLB_PAGE_MASK = pg AND TLB_PAGE_MASK"
    then show "same_page va pg" unfolding same_page_bits by (metis bit_page_mask)
  next
    assume "same_page va pg"
    then show "va AND TLB_PAGE_MASK = pg AND TLB_PAGE_MASK"
      unfolding same_page_bits by (intro bit_word_eqI) (auto simp: bit_page_mask)
  qed
  ultimately show ?thesis by simp
qed

lemma evict_row: "evict_page p i tags j = v \<Longrightarrow> v \<noteq> TLB_INVALID \<Longrightarrow> tags j = v"
  by (simp add: evict_page_def split: if_splits)

lemma sfence_page_rows:
  assumes "tlb_tag (sfence_vma (Some pg) None c) a (tlb_index va) = ctx_tag a md sm mx va"
  shows "tlb_tag c a (tlb_index va) = ctx_tag a md sm mx va" "\<not> same_page va pg"
proof -
  have t: "tlb_tag (sfence_vma (Some pg) None c) a = evict_page (pg AND TLB_PAGE_MASK) (tlb_index pg) (tlb_tag c a)"
    by (simp add: sfence_vma_def Let_def)
  show *: "tlb_tag c a (tlb_index va) = ctx_tag a md sm mx va"
    by (rule evict_row [OF assms [unfolded t] ctx_tag_valid])
  show "\<not> same_page va pg"
  proof
    assume "same_page va pg"
    with * have "tlb_index va = tlb_index pg" "tlb_tag c a (tlb_index pg) AND TLB_PAGE_MASK = pg AND TLB_PAGE_MASK"
      using same_page_index [of va pg] page_mask_tag [of a md sm mx va pg] by simp_all
    with assms ctx_tag_valid [of a md sm mx va] show False unfolding t evict_page_def by simp
  qed
qed

lemma sfence_page_fields:
  "sys (sfence_vma (Some pg) None c) = sys c" "tlb_diff (sfence_vma (Some pg) None c) = tlb_diff c"
  by (simp_all add: sfence_vma_def Let_def)

lemma sfence_page_coherent:
  assumes co: "tlb_coherent c mem"
    and edit: "\<And>s a md sm mx va. sys c = Some s \<Longrightarrow> \<not> same_page va pg \<Longrightarrow>
      xlate mem' (satp s) a md sm mx va = xlate mem (satp s) a md sm mx va"
  shows "tlb_coherent (sfence_vma (Some pg) None c) mem'"
proof (rule tlb_coherentI)
  fix s a md sm mx va
  assume s: "sys (sfence_vma (Some pg) None c) = Some s"
    and t: "tlb_tag (sfence_vma (Some pg) None c) a (tlb_index va) = ctx_tag a md sm mx va"
  from s have s': "sys c = Some s" by (simp add: sfence_page_fields)
  note r = sfence_page_rows [OF t]
  from tlb_coherentD [OF co s' r(1)] edit [OF s' r(2)]
  show "row_agrees mem' (satp s) a md sm mx va (tlb_diff (sfence_vma (Some pg) None c) a (tlb_index va))"
    by (simp add: row_agrees_def sfence_page_fields)
qed

lemma sfence_all_coherent: "tlb_coherent (sfence_vma None None c) mem"
proof -
  have "sfence_vma None None c = flush_tlb (c\<lparr>map_gen := map_gen c + 1, sfence_all := sfence_all c + 1\<rparr>)"
    by (simp add: sfence_vma_def Let_def)
  then show ?thesis by (simp only: coherent_flush)
qed

section \<open>The life of a translation cache\<close>

inductive mmu_step :: "cpu \<times> flat_memory \<Rightarrow> cpu \<times> flat_memory \<Rightarrow> bool" where
  mmu_translate: "translate flat_bus va a (c, m) = (r, s') \<Longrightarrow> mmu_step (c, m) s'"
| mmu_system: "exec_system insn np (c, m) = (r, s') \<Longrightarrow> mmu_step (c, m) s'"
| mmu_trap: "take_trap cause tval i (c, m) = (r, s') \<Longrightarrow> mmu_step (c, m) s'"
| mmu_store: "flat_quiet m' \<Longrightarrow> (\<And>s a md sm mx va. sys c = Some s \<Longrightarrow>
      xlate (flat_word m') (satp s) a md sm mx va = xlate (flat_word m) (satp s) a md sm mx va) \<Longrightarrow>
    mmu_step (c, m) (c, m')"
| mmu_edit_all: "flat_quiet m' \<Longrightarrow> mmu_step (c, m) (sfence_vma None None c, m')"
| mmu_edit_page: "flat_quiet m' \<Longrightarrow> (\<And>s a md sm mx va. sys c = Some s \<Longrightarrow> \<not> same_page va pg \<Longrightarrow>
      xlate (flat_word m') (satp s) a md sm mx va = xlate (flat_word m) (satp s) a md sm mx va) \<Longrightarrow>
    mmu_step (c, m) (sfence_vma (Some pg) None c, m')"

definition mmu_inv :: "cpu \<times> flat_memory \<Rightarrow> bool" where
  "mmu_inv = (\<lambda>(c, m). flat_quiet m \<and> tlb_coherent c (flat_word m))"

lemma mmu_inv_step:
  assumes "mmu_step s t" and "mmu_inv s"
  shows "mmu_inv t"
  using assms
proof cases
  case (mmu_translate va a c m r)
  then show ?thesis
    using flat_tables.translate_coherent [where c' = "fst t" and b' = "snd t"] assms(2)
    by (auto simp: mmu_inv_def split: prod.splits)
next
  case (mmu_system insn np c m r)
  obtain c' m' where "t = (c', m')" by (cases t)
  with mmu_system movesD [OF moves_system] assms(2) coherent_kept show ?thesis
    by (fastforce simp: mmu_inv_def)
next
  case (mmu_trap cause tval i c m r)
  obtain c' m' where "t = (c', m')" by (cases t)
  with mmu_trap movesD [OF moves_trap] assms(2) coherent_kept show ?thesis
    by (fastforce simp: mmu_inv_def)
next
  case (mmu_store m' c m)
  with assms(2) show ?thesis by (auto simp: mmu_inv_def tlb_coherent_def row_agrees_def)
next
  case (mmu_edit_all m' c m)
  then show ?thesis by (simp add: mmu_inv_def sfence_all_coherent)
next
  case (mmu_edit_page m' c pg m)
  with assms(2) show ?thesis by (auto simp: mmu_inv_def intro!: sfence_page_coherent)
qed

lemma mmu_inv_reach: "mmu_step\<^sup>*\<^sup>* s t \<Longrightarrow> mmu_inv s \<Longrightarrow> mmu_inv t"
  by (induction rule: rtranclp_induct) (auto intro: mmu_inv_step)

section \<open>Properties\<close>

text \<open>C3: Address translation through the cache is the page-table walk. Over a flat memory with base at
  least 8, for a hart that translates (paging on, effective mode below M) and whose rows are coherent, translation raises the page
  fault of the access, changing nothing, when the walk finds no leaf that permits the access, and
  otherwise returns the leaf's physical address, having set exactly the A/D bits of that leaf and
  left the rows coherent.\<close>

theorem translate_refines_walk:
  assumes "flat_quiet m" and "tlb_coherent c (flat_word m)" and "sys c = Some s"
    and "drop_bit 60 (satp s) \<noteq> 0" and "eff_mode s a \<noteq> Machine"
  shows "case xlate (flat_word m) (satp s) a (eff_mode s a) (mstatus s AND MSTATUS_SUM \<noteq> 0)
      (mstatus s AND MSTATUS_MXR \<noteq> 0) va of
      None \<Rightarrow> translate flat_bus va a (c, m) = (Inl (Throw (fault a va)), (c, m))
    | Some (l, ad, p) \<Rightarrow> \<exists>c' m'. translate flat_bus va a (c, m) = (Inr (pte_pa l p va), (c', m')) \<and>
        flat_quiet m' \<and> tlb_coherent c' (flat_word m') \<and> touched (flat_word m) ad (pte_touch a p) (flat_word m')"
    (is "case ?x of None \<Rightarrow> ?N | Some (l, ad, p) \<Rightarrow> ?S l ad p")
proof -
  have t: "translate flat_bus va a (c, m) = translate_slow flat_bus va a (c, m)"
    by (rule flat_tables.translate_uncached [OF assms(1,3,2)])
  show ?thesis
  proof (cases ?x)
    case None
    with flat_tables.translate_slow_run [OF assms(1,3,4,5), of va] show ?thesis by (simp add: t)
  next
    case (Some y)
    obtain l ad p where y: "y = (l, ad, p)" by (cases y)
    from flat_tables.translate_slow_run [OF assms(1,3,4,5), of va] Some y
    obtain m' where r: "translate flat_bus va a (c, m) = (Inr (pte_pa l p va),
        (tlb_fill a va (translation_tag c va a) (pte_pa l p va) c, m'))"
      and "touched (flat_word m) ad (pte_touch a p) (flat_word m')" by (auto simp: t)
    with flat_tables.translate_coherent [OF assms(1,2) r] Some y show ?thesis by auto
  qed
qed

text \<open>C4: Over a flat memory with base at least 8, the rows of the translation cache stay coherent with the page tables along every sequence of
  translations, SYSTEM instructions, traps, stores that change no translation, page-table edits
  followed by SFENCE.VMA without operands, and edits of the translation of one page followed by
  SFENCE.VMA of that page.\<close>

theorem mmu_coherent:
  assumes "flat_quiet m" and "tlb_coherent c (flat_word m)" and "mmu_step\<^sup>*\<^sup>* (c, m) (c', m')"
  shows "tlb_coherent c' (flat_word m')"
  using mmu_inv_reach [OF assms(3)] assms(1,2) by (simp add: mmu_inv_def)

section \<open>Concrete instances\<close>

definition paged_csrs :: sys_csrs where
  "paged_csrs = sys_new\<lparr>mode := Supervisor, satp := 0x8000000000000001\<rparr>"

definition giga_page :: "u8 \<Rightarrow> flat_memory" where
  "giga_page flags = flat_new 0x1000 [flags, 0, 0, 0, 0, 0, 0, 0]"

lemma giga_quiet: "flat_quiet (giga_page k)"
  by (simp add: giga_page_def flat_quiet_def flat_wf_def flat_new_def)

lemma coherent_new: "tlb_tag c = (\<lambda>_ _. TLB_INVALID) \<Longrightarrow> tlb_coherent c mem"
  by (rule tlb_coherentI) (simp add: ctx_tag_valid [THEN not_sym])

lemma sample_coherent: "tlb_coherent (sample_hart s) mem"
  by (rule coherent_new) (simp add: sample_hart_def cpu_new_def)

lemma giga_word: "flat_word (giga_page k) 0x1000 = Some (ucast k)"
  by (simp add: giga_page_def flat_new_def flat_word_def flat_in_def)

lemma giga_aligned: "pte_aligned 2 0x4f"
proof -
  have "bit (0x4f :: u64) (10 + i) = bit (drop_bit 10 (0x4f :: u64)) i" for i by (simp only: bit_drop_bit_eq comp_apply)
  moreover have "drop_bit 10 (0x4f :: u64) = 0" by simp
  ultimately show ?thesis by (simp add: pte_aligned_def)
qed

lemma giga_slot: "pte_slot 2 0x1000 0x1234 = 0x1000"
  by (simp add: pte_slot_def)

lemma giga_xlate: "xlate (flat_word (giga_page 0x4f)) 0x8000000000000001 Load Supervisor False False 0x1234 =
    Some (2, 0x1000, 0x4f)"
proof -
  have "pte_valid 0x4f" "\<not> pte_pointer 0x4f" by (simp_all add: pte_valid_def pte_pointer_def)
  then have "pte_find (flat_word (giga_page 0x4f)) 0x1234 2 0x1000 = Some (2, 0x1000, 0x4f)"
    using giga_slot by (simp add: numeral_2_eq_2 giga_word [of "0x4f", simplified])
  moreover have "pte_accept Load Supervisor False False 2 0x4f"
    by (simp add: pte_accept_def giga_aligned pte_permits_def)
  moreover have "canonical 3 0x1234" by (simp add: canonical_def)
  ultimately show ?thesis by (simp add: xlate_def sv_levels_def root_table_def)
qed

lemma paged_mode: "drop_bit 60 (satp paged_csrs) \<noteq> 0" "eff_mode paged_csrs Load = Supervisor"
  "(mstatus paged_csrs AND MSTATUS_SUM \<noteq> 0) = False" "(mstatus paged_csrs AND MSTATUS_MXR \<noteq> 0) = False"
  "satp paged_csrs = 0x8000000000000001"
  by (simp_all add: paged_csrs_def eff_mode_def sys_new_def MSTATUS_MPRV_def MSTATUS_SUM_def MSTATUS_MXR_def
      MSTATUS_UXL_def MSTATUS_SXL_def)

theorem translate_refines_walk_witness:
  "\<exists>c' m'. translate flat_bus 0x1234 Load (sample_hart paged_csrs, giga_page 0x4f) = (Inr 0x1234, (c', m')) \<and>
    tlb_coherent c' (flat_word m') \<and> touched (flat_word (giga_page 0x4f)) 0x1000 0x4f (flat_word m')"
proof -
  have "pte_pa 2 0x4f 0x1234 = 0x1234" "pte_touch Load 0x4f = 0x4f"
    by (simp_all add: pte_pa_def pte_touch_def mask_eq_decr_exp)
  moreover note translate_refines_walk [where s = paged_csrs and a = Load and va = "0x1234", OF giga_quiet [of "0x4f"] sample_coherent sample_hart_sys
    paged_mode(1), unfolded paged_mode giga_xlate]
  ultimately show ?thesis by auto
qed

theorem mmu_coherent_witness:
  "\<exists>c' m'. mmu_step\<^sup>*\<^sup>* (sample_hart paged_csrs, giga_page 0x4f) (c', m') \<and> tlb_coherent c' (flat_word m')"
proof -
  obtain r c' m' where t: "take_trap 8 0 False (sample_hart paged_csrs, giga_page 0x4f) = (r, (c', m'))"
    by (metis surj_pair)
  then have "mmu_step\<^sup>*\<^sup>* (sample_hart paged_csrs, giga_page 0x4f) (c', m')" by (blast intro: mmu_trap)
  with mmu_coherent [OF giga_quiet sample_coherent this] show ?thesis by blast
qed

text \<open>C31: SFENCE.VMA of an address evicts the row of that 4 KiB page only. When the leaf is a superpage,
  the rows of its other pages survive the fence: after the leaf of a mapped gigapage is cleared
  and one of its pages is fenced, a load from another of its pages still translates, although the
  walk finds no mapping.\<close>

theorem sfence_superpage_stale:
  "\<exists>c. tlb_coherent c (flat_word (giga_page 0x4f)) \<and>
    xlate (flat_word (giga_page 0)) (satp paged_csrs) Load Supervisor False False 0x1234 = None \<and>
    fst (translate flat_bus 0x1234 Load (sfence_vma (Some 0x2000) None c, giga_page 0)) = Inr 0x1234"
proof -
  let ?c = "tlb_fill Load 0x1234 (ctx_tag Load Supervisor False False 0x1234) 0x1234 (sample_hart paged_csrs)"
  have "row_agrees (flat_word (giga_page 0x4f)) (satp paged_csrs) Load Supervisor False False 0x1234 (0x1234 - 0x1234)"
    unfolding row_agrees_def paged_mode giga_xlate
    by (simp add: pte_pa_def pte_touch_def mask_eq_decr_exp)
  then have "tlb_coherent ?c (flat_word (giga_page 0x4f))"
    by (intro coherent_fill [OF sample_coherent sample_hart_sys refl])
  moreover have "xlate (flat_word (giga_page 0)) (satp paged_csrs) Load Supervisor False False 0x1234 = None"
  proof -
    have "pte_find (flat_word (giga_page 0)) 0x1234 2 0x1000 = None"
      using giga_slot by (simp add: numeral_2_eq_2 giga_word [of 0, simplified] pte_valid_def)
    then show ?thesis by (simp add: paged_mode xlate_def sv_levels_def root_table_def)
  qed
  moreover have "fst (translate flat_bus 0x1234 Load (sfence_vma (Some 0x2000) None ?c, giga_page 0)) = Inr 0x1234"
  proof -
    let ?d = "sfence_vma (Some 0x2000) None ?c"
    have s: "sys ?d = Some paged_csrs" by (simp add: sfence_page_fields tlb_fill_def sample_hart_sys)
    have i: "tlb_index 0x1234 = 1" "tlb_index 0x2000 = 2" by (simp_all add: tlb_index_def TLB_SIZE_def TLB_BITS_def)
    have "tlb_tag ?d Load 1 = ctx_tag Load Supervisor False False 0x1234"
      by (simp add: sfence_vma_def Let_def evict_page_def i tlb_fill_def)
    moreover have "tlb_diff ?d Load 1 = 0" by (simp add: sfence_page_fields tlb_fill_def i)
    ultimately show ?thesis using tag_of_hart [OF s, of "0x1234" Load] s
      by (simp add: translate_def Let_def paged_mode [simplified] i)
  qed
  ultimately show ?thesis by blast
qed

end
