(* ===== verification/Elf.thy ===== *)
theory Elf
  imports Prelude
begin

text \<open>
  The ELF64 loader of \<open>crates/rv64-linux/src/elf.rs\<close>. The state is the guest memory, a byte
  list whose index is the guest address; a slice out of range is a panic, a refused image an
  error value. \<open>usize\<close> is 64 bits wide, as on the native host, and the sums wrap as the
  release profile compiles them.
\<close>

section \<open>Data\<close>

datatype elf_error = NotElf | Not64Bit | NotRiscv | NotExecutable | Truncated
  | SegmentOutOfRange u64 u64

record loaded_elf =
  le_entry :: u64
  le_phdr_addr :: u64
  le_phent :: u64
  le_phnum :: u64
  le_brk_start :: u64
  le_bias :: u64

definition ET_EXEC :: u16 where "ET_EXEC = 2"
definition ET_DYN :: u16 where "ET_DYN = 3"
definition PT_LOAD :: u32 where "PT_LOAD = 1"
definition EM_RISCV :: u16 where "EM_RISCV = 243"
definition PIE_BASE :: u64 where "PIE_BASE = 0x400000"

section \<open>Reading and copying\<close>

definition read_le :: "nat \<Rightarrow> u8 list \<Rightarrow> u64 \<Rightarrow> ('s, 'e, 'a::len word) res" where
  "read_le n b off = mbind (unwrap (sub_range b off (off + of_nat n))) (\<lambda>bs. mret (from_le_bytes bs))"

definition r16 :: "u8 list \<Rightarrow> u64 \<Rightarrow> ('s, 'e, u16) res" where
  "r16 b off = read_le 2 b off"

definition r32 :: "u8 list \<Rightarrow> u64 \<Rightarrow> ('s, 'e, u32) res" where
  "r32 b off = read_le 4 b off"

definition r64 :: "u8 list \<Rightarrow> u64 \<Rightarrow> ('s, 'e, u64) res" where
  "r64 b off = read_le 8 b off"

text \<open>\<open>mem[i..j].copy_from_slice(ys)\<close>\<close>

definition copy_in :: "u64 \<Rightarrow> u64 \<Rightarrow> u8 list \<Rightarrow> (u8 list, elf_error, unit) res" where
  "copy_in i j ys = mbind (mget (\<lambda>mem. set_range mem i j ys)) (\<lambda>r.
     mbind (unwrap r) (\<lambda>mem. mmod (\<lambda>_. mem)))"

section \<open>Loading\<close>

text \<open>One program header: the loop body of \<open>load\<close>, with its two running variables.\<close>

definition load_segment :: "u8 list \<Rightarrow> u64 \<Rightarrow> u64 \<Rightarrow> u64 \<Rightarrow> u64 \<times> u64 \<Rightarrow> (u8 list, elf_error, u64 \<times> u64) res" where
  "load_segment elf bias e_phoff off = (\<lambda>(brk_start, phdr_addr).
     if unat (off + 56) > length elf then throw Truncated
     else
       mbind (r32 elf off) (\<lambda>p_type.
       mbind (r64 elf (off + 8)) (\<lambda>p_offset.
       mbind (r64 elf (off + 16)) (\<lambda>v.
       mbind (r64 elf (off + 32)) (\<lambda>p_filesz.
       mbind (r64 elf (off + 40)) (\<lambda>p_memsz.
       let p_vaddr = v + bias in
       if p_type \<noteq> PT_LOAD then mret (brk_start, phdr_addr)
       else if unat p_vaddr + unat p_memsz \<ge> 2 ^ 64 then throw (SegmentOutOfRange p_vaddr p_memsz)
       else
         let fin = p_vaddr + p_memsz in
         mbind (mget length) (\<lambda>len.
         if unat fin > len then throw (SegmentOutOfRange p_vaddr p_memsz)
         else if unat (p_offset + p_filesz) > length elf then throw Truncated
         else
           mbind (unwrap (sub_range elf p_offset (p_offset + p_filesz))) (\<lambda>src.
           mbind (copy_in p_vaddr (p_vaddr + p_filesz) src) (\<lambda>_.
           mret (max brk_start fin,
             if p_offset \<le> e_phoff \<and> e_phoff < p_offset + p_filesz
             then p_vaddr + (e_phoff - p_offset) else phdr_addr))))))))))"

primrec load_segments :: "u8 list \<Rightarrow> u64 \<Rightarrow> u64 \<Rightarrow> u64 \<Rightarrow> nat list \<Rightarrow> u64 \<times> u64 \<Rightarrow>
    (u8 list, elf_error, u64 \<times> u64) res" where
  "load_segments elf bias e_phoff e_phentsize [] acc = mret acc"
| "load_segments elf bias e_phoff e_phentsize (i # is) acc =
     mbind (load_segment elf bias e_phoff (e_phoff + of_nat i * e_phentsize) acc)
       (load_segments elf bias e_phoff e_phentsize is)"

text \<open>The copy of the program headers when no segment covers them.\<close>

definition place_phdrs :: "u8 list \<Rightarrow> u64 \<Rightarrow> u64 \<Rightarrow> u64 \<times> u64 \<Rightarrow> (u8 list, elf_error, u64 \<times> u64) res" where
  "place_phdrs elf e_phoff sz = (\<lambda>(brk_start, phdr_addr).
     if phdr_addr = 0 then
       mbind (unwrap (sub_range elf e_phoff (e_phoff + sz))) (\<lambda>src.
       mbind (copy_in brk_start (brk_start + sz) src) (\<lambda>_. mret (brk_start + sz, brk_start)))
     else mret (brk_start, phdr_addr))"

definition load_elf :: "u8 list \<Rightarrow> (u8 list, elf_error, loaded_elf) res" where
  "load_elf elf =
     (if length elf < 64 then throw Truncated
      else if take 4 elf \<noteq> [0x7f, 0x45, 0x4c, 0x46] then throw NotElf
      else if elf ! 4 \<noteq> 2 then throw Not64Bit
      else
        mbind (r16 elf 16) (\<lambda>e_type.
        mbind (r16 elf 18) (\<lambda>machine.
        if machine \<noteq> EM_RISCV then throw NotRiscv
        else if e_type \<noteq> ET_EXEC \<and> e_type \<noteq> ET_DYN then throw NotExecutable
        else
          let bias = (if e_type = ET_DYN then PIE_BASE else 0) in
          mbind (r64 elf 24) (\<lambda>e_entry.
          mbind (r64 elf 32) (\<lambda>e_phoff.
          mbind (r16 elf 54) (\<lambda>phentsize.
          mbind (r16 elf 56) (\<lambda>phnum.
          let e_phentsize = (ucast phentsize :: u64); e_phnum = (ucast phnum :: u64) in
          mbind (load_segments elf bias e_phoff e_phentsize [0..<unat e_phnum] (0, 0)) (\<lambda>acc.
          mbind (place_phdrs elf e_phoff (e_phentsize * e_phnum) acc) (\<lambda>(brk_start, phdr_addr).
          mret \<lparr>le_entry = e_entry + bias, le_phdr_addr = phdr_addr, le_phent = e_phentsize,
            le_phnum = e_phnum, le_brk_start = (brk_start + 0xfff) AND NOT 0xfff,
            le_bias = bias\<rparr>)))))))))"

end
