(* ===== verification/Linux.thy ===== *)
theory Linux
  imports Elf Run
begin

text \<open>
  The user-mode Linux personality of \<open>crates/rv64-linux\<close>: the machine of \<open>lib.rs\<close> with its
  initial process stack and its run loop, and the system calls of \<open>syscall.rs\<close>. The host
  behind the \<open>Host\<close> trait is a record of operations over a state of its own.
\<close>

section \<open>Host\<close>

record 'h host_ops =
  write_out :: "i32 \<Rightarrow> u8 list \<Rightarrow> 'h \<Rightarrow> 'h"
  clock_ns :: "'h \<Rightarrow> u64 \<times> 'h"
  random :: "u8 list \<Rightarrow> 'h \<Rightarrow> u8 list \<times> 'h"

definition default_clock_ns :: "'h \<Rightarrow> u64 \<times> 'h" where
  "default_clock_ns h = (0, h)"

definition default_random :: "u8 list \<Rightarrow> 'h \<Rightarrow> u8 list \<times> 'h" where
  "default_random buf h = (replicate (length buf) 0x5a, h)"

section \<open>Machine\<close>

record linux_machine =
  mc_cpu :: cpu
  mc_mem :: "u8 list"
  mc_brk :: u64
  mc_brk_start :: u64
  mc_mmap_top :: u64
  mc_exit_code :: "i32 option"
  mc_icache_flush_pending :: bool

type_synonym ('h, 'a) linuxm = "(linux_machine \<times> 'h, elf_error, 'a) res"

definition getm :: "(linux_machine \<Rightarrow> 'a) \<Rightarrow> ('h, 'a) linuxm" where
  "getm f = mget (\<lambda>s. f (fst s))"

definition modm :: "(linux_machine \<Rightarrow> linux_machine) \<Rightarrow> ('h, unit) linuxm" where
  "modm f = mmod (\<lambda>(m, h). (f m, h))"

definition onmem :: "(u8 list, elf_error, 'a) res \<Rightarrow> ('h, 'a) linuxm" where
  "onmem f = (\<lambda>(m, h). case f (mc_mem m) of (r, mem) \<Rightarrow> (r, (m\<lparr>mc_mem := mem\<rparr>, h)))"

definition onhost :: "('h \<Rightarrow> 'a \<times> 'h) \<Rightarrow> ('h, 'a) linuxm" where
  "onhost f = (\<lambda>(m, h). case f h of (a, h') \<Rightarrow> (Inr a, (m, h')))"

section \<open>System calls\<close>

datatype sysno = SYS_GETCWD | SYS_FCNTL | SYS_IOCTL | SYS_UNLINKAT | SYS_FACCESSAT | SYS_OPENAT
  | SYS_CLOSE | SYS_LSEEK | SYS_READ | SYS_WRITE | SYS_READV | SYS_WRITEV | SYS_PPOLL
  | SYS_READLINKAT | SYS_NEWFSTATAT | SYS_FSTAT | SYS_EXIT | SYS_EXIT_GROUP
  | SYS_SET_TID_ADDRESS | SYS_FUTEX | SYS_SET_ROBUST_LIST | SYS_CLOCK_GETTIME
  | SYS_SCHED_GETAFFINITY | SYS_SIGALTSTACK | SYS_RT_SIGACTION | SYS_RT_SIGPROCMASK | SYS_UNAME
  | SYS_GETRUSAGE | SYS_GETTIMEOFDAY | SYS_GETPID | SYS_GETPPID | SYS_GETUID | SYS_GETEUID
  | SYS_GETGID | SYS_GETEGID | SYS_GETTID | SYS_BRK | SYS_MUNMAP | SYS_MREMAP | SYS_MMAP
  | SYS_MPROTECT | SYS_MADVISE | SYS_PRLIMIT64 | SYS_GETRANDOM | SYS_RSEQ
  | SYS_RISCV_FLUSH_ICACHE

definition sys_table :: "(u64 \<times> sysno) list" where
  "sys_table = [(17, SYS_GETCWD), (25, SYS_FCNTL), (29, SYS_IOCTL), (35, SYS_UNLINKAT),
     (48, SYS_FACCESSAT), (56, SYS_OPENAT), (57, SYS_CLOSE), (62, SYS_LSEEK), (63, SYS_READ),
     (64, SYS_WRITE), (65, SYS_READV), (66, SYS_WRITEV), (73, SYS_PPOLL), (78, SYS_READLINKAT),
     (79, SYS_NEWFSTATAT), (80, SYS_FSTAT), (93, SYS_EXIT), (94, SYS_EXIT_GROUP),
     (96, SYS_SET_TID_ADDRESS), (98, SYS_FUTEX), (99, SYS_SET_ROBUST_LIST),
     (113, SYS_CLOCK_GETTIME), (123, SYS_SCHED_GETAFFINITY), (132, SYS_SIGALTSTACK),
     (134, SYS_RT_SIGACTION), (135, SYS_RT_SIGPROCMASK), (160, SYS_UNAME), (165, SYS_GETRUSAGE),
     (169, SYS_GETTIMEOFDAY), (172, SYS_GETPID), (173, SYS_GETPPID), (174, SYS_GETUID),
     (175, SYS_GETEUID), (176, SYS_GETGID), (177, SYS_GETEGID), (178, SYS_GETTID),
     (214, SYS_BRK), (215, SYS_MUNMAP), (216, SYS_MREMAP), (222, SYS_MMAP), (226, SYS_MPROTECT),
     (233, SYS_MADVISE), (261, SYS_PRLIMIT64), (278, SYS_GETRANDOM), (293, SYS_RSEQ),
     (259, SYS_RISCV_FLUSH_ICACHE)]"

definition ENOSYS :: i64 where "ENOSYS = - 38"
definition EBADF :: i64 where "EBADF = - 9"
definition EINVAL :: i64 where "EINVAL = - 22"
definition ENOENT :: i64 where "ENOENT = - 2"
definition ENOMEM :: i64 where "ENOMEM = - 12"
definition PAGE :: u64 where "PAGE = 4096"

definition read_u64 :: "u64 \<Rightarrow> ('h, u64) linuxm" where
  "read_u64 addr = mbind (getm mc_mem) (\<lambda>mem. read_le 8 mem addr)"

definition write_u64 :: "u64 \<Rightarrow> u64 \<Rightarrow> ('h, unit) linuxm" where
  "write_u64 addr v = onmem (copy_in addr (addr + 8) (to_le_bytes 8 v))"

definition sys_write :: "'h host_ops \<Rightarrow> i32 \<Rightarrow> u64 \<Rightarrow> u64 \<Rightarrow> ('h, i64) linuxm" where
  "sys_write H fd buf len =
     (if \<not> (1 \<le> sint fd \<and> sint fd \<le> 2) then mret EBADF
      else
        mbind (getm mc_mem) (\<lambda>mem.
        if unat (buf + len) > length mem then mret EINVAL
        else
          mbind (unwrap (sub_range mem buf (buf + len))) (\<lambda>bytes.
          mbind (onhost (\<lambda>h. ((), write_out H fd bytes h))) (\<lambda>_. mret len))))"

text \<open>The loop of \<open>writev\<close>: the remaining count, the current index and the running total.\<close>

primrec writev_loop :: "'h host_ops \<Rightarrow> i32 \<Rightarrow> u64 \<Rightarrow> nat \<Rightarrow> u64 \<Rightarrow> i64 \<Rightarrow> ('h, i64) linuxm" where
  "writev_loop H fd iov 0 i tot = mret tot"
| "writev_loop H fd iov (Suc k) i tot =
     mbind (read_u64 (iov + i * 16)) (\<lambda>base.
     mbind (read_u64 (iov + i * 16 + 8)) (\<lambda>len.
     mbind (sys_write H fd base len) (\<lambda>n.
     if slt n 0 then mret n
     else
       let tot = tot + n in
       if n < len then mret tot else writev_loop H fd iov k (i + 1) tot)))"

definition sys_brk :: "u64 \<Rightarrow> ('h, i64) linuxm" where
  "sys_brk req =
     mbind (modm (\<lambda>m. if mc_brk_start m \<le> req \<and> req < mc_mmap_top m then m\<lparr>mc_brk := req\<rparr> else m)) (\<lambda>_.
     getm mc_brk)"

definition sys_mmap :: "u64 \<Rightarrow> u64 \<Rightarrow> ('h, i64) linuxm" where
  "sys_mmap addr sz =
     (let len = (sz + PAGE - 1) AND NOT (PAGE - 1) in
      if len = 0 then mret EINVAL
      else if addr \<noteq> 0 then mret addr
      else
        mbind (getm id) (\<lambda>m.
        if mc_mmap_top m - len \<le> mc_brk m then mret ENOMEM
        else
          mbind (modm (\<lambda>m. m\<lparr>mc_mmap_top := mc_mmap_top m - len\<rparr>)) (\<lambda>_.
          mbind (getm mc_mmap_top) (\<lambda>top.
          mbind (onmem (copy_in top (top + len) (replicate (unat len) 0))) (\<lambda>_. mret top)))))"

definition sys_clock :: "'h host_ops \<Rightarrow> u64 \<Rightarrow> u64 \<Rightarrow> ('h, i64) linuxm" where
  "sys_clock H addr per =
     mbind (onhost (clock_ns H)) (\<lambda>ns.
     mbind (write_u64 addr (ns div 1000000000)) (\<lambda>_.
     mbind (write_u64 (addr + 8) (ns mod 1000000000 div per)) (\<lambda>_. mret 0)))"

definition sys_getrandom :: "'h host_ops \<Rightarrow> u64 \<Rightarrow> u64 \<Rightarrow> ('h, i64) linuxm" where
  "sys_getrandom H buf n =
     (let len = min n 256 in
      mbind (onhost (random H (replicate (unat len) 0))) (\<lambda>tmp.
      mbind (onmem (copy_in buf (buf + len) tmp)) (\<lambda>_. mret len)))"

text \<open>The fields of \<open>struct utsname\<close> the call fills, as bytes.\<close>

definition uts_fields :: "u8 list list" where
  "uts_fields = map (map (\<lambda>ch. of_nat (of_char ch))) [''Linux'', ''rv64js'', ''6.1.0'', ''#1 rv64.js'', ''riscv64'']"

primrec put_uts :: "u64 \<Rightarrow> nat \<Rightarrow> u8 list list \<Rightarrow> (u8 list, elf_error, unit) res" where
  "put_uts base i [] = mret ()"
| "put_uts base i (s # ss) =
     mbind (copy_in (base + of_nat i * 65) (base + of_nat i * 65 + of_nat (length s)) s) (\<lambda>_.
     put_uts base (Suc i) ss)"

definition sys_uname :: "u64 \<Rightarrow> ('h, i64) linuxm" where
  "sys_uname base =
     mbind (onmem (copy_in base (base + 390) (replicate 390 0))) (\<lambda>_.
     mbind (onmem (put_uts base 0 uts_fields)) (\<lambda>_. mret 0))"

definition sys_getcwd :: "u64 \<Rightarrow> u64 \<Rightarrow> ('h, i64) linuxm" where
  "sys_getcwd base sz =
     (if sz < 2 then mret EINVAL
      else mbind (onmem (copy_in base (base + 2) [0x2f, 0])) (\<lambda>_. mret base))"

definition sys_fstat :: "u64 \<Rightarrow> ('h, i64) linuxm" where
  "sys_fstat base =
     mbind (onmem (copy_in base (base + 128) (replicate 128 0))) (\<lambda>_.
     mbind (onmem (copy_in (base + 16) (base + 20) (to_le_bytes 4 (8592 :: u32)))) (\<lambda>_. mret 0))"

text \<open>The calls that return, by name: the \<open>match\<close> of \<open>handle\<close> past the exit arm. The last
  equation covers the calls answered with 0 (\<open>handle\<close> has taken the two exits before).\<close>

fun dispatch :: "'h host_ops \<Rightarrow> sysno \<Rightarrow> u64 \<Rightarrow> u64 \<Rightarrow> u64 \<Rightarrow> ('h, i64) linuxm" where
  "dispatch H SYS_WRITE a0 a1 a2 = sys_write H (ucast a0) a1 a2"
| "dispatch H SYS_WRITEV a0 a1 a2 = writev_loop H (ucast a0) a1 (min (unat a2) 64) 0 0"
| "dispatch H SYS_READ a0 a1 a2 = mret 0"
| "dispatch H SYS_READV a0 a1 a2 = mret 0"
| "dispatch H SYS_PPOLL a0 a1 a2 = mret 0"
| "dispatch H SYS_BRK a0 a1 a2 = sys_brk a0"
| "dispatch H SYS_MMAP a0 a1 a2 = sys_mmap a0 a1"
| "dispatch H SYS_RISCV_FLUSH_ICACHE a0 a1 a2 =
     mbind (modm (\<lambda>m. m\<lparr>mc_icache_flush_pending := True\<rparr>)) (\<lambda>_. mret 0)"
| "dispatch H SYS_MUNMAP a0 a1 a2 = mret 0"
| "dispatch H SYS_MPROTECT a0 a1 a2 = mret 0"
| "dispatch H SYS_MADVISE a0 a1 a2 = mret 0"
| "dispatch H SYS_MREMAP a0 a1 a2 = mret ENOMEM"
| "dispatch H SYS_CLOCK_GETTIME a0 a1 a2 = sys_clock H a1 1"
| "dispatch H SYS_GETTIMEOFDAY a0 a1 a2 = sys_clock H a0 1000"
| "dispatch H SYS_GETRANDOM a0 a1 a2 = sys_getrandom H a0 a1"
| "dispatch H SYS_UNAME a0 a1 a2 = sys_uname a0"
| "dispatch H SYS_GETCWD a0 a1 a2 = sys_getcwd a0 a1"
| "dispatch H SYS_FSTAT a0 a1 a2 = sys_fstat a1"
| "dispatch H SYS_NEWFSTATAT a0 a1 a2 = sys_fstat a2"
| "dispatch H SYS_CLOSE a0 a1 a2 = mret (if sint (ucast a0 :: i32) \<le> 2 then 0 else EBADF)"
| "dispatch H SYS_LSEEK a0 a1 a2 = mret (if sint (ucast a0 :: i32) \<le> 2 then 0 else EBADF)"
| "dispatch H SYS_OPENAT a0 a1 a2 = mret ENOENT"
| "dispatch H SYS_FACCESSAT a0 a1 a2 = mret ENOENT"
| "dispatch H SYS_UNLINKAT a0 a1 a2 = mret ENOENT"
| "dispatch H SYS_READLINKAT a0 a1 a2 = mret ENOENT"
| "dispatch H SYS_SET_TID_ADDRESS a0 a1 a2 = mret 42"
| "dispatch H SYS_GETTID a0 a1 a2 = mret 42"
| "dispatch H SYS_GETPID a0 a1 a2 = mret 42"
| "dispatch H SYS_GETPPID a0 a1 a2 = mret 1"
| "dispatch H SYS_GETUID a0 a1 a2 = mret 1000"
| "dispatch H SYS_GETEUID a0 a1 a2 = mret 1000"
| "dispatch H SYS_GETGID a0 a1 a2 = mret 1000"
| "dispatch H SYS_GETEGID a0 a1 a2 = mret 1000"
| "dispatch H SYS_SCHED_GETAFFINITY a0 a1 a2 =
     (if 8 \<le> a1 then mbind (write_u64 a2 1) (\<lambda>_. mret 8) else mret EINVAL)"
| "dispatch H _ a0 a1 a2 = mret 0"

definition handle :: "'h host_ops \<Rightarrow> ('h, i32 option) linuxm" where
  "handle H =
     mbind (getm (\<lambda>m. xreg (mc_cpu m))) (\<lambda>x.
     let nr = map_of sys_table (x 17) in
     if nr = Some SYS_EXIT \<or> nr = Some SYS_EXIT_GROUP then mret (Some (ucast (x 10)))
     else
       mbind (case nr of None \<Rightarrow> mret ENOSYS | Some n \<Rightarrow> dispatch H n (x 10) (x 11) (x 12)) (\<lambda>ret.
       mbind (modm (\<lambda>m. m\<lparr>mc_cpu := set_x 10 ret (mc_cpu m)\<rparr>)) (\<lambda>_. mret None)))"

section \<open>Initial process stack\<close>

text \<open>\<open>push_bytes\<close>, and the two \<open>map\<close>s over the argument and environment strings.\<close>

definition push_bytes :: "u64 \<Rightarrow> u8 list \<Rightarrow> (u8 list, elf_error, u64) res" where
  "push_bytes pos bytes =
     (let pos = pos - (of_nat (length bytes) + 1) in
      mbind (copy_in pos (pos + of_nat (length bytes)) bytes) (\<lambda>_.
      mbind (copy_in (pos + of_nat (length bytes)) (pos + of_nat (length bytes) + 1) [0]) (\<lambda>_.
      mret pos)))"

primrec push_all :: "u64 \<Rightarrow> u8 list list \<Rightarrow> (u8 list, elf_error, u64 list \<times> u64) res" where
  "push_all pos [] = mret ([], pos)"
| "push_all pos (s # ss) =
     mbind (push_bytes pos s) (\<lambda>p.
     mbind (push_all p ss) (\<lambda>(ps, pos). mret (p # ps, pos)))"

text \<open>\<open>put\<close>, for a list of words.\<close>

primrec put_words :: "u64 \<Rightarrow> u64 list \<Rightarrow> (u8 list, elf_error, unit) res" where
  "put_words w [] = mret ()"
| "put_words w (v # vs) =
     mbind (copy_in w (w + 8) (to_le_bytes 8 v)) (\<lambda>_. put_words (w + 8) vs)"

definition auxv :: "loaded_elf \<Rightarrow> u64 \<Rightarrow> (u64 \<times> u64) list" where
  "auxv loaded at_random =
     [(3, le_phdr_addr loaded), (4, le_phent loaded), (5, le_phnum loaded), (6, 4096), (7, 0), (8, 0),
      (9, le_entry loaded), (11, 1000), (12, 1000), (13, 1000), (14, 1000), (16, 0x20112d), (17, 100),
      (23, 0), (25, at_random), (0, 0)]"

definition stack_words :: "u64 list \<Rightarrow> u64 list \<Rightarrow> (u64 \<times> u64) list \<Rightarrow> u64 list" where
  "stack_words argv_ptrs envp_ptrs av =
     of_nat (length argv_ptrs) # argv_ptrs @ 0 # envp_ptrs @ 0 # concat (map (\<lambda>(k, v). [k, v]) av)"

definition setup_stack :: "'h host_ops \<Rightarrow> u64 \<Rightarrow> u8 list list \<Rightarrow> u8 list list \<Rightarrow> loaded_elf \<Rightarrow>
    ('h, unit) linuxm" where
  "setup_stack H stack_top argv envp loaded =
     mbind (onmem (push_all stack_top argv)) (\<lambda>(argv_ptrs, pos).
     mbind (onmem (push_all pos envp)) (\<lambda>(envp_ptrs, pos).
     mbind (onhost (random H (replicate 16 0))) (\<lambda>rnd.
     let pos = pos - 16; at_random = pos in
     mbind (onmem (copy_in pos (pos + 16) rnd)) (\<lambda>_.
     let av = auxv loaded at_random;
         words = 1 + length argv_ptrs + 1 + length envp_ptrs + 1 + length av * 2;
         pos = pos AND NOT 15;
         sp = (pos - of_nat words * 8) AND NOT 15 in
     mbind (onmem (put_words sp (stack_words argv_ptrs envp_ptrs av))) (\<lambda>_.
     modm (\<lambda>m. m\<lparr>mc_cpu := set_x 2 sp (mc_cpu m)\<rparr>))))))"

definition STACK_SIZE :: u64 where "STACK_SIZE = push_bit 20 8"

definition machine_load :: "'h host_ops \<Rightarrow> u8 list \<Rightarrow> u8 list list \<Rightarrow> u8 list list \<Rightarrow> nat \<Rightarrow> 'h \<Rightarrow>
    (elf_error abort + linux_machine) \<times> 'h" where
  "machine_load H elf argv envp mem_size h =
     (case load_elf elf (replicate mem_size 0) of
       (Inl e, _) \<Rightarrow> (Inl e, h)
     | (Inr loaded, mem) \<Rightarrow>
         let m = \<lparr>mc_cpu = cpu_new\<lparr>pcr := le_entry loaded\<rparr>, mc_mem = mem,
               mc_brk = le_brk_start loaded, mc_brk_start = le_brk_start loaded,
               mc_mmap_top = of_nat mem_size - STACK_SIZE, mc_exit_code = None,
               mc_icache_flush_pending = False\<rparr> in
         case setup_stack H (of_nat mem_size - 16) argv envp loaded (m, h) of
           (Inl e, (_, h')) \<Rightarrow> (Inl e, h')
         | (Inr _, (m', h')) \<Rightarrow> (Inr m', h'))"

section \<open>Running\<close>

datatype run_result = Exited i32 | OutOfBudget | Trapped exn

text \<open>One slice on the hart, over the machine's memory at base 0. The hart's loop raises nothing.\<close>

definition run_slice :: "u64 \<Rightarrow> ('h, stop_reason) linuxm" where
  "run_slice n = (\<lambda>(m, h).
     case run flat_bus n (mc_cpu m, flat_new 0 (mc_mem m)) of
       (r, (c, b)) \<Rightarrow> (case r of Inl _ \<Rightarrow> Inl Panic | Inr stop \<Rightarrow> Inr stop,
         (m\<lparr>mc_cpu := c, mc_mem := fm_mem b\<rparr>, h)))"

text \<open>
  The loop of \<open>Machine::run\<close>. It returns when the program exits, traps or uses its budget; a
  stop for a system call does not consume budget, so the number of iterations is bounded by
  \<open>fuel\<close> and \<open>None\<close> is a loop that has not returned yet.
\<close>

primrec machine_loop :: "'h host_ops \<Rightarrow> nat \<Rightarrow> u64 \<Rightarrow>
    ('h, run_result option) linuxm" where
  "machine_loop H 0 remaining = mret None"
| "machine_loop H (Suc fuel) remaining =
     (let part = min remaining 1000000 in
      mbind (run_slice part) (\<lambda>stop.
      case stop of
        Budget \<Rightarrow>
          let remaining = (if part \<le> remaining then remaining - part else 0) in
          if remaining = 0 then mret (Some OutOfBudget) else machine_loop H fuel remaining
      | Ecall \<Rightarrow>
          mbind (handle H) (\<lambda>code.
          case code of
            Some code \<Rightarrow>
              mbind (modm (\<lambda>m. m\<lparr>mc_exit_code := Some code\<rparr>)) (\<lambda>_. mret (Some (Exited code)))
          | None \<Rightarrow> machine_loop H fuel remaining)
      | Break \<Rightarrow> mret (Some (Exited 133))
      | Trap e \<Rightarrow> mret (Some (Trapped e))
      | Wfi \<Rightarrow> panic))"

end
