(* ===== verification/ElfCorrect.thy ===== *)
theory ElfCorrect
  imports Elf
begin

text \<open>
  Correctness of the ELF loader: when it accepts an image whose loadable segments do not overlap,
  every segment is in memory as the file has it, the rest of the segment and of the memory is
  untouched, and the initial break is page-aligned above them all.
\<close>

section \<open>Copies\<close>

lemma bind_unwrap [simp]: "mbind (unwrap (Some x)) g = g x" "mbind (unwrap None) g = panic"
  by (simp_all add: unwrap_def)

lemma copy_in_run:
  assumes "length mem < 2 ^ 63" and "unat i + length ys \<le> length mem" and "j = i + of_nat (length ys)"
  shows "copy_in i j ys mem = (Inr (), overlay mem (unat i) ys)"
proof -
  have "unat j = unat i + length ys" using assms by (simp add: unat_add_wrap)
  with assms(2) show ?thesis
    by (simp add: copy_in_def unwrap_def overlay_def set_range_nat [OF refl])
qed

lemma set_range_length: "set_range xs i j ys = Some zs \<Longrightarrow> length zs = length xs"
  by (auto simp: set_range_def split: if_splits)

lemma copy_in_length: "copy_in i j ys mem = (r, mem') \<Longrightarrow> length mem' = length mem"
  by (auto simp: copy_in_def unwrap_def mbind_def set_range_length split: option.splits if_splits)

lemma copy_in_Inr: "copy_in i j ys mem = (Inr (), mem') \<Longrightarrow> unat i \<le> unat j \<and> unat j \<le> length mem"
  by (auto simp: copy_in_def unwrap_def mbind_def set_range_def split: option.splits if_splits)

section \<open>Program headers\<close>

definition le_at :: "u8 list \<Rightarrow> u64 \<Rightarrow> nat \<Rightarrow> 'a::len word" where
  "le_at b off n = from_le_bytes (bytes_at b (unat off) n)"

record phdr =
  ph_type :: u32
  ph_offset :: u64
  ph_vaddr :: u64
  ph_filesz :: u64
  ph_memsz :: u64

definition phdr_at :: "u8 list \<Rightarrow> u64 \<Rightarrow> u64 \<Rightarrow> phdr" where
  "phdr_at elf bias off = \<lparr>ph_type = le_at elf off 4, ph_offset = le_at elf (off + 8) 8,
     ph_vaddr = le_at elf (off + 16) 8 + bias, ph_filesz = le_at elf (off + 32) 8, ph_memsz = le_at elf (off + 40) 8\<rparr>"

definition ph_bytes :: "u8 list \<Rightarrow> phdr \<Rightarrow> u8 list" where
  "ph_bytes elf h = bytes_at elf (unat (ph_offset h)) (unat (ph_filesz h))"

lemma read_le_Inr: "read_le n b off s = (Inr v, s') \<Longrightarrow> n < 2 ^ 63 \<Longrightarrow> v = le_at b off n \<and> s' = s"
  by (auto simp: read_le_def le_at_def sub_range_def bytes_at_def unat_add_wrap unwrap_def mbind_def
      split: option.splits if_splits)

lemma unwrap_Inr: "unwrap v s = (Inr x, s') \<Longrightarrow> v = Some x \<and> s' = s"
  by (auto simp: unwrap_def split: option.splits)

lemma copy_in_inv:
  assumes "copy_in i j ys mem = (Inr (), mem')"
  shows "mem' = overlay mem (unat i) ys \<and> unat i + length ys \<le> length mem \<and> unat j = unat i + length ys"
proof -
  have c: "unat i \<le> unat j" "unat j \<le> length mem" "unat j - unat i = length ys"
    and m: "mem' = take (unat i) mem @ ys @ drop (unat j) mem"
    using assms by (auto simp: copy_in_def unwrap_def mbind_def set_range_def split: option.splits if_splits)
  from c have "unat j = unat i + length ys" by simp
  with c m show ?thesis by (simp add: overlay_def)
qed

lemma bind_read_Inr: "mbind (read_le n b off) g s = (Inr r, s') \<Longrightarrow> n < 2 ^ 63 \<Longrightarrow> g (le_at b off n) s = (Inr r, s')"
  by (auto dest!: mbind_Inr_elim read_le_Inr)

lemma sub_range_inv: "sub_range xs i j = Some ys \<Longrightarrow>
    unat i \<le> unat j \<and> unat j \<le> length xs \<and> ys = bytes_at xs (unat i) (unat j - unat i)"
  by (auto simp: sub_range_def bytes_at_def split: if_splits)

definition seg_result :: "u8 list \<Rightarrow> phdr \<Rightarrow> u64 \<Rightarrow> u8 list \<Rightarrow> u64 \<Rightarrow> u8 list \<Rightarrow> bool" where
  "seg_result elf h b mem b' mem' \<longleftrightarrow>
     (if ph_type h \<noteq> PT_LOAD then b' = b \<and> mem' = mem
      else mem' = overlay mem (unat (ph_vaddr h)) (ph_bytes elf h) \<and>
        length (ph_bytes elf h) = unat (ph_filesz h) \<and>
        unat (ph_vaddr h) + unat (ph_filesz h) \<le> length mem \<and>
        unat (ph_vaddr h) + unat (ph_memsz h) \<le> length mem \<and>
        unat b' = max (unat b) (unat (ph_vaddr h) + unat (ph_memsz h)))"

lemma load_segment_inv:
  assumes r: "load_segment elf bias phoff off (b, p) mem = (Inr (b', p'), mem')" and l: "length mem < 2 ^ 63"
  shows "seg_result elf (phdr_at elf bias off) b mem b' mem'"
proof -
  let ?h = "phdr_at elf bias off"
  let ?va = "ph_vaddr ?h" and ?fs = "ph_filesz ?h" and ?ms = "ph_memsz ?h" and ?po = "ph_offset ?h"
  have body: "(if ph_type ?h \<noteq> PT_LOAD then mret (b, p)
       else if unat ?va + unat ?ms \<ge> 2 ^ 64 then throw (SegmentOutOfRange ?va ?ms)
       else
         mbind (mget length) (\<lambda>len.
         if unat (?va + ?ms) > len then throw (SegmentOutOfRange ?va ?ms)
         else if unat (?po + ?fs) > length elf then throw Truncated
         else
           mbind (unwrap (sub_range elf ?po (?po + ?fs))) (\<lambda>src.
           mbind (copy_in ?va (?va + ?fs) src) (\<lambda>_.
           mret (max b (?va + ?ms),
             if ?po \<le> phoff \<and> phoff < ?po + ?fs then ?va + (phoff - ?po) else p))))) mem = (Inr (b', p'), mem')"
    using r unfolding load_segment_def r32_def r64_def prod.case Let_def phdr_at_def phdr.simps
    by (auto dest!: bind_read_Inr split: if_splits)
  show ?thesis
  proof (cases "ph_type ?h = PT_LOAD")
    case False
    with body show ?thesis by (simp add: seg_result_def)
  next
    case True
    with body have sz: "unat ?va + unat ?ms < 2 ^ 64" "unat (?va + ?ms) \<le> length mem" "unat (?po + ?fs) \<le> length elf"
      and c: "mbind (unwrap (sub_range elf ?po (?po + ?fs))) (\<lambda>src.
           mbind (copy_in ?va (?va + ?fs) src) (\<lambda>_.
           mret (max b (?va + ?ms),
             if ?po \<le> phoff \<and> phoff < ?po + ?fs then ?va + (phoff - ?po) else p))) mem = (Inr (b', p'), mem')"
      by (auto split: if_splits)
    from c obtain src where src: "sub_range elf ?po (?po + ?fs) = Some src"
      and cp: "copy_in ?va (?va + ?fs) src mem = (Inr (), mem')" and b': "b' = max b (?va + ?ms)"
      by (auto dest!: mbind_Inr_elim unwrap_Inr)
    have ms: "unat (?va + ?ms) = unat ?va + unat ?ms" using sz(1) by (simp add: unat_sum)
    note s = sub_range_inv [OF src] and m = copy_in_inv [OF cp]
    have "unat (?po + ?fs) = unat ?po + unat ?fs" using s unat_sum [of ?po ?fs] unat_less_2p64 [of ?fs] by (auto split: if_splits)
    with s have fs: "src = ph_bytes elf ?h" "length src = unat ?fs" by (auto simp: ph_bytes_def bytes_at_def)
    have "unat b' = max (unat b) (unat ?va + unat ?ms)" unfolding b' by (simp add: max_def word_le_nat_alt ms)
    with True fs m sz(2) ms show ?thesis by (simp add: seg_result_def)
  qed
qed

definition loads :: "phdr \<Rightarrow> bool" where
  "loads h \<longleftrightarrow> ph_type h = PT_LOAD"

definition covers :: "phdr \<Rightarrow> nat \<Rightarrow> bool" where
  "covers h k \<longleftrightarrow> unat (ph_vaddr h) \<le> k \<and> k < unat (ph_vaddr h) + unat (ph_filesz h)"

definition apart :: "phdr \<Rightarrow> phdr \<Rightarrow> bool" where
  "apart h g \<longleftrightarrow> unat (ph_vaddr h) + unat (ph_memsz h) \<le> unat (ph_vaddr g) \<or>
     unat (ph_vaddr g) + unat (ph_memsz g) \<le> unat (ph_vaddr h)"

text \<open>What the memory and the break are after the segments \<open>hs\<close> are loaded.\<close>

definition image_of :: "u8 list \<Rightarrow> phdr list \<Rightarrow> u64 \<Rightarrow> u8 list \<Rightarrow> u8 list \<Rightarrow> bool" where
  "image_of elf hs brk mem mem' \<longleftrightarrow> length mem' = length mem \<and>
     (\<forall>h\<in>set hs. loads h \<longrightarrow> length (ph_bytes elf h) = unat (ph_filesz h) \<and>
        bytes_at mem' (unat (ph_vaddr h)) (unat (ph_filesz h)) = ph_bytes elf h \<and>
        unat (ph_vaddr h) + unat (ph_memsz h) \<le> unat brk) \<and>
     (\<forall>k < length mem. (\<forall>h\<in>set hs. loads h \<longrightarrow> \<not> covers h k) \<longrightarrow> mem' ! k = mem ! k)"

lemma image_Cons:
  assumes first: "seg_result elf h b mem b1 mem1" and rest: "image_of elf hs b' mem1 mem'" "unat b1 \<le> unat b'"
    and ok: "loads h \<Longrightarrow> unat (ph_filesz h) \<le> unat (ph_memsz h)"
    "\<And>g. g \<in> set hs \<Longrightarrow> loads g \<Longrightarrow> unat (ph_filesz g) \<le> unat (ph_memsz g)"
    "\<And>g. g \<in> set hs \<Longrightarrow> loads h \<Longrightarrow> loads g \<Longrightarrow> apart h g"
  shows "image_of elf (h # hs) b' mem mem'"
proof (cases "loads h")
  case False
  with first have "mem1 = mem" by (simp add: seg_result_def loads_def)
  with rest False show ?thesis by (simp add: image_of_def)
next
  case True
  let ?va = "unat (ph_vaddr h)" and ?fs = "unat (ph_filesz h)"
  have f: "mem1 = overlay mem ?va (ph_bytes elf h)" "length (ph_bytes elf h) = ?fs" "?va + ?fs \<le> length mem"
    "?va + unat (ph_memsz h) \<le> unat b1"
    using first True by (auto simp: seg_result_def loads_def)
  have l: "length mem1 = length mem" using f by simp
  have "mem' ! k = mem1 ! k" if "?va \<le> k" "k < ?va + ?fs" for k
  proof -
    have "\<not> covers g k" if g: "g \<in> set hs" "loads g" for g
      using ok(1) [OF True] ok(2) [OF g] ok(3) [OF g(1) True g(2)] \<open>?va \<le> k\<close> \<open>k < ?va + ?fs\<close>
      by (auto simp: covers_def apart_def)
    with that f l rest(1) show ?thesis unfolding image_of_def by auto
  qed
  then have "bytes_at mem' ?va ?fs = bytes_at mem1 ?va ?fs"
    using rest(1) by (intro bytes_at_nth) (simp_all add: image_of_def)
  also have "\<dots> = ph_bytes elf h" using overlay_here [of ?va "ph_bytes elf h" mem] f by simp
  finally have "bytes_at mem' ?va ?fs = ph_bytes elf h" .
  moreover have "mem' ! k = mem ! k" if "k < length mem" "\<forall>g\<in>set (h # hs). loads g \<longrightarrow> \<not> covers g k" for k
  proof -
    have "mem1 ! k = mem ! k" using that True f by (auto simp: nth_overlay covers_def)
    with that rest(1) l show ?thesis by (auto simp: image_of_def)
  qed
  ultimately show ?thesis using rest f l by (auto simp: image_of_def)
qed

lemma load_segments_image:
  assumes "load_segments elf bias phoff phent is (b, p) mem = (Inr (b', p'), mem')" "length mem < 2 ^ 63"
    and "\<And>i. i \<in> set is \<Longrightarrow> loads (H i) \<Longrightarrow> unat (ph_filesz (H i)) \<le> unat (ph_memsz (H i))"
    and "sorted_wrt (\<lambda>i j. loads (H i) \<longrightarrow> loads (H j) \<longrightarrow> apart (H i) (H j)) is"
    and H: "H = (\<lambda>i. phdr_at elf bias (phoff + of_nat i * phent))"
  shows "image_of elf (map H is) b' mem mem' \<and> unat b \<le> unat b' \<and> unat b' \<le> max (unat b) (length mem)"
  using assms(1-4)
proof (induction "is" arbitrary: b p mem)
  case Nil
  then show ?case by (simp add: image_of_def)
next
  case (Cons i "is")
  obtain b1 p1 mem1 where 1: "load_segment elf bias phoff (phoff + of_nat i * phent) (b, p) mem = (Inr (b1, p1), mem1)"
    and 2: "load_segments elf bias phoff phent is (b1, p1) mem1 = (Inr (b', p'), mem')"
    using Cons.prems(1) by (auto dest!: mbind_Inr_elim)
  have s: "seg_result elf (H i) b mem b1 mem1" unfolding H by (rule load_segment_inv [OF 1 Cons.prems(2)])
  then have l: "length mem1 = length mem" "unat b \<le> unat b1" "unat b1 \<le> max (unat b) (length mem)"
    by (auto simp: seg_result_def split: if_splits)
  have ih: "image_of elf (map H is) b' mem1 mem' \<and> unat b1 \<le> unat b' \<and> unat b' \<le> max (unat b1) (length mem1)"
    using Cons.prems l by (intro Cons.IH [OF 2]) auto
  then have "image_of elf (H i # map H is) b' mem mem'"
    using Cons.prems(3,4) by (intro image_Cons [OF s]) auto
  with ih l show ?case by auto
qed

definition elf_bias :: "u8 list \<Rightarrow> u64" where
  "elf_bias elf = (if (le_at elf 16 2 :: u16) = ET_DYN then PIE_BASE else 0)"

definition elf_phdrs :: "u8 list \<Rightarrow> phdr list" where
  "elf_phdrs elf = map (\<lambda>i. phdr_at elf (elf_bias elf) (le_at elf 32 8 + of_nat i * ucast (le_at elf 54 2 :: u16)))
     [0..<unat (ucast (le_at elf 56 2 :: u16) :: u64)]"

lemma place_phdrs_inv:
  assumes "place_phdrs elf phoff sz (b, p) mem = (Inr (b', p'), mem')" "unat b \<le> length mem"
  shows "length mem' = length mem \<and> unat b \<le> unat b' \<and> unat b' \<le> length mem \<and>
    (\<forall>k < unat b. mem' ! k = mem ! k)"
proof (cases "p = 0")
  case False
  with assms show ?thesis by (simp add: place_phdrs_def)
next
  case True
  with assms obtain src where s: "copy_in b (b + sz) src mem = (Inr (), mem')" "b' = b + sz"
    by (auto simp: place_phdrs_def dest!: mbind_Inr_elim unwrap_Inr)
  from copy_in_inv [OF s(1)] show ?thesis by (auto simp: s(2) nth_overlay)
qed

lemma round_page: "unat b < 2 ^ 63 \<Longrightarrow> unat ((b + 0xfff) AND NOT 0xfff :: u64) = (unat b + 4095) div 4096 * 4096"
  using unat_clear_low [of "b + 0xfff" 12] unat_sum [of b "0xfff"] by (simp add: mask_eq_decr_exp)

lemma load_elf_inv:
  assumes "load_elf elf mem = (Inr le, mem')"
  shows "\<exists>b p b' p' m1. load_segments elf (elf_bias elf) (le_at elf 32 8) (ucast (le_at elf 54 2 :: u16))
      [0..<unat (ucast (le_at elf 56 2 :: u16) :: u64)] (0, 0) mem = (Inr (b, p), m1) \<and>
    place_phdrs elf (le_at elf 32 8) (ucast (le_at elf 54 2 :: u16) * ucast (le_at elf 56 2 :: u16)) (b, p) m1 =
      (Inr (b', p'), mem') \<and>
    le_entry le = le_at elf 24 8 + elf_bias elf \<and> le_phdr_addr le = p' \<and> le_brk_start le = (b' + 0xfff) AND NOT 0xfff"
  using assms unfolding load_elf_def r16_def r64_def Let_def elf_bias_def
  by (auto dest!: mbind_Inr_elim read_le_Inr split: if_splits)


lemma bss_clear:
  assumes ap: "sorted_wrt (\<lambda>h g. loads h \<longrightarrow> loads g \<longrightarrow> apart h g) hs"
    and sz: "\<And>h. h \<in> set hs \<Longrightarrow> loads h \<Longrightarrow> unat (ph_filesz h) \<le> unat (ph_memsz h)"
    and h: "h \<in> set hs" "loads h" and g: "g \<in> set hs" "loads g"
    and k: "unat (ph_vaddr h) + unat (ph_filesz h) \<le> k" "k < unat (ph_vaddr h) + unat (ph_memsz h)"
  shows "\<not> covers g k"
proof (cases "g = h")
  case True
  with k show ?thesis by (simp add: covers_def)
next
  case False
  obtain i j where ij: "i < length hs" "j < length hs" "hs ! i = h" "hs ! j = g"
    using h(1) g(1) by (metis in_set_conv_nth)
  with False have "i < j \<or> j < i" by (metis linorder_neqE_nat)
  then have "apart h g \<or> apart g h"
    using ap ij h(2) g(2) by (auto simp: sorted_wrt_iff_nth_less)
  with sz [OF h] sz [OF g] k show ?thesis by (auto simp: apart_def covers_def)
qed

text \<open>
  C33: When the loader accepts an image whose PT_LOAD segments have file sizes within their memory
  sizes and do not overlap, the entry point is the header's plus the load bias, each segment's
  file bytes are at its address, the bytes between its file size and its memory size are
  unchanged (zero in a fresh memory), the size of memory is unchanged, and the initial program
  break is page-aligned and above every segment.
\<close>

theorem load_elf_image:
  assumes r: "load_elf elf mem = (Inr le, mem')" and l: "length mem < 2 ^ 63"
    and sz: "\<And>h. h \<in> set (elf_phdrs elf) \<Longrightarrow> loads h \<Longrightarrow> unat (ph_filesz h) \<le> unat (ph_memsz h)"
    and ap: "sorted_wrt (\<lambda>h g. loads h \<longrightarrow> loads g \<longrightarrow> apart h g) (elf_phdrs elf)"
  shows "le_entry le = le_at elf 24 8 + elf_bias elf \<and> unat (le_brk_start le) mod 4096 = 0 \<and>
    length mem' = length mem \<and>
    (\<forall>h\<in>set (elf_phdrs elf). loads h \<longrightarrow>
      bytes_at mem' (unat (ph_vaddr h)) (unat (ph_filesz h)) = ph_bytes elf h \<and>
      (\<forall>k. unat (ph_vaddr h) + unat (ph_filesz h) \<le> k \<longrightarrow> k < unat (ph_vaddr h) + unat (ph_memsz h) \<longrightarrow>
         mem' ! k = mem ! k) \<and>
      unat (ph_vaddr h) + unat (ph_memsz h) \<le> unat (le_brk_start le))"
proof -
  let ?hs = "elf_phdrs elf"
  obtain b p b' p' m1 where 1: "load_segments elf (elf_bias elf) (le_at elf 32 8) (ucast (le_at elf 54 2 :: u16))
      [0..<unat (ucast (le_at elf 56 2 :: u16) :: u64)] (0, 0) mem = (Inr (b, p), m1)"
    and 2: "place_phdrs elf (le_at elf 32 8) (ucast (le_at elf 54 2 :: u16) * ucast (le_at elf 56 2 :: u16)) (b, p) m1 =
      (Inr (b', p'), mem')"
    and le: "le_entry le = le_at elf 24 8 + elf_bias elf" "le_brk_start le = (b' + 0xfff) AND NOT 0xfff"
    using load_elf_inv [OF r] by (elim exE conjE)
  have img: "image_of elf ?hs b mem m1 \<and> unat (0 :: u64) \<le> unat b \<and> unat b \<le> max (unat (0 :: u64)) (length mem)"
    unfolding elf_phdrs_def using sz ap
    by (intro load_segments_image [OF 1 l _ _ refl]) (auto simp: elf_phdrs_def sorted_wrt_map)
  then have m1: "length m1 = length mem" "unat b \<le> length m1" by (auto simp: image_of_def)
  note pl = place_phdrs_inv [OF 2 m1(2)]
  have brk: "unat (le_brk_start le) = (unat b' + 4095) div 4096 * 4096"
    unfolding le(2) using pl l m1 by (intro round_page) auto
  have ge: "unat b \<le> unat (le_brk_start le)" 
    unfolding brk using pl div_mult_mod_eq [of "unat b' + 4095" 4096] mod_less_divisor [of 4096 "unat b' + 4095"] by linarith
  have "bytes_at mem' (unat (ph_vaddr h)) (unat (ph_filesz h)) = ph_bytes elf h \<and>
      (\<forall>k. unat (ph_vaddr h) + unat (ph_filesz h) \<le> k \<longrightarrow> k < unat (ph_vaddr h) + unat (ph_memsz h) \<longrightarrow>
         mem' ! k = mem ! k) \<and> unat (ph_vaddr h) + unat (ph_memsz h) \<le> unat (le_brk_start le)"
    if h: "h \<in> set ?hs" "loads h" for h
  proof -
    have i: "bytes_at m1 (unat (ph_vaddr h)) (unat (ph_filesz h)) = ph_bytes elf h"
      "unat (ph_vaddr h) + unat (ph_memsz h) \<le> unat b" using img h by (auto simp: image_of_def)
    have "bytes_at mem' (unat (ph_vaddr h)) (unat (ph_filesz h)) = bytes_at m1 (unat (ph_vaddr h)) (unat (ph_filesz h))"
      using pl i(2) sz [OF h] by (intro bytes_at_nth) auto
    moreover have "mem' ! k = mem ! k" if k: "unat (ph_vaddr h) + unat (ph_filesz h) \<le> k"
      "k < unat (ph_vaddr h) + unat (ph_memsz h)" for k
    proof -
      have "\<not> covers g k" if g: "g \<in> set ?hs" "loads g" for g
        using bss_clear [OF ap sz h g k] .
      with img k i(2) m1 have "m1 ! k = mem ! k" by (auto simp: image_of_def)
      with pl k(2) i(2) show ?thesis by simp
    qed
    ultimately show ?thesis using i ge by auto
  qed
  with le(1) brk pl m1 show ?thesis by auto
qed

section \<open>A concrete image\<close>

definition sample_elf :: "u8 list" where
  "sample_elf =
    [127, 69, 76, 70, 2, 1, 1, 0, 0, 0, 0, 0, 0, 0, 0, 0, 2, 0, 243, 0, 1, 0, 0, 0, 120, 0, 0,
     0, 0, 0, 0, 0, 64, 0, 0, 0, 0, 0, 0, 0, 0, 0, 0, 0, 0, 0, 0, 0, 0, 0, 0, 0, 64, 0, 56, 0, 1,
     0, 0, 0, 0, 0, 0, 0, 1, 0, 0, 0, 5, 0, 0, 0, 0, 0, 0, 0, 0, 0, 0, 0, 0, 0, 0, 0, 0, 0, 0, 0,
     0, 0, 0, 0, 0, 0, 0, 0, 124, 0, 0, 0, 0, 0, 0, 0, 128, 0, 0, 0, 0, 0, 0, 0, 0, 16, 0, 0, 0,
     0, 0, 0, 115, 0, 0, 0]"



lemma sample_elf_length: "length sample_elf = 124"
  by (simp add: sample_elf_def)

lemma sample_elf_reads:
  "r16 sample_elf 16 s = (Inr 2, s)" "r16 sample_elf 18 s = (Inr 243, s)" "r64 sample_elf 24 s = (Inr 120, s)"
  "r64 sample_elf 32 s = (Inr 64, s)" "r16 sample_elf 54 s = (Inr 56, s)" "r16 sample_elf 56 s = (Inr 1, s)"
  "r32 sample_elf 64 s = (Inr 1, s)" "r64 sample_elf 72 s = (Inr 0, s)" "r64 sample_elf 80 s = (Inr 0, s)"
  "r64 sample_elf 96 s = (Inr 124, s)" "r64 sample_elf 104 s = (Inr 128, s)"
  by (simp_all add: r16_def r32_def r64_def read_le_def sub_range_def sample_elf_def)

lemma sample_elf_phdrs: "elf_phdrs sample_elf =
    [\<lparr>ph_type = 1, ph_offset = 0, ph_vaddr = 0, ph_filesz = 124, ph_memsz = 128\<rparr>]"
proof -
  have v: "(le_at sample_elf off n :: 'a::len word) = v" if "read_le n sample_elf off () = (Inr v :: unit abort + _, ())" "n < 2 ^ 63" for off n v
    using read_le_Inr [OF that] by simp
  have "(le_at sample_elf 16 2 :: u16) = 2" "(le_at sample_elf 54 2 :: u16) = 56" "(le_at sample_elf 56 2 :: u16) = 1"
    "(le_at sample_elf 32 8 :: u64) = 64" "(le_at sample_elf 64 4 :: u32) = 1" "(le_at sample_elf 72 8 :: u64) = 0"
    "(le_at sample_elf 80 8 :: u64) = 0" "(le_at sample_elf 96 8 :: u64) = 124" "(le_at sample_elf 104 8 :: u64) = 128"
    using sample_elf_reads unfolding r16_def r32_def r64_def by (auto intro!: v)
  then show ?thesis by (simp add: elf_phdrs_def phdr_at_def elf_bias_def ET_DYN_def)
qed

lemma sample_elf_run: "load_elf sample_elf (replicate 128 0) =
  (Inr \<lparr>le_entry = 120, le_phdr_addr = 64, le_phent = 56, le_phnum = 1, le_brk_start = 4096, le_bias = 0\<rparr>,
   sample_elf @ replicate 4 0)"
proof -
  have c: "copy_in 0 124 sample_elf (replicate 128 0) = (Inr (), sample_elf @ replicate 4 0)"
    by (simp add: copy_in_def unwrap_def set_range_def sample_elf_length)
  have "sub_range sample_elf 0 124 = Some sample_elf" by (simp add: sub_range_def sample_elf_length)
  with c have "load_segment sample_elf 0 64 64 (0, 0) (replicate 128 0) = (Inr (128, 64), sample_elf @ replicate 4 0)"
    by (simp add: load_segment_def mbind_def sample_elf_reads sample_elf_length PT_LOAD_def unwrap_def Let_def)
  moreover have "take 4 sample_elf = [127, 69, 76, 70]" "sample_elf ! 4 = 2" by (simp_all add: sample_elf_def)
  ultimately show ?thesis
    by (simp add: load_elf_def sample_elf_length mbind_def sample_elf_reads EM_RISCV_def ET_EXEC_def ET_DYN_def
        place_phdrs_def)
qed

theorem load_elf_image_witness:
  "\<exists>le mem'. load_elf sample_elf (replicate 128 0) = (Inr le, mem') \<and> le_entry le = 120 \<and>
    bytes_at mem' 0 124 = sample_elf \<and> mem' ! 127 = 0 \<and> 128 \<le> unat (le_brk_start le)"
proof -
  let ?h = "\<lparr>ph_type = 1, ph_offset = 0, ph_vaddr = 0, ph_filesz = 124, ph_memsz = 128\<rparr>"
  have a: "unat (ph_filesz h) \<le> unat (ph_memsz h)" if "h \<in> set (elf_phdrs sample_elf)" for h
    using that by (simp add: sample_elf_phdrs)
  have b: "sorted_wrt (\<lambda>h g. loads h \<longrightarrow> loads g \<longrightarrow> apart h g) (elf_phdrs sample_elf)"
    by (simp add: sample_elf_phdrs)
  have "ph_bytes sample_elf ?h = sample_elf" by (simp add: ph_bytes_def bytes_at_def sample_elf_length)
  with load_elf_image [OF sample_elf_run _ a b] sample_elf_run show ?thesis
    by (auto simp: sample_elf_phdrs loads_def PT_LOAD_def)
qed

end
