(* ===== verification/LinuxCorrect.thy ===== *)
theory LinuxCorrect
  imports Linux ElfCorrect RvcCorrect
begin

text \<open>
  Correctness of the user-mode Linux personality: the initial process stack, the system calls on
  every branch, the layout of the address space they keep, and the run loop.
\<close>

section \<open>Strings on the stack\<close>

definition strings_size :: "u8 list list \<Rightarrow> nat" where
  "strings_size ss = sum_list (map (\<lambda>s. length s + 1) ss)"

lemma strings_size_simps [simp]: "strings_size [] = 0" "strings_size (s # ss) = length s + 1 + strings_size ss"
  by (simp_all add: strings_size_def)

lemma push_bytes_run:
  assumes "length mem < 2 ^ 63" and "length s + 1 \<le> unat pos" and "unat pos \<le> length mem"
  shows "\<exists>p mem'. push_bytes pos s mem = (Inr p, mem') \<and> unat p = unat pos - (length s + 1) \<and>
    same_outside (unat p) (unat pos) mem mem' \<and> bytes_at mem' (unat p) (length s + 1) = s @ [0]"
proof -
  let ?n = "length s"
  define p where "p = pos - (of_nat (length s) + 1)"
  have n1: "(of_nat (length s) + 1 :: u64) = of_nat (length s + 1)" by simp
  have "unat (of_nat (length s + 1) :: u64) = length s + 1" using assms by (intro unat_of_small) simp
  then have p: "unat p = unat pos - (?n + 1)"
    using assms(2) unfolding p_def n1 by (subst unat_sub) (simp_all add: word_le_nat_alt)
  have p': "unat (p + of_nat ?n) = unat p + ?n" using assms p by (simp add: unat_add_wrap)
  let ?m1 = "overlay mem (unat p) s"
  let ?m2 = "overlay ?m1 (unat p + ?n) [0]"
  have "copy_in p (p + of_nat ?n) s mem = (Inr (), ?m1)"
    using assms p by (intro copy_in_run) simp_all
  moreover have "copy_in (p + of_nat ?n) (p + of_nat ?n + 1) [0] ?m1 = (Inr (), ?m2)"
    using assms p unfolding p' [symmetric] by (intro copy_in_run) (simp_all add: p')
  ultimately have run: "push_bytes pos s mem = (Inr p, ?m2)"
    by (simp add: push_bytes_def Let_def mbind_def flip: p_def)
  have o1: "same_outside (unat p) (unat pos) mem ?m1" and o2: "same_outside (unat p + ?n) (unat pos) ?m1 ?m2"
    using assms p by (auto intro: overlay_outside)
  have "bytes_at ?m2 (unat p) ?n = bytes_at ?m1 (unat p) ?n"
    by (rule same_outside_bytes [OF o2]) simp
  also have "\<dots> = s" using assms p by (intro overlay_here) simp
  finally have "bytes_at ?m2 (unat p) (?n + 1) = s @ [0]"
    using overlay_here [of "unat p + ?n" "[0]" ?m1] assms p by (simp only: bytes_at_append) simp
  then show ?thesis using run p same_outside_trans [OF o1 same_outside_mono [OF o2]] by auto
qed

definition strings_at :: "u8 list \<Rightarrow> u64 list \<Rightarrow> u8 list list \<Rightarrow> bool" where
  "strings_at mem ps ss \<longleftrightarrow> list_all2 (\<lambda>p s. bytes_at mem (unat p) (length s + 1) = s @ [0]) ps ss"

lemma strings_at_outside:
  assumes "same_outside lo hi xs ys" and "\<And>p. p \<in> set ps \<Longrightarrow> hi \<le> unat p" and "strings_at xs ps ss"
  shows "strings_at ys ps ss"
  using assms(2,3) unfolding strings_at_def
  by (auto simp: list_all2_conv_all_nth same_outside_bytes [OF assms(1)])

lemma push_all_run:
  assumes "length mem < 2 ^ 63" and "strings_size ss \<le> unat pos" and "unat pos \<le> length mem"
  shows "\<exists>ps pos' mem'. push_all pos ss mem = (Inr (ps, pos'), mem') \<and> unat pos' = unat pos - strings_size ss \<and>
    same_outside (unat pos') (unat pos) mem mem' \<and> strings_at mem' ps ss \<and> (\<forall>p\<in>set ps. unat pos' \<le> unat p)"
  using assms
proof (induction ss arbitrary: pos mem)
  case Nil
  then show ?case by (simp add: strings_at_def same_outside_refl)
next
  case (Cons s ss)
  obtain p m1 where 1: "push_bytes pos s mem = (Inr p, m1)" "unat p = unat pos - (length s + 1)"
    "same_outside (unat p) (unat pos) mem m1" "bytes_at m1 (unat p) (length s + 1) = s @ [0]"
    using push_bytes_run [of mem s pos] Cons.prems by auto
  have len: "length m1 = length mem" by (rule same_outside_length [OF 1(3)])
  have "strings_size ss \<le> unat p" "unat p \<le> length m1" "length m1 < 2 ^ 63"
    using Cons.prems 1(2) len by auto
  then obtain ps pos' m2 where 2: "push_all p ss m1 = (Inr (ps, pos'), m2)" "unat pos' = unat p - strings_size ss"
    "same_outside (unat pos') (unat p) m1 m2" "strings_at m2 ps ss" "\<forall>q\<in>set ps. unat pos' \<le> unat q"
    using Cons.IH [of m1 p] by blast
  have "push_all pos (s # ss) mem = (Inr (p # ps, pos'), m2)"
    by (simp add: mbind_def 1(1) 2(1))
  moreover have "bytes_at m2 (unat p) (length s + 1) = s @ [0]"
    using same_outside_bytes [OF 2(3), of "unat p" "length s + 1"] 1(4) by simp
  moreover have "same_outside (unat pos') (unat pos) mem m2"
    by (rule same_outside_trans [OF same_outside_mono [OF 1(3)] same_outside_mono [OF 2(3)]])
      (use 1(2) 2(2) in auto)
  ultimately show ?case using 1(2) 2 by (auto simp: strings_at_def)
qed

lemma overlay_append:
  "a + length ys + length zs \<le> length xs \<Longrightarrow> overlay (overlay xs a ys) (a + length ys) zs = overlay xs a (ys @ zs)"
  by (simp add: overlay_def ac_simps)

lemma length_words [simp]: "length (concat (map (to_le_bytes 8) (vs :: u64 list))) = 8 * length vs"
  by (induction vs) auto

lemma put_words_run:
  assumes "length mem < 2 ^ 63" and "unat w + 8 * length vs \<le> length mem"
  shows "put_words w vs mem = (Inr (), overlay mem (unat w) (concat (map (to_le_bytes 8) vs)))"
  using assms
proof (induction vs arbitrary: w mem)
  case Nil
  then show ?case by (simp add: overlay_def)
next
  case (Cons v vs)
  have c: "copy_in w (w + 8) (to_le_bytes 8 v) mem = (Inr (), overlay mem (unat w) (to_le_bytes 8 v))"
    using Cons.prems by (intro copy_in_run) simp_all
  have w: "unat (w + 8) = unat w + 8"
    using unat_add_wrap [of 8 w] Cons.prems by simp
  have "put_words (w + 8) vs (overlay mem (unat w) (to_le_bytes 8 v)) =
      (Inr (), overlay (overlay mem (unat w) (to_le_bytes 8 v)) (unat w + 8) (concat (map (to_le_bytes 8) vs)))"
    using Cons.IH [of "overlay mem (unat w) (to_le_bytes 8 v)" "w + 8"] Cons.prems by (simp add: w)
  also have "overlay (overlay mem (unat w) (to_le_bytes 8 v)) (unat w + 8) (concat (map (to_le_bytes 8) vs)) =
      overlay mem (unat w) (concat (map (to_le_bytes 8) (v # vs)))"
    using overlay_append [of "unat w" "to_le_bytes 8 v" "concat (map (to_le_bytes 8) vs)" mem] Cons.prems by simp
  finally show ?case using c by (simp add: mbind_def)
qed

definition fills :: "'h host_ops \<Rightarrow> bool" where
  "fills H \<longleftrightarrow> (\<forall>buf h. length (fst (random H buf h)) = length buf)"

definition stack_need :: "u8 list list \<Rightarrow> u8 list list \<Rightarrow> nat" where
  "stack_need argv envp = strings_size argv + strings_size envp + 8 * (length argv + length envp + 35) + 48"

lemma bind_onmem:
  "f mem = (Inr r, mem') \<Longrightarrow> mbind (onmem f) g (m\<lparr>mc_mem := mem\<rparr>, h) = g r (m\<lparr>mc_mem := mem'\<rparr>, h)"
  by (simp add: mbind_def onmem_def)

lemma bind_onhost: "mbind (onhost f) g (m, h) = (case f h of (a, h') \<Rightarrow> g a (m, h'))"
  by (simp add: mbind_def onhost_def split: prod.splits)

lemma unat_frame:
  assumes "8 * n + 32 \<le> unat (p :: u64)"
  shows "unat (((p AND NOT 15) - of_nat n * 8) AND NOT 15) mod 16 = 0"
    and "unat (((p AND NOT 15) - of_nat n * 8) AND NOT 15) + 8 * n \<le> unat p"
proof -
  have p: "unat p < 2 ^ 64" by (rule unat_less_2p64)
  have "unat (of_nat n * 8 :: u64) = 8 * n"
    using assms p by (simp add: unat_word_ariths unat_of_nat take_bit_eq_mod)
  moreover have "8 * n \<le> unat p div 16 * 16" using assms by simp
  ultimately have "unat ((p AND NOT 15) - of_nat n * 8) = unat p div 16 * 16 - 8 * n"
    by (subst unat_sub) (simp_all only: word_le_nat_alt unat_align)
  then have e: "unat (((p AND NOT 15) - of_nat n * 8) AND NOT 15) = (unat p div 16 * 16 - 8 * n) div 16 * 16"
    by (simp only: unat_align)
  show "unat (((p AND NOT 15) - of_nat n * 8) AND NOT 15) mod 16 = 0" by (simp only: e) simp
  show "unat (((p AND NOT 15) - of_nat n * 8) AND NOT 15) + 8 * n \<le> unat p"
    using assms unfolding e by (simp add: le_diff_conv2) 
qed

lemma length_stack_words: "length (stack_words ps qs (auxv loaded r)) = length ps + length qs + 35"
  by (simp add: stack_words_def auxv_def)

text \<open>The number of words of the vector area, and the stack pointer below \<open>pos\<close>.\<close>

definition stack_count :: "u8 list list \<Rightarrow> u8 list list \<Rightarrow> nat" where
  "stack_count argv envp = length argv + length envp + 35"

definition frame_sp :: "u64 \<Rightarrow> nat \<Rightarrow> u64" where
  "frame_sp pos n = ((pos AND NOT 15) - of_nat n * 8) AND NOT 15"

lemma setup_stack_run:
  assumes "push_all stack_top argv (mc_mem m) = (Inr (ap, p1), m1)" "push_all p1 envp m1 = (Inr (ep, p2), m2)"
    "random H (replicate 16 0) h = (rnd, h')" "copy_in (p2 - 16) (p2 - 16 + 16) rnd m2 = (Inr (), m3)"
    "put_words sp (stack_words ap ep (auxv loaded (p2 - 16))) m3 = (Inr (), m4)"
    "sp = frame_sp (p2 - 16) (length ap + length ep + 35)"
  shows "setup_stack H stack_top argv envp loaded (m, h) =
      (Inr (), (m\<lparr>mc_mem := m4, mc_cpu := set_x 2 sp (mc_cpu m)\<rparr>, h'))"
proof -
  have "1 + length ap + 1 + length ep + 1 + length (auxv loaded (p2 - 16)) * 2 = length ap + length ep + 35"
    by (simp add: auxv_def)
  note eqs = this assms(6) [unfolded frame_sp_def, symmetric]
  have "setup_stack H stack_top argv envp loaded (m\<lparr>mc_mem := mc_mem m\<rparr>, h) =
      (Inr (), (m\<lparr>mc_mem := m4, mc_cpu := set_x 2 sp (mc_cpu m)\<rparr>, h'))"
    unfolding setup_stack_def bind_onmem [of "push_all _ _", OF assms(1)] prod.case
      bind_onmem [of "push_all _ _", OF assms(2)] bind_onhost assms(3) Let_def
      bind_onmem [of "copy_in _ _ _", OF assms(4)] eqs bind_onmem [of "put_words _ _", OF assms(5)]
    by (simp add: modm_def)
  then show ?thesis by simp
qed

lemma stack_strings:
  assumes "length mem < 2 ^ 63" "unat tp \<le> length mem" "strings_size argv + strings_size envp \<le> unat tp"
  shows "\<exists>ap p1 m1 ep p2 m2. push_all tp argv mem = (Inr (ap, p1), m1) \<and> push_all p1 envp m1 = (Inr (ep, p2), m2) \<and>
    unat p2 = unat tp - (strings_size argv + strings_size envp) \<and> same_outside (unat p2) (unat tp) mem m2 \<and>
    strings_at m2 ap argv \<and> strings_at m2 ep envp \<and> (\<forall>p\<in>set ap \<union> set ep. unat p2 \<le> unat p)"
proof -
  obtain ap p1 m1 where 1: "push_all tp argv mem = (Inr (ap, p1), m1)"
    "unat p1 = unat tp - strings_size argv" "same_outside (unat p1) (unat tp) mem m1"
    "strings_at m1 ap argv" "\<forall>p\<in>set ap. unat p1 \<le> unat p"
    using push_all_run [of mem argv tp] assms by auto
  have "length m1 = length mem" by (rule same_outside_length [OF 1(3)])
  then have "strings_size envp \<le> unat p1" "unat p1 \<le> length m1" "length m1 < 2 ^ 63" using assms 1(2) by auto
  then obtain ep p2 m2 where 2: "push_all p1 envp m1 = (Inr (ep, p2), m2)"
    "unat p2 = unat p1 - strings_size envp" "same_outside (unat p2) (unat p1) m1 m2"
    "strings_at m2 ep envp" "\<forall>p\<in>set ep. unat p2 \<le> unat p"
    using push_all_run [of m1 envp p1] by blast
  have "same_outside (unat p2) (unat tp) mem m2"
    by (rule same_outside_trans [OF same_outside_mono [OF 1(3)] same_outside_mono [OF 2(3)]]) (use 1(2) 2(2) in auto)
  moreover have "strings_at m2 ap argv" using strings_at_outside [OF 2(3)] 1(4,5) by blast
  moreover have "\<forall>p\<in>set ap \<union> set ep. unat p2 \<le> unat p" using 1(5) 2(2,5) by fastforce
  ultimately show ?thesis using 1 2 assms(3) by auto
qed

lemma stack_vectors:
  assumes "length mem < 2 ^ 63" "unat p2 \<le> length mem" "8 * length ws + 48 \<le> unat p2" "length rnd = 16"
    "p3 = p2 - 16" "sp = frame_sp p3 (length ws)"
  shows "\<exists>m3 m4. copy_in p3 (p3 + 16) rnd mem = (Inr (), m3) \<and> put_words sp ws m3 = (Inr (), m4) \<and>
    same_outside (unat sp) (unat p2) mem m4 \<and> bytes_at m4 (unat p3) 16 = rnd \<and> unat sp mod 16 = 0 \<and> unat sp \<le> unat p2 \<and>
    bytes_at m4 (unat sp) (8 * length ws) = concat (map (to_le_bytes 8) ws)"
proof -
  have p3: "unat p3 + 16 = unat p2"
    using assms(3,5) unat_sub [of 16 p2] by (simp add: word_le_nat_alt)
  then have sp: "unat sp mod 16 = 0" "unat sp + 8 * length ws \<le> unat p3"
    using unat_frame [of "length ws" p3] assms(3) by (simp_all add: assms(6) frame_sp_def)
  let ?m3 = "overlay mem (unat p3) rnd" and ?bs = "concat (map (to_le_bytes 8) ws)"
  let ?m4 = "overlay ?m3 (unat sp) ?bs"
  have o3: "same_outside (unat p3) (unat p2) mem ?m3"
    using p3 assms(2,4) by (intro overlay_outside) simp_all
  have fit: "unat sp + length ?bs \<le> length ?m3" using sp p3 assms(2,4) by simp
  have o4: "same_outside (unat sp) (unat p3) ?m3 ?m4" using fit sp by (intro overlay_outside) simp_all
  have "bytes_at ?m4 (unat p3) 16 = rnd"
    using same_outside_bytes [OF o4, of "unat p3" 16] overlay_here [of "unat p3" rnd mem] p3 assms(2,4) by simp
  moreover have "same_outside (unat sp) (unat p2) mem ?m4"
    by (rule same_outside_trans [OF same_outside_mono [OF o3] same_outside_mono [OF o4]]) (use sp p3 in auto)
  moreover have "bytes_at ?m4 (unat sp) (8 * length ws) = ?bs" using overlay_here [OF fit] by simp
  moreover have "copy_in p3 (p3 + 16) rnd mem = (Inr (), ?m3)"
    using assms(1,2,4) p3 by (intro copy_in_run) simp_all
  moreover have "put_words sp ws ?m3 = (Inr (), ?m4)"
    using fit assms(1,2,4) p3 by (intro put_words_run) simp_all
  moreover have "unat sp \<le> unat p2" using sp p3 by simp
  ultimately show ?thesis using sp(1) by (intro exI [of _ ?m3] exI [of _ ?m4] conjI)
qed

text \<open>
  C32: The initial process stack follows the Linux ABI. With room for the strings and the vectors,
  setup_stack returns with a 16-byte aligned stack pointer in x2; from it upwards memory holds
  argc, the argument pointers, a null, the environment pointers, a null and the auxiliary
  vector; each pointer leads to its NUL-terminated string and AT_RANDOM to the host's 16
  random bytes; nothing outside the stack area changes.
\<close>

theorem setup_stack_layout:
  assumes mem: "length (mc_mem m) < 2 ^ 63" and top: "unat stack_top \<le> length (mc_mem m)"
    and room: "strings_size argv + strings_size envp + 8 * stack_count argv envp + 48 \<le> unat stack_top" and H: "fills H"
  shows "\<exists>m' h' sp argv_ptrs envp_ptrs at_random.
    setup_stack H stack_top argv envp loaded (m, h) = (Inr (), (m', h')) \<and>
    m' = m\<lparr>mc_mem := mc_mem m', mc_cpu := set_x 2 sp (mc_cpu m)\<rparr> \<and> unat sp mod 16 = 0 \<and>
    same_outside (unat sp) (unat stack_top) (mc_mem m) (mc_mem m') \<and>
    bytes_at (mc_mem m') (unat sp) (8 * stack_count argv envp) =
      concat (map (to_le_bytes 8) (stack_words argv_ptrs envp_ptrs (auxv loaded at_random))) \<and>
    strings_at (mc_mem m') argv_ptrs argv \<and> strings_at (mc_mem m') envp_ptrs envp \<and>
    bytes_at (mc_mem m') (unat at_random) 16 = fst (random H (replicate 16 0) h)"
proof -
  obtain ap p1 m1 ep p2 m2 where 1: "push_all stack_top argv (mc_mem m) = (Inr (ap, p1), m1)"
    "push_all p1 envp m1 = (Inr (ep, p2), m2)"
    "unat p2 = unat stack_top - (strings_size argv + strings_size envp)"
    "same_outside (unat p2) (unat stack_top) (mc_mem m) m2"
    "strings_at m2 ap argv" "strings_at m2 ep envp" "\<forall>p\<in>set ap \<union> set ep. unat p2 \<le> unat p"
    using stack_strings [OF mem top, of argv envp] room by auto
  obtain rnd h' where r: "random H (replicate 16 0) h = (rnd, h')" by fastforce
  with H have lr: "length rnd = 16" unfolding fills_def by (metis fst_conv length_replicate)
  let ?ws = "stack_words ap ep (auxv loaded (p2 - 16))"
  have la: "length ap = length argv" "length ep = length envp"
    using 1(5,6) by (auto simp: strings_at_def dest: list_all2_lengthD)
  have lw: "length ?ws = length ap + length ep + 35" by (rule length_stack_words)
  have n: "length ?ws = stack_count argv envp" by (simp add: lw la stack_count_def)
  have l2: "length m2 = length (mc_mem m)" by (rule same_outside_length [OF 1(4)])
  have l2': "length m2 < 2 ^ 63" using mem l2 by simp
  have fit: "unat p2 \<le> length m2" "8 * length ?ws + 48 \<le> unat p2" using 1(3) top room l2 n by simp_all
  obtain m3 m4 where 2: "copy_in (p2 - 16) (p2 - 16 + 16) rnd m2 = (Inr (), m3)"
    "put_words (frame_sp (p2 - 16) (length ?ws)) ?ws m3 = (Inr (), m4)"
    "same_outside (unat (frame_sp (p2 - 16) (length ?ws))) (unat p2) m2 m4" "bytes_at m4 (unat (p2 - 16)) 16 = rnd"
    "unat (frame_sp (p2 - 16) (length ?ws)) mod 16 = 0" "unat (frame_sp (p2 - 16) (length ?ws)) \<le> unat p2"
    "bytes_at m4 (unat (frame_sp (p2 - 16) (length ?ws))) (8 * length ?ws) = concat (map (to_le_bytes 8) ?ws)"
    using stack_vectors [OF l2' fit lr refl refl] by (elim exE conjE)
  define sp where "sp = frame_sp (p2 - 16) (length ?ws)"
  note 2 = 2 [folded sp_def]
  have run: "setup_stack H stack_top argv envp loaded (m, h) = (Inr (), (m\<lparr>mc_mem := m4, mc_cpu := set_x 2 sp (mc_cpu m)\<rparr>, h'))"
    using setup_stack_run [OF 1(1,2) r 2(1,2)] by (simp add: sp_def lw)
  have "strings_at m4 ap argv" "strings_at m4 ep envp" using strings_at_outside [OF 2(3)] 1(5,6,7) by auto
  moreover have "same_outside (unat sp) (unat stack_top) (mc_mem m) m4"
    by (rule same_outside_trans [OF same_outside_mono [OF 1(4)] same_outside_mono [OF 2(3)]]) (use 2(6) 1(3) in auto)
  ultimately show ?thesis using run 2(4,5,7) n r
    by (intro exI [of _ "m\<lparr>mc_mem := m4, mc_cpu := set_x 2 sp (mc_cpu m)\<rparr>"] exI [of _ h'] exI [of _ sp] exI [of _ ap]
        exI [of _ ep] exI [of _ "p2 - 16"]) simp
qed

section \<open>What a call keeps when it returns\<close>

named_theorems returns_intros

definition returns_keep :: "('s \<Rightarrow> bool) \<Rightarrow> ('s, 'e, 'a) res \<Rightarrow> bool" where
  "returns_keep I f \<longleftrightarrow> (\<forall>s r s'. I s \<longrightarrow> f s = (Inr r, s') \<longrightarrow> I s')"

lemma returns_keepD: "returns_keep I f \<Longrightarrow> I s \<Longrightarrow> f s = (Inr r, s') \<Longrightarrow> I s'"
  by (simp add: returns_keep_def)

lemma returns_bind [returns_intros]: "returns_keep I f \<Longrightarrow> (\<And>a. returns_keep I (g a)) \<Longrightarrow> returns_keep I (mbind f g)"
  unfolding returns_keep_def by (blast dest: mbind_Inr_elim)

lemma returns_mret [returns_intros]: "returns_keep I (mret a)"
  and returns_panic [returns_intros]: "returns_keep I panic"
  and returns_getm [returns_intros]: "returns_keep J (getm f)"
  and returns_unwrap [returns_intros]: "returns_keep I (unwrap v)"
  by (auto simp: returns_keep_def getm_def unwrap_def split: option.splits)

lemma returns_if [returns_intros]: "(p \<Longrightarrow> returns_keep I f) \<Longrightarrow> (\<not> p \<Longrightarrow> returns_keep I g) \<Longrightarrow> returns_keep I (if p then f else g)"
  by simp

text \<open>The layout of the address space: heap below the mappings, all inside memory.\<close>

definition layout :: "nat \<Rightarrow> u64 \<Rightarrow> u64 \<Rightarrow> linux_machine \<Rightarrow> bool" where
  "layout n b t m \<longleftrightarrow> length (mc_mem m) = n \<and> n < 2 ^ 63 \<and> mc_brk_start m = b \<and> b \<le> mc_brk m \<and>
     mc_brk m < mc_mmap_top m \<and> mc_mmap_top m \<le> t \<and> unat (mc_mmap_top m) \<le> n"

definition layout_ok :: "nat \<Rightarrow> u64 \<Rightarrow> u64 \<Rightarrow> linux_machine \<times> 'h \<Rightarrow> bool" where
  "layout_ok n b t = (\<lambda>(m, h). layout n b t m)"

lemma layout_onmem:
  assumes "\<And>mem r mem'. f mem = (Inr r, mem') \<Longrightarrow> length mem' = length mem"
  shows "returns_keep (layout_ok n b t) (onmem f)"
  using assms by (auto simp: returns_keep_def onmem_def layout_ok_def layout_def split: prod.splits)

lemma layout_copy [returns_intros]: "returns_keep (layout_ok n b t) (onmem (copy_in i j ys))"
  by (rule layout_onmem) (rule copy_in_length)

lemma layout_onhost [returns_intros]: "returns_keep (layout_ok n b t) (onhost f)"
  by (auto simp: returns_keep_def onhost_def layout_ok_def split: prod.splits)

lemma layout_write [returns_intros]: "returns_keep (layout_ok n b t) (write_u64 a v)"
  unfolding write_u64_def by (rule layout_copy)

lemma layout_read [returns_intros]: "returns_keep (layout_ok n b t) (read_u64 a)"
  unfolding read_u64_def read_le_def by (intro returns_intros)

lemma layout_modm: "(\<And>m. layout n b t m \<Longrightarrow> layout n b t (f m)) \<Longrightarrow> returns_keep (layout_ok n b t) (modm f)"
  by (auto simp: returns_keep_def modm_def layout_ok_def)

lemma layout_sys_write [returns_intros]: "returns_keep (layout_ok n b t) (sys_write H fd buf len)"
  unfolding sys_write_def by (intro returns_intros)

lemma layout_writev [returns_intros]: "returns_keep (layout_ok n b t) (writev_loop H fd iov k i tot)"
proof (induction k arbitrary: i tot)
  case (Suc k)
  then show ?case unfolding writev_loop.simps Let_def by (intro returns_intros)
qed (simp add: returns_intros)

lemma layout_brk [returns_intros]: "returns_keep (layout_ok n b t) (sys_brk req)"
  unfolding sys_brk_def by (intro returns_intros layout_modm) (auto simp: layout_def)

lemma layout_put_uts: "put_uts base i ss mem = (Inr r, mem') \<Longrightarrow> length mem' = length mem"
  by (induction ss arbitrary: i mem) (auto simp: mbind_def copy_in_length split: prod.splits sum.splits)

lemma layout_uts [returns_intros]: "returns_keep (layout_ok n b t) (onmem (put_uts base i ss))"
  by (rule layout_onmem) (rule layout_put_uts)


lemma layout_mmap [returns_intros]: "returns_keep (layout_ok n b t) (sys_mmap addr sz)"
proof -
  have "layout n b t (m\<lparr>mc_mmap_top := mc_mmap_top m - len, mc_mem := mem'\<rparr>)"
    if l: "layout n b t m" and lt: "\<not> mc_mmap_top m - len \<le> mc_brk m"
      and c: "copy_in (mc_mmap_top m - len) (mc_mmap_top m - len + len) ys (mc_mem m) = (Inr (), mem')" for m len ys mem'
  proof -
    have "unat (mc_mmap_top m - len) \<le> unat (mc_mmap_top m)" using copy_in_Inr [OF c] by simp
    with l lt copy_in_length [OF c] show ?thesis by (auto simp: layout_def word_le_nat_alt word_less_nat_alt)
  qed
  then show ?thesis
    unfolding sys_mmap_def Let_def
    by (auto simp: returns_keep_def layout_ok_def mbind_def getm_def modm_def onmem_def split: prod.splits sum.splits if_splits)
qed

lemma layout_flag [returns_intros]: "returns_keep (layout_ok n b t) (modm (\<lambda>m. m\<lparr>mc_icache_flush_pending := v\<rparr>))"
  "returns_keep (layout_ok n b t) (modm (\<lambda>m. m\<lparr>mc_cpu := f (mc_cpu m)\<rparr>))"
  by (rule layout_modm; simp add: layout_def)+

lemma layout_dispatch [returns_intros]: "returns_keep (layout_ok n b t) (dispatch H nr a0 a1 a2)"
  by (cases nr; simp only: dispatch.simps sys_clock_def sys_getrandom_def sys_uname_def sys_getcwd_def sys_fstat_def Let_def;
      intro returns_intros)

lemma returns_case [returns_intros]: "returns_keep I f \<Longrightarrow> (\<And>x. returns_keep I (g x)) \<Longrightarrow>
    returns_keep I (case v of None \<Rightarrow> f | Some x \<Rightarrow> g x)"
  by (cases v) simp_all

lemma layout_handle: "returns_keep (layout_ok n b t) (handle H)"
  unfolding handle_def Let_def by (intro returns_intros)

lemma getm_run [simp]: "getm f s = (Inr (f (fst s)), s)"
  by (simp add: getm_def)

lemma modm_run [simp]: "modm f (m, h) = (Inr (), (f m, h))"
  by (simp add: modm_def)

lemma bind_getm [simp]: "mbind (getm f) g s = g (f (fst s)) s"
  by (simp add: mbind_def)

lemma bind_modm [simp]: "mbind (modm f) g (m, h) = g () (f m, h)"
  by (simp add: mbind_def)

lemma fd_range: "(1 \<le> sint fd \<and> sint fd \<le> 2) \<longleftrightarrow> fd = 1 \<or> fd = (2 :: i32)"
proof
  assume "1 \<le> sint fd \<and> sint fd \<le> 2"
  then have "sint fd = 1 \<or> sint fd = 2" by arith
  then show "fd = 1 \<or> fd = 2"
    using signed_word_eqI [of fd 1] signed_word_eqI [of fd 2] by auto
qed auto

text \<open>
  C36: The write call on every branch: a descriptor other than 1 and 2 gives EBADF; a buffer inside
  memory is handed to the host and its length returned; a buffer past the end gives EINVAL; a
  buffer whose end wraps around the address space to a small value panics.
\<close>

theorem sys_write_cases:
  assumes "length (mc_mem m) < 2 ^ 63"
  shows "sys_write H fd buf len (m, h) =
    (if fd \<noteq> 1 \<and> fd \<noteq> 2 then (Inr EBADF, (m, h))
     else if unat buf + unat len \<le> length (mc_mem m)
     then (Inr len, (m, write_out H fd (bytes_at (mc_mem m) (unat buf) (unat len)) h))
     else if 2 ^ 64 \<le> unat buf + unat len \<and> unat buf + unat len - 2 ^ 64 \<le> length (mc_mem m)
     then (Inl Panic, (m, h)) else (Inr EINVAL, (m, h)))"
proof -
  let ?e = "unat buf + unat len"
  have w: "unat (buf + len) = (if ?e < 2 ^ 64 then ?e else ?e - 2 ^ 64)" by (rule unat_sum)
  have b: "unat buf < 2 ^ 64" "unat len < 2 ^ 64" by (rule unat_less_2p64)+
  consider "?e \<le> length (mc_mem m)" | "length (mc_mem m) < ?e" "2 ^ 64 \<le> ?e \<and> ?e - 2 ^ 64 \<le> length (mc_mem m)"
    | "length (mc_mem m) < ?e" "\<not> (2 ^ 64 \<le> ?e \<and> ?e - 2 ^ 64 \<le> length (mc_mem m))"
    by fastforce
  then show ?thesis
  proof cases
    case 1
    then have "sub_range (mc_mem m) buf (buf + len) = Some (bytes_at (mc_mem m) (unat buf) (unat len))"
      using w assms by (simp add: sub_range_def bytes_at_def)
    with 1 w assms show ?thesis unfolding sys_write_def fd_range by (simp add: onhost_def mbind_def)
  next
    case 2
    then have "unat (buf + len) = ?e - 2 ^ 64" using w by simp
    moreover have "?e - 2 ^ 64 < unat buf" using 2(2) b by linarith
    ultimately have "sub_range (mc_mem m) buf (buf + len) = None" by (simp add: sub_range_def)
    with 2 w assms show ?thesis unfolding sys_write_def fd_range by simp
  next
    case 3
    then have "length (mc_mem m) < unat (buf + len)" using w by (auto split: if_splits)
    with 3 show ?thesis unfolding sys_write_def fd_range by auto
  qed
qed

definition page_round :: "u64 \<Rightarrow> u64" where
  "page_round sz = (sz + PAGE - 1) AND NOT (PAGE - 1)"

lemma page_round_unat: "unat (page_round sz) = unat (sz + 4095) div 4096 * 4096"
proof -
  have "(PAGE - 1 :: u64) = mask 12" by (simp add: PAGE_def mask_eq_exp_minus_1)
  moreover have "sz + PAGE - 1 = sz + 4095" by (simp add: PAGE_def)
  ultimately have "page_round sz = (sz + 4095) AND NOT (mask 12)" by (simp only: page_round_def)
  also have "\<dots> = push_bit 12 (drop_bit 12 (sz + 4095))" by (rule bit_word_eqI) (auto simp: bit_simps)
  finally have "unat (page_round sz) = unat (drop_bit 12 (sz + 4095)) * 2 ^ 12 mod 2 ^ 64"
    by (simp add: push_bit_eq_mult unat_word_ariths)
  moreover have "unat (drop_bit 12 (sz + 4095)) = unat (sz + 4095) div 4096" by (simp add: drop_bit_eq_div unat_div_distrib)
  moreover have "unat (sz + 4095) div 4096 * 4096 < 2 ^ 64"
    using unat_less_2p64 [of "sz + 4095"] div_times_less_eq_dividend [of "unat (sz + 4095)" 4096] by linarith
  ultimately show ?thesis by simp
qed

text \<open>The rounded length is zero for the empty length and for one whose rounding wraps around.\<close>

lemma page_round_zero: "page_round sz = 0 \<longleftrightarrow> sz = 0 \<or> 2 ^ 64 - 4096 < unat sz"
proof -
  have s: "unat (sz + 4095) = (if unat sz + 4095 < 2 ^ 64 then unat sz + 4095 else unat sz + 4095 - 2 ^ 64)"
    using unat_sum [of sz 4095] by simp
  have "page_round sz = 0 \<longleftrightarrow> unat (sz + 4095) < 4096"
    unfolding unat_eq_zero [symmetric, of "page_round sz"] page_round_unat by (simp add: div_eq_0_iff)
  moreover have "sz = 0 \<longleftrightarrow> unat sz = 0" by (simp add: unat_eq_zero)
  ultimately show ?thesis unfolding s using unat_less_2p64 [of sz] by auto
qed

text \<open>
  C35: The mmap call on every branch, for every address and length. A zero length, or one that wraps
  around when it is rounded up to pages, gives EINVAL. A request with an address is granted as it
  stands: the address comes back, whether or not the range is inside memory, and nothing changes.
  Without an address, no room above the break gives ENOMEM; otherwise the mapping is the zeroed,
  page-rounded range just below the previous mappings and nothing else changes; a length above
  the current top wraps around and panics.
\<close>

theorem sys_mmap_cases:
  assumes "layout n b t m"
  shows "sys_mmap addr sz (m, h) =
    (let len = page_round sz; at = mc_mmap_top m - len in
     if sz = 0 \<or> 2 ^ 64 - 4096 < unat sz then (Inr EINVAL, (m, h))
     else if addr \<noteq> 0 then (Inr addr, (m, h))
     else if at \<le> mc_brk m then (Inr ENOMEM, (m, h))
     else if len \<le> mc_mmap_top m
     then (Inr at, (m\<lparr>mc_mmap_top := at, mc_mem := overlay (mc_mem m) (unat at) (replicate (unat len) 0)\<rparr>, h))
     else (Inl Panic, (m\<lparr>mc_mmap_top := at\<rparr>, h)))"
proof -
  let ?len = "page_round sz"
  let ?at = "mc_mmap_top m - ?len"
  have l: "length (mc_mem m) < 2 ^ 63" "unat (mc_mmap_top m) \<le> length (mc_mem m)"
    using assms by (auto simp: layout_def)
  have c: "copy_in ?at (?at + ?len) (replicate (unat ?len) 0) (mc_mem m) = (if ?len \<le> mc_mmap_top m
      then (Inr (), overlay (mc_mem m) (unat ?at) (replicate (unat ?len) 0)) else (Inl Panic, mc_mem m))"
  proof (cases "?len \<le> mc_mmap_top m")
    case True
    then have "unat ?at + unat ?len = unat (mc_mmap_top m)" by (simp add: unat_sub word_le_nat_alt)
    with True l show ?thesis by (simp add: copy_in_run)
  next
    case False
    then have "unat (mc_mmap_top m) < unat ?at"
      using unat_less_2p64 [of ?len] by (simp add: unat_sub_wrap word_le_nat_alt)
    with False show ?thesis by (simp add: copy_in_def unwrap_def set_range_def)
  qed
  have e: "page_round sz = (sz + PAGE - 1) AND NOT (PAGE - 1)" by (simp only: page_round_def)
  show ?thesis
    unfolding sys_mmap_def Let_def e [symmetric] page_round_zero [symmetric] using c by (simp add: onmem_def mbind_def)
qed

text \<open>The array of \<open>struct iovec\<close> at an address: base and length of each segment.\<close>

definition iovecs_at :: "u8 list \<Rightarrow> nat \<Rightarrow> (u64 \<times> u64) list \<Rightarrow> bool" where
  "iovecs_at mem a segs \<longleftrightarrow> a + 16 * length segs \<le> length mem \<and>
     bytes_at mem a (16 * length segs) = concat (map (\<lambda>(b, l). to_le_bytes 8 b @ to_le_bytes 8 l) segs)"

lemma read_u64_at:
  assumes "length (mc_mem m) < 2 ^ 63" "unat a + 8 \<le> length (mc_mem m)" "bytes_at (mc_mem m) (unat a) 8 = to_le_bytes 8 v"
  shows "read_u64 a (m, h) = (Inr v, (m, h))"
proof -
  have "unat (a + 8) = unat a + 8" using assms(1,2) unat_sum [of a 8] by simp
  then have "sub_range (mc_mem m) a (a + 8) = Some (to_le_bytes 8 v)"
    using assms(2,3) by (simp add: sub_range_def bytes_at_def)
  then show ?thesis by (simp add: read_u64_def read_le_def from_le_bytes_to_le_bytes)
qed

lemma iovecs_at_Cons:
  assumes "iovecs_at mem a ((b, l) # segs)"
  shows "bytes_at mem a 8 = to_le_bytes 8 b" "bytes_at mem (a + 8) 8 = to_le_bytes 8 l" "iovecs_at mem (a + 16) segs"
    "a + 16 \<le> length mem"
proof -
  have len: "a + 16 + 16 * length segs \<le> length mem" using assms by (simp add: iovecs_at_def)
  have "bytes_at mem a (8 + (8 + 16 * length segs)) =
      to_le_bytes 8 b @ to_le_bytes 8 l @ concat (map (\<lambda>(b, l). to_le_bytes 8 b @ to_le_bytes 8 l) segs)"
    using assms by (simp add: iovecs_at_def)
  then have *: "bytes_at mem a 8 @ bytes_at mem (a + 8) 8 @ bytes_at mem (a + 16) (16 * length segs) =
      to_le_bytes 8 b @ to_le_bytes 8 l @ concat (map (\<lambda>(b, l). to_le_bytes 8 b @ to_le_bytes 8 l) segs)"
    by (simp only: bytes_at_append) (simp add: add.assoc)
  have l8: "length (bytes_at mem a 8) = 8" "length (bytes_at mem (a + 8) 8) = 8" using len by (simp_all add: bytes_at_def)
  from * l8 show "bytes_at mem a 8 = to_le_bytes 8 b" "bytes_at mem (a + 8) 8 = to_le_bytes 8 l" by simp_all
  from * l8 len show "iovecs_at mem (a + 16) segs" by (simp add: iovecs_at_def)
  show "a + 16 \<le> length mem" using len by simp
qed

lemma writev_loop_run:
  assumes "length (mc_mem m) < 2 ^ 63" "fd = 1 \<or> fd = 2" "iovecs_at (mc_mem m) (unat (iov + i * 16)) segs"
    "\<And>b l. (b, l) \<in> set segs \<Longrightarrow> unat b + unat l \<le> length (mc_mem m)"
  shows "writev_loop H fd iov (length segs) i tot (m, h) =
    (Inr (tot + sum_list (map snd segs)),
     (m, fold (\<lambda>(b, l). write_out H fd (bytes_at (mc_mem m) (unat b) (unat l))) segs h))"
  using assms(3,4)
proof (induction segs arbitrary: i tot h)
  case (Cons seg segs)
  obtain b l where seg: "seg = (b, l)" by (cases seg)
  let ?a = "iov + i * 16"
  note io = iovecs_at_Cons [OF Cons.prems(1) [unfolded seg]]
  have a8: "unat (?a + 8) = unat ?a + 8" "unat (?a + 16) = unat ?a + 16"
    using io(4) assms(1) unat_sum [of ?a 8] unat_sum [of ?a 16] by simp_all
  have r: "read_u64 ?a (m, h) = (Inr b, (m, h))" "read_u64 (?a + 8) (m, h) = (Inr l, (m, h))"
    using io a8 assms(1) by (auto intro!: read_u64_at)
  have bl: "unat b + unat l \<le> length (mc_mem m)" using Cons.prems(2) [of b l] seg by simp
  have w: "sys_write H fd b l (m, h) = (Inr l, (m, write_out H fd (bytes_at (mc_mem m) (unat b) (unat l)) h))"
    using sys_write_cases [OF assms(1), of H fd b l h] assms(2) bl by auto
  have "unat l < 2 ^ 63" using bl assms(1) by simp
  then have nn: "\<not> slt l 0" using sint_small [of l] by (simp add: slt_def)
  have n: "iov + (i + 1) * 16 = ?a + 16" by (simp add: algebra_simps)
  have "writev_loop H fd iov (length segs) (i + 1) (tot + l) (m, write_out H fd (bytes_at (mc_mem m) (unat b) (unat l)) h) =
     (Inr (tot + l + sum_list (map snd segs)), (m, fold (\<lambda>(b, l). write_out H fd (bytes_at (mc_mem m) (unat b) (unat l))) segs
       (write_out H fd (bytes_at (mc_mem m) (unat b) (unat l)) h)))"
    using Cons.prems(2) io(3) by (intro Cons.IH) (simp_all only: n a8, simp)
  with r w nn show ?case by (simp add: seg mbind_def add.assoc)
qed simp

text \<open>\<open>ecall; j .-4\<close>\<close>

definition spin_image :: "u8 list" where
  "spin_image = to_le_bytes 4 (0x00000073 :: u32) @ to_le_bytes 4 (0xffdff06f :: u32)"

definition spinning :: "linux_machine \<Rightarrow> bool" where
  "spinning m \<longleftrightarrow> mc_mem m = spin_image \<and> sys (mc_cpu m) = None \<and> xreg (mc_cpu m) 17 = 172 \<and>
     (pcr (mc_cpu m) = 0 \<or> pcr (mc_cpu m) = 4)"

lemma spin_fetch: "read16 flat_bus 0 (flat_new 0 spin_image) = (Inr 0x73, flat_new 0 spin_image)"
  "read16 flat_bus 2 (flat_new 0 spin_image) = (Inr 0, flat_new 0 spin_image)"
  "read16 flat_bus 4 (flat_new 0 spin_image) = (Inr 0xf06f, flat_new 0 spin_image)"
  "read16 flat_bus 6 (flat_new 0 spin_image) = (Inr 0xffdf, flat_new 0 spin_image)"
  by code_simp+


lemma spin_fetched: "sys c = None \<Longrightarrow> pcr c = a \<Longrightarrow> a = 0 \<or> a = 4 \<Longrightarrow>
    step flat_bus (c, flat_new 0 spin_image) =
      mbind (exec32 flat_bus (if a = 0 then 0x73 else 0xffdff06f) a (a + 4)) retire (c, flat_new 0 spin_image)"
  by (auto simp: step_def translate_def busm_def mbind_def fetch16_def map_err_def spin_fetch Let_def)

lemma spin_ecall: "sys c = None \<Longrightarrow> mbind (exec32 flat_bus 0x73 0 4) retire (c, b) =
    (Inr (Some Ecall), (c\<lparr>pcr := 4, insn_count := insn_count c + 1\<rparr>, b))"
  by (simp add: exec32_def opcode_def exec_system_def exec_ecall_def retire_def Let_def mbind_assoc)

lemma spin_jump: "mbind (exec32 flat_bus 0xffdff06f 4 8) retire (c, b) =
    (Inr None, (c\<lparr>pcr := 0, insn_count := insn_count c + 1\<rparr>, b))"
  by (simp add: exec32_def opcode_def exec_jal_def imm_j_def wr_def rd_def retire_def Let_def mbind_assoc)


lemma spin_run:
  assumes "sys c = None" "pcr c = 0 \<or> pcr c = 4" "2 \<le> unat n"
  shows "\<exists>k. run flat_bus n (c, flat_new 0 spin_image) =
    (Inr Ecall, (c\<lparr>pcr := 4, insn_count := k\<rparr>, flat_new 0 spin_image))"
proof -
  obtain j where j: "unat n = Suc (Suc j)" using assms(3) by (metis Suc_le_D numeral_2_eq_2 Suc_le_mono)
  have e: "step_or_trap flat_bus False (d, flat_new 0 spin_image) =
      (Inr (Some Ecall), (d\<lparr>pcr := 4, insn_count := insn_count d + 1\<rparr>, flat_new 0 spin_image))"
    if "sys d = None" "pcr d = 0" for d
    using spin_fetched [OF that] spin_ecall [OF that(1)] by (simp add: step_or_trap_def mtry_def)
  have f: "step_or_trap flat_bus False (d, flat_new 0 spin_image) =
      (Inr None, (d\<lparr>pcr := 0, insn_count := insn_count d + 1\<rparr>, flat_new 0 spin_image))"
    if "sys d = None" "pcr d = 4" for d
    using spin_fetched [OF that] spin_jump [of d] by (simp add: step_or_trap_def mtry_def)
  from assms(2) show ?thesis
  proof
    assume "pcr c = 0"
    with assms(1) e [of c] show ?thesis by (auto simp: run_def j poll_def mbind_def)
  next
    assume "pcr c = 4"
    with assms(1) f [of c] e [of "c\<lparr>pcr := 0, insn_count := insn_count c + 1\<rparr>"]
    show ?thesis by (auto simp: run_def j poll_def mbind_def)
  qed
qed

lemma spin_handle:
  assumes "xreg (mc_cpu m) 17 = 172"
  shows "handle H (m, h) = (Inr None, (m\<lparr>mc_cpu := set_x 10 42 (mc_cpu m)\<rparr>, h))"
proof -
  have "map_of sys_table 172 = Some SYS_GETPID" by (simp add: sys_table_def)
  with assms show ?thesis by (simp add: handle_def Let_def)
qed

lemma spin_iteration:
  assumes "spinning m" "2 \<le> unat n"
  shows "\<exists>m1 m2. run_slice n (m, h) = (Inr Ecall, (m1, h)) \<and> handle H (m1, h) = (Inr None, (m2, h)) \<and> spinning m2"
proof -
  obtain k where "run flat_bus n (mc_cpu m, flat_new 0 spin_image) =
      (Inr Ecall, ((mc_cpu m)\<lparr>pcr := 4, insn_count := k\<rparr>, flat_new 0 spin_image))"
    using spin_run [of "mc_cpu m" n] assms by (auto simp: spinning_def)
  with assms(1) show ?thesis
    by (simp add: run_slice_def spinning_def spin_handle flat_new_def set_x_def)
qed

text \<open>
  C38: A stop for a system call does not consume budget: on a program that only repeats a system call
  the run loop has not returned after any number of iterations, whatever the budget.
\<close>

theorem machine_run_unbounded:
  assumes "spinning m" and "2 \<le> unat budget"
  shows "fst (machine_loop H fuel budget (m, h)) = Inr None"
  using assms(1)
proof (induction fuel arbitrary: m)
  case (Suc fuel)
  have "2 \<le> unat (min budget 1000000)" using assms(2) by (simp add: min_def)
  from spin_iteration [OF Suc.prems this, of h H] obtain m1 m2 where
    "run_slice (min budget 1000000) (m, h) = (Inr Ecall, (m1, h))" "handle H (m1, h) = (Inr None, (m2, h))" "spinning m2"
    by blast
  with Suc.IH [of m2] show ?case by (simp add: mbind_def Let_def)
qed simp

section \<open>Calls as a whole\<close>

text \<open>
  C34: Every system call that returns keeps the layout of the address space: the size of memory, the
  start of the heap, the break at or above that start and below the mappings, and the mappings
  inside memory and growing only downwards.
\<close>

theorem syscalls_keep_layout:
  assumes "layout n b t m" and "handle H (m, h) = (Inr r, (m', h'))"
  shows "layout n b t m'"
  using returns_keepD [OF layout_handle, of n b t "(m, h)" H r "(m', h')"] assms by (simp add: layout_ok_def)

text \<open>
  C37: The writev call on fd 1 or 2 with up to 64 segments inside memory hands them to the host in order and returns
  the sum of their lengths.
\<close>

theorem writev_gathers:
  assumes "length (mc_mem m) < 2 ^ 63" and "fd = 1 \<or> fd = 2" and "length segs \<le> 64"
    and "iovecs_at (mc_mem m) (unat iov) segs"
    and "\<And>b l. (b, l) \<in> set segs \<Longrightarrow> unat b + unat l \<le> length (mc_mem m)"
  shows "dispatch H SYS_WRITEV (ucast fd) iov (of_nat (length segs)) (m, h) =
    (Inr (sum_list (map snd segs)),
     (m, fold (\<lambda>(b, l). write_out H fd (bytes_at (mc_mem m) (unat b) (unat l))) segs h))"
proof -
  have "min (unat (of_nat (length segs) :: u64)) 64 = length segs" using assms(3) by simp
  moreover have "(ucast (ucast fd :: u64) :: i32) = fd" by (rule bit_word_eqI) (simp add: bit_simps)
  ultimately show ?thesis
    using writev_loop_run [OF assms(1,2) _ assms(5), of iov 0 segs H 0 h] assms(4) by simp
qed

definition log_host :: "(i32 \<times> u8 list) list host_ops" where
  "log_host = \<lparr>write_out = (\<lambda>fd bs log. log @ [(fd, bs)]), clock_ns = default_clock_ns, random = default_random\<rparr>"

lemma log_host_fills: "fills log_host"
  by (simp add: fills_def log_host_def default_random_def)

definition sample_machine :: "u64 \<Rightarrow> u8 list \<Rightarrow> linux_machine" where
  "sample_machine nr mem = \<lparr>mc_cpu = set_x 17 nr cpu_new, mc_mem = mem, mc_brk = 0, mc_brk_start = 0,
     mc_mmap_top = of_nat (length mem), mc_exit_code = None, mc_icache_flush_pending = False\<rparr>"

theorem setup_stack_layout_witness:
  "\<exists>m' h' sp. setup_stack log_host 960 [[0x61]] [] \<lparr>le_entry = 0, le_phdr_addr = 0, le_phent = 0, le_phnum = 0,
     le_brk_start = 0, le_bias = 0\<rparr> (sample_machine 0 (replicate 1000 0), []) = (Inr (), (m', h')) \<and>
   xreg (mc_cpu m') 2 = sp \<and> unat sp mod 16 = 0 \<and> bytes_at (mc_mem m') (unat sp) 8 = to_le_bytes 8 (1 :: u64)"
proof -
  let ?le = "\<lparr>le_entry = 0, le_phdr_addr = 0, le_phent = 0, le_phnum = 0, le_brk_start = 0, le_bias = 0\<rparr>"
  let ?m = "sample_machine 0 (replicate 1000 0)"
  have "length (mc_mem ?m) < 2 ^ 63" "unat (960 :: u64) \<le> length (mc_mem ?m)"
    "strings_size [[0x61]] + strings_size [] + 8 * stack_count [[0x61]] [] + 48 \<le> unat (960 :: u64)"
    by (simp_all add: sample_machine_def stack_count_def)
  from setup_stack_layout [OF this log_host_fills, of ?le "[]"]
  obtain m' h' sp ap ep rp where r: "setup_stack log_host 960 [[0x61]] [] ?le (?m, []) = (Inr (), (m', h'))"
    and m': "m' = ?m\<lparr>mc_mem := mc_mem m', mc_cpu := set_x 2 sp (mc_cpu ?m)\<rparr>" and sp: "unat sp mod 16 = 0"
    and w: "bytes_at (mc_mem m') (unat sp) (8 * stack_count [[0x61]] []) =
      concat (map (to_le_bytes 8) (stack_words ap ep (auxv ?le rp)))"
    and s: "strings_at (mc_mem m') ap [[0x61]]" by (elim exE conjE)
  have "length ap = 1" using s by (auto simp: strings_at_def dest: list_all2_lengthD)
  then have "take 8 (bytes_at (mc_mem m') (unat sp) (8 * stack_count [[0x61]] [])) = to_le_bytes 8 (1 :: u64)"
    unfolding w by (simp add: stack_words_def)
  then have "bytes_at (mc_mem m') (unat sp) 8 = to_le_bytes 8 (1 :: u64)"
    by (simp add: bytes_at_def stack_count_def min_def)
  moreover have "xreg (mc_cpu m') 2 = sp" by (subst m') (simp add: set_x_def)
  ultimately show ?thesis using r sp by (intro exI conjI)
qed

theorem syscalls_keep_layout_witness:
  "\<exists>m'. handle log_host (sample_machine 172 (replicate 8 0), []) = (Inr None, (m', [])) \<and> layout 8 0 8 m'"
proof -
  have l: "layout 8 0 8 (sample_machine 172 (replicate 8 0))" by (simp add: layout_def sample_machine_def)
  have h: "handle log_host (sample_machine 172 (replicate 8 0), []) =
      (Inr None, ((sample_machine 172 (replicate 8 0))\<lparr>mc_cpu := set_x 10 42 (mc_cpu (sample_machine 172 (replicate 8 0)))\<rparr>, []))"
    by (rule spin_handle) (simp add: sample_machine_def set_x_def)
  from syscalls_keep_layout [OF l h] h show ?thesis by blast
qed

theorem sys_write_cases_witness:
  "sys_write log_host 1 1 2 (sample_machine 0 [1, 2, 3, 4], []) = (Inr 2, (sample_machine 0 [1, 2, 3, 4], [(1, [2, 3])])) \<and>
   sys_write log_host 1 0xffffffffffffffff 2 (sample_machine 0 [1, 2, 3, 4], []) = (Inl Panic, (sample_machine 0 [1, 2, 3, 4], []))"
proof -
  have l: "length (mc_mem (sample_machine 0 [1, 2, 3, 4])) < 2 ^ 63" by (simp add: sample_machine_def)
  have "bytes_at [1, 2, 3, 4 :: u8] 1 2 = [2, 3]" by (simp add: bytes_at_def)
  then show ?thesis using sys_write_cases [OF l, of log_host 1 1 2 "[]"] sys_write_cases [OF l, of log_host 1 "0xffffffffffffffff" 2 "[]"]
    by (simp add: sample_machine_def log_host_def)
qed

theorem sys_mmap_cases_witness:
  "fst (sys_mmap 0 5000 (sample_machine 0 (replicate 16384 7), ())) = Inr 8192 \<and>
   fst (sys_mmap 0 (- 8192) (sample_machine 0 (replicate 16384 7), ())) = Inl Panic \<and>
   sys_mmap 0 0 (sample_machine 0 (replicate 16384 7), ()) = (Inr EINVAL, (sample_machine 0 (replicate 16384 7), ())) \<and>
   sys_mmap 0x7fff0000 5000 (sample_machine 0 (replicate 16384 7), ()) = (Inr 0x7fff0000, (sample_machine 0 (replicate 16384 7), ()))"
proof -
  let ?m = "sample_machine 0 (replicate 16384 7)"
  have l: "layout 16384 0 16384 ?m" by (simp add: layout_def sample_machine_def)
  have p: "page_round 5000 = 8192" "page_round (- 8192) = - 8192" by (simp_all add: page_round_def PAGE_def)
  show ?thesis
    using sys_mmap_cases [OF l, of 0 5000 "()"] sys_mmap_cases [OF l, of 0 "- 8192" "()"]
      sys_mmap_cases [OF l, of 0 0 "()"] sys_mmap_cases [OF l, of "0x7fff0000" 5000 "()"] unfolding p
    by (simp add: sample_machine_def)
qed

theorem writev_gathers_witness:
  "dispatch log_host SYS_WRITEV 1 0 1 (sample_machine 0 (to_le_bytes 8 (16 :: u64) @ to_le_bytes 8 (2 :: u64) @ [65, 66]), []) =
    (Inr 2, (sample_machine 0 (to_le_bytes 8 (16 :: u64) @ to_le_bytes 8 (2 :: u64) @ [65, 66]), [(1, [65, 66])]))"
proof -
  let ?mem = "to_le_bytes 8 (16 :: u64) @ to_le_bytes 8 (2 :: u64) @ [65, 66]"
  let ?m = "sample_machine 0 ?mem"
  have "length (mc_mem ?m) < 2 ^ 63" "(1 :: i32) = 1 \<or> (1 :: i32) = 2" "length [(16 :: u64, 2 :: u64)] \<le> 64"
    "iovecs_at (mc_mem ?m) (unat (0 :: u64)) [(16, 2)]"
    "\<And>b l. (b, l) \<in> set [(16 :: u64, 2 :: u64)] \<Longrightarrow> unat b + unat l \<le> length (mc_mem ?m)"
    by (auto simp: sample_machine_def iovecs_at_def bytes_at_def)
  from writev_gathers [OF this, of log_host "[]"] show ?thesis
    by (simp add: sample_machine_def log_host_def bytes_at_def)
qed

theorem machine_run_unbounded_witness:
  "fst (machine_loop log_host 1000 5 (sample_machine 172 spin_image, [])) = Inr None"
  by (rule machine_run_unbounded) (simp_all add: spinning_def sample_machine_def set_x_def cpu_new_def)

end
