(* ===== verification/P9.thy ===== *)
theory P9
  imports Prelude
begin

text \<open>
  The 9P2000.L file server of \<open>crates/rv64-system/src/p9.rs\<close>: the backend interface \<open>FsBackend\<close> as a
  record of operations on a backend state, the fid table, the reader and writer of the wire
  format, one definition per message, \<open>dispatch\<close> and \<open>handle\<close>. A Rust \<open>String\<close> is the list of its
  UTF-8 bytes. The trace that \<open>RV_9P_DEBUG\<close> switches on (\<open>p9_dbg\<close>, \<open>op_name\<close>) is left out.
\<close>

section \<open>Constants\<close>

type_synonym bytes = "u8 list"

definition T_STATFS :: u8 where "T_STATFS = 8"
definition T_LOPEN :: u8 where "T_LOPEN = 12"
definition T_LCREATE :: u8 where "T_LCREATE = 14"
definition T_SYMLINK :: u8 where "T_SYMLINK = 16"
definition T_MKNOD :: u8 where "T_MKNOD = 18"
definition T_READLINK :: u8 where "T_READLINK = 22"
definition T_GETATTR :: u8 where "T_GETATTR = 24"
definition T_SETATTR :: u8 where "T_SETATTR = 26"
definition T_XATTRWALK :: u8 where "T_XATTRWALK = 30"
definition T_READDIR :: u8 where "T_READDIR = 40"
definition T_FSYNC :: u8 where "T_FSYNC = 50"
definition T_LOCK :: u8 where "T_LOCK = 52"
definition T_GETLOCK :: u8 where "T_GETLOCK = 54"
definition T_LINK :: u8 where "T_LINK = 70"
definition T_MKDIR :: u8 where "T_MKDIR = 72"
definition T_RENAMEAT :: u8 where "T_RENAMEAT = 74"
definition T_UNLINKAT :: u8 where "T_UNLINKAT = 76"
definition T_VERSION :: u8 where "T_VERSION = 100"
definition T_ATTACH :: u8 where "T_ATTACH = 104"
definition T_FLUSH :: u8 where "T_FLUSH = 108"
definition T_WALK :: u8 where "T_WALK = 110"
definition T_READ :: u8 where "T_READ = 116"
definition T_WRITE :: u8 where "T_WRITE = 118"
definition T_CLUNK :: u8 where "T_CLUNK = 120"
definition R_LERROR :: u8 where "R_LERROR = 7"

lemmas message_ids = T_STATFS_def T_LOPEN_def T_LCREATE_def T_SYMLINK_def T_MKNOD_def T_READLINK_def
  T_GETATTR_def T_SETATTR_def T_XATTRWALK_def T_READDIR_def T_FSYNC_def T_LOCK_def T_GETLOCK_def T_LINK_def
  T_MKDIR_def T_RENAMEAT_def T_UNLINKAT_def T_VERSION_def T_ATTACH_def T_FLUSH_def T_WALK_def T_READ_def
  T_WRITE_def T_CLUNK_def

definition QT_DIR :: u8 where "QT_DIR = 0x80"
definition QT_SYMLINK :: u8 where "QT_SYMLINK = 0x02"
definition QT_FILE :: u8 where "QT_FILE = 0x00"

definition S_IFMT :: u32 where "S_IFMT = 0xf000"
definition S_IFDIR :: u32 where "S_IFDIR = 0x4000"
definition S_IFREG :: u32 where "S_IFREG = 0x8000"
definition S_IFLNK :: u32 where "S_IFLNK = 0xa000"

definition O_TRUNC :: u32 where "O_TRUNC = 0x200"

definition SETATTR_MODE :: u32 where "SETATTR_MODE = 0x001"
definition SETATTR_UID :: u32 where "SETATTR_UID = 0x002"
definition SETATTR_GID :: u32 where "SETATTR_GID = 0x004"
definition SETATTR_SIZE :: u32 where "SETATTR_SIZE = 0x008"
definition SETATTR_ATIME :: u32 where "SETATTR_ATIME = 0x010"
definition SETATTR_MTIME :: u32 where "SETATTR_MTIME = 0x020"
definition SETATTR_ATIME_SET :: u32 where "SETATTR_ATIME_SET = 0x080"
definition SETATTR_MTIME_SET :: u32 where "SETATTR_MTIME_SET = 0x100"

definition AT_REMOVEDIR :: u32 where "AT_REMOVEDIR = 0x200"

definition P9_ENOENT :: i32 where "P9_ENOENT = 2"
definition P9_EIO :: i32 where "P9_EIO = 5"
definition P9_EEXIST :: i32 where "P9_EEXIST = 17"
definition P9_ENOTDIR :: i32 where "P9_ENOTDIR = 20"
definition P9_EISDIR :: i32 where "P9_EISDIR = 21"
definition P9_EINVAL :: i32 where "P9_EINVAL = 22"
definition P9_ENOTEMPTY :: i32 where "P9_ENOTEMPTY = 39"
definition P9_EPROTO :: i32 where "P9_EPROTO = 71"
definition P9_EOPNOTSUPP :: i32 where "P9_EOPNOTSUPP = 95"

definition MAX_MSIZE :: u32 where "MAX_MSIZE = 128 * 1024"

text \<open>The characters \<open>/\<close> and \<open>.\<close>, and the two version strings.\<close>

definition slash :: u8 where "slash = 47"
definition dot :: u8 where "dot = 46"

definition version_9p :: bytes where "version_9p = [57, 80, 50, 48, 48, 48, 46, 76]"
definition version_unknown :: bytes where "version_unknown = [117, 110, 107, 110, 111, 119, 110]"

section \<open>The backend interface\<close>

record qid =
  q_kind :: u8
  q_version :: u32
  q_path :: u64

definition qid_kind :: "u32 \<Rightarrow> u8" where
  "qid_kind mode = (if mode AND S_IFMT = S_IFDIR then QT_DIR
     else if mode AND S_IFMT = S_IFLNK then QT_SYMLINK else QT_FILE)"

definition qid_from_mode :: "u32 \<Rightarrow> u64 \<Rightarrow> qid" where
  "qid_from_mode mode ino = \<lparr>q_kind = qid_kind mode, q_version = 0, q_path = ino\<rparr>"

record attr =
  at_qid :: qid
  at_mode :: u32
  at_uid :: u32
  at_gid :: u32
  at_nlink :: u64
  at_rdev :: u64
  at_size :: u64
  at_blksize :: u64
  at_blocks :: u64
  at_atime :: "u64 \<times> u64"
  at_mtime :: "u64 \<times> u64"
  at_ctime :: "u64 \<times> u64"

record dir_entry =
  de_name :: bytes
  de_ino :: u64
  de_mode :: u32

record stat_fs =
  sf_bsize :: u32
  sf_blocks :: u64
  sf_bfree :: u64
  sf_bavail :: u64
  sf_files :: u64
  sf_ffree :: u64

text \<open>
  \<open>FsBackend\<close>: \<open>fs_read\<close> takes the buffer of the caller and returns the count with the buffer
  as the backend left it.
\<close>

record 'f fs_ops =
  fs_statfs :: "'f \<Rightarrow> stat_fs \<times> 'f"
  fs_lstat :: "bytes \<Rightarrow> ('f, i32, attr) res"
  fs_readdir :: "bytes \<Rightarrow> ('f, i32, dir_entry list) res"
  fs_open :: "bytes \<Rightarrow> u32 \<Rightarrow> ('f, i32, attr) res"
  fs_close :: "bytes \<Rightarrow> 'f \<Rightarrow> 'f"
  fs_read :: "bytes \<Rightarrow> u64 \<Rightarrow> bytes \<Rightarrow> ('f, i32, nat \<times> bytes) res"
  fs_write :: "bytes \<Rightarrow> u64 \<Rightarrow> bytes \<Rightarrow> ('f, i32, nat) res"
  fs_create :: "bytes \<Rightarrow> u32 \<Rightarrow> u32 \<Rightarrow> ('f, i32, attr) res"
  fs_mkdir :: "bytes \<Rightarrow> u32 \<Rightarrow> ('f, i32, attr) res"
  fs_symlink :: "bytes \<Rightarrow> bytes \<Rightarrow> ('f, i32, attr) res"
  fs_mknod :: "bytes \<Rightarrow> u32 \<Rightarrow> u32 \<Rightarrow> u32 \<Rightarrow> ('f, i32, attr) res"
  fs_readlink :: "bytes \<Rightarrow> ('f, i32, bytes) res"
  fs_hardlink :: "bytes \<Rightarrow> bytes \<Rightarrow> ('f, i32, unit) res"
  fs_remove :: "bytes \<Rightarrow> bool \<Rightarrow> ('f, i32, unit) res"
  fs_rename :: "bytes \<Rightarrow> bytes \<Rightarrow> ('f, i32, unit) res"
  fs_set_mode :: "bytes \<Rightarrow> u32 \<Rightarrow> ('f, i32, unit) res"
  fs_set_owner :: "bytes \<Rightarrow> u32 option \<Rightarrow> u32 option \<Rightarrow> ('f, i32, unit) res"
  fs_truncate :: "bytes \<Rightarrow> u64 \<Rightarrow> ('f, i32, unit) res"
  fs_set_times :: "bytes \<Rightarrow> (u64 \<times> u64) option \<Rightarrow> (u64 \<times> u64) option \<Rightarrow> ('f, i32, unit) res"

section \<open>Lossy UTF-8 decoding\<close>

text \<open>
  \<open>String::from_utf8_lossy\<close> of the standard library, as bytes: a well-formed sequence is kept, and
  each maximal prefix of one that is not continued properly becomes U+FFFD.
\<close>

definition replacement :: bytes where "replacement = [0xef, 0xbf, 0xbd]"

definition continuation :: "u8 \<Rightarrow> bool" where
  "continuation b \<longleftrightarrow> 0x80 \<le> b \<and> b \<le> 0xbf"

text \<open>The second bytes a lead byte admits: none of surrogates, overlong or out-of-range forms.\<close>

definition second_of :: "u8 \<Rightarrow> u8 \<Rightarrow> bool" where
  "second_of a b \<longleftrightarrow> (if a = 0xe0 then 0xa0 \<le> b \<and> b \<le> 0xbf
     else if a = 0xed then 0x80 \<le> b \<and> b \<le> 0x9f
     else if a = 0xf0 then 0x90 \<le> b \<and> b \<le> 0xbf
     else if a = 0xf4 then 0x80 \<le> b \<and> b \<le> 0x8f
     else continuation b)"

definition utf8_width :: "u8 \<Rightarrow> nat" where
  "utf8_width a = (if a < 0x80 then 1 else if 0xc2 \<le> a \<and> a \<le> 0xdf then 2
     else if 0xe0 \<le> a \<and> a \<le> 0xef then 3 else if 0xf0 \<le> a \<and> a \<le> 0xf4 then 4 else 0)"

text \<open>The number of bytes of the next sequence, and whether it is well-formed.\<close>

definition utf8_step :: "u8 \<Rightarrow> bytes \<Rightarrow> nat \<times> bool" where
  "utf8_step a bs =
     (let w = utf8_width a in
      if w = 1 then (1, True)
      else if w = 0 then (1, False)
      else case bs of
        [] \<Rightarrow> (1, False)
      | b # bs \<Rightarrow>
          if \<not> second_of a b then (1, False)
          else if w = 2 then (2, True)
          else case bs of
            [] \<Rightarrow> (2, False)
          | c # bs \<Rightarrow>
              if \<not> continuation c then (2, False)
              else if w = 3 then (3, True)
              else case bs of
                [] \<Rightarrow> (3, False)
              | d # bs \<Rightarrow> if continuation d then (4, True) else (3, False))"

lemma utf8_step_pos: "0 < fst (utf8_step a bs)"
  by (simp add: utf8_step_def Let_def split: list.splits)

function from_utf8_lossy :: "bytes \<Rightarrow> bytes" where
  "from_utf8_lossy [] = []"
| "from_utf8_lossy (a # bs) =
     (let (n, ok) = utf8_step a bs in
      (if ok then take n (a # bs) else replacement) @ from_utf8_lossy (drop n (a # bs)))"
  by pat_completeness auto
termination
proof (relation "measure length", goal_cases)
  case (2 a bs x n ok)
  then have "0 < n" using utf8_step_pos [of a bs] by (metis fst_conv)
  then show ?case by (cases n) auto
qed simp

section \<open>Wire format\<close>

record fid =
  f_path :: bytes
  f_opened :: bool
  f_dir :: "dir_entry list option"

record 'f p9_server =
  srv_fs :: 'f
  srv_tag :: bytes
  srv_msize :: u32
  srv_fids :: "u32 \<rightharpoonup> fid"

definition p9_new :: "bytes \<Rightarrow> 'f \<Rightarrow> 'f p9_server" where
  "p9_new tag fs = \<lparr>srv_fs = fs, srv_tag = tag, srv_msize = 8192, srv_fids = Map.empty\<rparr>"

text \<open>
  The reader \<open>Rd\<close> is the part of the request still to be read; \<open>take\<close> leaves it alone when
  there is not enough of it.
\<close>

type_synonym ('f, 'a) p9m = "('f p9_server \<times> bytes, i32, 'a) res"

definition rd_take :: "nat \<Rightarrow> ('f, bytes option) p9m" where
  "rd_take n = (\<lambda>(s, b). if n \<le> length b then (Inr (Some (take n b)), (s, drop n b)) else (Inr None, (s, b)))"

definition rd_u8 :: "('f, u8 option) p9m" where
  "rd_u8 = mbind (rd_take 1) (\<lambda>r. mret (map_option hd r))"

definition rd_u16 :: "('f, u16 option) p9m" where
  "rd_u16 = mbind (rd_take 2) (\<lambda>r. mret (map_option from_le_bytes r))"

definition rd_u32 :: "('f, u32 option) p9m" where
  "rd_u32 = mbind (rd_take 4) (\<lambda>r. mret (map_option from_le_bytes r))"

definition rd_u64 :: "('f, u64 option) p9m" where
  "rd_u64 = mbind (rd_take 8) (\<lambda>r. mret (map_option from_le_bytes r))"

definition rd_str :: "('f, bytes option) p9m" where
  "rd_str = mbind rd_u16 (\<lambda>r. case r of None \<Rightarrow> mret None
     | Some n \<Rightarrow> mbind (rd_take (unat n)) (\<lambda>r. mret (map_option from_utf8_lossy r)))"

text \<open>\<open>.ok_or(EPROTO)?\<close>.\<close>

definition need :: "('f, 'a option) p9m \<Rightarrow> ('f, 'a) p9m" where
  "need m = mbind m (\<lambda>r. ok_or r P9_EPROTO)"

abbreviation w_u8 :: "u8 \<Rightarrow> bytes" where "w_u8 v \<equiv> [v]"
abbreviation w_u16 :: "u16 \<Rightarrow> bytes" where "w_u16 \<equiv> to_le_bytes 2"
abbreviation w_u32 :: "u32 \<Rightarrow> bytes" where "w_u32 \<equiv> to_le_bytes 4"
abbreviation w_u64 :: "u64 \<Rightarrow> bytes" where "w_u64 \<equiv> to_le_bytes 8"

definition w_str :: "bytes \<Rightarrow> bytes" where
  "w_str s = w_u16 (of_nat (length s)) @ s"

definition w_qid :: "qid \<Rightarrow> bytes" where
  "w_qid q = w_u8 (q_kind q) @ w_u32 (q_version q) @ w_u64 (q_path q)"

definition p9_reply :: "u8 \<Rightarrow> u16 \<Rightarrow> bytes \<Rightarrow> bytes" where
  "p9_reply i tag body = w_u32 (of_nat (length body + 7)) @ [i] @ w_u16 tag @ body"

definition err_body :: "i32 \<Rightarrow> bytes" where
  "err_body e = w_u32 e"

section \<open>Paths\<close>

text \<open>\<open>rfind('/')\<close> cuts the last component; the root is its own parent.\<close>

definition parent :: "bytes \<Rightarrow> bytes" where
  "parent path = (if slash \<in> set path
     then rev (tl (dropWhile (\<lambda>c. c \<noteq> slash) (rev path))) else [])"

definition join :: "bytes \<Rightarrow> bytes \<Rightarrow> bytes option" where
  "join base name =
     (if name = [] then None
      else if name = [dot] then Some base
      else if name = [dot, dot] then Some (parent base)
      else if slash \<in> set name \<or> 0 \<in> set name then None
      else Some (base @ slash # name))"

section \<open>Fids\<close>

definition onfs :: "('f, i32, 'a) res \<Rightarrow> ('f, 'a) p9m" where
  "onfs m = (\<lambda>(s, b). case m (srv_fs s) of (r, f) \<Rightarrow> (r, (s\<lparr>srv_fs := f\<rparr>, b)))"

definition modsrv :: "('f p9_server \<Rightarrow> 'f p9_server) \<Rightarrow> ('f, unit) p9m" where
  "modsrv g = mmod (\<lambda>(s, b). (g s, b))"

definition getsrv :: "('f p9_server \<Rightarrow> 'a) \<Rightarrow> ('f, 'a) p9m" where
  "getsrv g = mget (\<lambda>(s, b). g s)"

definition set_fid :: "'f fs_ops \<Rightarrow> u32 \<Rightarrow> bytes \<Rightarrow> ('f, unit) p9m" where
  "set_fid F fid path =
     mbind (getsrv (\<lambda>s. srv_fids s fid)) (\<lambda>old.
     mbind (case old of None \<Rightarrow> mret ()
       | Some f \<Rightarrow> if f_opened f then modsrv (\<lambda>s. s\<lparr>srv_fs := fs_close F (f_path f) (srv_fs s)\<rparr>) else mret ()) (\<lambda>_.
     modsrv (\<lambda>s. s\<lparr>srv_fids := (srv_fids s)(fid \<mapsto> \<lparr>f_path = path, f_opened = False, f_dir = None\<rparr>)\<rparr>)))"

definition fid_path :: "u32 \<Rightarrow> ('f, bytes) p9m" where
  "fid_path fid = mbind (getsrv (\<lambda>s. map_option f_path (srv_fids s fid))) (\<lambda>r. ok_or r P9_EPROTO)"

definition fid_state :: "u32 \<Rightarrow> ('f, bytes \<times> bool) p9m" where
  "fid_state fid = mbind (getsrv (\<lambda>s. map_option (\<lambda>f. (f_path f, f_opened f)) (srv_fids s fid)))
     (\<lambda>r. ok_or r P9_EPROTO)"

definition p9_child :: "u32 \<Rightarrow> bytes \<Rightarrow> ('f, bytes) p9m" where
  "p9_child dfid name = mbind (fid_path dfid) (\<lambda>dir. ok_or (join dir name) P9_EINVAL)"

definition iounit :: "'f p9_server \<Rightarrow> u32" where
  "iounit s = (if srv_msize s < 24 then 0 else srv_msize s - 24)"

text \<open>\<open>count.min(self.msize.saturating_sub(11)) as usize\<close>.\<close>

definition payload_limit :: "u32 \<Rightarrow> 'f p9_server \<Rightarrow> nat" where
  "payload_limit count s = unat (min count (if srv_msize s < 11 then 0 else srv_msize s - 11))"

section \<open>Messages\<close>

definition p9_version :: "('f, bytes) p9m" where
  "p9_version =
     mbind (need rd_u32) (\<lambda>msize.
     mbind (need rd_str) (\<lambda>version.
     mbind (modsrv (\<lambda>s. s\<lparr>srv_fids := (\<lambda>_. None),
       srv_msize := (if msize < 4096 then 4096 else if MAX_MSIZE < msize then MAX_MSIZE else msize)\<rparr>)) (\<lambda>_.
     mbind (getsrv srv_msize) (\<lambda>m.
     mret (w_u32 m @ w_str (if take 8 version = version_9p then version_9p else version_unknown))))))"

definition p9_attach :: "'f fs_ops \<Rightarrow> ('f, bytes) p9m" where
  "p9_attach F =
     mbind (need rd_u32) (\<lambda>fid.
     mbind (need rd_u32) (\<lambda>_.
     mbind (need rd_str) (\<lambda>_.
     mbind (need rd_str) (\<lambda>_.
     mbind rd_u32 (\<lambda>_.
     mbind (onfs (fs_lstat F [])) (\<lambda>attr.
     mbind (set_fid F fid []) (\<lambda>_.
     mret (w_qid (at_qid attr)))))))))"

primrec walk_names :: "'f fs_ops \<Rightarrow> nat \<Rightarrow> bytes \<Rightarrow> qid list \<Rightarrow> ('f, bytes \<times> qid list) p9m" where
  "walk_names F 0 path qids = mret (path, qids)"
| "walk_names F (Suc n) path qids =
     mbind (need rd_str) (\<lambda>name.
     case join path name of
       None \<Rightarrow> mret (path, qids)
     | Some p \<Rightarrow> mtry (onfs (fs_lstat F p))
         (\<lambda>attr. walk_names F n p (qids @ [at_qid attr])) (\<lambda>_. mret (path, qids)))"

definition p9_walk :: "'f fs_ops \<Rightarrow> ('f, bytes) p9m" where
  "p9_walk F =
     mbind (need rd_u32) (\<lambda>fid.
     mbind (need rd_u32) (\<lambda>newfid.
     mbind (need rd_u16) (\<lambda>nwname.
     mbind (fid_path fid) (\<lambda>path.
     mbind (walk_names F (unat nwname) path []) (\<lambda>(path, qids).
     mbind (set_fid F newfid path) (\<lambda>_.
     mret (w_u16 (of_nat (length qids)) @ concat (map w_qid qids))))))))"

definition p9_clunk :: "'f fs_ops \<Rightarrow> ('f, bytes) p9m" where
  "p9_clunk F =
     mbind (need rd_u32) (\<lambda>fid.
     mbind (getsrv (\<lambda>s. srv_fids s fid)) (\<lambda>old.
     mbind (modsrv (\<lambda>s. s\<lparr>srv_fids := (srv_fids s)(fid := None)\<rparr>)) (\<lambda>_.
     mbind (case old of None \<Rightarrow> mret ()
       | Some f \<Rightarrow> if f_opened f then modsrv (\<lambda>s. s\<lparr>srv_fs := fs_close F (f_path f) (srv_fs s)\<rparr>) else mret ())
       (\<lambda>_. mret []))))"

definition p9_statfs :: "'f fs_ops \<Rightarrow> ('f, bytes) p9m" where
  "p9_statfs F =
     mbind (need rd_u32) (\<lambda>_.
     mbind (onfs (\<lambda>f. case fs_statfs F f of (st, f) \<Rightarrow> (Inr st, f))) (\<lambda>st.
     mret (w_u32 0 @ w_u32 (sf_bsize st) @ w_u64 (sf_blocks st) @ w_u64 (sf_bfree st) @ w_u64 (sf_bavail st)
       @ w_u64 (sf_files st) @ w_u64 (sf_ffree st) @ w_u64 0 @ w_u32 255)))"

definition p9_getattr :: "'f fs_ops \<Rightarrow> ('f, bytes) p9m" where
  "p9_getattr F =
     mbind (need rd_u32) (\<lambda>fid.
     mbind (need rd_u64) (\<lambda>msk.
     mbind (fid_path fid) (\<lambda>path.
     mbind (onfs (fs_lstat F path)) (\<lambda>a.
     mret (w_u64 msk @ w_qid (at_qid a) @ w_u32 (at_mode a) @ w_u32 (at_uid a) @ w_u32 (at_gid a)
       @ w_u64 (at_nlink a) @ w_u64 (at_rdev a) @ w_u64 (at_size a) @ w_u64 (at_blksize a) @ w_u64 (at_blocks a)
       @ w_u64 (fst (at_atime a)) @ w_u64 (snd (at_atime a)) @ w_u64 (fst (at_mtime a)) @ w_u64 (snd (at_mtime a))
       @ w_u64 (fst (at_ctime a)) @ w_u64 (snd (at_ctime a)) @ w_u64 0 @ w_u64 0 @ w_u64 0 @ w_u64 0)))))"

definition p9_setattr :: "'f fs_ops \<Rightarrow> ('f, bytes) p9m" where
  "p9_setattr F =
     mbind (need rd_u32) (\<lambda>fid.
     mbind (need rd_u32) (\<lambda>valid.
     mbind (need rd_u32) (\<lambda>mode.
     mbind (need rd_u32) (\<lambda>uid.
     mbind (need rd_u32) (\<lambda>gid.
     mbind (need rd_u64) (\<lambda>size.
     mbind (need rd_u64) (\<lambda>a0. mbind (need rd_u64) (\<lambda>a1.
     mbind (need rd_u64) (\<lambda>m0. mbind (need rd_u64) (\<lambda>m1.
     mbind (fid_path fid) (\<lambda>path.
     mbind (if valid AND (SETATTR_UID OR SETATTR_GID) \<noteq> 0
       then onfs (fs_set_owner F path (if valid AND SETATTR_UID \<noteq> 0 then Some uid else None)
         (if valid AND SETATTR_GID \<noteq> 0 then Some gid else None))
       else mret ()) (\<lambda>_.
     mbind (if valid AND SETATTR_SIZE \<noteq> 0 then onfs (fs_truncate F path size) else mret ()) (\<lambda>_.
     mbind (if valid AND (SETATTR_ATIME OR SETATTR_MTIME) \<noteq> 0
       then onfs (fs_set_times F path
         (if valid AND SETATTR_ATIME \<noteq> 0 \<and> valid AND SETATTR_ATIME_SET \<noteq> 0 then Some (a0, a1) else None)
         (if valid AND SETATTR_MTIME \<noteq> 0 \<and> valid AND SETATTR_MTIME_SET \<noteq> 0 then Some (m0, m1) else None))
       else mret ()) (\<lambda>_.
     mbind (if valid AND SETATTR_MODE \<noteq> 0 then onfs (fs_set_mode F path mode) else mret ()) (\<lambda>_.
     mret [])))))))))))))))"

definition p9_lopen :: "'f fs_ops \<Rightarrow> ('f, bytes) p9m" where
  "p9_lopen F =
     mbind (need rd_u32) (\<lambda>fid.
     mbind (need rd_u32) (\<lambda>fl.
     mbind (fid_path fid) (\<lambda>path.
     mbind (onfs (fs_open F path fl)) (\<lambda>attr.
     mbind (getsrv (\<lambda>s. srv_fids s fid)) (\<lambda>f.
     mbind (ok_or f P9_EPROTO) (\<lambda>f.
     mbind (modsrv (\<lambda>s. s\<lparr>srv_fids := (srv_fids s)(fid \<mapsto> f\<lparr>f_opened := True, f_dir := None\<rparr>)\<rparr>)) (\<lambda>_.
     mbind (getsrv iounit) (\<lambda>n.
     mret (w_qid (at_qid attr) @ w_u32 n)))))))))"

definition p9_lcreate :: "'f fs_ops \<Rightarrow> ('f, bytes) p9m" where
  "p9_lcreate F =
     mbind (need rd_u32) (\<lambda>fid.
     mbind (need rd_str) (\<lambda>name.
     mbind (need rd_u32) (\<lambda>fl.
     mbind (need rd_u32) (\<lambda>mode.
     mbind (need rd_u32) (\<lambda>_.
     mbind (fid_path fid) (\<lambda>dir.
     mbind (ok_or (join dir name) P9_EINVAL) (\<lambda>path.
     mbind (onfs (fs_create F path fl mode)) (\<lambda>attr.
     mbind (getsrv (\<lambda>s. srv_fids s fid)) (\<lambda>f.
     mbind (ok_or f P9_EPROTO) (\<lambda>f.
     mbind (modsrv (\<lambda>s. s\<lparr>srv_fids := (srv_fids s)(fid \<mapsto> \<lparr>f_path = path, f_opened = True, f_dir = None\<rparr>)\<rparr>)) (\<lambda>_.
     mbind (getsrv iounit) (\<lambda>n.
     mret (w_qid (at_qid attr) @ w_u32 n)))))))))))))"

definition p9_read :: "'f fs_ops \<Rightarrow> ('f, bytes) p9m" where
  "p9_read F =
     mbind (need rd_u32) (\<lambda>fid.
     mbind (need rd_u64) (\<lambda>offset.
     mbind (need rd_u32) (\<lambda>count.
     mbind (fid_state fid) (\<lambda>(path, opened).
     if \<not> opened then throw P9_EPROTO
     else
       mbind (getsrv (payload_limit count)) (\<lambda>count.
       mbind (onfs (fs_read F path offset (replicate count 0))) (\<lambda>(n, buf).
       if n \<le> length buf then mret (w_u32 (of_nat n) @ take n buf) else panic))))))"

definition p9_write :: "'f fs_ops \<Rightarrow> ('f, bytes) p9m" where
  "p9_write F =
     mbind (need rd_u32) (\<lambda>fid.
     mbind (need rd_u64) (\<lambda>offset.
     mbind (need rd_u32) (\<lambda>count.
     mbind (need (rd_take (unat count))) (\<lambda>data.
     mbind (fid_state fid) (\<lambda>(path, opened).
     if \<not> opened then throw P9_EPROTO
     else mbind (onfs (fs_write F path offset data)) (\<lambda>n. mret (w_u32 (of_nat n))))))))"

text \<open>One entry of a \<open>Treaddir\<close> reply, and the loop that stops before \<open>count\<close> is exceeded.\<close>

definition w_entry :: "nat \<Rightarrow> dir_entry \<Rightarrow> bytes" where
  "w_entry i e = w_qid (qid_from_mode (de_mode e) (de_ino e)) @ w_u64 (of_nat i + 1)
     @ w_u8 (ucast (drop_bit 12 (de_mode e AND S_IFMT))) @ w_str (de_name e)"

fun readdir_emit :: "nat \<Rightarrow> nat \<Rightarrow> dir_entry list \<Rightarrow> bytes \<Rightarrow> bytes" where
  "readdir_emit count i [] out = out"
| "readdir_emit count i (e # es) out =
     (if length out + (13 + 8 + 1 + 2 + length (de_name e)) > count then out
      else readdir_emit count (i + 1) es (out @ w_entry i e))"

definition p9_snapshot :: "'f fs_ops \<Rightarrow> u32 \<Rightarrow> bytes \<Rightarrow> ('f, unit) p9m" where
  "p9_snapshot F fid path =
     mbind (onfs (fs_lstat F path)) (\<lambda>self_attr.
     mbind (onfs (fs_lstat F (parent path))) (\<lambda>parent_attr.
     mbind (onfs (fs_readdir F path)) (\<lambda>es.
     mbind (getsrv (\<lambda>s. srv_fids s fid)) (\<lambda>f.
     mbind (ok_or f P9_EPROTO) (\<lambda>f.
     modsrv (\<lambda>s. s\<lparr>srv_fids := (srv_fids s)(fid \<mapsto> f\<lparr>f_dir := Some
       (\<lparr>de_name = [dot], de_ino = q_path (at_qid self_attr), de_mode = at_mode self_attr\<rparr>
        # \<lparr>de_name = [dot, dot], de_ino = q_path (at_qid parent_attr), de_mode = at_mode parent_attr\<rparr> # es)\<rparr>)\<rparr>))))))"

definition p9_readdir :: "'f fs_ops \<Rightarrow> u32 \<Rightarrow> u64 \<Rightarrow> u32 \<Rightarrow> ('f, bytes) p9m" where
  "p9_readdir F fid offset count =
     mbind (getsrv (\<lambda>s. srv_fids s fid)) (\<lambda>f.
     mbind (ok_or f P9_EPROTO) (\<lambda>f.
     if \<not> f_opened f then throw P9_EPROTO
     else
       mbind (if offset = 0 \<or> f_dir f = None then p9_snapshot F fid (f_path f) else mret ()) (\<lambda>_.
       mbind (getsrv (\<lambda>s. srv_fids s fid)) (\<lambda>f.
       mbind (unwrap f) (\<lambda>f.
       mbind (ok_or (f_dir f) P9_EIO) (\<lambda>es.
       mbind (getsrv (payload_limit count)) (\<lambda>count.
       mret (readdir_emit count (unat offset) (drop (unat offset) es) [])))))))) "

definition p9_readdir_msg :: "'f fs_ops \<Rightarrow> ('f, bytes) p9m" where
  "p9_readdir_msg F =
     mbind (need rd_u32) (\<lambda>fid.
     mbind (need rd_u64) (\<lambda>offset.
     mbind (need rd_u32) (\<lambda>count.
     mbind (p9_readdir F fid offset count) (\<lambda>body.
     mret (w_u32 (of_nat (length body)) @ body)))))"

definition p9_mkdir :: "'f fs_ops \<Rightarrow> ('f, bytes) p9m" where
  "p9_mkdir F =
     mbind (need rd_u32) (\<lambda>dfid.
     mbind (need rd_str) (\<lambda>name.
     mbind (need rd_u32) (\<lambda>mode.
     mbind (need rd_u32) (\<lambda>_.
     mbind (p9_child dfid name) (\<lambda>path.
     mbind (onfs (fs_mkdir F path mode)) (\<lambda>attr.
     mret (w_qid (at_qid attr))))))))"

definition p9_unlinkat :: "'f fs_ops \<Rightarrow> ('f, bytes) p9m" where
  "p9_unlinkat F =
     mbind (need rd_u32) (\<lambda>dfid.
     mbind (need rd_str) (\<lambda>name.
     mbind (need rd_u32) (\<lambda>fl.
     mbind (p9_child dfid name) (\<lambda>path.
     mbind (onfs (fs_remove F path (fl AND AT_REMOVEDIR \<noteq> 0))) (\<lambda>_. mret [])))))"

definition p9_renameat :: "'f fs_ops \<Rightarrow> ('f, bytes) p9m" where
  "p9_renameat F =
     mbind (need rd_u32) (\<lambda>olddirfid.
     mbind (need rd_str) (\<lambda>oldname.
     mbind (need rd_u32) (\<lambda>newdirfid.
     mbind (need rd_str) (\<lambda>newname.
     mbind (p9_child olddirfid oldname) (\<lambda>from.
     mbind (p9_child newdirfid newname) (\<lambda>to.
     mbind (onfs (fs_rename F from to)) (\<lambda>_. mret [])))))))"

definition p9_symlink :: "'f fs_ops \<Rightarrow> ('f, bytes) p9m" where
  "p9_symlink F =
     mbind (need rd_u32) (\<lambda>dfid.
     mbind (need rd_str) (\<lambda>name.
     mbind (need rd_str) (\<lambda>target.
     mbind (need rd_u32) (\<lambda>_.
     mbind (p9_child dfid name) (\<lambda>path.
     mbind (onfs (fs_symlink F path target)) (\<lambda>attr.
     mret (w_qid (at_qid attr))))))))"

definition p9_readlink :: "'f fs_ops \<Rightarrow> ('f, bytes) p9m" where
  "p9_readlink F =
     mbind (need rd_u32) (\<lambda>fid.
     mbind (fid_path fid) (\<lambda>path.
     mbind (onfs (fs_readlink F path)) (\<lambda>target. mret (w_str target))))"

definition p9_link :: "'f fs_ops \<Rightarrow> ('f, bytes) p9m" where
  "p9_link F =
     mbind (need rd_u32) (\<lambda>dfid.
     mbind (need rd_u32) (\<lambda>fid.
     mbind (need rd_str) (\<lambda>name.
     mbind (fid_path fid) (\<lambda>existing.
     mbind (p9_child dfid name) (\<lambda>new.
     mbind (onfs (fs_hardlink F existing new)) (\<lambda>_. mret []))))))"

definition p9_mknod :: "'f fs_ops \<Rightarrow> ('f, bytes) p9m" where
  "p9_mknod F =
     mbind (need rd_u32) (\<lambda>dfid.
     mbind (need rd_str) (\<lambda>name.
     mbind (need rd_u32) (\<lambda>mode.
     mbind (need rd_u32) (\<lambda>major.
     mbind (need rd_u32) (\<lambda>minor.
     mbind (need rd_u32) (\<lambda>_.
     mbind (p9_child dfid name) (\<lambda>path.
     mbind (onfs (fs_mknod F path mode major minor)) (\<lambda>attr.
     mret (w_qid (at_qid attr))))))))))"

definition p9_lock :: "('f, bytes) p9m" where
  "p9_lock = mbind (need rd_u32) (\<lambda>_. mret (w_u8 0))"

definition p9_getlock :: "('f, bytes) p9m" where
  "p9_getlock =
     mbind (need rd_u32) (\<lambda>_.
     mbind (need rd_u8) (\<lambda>_.
     mbind (need rd_u64) (\<lambda>start.
     mbind (need rd_u64) (\<lambda>len.
     mbind (need rd_u32) (\<lambda>proc_id.
     mbind (need rd_str) (\<lambda>client_id.
     mret (w_u8 2 @ w_u64 start @ w_u64 len @ w_u32 proc_id @ w_str client_id)))))))"

section \<open>Requests\<close>

definition p9_dispatch :: "'f fs_ops \<Rightarrow> u8 \<Rightarrow> ('f, bytes) p9m" where
  "p9_dispatch F i =
     (if i = T_VERSION then p9_version
      else if i = T_ATTACH then p9_attach F
      else if i = T_WALK then p9_walk F
      else if i = T_CLUNK then p9_clunk F
      else if i = T_STATFS then p9_statfs F
      else if i = T_GETATTR then p9_getattr F
      else if i = T_SETATTR then p9_setattr F
      else if i = T_LOPEN then p9_lopen F
      else if i = T_LCREATE then p9_lcreate F
      else if i = T_READ then p9_read F
      else if i = T_WRITE then p9_write F
      else if i = T_READDIR then p9_readdir_msg F
      else if i = T_MKDIR then p9_mkdir F
      else if i = T_UNLINKAT then p9_unlinkat F
      else if i = T_RENAMEAT then p9_renameat F
      else if i = T_SYMLINK then p9_symlink F
      else if i = T_READLINK then p9_readlink F
      else if i = T_LINK then p9_link F
      else if i = T_MKNOD then p9_mknod F
      else if i = T_FSYNC \<or> i = T_FLUSH then mret []
      else if i = T_XATTRWALK then throw P9_EOPNOTSUPP
      else if i = T_LOCK then p9_lock
      else if i = T_GETLOCK then p9_getlock
      else throw P9_EOPNOTSUPP)"

text \<open>The three header reads happen before they are tested together.\<close>

definition p9_answer :: "'f fs_ops \<Rightarrow> ('f, bytes) p9m" where
  "p9_answer F =
     mbind rd_u32 (\<lambda>size.
     mbind rd_u8 (\<lambda>i.
     mbind rd_u16 (\<lambda>tag.
     case (size, i, tag) of
       (Some _, Some i, Some tag) \<Rightarrow>
         mtry (p9_dispatch F i) (\<lambda>body. mret (p9_reply (i + 1) tag body))
           (\<lambda>e. mret (p9_reply R_LERROR tag (err_body e)))
     | _ \<Rightarrow> mret (p9_reply R_LERROR 0 (err_body P9_EPROTO)))))"

definition p9_handle :: "'f fs_ops \<Rightarrow> bytes \<Rightarrow> ('f p9_server, i32, bytes) res" where
  "p9_handle F req s = (case p9_answer F (s, req) of (r, (s, _)) \<Rightarrow> (r, s))"

end
