(* ===== verification/MemFs.thy ===== *)
theory MemFs
  imports P9 "HOL-Library.List_Lexorder"
begin

text \<open>
  The in-memory backend of the 9P server, \<open>MemFs\<close> of \<open>crates/rv64-system/src/p9fs.rs\<close>: a vector of
  nodes addressed by index, directories as sorted maps from names to indices, the operations of
  \<open>FsBackend\<close> and the tar loader. An index out of range is a panic, and so is growing a file
  past \<open>isize::MAX\<close> bytes. \<open>HostFs\<close>, which forwards every operation to \<open>std::fs\<close>, is not modelled.
\<close>

section \<open>Ordered maps\<close>

text \<open>\<open>BTreeMap<String, usize>\<close>: an association list sorted by key.\<close>

fun bt_insert :: "'k::linorder \<Rightarrow> 'v \<Rightarrow> ('k \<times> 'v) list \<Rightarrow> ('k \<times> 'v) list" where
  "bt_insert k v [] = [(k, v)]"
| "bt_insert k v ((k', v') # m) =
     (if k < k' then (k, v) # (k', v') # m else if k = k' then (k, v) # m else (k', v') # bt_insert k v m)"

definition bt_remove :: "'k \<Rightarrow> ('k \<times> 'v) list \<Rightarrow> ('k \<times> 'v) list" where
  "bt_remove k m = filter (\<lambda>(k', _). k' \<noteq> k) m"

lemma map_of_bt_insert: "map_of (bt_insert k v m) = (map_of m)(k \<mapsto> v)"
  by (induction k v m rule: bt_insert.induct) (auto simp: fun_eq_iff)

lemma map_of_bt_remove: "map_of (bt_remove k m) = (map_of m)(k := None)"
  by (induction m) (auto simp: bt_remove_def fun_eq_iff)

lemma bt_insert_sorted:
  "sorted_wrt (<) (map fst m) \<Longrightarrow> sorted_wrt (<) (map fst (bt_insert k v m))"
proof (induction k v m rule: bt_insert.induct)
  case (2 k v k' v' m)
  have "fst ` set (bt_insert k v m) = insert k (fst ` set m)"
    by (induction k v m rule: bt_insert.induct) auto
  with 2 show ?case by (auto simp: less_le not_less dest: order.trans)
qed simp

section \<open>Nodes\<close>

datatype body = BDir "(bytes \<times> nat) list" | BFile bytes | BLink bytes | BSpecial u64 | BFreed

record node =
  n_body :: body
  n_mode :: u32
  n_uid :: u32
  n_gid :: u32
  n_atime :: "u64 \<times> u64"
  n_mtime :: "u64 \<times> u64"
  n_ctime :: "u64 \<times> u64"

record memfs =
  mf_nodes :: "node list"
  mf_capacity :: u64

type_synonym 'a memm = "(memfs, i32, 'a) res"

definition new_node :: "body \<Rightarrow> u32 \<Rightarrow> node" where
  "new_node b mode = \<lparr>n_body = b, n_mode = mode, n_uid = 0, n_gid = 0, n_atime = (0, 0), n_mtime = (0, 0), n_ctime = (0, 0)\<rparr>"

definition memfs_new :: memfs where
  "memfs_new = \<lparr>mf_nodes = [new_node (BDir []) (S_IFDIR OR 0x1ed)], mf_capacity = 64 * 2 ^ 20\<rparr>"

definition set_capacity :: "u64 \<Rightarrow> memfs \<Rightarrow> memfs" where
  "set_capacity b f = f\<lparr>mf_capacity := b\<rparr>"

text \<open>\<open>&self.nodes[i]\<close> and an assignment through \<open>&mut self.nodes[i]\<close>.\<close>

definition node_at :: "nat \<Rightarrow> node memm" where
  "node_at i = mbind (mget (\<lambda>f. if i < length (mf_nodes f) then Some (mf_nodes f ! i) else None)) unwrap"

definition set_node :: "nat \<Rightarrow> (node \<Rightarrow> node) \<Rightarrow> unit memm" where
  "set_node i g = mbind (node_at i) (\<lambda>n. mmod (\<lambda>f. f\<lparr>mf_nodes := (mf_nodes f)[i := g n]\<rparr>))"

definition mf_alloc :: "body \<Rightarrow> u32 \<Rightarrow> nat memm" where
  "mf_alloc b mode = mbind (mmod (\<lambda>f. f\<lparr>mf_nodes := mf_nodes f @ [new_node b mode]\<rparr>)) (\<lambda>_.
     mget (\<lambda>f. length (mf_nodes f) - 1))"

definition child_idx :: "nat \<Rightarrow> bytes \<Rightarrow> nat option memm" where
  "child_idx dir name = mbind (node_at dir) (\<lambda>n. case n_body n of
     BDir m \<Rightarrow> mret (map_of m name) | _ \<Rightarrow> mret None)"

definition link_child :: "nat \<Rightarrow> bytes \<Rightarrow> nat \<Rightarrow> unit memm" where
  "link_child dir name node = mbind (node_at dir) (\<lambda>n. case n_body n of
     BDir m \<Rightarrow> set_node dir (\<lambda>n. n\<lparr>n_body := BDir (bt_insert name node m)\<rparr>) | _ \<Rightarrow> mret ())"

section \<open>Paths\<close>

fun split_at :: "u8 \<Rightarrow> bytes \<Rightarrow> bytes list" where
  "split_at c [] = [[]]"
| "split_at c (b # bs) = (if b = c then [] # split_at c bs
     else case split_at c bs of [] \<Rightarrow> [[b]] | w # ws \<Rightarrow> (b # w) # ws)"

definition components :: "bytes \<Rightarrow> bytes list" where
  "components path = filter (\<lambda>c. c \<noteq> [] \<and> c \<noteq> [dot]) (split_at slash path)"

fun descend :: "bytes list \<Rightarrow> nat \<Rightarrow> nat memm" where
  "descend [] i = mret i"
| "descend (c # cs) i = mbind (node_at i) (\<lambda>n. case n_body n of
     BDir m \<Rightarrow> mbind (ok_or (map_of m c) P9_ENOENT) (descend cs)
   | _ \<Rightarrow> throw P9_ENOTDIR)"

definition mf_lookup :: "bytes \<Rightarrow> nat memm" where
  "mf_lookup path = descend (components path) 0"

definition mf_split :: "bytes \<Rightarrow> (nat \<times> bytes) memm" where
  "mf_split path =
     (let comps = components path in
      if comps = [] then throw P9_EINVAL
      else mbind (descend (butlast comps) 0) (\<lambda>i. mret (i, last comps)))"

text \<open>The parents of a path, created where they are missing.\<close>

fun make_dirs :: "bytes list \<Rightarrow> nat \<Rightarrow> nat memm" where
  "make_dirs [] i = mret i"
| "make_dirs (c # cs) i = mbind (child_idx i c) (\<lambda>r. case r of
     Some j \<Rightarrow> make_dirs cs j
   | None \<Rightarrow> mbind (mf_alloc (BDir []) (S_IFDIR OR 0x1ed)) (\<lambda>new.
       mbind (link_child i c new) (\<lambda>_. make_dirs cs new)))"

definition add_dir :: "bytes \<Rightarrow> nat memm" where
  "add_dir path = make_dirs (components path) 0"

definition ensure_parent :: "bytes \<Rightarrow> (nat \<times> bytes) memm" where
  "ensure_parent path =
     (let comps = components path in
      if comps = [] then panic else mbind (make_dirs (butlast comps) 0) (\<lambda>i. mret (i, last comps)))"

definition add_file :: "bytes \<Rightarrow> bytes \<Rightarrow> u32 \<Rightarrow> unit memm" where
  "add_file path data mode =
     mbind (ensure_parent path) (\<lambda>(dir, name).
     mbind (mf_alloc (BFile data) (S_IFREG OR (mode AND 0xfff))) (\<lambda>node. link_child dir name node))"

definition add_symlink :: "bytes \<Rightarrow> bytes \<Rightarrow> unit memm" where
  "add_symlink path target =
     mbind (ensure_parent path) (\<lambda>(dir, name).
     mbind (mf_alloc (BLink target) (S_IFLNK OR 0x1ff)) (\<lambda>node. link_child dir name node))"

section \<open>Tar archives\<close>

definition octal :: "bytes \<Rightarrow> u64" where
  "octal field = fold (\<lambda>b acc. acc * 8 + ucast (b - 48)) (takeWhile (\<lambda>b. 48 \<le> b \<and> b \<le> 57) field) 0"

definition cstr :: "bytes \<Rightarrow> bytes" where
  "cstr b = from_utf8_lossy (takeWhile (\<lambda>c. c \<noteq> 0) b)"

definition field_at :: "nat \<Rightarrow> nat \<Rightarrow> bytes \<Rightarrow> bytes" where
  "field_at i j b = take (j - i) (drop i b)"

definition tar_name :: "bytes \<Rightarrow> bytes" where
  "tar_name hdr =
     (let base = cstr (field_at 0 100 hdr);
          prefix = (if field_at 257 262 hdr = [117, 115, 116, 97, 114] then cstr (field_at 345 500 hdr) else []) in
      if prefix = [] then base else prefix @ slash # base)"

text \<open>
  \<open>load_tar\<close>. The size field has twelve digits, so no sum here reaches \<open>2^64\<close>, and a header that
  is read has its 512 bytes.
\<close>

function tar_loop :: "bytes \<Rightarrow> nat \<Rightarrow> nat \<Rightarrow> bytes option \<Rightarrow> nat memm" where
  "tar_loop tar pos loaded long_name =
     (if \<not> pos + 512 \<le> length tar then mret loaded
      else
        let hdr = field_at pos (pos + 512) tar in
        if \<forall>b\<in>set hdr. b = 0 then mret loaded
        else
          let size = unat (octal (field_at 124 136 hdr));
              mode = (ucast (octal (field_at 100 108 hdr)) :: u32);
              kind = hdr ! 156; data_start = pos + 512;
              data_end = min (data_start + size) (length tar);
              next = data_start + (size + 511) div 512 * 512;
              data = field_at data_start data_end tar;
              name = (case long_name of Some n \<Rightarrow> n | None \<Rightarrow> tar_name hdr) in
          if kind = 76 then tar_loop tar next loaded (Some (cstr data))
          else if kind = 53 then mbind (add_dir name) (\<lambda>_. tar_loop tar next (loaded + 1) None)
          else if kind = 48 \<or> kind = 0 then
            mbind (add_file name data mode) (\<lambda>_. tar_loop tar next (loaded + 1) None)
          else if kind = 50 then
            mbind (add_symlink name (cstr (field_at 157 257 hdr))) (\<lambda>_. tar_loop tar next (loaded + 1) None)
          else tar_loop tar next loaded None)"
  by pat_completeness auto
termination by (relation "measure (\<lambda>(tar, pos, _, _). length tar - pos)") auto

declare tar_loop.simps [simp del]

definition load_tar :: "bytes \<Rightarrow> nat memm" where
  "load_tar tar = tar_loop tar 0 0 None"

section \<open>Attributes\<close>

definition node_size :: "node \<Rightarrow> u64" where
  "node_size n = (case n_body n of BFile d \<Rightarrow> of_nat (length d) | BLink t \<Rightarrow> of_nat (length t)
     | BDir m \<Rightarrow> of_nat (length m) * 32 | _ \<Rightarrow> 0)"

definition node_rdev :: "node \<Rightarrow> u64" where
  "node_rdev n = (case n_body n of BSpecial r \<Rightarrow> r | _ \<Rightarrow> 0)"

definition mf_attr_of :: "nat \<Rightarrow> attr memm" where
  "mf_attr_of i = mbind (node_at i) (\<lambda>n.
     let size = node_size n in
     mret \<lparr>at_qid = qid_from_mode (n_mode n) (of_nat i + 1), at_mode = n_mode n, at_uid = n_uid n, at_gid = n_gid n,
       at_nlink = (if n_mode n AND S_IFMT = S_IFDIR then 2 else 1), at_rdev = node_rdev n, at_size = size,
       at_blksize = 4096, at_blocks = size div 512 + (if size mod 512 = 0 then 0 else 1),
       at_atime = n_atime n, at_mtime = n_mtime n, at_ctime = n_ctime n\<rparr>)"

definition create_at :: "bytes \<Rightarrow> body \<Rightarrow> u32 \<Rightarrow> attr memm" where
  "create_at path b mode =
     mbind (mf_split path) (\<lambda>(dir, name).
     mbind (child_idx dir name) (\<lambda>r.
     if r \<noteq> None then throw P9_EEXIST
     else
       mbind (node_at dir) (\<lambda>n.
       case n_body n of
         BDir _ \<Rightarrow>
           mbind (mf_alloc b mode) (\<lambda>node.
           mbind (link_child dir name node) (\<lambda>_. mf_attr_of node))
       | _ \<Rightarrow> throw P9_ENOTDIR)))"

definition bytes_used :: "memfs \<Rightarrow> u64" where
  "bytes_used f = sum_list (map (\<lambda>n. case n_body n of BFile d \<Rightarrow> of_nat (length d) | _ \<Rightarrow> 0) (mf_nodes f))"

definition makedev :: "u32 \<Rightarrow> u32 \<Rightarrow> u64" where
  "makedev major minor =
     (let ma = ucast major; mi = ucast minor in
      push_bit 32 (ma AND 0xfffff000) OR push_bit 8 (ma AND 0xfff) OR push_bit 12 (mi AND 0xffffff00) OR (mi AND 0xff))"

section \<open>The operations\<close>

definition mf_statfs :: "memfs \<Rightarrow> stat_fs \<times> memfs" where
  "mf_statfs f =
     (let used = bytes_used f; blocks = mf_capacity f div 4096;
          free = (if mf_capacity f < used then 0 else mf_capacity f - used) div 4096 in
      (\<lparr>sf_bsize = 4096, sf_blocks = blocks, sf_bfree = free, sf_bavail = free,
        sf_files = of_nat (length (mf_nodes f)), sf_ffree = push_bit 20 1\<rparr>, f))"

definition mf_lstat :: "bytes \<Rightarrow> attr memm" where
  "mf_lstat path = mbind (mf_lookup path) mf_attr_of"

fun mf_list :: "(bytes \<times> nat) list \<Rightarrow> dir_entry list memm" where
  "mf_list [] = mret []"
| "mf_list ((name, i) # m) = mbind (node_at i) (\<lambda>n. mbind (mf_list m) (\<lambda>es.
     mret (\<lparr>de_name = name, de_ino = of_nat i + 1, de_mode = n_mode n\<rparr> # es)))"

definition mf_readdir :: "bytes \<Rightarrow> dir_entry list memm" where
  "mf_readdir path = mbind (mf_lookup path) (\<lambda>i. mbind (node_at i) (\<lambda>n. case n_body n of
     BDir m \<Rightarrow> mf_list m | _ \<Rightarrow> throw P9_ENOTDIR))"

definition mf_open :: "bytes \<Rightarrow> u32 \<Rightarrow> attr memm" where
  "mf_open path fl = mbind (mf_lookup path) (\<lambda>i.
     mbind (if fl AND O_TRUNC \<noteq> 0 then mbind (node_at i) (\<lambda>n. case n_body n of
         BFile _ \<Rightarrow> set_node i (\<lambda>n. n\<lparr>n_body := BFile []\<rparr>) | _ \<Rightarrow> mret ()) else mret ()) (\<lambda>_.
     mf_attr_of i))"

definition mf_read :: "bytes \<Rightarrow> u64 \<Rightarrow> bytes \<Rightarrow> (nat \<times> bytes) memm" where
  "mf_read path offset buf = mbind (mf_lookup path) (\<lambda>i. mbind (node_at i) (\<lambda>n. case n_body n of
     BFile d \<Rightarrow>
       let start = min (unat offset) (length d); k = min (length buf) (length d - start) in
       mret (k, take k (drop start d) @ drop k buf)
   | BDir _ \<Rightarrow> throw P9_EISDIR
   | _ \<Rightarrow> throw P9_EINVAL))"

text \<open>\<open>Vec::resize(n, 0)\<close>.\<close>

definition vec_resize :: "nat \<Rightarrow> bytes \<Rightarrow> bytes option" where
  "vec_resize n d = (if n \<le> length d then Some (take n d)
     else if n < 2 ^ 63 then Some (d @ replicate (n - length d) 0) else None)"

definition mf_write :: "bytes \<Rightarrow> u64 \<Rightarrow> bytes \<Rightarrow> nat memm" where
  "mf_write path offset data = mbind (mf_lookup path) (\<lambda>i. mbind (node_at i) (\<lambda>n. case n_body n of
     BFile d \<Rightarrow>
       let e = offset + of_nat (length data) in
       mbind (if unat e > length d then unwrap (vec_resize (unat e) d) else mret d) (\<lambda>d.
       mbind (unwrap (set_range d offset e data)) (\<lambda>d.
       mbind (set_node i (\<lambda>n. n\<lparr>n_body := BFile d\<rparr>)) (\<lambda>_. mret (length data))))
   | BDir _ \<Rightarrow> throw P9_EISDIR
   | _ \<Rightarrow> throw P9_EINVAL))"

definition mf_create :: "bytes \<Rightarrow> u32 \<Rightarrow> u32 \<Rightarrow> attr memm" where
  "mf_create path fl mode = create_at path (BFile []) (S_IFREG OR (mode AND 0xfff))"

definition mf_mkdir :: "bytes \<Rightarrow> u32 \<Rightarrow> attr memm" where
  "mf_mkdir path mode = create_at path (BDir []) (S_IFDIR OR (mode AND 0xfff))"

definition mf_symlink :: "bytes \<Rightarrow> bytes \<Rightarrow> attr memm" where
  "mf_symlink path target = create_at path (BLink target) (S_IFLNK OR 0x1ff)"

definition mf_mknod :: "bytes \<Rightarrow> u32 \<Rightarrow> u32 \<Rightarrow> u32 \<Rightarrow> attr memm" where
  "mf_mknod path mode major minor = create_at path (BSpecial (makedev major minor)) mode"

definition mf_readlink :: "bytes \<Rightarrow> bytes memm" where
  "mf_readlink path = mbind (mf_lookup path) (\<lambda>i. mbind (node_at i) (\<lambda>n. case n_body n of
     BLink t \<Rightarrow> mret t | _ \<Rightarrow> throw P9_EINVAL))"

definition mf_hardlink :: "bytes \<Rightarrow> bytes \<Rightarrow> unit memm" where
  "mf_hardlink existing new =
     mbind (mf_lookup existing) (\<lambda>src.
     mbind (mf_split new) (\<lambda>(dir, name).
     mbind (child_idx dir name) (\<lambda>r.
     if r \<noteq> None then throw P9_EEXIST else link_child dir name src)))"

definition unlink_child :: "nat \<Rightarrow> bytes \<Rightarrow> unit memm" where
  "unlink_child dir name = mbind (node_at dir) (\<lambda>n. case n_body n of
     BDir m \<Rightarrow> set_node dir (\<lambda>n. n\<lparr>n_body := BDir (bt_remove name m)\<rparr>) | _ \<Rightarrow> mret ())"

definition mf_remove :: "bytes \<Rightarrow> bool \<Rightarrow> unit memm" where
  "mf_remove path is_dir =
     mbind (mf_split path) (\<lambda>(dir, name).
     mbind (child_idx dir name) (\<lambda>r.
     mbind (ok_or r P9_ENOENT) (\<lambda>i.
     mbind (node_at i) (\<lambda>n.
     case n_body n of
       BDir m \<Rightarrow>
         if m \<noteq> [] then throw P9_ENOTEMPTY
         else mbind (unlink_child dir name) (\<lambda>_. set_node i (\<lambda>n. n\<lparr>n_body := BFreed\<rparr>))
     | _ \<Rightarrow> mbind (unlink_child dir name) (\<lambda>_. set_node i (\<lambda>n. n\<lparr>n_body := BFreed\<rparr>))))))"

definition mf_rename :: "bytes \<Rightarrow> bytes \<Rightarrow> unit memm" where
  "mf_rename from to =
     mbind (mf_split from) (\<lambda>(from_dir, from_name).
     mbind (child_idx from_dir from_name) (\<lambda>r.
     mbind (ok_or r P9_ENOENT) (\<lambda>i.
     mbind (mf_split to) (\<lambda>(to_dir, to_name).
     mbind (unlink_child from_dir from_name) (\<lambda>_. link_child to_dir to_name i)))))"

definition mf_set_mode :: "bytes \<Rightarrow> u32 \<Rightarrow> unit memm" where
  "mf_set_mode path mode = mbind (mf_lookup path) (\<lambda>i.
     set_node i (\<lambda>n. n\<lparr>n_mode := (n_mode n AND S_IFMT) OR (mode AND 0xfff)\<rparr>))"

definition mf_set_owner :: "bytes \<Rightarrow> u32 option \<Rightarrow> u32 option \<Rightarrow> unit memm" where
  "mf_set_owner path uid gid = mbind (mf_lookup path) (\<lambda>i.
     mbind (case uid of None \<Rightarrow> mret () | Some u \<Rightarrow> set_node i (\<lambda>n. n\<lparr>n_uid := u\<rparr>)) (\<lambda>_.
     case gid of None \<Rightarrow> mret () | Some g \<Rightarrow> set_node i (\<lambda>n. n\<lparr>n_gid := g\<rparr>)))"

definition mf_truncate :: "bytes \<Rightarrow> u64 \<Rightarrow> unit memm" where
  "mf_truncate path len = mbind (mf_lookup path) (\<lambda>i. mbind (node_at i) (\<lambda>n. case n_body n of
     BFile d \<Rightarrow> mbind (unwrap (vec_resize (unat len) d)) (\<lambda>d. set_node i (\<lambda>n. n\<lparr>n_body := BFile d\<rparr>))
   | _ \<Rightarrow> throw P9_EINVAL))"

definition mf_set_times :: "bytes \<Rightarrow> (u64 \<times> u64) option \<Rightarrow> (u64 \<times> u64) option \<Rightarrow> unit memm" where
  "mf_set_times path atime mtime = mbind (mf_lookup path) (\<lambda>i.
     mbind (case atime of None \<Rightarrow> mret () | Some a \<Rightarrow> set_node i (\<lambda>n. n\<lparr>n_atime := a\<rparr>)) (\<lambda>_.
     case mtime of None \<Rightarrow> mret () | Some m \<Rightarrow> set_node i (\<lambda>n. n\<lparr>n_mtime := m\<rparr>)))"

definition memfs_ops :: "memfs fs_ops" where
  "memfs_ops = \<lparr>fs_statfs = mf_statfs, fs_lstat = mf_lstat, fs_readdir = mf_readdir, fs_open = mf_open,
     fs_close = (\<lambda>_ f. f), fs_read = mf_read, fs_write = mf_write, fs_create = mf_create, fs_mkdir = mf_mkdir,
     fs_symlink = mf_symlink, fs_mknod = mf_mknod, fs_readlink = mf_readlink, fs_hardlink = mf_hardlink,
     fs_remove = mf_remove, fs_rename = mf_rename, fs_set_mode = mf_set_mode, fs_set_owner = mf_set_owner,
     fs_truncate = mf_truncate, fs_set_times = mf_set_times\<rparr>"

end
