(* ===== verification/Guards.thy ===== *)
theory Guards
  imports Prelude
begin

text \<open>
  Computations that keep a predicate of the state on every outcome, with the closure rules the
  device components share.
\<close>

text \<open>
  \<open>guards q I m\<close>: \<open>m\<close> keeps \<open>I\<close>, on every outcome, and when \<open>q\<close> is set it does not panic either.
\<close>

definition guards :: "bool \<Rightarrow> ('s \<Rightarrow> bool) \<Rightarrow> ('s, 'e, 'a) res \<Rightarrow> bool" where
  "guards q I m \<longleftrightarrow> (\<forall>s. I s \<longrightarrow> I (snd (m s)) \<and> (q \<longrightarrow> fst (m s) \<noteq> Inl Panic))"

named_theorems guards_intros

lemma guards_weaken: "guards q I m \<Longrightarrow> (q' \<Longrightarrow> q) \<Longrightarrow> guards q' I m"
  by (auto simp: guards_def)

lemma guards_bindI:
  assumes m: "guards q I m" and f: "\<And>s a t. I s \<Longrightarrow> m s = (Inr a, t) \<Longrightarrow> guards q I (f a)"
  shows "guards q I (mbind m f)"
  unfolding guards_def
proof (intro allI impI)
  fix s assume s: "I s"
  obtain r t where r: "m s = (r, t)" by (cases "m s")
  with m s have t: "I t" "q \<Longrightarrow> r \<noteq> Inl Panic" by (auto simp: guards_def)
  show "I (snd (mbind m f s)) \<and> (q \<longrightarrow> fst (mbind m f s) \<noteq> Inl Panic)"
  proof (cases r)
    case (Inl e)
    with r t show ?thesis by (simp add: mbind_def)
  next
    case (Inr a)
    with r t f [OF s, of a t] show ?thesis by (simp add: mbind_def guards_def)
  qed
qed

lemma guards_bind [guards_intros]: "guards q I m \<Longrightarrow> (\<And>a. guards q I (f a)) \<Longrightarrow> guards q I (mbind m f)"
  by (rule guards_bindI)

lemma guards_prims [guards_intros]:
  "guards q I (mret a)" "guards q I (throw e)" "guards q I (mget g)" "guards q I (ok_or r e)" "guards False I panic"
  by (simp_all add: guards_def ok_or_def split: option.splits)

lemma guards_mmod [guards_intros]: "(\<And>s. I s \<Longrightarrow> I (f s)) \<Longrightarrow> guards q I (mmod f)"
  by (simp add: guards_def)

lemma guards_if [guards_intros]: "(c \<Longrightarrow> guards q I m) \<Longrightarrow> (\<not> c \<Longrightarrow> guards q I n) \<Longrightarrow> guards q I (if c then m else n)"
  by simp

lemma guards_option [guards_intros]:
  "(r = None \<Longrightarrow> guards q I m) \<Longrightarrow> (\<And>a. r = Some a \<Longrightarrow> guards q I (f a)) \<Longrightarrow> guards q I (case r of None \<Rightarrow> m | Some a \<Rightarrow> f a)"
  by (cases r) auto

lemma guards_prod [guards_intros]:
  "(\<And>a b. p = (a, b) \<Longrightarrow> guards q I (f a b)) \<Longrightarrow> guards q I (case p of (a, b) \<Rightarrow> f a b)"
  by (cases p) auto

lemma guards_mtry [guards_intros]:
  assumes m: "guards q I m" and f: "\<And>a. guards q I (f a)" and h: "\<And>e. guards q I (h e)"
  shows "guards q I (mtry m f h)"
  unfolding guards_def
proof (intro allI impI)
  fix s assume s: "I s"
  obtain r t where r: "m s = (r, t)" by (cases "m s")
  with m s have t: "I t" "q \<Longrightarrow> r \<noteq> Inl Panic" by (auto simp: guards_def)
  then show "I (snd (mtry m f h s)) \<and> (q \<longrightarrow> fst (mtry m f h s) \<noteq> Inl Panic)"
    using r f h unfolding guards_def mtry_def by (cases r) (auto split: abort.splits)
qed

end
