(* ===== verification/P9Safe.thy ===== *)
theory P9Safe
  imports MemFs Guards
begin

text \<open>
  What a guest can make the 9P server do. The
  paths a backend is promised, the contract \<open>p9_backend\<close> of a backend, and for any backend that
  meets it: every handler, \<open>handle\<close> and any sequence of requests keep the backend invariant and the
  fid table. The first instance is an arbitrary backend with a log of the paths it is given.
\<close>

section \<open>Normal paths\<close>

text \<open>
  The paths \<open>FsBackend\<close> is promised: the root is empty, and any other path is components with a
  slash before each, none of them empty, \<open>.\<close>, \<open>..\<close>, or holding a slash or a NUL.
\<close>

definition name_ok :: "bytes \<Rightarrow> bool" where
  "name_ok c \<longleftrightarrow> c \<noteq> [] \<and> c \<noteq> [dot] \<and> c \<noteq> [dot, dot] \<and> slash \<notin> set c \<and> 0 \<notin> set c"

definition normal_path :: "bytes \<Rightarrow> bool" where
  "normal_path p \<longleftrightarrow> hd (split_at slash p) = [] \<and> (\<forall>c\<in>set (tl (split_at slash p)). name_ok c)"

lemma split_at_nonempty [simp]: "split_at c p \<noteq> []"
  by (induction p) (auto split: list.splits)

lemma split_at_append: "split_at c (p @ c # n) = split_at c p @ split_at c n"
  by (induction p) (auto split: list.splits)

lemma split_at_plain: "c \<notin> set n \<Longrightarrow> split_at c n = [n]"
  by (induction n) auto

lemma normal_root [simp]: "normal_path []"
  by (simp add: normal_path_def)

lemma normal_snoc: "slash \<notin> set n \<Longrightarrow> normal_path (p @ slash # n) \<longleftrightarrow> normal_path p \<and> name_ok n"
  by (cases "split_at slash p") (auto simp: normal_path_def split_at_append split_at_plain)

lemma parent_snoc: "slash \<notin> set n \<Longrightarrow> parent (p @ slash # n) = p"
proof -
  assume n: "slash \<notin> set n"
  then have "dropWhile (\<lambda>c. c \<noteq> slash) (rev n @ slash # rev p) = slash # rev p"
    by (subst dropWhile_append2) auto
  then show ?thesis by (simp add: parent_def)
qed

lemma last_component:
  assumes "slash \<in> set p"
  obtains base n where "p = base @ slash # n" "slash \<notin> set n"
  using split_list_last [OF assms] by auto

lemma normal_parent: "normal_path p \<Longrightarrow> normal_path (parent p)"
proof (cases "slash \<in> set p")
  case True
  assume "normal_path p"
  with last_component [OF True] show ?thesis by (metis normal_snoc parent_snoc)
qed (simp add: parent_def)

lemma normal_join: "normal_path p \<Longrightarrow> join p n = Some r \<Longrightarrow> normal_path r"
  by (auto simp: join_def normal_parent normal_snoc name_ok_def split: if_splits)

section \<open>The contract of a backend\<close>

text \<open>
  Every operation keeps \<open>J\<close> when it is given normal paths and, when \<open>q\<close> is set, does not panic on
  them; a write and a truncation only when the file stays below \<open>2^63\<close> bytes.
\<close>

locale p9_backend =
  fixes q :: bool and F :: "'f fs_ops" and J :: "'f \<Rightarrow> bool"
  assumes statfs: "J f \<Longrightarrow> J (snd (fs_statfs F f))"
    and close: "normal_path p \<Longrightarrow> J f \<Longrightarrow> J (fs_close F p f)"
    and lstat: "normal_path p \<Longrightarrow> guards q J (fs_lstat F p)"
    and readdir: "normal_path p \<Longrightarrow> guards q J (fs_readdir F p)"
    and fopen: "normal_path p \<Longrightarrow> guards q J (fs_open F p fl)"
    and fread: "normal_path p \<Longrightarrow> guards q J (fs_read F p off buf)"
    and read_count: "q \<Longrightarrow> fs_read F p off buf f = (Inr (n, buf'), f') \<Longrightarrow> n \<le> length buf'"
    and fwrite: "normal_path p \<Longrightarrow> (q \<Longrightarrow> unat off + length data < 2 ^ 63) \<Longrightarrow> guards q J (fs_write F p off data)"
    and create: "normal_path p \<Longrightarrow> guards q J (fs_create F p fl mode)"
    and mkdir: "normal_path p \<Longrightarrow> guards q J (fs_mkdir F p mode)"
    and symlink: "normal_path p \<Longrightarrow> guards q J (fs_symlink F p target)"
    and mknod: "normal_path p \<Longrightarrow> guards q J (fs_mknod F p mode major minor)"
    and readlink: "normal_path p \<Longrightarrow> guards q J (fs_readlink F p)"
    and hardlink: "normal_path p \<Longrightarrow> normal_path p' \<Longrightarrow> guards q J (fs_hardlink F p p')"
    and remove: "normal_path p \<Longrightarrow> guards q J (fs_remove F p is_dir)"
    and rename: "normal_path p \<Longrightarrow> normal_path p' \<Longrightarrow> guards q J (fs_rename F p p')"
    and set_mode: "normal_path p \<Longrightarrow> guards q J (fs_set_mode F p mode)"
    and set_owner: "normal_path p \<Longrightarrow> guards q J (fs_set_owner F p uid gid)"
    and truncate: "normal_path p \<Longrightarrow> (q \<Longrightarrow> unat len < 2 ^ 63) \<Longrightarrow> guards q J (fs_truncate F p len)"
    and set_times: "normal_path p \<Longrightarrow> guards q J (fs_set_times F p atime mtime)"

definition fids_normal :: "'f p9_server \<Rightarrow> bool" where
  "fids_normal s \<longleftrightarrow> (\<forall>i f. srv_fids s i = Some f \<longrightarrow> normal_path (f_path f))"

definition srv_ok :: "('f \<Rightarrow> bool) \<Rightarrow> 'f p9_server \<times> bytes \<Rightarrow> bool" where
  "srv_ok J x \<longleftrightarrow> J (srv_fs (fst x)) \<and> fids_normal (fst x)"

lemma guards_take [guards_intros]: "guards q (srv_ok J) (rd_take n)"
  by (auto simp: guards_def rd_take_def srv_ok_def)

lemma guards_reads [guards_intros]:
  "guards q (srv_ok J) rd_u8" "guards q (srv_ok J) rd_u16" "guards q (srv_ok J) rd_u32" "guards q (srv_ok J) rd_u64"
  unfolding rd_u8_def rd_u16_def rd_u32_def rd_u64_def by (intro guards_intros)+

lemma guards_str [guards_intros]: "guards q (srv_ok J) rd_str"
  unfolding rd_str_def by (intro guards_intros)

lemma guards_need [guards_intros]: "guards q (srv_ok J) m \<Longrightarrow> guards q (srv_ok J) (need m)"
  unfolding need_def by (intro guards_intros)

lemma guards_getsrv [guards_intros]: "guards q (srv_ok J) (getsrv g)"
  unfolding getsrv_def by (intro guards_intros)

lemma guards_onfs [guards_intros]: "guards q J m \<Longrightarrow> guards q (srv_ok J) (onfs m)"
  by (fastforce simp: guards_def onfs_def srv_ok_def fids_normal_def split: prod.splits)

lemma guards_modsrv:
  "(\<And>s. J (srv_fs s) \<Longrightarrow> fids_normal s \<Longrightarrow> J (srv_fs (g s)) \<and> fids_normal (g s)) \<Longrightarrow> guards q (srv_ok J) (modsrv g)"
  unfolding modsrv_def by (rule guards_mmod) (auto simp: srv_ok_def)

lemma guards_lookup:
  assumes "\<And>r. (\<And>f. r = Some f \<Longrightarrow> normal_path (f_path f)) \<Longrightarrow> guards q (srv_ok J) (k r)"
  shows "guards q (srv_ok J) (mbind (getsrv (\<lambda>s. srv_fids s fid)) k)"
  by (rule guards_bindI [OF guards_getsrv], rule assms)
    (auto simp: getsrv_def srv_ok_def fids_normal_def split: prod.splits)

lemma guards_fid:
  assumes "\<And>f. normal_path (f_path f) \<Longrightarrow> guards q (srv_ok J) (k f)"
  shows "guards q (srv_ok J) (mbind (getsrv (\<lambda>s. srv_fids s fid)) (\<lambda>r. mbind (ok_or r e) k))"
proof (rule guards_lookup)
  fix r :: "fid option" assume "\<And>f. r = Some f \<Longrightarrow> normal_path (f_path f)"
  then show "guards q (srv_ok J) (mbind (ok_or r e) k)"
    using assms by (cases r) (auto simp: ok_or_def guards_intros)
qed

lemma guards_fid_path:
  assumes "\<And>p. normal_path p \<Longrightarrow> guards q (srv_ok J) (k p)"
  shows "guards q (srv_ok J) (mbind (fid_path fid) k)"
proof (rule guards_bindI)
  show "guards q (srv_ok J) (fid_path fid)" unfolding fid_path_def by (intro guards_intros)
  fix s a t assume "srv_ok J s" "fid_path fid s = (Inr a, t)"
  then have "normal_path a"
    by (cases "srv_fids (fst s) fid") (auto simp: fid_path_def getsrv_def srv_ok_def fids_normal_def ok_or_def split: prod.splits)
  then show "guards q (srv_ok J) (k a)" by (rule assms)
qed

lemma guards_fid_state:
  assumes "\<And>p o'. normal_path p \<Longrightarrow> guards q (srv_ok J) (k (p, o'))"
  shows "guards q (srv_ok J) (mbind (fid_state fid) k)"
proof (rule guards_bindI)
  show "guards q (srv_ok J) (fid_state fid)" unfolding fid_state_def by (intro guards_intros)
  fix s a t assume "srv_ok J s" "fid_state fid s = (Inr a, t)"
  then have "normal_path (fst a)"
    by (cases "srv_fids (fst s) fid") (auto simp: fid_state_def getsrv_def srv_ok_def fids_normal_def ok_or_def split: prod.splits)
  then show "guards q (srv_ok J) (k a)" using assms [of "fst a" "snd a"] by simp
qed

lemma guards_both:
  "guards q I m \<Longrightarrow> guards False H m \<Longrightarrow> guards q (\<lambda>x. I x \<and> H x) m"
  by (auto simp: guards_def)

lemma guards_split:
  assumes "guards q (\<lambda>x. I x \<and> H x) m" "\<And>x. \<not> H x \<Longrightarrow> m x = throw e x"
  shows "guards q I m"
  unfolding guards_def
proof (intro allI impI)
  fix x assume "I x"
  then show "I (snd (m x)) \<and> (q \<longrightarrow> fst (m x) \<noteq> Inl Panic)"
    using assms by (cases "H x") (auto simp: guards_def)
qed

lemma guards_has_fid:
  "guards False (\<lambda>x. srv_fids (fst x) i \<noteq> None) (onfs m)"
  "guards False (\<lambda>x. srv_fids (fst x) i \<noteq> None) (getsrv g)"
  "(\<And>s. srv_fids s i \<noteq> None \<Longrightarrow> srv_fids (g' s) i \<noteq> None) \<Longrightarrow> guards False (\<lambda>x. srv_fids (fst x) i \<noteq> None) (modsrv g')"
  by (auto simp: guards_def onfs_def getsrv_def modsrv_def split: prod.splits)

lemma guards_the_fid:
  assumes "\<And>f. normal_path (f_path f) \<Longrightarrow> guards q (\<lambda>x. srv_ok J x \<and> srv_fids (fst x) i \<noteq> None) (k (Some f))"
  shows "guards q (\<lambda>x. srv_ok J x \<and> srv_fids (fst x) i \<noteq> None) (mbind (getsrv (\<lambda>s. srv_fids s i)) k)"
proof (rule guards_bindI)
  show "guards q (\<lambda>x. srv_ok J x \<and> srv_fids (fst x) i \<noteq> None) (getsrv (\<lambda>s. srv_fids s i))"
    by (simp add: guards_def getsrv_def)
  fix s r t assume "srv_ok J s \<and> srv_fids (fst s) i \<noteq> None" "getsrv (\<lambda>s. srv_fids s i) s = (Inr r, t)"
  then obtain f where "r = Some f" "normal_path (f_path f)"
    by (cases s) (auto simp: getsrv_def srv_ok_def fids_normal_def)
  then show "guards q (\<lambda>x. srv_ok J x \<and> srv_fids (fst x) i \<noteq> None) (k r)" using assms by simp
qed

lemma guards_join:
  "normal_path d \<Longrightarrow> (\<And>p. normal_path p \<Longrightarrow> guards q I (k p)) \<Longrightarrow> guards q I (mbind (ok_or (join d n) e) k)"
  by (cases "join d n") (auto simp: ok_or_def guards_intros normal_join)

lemma guards_child:
  "(\<And>p. normal_path p \<Longrightarrow> guards q (srv_ok J) (k p)) \<Longrightarrow> guards q (srv_ok J) (mbind (p9_child fid n) k)"
  unfolding p9_child_def mbind_assoc by (intro guards_fid_path guards_join)

lemmas srv_intros = guards_fid guards_fid_path guards_fid_state guards_join guards_child guards_intros

section \<open>One request\<close>

definition p9_finish :: "'f fs_ops \<Rightarrow> u8 \<Rightarrow> u16 \<Rightarrow> ('f, bytes) p9m" where
  "p9_finish F i tag = mtry (p9_dispatch F i) (\<lambda>body. mret (p9_reply (i + 1) tag body))
     (\<lambda>e. mret (p9_reply R_LERROR tag (err_body e)))"

lemma answer_eval:
  assumes "7 \<le> length req"
  shows "p9_answer F (s, req) = p9_finish F (req ! 4) (from_le_bytes (take 2 (drop 5 req))) (s, drop 7 req)"
proof -
  have "4 \<le> length req" "Suc 0 \<le> length req - 4" "2 \<le> length req - 5" using assms by simp_all
  with assms show ?thesis
  by (simp add: p9_answer_def p9_finish_def rd_u32_def rd_u8_def rd_u16_def rd_take_def mbind_def hd_drop_conv_nth take_Suc_conv_app_nth)
qed

lemma answer_short:
  assumes "\<not> 7 \<le> length req"
  shows "fst (p9_answer F (s, req)) = Inr (p9_reply R_LERROR 0 (err_body P9_EPROTO)) \<and> fst (snd (p9_answer F (s, req))) = s"
  using assms by (auto simp: p9_answer_def rd_u32_def rd_u8_def rd_u16_def rd_take_def mbind_def)

lemma handle_eq: "p9_handle F req s = (fst (p9_answer F (s, req)), fst (snd (p9_answer F (s, req))))"
  by (simp add: p9_handle_def split_def)

primrec p9_serve :: "'f fs_ops \<Rightarrow> bytes list \<Rightarrow> ('f p9_server, i32, bytes list) res" where
  "p9_serve F [] = mret []"
| "p9_serve F (req # reqs) = mbind (p9_handle F req) (\<lambda>r. mbind (p9_serve F reqs) (\<lambda>rs. mret (r # rs)))"

context p9_backend
begin

lemma guards_close: "normal_path p \<Longrightarrow> guards q (srv_ok J) (modsrv (\<lambda>s. s\<lparr>srv_fs := fs_close F p (srv_fs s)\<rparr>))"
  by (rule guards_modsrv) (auto simp: close fids_normal_def)

lemma guards_close_old:
  "(\<And>f. old = Some f \<Longrightarrow> normal_path (f_path f)) \<Longrightarrow> guards q (srv_ok J) (case old of None \<Rightarrow> mret ()
     | Some f \<Rightarrow> if f_opened f then modsrv (\<lambda>s. s\<lparr>srv_fs := fs_close F (f_path f) (srv_fs s)\<rparr>) else mret ())"
  by (intro guards_intros guards_close) simp_all

lemma guards_set_fid: "normal_path p \<Longrightarrow> guards q (srv_ok J) (set_fid F fid p)"
  unfolding set_fid_def
  by (intro guards_lookup guards_bind guards_close_old guards_modsrv) (auto simp: fids_normal_def)

lemma guards_clunk: "guards q (srv_ok J) (p9_clunk F)"
  unfolding p9_clunk_def
  by (intro guards_lookup guards_bind guards_close_old guards_modsrv guards_intros) (auto simp: fids_normal_def)

lemma guards_version: "guards q (srv_ok J) p9_version"
  unfolding p9_version_def
  by (intro guards_intros guards_modsrv) (auto simp: fids_normal_def)

lemma guards_attach: "guards q (srv_ok J) (p9_attach F)"
  unfolding p9_attach_def by (intro srv_intros guards_set_fid lstat) simp_all

lemma guards_walk_names:
  assumes "normal_path p" and k: "\<And>p qs. normal_path p \<Longrightarrow> guards q (srv_ok J) (k (p, qs))"
  shows "guards q (srv_ok J) (mbind (walk_names F n p qs) k)"
  using assms(1)
proof (induction n arbitrary: p qs)
  case 0
  then show ?case using k by (simp add: mret_def mbind_def guards_def)
next
  case (Suc n)
  have e: "mbind (mtry m f h) k = mtry m (\<lambda>a. mbind (f a) k) (\<lambda>e. mbind (h e) k)"
    for m :: "('f, attr) p9m" and f h
    by (rule ext) (auto simp: mbind_def mtry_def split: prod.splits sum.splits abort.splits)
  have "guards q (srv_ok J) (mbind (case join p name of
       None \<Rightarrow> mret (p, qs)
     | Some p' \<Rightarrow> mtry (onfs (fs_lstat F p'))
         (\<lambda>attr. walk_names F n p' (qs @ [at_qid attr])) (\<lambda>_. mret (p, qs))) k)" for name
    using normal_join [OF Suc.prems, of name] k Suc.prems
    by (cases "join p name") (auto simp: e intro!: guards_mtry guards_onfs lstat Suc.IH)
  then show ?case by (simp add: mbind_assoc guards_bind guards_intros)
qed

lemma guards_walk: "guards q (srv_ok J) (p9_walk F)"
  unfolding p9_walk_def
  by (intro guards_fid_path guards_walk_names guards_bind guards_set_fid guards_intros) auto

lemma guards_statfs: "guards q (srv_ok J) (p9_statfs F)"
  unfolding p9_statfs_def
  by (intro guards_intros) (auto simp: guards_def split: prod.splits dest: statfs)

lemma guards_getattr: "guards q (srv_ok J) (p9_getattr F)"
  unfolding p9_getattr_def by (intro srv_intros lstat)

lemma guards_setattr: "\<not> q \<Longrightarrow> guards q (srv_ok J) (p9_setattr F)"
  unfolding p9_setattr_def by (intro srv_intros set_owner truncate set_times set_mode) simp_all

lemma guards_lopen: "guards q (srv_ok J) (p9_lopen F)"
  unfolding p9_lopen_def by (intro srv_intros fopen guards_modsrv) (auto simp: fids_normal_def)

lemma guards_lcreate: "guards q (srv_ok J) (p9_lcreate F)"
  unfolding p9_lcreate_def by (intro srv_intros create guards_modsrv) (auto simp: fids_normal_def)

lemma guards_read_reply:
  assumes "normal_path p"
  shows "guards q (srv_ok J) (mbind (onfs (fs_read F p off (replicate c 0)))
    (\<lambda>(n, buf). if n \<le> length buf then mret (w_u32 (of_nat n) @ take n buf) else panic))"
proof (rule guards_bindI)
  show "guards q (srv_ok J) (onfs (fs_read F p off (replicate c 0)))" using assms by (intro guards_onfs fread)
  fix s t and a :: "nat \<times> bytes"
  assume "onfs (fs_read F p off (replicate c 0)) s = (Inr a, t)"
  then have "q \<Longrightarrow> fst a \<le> length (snd a)"
    using read_count [of p off "replicate c 0" "srv_fs (fst s)" "fst a" "snd a"] by (cases s) (auto simp: onfs_def split: prod.splits)
  then show "guards q (srv_ok J) ((\<lambda>(n, buf). if n \<le> length buf then mret (w_u32 (of_nat n) @ take n buf) else panic) a)"
    by (cases q) (auto simp: split_def guards_prims)
qed

lemma guards_read: "guards q (srv_ok J) (p9_read F)"
  unfolding p9_read_def by (intro srv_intros guards_fid_state guards_read_reply; simp?; intro srv_intros guards_read_reply)

lemma guards_write: "\<not> q \<Longrightarrow> guards q (srv_ok J) (p9_write F)"
  unfolding p9_write_def by (intro srv_intros fwrite) simp_all

lemma guards_snapshot: "normal_path p \<Longrightarrow> guards q (srv_ok J) (p9_snapshot F fid p)"
  unfolding p9_snapshot_def
  by (intro srv_intros lstat readdir guards_modsrv normal_parent) (auto simp: fids_normal_def)

lemma guards_snapshot_fid: "guards False (\<lambda>x. srv_fids (fst x) fid \<noteq> None) (p9_snapshot F fid p)"
  unfolding p9_snapshot_def by (intro guards_intros guards_has_fid) simp

lemma guards_readdir_fid:
  "guards q (\<lambda>x. srv_ok J x \<and> srv_fids (fst x) fid \<noteq> None) (p9_readdir F fid offset count)"
  unfolding p9_readdir_def
proof (rule guards_the_fid)
  fix f assume "normal_path (f_path f)"
  show "guards q (\<lambda>x. srv_ok J x \<and> srv_fids (fst x) fid \<noteq> None) (mbind (ok_or (Some f) P9_EPROTO) (\<lambda>f.
     if \<not> f_opened f then throw P9_EPROTO
     else
       mbind (if offset = 0 \<or> f_dir f = None then p9_snapshot F fid (f_path f) else mret ()) (\<lambda>_.
       mbind (getsrv (\<lambda>s. srv_fids s fid)) (\<lambda>f.
       mbind (unwrap f) (\<lambda>f.
       mbind (ok_or (f_dir f) P9_EIO) (\<lambda>es.
       mbind (getsrv (payload_limit count)) (\<lambda>count.
       mret (readdir_emit count (unat offset) (drop (unat offset) es) []))))))))"
    unfolding ok_or_def option.case mbind_ret unwrap_def
    by (intro guards_if guards_bind [of q _ "if _ then _ else _"] guards_prims guards_the_fid
        guards_both [OF guards_snapshot guards_snapshot_fid] \<open>normal_path (f_path f)\<close>)
      (simp_all add: getsrv_def guards_intros split: option.splits)
qed

lemma guards_readdir: "guards q (srv_ok J) (p9_readdir F fid offset count)"
proof (rule guards_split [OF guards_readdir_fid])
  fix x :: "'f p9_server \<times> bytes" assume "\<not> srv_fids (fst x) fid \<noteq> None"
  then show "p9_readdir F fid offset count x = throw P9_EPROTO x"
    by (cases x) (simp add: p9_readdir_def getsrv_def ok_or_def mbind_def throw_def mget_def)
qed

lemma guards_readdir_msg: "guards q (srv_ok J) (p9_readdir_msg F)"
  unfolding p9_readdir_msg_def by (intro guards_intros guards_readdir)

lemma guards_names:
  "guards q (srv_ok J) (p9_mkdir F)" "guards q (srv_ok J) (p9_unlinkat F)" "guards q (srv_ok J) (p9_renameat F)"
  "guards q (srv_ok J) (p9_symlink F)" "guards q (srv_ok J) (p9_readlink F)" "guards q (srv_ok J) (p9_link F)"
  "guards q (srv_ok J) (p9_mknod F)"
  unfolding p9_mkdir_def p9_unlinkat_def p9_renameat_def p9_symlink_def p9_readlink_def p9_link_def p9_mknod_def
  by (intro srv_intros mkdir remove rename symlink readlink hardlink mknod; assumption)+

lemma guards_locks: "guards q (srv_ok J) p9_lock" "guards q (srv_ok J) p9_getlock"
  unfolding p9_lock_def p9_getlock_def by (intro guards_intros)+

lemma guards_dispatch:
  assumes "q \<Longrightarrow> i \<noteq> T_WRITE \<and> i \<noteq> T_SETATTR"
  shows "guards q (srv_ok J) (p9_dispatch F i)"
  unfolding p9_dispatch_def
  using assms by (intro guards_if guards_prims guards_version guards_attach guards_walk guards_clunk guards_statfs
      guards_getattr guards_setattr guards_lopen guards_lcreate guards_read guards_write guards_readdir_msg
      guards_names guards_locks) auto

lemma handle_guarded:
  assumes "J (srv_fs s)" "fids_normal s" "q \<Longrightarrow> 7 \<le> length req \<Longrightarrow> req ! 4 \<noteq> T_WRITE \<and> req ! 4 \<noteq> T_SETATTR"
  shows "J (srv_fs (snd (p9_handle F req s)))" "fids_normal (snd (p9_handle F req s))"
    "q \<Longrightarrow> fst (p9_handle F req s) \<noteq> Inl Panic"
proof -
  have I: "srv_ok J (s, b)" for b using assms by (simp add: srv_ok_def)
  have "srv_ok J (snd (p9_answer F (s, req))) \<and> (q \<longrightarrow> fst (p9_answer F (s, req)) \<noteq> Inl Panic)"
  proof (cases "7 \<le> length req")
    case True
    then have "guards q (srv_ok J) (p9_dispatch F (req ! 4))" using assms by (intro guards_dispatch) blast
    then have "guards q (srv_ok J) (p9_finish F (req ! 4) (from_le_bytes (take 2 (drop 5 req))))"
      unfolding p9_finish_def by (intro guards_intros)
    then show ?thesis using I True by (simp add: answer_eval guards_def)
  qed (use assms in \<open>simp add: answer_short srv_ok_def\<close>)
  then show "J (srv_fs (snd (p9_handle F req s)))" "fids_normal (snd (p9_handle F req s))"
    "q \<Longrightarrow> fst (p9_handle F req s) \<noteq> Inl Panic"
    by (simp_all add: handle_eq srv_ok_def)
qed

lemma serve_guarded:
  assumes "J (srv_fs s)" "fids_normal s" "q \<Longrightarrow> \<forall>req\<in>set reqs. 7 \<le> length req \<longrightarrow> req ! 4 \<noteq> T_WRITE \<and> req ! 4 \<noteq> T_SETATTR"
  shows "J (srv_fs (snd (p9_serve F reqs s))) \<and> (q \<longrightarrow> fst (p9_serve F reqs s) \<noteq> Inl Panic)"
  using assms
proof (induction reqs arbitrary: s)
  case (Cons req reqs)
  note h = handle_guarded [of s req]
  obtain r t where e: "p9_handle F req s = (r, t)" by (cases "p9_handle F req s")
  have "J (srv_fs (snd (p9_serve F reqs t))) \<and> (q \<longrightarrow> fst (p9_serve F reqs t) \<noteq> Inl Panic)"
    using h e Cons by simp
  with h e Cons.prems show ?case
    by (cases r) (auto simp: mbind_def split: prod.splits sum.splits)
qed simp

end

section \<open>Paths given to a backend\<close>

text \<open>A backend with a log of every path it is given.\<close>

definition logged :: "bytes list \<Rightarrow> ('f, 'e, 'a) res \<Rightarrow> ('f \<times> bytes list, 'e, 'a) res" where
  "logged ps m = (\<lambda>(f, l). case m f of (r, f) \<Rightarrow> (r, (f, l @ ps)))"

definition logged_ops :: "'f fs_ops \<Rightarrow> ('f \<times> bytes list) fs_ops" where
  "logged_ops F = \<lparr>fs_statfs = (\<lambda>(f, l). case fs_statfs F f of (x, f) \<Rightarrow> (x, (f, l))),
     fs_lstat = (\<lambda>p. logged [p] (fs_lstat F p)), fs_readdir = (\<lambda>p. logged [p] (fs_readdir F p)),
     fs_open = (\<lambda>p fl. logged [p] (fs_open F p fl)), fs_close = (\<lambda>p (f, l). (fs_close F p f, l @ [p])),
     fs_read = (\<lambda>p off buf. logged [p] (fs_read F p off buf)),
     fs_write = (\<lambda>p off data. logged [p] (fs_write F p off data)),
     fs_create = (\<lambda>p fl mode. logged [p] (fs_create F p fl mode)), fs_mkdir = (\<lambda>p mode. logged [p] (fs_mkdir F p mode)),
     fs_symlink = (\<lambda>p target. logged [p] (fs_symlink F p target)),
     fs_mknod = (\<lambda>p mode major minor. logged [p] (fs_mknod F p mode major minor)),
     fs_readlink = (\<lambda>p. logged [p] (fs_readlink F p)), fs_hardlink = (\<lambda>p p'. logged [p, p'] (fs_hardlink F p p')),
     fs_remove = (\<lambda>p d. logged [p] (fs_remove F p d)), fs_rename = (\<lambda>p p'. logged [p, p'] (fs_rename F p p')),
     fs_set_mode = (\<lambda>p mode. logged [p] (fs_set_mode F p mode)),
     fs_set_owner = (\<lambda>p uid gid. logged [p] (fs_set_owner F p uid gid)),
     fs_truncate = (\<lambda>p len. logged [p] (fs_truncate F p len)),
     fs_set_times = (\<lambda>p atime mtime. logged [p] (fs_set_times F p atime mtime))\<rparr>"

lemma guards_logged: "list_all normal_path ps \<Longrightarrow> guards False (\<lambda>x. list_all normal_path (snd x)) (logged ps m)"
  by (auto simp: guards_def logged_def split: prod.splits)

interpretation watched: p9_backend False "logged_ops F" "\<lambda>x. list_all normal_path (snd x)" for F
  by unfold_locales (auto simp: logged_ops_def guards_logged split: prod.splits)

end
