(* ===== verification/MemFsSafe.thy ===== *)
theory MemFsSafe
  imports P9Safe
begin

text \<open>
  The in-memory backend meets the contract of the server: every directory entry names a node of the
  arena, every operation keeps this, and none indexes out of range.
\<close>

section \<open>The in-memory backend\<close>

definition node_ok :: "nat \<Rightarrow> node \<Rightarrow> bool" where
  "node_ok n d = (case n_body d of BDir m \<Rightarrow> list_all (\<lambda>(_, i). i < n) m | _ \<Rightarrow> True)"

definition mem_at :: "nat \<Rightarrow> memfs \<Rightarrow> bool" where
  "mem_at n f \<longleftrightarrow> n \<le> length (mf_nodes f) \<and> list_all (node_ok (length (mf_nodes f))) (mf_nodes f)"

lemma set_bt_insert: "set (bt_insert k v m) \<subseteq> insert (k, v) (set m)"
  by (induction k v m rule: bt_insert.induct) auto

lemma node_ok_mono: "node_ok m d \<Longrightarrow> m \<le> n \<Longrightarrow> node_ok n d"
  by (auto simp: node_ok_def list_all_iff split: body.splits)

text \<open>Computations that keep the arena sound and at least \<open>n\<close> nodes long.\<close>

abbreviation sound :: "nat \<Rightarrow> 'a memm \<Rightarrow> bool" where
  "sound n \<equiv> guards True (mem_at n)"

lemma sound_raise:
  assumes m: "sound n m" and k: "\<And>f a g. mem_at n f \<Longrightarrow> m f = (Inr a, g) \<Longrightarrow> \<exists>l\<ge>n. mem_at l g \<and> sound l (k a)"
  shows "sound n (mbind m k)"
  unfolding guards_def
proof (intro allI impI)
  fix f assume f: "mem_at n f"
  obtain r g where r: "m f = (r, g)" by (cases "m f")
  show "mem_at n (snd (mbind m k f)) \<and> (True \<longrightarrow> fst (mbind m k f) \<noteq> Inl Panic)"
  proof (cases r)
    case (Inl e)
    with m f r show ?thesis by (auto simp: mbind_def guards_def)
  next
    case (Inr a)
    with k [OF f] r obtain l where "n \<le> l" "mem_at l g" "sound l (k a)" by blast
    with r Inr show ?thesis by (auto simp: mbind_def guards_def mem_at_def)
  qed
qed

lemma sound_node_at:
  assumes "i < n" "\<And>l d. n \<le> l \<Longrightarrow> node_ok l d \<Longrightarrow> sound l (k d)"
  shows "sound n (mbind (node_at i) k)"
proof (rule sound_raise)
  show "sound n (node_at i)" using assms(1) by (auto simp: guards_def node_at_def mem_at_def mbind_def unwrap_def)
  fix f d g assume "mem_at n f" "node_at i f = (Inr d, g)"
  with assms show "\<exists>l\<ge>n. mem_at l g \<and> sound l (k d)"
    by (intro exI [of _ "length (mf_nodes f)"]) (auto simp: node_at_def mem_at_def mbind_def unwrap_def list_all_length)
qed

lemma sound_set_node [guards_intros]:
  assumes "i < n" "\<And>l d. n \<le> l \<Longrightarrow> node_ok l d \<Longrightarrow> node_ok l (g d)"
  shows "sound n (set_node i g)"
  using assms by (auto simp: guards_def set_node_def node_at_def mem_at_def mbind_def unwrap_def list_all_length nth_list_update)

lemma sound_alloc:
  assumes "node_ok n (new_node b mode)" "\<And>l i. n \<le> l \<Longrightarrow> i < l \<Longrightarrow> sound l (k i)"
  shows "sound n (mbind (mf_alloc b mode) k)"
proof (rule sound_raise)
  have ok: "mem_at (Suc n) (f\<lparr>mf_nodes := mf_nodes f @ [new_node b mode]\<rparr>)" if "mem_at n f" for f
    using that assms(1) by (auto simp: mem_at_def list_all_iff intro: node_ok_mono [of n] node_ok_mono [of "length (mf_nodes f)"])
  then show "sound n (mf_alloc b mode)"
    by (force simp: guards_def mf_alloc_def mbind_def mem_at_def)
  fix f i g assume "mem_at n f" "mf_alloc b mode f = (Inr i, g)"
  with assms(2) ok [of f] show "\<exists>l\<ge>n. mem_at l g \<and> sound l (k i)"
    by (intro exI [of _ "length (mf_nodes g)"]) (auto simp: mf_alloc_def mbind_def mem_at_def)
qed

lemma sound_option:
  "(\<And>j. r = Some j \<Longrightarrow> j < n) \<Longrightarrow> (\<And>j. j < n \<Longrightarrow> sound n (k j)) \<Longrightarrow> sound n (mbind (ok_or r e) k)"
  by (cases r) (simp_all add: ok_or_def guards_prims)

lemma node_ok_entry: "node_ok n d \<Longrightarrow> n_body d = BDir m \<Longrightarrow> map_of m c = Some j \<Longrightarrow> j < n"
  by (auto simp: node_ok_def list_all_iff dest!: map_of_SomeD)

lemma sound_body:
  assumes "\<And>m. n_body d = BDir m \<Longrightarrow> guards q I (f1 m)" "\<And>b. guards q I (f2 b)" "\<And>b. guards q I (f3 b)" "\<And>b. guards q I (f4 b)" "guards q I f5"
  shows "guards q I (case n_body d of BDir m \<Rightarrow> f1 m | BFile b \<Rightarrow> f2 b | BLink b \<Rightarrow> f3 b | BSpecial b \<Rightarrow> f4 b | BFreed \<Rightarrow> f5)"
  using assms by (cases "n_body d") auto

lemma sound_descend:
  assumes "i < n" "\<And>l j. n \<le> l \<Longrightarrow> j < l \<Longrightarrow> sound l (k j)"
  shows "sound n (mbind (descend cs i) k)"
  using assms
proof (induction cs i arbitrary: n rule: descend.induct)
  case (2 c cs i)
  have "sound l (mbind (case n_body d of BDir m \<Rightarrow> mbind (ok_or (map_of m c) P9_ENOENT) (descend cs)
     | _ \<Rightarrow> throw P9_ENOTDIR) k)" if l: "n \<le> l" "node_ok l d" for l d
  proof (cases "n_body d")
    case (BDir m)
    have "sound l (mbind (ok_or (map_of m c) P9_ENOENT) (\<lambda>j. mbind (descend cs j) k))"
      using node_ok_entry [OF l(2) BDir] 2(1) [OF BDir] 2(3) l
      by (intro sound_option) (blast, meson order.trans)
    then show ?thesis using BDir by (simp add: mbind_assoc)
  qed (simp_all add: guards_prims mbind_def guards_def throw_def)
  then show ?case using 2(2) by (simp add: mbind_assoc) (rule sound_node_at)
qed simp

lemma sound_child_idx:
  assumes "i < n" "\<And>l r. n \<le> l \<Longrightarrow> (\<And>j. r = Some j \<Longrightarrow> j < l) \<Longrightarrow> sound l (k r)"
  shows "sound n (mbind (child_idx i c) k)"
proof -
  have "sound l (mbind (case n_body d of BDir m \<Rightarrow> mret (map_of m c) | _ \<Rightarrow> mret None) k)" if "n \<le> l" "node_ok l d" for l d
    using that assms(2) by (cases "n_body d") (auto dest: node_ok_entry)
  with assms(1) show ?thesis unfolding child_idx_def mbind_assoc by (rule sound_node_at)
qed

lemma node_ok_insert: "node_ok l d \<Longrightarrow> n_body d = BDir m \<Longrightarrow> j < l \<Longrightarrow> node_ok l (d'\<lparr>n_body := BDir (bt_insert c j m)\<rparr>)"
  by (auto simp: node_ok_def list_all_iff dest: set_bt_insert [THEN subsetD])

lemma node_ok_simps [simp]:
  "node_ok l (d\<lparr>n_body := BFile b\<rparr>)" "node_ok l (d\<lparr>n_body := BFreed\<rparr>)" "node_ok l (d\<lparr>n_mode := m\<rparr>) = node_ok l d"
  "node_ok l (d\<lparr>n_uid := u\<rparr>) = node_ok l d" "node_ok l (d\<lparr>n_gid := u\<rparr>) = node_ok l d"
  "node_ok l (d\<lparr>n_atime := t\<rparr>) = node_ok l d" "node_ok l (d\<lparr>n_mtime := t\<rparr>) = node_ok l d"
  "node_ok l (new_node (BFile b) mode)" "node_ok l (new_node (BDir []) mode)" "node_ok l (new_node (BLink b) mode)"
  "node_ok l (new_node (BSpecial r) mode)"
  by (simp_all add: node_ok_def new_node_def)

lemma sound_link_child [guards_intros]:
  assumes "i < n" "j < n"
  shows "sound n (link_child i c j)"
  unfolding link_child_def using assms
  by (intro sound_node_at sound_body guards_prims sound_set_node)
    (auto intro: node_ok_insert [THEN node_ok_mono])

lemma sound_unlink_child [guards_intros]:
  assumes "i < n"
  shows "sound n (unlink_child i c)"
  unfolding unlink_child_def using assms
  by (intro sound_node_at sound_body guards_prims sound_set_node)
    (auto simp: node_ok_def bt_remove_def list_all_iff)

lemma sound_lookup:
  "(\<And>l i. i < l \<Longrightarrow> sound l (k i)) \<Longrightarrow> sound 1 (mbind (mf_lookup p) k)"
  unfolding mf_lookup_def by (rule sound_descend) simp_all

lemma sound_split:
  "0 < n \<Longrightarrow> (\<And>l i c. n \<le> l \<Longrightarrow> i < l \<Longrightarrow> sound l (k i c)) \<Longrightarrow> sound n (mbind (mf_split p) (\<lambda>(i, c). k i c))"
  unfolding mf_split_def Let_def
  by (cases "components p = []") (simp_all add: mbind_assoc sound_descend, simp add: guards_def mbind_def throw_def)

lemma sound_attr_of [guards_intros]: "i < n \<Longrightarrow> sound n (mf_attr_of i)"
  unfolding mf_attr_of_def Let_def by (rule sound_node_at) (simp_all add: guards_prims)

lemma sound_list: "list_all (\<lambda>(_, i). i < n) m \<Longrightarrow> sound n (mf_list m)"
proof (induction m arbitrary: n rule: mf_list.induct)
  case (2 c i m)
  then have "sound l (mf_list m)" if "n \<le> l" for l
    using that by (intro 2) (auto elim!: list.pred_mono_strong)
  with 2 show ?case unfolding mf_list.simps by (intro sound_node_at guards_bind guards_prims) auto
qed (simp add: guards_prims)

lemmas sound_intros = sound_lookup sound_split sound_child_idx sound_option sound_node_at sound_alloc sound_body
  sound_link_child sound_unlink_child sound_set_node sound_attr_of guards_if guards_option guards_prims guards_bind

lemma sound_create:
  assumes "\<And>l. node_ok l (new_node b mode)"
  shows "sound 1 (create_at p b mode)"
  unfolding create_at_def by (intro sound_intros assms) auto

lemma sound_write:
  assumes "unat off + length data < 2 ^ 63"
  shows "sound 1 (mf_write p off data)"
proof -
  have e: "unat (off + of_nat (length data)) = unat off + length data"
    using assms by (simp add: unat_word_ariths unat_of_nat)
  have "sound l (mbind (if unat (off + of_nat (length data)) > length d
        then unwrap (vec_resize (unat (off + of_nat (length data))) d) else mret d) (\<lambda>d.
       mbind (unwrap (set_range d off (off + of_nat (length data)) data)) (\<lambda>d.
       mbind (set_node i (\<lambda>n. n\<lparr>n_body := BFile d\<rparr>)) (\<lambda>_. mret (length data)))))" if "i < l" for l i d
    using that assms e by (auto simp: vec_resize_def set_range_def unwrap_def intro!: sound_intros)
  then show ?thesis unfolding mf_write_def Let_def by (intro sound_lookup sound_node_at sound_body guards_prims) auto
qed

lemma sound_truncate:
  assumes "unat len < 2 ^ 63"
  shows "sound 1 (mf_truncate p len)"
  unfolding mf_truncate_def using assms
  by (intro sound_lookup sound_node_at sound_body guards_prims guards_bind guards_intros)
    (auto simp: unwrap_def vec_resize_def guards_prims)

lemma sound_remove: "sound 1 (mf_remove p d)"
  unfolding mf_remove_def by (intro sound_intros) auto

lemma sound_rename: "sound 1 (mf_rename p p')"
  unfolding mf_rename_def by (intro sound_intros) auto

lemma sound_hardlink: "sound 1 (mf_hardlink p p')"
  unfolding mf_hardlink_def by (intro sound_intros) auto

lemma sound_others:
  "sound 1 (mf_lstat p)" "sound 1 (mf_open p fl)" "sound 1 (mf_read p off buf)" "sound 1 (mf_readlink p)"
  "sound 1 (mf_set_mode p mode)" "sound 1 (mf_set_owner p uid gid)" "sound 1 (mf_set_times p atime mtime)"
  unfolding mf_lstat_def mf_open_def mf_read_def mf_readlink_def mf_set_mode_def mf_set_owner_def mf_set_times_def Let_def
  by (intro sound_intros; simp)+

lemma sound_readdir: "sound 1 (mf_readdir p)"
  unfolding mf_readdir_def by (intro sound_intros sound_list) (auto simp: node_ok_def)

lemma mf_read_count: "mf_read p off buf f = (Inr (n, b), g) \<Longrightarrow> n \<le> length b"
  by (auto simp: mf_read_def Let_def mbind_def split: prod.splits sum.splits body.splits)

interpretation memfs: p9_backend True memfs_ops "mem_at 1"
  by unfold_locales (simp_all del: One_nat_def add: memfs_ops_def mf_statfs_def Let_def mf_create_def mf_mkdir_def mf_symlink_def mf_mknod_def
      sound_create sound_write sound_truncate sound_remove sound_rename sound_hardlink sound_others sound_readdir mf_read_count)

end
