(* ===== verification/P9Correct.thy ===== *)
theory P9Correct
  imports MemFsSafe
begin

text \<open>
  The replies of the 9P server (framing, size, paging of directories), the paths it hands to a
  backend, the absence of panics over the in-memory backend, and what that backend promises of file
  contents, with three inputs on which it does not do what it means to.
\<close>

section \<open>Replies\<close>

lemma le_u32: "from_le_bytes (to_le_bytes 4 (v :: u32)) = v"
  by (rule from_le_bytes_to_le_bytes) simp

lemma le_u16: "from_le_bytes (to_le_bytes 2 (v :: u16)) = v"
  by (rule from_le_bytes_to_le_bytes) simp

lemma reply_fields:
  "from_le_bytes (take 4 (p9_reply i tag body)) = (of_nat (length (p9_reply i tag body)) :: u32)"
  "p9_reply i tag body ! 4 = i"
  "from_le_bytes (take 2 (drop 5 (p9_reply i tag body))) = tag"
  by (simp_all add: p9_reply_def nth_append le_u32 le_u16 add.commute)

lemma handle_reply:
  assumes "7 \<le> length req" "p9_handle F req s = (Inr r, s')"
  shows "(\<exists>body y. p9_dispatch F (req ! 4) (s, drop 7 req) = (Inr body, y)
        \<and> r = p9_reply (req ! 4 + 1) (from_le_bytes (take 2 (drop 5 req))) body)
    \<or> (\<exists>e. r = p9_reply R_LERROR (from_le_bytes (take 2 (drop 5 req))) (err_body e))"
  using assms
  by (auto simp: p9_handle_def answer_eval p9_finish_def mtry_def split: prod.splits sum.splits abort.splits)

text \<open>Bodies of at most \<open>n\<close> bytes from a server whose message size is \<open>M\<close>.\<close>

definition body_fits :: "u32 \<Rightarrow> nat \<Rightarrow> ('f, bytes) p9m \<Rightarrow> bool" where
  "body_fits M n m \<longleftrightarrow> (\<forall>x b y. srv_msize (fst x) = M \<longrightarrow> m x = (Inr b, y) \<longrightarrow> length b \<le> n)"

lemma body_fits_bind:
  assumes "guards False (\<lambda>x. srv_msize (fst x) = M) m" "\<And>a. body_fits M n (f a)"
  shows "body_fits M n (mbind m f)"
  unfolding body_fits_def
proof (intro allI impI)
  fix x b y assume x: "srv_msize (fst x) = M" and e: "mbind m f x = (Inr b, y)"
  from e obtain a z where "m x = (Inr a, z)" "f a z = (Inr b, y)"
    by (auto simp: mbind_def split: prod.splits sum.splits)
  moreover have "srv_msize (fst z) = M" using assms(1) [unfolded guards_def, rule_format, of x] x \<open>m x = (Inr a, z)\<close> by simp
  ultimately show "length b \<le> n" using assms(2) unfolding body_fits_def by blast
qed

lemma body_fits_getsrv:
  "(\<And>s. srv_msize s = M \<Longrightarrow> body_fits M n (k (g s))) \<Longrightarrow> body_fits M n (mbind (getsrv g) k)"
  by (fastforce simp: body_fits_def getsrv_def mbind_def)

lemma body_fits_intros:
  "length b \<le> n \<Longrightarrow> body_fits M n (mret b)" "body_fits M n (throw e)" "body_fits M n panic"
  "(c \<Longrightarrow> body_fits M n m) \<Longrightarrow> (\<not> c \<Longrightarrow> body_fits M n m') \<Longrightarrow> body_fits M n (if c then m else m')"
  "(\<And>a b. p = (a, b) \<Longrightarrow> body_fits M n (f a b)) \<Longrightarrow> body_fits M n (case p of (a, b) \<Rightarrow> f a b)"
  by (auto simp: body_fits_def split: prod.splits)

lemma msize_kept [guards_intros]:
  "guards False (\<lambda>x. srv_msize (fst x) = M) (rd_take n)" "guards False (\<lambda>x. srv_msize (fst x) = M) (getsrv g)"
  "guards False (\<lambda>x. srv_msize (fst x) = M) (onfs m)"
  "(\<And>s. srv_msize (g' s) = srv_msize s) \<Longrightarrow> guards False (\<lambda>x. srv_msize (fst x) = M) (modsrv g')"
  by (auto simp: guards_def rd_take_def getsrv_def onfs_def modsrv_def split: prod.splits)

lemma msize_kept_reads [guards_intros]:
  "guards False (\<lambda>x. srv_msize (fst x) = M) (need rd_u32)" "guards False (\<lambda>x. srv_msize (fst x) = M) (need rd_u64)"
  "guards False (\<lambda>x. srv_msize (fst x) = M) (fid_state fid)" "guards False (\<lambda>x. srv_msize (fst x) = M) (p9_snapshot F fid p)"
  unfolding need_def rd_u32_def rd_u64_def fid_state_def p9_snapshot_def by ((intro guards_intros), simp?)+

lemma payload_limit_le: "payload_limit count s + 4 \<le> max 11 (unat (srv_msize s)) - 7"
proof (cases "srv_msize s < 11")
  case False
  then have "unat (srv_msize s - 11) = unat (srv_msize s) - 11" "11 \<le> unat (srv_msize s)"
    by (simp_all add: unat_sub word_le_nat_alt not_less)
  moreover have "unat (min count (srv_msize s - 11)) \<le> unat (srv_msize s - 11)"
    by (simp add: min_def word_le_nat_alt)
  ultimately show ?thesis using False by (simp add: payload_limit_def)
qed (simp add: payload_limit_def)

lemma read_fits:
  assumes len: "\<And>p off buf f n b g. fs_read F p off buf f = (Inr (n, b), g) \<Longrightarrow> length b = length buf"
  shows "body_fits M (max 11 (unat M) - 7) (p9_read F)"
proof -
  have f: "body_fits M (max 11 (unat M) - 7) (mbind (onfs (fs_read F p off (replicate c 0)))
      (\<lambda>(n, buf). if n \<le> length buf then mret (w_u32 (of_nat n) @ take n buf) else panic))"
    if "c + 4 \<le> max 11 (unat M) - 7" for p off c
    unfolding body_fits_def
    using that len [of p off "replicate c 0"]
    by (fastforce simp: mbind_def onfs_def split: prod.splits sum.splits if_splits)
  show ?thesis unfolding p9_read_def
    by (intro f body_fits_getsrv body_fits_bind guards_intros body_fits_intros) (auto intro: payload_limit_le)
qed

lemma emit_fits: "length out \<le> count \<Longrightarrow> length (readdir_emit count i es out) \<le> count"
  by (induction count i es out rule: readdir_emit.induct) (auto simp: w_entry_def w_qid_def w_str_def)

lemma readdir_fits: "body_fits M (max 11 (unat M) - 11) (p9_readdir F fid offset count)"
proof -
  have "payload_limit c s \<le> max 11 (unat (srv_msize s)) - 11" for c and s :: "'a p9_server"
    using payload_limit_le [of c s] by simp
  moreover have "guards False (\<lambda>x. srv_msize (fst x) = M) (unwrap (r :: fid option))" for r
    by (cases r) (simp_all add: unwrap_def guards_prims)
  ultimately show ?thesis unfolding p9_readdir_def
    by (intro body_fits_getsrv body_fits_bind guards_intros body_fits_intros)
      (auto intro!: order.trans [OF emit_fits])
qed

lemma readdir_msg_fits: "body_fits M (max 11 (unat M) - 7) (p9_readdir_msg F)"
proof -
  have f: "body_fits M (max 11 (unat M) - 7) (mbind m (\<lambda>b. mret (w_u32 (of_nat (length b)) @ b)))"
    if m: "body_fits M (max 11 (unat M) - 11) m" for m :: "('a, bytes) p9m"
    unfolding body_fits_def
  proof (intro allI impI)
    fix x b y assume x: "srv_msize (fst x) = M" "mbind m (\<lambda>b. mret (w_u32 (of_nat (length b)) @ b)) x = (Inr b, y)"
    then obtain c z where "m x = (Inr c, z)" "b = w_u32 (of_nat (length c)) @ c"
      by (auto simp: mbind_def split: prod.splits sum.splits)
    moreover from this m x have "length c \<le> max 11 (unat M) - 11" unfolding body_fits_def by blast
    ultimately show "length b \<le> max 11 (unat M) - 7" by simp
  qed
  show ?thesis unfolding p9_readdir_msg_def by (intro f readdir_fits body_fits_bind guards_intros)
qed

lemmas p9_ids = T_READ_def T_READDIR_def T_VERSION_def T_ATTACH_def T_WALK_def T_CLUNK_def T_STATFS_def
  T_GETATTR_def T_SETATTR_def T_LOPEN_def T_LCREATE_def T_WRITE_def

text \<open>C12: a reply to a read or a directory read never exceeds the negotiated message size.\<close>

theorem memfs_replies_fit:
  assumes "7 \<le> length req" "req ! 4 = T_READ \<or> req ! 4 = T_READDIR" "p9_handle memfs_ops req s = (Inr r, s')"
  shows "length r \<le> max 11 (unat (srv_msize s))"
proof -
  have "length b = length buf" if "mf_read p off buf f = (Inr (n, b), g)" for p off buf f n b g
    using that by (auto simp: mf_read_def Let_def mbind_def split: prod.splits sum.splits body.splits)
  then have "body_fits M (max 11 (unat M) - 7) (p9_read memfs_ops)" for M
    by (intro read_fits) (simp add: memfs_ops_def)
  then have "body_fits M (max 11 (unat M) - 7) (p9_dispatch memfs_ops (req ! 4))" for M
    using assms(2) readdir_msg_fits [of M memfs_ops] unfolding p9_dispatch_def
    by (elim disjE) (simp_all add: p9_ids)
  then have "p9_dispatch memfs_ops (req ! 4) (s, drop 7 req) = (Inr body, y) \<Longrightarrow> length body \<le> max 11 (unat (srv_msize s)) - 7" for body y
    unfolding body_fits_def by (metis fst_conv)
  then show ?thesis using handle_reply [OF assms(1,3)] by (fastforce simp: p9_reply_def err_body_def)
qed

lemma fids_normal_new [simp]: "fids_normal (p9_new tag f)"
  by (simp add: fids_normal_def p9_new_def)

text \<open>
  C7: whatever requests a guest sends to a fresh server, and whatever the backend answers, every
  path the backend is given is normal: a guest cannot name anything outside the export.
\<close>

theorem p9_paths_inside:
  "list_all normal_path (snd (srv_fs (snd (p9_serve (logged_ops F) reqs (p9_new tag (f, []))))))"
  using watched.serve_guarded [of "p9_new tag (f, [])" reqs F] by (simp add: p9_new_def fids_normal_def)

text \<open>
  C10: over a sound in-memory file system no sequence of requests other than writes and attribute
  changes panics the host, and the file system stays sound; the two exceptions panic only on a size of
  \<open>2^63\<close> bytes or more.
\<close>

theorem memfs_server_no_panic:
  assumes "mem_at 1 f" "\<forall>req\<in>set reqs. 7 \<le> length req \<longrightarrow> req ! 4 \<noteq> T_WRITE \<and> req ! 4 \<noteq> T_SETATTR"
  shows "fst (p9_serve memfs_ops reqs (p9_new tag f)) \<noteq> Inl Panic
    \<and> mem_at 1 (srv_fs (snd (p9_serve memfs_ops reqs (p9_new tag f))))"
  using memfs.serve_guarded [of "p9_new tag f" reqs] assms by (simp add: p9_new_def fids_normal_def)

theorem memfs_server_no_panic_witness:
  "mem_at 1 memfs_new \<and>
   (let reqs = [[23, 0, 0, 0, 104, 1, 0, 7, 0, 0, 0, 0, 0, 0, 0, 0, 0, 0, 0, 0, 0, 0, 0], [9, 0, 0, 0, 200, 1, 0, 5]] in
    fst (p9_serve memfs_ops reqs (p9_new [] memfs_new)) \<noteq> Inl Panic
    \<and> mem_at 1 (srv_fs (snd (p9_serve memfs_ops reqs (p9_new [] memfs_new)))))"
proof -
  have "mem_at 1 memfs_new" by (simp add: mem_at_def memfs_new_def node_ok_def new_node_def)
  then show ?thesis
    unfolding Let_def by (intro conjI memfs_server_no_panic [THEN conjunct1] memfs_server_no_panic [THEN conjunct2])
      (simp_all add: p9_ids)
qed

text \<open>C11: every reply carries its own length and the tag of its request, under the identifier after that of the request or \<open>Rlerror\<close>.\<close>

theorem p9_replies_framed:
  assumes "7 \<le> length req" "p9_handle F req s = (Inr r, s')"
  shows "from_le_bytes (take 4 r) = (of_nat (length r) :: u32) \<and> (r ! 4 = req ! 4 + 1 \<or> r ! 4 = R_LERROR)
    \<and> from_le_bytes (take 2 (drop 5 r)) = (from_le_bytes (take 2 (drop 5 req)) :: u16)"
  using handle_reply [OF assms] by (elim disjE exE conjE) (simp_all add: reply_fields)

definition sample_fs :: memfs where
  "sample_fs = \<lparr>mf_nodes = [new_node (BDir [([97], 1), ([98], 2)]) (S_IFDIR OR 0x1ed),
     new_node (BFile [1, 2, 3]) (S_IFREG OR 0x1a4), new_node (BFile []) (S_IFREG OR 0x1a4)], mf_capacity = 4096\<rparr>"

definition sample_request :: bytes where
  "sample_request = [11, 0, 0, 0, 116, 1, 0] @ to_le_bytes 4 (1 :: u32) @ to_le_bytes 8 (1 :: u64) @ to_le_bytes 4 (100 :: u32)"

definition sample_server :: "memfs p9_server" where
  "sample_server = (p9_new [] sample_fs)\<lparr>srv_fids := [1 \<mapsto> \<lparr>f_path = [slash, 97], f_opened = True, f_dir = None\<rparr>]\<rparr>"

lemma sample_reply:
  "fst (p9_handle memfs_ops sample_request sample_server) = Inr [13, 0, 0, 0, 117, 1, 0, 2, 0, 0, 0, 2, 3]"
  by code_simp

theorem p9_replies_framed_witness:
  "let r = [13, 0, 0, 0, 117, 1, 0, 2, 0, 0, 0, 2, 3 :: u8] in
    from_le_bytes (take 4 r) = (of_nat (length r) :: u32) \<and> (r ! 4 = sample_request ! 4 + 1 \<or> r ! 4 = R_LERROR)
    \<and> from_le_bytes (take 2 (drop 5 r)) = (from_le_bytes (take 2 (drop 5 sample_request)) :: u16)"
  unfolding Let_def
  by (rule p9_replies_framed [of _ memfs_ops sample_server _ "snd (p9_handle memfs_ops sample_request sample_server)"])
    (simp add: sample_request_def, simp add: sample_reply [symmetric])

theorem memfs_replies_fit_witness:
  "length [13, 0, 0, 0, 117, 1, 0, 2, 0, 0, 0, 2, 3 :: u8] \<le> max 11 (unat (srv_msize sample_server))"
  by (rule memfs_replies_fit [of sample_request _ _ "snd (p9_handle memfs_ops sample_request sample_server)"])
    (simp add: sample_request_def, simp add: sample_request_def T_READ_def, simp add: sample_reply [symmetric])

section \<open>Paging\<close>

fun entries_from :: "nat \<Rightarrow> dir_entry list \<Rightarrow> bytes" where
  "entries_from i [] = []"
| "entries_from i (e # es) = w_entry i e @ entries_from (i + 1) es"

lemma length_w_entry: "length (w_entry i e) = 24 + length (de_name e)"
  by (simp add: w_entry_def w_qid_def w_str_def)

lemma readdir_emit_spec:
  "\<exists>k\<le>length es. readdir_emit count i es out = out @ entries_from i (take k es)
    \<and> (k < length es \<longrightarrow> count < length out + length (entries_from i (take (Suc k) es)))"
proof (induction count i es out rule: readdir_emit.induct)
  case (2 count i e es out)
  show ?case
  proof (cases "length out + (13 + 8 + 1 + 2 + length (de_name e)) > count")
    case True
    then show ?thesis by (intro exI [of _ 0]) (simp add: length_w_entry)
  next
    case False
    with 2 obtain k where "k \<le> length es"
      "readdir_emit count (i + 1) es (out @ w_entry i e) = (out @ w_entry i e) @ entries_from (i + 1) (take k es)"
      "k < length es \<longrightarrow> count < length (out @ w_entry i e) + length (entries_from (i + 1) (take (Suc k) es))" by blast
    with False show ?thesis by (intro exI [of _ "Suc k"]) auto
  qed
qed simp

text \<open>
  C13: a directory read that resumes at an entry returns the encoded entries from there on, in the
  order of the snapshot and without a gap, and stops only before an entry that does not fit.
\<close>

theorem readdir_resumes:
  assumes "srv_fids s fid = Some f" "f_opened f" "f_dir f = Some es" "offset \<noteq> 0"
  shows "\<exists>k\<le>length es - unat offset.
    p9_readdir F fid offset count (s, b) = (Inr (entries_from (unat offset) (take k (drop (unat offset) es))), (s, b))
    \<and> (k < length es - unat offset \<longrightarrow>
        payload_limit count s < length (entries_from (unat offset) (take (Suc k) (drop (unat offset) es))))"
  using readdir_emit_spec [of "drop (unat offset) es" "payload_limit count s" "unat offset" "[]"] assms
  by (simp add: p9_readdir_def getsrv_def ok_or_def unwrap_def mbind_def)

theorem readdir_resumes_witness:
  "let es = [\<lparr>de_name = [dot], de_ino = 1, de_mode = S_IFDIR\<rparr>, \<lparr>de_name = [97], de_ino = 2, de_mode = S_IFREG\<rparr>];
       s = (p9_new [] sample_fs)\<lparr>srv_fids := [1 \<mapsto> \<lparr>f_path = [], f_opened = True, f_dir = Some es\<rparr>]\<rparr> in
   \<exists>k\<le>length es - unat (1 :: u64).
     p9_readdir memfs_ops 1 1 100 (s, []) = (Inr (entries_from (unat (1 :: u64)) (take k (drop (unat (1 :: u64)) es))), (s, []))
     \<and> (k < length es - unat (1 :: u64) \<longrightarrow>
        payload_limit 100 s < length (entries_from (unat (1 :: u64)) (take (Suc k) (drop (unat (1 :: u64)) es))))"
  unfolding Let_def by (rule readdir_resumes, simp, simp, simp, simp)

section \<open>Files of the in-memory backend\<close>

lemma descend_run: "\<exists>r. descend cs i f = (r, f)"
  by (induction cs i rule: descend.induct)
    (auto simp: mbind_def node_at_def unwrap_def ok_or_def split: body.splits option.splits)

lemma descend_file:
  assumes "n_body (mf_nodes f ! i) = BFile d" "\<And>m. n_body n \<noteq> BDir m" "i < length (mf_nodes f)"
  shows "fst (descend cs j (f\<lparr>mf_nodes := (mf_nodes f)[i := n]\<rparr>)) = fst (descend cs j f)"
proof (induction cs j rule: descend.induct)
  case (2 c cs j)
  show ?case
  proof (cases "i = j")
    case True
    with assms show ?thesis by (auto simp: mbind_def node_at_def unwrap_def split: body.splits)
  next
    case False
    with 2 show ?thesis
      by (auto simp: mbind_def node_at_def unwrap_def ok_or_def split: body.splits option.splits)
  qed
qed simp

lemma lookup_run: obtains r where "mf_lookup p f = (r, f)"
  using descend_run unfolding mf_lookup_def by blast

lemma write_bytes:
  assumes "unat off + length data < 2 ^ 64"
    and "(if unat (off + of_nat (length data)) > length d then vec_resize (unat (off + of_nat (length data))) d else Some d) = Some e"
    and "set_range e off (off + of_nat (length data)) data = Some d'"
  shows "take (length data) (drop (unat off) d') = data" "unat off + length data \<le> length d'"
    "\<And>k. k < unat off \<or> unat off + length data \<le> k \<Longrightarrow> k < length d \<Longrightarrow> d' ! k = d ! k \<and> k < length d'"
proof -
  have n: "unat (off + of_nat (length data)) = unat off + length data"
    using assms(1) by (simp add: unat_word_ariths unat_of_nat)
  have e: "unat off + length data \<le> length e" "d' = take (unat off) e @ data @ drop (unat off + length data) e"
    using assms(3) by (auto simp: set_range_def n split: if_splits)
  have k: "e ! k = d ! k" "k < length e" if "k < length d" for k
    using that assms(2) n by (auto simp: vec_resize_def nth_append split: if_splits)
  show "take (length data) (drop (unat off) d') = data" "unat off + length data \<le> length d'" using e by simp_all
  fix k assume "k < unat off \<or> unat off + length data \<le> k" "k < length d"
  with e k [of k] show "d' ! k = d ! k \<and> k < length d'" by (auto simp: nth_append)
qed

lemma write_run:
  assumes "unat off + length data < 2 ^ 64" "mf_write p off data f = (Inr n, g)"
  obtains i d d' where "mf_lookup p f = (Inr i, f)" "i < length (mf_nodes f)" "n_body (mf_nodes f ! i) = BFile d"
    "g = f\<lparr>mf_nodes := (mf_nodes f)[i := (mf_nodes f ! i)\<lparr>n_body := BFile d'\<rparr>]\<rparr>" "n = length data"
    "take (length data) (drop (unat off) d') = data" "unat off + length data \<le> length d'"
    "\<And>k. k < unat off \<or> unat off + length data \<le> k \<Longrightarrow> k < length d \<Longrightarrow> d' ! k = d ! k \<and> k < length d'"
proof -
  obtain r where r: "mf_lookup p f = (r, f)" by (rule lookup_run)
  with assms(2) obtain i where i: "r = Inr i" "i < length (mf_nodes f)"
    by (cases r) (auto simp: mf_write_def mbind_def node_at_def unwrap_def split: if_splits)
  with assms(2) r obtain d where d: "n_body (mf_nodes f ! i) = BFile d"
    by (auto simp: mf_write_def mbind_def node_at_def unwrap_def split: body.splits)
  let ?e = "off + of_nat (length data)"
  let ?r = "if unat ?e > length d then vec_resize (unat ?e) d else Some d"
  have "mf_write p off data f = mbind (unwrap ?r) (\<lambda>d. mbind (unwrap (set_range d off ?e data)) (\<lambda>d.
       mbind (set_node i (\<lambda>n. n\<lparr>n_body := BFile d\<rparr>)) (\<lambda>_. mret (length data)))) f"
    using r i d by (simp add: mf_write_def Let_def mbind_def node_at_def unwrap_def)
  with assms(2) obtain e d' where e: "?r = Some e" "set_range e off ?e data = Some d'"
      "mbind (set_node i (\<lambda>n. n\<lparr>n_body := BFile d'\<rparr>)) (\<lambda>_. mret (length data)) f = (Inr n, g)"
    by (cases ?r; simp add: unwrap_def; cases "set_range (the ?r) off ?e data"; simp add: unwrap_def)
  from e(3) i have g: "g = f\<lparr>mf_nodes := (mf_nodes f)[i := (mf_nodes f ! i)\<lparr>n_body := BFile d'\<rparr>]\<rparr>" "n = length data"
    by (simp_all add: set_node_def mbind_def node_at_def unwrap_def)
  note w = write_bytes [OF assms(1) e(1,2)]
  show thesis by (rule that [of i d d']) (use r i d g w in simp_all)
qed

lemma read_file:
  assumes "fst (mf_lookup p f) = Inr i" "i < length (mf_nodes f)" "n_body (mf_nodes f ! i) = BFile d"
  shows "fst (mf_read p off buf f) = Inr (let k = min (length buf) (length d - min (unat off) (length d)) in
    (k, take k (drop (min (unat off) (length d)) d) @ drop k buf))"
proof -
  obtain r where "mf_lookup p f = (r, f)" by (rule lookup_run)
  with assms show ?thesis by (simp add: mf_read_def mbind_def node_at_def unwrap_def Let_def)
qed

lemma read_byte:
  assumes "fst (mf_lookup p f) = Inr i" "i < length (mf_nodes f)" "n_body (mf_nodes f ! i) = BFile d"
  shows "fst (mf_read p off [0] f) = Inr (1, [x]) \<longleftrightarrow> unat off < length d \<and> d ! unat off = x"
  using read_file [OF assms, of off "[0]"] by (auto simp: Let_def min_def take_Suc_conv_app_nth)

lemma read_other:
  assumes "fst (mf_lookup p f) \<noteq> Inr i" "n_body (mf_nodes f ! i) = BFile d" "\<And>m. n_body n \<noteq> BDir m" "i < length (mf_nodes f)"
  shows "fst (mf_read p off buf (f\<lparr>mf_nodes := (mf_nodes f)[i := n]\<rparr>)) = fst (mf_read p off buf f)"
proof -
  let ?g = "f\<lparr>mf_nodes := (mf_nodes f)[i := n]\<rparr>"
  obtain r where r: "mf_lookup p f = (r, f)" by (rule lookup_run)
  obtain r' where r': "mf_lookup p ?g = (r', ?g)" by (rule lookup_run)
  have "r' = r" using descend_file [OF assms(2-4), of "components p" 0] r r' unfolding mf_lookup_def by simp
  with r r' assms(1) show ?thesis
    by (cases r) (auto simp: mf_read_def mbind_def node_at_def unwrap_def Let_def split: body.splits)
qed

text \<open>
  C14: what is written to a file of the in-memory backend is read back, each other byte the file
  had is still there, and a read of any other file gives what it gave before.
\<close>

theorem memfs_write_read:
  assumes "unat off + length data < 2 ^ 64" "mf_write p off data f = (Inr n, g)"
  shows "n = length data \<and> fst (mf_read p off (replicate (length data) 0) g) = Inr (length data, data)
    \<and> (\<forall>off' x. (unat off' < unat off \<or> unat off + length data \<le> unat off') \<and> fst (mf_read p off' [0] f) = Inr (1, [x])
          \<longrightarrow> fst (mf_read p off' [0] g) = Inr (1, [x]))
    \<and> (\<forall>p' off' buf. fst (mf_lookup p' f) \<noteq> fst (mf_lookup p f) \<longrightarrow> fst (mf_read p' off' buf g) = fst (mf_read p' off' buf f))"
proof -
  obtain i d d' where w: "mf_lookup p f = (Inr i, f)" "i < length (mf_nodes f)" "n_body (mf_nodes f ! i) = BFile d"
    and g: "g = f\<lparr>mf_nodes := (mf_nodes f)[i := (mf_nodes f ! i)\<lparr>n_body := BFile d'\<rparr>]\<rparr>" and n: "n = length data"
    and d: "take (length data) (drop (unat off) d') = data" "unat off + length data \<le> length d'"
      "\<And>k. k < unat off \<or> unat off + length data \<le> k \<Longrightarrow> k < length d \<Longrightarrow> d' ! k = d ! k \<and> k < length d'"
    using write_run [OF assms] by metis
  have l: "fst (mf_lookup p g) = Inr i"
    using descend_file [OF w(3) _ w(2), of "(mf_nodes f ! i)\<lparr>n_body := BFile d'\<rparr>" "components p" 0] w g
    unfolding mf_lookup_def by simp
  have gi: "i < length (mf_nodes g)" "n_body (mf_nodes g ! i) = BFile d'" using w g by simp_all
  have "fst (mf_read p off (replicate (length data) 0) g) = Inr (length data, data)"
    using read_file [OF l gi, of off "replicate (length data) 0"] d(1,2) by (simp add: Let_def min_absorb1)
  moreover have "fst (mf_read p off' [0] g) = Inr (1, [x])"
    if "unat off' < unat off \<or> unat off + length data \<le> unat off'" "fst (mf_read p off' [0] f) = Inr (1, [x])" for off' x
    using that d(3) [of "unat off'"] read_byte [OF _ w(2,3), of p off' x] w(1) read_byte [OF l gi] by simp
  moreover have "fst (mf_read p' off' buf g) = fst (mf_read p' off' buf f)" if "fst (mf_lookup p' f) \<noteq> fst (mf_lookup p f)" for p' off' buf
    unfolding g by (rule read_other [OF _ w(3) _ w(2)]) (use that w(1) in simp_all)
  ultimately show ?thesis using n by blast
qed

lemma sample_write: "fst (mf_write [slash, 97] 2 [9, 8] sample_fs) = Inr 2"
  by (simp add: mf_write_def mf_lookup_def components_def sample_fs_def slash_def dot_def mbind_def node_at_def
      set_node_def unwrap_def ok_or_def new_node_def set_range_def vec_resize_def)

lemma sample_write_run: "mf_write [slash, 97] 2 [9, 8] sample_fs = (Inr (length [9, 8 :: u8]), snd (mf_write [slash, 97] 2 [9, 8] sample_fs))"
  using sample_write by (simp add: prod_eq_iff numeral_2_eq_2)

theorem memfs_write_read_witness:
  "fst (mf_read [slash, 97] 2 (replicate (length [9, 8 :: u8]) 0) (snd (mf_write [slash, 97] 2 [9, 8] sample_fs)))
     = Inr (length [9, 8 :: u8], [9, 8])"
  by (rule memfs_write_read [OF _ sample_write_run, THEN conjunct2, THEN conjunct1]) simp

text \<open>
  A rename whose target directory is a file succeeds and drops the entry; removing one of two hard
  links frees the node the other still names; a write whose end passes \<open>2^64\<close> panics.
\<close>

lemmas memfs_eval = mf_rename_def mf_split_def mf_lookup_def mf_hardlink_def mf_remove_def mf_read_def components_def
  sample_fs_def slash_def dot_def mbind_def node_at_def set_node_def child_idx_def link_child_def unlink_child_def
  bt_remove_def unwrap_def ok_or_def new_node_def Let_def

lemma memfs_rename_loses_file:
  "let (r, f) = mf_rename [slash, 97] [slash, 98, slash, 99] sample_fs in
   r = Inr () \<and> fst (mf_lookup [slash, 97] f) = Inl (Throw P9_ENOENT)
   \<and> fst (mf_lookup [slash, 98, slash, 99] f) = Inl (Throw P9_ENOTDIR)"
  by (simp add: memfs_eval)

lemma memfs_remove_frees_hard_link:
  "let f = snd (mf_remove [slash, 97] False (snd (mf_hardlink [slash, 97] [slash, 99] sample_fs))) in
   fst (mf_read [slash, 99] 0 [0] (snd (mf_hardlink [slash, 97] [slash, 99] sample_fs))) = Inr (1, [1])
   \<and> fst (mf_read [slash, 99] 0 [0] f) = Inl (Throw P9_EINVAL)"
  by (simp add: memfs_eval)

lemma memfs_write_wrap_panics: "fst (mf_write [slash, 97] (- 1) [9, 8] sample_fs) = Inl Panic"
proof -
  have "\<not> unat (- 1 :: u64) \<le> Suc 0" by (simp add: unsigned_minus_1_eq_mask mask_eq_exp_minus_1)
  then show ?thesis
    by (simp add: mf_write_def mf_lookup_def components_def sample_fs_def slash_def dot_def mbind_def node_at_def
      unwrap_def ok_or_def new_node_def set_range_def)
qed

end
