(* ===== verification/Virtio.thy ===== *)
theory Virtio
  imports P9 Csr "HOL-Library.While_Combinator"
begin

text \<open>
  The virtio-mmio transport with its console, block, 9P and network backends,
  \<open>crates/rv64-system/src/virtio.rs\<close>: registers, split virtqueues, descriptor chains, the used ring.
  The computations act on the device and guest RAM. \<open>usize\<close> is 64 bits, sums wrap, a slice out of
  range panics. A 9P server runs over the operations \<open>F\<close> of its backend. The debug output is left out.
\<close>

section \<open>Devices\<close>

type_synonym descriptor = "u64 \<times> u32 \<times> bool"

definition VIRTQ_DESC_F_NEXT :: u16 where "VIRTQ_DESC_F_NEXT = 1"
definition VIRTQ_DESC_F_WRITE :: u16 where "VIRTQ_DESC_F_WRITE = 2"
definition VIRTQ_DESC_F_INDIRECT :: u16 where "VIRTQ_DESC_F_INDIRECT = 4"
definition DESCRIPTOR_BYTES :: u64 where "DESCRIPTOR_BYTES = 16"
definition MAX_QUEUES :: nat where "MAX_QUEUES = 2"
definition NET_HDR_LEN :: nat where "NET_HDR_LEN = 12"
definition NET_MAX_FRAME :: nat where "NET_MAX_FRAME = 1600"
definition NET_QUEUE_LIMIT :: nat where "NET_QUEUE_LIMIT = 256"
definition VIRTIO_BLK_T_IN :: u32 where "VIRTIO_BLK_T_IN = 0"
definition VIRTIO_BLK_T_OUT :: u32 where "VIRTIO_BLK_T_OUT = 1"
definition SECTOR :: u64 where "SECTOR = 512"

record p9_pending =
  pend_head :: u16
  pend_chain :: "descriptor list"

text \<open>The fields in the order of the source: \<open>Console rx_buf tx_out cols rows\<close>, \<open>Block disk\<close>, \<open>Fs srv\<close>,
  \<open>FsExternal tag requests pending\<close>, \<open>Net mac inbox outbox\<close>.\<close>

datatype 'f vbackend =
    Console bytes bytes u16 u16
  | Block bytes
  | Fs "'f p9_server"
  | FsExternal bytes "bytes list" "u16 \<rightharpoonup> p9_pending"
  | Net bytes "bytes list" "bytes list"

record vqueue =
  q_ready :: u32
  q_num :: u32
  q_desc :: u64
  q_avail :: u64
  q_used :: u64
  q_last_avail_idx :: u16

definition vqueue_default :: vqueue where
  "vqueue_default = \<lparr>q_ready = 0, q_num = 0, q_desc = 0, q_avail = 0, q_used = 0, q_last_avail_idx = 0\<rparr>"

datatype service_result = Complete u32 | Deferred | Blocked

record 'f virtio_dev =
  vd_backend :: "'f vbackend"
  vd_status :: u32
  vd_device_features_sel :: u32
  vd_driver_features_sel :: u32
  vd_queue_sel :: u32
  vd_queues :: "vqueue list"
  vd_config_generation :: u32
  vd_int_status :: u32

definition virtio_new :: "'f vbackend \<Rightarrow> 'f virtio_dev" where
  "virtio_new b = \<lparr>vd_backend = b, vd_status = 0, vd_device_features_sel = 0, vd_driver_features_sel = 0,
     vd_queue_sel = 0, vd_queues = replicate MAX_QUEUES vqueue_default, vd_config_generation = 0, vd_int_status = 0\<rparr>"

definition device_id :: "'f virtio_dev \<Rightarrow> u32" where
  "device_id d = (case vd_backend d of Console _ _ _ _ \<Rightarrow> 3 | Block _ \<Rightarrow> 2 | Fs _ \<Rightarrow> 9 | FsExternal _ _ _ \<Rightarrow> 9 | Net _ _ _ \<Rightarrow> 1)"

definition device_features :: "u32 \<Rightarrow> 'f virtio_dev \<Rightarrow> u32" where
  "device_features sel d =
     (if sel = 1 then 1
      else if sel = 0 then (case vd_backend d of
          Console _ _ _ _ \<Rightarrow> 1
        | Fs _ \<Rightarrow> 1 OR push_bit 28 1
        | FsExternal _ _ _ \<Rightarrow> 1 OR push_bit 28 1
        | Net _ _ _ \<Rightarrow> push_bit 5 1
        | _ \<Rightarrow> 0)
      else 0)"

definition queue_num_max :: "'f virtio_dev \<Rightarrow> u32" where
  "queue_num_max d = (case vd_backend d of
     Fs _ \<Rightarrow> 128 | FsExternal _ _ _ \<Rightarrow> 128 | Net _ _ _ \<Rightarrow> 256 | Console _ _ _ _ \<Rightarrow> 128 | _ \<Rightarrow> 16)"

definition vio_irq_pending :: "'f virtio_dev \<Rightarrow> bool" where
  "vio_irq_pending d \<longleftrightarrow> vd_int_status d \<noteq> 0"

definition console_input :: "bytes \<Rightarrow> 'f virtio_dev \<Rightarrow> 'f virtio_dev" where
  "console_input bs d = (case vd_backend d of
     Console rx tx c r \<Rightarrow> d\<lparr>vd_backend := Console (rx @ bs) tx c r\<rparr> | _ \<Rightarrow> d)"

definition console_take_output :: "'f virtio_dev \<Rightarrow> bytes \<times> 'f virtio_dev" where
  "console_take_output d = (case vd_backend d of
     Console rx tx c r \<Rightarrow> (tx, d\<lparr>vd_backend := Console rx [] c r\<rparr>) | _ \<Rightarrow> ([], d))"

definition console_resize :: "u16 \<Rightarrow> u16 \<Rightarrow> 'f virtio_dev \<Rightarrow> 'f virtio_dev" where
  "console_resize w h d = (case vd_backend d of
     Console rx tx _ _ \<Rightarrow> d\<lparr>vd_backend := Console rx tx w h,
       vd_config_generation := vd_config_generation d + 1, vd_int_status := vd_int_status d OR 2\<rparr>
   | _ \<Rightarrow> d)"

section \<open>Registers\<close>

text \<open>\<open>tag.get(off as usize - 2)\<close> and the like: \<open>get\<close> with a default of zero.\<close>

definition get_or_0 :: "bytes \<Rightarrow> u64 \<Rightarrow> u8" where
  "get_or_0 xs i = (if unat i < length xs then xs ! unat i else 0)"

definition tag_config :: "bytes \<Rightarrow> u64 \<Rightarrow> u8" where
  "tag_config tag off =
     (if off = 0 then of_nat (length tag) else if off = 1 then of_nat (length tag div 256) else get_or_0 tag (off - 2))"

definition config_u8 :: "u64 \<Rightarrow> 'f virtio_dev \<Rightarrow> u8" where
  "config_u8 off d = (case vd_backend d of
     Console _ _ cols rows \<Rightarrow> get_or_0 (to_le_bytes 2 cols @ to_le_bytes 2 rows) off
   | Block disk \<Rightarrow> get_or_0 (to_le_bytes 8 (of_nat (length disk) div SECTOR)) off
   | Fs srv \<Rightarrow> tag_config (srv_tag srv) off
   | FsExternal tag _ _ \<Rightarrow> tag_config tag off
   | Net mac _ _ \<Rightarrow> get_or_0 mac off)"

type_synonym ('f, 'a) vdevm = "('f virtio_dev, exn, 'a) res"

text \<open>\<open>self.q()\<close> and an update through \<open>self.qm()\<close>.\<close>

definition sel_queue :: "('f, vqueue) vdevm" where
  "sel_queue = mbind (mget (\<lambda>d. if unat (vd_queue_sel d) < length (vd_queues d)
     then Some (vd_queues d ! unat (vd_queue_sel d)) else None)) unwrap"

definition mod_queue :: "(vqueue \<Rightarrow> vqueue) \<Rightarrow> ('f, unit) vdevm" where
  "mod_queue g = mbind sel_queue (\<lambda>q. mmod (\<lambda>d. d\<lparr>vd_queues := (vd_queues d)[unat (vd_queue_sel d) := g q]\<rparr>))"

definition virtio_read :: "u64 \<Rightarrow> ('f, u32) vdevm" where
  "virtio_read offset =
     (if offset = 0x000 then mret 0x74726976
      else if offset = 0x004 then mret 2
      else if offset = 0x008 then mget device_id
      else if offset = 0x00c then mret 0xffff
      else if offset = 0x010 then mget (\<lambda>d. device_features (vd_device_features_sel d) d)
      else if offset = 0x034 then mget queue_num_max
      else if offset = 0x044 then mbind sel_queue (\<lambda>q. mret (q_ready q))
      else if offset = 0x060 then mget vd_int_status
      else if offset = 0x070 then mget vd_status
      else if offset = 0x0fc then mget vd_config_generation
      else if offset \<ge> 0x100 then
        let o' = offset - 0x100 in
        mget (\<lambda>d. from_le_bytes [config_u8 o' d, config_u8 (o' + 1) d, config_u8 (o' + 2) d, config_u8 (o' + 3) d])
      else mret 0)"

definition read_sized :: "u64 \<Rightarrow> u32 \<Rightarrow> ('f, u32) vdevm" where
  "read_sized offset sz =
     (if offset \<ge> 0x100 \<and> sz < 4 then
        mget (\<lambda>d. from_le_bytes (map (\<lambda>i. config_u8 (offset - 0x100 + of_nat i) d) [0..<unat sz]))
      else virtio_read offset)"

definition set_lo :: "u32 \<Rightarrow> u64 \<Rightarrow> u64" where
  "set_lo val v = (v AND NOT 0xffffffff) OR ucast val"

definition set_hi :: "u32 \<Rightarrow> u64 \<Rightarrow> u64" where
  "set_hi val v = (v AND 0xffffffff) OR push_bit 32 (ucast val)"

definition set_status :: "u32 \<Rightarrow> 'f virtio_dev \<Rightarrow> 'f virtio_dev" where
  "set_status val d =
     (let driver_ok = vd_status d AND 4 \<noteq> 0; d = d\<lparr>vd_status := val\<rparr> in
      if val = 0 then d\<lparr>vd_queues := replicate MAX_QUEUES vqueue_default, vd_int_status := 0,
        vd_backend := (case vd_backend d of FsExternal tag _ _ \<Rightarrow> FsExternal tag [] Map.empty | b \<Rightarrow> b)\<rparr>
      else if \<not> driver_ok \<and> val AND 4 \<noteq> 0 then
        (case vd_backend d of Console _ _ _ _ \<Rightarrow> d\<lparr>vd_int_status := vd_int_status d OR 2\<rparr> | _ \<Rightarrow> d)
      else d)"

text \<open>A write that returns a queue number asks for that queue to be processed.\<close>

definition virtio_write :: "u64 \<Rightarrow> u32 \<Rightarrow> ('f, u32 option) vdevm" where
  "virtio_write offset val =
     (if offset = 0x050 then mret (Some val)
      else mbind
       (if offset = 0x014 then mmod (\<lambda>d. d\<lparr>vd_device_features_sel := val\<rparr>)
        else if offset = 0x024 then mmod (\<lambda>d. d\<lparr>vd_driver_features_sel := val\<rparr>)
        else if offset = 0x030 then mmod (\<lambda>d. d\<lparr>vd_queue_sel := min val (of_nat MAX_QUEUES - 1)\<rparr>)
        else if offset = 0x038 then
          mbind (mget queue_num_max) (\<lambda>m. mod_queue (\<lambda>q. q\<lparr>q_num := min val m\<rparr>))
        else if offset = 0x044 then mod_queue (\<lambda>q. q\<lparr>q_ready := val AND 1\<rparr>)
        else if offset = 0x064 then mmod (\<lambda>d. d\<lparr>vd_int_status := vd_int_status d AND NOT val\<rparr>)
        else if offset = 0x070 then mmod (set_status val)
        else if offset = 0x080 then mod_queue (\<lambda>q. q\<lparr>q_desc := set_lo val (q_desc q)\<rparr>)
        else if offset = 0x084 then mod_queue (\<lambda>q. q\<lparr>q_desc := set_hi val (q_desc q)\<rparr>)
        else if offset = 0x090 then mod_queue (\<lambda>q. q\<lparr>q_avail := set_lo val (q_avail q)\<rparr>)
        else if offset = 0x094 then mod_queue (\<lambda>q. q\<lparr>q_avail := set_hi val (q_avail q)\<rparr>)
        else if offset = 0x0a0 then mod_queue (\<lambda>q. q\<lparr>q_used := set_lo val (q_used q)\<rparr>)
        else if offset = 0x0a4 then mod_queue (\<lambda>q. q\<lparr>q_used := set_hi val (q_used q)\<rparr>)
        else mret ()) (\<lambda>_. mret None))"

section \<open>Host side\<close>

definition net_input :: "bytes \<Rightarrow> 'f virtio_dev \<Rightarrow> bool \<times> 'f virtio_dev" where
  "net_input frame d = (case vd_backend d of
     Net mac inb out \<Rightarrow>
       if length frame \<le> NET_MAX_FRAME \<and> length inb < NET_QUEUE_LIMIT
       then (True, d\<lparr>vd_backend := Net mac (inb @ [frame]) out\<rparr>) else (False, d)
   | _ \<Rightarrow> (False, d))"

definition net_input_capacity :: "'f virtio_dev \<Rightarrow> nat" where
  "net_input_capacity d = (case vd_backend d of Net _ inb _ \<Rightarrow> NET_QUEUE_LIMIT - length inb | _ \<Rightarrow> 0)"

definition net_take_output :: "'f virtio_dev \<Rightarrow> bytes list \<times> 'f virtio_dev" where
  "net_take_output d = (case vd_backend d of
     Net mac inb out \<Rightarrow> (out, d\<lparr>vd_backend := Net mac inb []\<rparr>) | _ \<Rightarrow> ([], d))"

definition net_rx_pending :: "'f virtio_dev \<Rightarrow> bool" where
  "net_rx_pending d = (case vd_backend d of Net _ inb _ \<Rightarrow> inb \<noteq> [] | _ \<Rightarrow> False)"

definition fs_external_take_request :: "'f virtio_dev \<Rightarrow> bytes option \<times> 'f virtio_dev" where
  "fs_external_take_request d = (case vd_backend d of
     FsExternal tag (r # rs) p \<Rightarrow> (Some r, d\<lparr>vd_backend := FsExternal tag rs p\<rparr>) | _ \<Rightarrow> (None, d))"

section \<open>Guest memory\<close>

type_synonym ('f, 'a) viom = "('f virtio_dev \<times> bytes, exn, 'a) res"

definition onram :: "(bytes \<Rightarrow> 'a option) \<Rightarrow> ('f, 'a) viom" where
  "onram g = mbind (mget (\<lambda>(_, ram). g ram)) unwrap"

definition setram :: "(bytes \<Rightarrow> bytes option) \<Rightarrow> ('f, unit) viom" where
  "setram g = mbind (onram g) (\<lambda>ram. mmod (\<lambda>(d, _). (d, ram)))"

definition vio_read16 :: "u64 \<Rightarrow> u64 \<Rightarrow> ('f, u16) viom" where
  "vio_read16 base addr = (let o' = addr - base in
     mbind (onram (\<lambda>ram. sub_range ram o' (o' + 2))) (\<lambda>b. mret (from_le_bytes b)))"

definition vio_write16 :: "u64 \<Rightarrow> u64 \<Rightarrow> u16 \<Rightarrow> ('f, unit) viom" where
  "vio_write16 base addr v = (let o' = addr - base in setram (\<lambda>ram. set_range ram o' (o' + 2) (to_le_bytes 2 v)))"

definition vio_write32 :: "u64 \<Rightarrow> u64 \<Rightarrow> u32 \<Rightarrow> ('f, unit) viom" where
  "vio_write32 base addr v = (let o' = addr - base in setram (\<lambda>ram. set_range ram o' (o' + 4) (to_le_bytes 4 v)))"

text \<open>\<open>guest_slice\<close> and a copy into \<open>guest_slice_mut\<close>: checked arithmetic, \<open>None\<close> outside RAM.\<close>

definition guest_slice :: "bytes \<Rightarrow> u64 \<Rightarrow> u64 \<Rightarrow> u32 \<Rightarrow> bytes option" where
  "guest_slice ram base addr len =
     (if addr < base then None
      else let off = unat (addr - base) in
        if off + unat len < 2 ^ 64 \<and> off + unat len \<le> length ram then Some (take (unat len) (drop off ram)) else None)"

definition guest_store :: "bytes \<Rightarrow> u64 \<Rightarrow> u64 \<Rightarrow> bytes \<Rightarrow> bytes option" where
  "guest_store ram base addr bs =
     (if addr < base then None
      else let off = unat (addr - base) in
        if off + length bs < 2 ^ 64 \<and> off + length bs \<le> length ram
        then Some (take off ram @ bs @ drop (off + length bs) ram) else None)"

section \<open>Descriptor chains\<close>

definition read_descriptor :: "bytes \<Rightarrow> u64 \<Rightarrow> u64 \<Rightarrow> u32 \<Rightarrow> u32 \<Rightarrow> (u64 \<times> u32 \<times> u16 \<times> u16) option" where
  "read_descriptor ram base table count i =
     (if i \<ge> count then None
      else if unat table + unat i * 16 \<ge> 2 ^ 64 then None
      else map_option (\<lambda>b. (from_le_bytes (take 8 b), from_le_bytes (take 4 (drop 8 b)),
          from_le_bytes (take 2 (drop 12 b)), from_le_bytes (take 2 (drop 14 b))))
        (guest_slice ram base (table + ucast i * DESCRIPTOR_BYTES) (ucast DESCRIPTOR_BYTES)))"

text \<open>The \<open>for\<close> loop of \<open>walk_descriptor_table\<close> with the iterations it has left.\<close>

primrec walk_chain :: "bytes \<Rightarrow> u64 \<Rightarrow> u64 \<Rightarrow> u32 \<Rightarrow> nat \<Rightarrow> u32 \<Rightarrow> descriptor list option" where
  "walk_chain ram base table count 0 i = None"
| "walk_chain ram base table count (Suc n) i =
     (case read_descriptor ram base table count i of
        None \<Rightarrow> None
      | Some (addr, len, flags, next) \<Rightarrow>
          if flags AND VIRTQ_DESC_F_INDIRECT \<noteq> 0 then None
          else let d = (addr, len, flags AND VIRTQ_DESC_F_WRITE \<noteq> 0) in
            if flags AND VIRTQ_DESC_F_NEXT = 0 then Some [d]
            else map_option (\<lambda>ds. d # ds) (walk_chain ram base table count n (ucast next)))"

definition walk_descriptor_table :: "bytes \<Rightarrow> u64 \<Rightarrow> u64 \<Rightarrow> u32 \<Rightarrow> u32 \<Rightarrow> descriptor list option" where
  "walk_descriptor_table ram base table count first =
     (if count = 0 \<or> first \<ge> count then None else walk_chain ram base table count (unat count) first)"

definition descriptor_chain :: "vqueue \<Rightarrow> u16 \<Rightarrow> bytes \<Rightarrow> u64 \<Rightarrow> descriptor list option" where
  "descriptor_chain q head ram base =
     (case read_descriptor ram base (q_desc q) (q_num q) (ucast head) of
        None \<Rightarrow> None
      | Some (addr, len, flags, _) \<Rightarrow>
          if flags AND VIRTQ_DESC_F_INDIRECT = 0
          then walk_descriptor_table ram base (q_desc q) (q_num q) (ucast head)
          else if flags AND VIRTQ_DESC_F_NEXT \<noteq> 0 \<or> len = 0 \<or> ucast len mod DESCRIPTOR_BYTES \<noteq> 0 then None
          else walk_descriptor_table ram base addr (len div ucast DESCRIPTOR_BYTES) 0)"

text \<open>The remainder by the ring size panics when the size is zero.\<close>

definition ring_slot :: "u16 \<Rightarrow> vqueue \<Rightarrow> ('f, u64) viom" where
  "ring_slot i q = (if q_num q = 0 then panic else mret (ucast i mod ucast (q_num q)))"

definition publish_used :: "vqueue \<Rightarrow> u16 \<Rightarrow> u32 \<Rightarrow> u64 \<Rightarrow> ('f, unit) viom" where
  "publish_used q head written base =
     mbind (vio_read16 base (q_used q + 2)) (\<lambda>used_idx.
     mbind (ring_slot used_idx q) (\<lambda>slot.
     mbind (vio_write32 base (q_used q + 4 + slot * 8) (ucast head)) (\<lambda>_.
     mbind (vio_write32 base (q_used q + 4 + slot * 8 + 4) written) (\<lambda>_.
     vio_write16 base (q_used q + 2) (used_idx + 1)))))"

definition p9_tag :: "bytes \<Rightarrow> u16 option" where
  "p9_tag m = (if length m > 6 then Some (from_le_bytes [m ! 5, m ! 6]) else None)"

section \<open>Service\<close>

text \<open>The bytes of the device-readable descriptors, in order.\<close>

fun gather :: "bytes \<Rightarrow> u64 \<Rightarrow> descriptor list \<Rightarrow> bytes option" where
  "gather ram base [] = Some []"
| "gather ram base ((addr, len, writable) # ds) =
     (if writable then gather ram base ds
      else case guest_slice ram base addr len of
        None \<Rightarrow> None
      | Some s \<Rightarrow> map_option (\<lambda>bs. s @ bs) (gather ram base ds))"

text \<open>Copies \<open>src\<close> from \<open>pos\<close> on into the device-writable descriptors, up to the first one outside RAM.\<close>

fun scatter :: "u64 \<Rightarrow> descriptor list \<Rightarrow> bytes \<Rightarrow> nat \<Rightarrow> bytes \<Rightarrow> nat \<times> bytes" where
  "scatter base [] src pos ram = (pos, ram)"
| "scatter base ((addr, len, writable) # ds) src pos ram =
     (if \<not> writable \<or> length src \<le> pos then scatter base ds src pos ram
      else let n = min (length src - pos) (unat len) in
        case guest_store ram base addr (take n (drop pos src)) of
          None \<Rightarrow> (pos, ram)
        | Some ram \<Rightarrow> scatter base ds src (pos + n) ram)"

fun console_rx :: "u64 \<Rightarrow> descriptor list \<Rightarrow> bytes \<Rightarrow> u32 \<Rightarrow> ('f, bytes \<times> u32) viom" where
  "console_rx base [] rx written = mret (rx, written)"
| "console_rx base ((addr, len, writable) # ds) rx written =
     (if \<not> writable \<or> rx = [] then console_rx base ds rx written
      else let n = min (length rx) (unat len); off = addr - base in
        mbind (setram (\<lambda>ram. set_range ram off (off + of_nat n) (take n rx))) (\<lambda>_.
        if drop n rx = [] then mret ([], written + of_nat n)
        else console_rx base ds (drop n rx) (written + of_nat n)))"

fun console_tx :: "u64 \<Rightarrow> descriptor list \<Rightarrow> bytes \<Rightarrow> ('f, bytes) viom" where
  "console_tx base [] out = mret out"
| "console_tx base ((addr, len, writable) # ds) out =
     (if writable then console_tx base ds out
      else let off = addr - base in
        mbind (onram (\<lambda>ram. sub_range ram off (off + ucast len))) (\<lambda>s. console_tx base ds (out @ s)))"

definition set_backend :: "'f vbackend \<Rightarrow> ('f, unit) viom" where
  "set_backend b = mmod (\<lambda>(d, ram). (d\<lparr>vd_backend := b\<rparr>, ram))"

definition service_console :: "u64 \<Rightarrow> nat \<Rightarrow> descriptor list \<Rightarrow> bytes \<Rightarrow> bytes \<Rightarrow> u16 \<Rightarrow> u16 \<Rightarrow> ('f, service_result) viom" where
  "service_console base qi chain rx tx w h =
     (if qi = 0 then
        if rx = [] then mret Blocked
        else mbind (console_rx base chain rx 0) (\<lambda>(rx, written).
          mbind (set_backend (Console rx tx w h)) (\<lambda>_. mret (Complete written)))
      else mbind (console_tx base chain tx) (\<lambda>tx.
        mbind (set_backend (Console rx tx w h)) (\<lambda>_. mret (Complete 0))))"

text \<open>The data descriptors of a block request; \<open>pos\<close> is the byte offset in the disk.\<close>

fun block_data :: "u64 \<Rightarrow> u32 \<Rightarrow> descriptor list \<Rightarrow> bytes \<Rightarrow> u64 \<Rightarrow> u32 \<Rightarrow> bool \<Rightarrow> ('f, bytes \<times> u32 \<times> bool) viom" where
  "block_data base req_type [] disk pos written ok = mret (disk, written, ok)"
| "block_data base req_type ((addr, len, writable) # ds) disk pos written ok =
     (let off = addr - base; len64 = ucast len; fits_disk = pos + len64 \<le> of_nat (length disk) in
      if req_type = VIRTIO_BLK_T_IN \<and> writable then
        mbind (if fits_disk
               then mbind (unwrap (sub_range disk pos (pos + len64))) (\<lambda>s.
                 mbind (setram (\<lambda>ram. set_range ram off (off + len64) s)) (\<lambda>_. mret ok))
               else mret False) (\<lambda>ok.
        block_data base req_type ds disk (pos + len64) (written + len) ok)
      else if req_type = VIRTIO_BLK_T_OUT \<and> \<not> writable then
        mbind (if fits_disk
               then mbind (onram (\<lambda>ram. sub_range ram off (off + len64))) (\<lambda>s.
                 mbind (unwrap (set_range disk pos (pos + len64) s)) (\<lambda>disk. mret (disk, ok)))
               else mret (disk, False)) (\<lambda>(disk, ok).
        block_data base req_type ds disk (pos + len64) written ok)
      else block_data base req_type ds disk (pos + len64) written False)"

definition service_block :: "u64 \<Rightarrow> descriptor list \<Rightarrow> bytes \<Rightarrow> ('f, service_result) viom" where
  "service_block base chain disk =
     (case chain of
        [] \<Rightarrow> mret (Complete 0)
      | (hdr_addr, _, _) # _ \<Rightarrow>
          let hoff = hdr_addr - base in
          mbind (onram (\<lambda>ram. sub_range ram hoff (hoff + 4))) (\<lambda>t.
          mbind (onram (\<lambda>ram. sub_range ram (hoff + 8) (hoff + 16))) (\<lambda>sct.
          if length chain < 2 then panic
          else
            mbind (block_data base (from_le_bytes t) (butlast (tl chain)) disk (from_le_bytes sct * SECTOR) 0 True)
              (\<lambda>(disk, written, ok).
            let soff = fst (last chain) - base in
            mbind (setram (\<lambda>ram. if unat soff < length ram then Some (ram[unat soff := if ok then 0 else 1]) else None)) (\<lambda>_.
            mbind (set_backend (Block disk)) (\<lambda>_.
            mret (Complete (written + 1))))))))"

definition service_fs :: "'f fs_ops \<Rightarrow> u64 \<Rightarrow> descriptor list \<Rightarrow> 'f p9_server \<Rightarrow> ('f, service_result) viom" where
  "service_fs F base chain srv =
     mbind (mget (\<lambda>(_, ram). gather ram base chain)) (\<lambda>r. case r of
       None \<Rightarrow> mret (Complete 0)
     | Some req \<Rightarrow>
         if req = [] then mret (Complete 0)
         else (case p9_handle F req srv of
           (Inr reply, srv) \<Rightarrow>
             mbind (set_backend (Fs srv)) (\<lambda>_.
             mbind (mget (\<lambda>(_, ram). scatter base chain reply 0 ram)) (\<lambda>(pos, ram).
             mbind (mmod (\<lambda>(d, _). (d, ram))) (\<lambda>_.
             mret (Complete (of_nat pos)))))
         | (Inl _, _) \<Rightarrow> panic))"

definition service_ext :: "u64 \<Rightarrow> u16 \<Rightarrow> descriptor list \<Rightarrow> bytes \<Rightarrow> bytes list \<Rightarrow> (u16 \<rightharpoonup> p9_pending) \<Rightarrow> ('f, service_result) viom" where
  "service_ext base head chain tag reqs pend =
     mbind (mget (\<lambda>(_, ram). gather ram base chain)) (\<lambda>r. case r of
       None \<Rightarrow> mret (Complete 0)
     | Some bs \<Rightarrow> (case p9_tag bs of
         None \<Rightarrow> mret (Complete 0)
       | Some t \<Rightarrow>
           if pend t \<noteq> None then mret (Complete 0)
           else mbind (set_backend (FsExternal tag (reqs @ [bs])
                  (pend(t \<mapsto> \<lparr>pend_head = head, pend_chain = chain\<rparr>)))) (\<lambda>_. mret Deferred)))"

definition net_header :: bytes where
  "net_header = (replicate NET_HDR_LEN 0)[10 := 1]"

definition service_net :: "u64 \<Rightarrow> nat \<Rightarrow> descriptor list \<Rightarrow> bytes \<Rightarrow> bytes list \<Rightarrow> bytes list \<Rightarrow> ('f, service_result) viom" where
  "service_net base qi chain mac inb out =
     (if qi = 0 then
        (case inb of
           [] \<Rightarrow> mret Blocked
         | frame # inb \<Rightarrow>
             if sum_list (map (\<lambda>(_, len, _). unat len) (filter (\<lambda>(_, _, w). w) chain)) < NET_HDR_LEN + length frame
             then mbind (set_backend (Net mac inb out)) (\<lambda>_. mret Blocked)
             else
               mbind (mget (\<lambda>(_, ram). scatter base chain (net_header @ frame) 0 ram)) (\<lambda>(written, ram).
               mbind (mmod (\<lambda>(d, _). (d, ram))) (\<lambda>_.
               mbind (set_backend (Net mac inb out)) (\<lambda>_.
               mret (Complete (of_nat written))))))
      else
        mbind (mget (\<lambda>(_, ram). gather ram base chain)) (\<lambda>r. case r of
          None \<Rightarrow> mret (Complete 0)
        | Some frame \<Rightarrow>
            mbind (if NET_HDR_LEN < length frame \<and> length frame - NET_HDR_LEN \<le> NET_MAX_FRAME \<and> length out < NET_QUEUE_LIMIT
                   then set_backend (Net mac inb (out @ [drop NET_HDR_LEN frame])) else mret ()) (\<lambda>_.
            mret (Complete 0))))"

definition service :: "'f fs_ops \<Rightarrow> u64 \<Rightarrow> nat \<Rightarrow> u16 \<Rightarrow> descriptor list \<Rightarrow> ('f, service_result) viom" where
  "service F base qi head chain =
     mbind (mget (\<lambda>(d, _). vd_backend d)) (\<lambda>b. case b of
       Console rx tx w h \<Rightarrow> service_console base qi chain rx tx w h
     | Block disk \<Rightarrow> service_block base chain disk
     | Fs srv \<Rightarrow> service_fs F base chain srv
     | FsExternal tag reqs pend \<Rightarrow> service_ext base head chain tag reqs pend
     | Net mac inb out \<Rightarrow> service_net base qi chain mac inb out)"

section \<open>Queue processing\<close>

definition queue_at :: "nat \<Rightarrow> ('f, vqueue) viom" where
  "queue_at qi = mbind (mget (\<lambda>(d, _). if qi < length (vd_queues d) then Some (vd_queues d ! qi) else None)) unwrap"

definition advance_avail :: "nat \<Rightarrow> ('f, unit) viom" where
  "advance_avail qi = mbind (queue_at qi) (\<lambda>q.
     mmod (\<lambda>(d, ram). (d\<lparr>vd_queues := (vd_queues d)[qi := q\<lparr>q_last_avail_idx := q_last_avail_idx q + 1\<rparr>]\<rparr>, ram)))"

definition raise_used :: "('f, unit) viom" where
  "raise_used = mmod (\<lambda>(d, ram). (d\<lparr>vd_int_status := vd_int_status d OR 1\<rparr>, ram))"

text \<open>One pass of the loop of \<open>process\<close>; the result says whether there is another.\<close>

definition process_step :: "'f fs_ops \<Rightarrow> u64 \<Rightarrow> nat \<Rightarrow> ('f, bool) viom" where
  "process_step F base qi =
     mbind (queue_at qi) (\<lambda>q.
     mbind (vio_read16 base (q_avail q + 2)) (\<lambda>avail_idx.
     if q_last_avail_idx q = avail_idx then mret False
     else
       mbind (ring_slot (q_last_avail_idx q) q) (\<lambda>slot.
       mbind (vio_read16 base (q_avail q + 4 + slot * 2)) (\<lambda>head.
       mbind (mget (\<lambda>(_, ram). descriptor_chain q head ram base)) (\<lambda>r. case r of
         None \<Rightarrow>
           mbind (publish_used q head 0 base) (\<lambda>_.
           mbind (advance_avail qi) (\<lambda>_.
           mbind raise_used (\<lambda>_. mret True)))
       | Some chain \<Rightarrow>
           mbind (service F base qi head chain) (\<lambda>r. case r of
             Complete written \<Rightarrow>
               mbind (publish_used q head written base) (\<lambda>_.
               mbind (advance_avail qi) (\<lambda>_.
               mbind raise_used (\<lambda>_. mret True)))
           | Deferred \<Rightarrow> mbind (advance_avail qi) (\<lambda>_. mret True)
           | Blocked \<Rightarrow> mret False))))))"

text \<open>
  The loop: \<open>None\<close> when it never ends, which counts as a panic, since the host does not get control
  back.
\<close>

definition process_loop :: "'f fs_ops \<Rightarrow> u64 \<Rightarrow> nat \<Rightarrow> 'f virtio_dev \<times> bytes
    \<Rightarrow> ((exn abort + bool) \<times> 'f virtio_dev \<times> bytes) option" where
  "process_loop F base qi s =
     while_option (\<lambda>(r, _). case r of Inr c \<Rightarrow> c | Inl _ \<Rightarrow> False) (\<lambda>(_, s). process_step F base qi s) (Inr True, s)"

definition process :: "'f fs_ops \<Rightarrow> u64 \<Rightarrow> nat \<Rightarrow> ('f, unit) viom" where
  "process F base qi =
     (\<lambda>s. if qi \<ge> MAX_QUEUES then (Inr (), s)
      else case queue_at qi s of
        (Inl e, s) \<Rightarrow> (Inl e, s)
      | (Inr q, s) \<Rightarrow>
          if q_ready q = 0 then (Inr (), s)
          else case process_loop F base qi s of
            None \<Rightarrow> (Inl Panic, s)
          | Some (Inl e, s) \<Rightarrow> (Inl e, s)
          | Some (Inr _, s) \<Rightarrow> (Inr (), s))"

definition fs_external_reply :: "bytes \<Rightarrow> u64 \<Rightarrow> ('f, bool) viom" where
  "fs_external_reply bs base =
     mbind (mget (\<lambda>(d, _). vd_backend d)) (\<lambda>b. case (p9_tag bs, b) of
       (Some t, FsExternal tag reqs pend) \<Rightarrow> (case pend t of
           None \<Rightarrow> mret False
         | Some p \<Rightarrow>
             mbind (set_backend (FsExternal tag reqs (pend(t := None)))) (\<lambda>_.
             mbind (mget (\<lambda>(_, ram). scatter base (pend_chain p) bs 0 ram)) (\<lambda>(pos, ram).
             mbind (mmod (\<lambda>(d, _). (d, ram))) (\<lambda>_.
             mbind (queue_at 0) (\<lambda>q.
             mbind (publish_used q (pend_head p) (of_nat pos) base) (\<lambda>_.
             mbind raise_used (\<lambda>_. mret True)))))))
     | _ \<Rightarrow> mret False)"

end
