(* ===== verification/VirtioCorrect.thy ===== *)
theory VirtioCorrect
  imports Virtio Guards
begin

text \<open>
  What the virtio devices do to guest memory: servicing a chain changes only the writable buffers it
  names (and the status byte of a block request), a block request transfers exactly the sectors it
  names, and a queue whose used ring overlays its available ring is processed forever.
\<close>

section \<open>Confinement\<close>

text \<open>The bytes of RAM that the writable descriptors of a chain name.\<close>

definition writable_at :: "u64 \<Rightarrow> descriptor list \<Rightarrow> nat \<Rightarrow> bool" where
  "writable_at base chain i \<longleftrightarrow>
     (\<exists>(addr, len, w)\<in>set chain. w \<and> unat (addr - base) \<le> i \<and> i < unat (addr - base) + unat len)"

lemma writable_at_tail: "writable_at base ds i \<Longrightarrow> writable_at base (d # ds) i"
  by (auto simp: writable_at_def)

text \<open>RAM changes only where \<open>P\<close> allows, and the device only in its backend.\<close>

definition confined :: "(nat \<Rightarrow> bool) \<Rightarrow> 'f virtio_dev \<times> bytes \<Rightarrow> 'f virtio_dev \<times> bytes \<Rightarrow> bool" where
  "confined P s t \<longleftrightarrow> length (snd t) = length (snd s) \<and> (\<forall>i<length (snd s). snd t ! i \<noteq> snd s ! i \<longrightarrow> P i)
     \<and> (fst t)\<lparr>vd_backend := vd_backend (fst s)\<rparr> = fst s"

lemma confined_refl: "reflp (confined P)"
  by (auto simp: reflp_def confined_def)

lemma confined_trans: "transp (confined P)"
proof (rule transpI)
  fix s t u :: "'a virtio_dev \<times> bytes"
  assume "confined P s t" "confined P t u"
  then have d: "(fst t)\<lparr>vd_backend := vd_backend (fst s)\<rparr> = fst s" "(fst u)\<lparr>vd_backend := vd_backend (fst t)\<rparr> = fst t"
    and r: "length (snd t) = length (snd s)" "length (snd u) = length (snd t)"
      "\<And>i. i < length (snd s) \<Longrightarrow> snd t ! i \<noteq> snd s ! i \<Longrightarrow> P i" "\<And>i. i < length (snd t) \<Longrightarrow> snd u ! i \<noteq> snd t ! i \<Longrightarrow> P i"
    by (auto simp: confined_def)
  have "(fst u)\<lparr>vd_backend := vd_backend (fst s)\<rparr> = ((fst u)\<lparr>vd_backend := vd_backend (fst t)\<rparr>)\<lparr>vd_backend := vd_backend (fst s)\<rparr>"
    by simp
  then have "(fst u)\<lparr>vd_backend := vd_backend (fst s)\<rparr> = fst s" using d by simp
  then show "confined P s u" unfolding confined_def using r by metis
qed

lemma confinedI: "(\<And>s. confined P s (snd (m s))) \<Longrightarrow> guards False (confined P s0) m"
  using confined_trans by (auto simp: guards_def dest: transpD)

lemma conf_onram [guards_intros]: "guards False (confined P s0) (onram g)"
  unfolding onram_def by (auto simp: guards_def mbind_def unwrap_def split: option.splits)

lemma conf_set_backend [guards_intros]: "guards False (confined P s0) (set_backend b)"
  unfolding set_backend_def by (rule confinedI) (auto simp: confined_def split: prod.splits)

lemma nth_overlay_list:
  "i < length xs \<Longrightarrow> (take a xs @ ys @ drop (a + length ys) xs) ! i \<noteq> xs ! i \<Longrightarrow> a + length ys \<le> length xs
    \<Longrightarrow> a \<le> i \<and> i < a + length ys"
  by (auto simp: nth_append split: if_splits)

lemma conf_setram:
  assumes "\<And>ram ram' i. g ram = Some ram' \<Longrightarrow> length ram' = length ram \<and> (i < length ram \<longrightarrow> ram' ! i \<noteq> ram ! i \<longrightarrow> P i)"
  shows "guards False (confined P s0) (setram g)"
proof -
  have "confined P s (snd (setram g s))" for s
    using assms confined_refl [of P, unfolded reflp_def]
    by (cases s; cases "g (snd s)") (auto simp: setram_def onram_def unwrap_def mbind_def confined_def)
  then show ?thesis by (rule confinedI)
qed

lemma conf_set_range:
  assumes "\<And>i. unat off \<le> i \<Longrightarrow> i < unat off + length bs \<Longrightarrow> P i"
  shows "guards False (confined P s0) (setram (\<lambda>ram. set_range ram off e bs))"
proof (rule conf_setram)
  fix ram ram' :: bytes and i
  assume "set_range ram off e bs = Some ram'"
  then have "unat off + length bs \<le> length ram" "ram' = take (unat off) ram @ bs @ drop (unat off + length bs) ram"
    by (auto simp: set_range_def le_imp_diff_is_add add.commute split: if_splits)
  then show "length ram' = length ram \<and> (i < length ram \<longrightarrow> ram' ! i \<noteq> ram ! i \<longrightarrow> P i)"
    using assms nth_overlay_list [of i ram "unat off" bs] by simp
qed

lemma scatter_confined:
  "scatter base chain src pos ram = (n, ram') \<Longrightarrow>
    length ram' = length ram \<and> (\<forall>i<length ram. ram' ! i \<noteq> ram ! i \<longrightarrow> writable_at base chain i)"
proof (induction base chain src pos ram arbitrary: n ram' rule: scatter.induct)
  case (2 base addr len w ds src pos ram)
  show ?case
  proof (cases "\<not> w \<or> length src \<le> pos")
    case True
    with 2(3) have "scatter base ds src pos ram = (n, ram')" by simp
    from 2(1) [OF True this] show ?thesis by (simp add: writable_at_tail)
  next
    case False
    define k where "k = min (length src - pos) (unat len)"
    show ?thesis
    proof (cases "guest_store ram base addr (take k (drop pos src))")
      case None
      with 2(3) [unfolded scatter.simps Let_def k_def [symmetric]] False show ?thesis by simp
    next
      case (Some ram1)
      have g: "length ram1 = length ram \<and> (\<forall>i<length ram. ram1 ! i \<noteq> ram ! i \<longrightarrow> unat (addr - base) \<le> i \<and> i < unat (addr - base) + k)"
        using Some False by (auto simp: guest_store_def Let_def k_def nth_append split: if_splits)
      have h: "length ram' = length ram1 \<and> (\<forall>i<length ram1. ram' ! i \<noteq> ram1 ! i \<longrightarrow> writable_at base ds i)"
        using 2(2) [OF False k_def Some, of n ram'] 2(3) [unfolded scatter.simps Let_def k_def [symmetric]] False Some by simp
      have "writable_at base ((addr, len, w) # ds) i" if "unat (addr - base) \<le> i" "i < unat (addr - base) + k" for i
        using that False by (auto simp: writable_at_def k_def)
      then have "writable_at base ((addr, len, w) # ds) i" if "i < length ram" "ram' ! i \<noteq> ram ! i" for i
        using that g h writable_at_tail by (cases "ram1 ! i = ram ! i") auto
      then show ?thesis using g h by simp
    qed
  qed
qed simp

lemma conf_scatter:
  assumes "\<And>i. writable_at base chain i \<Longrightarrow> P i" "\<And>n. guards False (confined P s0) (k n)"
  shows "guards False (confined P s0) (mbind (mget (\<lambda>(_, ram). scatter base chain src 0 ram)) (\<lambda>(n, ram).
    mbind (mmod (\<lambda>(d, _). (d, ram))) (\<lambda>_. k n)))"
proof -
  have "confined P s0 (snd (k n (fst s, ram)))"
    if "confined P s0 s" "scatter base chain src 0 (snd s) = (n, ram)" for s n ram
  proof -
    have "confined P s (fst s, ram)"
      using scatter_confined [OF that(2)] assms(1) by (auto simp: confined_def)
    then have "confined P s0 (fst s, ram)" using that(1) confined_trans by (blast dest: transpD)
    then show ?thesis using assms(2) by (simp add: guards_def)
  qed
  then show ?thesis by (auto simp: guards_def split_def)
qed

lemma conf_console_rx:
  "(\<And>i. writable_at base chain i \<Longrightarrow> P i) \<Longrightarrow> guards False (confined P s0) (console_rx base chain rx n)"
proof (induction base chain rx n rule: console_rx.induct)
  case (2 base addr len w ds rx n)
  have P: "\<And>i. writable_at base ds i \<Longrightarrow> P i" using 2(3) writable_at_tail by blast
  have s: "guards False (confined P s0) (setram (\<lambda>ram. set_range ram (addr - base) (addr - base + of_nat (min (length rx) (unat len)))
        (take (min (length rx) (unat len)) rx)))" if "w"
    using that by (intro conf_set_range 2(3)) (auto simp: writable_at_def)
  show ?case unfolding console_rx.simps Let_def
    by (intro guards_intros s) (use 2(1,2) P in auto)
qed (simp add: guards_prims del: mret_run)

lemma conf_console_tx: "guards False (confined P s0) (console_tx base chain out)"
  by (induction base chain out rule: console_tx.induct) (auto simp: Let_def simp del: mret_run intro!: guards_intros)

lemma sub_range_length_le:
  assumes "sub_range xs a (a + b) = Some ys"
  shows "length ys \<le> unat b"
proof -
  have "unat (a + b) \<le> unat a + unat b" by (simp add: unat_word_ariths)
  then show ?thesis using assms by (auto simp: sub_range_def split: if_splits)
qed

lemma u32_u64: "unat (ucast (v :: u32) :: u64) = unat v"
  using unsigned_less [of v, where 'a = nat] by (simp add: unsigned_ucast_eq take_bit_nat_eq_self)

lemma conf_unwrap: "(\<And>a. r = Some a \<Longrightarrow> guards False I (k a)) \<Longrightarrow> guards False I (mbind (unwrap r) k)"
  by (cases r) (simp_all add: unwrap_def guards_prims del: panic_run mret_run)

lemma conf_block_data:
  "(\<And>i. writable_at base ds i \<Longrightarrow> P i) \<Longrightarrow> guards False (confined P s0) (block_data base t ds disk pos n ok)"
proof (induction base t ds disk pos n ok rule: block_data.induct)
  case (2 base t addr len w ds disk pos n ok)
  have P: "\<And>i. writable_at base ds i \<Longrightarrow> P i" using 2(4) writable_at_tail by blast
  have s: "guards False (confined P s0) (setram (\<lambda>ram. set_range ram (addr - base) (addr - base + ucast len) b))"
    if "t = VIRTIO_BLK_T_IN \<and> w" "sub_range disk pos (pos + ucast len) = Some b" for b
    using that sub_range_length_le [OF that(2)] by (intro conf_set_range 2(4)) (auto simp: writable_at_def u32_u64)
  show ?case unfolding block_data.simps Let_def
    by (intro conf_unwrap s guards_intros) (use 2(1-3) [OF refl refl refl] P in auto)
qed (simp add: guards_prims del: mret_run)

lemma conf_block:
  assumes "\<And>i. writable_at base chain i \<Longrightarrow> P i" "chain \<noteq> [] \<Longrightarrow> P (unat (fst (last chain) - base))"
  shows "guards False (confined P s0) (service_block base chain disk)"
proof (cases chain)
  case (Cons d ds)
  have p: "P i" if "writable_at base (butlast ds) i" for i
    using that assms(1) Cons in_set_butlastD [of _ ds] by (fastforce simp: writable_at_def)
  have w: "guards False (confined P s0) (setram (\<lambda>ram. if unat (fst (last chain) - base) < length ram
      then Some (ram[unat (fst (last chain) - base) := v]) else None))" for v
    by (rule conf_setram) (use assms(2) Cons in \<open>auto simp: nth_list_update split: if_splits\<close>)
  obtain h l b where d: "d = (h, l, b)" by (cases d)
  show ?thesis unfolding service_block_def Cons d Let_def list.sel list.case prod.case
    by (intro guards_intros conf_block_data p w [unfolded Cons d])
qed (simp add: service_block_def guards_prims del: mret_run)

lemma conf_others:
  assumes "\<And>i. writable_at base chain i \<Longrightarrow> P i"
  shows "guards False (confined P s0) (service_ext base head chain tag reqs pend)"
    "guards False (confined P s0) (service_net base qi chain mac inb out)"
    "guards False (confined P s0) (service_console base qi chain rx tx w h)"
proof -
  show "guards False (confined P s0) (service_ext base head chain tag reqs pend)"
    "guards False (confined P s0) (service_console base qi chain rx tx w h)"
    unfolding service_ext_def service_console_def
    by (intro guards_intros conf_console_rx conf_console_tx assms; assumption)+
  show "guards False (confined P s0) (service_net base qi chain mac inb out)"
  proof (cases inb)
    case Nil
    then show ?thesis unfolding service_net_def Nil list.case by (intro guards_intros)
  next
    case (Cons f fs)
    then show ?thesis unfolding service_net_def Cons list.case by (intro conf_scatter guards_intros assms)
  qed
qed

lemma conf_fs:
  assumes "\<And>i. writable_at base chain i \<Longrightarrow> P i"
  shows "guards False (confined P s0) (service_fs F base chain srv)"
proof -
  have "guards False (confined P s0) (case p9_handle F req srv of (Inr reply, srv) \<Rightarrow>
        mbind (set_backend (Fs srv)) (\<lambda>_.
             mbind (mget (\<lambda>(_, ram). scatter base chain reply 0 ram)) (\<lambda>(pos, ram).
             mbind (mmod (\<lambda>(d, _). (d, ram))) (\<lambda>_. mret (Complete (of_nat pos)))))
      | (Inl _, _) \<Rightarrow> panic)" for req
  proof (cases "fst (p9_handle F req srv)")
    case (Inl e)
    then show ?thesis by (cases "p9_handle F req srv") (simp add: guards_prims del: panic_run)
  next
    case (Inr reply)
    obtain r srv' where e: "p9_handle F req srv = (r, srv')" by (cases "p9_handle F req srv")
    with Inr have "r = Inr reply" by simp
    with e show ?thesis unfolding e \<open>r = Inr reply\<close> prod.case sum.case
      by (intro guards_bind conf_set_backend conf_scatter assms guards_prims)
  qed
  then show ?thesis unfolding service_fs_def by (intro guards_bind guards_option guards_if guards_prims)
qed

lemma service_confined:
  assumes "s = (d, ram)" "\<And>i. writable_at base chain i \<Longrightarrow> P i"
    "\<And>disk. vd_backend d = Block disk \<Longrightarrow> chain \<noteq> [] \<Longrightarrow> P (unat (fst (last chain) - base))"
  shows "confined P s (snd (service F base qi head chain s))"
proof -
  have r: "confined P s s" using confined_refl by (blast dest: reflpD)
  show ?thesis
  proof (cases "vd_backend d")
    case (Block disk)
    with conf_block [of base chain P s disk] assms r show ?thesis by (simp add: service_def guards_def)
  next
    case (Fs srv)
    with conf_fs [of base chain P s F srv] assms(1,2) r show ?thesis by (simp add: service_def guards_def)
  qed (use conf_others [of base chain P s] assms(1,2) r in \<open>simp_all add: service_def guards_def\<close>)
qed

text \<open>
  C8: servicing a chain leaves every byte of RAM alone that no writable descriptor of the chain names
  (but for the status byte of a block request), and changes nothing of the device but its backend.
\<close>

theorem virtio_service_confined:
  assumes "service F base qi head chain (d, ram) = (r, (d', ram'))"
  shows "length ram' = length ram \<and> d'\<lparr>vd_backend := vd_backend d\<rparr> = d
    \<and> (\<forall>i<length ram. ram' ! i \<noteq> ram ! i \<longrightarrow>
        (\<exists>(addr, len, w)\<in>set chain. w \<and> unat (addr - base) \<le> i \<and> i < unat (addr - base) + unat len)
        \<or> (\<exists>disk. vd_backend d = Block disk \<and> chain \<noteq> [] \<and> i = unat (fst (last chain) - base)))"
  using service_confined [of "(d, ram)" d ram base chain
      "\<lambda>i. writable_at base chain i \<or> (\<exists>disk. vd_backend d = Block disk \<and> chain \<noteq> [] \<and> i = unat (fst (last chain) - base))" F qi head]
    assms
  by (auto simp: confined_def writable_at_def)

lemma sample_service:
  "service F 0x80000000 0 0 [(0x80000001, 2, True)] (virtio_new (Console [7] [] 80 24), [1, 2, 3, 4])
    = (Inr (Complete 1), (virtio_new (Console [] [] 80 24), [1, 7, 3, 4]))"
  by (simp add: service_def service_console_def virtio_new_def mbind_def setram_def onram_def unwrap_def set_range_def
      set_backend_def)

theorem virtio_service_confined_witness:
  "\<forall>F :: unit fs_ops. service F 0x80000000 0 0 [(0x80000001, 2, True)] (virtio_new (Console [7] [] 80 24), [1, 2, 3, 4])
      = (Inr (Complete 1), (virtio_new (Console [] [] 80 24), [1, 7, 3, 4]))
    \<and> length [1, 7, 3, 4 :: u8] = length [1, 2, 3, 4 :: u8]"
  using virtio_service_confined [OF sample_service] sample_service by blast

section \<open>A queue that is processed forever\<close>

text \<open>
  The rings of queue 0 at the same place, one entry long, and a descriptor table outside RAM:
  publishing a used entry makes the next entry available.
\<close>

definition overlaid :: "u64 \<Rightarrow> 'f virtio_dev \<times> bytes \<Rightarrow> bool" where
  "overlaid base s \<longleftrightarrow> 12 \<le> length (snd s) \<and> length (snd s) < 2 ^ 63 \<and> vd_queues (fst s) \<noteq> []
     \<and> (let q = hd (vd_queues (fst s)) in q_num q = 1 \<and> q_desc q < base \<and> q_avail q = base \<and> q_used q = base
        \<and> from_le_bytes (take 2 (drop 2 (snd s))) = q_last_avail_idx q + 1)"

lemma overlaid_step:
  assumes "overlaid base s"
  shows "\<exists>t. process_step F base 0 s = (Inr True, t) \<and> overlaid base t"
proof -
  obtain d ram where s: "s = (d, ram)" by (cases s)
  obtain q qs where q: "vd_queues d = q # qs" using assms s by (cases "vd_queues d") (auto simp: overlaid_def)
  have a: "12 \<le> length ram" "length ram < 2 ^ 63" "q_num q = 1" "q_desc q < base" "q_avail q = base" "q_used q = base"
    "from_le_bytes (take 2 (drop 2 ram)) = q_last_avail_idx q + 1"
    using assms s q by (auto simp: overlaid_def Let_def)
  have "read_descriptor r base (q_desc q) 1 j = None" for r j
  proof (cases "j = 0")
    case False
    then have "1 \<le> j" by (simp add: word_le_nat_alt unat_gt_0 Suc_le_eq)
    then show ?thesis by (simp add: read_descriptor_def)
  qed (use a(4) in \<open>simp add: read_descriptor_def guest_slice_def\<close>)
  then have c: "descriptor_chain q h r base = None" for h r
    using a(3) by (simp add: descriptor_chain_def)
  define i where "i = q_last_avail_idx q"
  define w where "w = (\<lambda>off bs (r :: bytes). take off r @ bs @ drop (off + length bs) r)"
  have rd: "vio_read16 base (base + 2) (d', r) = (Inr (from_le_bytes (take 2 (drop 2 r))), (d', r))"
      "vio_read16 base (base + 4) (d', r) = (Inr (from_le_bytes (take 2 (drop 4 r))), (d', r))" if "12 \<le> length r" for d' :: "'a virtio_dev" and r
    using that by (simp_all add: vio_read16_def onram_def sub_range_def unwrap_def mbind_def)
  have wr: "vio_write32 base (base + 4) v (d', r) = (Inr (), (d', w 4 (to_le_bytes 4 v) r))"
      "vio_write32 base (8 + base) v (d', r) = (Inr (), (d', w 8 (to_le_bytes 4 v) r))"
      "vio_write16 base (base + 2) u (d', r) = (Inr (), (d', w 2 (to_le_bytes 2 u) r))" if "12 \<le> length r"
    for d' :: "'a virtio_dev" and r v u
    using that by (simp_all add: vio_write32_def vio_write16_def setram_def onram_def set_range_def unwrap_def mbind_def w_def)
  have len: "length (w off bs r) = length r" if "off + length bs \<le> length r" for off bs r using that by (simp add: w_def)
  define ram' where "ram' = w 2 (to_le_bytes 2 (i + 1 + 1)) (w 8 (to_le_bytes 4 (0 :: u32)) (w 4 (to_le_bytes 4 (ucast (from_le_bytes (take 2 (drop 4 ram)) :: u16) :: u32)) ram))"
  have pub: "publish_used q h 0 base (d, ram) = (Inr (), (d, w 2 (to_le_bytes 2 (i + 1 + 1)) (w 8 (to_le_bytes 4 (0 :: u32)) (w 4 (to_le_bytes 4 (ucast h :: u32)) ram))))" for h
    using a rd wr len by (simp add: publish_used_def ring_slot_def mbind_def i_def)
  have idx: "from_le_bytes (take 2 (drop 2 (w 2 (to_le_bytes 2 u) r))) = (u :: u16)" if "12 \<le> length r" for u r
    using that by (simp add: w_def from_le_bytes_to_le_bytes)
  define d' where "d' = d\<lparr>vd_queues := q\<lparr>q_last_avail_idx := i + 1\<rparr> # qs, vd_int_status := vd_int_status d OR 1\<rparr>"
  have "process_step F base 0 s = (Inr True, (d', ram'))"
    using a rd q c by (simp add: s process_step_def queue_at_def ring_slot_def mbind_def unwrap_def pub advance_avail_def
        raise_used_def d'_def ram'_def i_def)
  moreover have "overlaid base (d', ram')"
    using a idx len by (simp add: overlaid_def d'_def ram'_def i_def)
  ultimately show ?thesis by blast
qed

lemma while_option_forever:
  assumes "\<And>s. I s \<Longrightarrow> b s \<and> I (c s)" "I s"
  shows "while_option b c s = None"
proof -
  have "I ((c ^^ k) s)" for k using assms by (induction k) auto
  then show ?thesis using assms(1) by (simp add: while_option_def)
qed

text \<open>
  C16: a driver that places the used ring over the available ring makes the notification of a
  malformed chain, and with it the host, loop for ever: each used entry published is a new available one.
\<close>

theorem virtio_notify_diverges:
  fixes F :: "'f fs_ops"
  assumes "12 \<le> length ram" "length ram < 2 ^ 63" "vd_queues d = q # qs" "q_num q = 1" "q_desc q < base"
    "q_avail q = base" "q_used q = base" "from_le_bytes (take 2 (drop 2 ram)) = q_last_avail_idx q + 1"
  shows "process_loop F base 0 (d, ram) = None"
proof -
  define I where "I = (\<lambda>(r :: exn abort + bool, s :: 'f virtio_dev \<times> bytes). r = Inr True \<and> overlaid base s)"
  have "(case x of (Inr c, _) \<Rightarrow> c | (Inl _, _) \<Rightarrow> False) \<and> I (case x of (_, s) \<Rightarrow> process_step F base 0 s)" if "I x" for x
    using that overlaid_step [of base "snd x" F] by (auto simp: I_def)
  moreover have "I (Inr True, (d, ram))" using assms by (simp add: I_def overlaid_def)
  ultimately show ?thesis unfolding process_loop_def by (intro while_option_forever [where I = I]) (auto split: sum.splits)
qed

theorem virtio_notify_diverges_witness:
  "\<forall>F :: unit fs_ops. process_loop F 0x80000000 0 ((virtio_new (Console [] [] 80 24))\<lparr>vd_queues :=
     [\<lparr>q_ready = 1, q_num = 1, q_desc = 0, q_avail = 0x80000000, q_used = 0x80000000, q_last_avail_idx = 0\<rparr>, vqueue_default]\<rparr>,
     [0, 0, 1, 0, 0, 0, 0, 0, 0, 0, 0, 0]) = None"
  by (intro allI, rule virtio_notify_diverges) simp+

section \<open>Block requests\<close>

definition overlay_at :: "nat \<Rightarrow> bytes \<Rightarrow> bytes \<Rightarrow> bytes" where
  "overlay_at off bs xs = take off xs @ bs @ drop (off + length bs) xs"

text \<open>A request of three descriptors that lies in RAM and on the disk, its status byte outside the data.\<close>

definition block_request :: "u64 \<Rightarrow> bytes \<Rightarrow> bytes \<Rightarrow> u32 \<Rightarrow> u64 \<Rightarrow> descriptor list \<Rightarrow> bool" where
  "block_request base ram disk t sct chain =
     (case chain of [(h, _, _), (buf, len, w), (st, _, _)] \<Rightarrow>
        length ram < 2 ^ 63 \<and> length disk < 2 ^ 63 \<and> unat (h - base) + 16 \<le> length ram
        \<and> take 4 (drop (unat (h - base)) ram) = to_le_bytes 4 t \<and> take 8 (drop (unat (h - base) + 8) ram) = to_le_bytes 8 sct
        \<and> unat (buf - base) + unat len \<le> length ram \<and> unat (st - base) < length ram
        \<and> (unat (st - base) < unat (buf - base) \<or> unat (buf - base) + unat len \<le> unat (st - base))
        \<and> unat sct * 512 + unat len \<le> length disk \<and> w = (t = VIRTIO_BLK_T_IN)
      | _ \<Rightarrow> False)"

lemma range_eqs:
  assumes "length xs < 2 ^ 63" "unat o' + unat n \<le> length xs"
  shows "sub_range xs o' (o' + n) = Some (take (unat n) (drop (unat o') xs))"
    "length ys = unat n \<Longrightarrow> set_range xs o' (o' + n) ys = Some (overlay_at (unat o') ys xs)"
proof -
  have "unat (o' + n) = unat o' + unat n" using assms by (simp add: unat_word_ariths)
  then show "sub_range xs o' (o' + n) = Some (take (unat n) (drop (unat o') xs))"
    "length ys = unat n \<Longrightarrow> set_range xs o' (o' + n) ys = Some (overlay_at (unat o') ys xs)"
    using assms by (simp_all add: sub_range_def set_range_def overlay_at_def)
qed

lemma block_header:
  fixes ram :: bytes
  assumes "length ram < 2 ^ 63" "unat (h - base) + 16 \<le> length ram"
  shows "sub_range ram (h - base) (h - base + 4) = Some (take 4 (drop (unat (h - base)) ram))"
    "sub_range ram (h - base + 8) (h - base + 16) = Some (take 8 (drop (unat (h - base) + 8) ram))"
proof -
  have "unat (h - base + 8) = unat (h - base) + 8" using assms by (simp add: unat_word_ariths)
  then show "sub_range ram (h - base) (h - base + 4) = Some (take 4 (drop (unat (h - base)) ram))"
    "sub_range ram (h - base + 8) (h - base + 16) = Some (take 8 (drop (unat (h - base) + 8) ram))"
    using range_eqs(1) [of ram "h - base" 4] range_eqs(1) [of ram "h - base + 8" 8] assms by (simp_all add: add.assoc)
qed

lemma block_service:
  assumes "vd_backend d = Block disk" "block_request base ram disk t sct chain" "t \<in> {VIRTIO_BLK_T_IN, VIRTIO_BLK_T_OUT}"
    "chain = [hdr, (buf, len, w), (st, x)]"
  shows "service F base qi head chain (d, ram) =
    (if t = VIRTIO_BLK_T_IN
     then (Inr (Complete (len + 1)), (d, (overlay_at (unat (buf - base)) (take (unat len) (drop (unat sct * 512) disk)) ram)[unat (st - base) := 0]))
     else (Inr (Complete 1), (d\<lparr>vd_backend := Block (overlay_at (unat sct * 512) (take (unat len) (drop (unat (buf - base)) ram)) disk)\<rparr>,
       ram[unat (st - base) := 0])))"
proof -
  obtain h hl hw where hd: "hdr = (h, hl, hw)" by (cases hdr)
  have a: "length ram < 2 ^ 63" "length disk < 2 ^ 63" "unat (h - base) + 16 \<le> length ram"
    "take 4 (drop (unat (h - base)) ram) = to_le_bytes 4 t" "take 8 (drop (unat (h - base) + 8) ram) = to_le_bytes 8 sct"
    "unat (buf - base) + unat len \<le> length ram" "unat (st - base) < length ram"
    "unat sct * 512 + unat len \<le> length disk" "w = (t = VIRTIO_BLK_T_IN)"
    using assms(2,4) hd by (cases x; auto simp: block_request_def)+
  have p: "unat (sct * SECTOR) = unat sct * 512" using a(2,8) by (simp add: SECTOR_def unat_word_ariths)
  have l: "unat (ucast len :: u64) = unat len" by (rule u32_u64)
  have f: "sct * SECTOR + ucast len \<le> of_nat (length disk)"
    using a(2,8) p l by (simp add: word_le_nat_alt unat_word_ariths)
  have t: "from_le_bytes (to_le_bytes 4 t) = t" "from_le_bytes (to_le_bytes 8 sct) = sct" by (simp_all add: from_le_bytes_to_le_bytes)
  note r = range_eqs [of ram "buf - base" "ucast len", unfolded l, OF a(1,6)] range_eqs [of disk "sct * SECTOR" "ucast len", unfolded l p, OF a(2,8)]
  show ?thesis
    using assms(1,3) a f t r block_header [OF a(1,3)]
    by (auto simp: service_def assms(4) hd service_block_def onram_def setram_def unwrap_def mbind_def set_backend_def Let_def
        VIRTIO_BLK_T_IN_def VIRTIO_BLK_T_OUT_def overlay_at_def)
qed

lemma overlay_read: "a + length bs \<le> length xs \<Longrightarrow> take (length bs) (drop a (overlay_at a bs xs)) = bs"
  by (simp add: overlay_at_def)

lemma overlay_length [simp]: "a + length bs \<le> length xs \<Longrightarrow> length (overlay_at a bs xs) = length xs"
  by (simp add: overlay_at_def)

lemma drop_take_update: "i < a \<or> a + n \<le> i \<Longrightarrow> take n (drop a (xs[i := v])) = take n (drop a xs)"
  by (auto simp: drop_update_swap drop_update_cancel)

text \<open>
  C9: what a well-formed block write request with one data descriptor puts on the disk, a read
  request of the same sectors with one data descriptor of the same length puts in its buffer, and
  both report success.
\<close>

theorem virtio_blk_write_read:
  assumes "vd_backend d = Block disk"
    and "block_request base ram disk VIRTIO_BLK_T_OUT sct chain" "chain = [hdr, (buf, len, w), (st, x)]"
    and "service F base qi head chain (d, ram) = (r, (d1, ram1))"
    and "vd_backend d1 = Block disk1" "block_request base ram2 disk1 VIRTIO_BLK_T_IN sct chain'" "chain' = [hdr', (buf', len, w'), (st', x')]"
    and "service F base qi head' chain' (d1, ram2) = (r', (d2, ram3))"
  shows "r = Inr (Complete 1) \<and> ram1 = ram[unat (st - base) := 0] \<and> r' = Inr (Complete (len + 1)) \<and> vd_backend d2 = vd_backend d1
    \<and> ram3 ! unat (st' - base) = 0
    \<and> take (unat len) (drop (unat (buf' - base)) ram3) = take (unat len) (drop (unat (buf - base)) ram)"
proof -
  let ?bs = "take (unat len) (drop (unat (buf - base)) ram)"
  have o': "VIRTIO_BLK_T_OUT \<noteq> VIRTIO_BLK_T_IN" by (simp add: VIRTIO_BLK_T_IN_def VIRTIO_BLK_T_OUT_def)
  have w: "r = Inr (Complete 1)" "ram1 = ram[unat (st - base) := 0]" "vd_backend d1 = Block (overlay_at (unat sct * 512) ?bs disk)"
    using block_service [OF assms(1,2) _ assms(3), of F qi head] assms(4) o' by simp_all
  have rd: "r' = Inr (Complete (len + 1))" "d2 = d1"
    "ram3 = (overlay_at (unat (buf' - base)) (take (unat len) (drop (unat sct * 512) disk1)) ram2)[unat (st' - base) := 0]"
    using block_service [OF assms(5,6) _ assms(7), of F qi head'] assms(8) by simp_all
  have b: "length ?bs = unat len" "unat sct * 512 + unat len \<le> length disk"
    using assms(2,3) by (cases hdr; cases x; auto simp: block_request_def)+
  have b': "unat (buf' - base) + unat len \<le> length ram2" "unat (st' - base) < length ram2"
    "unat (st' - base) < unat (buf' - base) \<or> unat (buf' - base) + unat len \<le> unat (st' - base)"
    using assms(6,7) by (cases hdr'; cases x'; auto simp: block_request_def)+
  have "take (unat len) (drop (unat sct * 512) disk1) = ?bs"
    using overlay_read [of "unat sct * 512" ?bs disk] b w(3) assms(5) by simp
  then show ?thesis using w rd b b' overlay_read [of "unat (buf' - base)" ?bs ram2]
    by (simp add: drop_take_update)
qed

definition sample_write :: bytes where
  "sample_write = [1, 0, 0, 0, 0, 0, 0, 0, 0, 0, 0, 0, 0, 0, 0, 0, 7, 9, 0xff, 0]"

definition sample_read :: bytes where
  "sample_read = [0, 0, 0, 0, 0, 0, 0, 0, 0, 0, 0, 0, 0, 0, 0, 0, 0, 0, 0, 0]"

definition sample_disk :: "bytes \<Rightarrow> unit virtio_dev" where
  "sample_disk b = virtio_new (Block b)"

lemma sample_words:
  "to_le_bytes 4 (1 :: u32) = [1, 0, 0, 0]" "to_le_bytes 4 (0 :: u32) = [0, 0, 0, 0]"
  "to_le_bytes 8 (0 :: u64) = [0, 0, 0, 0, 0, 0, 0, 0]"
  by (simp_all add: eval_nat_numeral)

lemma sample_blk_requests:
  "block_request 0x80000000 sample_write [1, 2, 3, 4] VIRTIO_BLK_T_OUT 0
    [(0x80000000, 16, False), (0x80000010, 2, False), (0x80000012, 1, True)]"
  "block_request 0x80000000 sample_read [7, 9, 3, 4] VIRTIO_BLK_T_IN 0
    [(0x80000000, 16, False), (0x80000011, 2, True), (0x80000010, 1, True)]"
  by (simp_all add: block_request_def sample_write_def sample_read_def VIRTIO_BLK_T_IN_def VIRTIO_BLK_T_OUT_def
      sample_words)

lemma sample_blk_write:
  "service F 0x80000000 0 0 [(0x80000000, 16, False), (0x80000010, 2, False), (0x80000012, 1, True)]
      (sample_disk [1, 2, 3, 4], sample_write)
    = (Inr (Complete 1), (sample_disk [7, 9, 3, 4], sample_write[unat (0x80000012 - 0x80000000 :: u64) := 0]))"
  by (subst block_service [OF _ sample_blk_requests(1) _ refl])
    (simp_all add: sample_disk_def sample_write_def virtio_new_def overlay_at_def VIRTIO_BLK_T_IN_def VIRTIO_BLK_T_OUT_def)

theorem virtio_blk_write_read_witness:
  "\<forall>F :: unit fs_ops. take (unat (2 :: u32)) (drop (unat (0x80000011 - 0x80000000 :: u64)) (snd (snd
      (service F 0x80000000 0 0 [(0x80000000, 16, False), (0x80000011, 2, True), (0x80000010, 1, True)] (sample_disk [7, 9, 3, 4], sample_read)))))
    = take (unat (2 :: u32)) (drop (unat (0x80000010 - 0x80000000 :: u64)) sample_write)"
proof
  fix F :: "unit fs_ops"
  let ?s = "service F 0x80000000 0 0 [(0x80000000, 16, False), (0x80000011, 2, True), (0x80000010, 1, True)] (sample_disk [7, 9, 3, 4], sample_read)"
  have "?s = (fst ?s, (fst (snd ?s), snd (snd ?s)))" by simp
  from virtio_blk_write_read [OF _ sample_blk_requests(1) refl sample_blk_write _ sample_blk_requests(2) refl this]
  show "take (unat (2 :: u32)) (drop (unat (0x80000011 - 0x80000000 :: u64)) (snd (snd ?s)))
    = take (unat (2 :: u32)) (drop (unat (0x80000010 - 0x80000000 :: u64)) sample_write)"
    by (simp add: sample_disk_def virtio_new_def)
qed

end
