(* ===== verification/Plic.thy ===== *)
theory Plic
  imports Prelude
begin

text \<open>
  The interrupt controller and the serial port of the virt machine, the \<open>Plic\<close> and \<open>Uart\<close> of
  \<open>crates/rv64-system/src/virt.rs\<close>. The debug trace is left out. The lemmas say which source a claim
  returns, that a source in service is not claimed again, and what the serial port passes on.
\<close>

section \<open>PLIC\<close>

definition PLIC_SOURCES :: nat where "PLIC_SOURCES = 32"
definition PLIC_CONTEXTS :: nat where "PLIC_CONTEXTS = 2"

record plic =
  pl_priority :: "nat \<Rightarrow> u32"
  pl_pending :: u32
  pl_enable :: "nat \<Rightarrow> u32"
  pl_threshold :: "nat \<Rightarrow> u32"
  pl_claimed :: u32

definition plic_new :: plic where
  "plic_new = \<lparr>pl_priority = \<lambda>_. 0, pl_pending = 0, pl_enable = \<lambda>_. 0, pl_threshold = \<lambda>_. 0, pl_claimed = 0\<rparr>"

text \<open>The \<open>while m != 0\<close> of \<open>best\<close>: \<open>m &= m - 1\<close> drops the source just looked at.\<close>

lemma drop_lowest_less: "m \<noteq> 0 \<Longrightarrow> unat (m AND (m - 1)) < unat (m :: u32)"
proof -
  assume "m \<noteq> 0"
  have "m AND (m - 1) \<le> m - 1" by (rule word_and_le1)
  also have "m - 1 < m" using \<open>m \<noteq> 0\<close> by (simp add: measure_unat word_less_nat_alt)
  finally show ?thesis by (simp add: word_less_nat_alt)
qed

function best_loop :: "plic \<Rightarrow> nat \<Rightarrow> u32 \<Rightarrow> u32 \<Rightarrow> u32 \<Rightarrow> u32" where
  "best_loop p ctx m best_id best_pri =
     (if m = 0 then best_id
      else let i = trailing_zeros m; pri = pl_priority p i in
        if pri > pl_threshold p ctx \<and> pri \<ge> best_pri
        then best_loop p ctx (m AND (m - 1)) (of_nat i) pri
        else best_loop p ctx (m AND (m - 1)) best_id best_pri)"
  by pat_completeness auto
termination
  by (relation "measure (\<lambda>(p, ctx, m, i, b). unat m)") (simp_all add: drop_lowest_less)

declare best_loop.simps [simp del]

definition best :: "plic \<Rightarrow> nat \<Rightarrow> u32" where
  "best p ctx = best_loop p ctx (pl_pending p AND pl_enable p ctx AND NOT (pl_claimed p)) 0 0"

definition pending_ctx :: "plic \<Rightarrow> nat \<Rightarrow> bool" where
  "pending_ctx p ctx \<longleftrightarrow> best p ctx \<noteq> 0"

definition plic_read :: "u64 \<Rightarrow> plic \<Rightarrow> u32 \<times> plic" where
  "plic_read off p =
     (if off \<le> 0x0fff then
        let i = unat (off div 4) in (if i < PLIC_SOURCES then pl_priority p i else 0, p)
      else if off = 0x1000 then (pl_pending p, p)
      else if off = 0x1004 then (0, p)
      else if 0x2000 \<le> off \<and> off < 0x2000 + of_nat PLIC_CONTEXTS * 0x80 then
        let ctx = unat ((off - 0x2000) div 0x80) in
        (if (off - 0x2000) mod 0x80 = 0 then pl_enable p ctx else 0, p)
      else if off \<ge> 0x200000 then
        let ctx = unat ((off - 0x200000) div 0x1000); reg = (off - 0x200000) mod 0x1000 in
        if ctx \<ge> PLIC_CONTEXTS then (0, p)
        else if reg = 0x0 then (pl_threshold p ctx, p)
        else if reg = 0x4 then
          let i = best p ctx in
          (i, if i \<noteq> 0 then p\<lparr>pl_claimed := pl_claimed p OR push_bit (unat i) 1\<rparr> else p)
        else (0, p)
      else (0, p))"

definition plic_write :: "u64 \<Rightarrow> u32 \<Rightarrow> plic \<Rightarrow> plic" where
  "plic_write off val p =
     (if off \<le> 0x0fff then
        let i = unat (off div 4) in
        if i \<noteq> 0 \<and> i < PLIC_SOURCES then p\<lparr>pl_priority := (pl_priority p)(i := val)\<rparr> else p
      else if 0x2000 \<le> off \<and> off < 0x2000 + of_nat PLIC_CONTEXTS * 0x80 then
        let ctx = unat ((off - 0x2000) div 0x80) in
        if (off - 0x2000) mod 0x80 = 0
        then p\<lparr>pl_enable := (pl_enable p)(ctx := val AND NOT 1)\<rparr> else p
      else if off \<ge> 0x200000 then
        let ctx = unat ((off - 0x200000) div 0x1000); reg = (off - 0x200000) mod 0x1000 in
        if ctx \<ge> PLIC_CONTEXTS then p
        else if reg = 0x0 then p\<lparr>pl_threshold := (pl_threshold p)(ctx := val)\<rparr>
        else if reg = 0x4 then
          if unat val < PLIC_SOURCES then p\<lparr>pl_claimed := pl_claimed p AND NOT (push_bit (unat val) 1)\<rparr> else p
        else p
      else p)"

section \<open>Serial port\<close>

record uart =
  ier :: u8
  lcr :: u8
  mcr :: u8
  scr :: u8
  uart_rx :: "u8 list"
  uart_tx :: "u8 list"
  thre_ip :: bool

definition uart_new :: uart where
  "uart_new = \<lparr>ier = 0, lcr = 0, mcr = 0, scr = 0, uart_rx = [], uart_tx = [], thre_ip = False\<rparr>"

definition uart_read :: "u64 \<Rightarrow> uart \<Rightarrow> u8 \<times> uart" where
  "uart_read off u =
     (let dlab = lcr u AND 0x80 \<noteq> 0 in
      if off = 0 \<and> \<not> dlab then
        (case uart_rx u of [] \<Rightarrow> (0, u) | b # bs \<Rightarrow> (b, u\<lparr>uart_rx := bs\<rparr>))
      else if off = 0 then (0, u)
      else if off = 1 \<and> \<not> dlab then (ier u, u)
      else if off = 1 then (0, u)
      else if off = 2 then
        if ier u AND 1 \<noteq> 0 \<and> uart_rx u \<noteq> [] then (0xc4, u)
        else if thre_ip u then (0xc2, u\<lparr>thre_ip := False\<rparr>)
        else (0xc1, u)
      else if off = 3 then (lcr u, u)
      else if off = 4 then (mcr u, u)
      else if off = 5 then (if uart_rx u \<noteq> [] then 0x60 OR 0x01 else 0x60, u)
      else if off = 6 then (0xb0, u)
      else if off = 7 then (scr u, u)
      else (0, u))"

definition uart_write :: "u64 \<Rightarrow> u8 \<Rightarrow> uart \<Rightarrow> uart" where
  "uart_write off val u =
     (let dlab = lcr u AND 0x80 \<noteq> 0 in
      if off = 0 \<and> \<not> dlab then
        let u = u\<lparr>uart_tx := uart_tx u @ [val]\<rparr> in
        if ier u AND 2 \<noteq> 0 then u\<lparr>thre_ip := True\<rparr> else u
      else if off = 1 \<and> \<not> dlab then
        let was = ier u; u = u\<lparr>ier := val\<rparr> in
        if val AND 2 \<noteq> 0 \<and> was AND 2 = 0 then u\<lparr>thre_ip := True\<rparr> else u
      else if off = 3 then u\<lparr>lcr := val\<rparr>
      else if off = 4 then u\<lparr>mcr := val\<rparr>
      else if off = 7 then u\<lparr>scr := val\<rparr>
      else u)"

definition uart_irq :: "uart \<Rightarrow> bool" where
  "uart_irq u \<longleftrightarrow> (ier u AND 1 \<noteq> 0 \<and> uart_rx u \<noteq> []) \<or> thre_ip u"

section \<open>Which source is claimed\<close>

lemma tz_from_spec:
  "i \<le> tz_from a i k \<and> tz_from a i k \<le> i + k \<and> (\<forall>j. i \<le> j \<and> j < tz_from a i k \<longrightarrow> \<not> bit a j)
   \<and> (tz_from a i k < i + k \<longrightarrow> bit a (tz_from a i k))"
proof (induction a i k rule: tz_from.induct)
  case (2 a i k)
  show ?case
  proof (cases "bit a i")
    case False
    then have "\<not> bit a j" if "i \<le> j" "j < tz_from a (Suc i) k" for j
      using 2 that by (cases "j = i") auto
    then show ?thesis using 2 False by auto
  qed auto
qed auto

lemma trailing_zeros_bit:
  assumes "(m :: 'a::len word) \<noteq> 0"
  shows "bit m (trailing_zeros m)" "j < trailing_zeros m \<Longrightarrow> \<not> bit m j" "trailing_zeros m < LENGTH('a)"
proof -
  have s: "trailing_zeros m \<le> LENGTH('a)" "\<forall>j<trailing_zeros m. \<not> bit m j" "trailing_zeros m < LENGTH('a) \<longrightarrow> bit m (trailing_zeros m)"
    using tz_from_spec [of 0 m "LENGTH('a)"] by (simp_all add: trailing_zeros_def)
  show *: "trailing_zeros m < LENGTH('a)"
  proof (rule ccontr)
    assume "\<not> ?thesis"
    then have "\<not> bit m j" for j using s(1,2) by (cases "j < LENGTH('a)") (auto dest: bit_imp_le_length)
    then show False using assms by (simp add: bit_eq_iff)
  qed
  show "bit m (trailing_zeros m)" "j < trailing_zeros m \<Longrightarrow> \<not> bit m j" using s * by simp_all
qed

text \<open>\<open>m & (m - 1)\<close> is \<open>m\<close> without its lowest set bit.\<close>

lemma bit_drop_lowest:
  assumes "(m :: 'a::len word) \<noteq> 0"
  shows "bit (m AND (m - 1)) j \<longleftrightarrow> bit m j \<and> j \<noteq> trailing_zeros m"
proof -
  let ?t = "trailing_zeros m"
  note t = trailing_zeros_bit [OF assms]
  have "m - 1 = unset_bit ?t m + mask ?t"
    using t by (simp add: unset_bit_eq mask_eq_exp_minus_1)
  also have "\<dots> = unset_bit ?t m OR mask ?t"
    by (rule disjunctive_add) (use t(2) in \<open>auto simp: bit_simps\<close>)
  finally show ?thesis using t(2,3) by (auto simp: bit_simps dest: bit_imp_le_length)
qed

definition claimable :: "plic \<Rightarrow> nat \<Rightarrow> nat \<Rightarrow> bool" where
  "claimable p ctx i \<longleftrightarrow> bit (pl_pending p) i \<and> bit (pl_enable p ctx) i \<and> \<not> bit (pl_claimed p) i
     \<and> pl_threshold p ctx < pl_priority p i"

text \<open>Priority first, then the source number.\<close>

definition outranks :: "plic \<Rightarrow> nat \<Rightarrow> nat \<Rightarrow> bool" where
  "outranks p i j \<longleftrightarrow> pl_priority p j < pl_priority p i \<or> (pl_priority p j = pl_priority p i \<and> j \<le> i)"

text \<open>What the loop returns on the sources \<open>m\<close>, given the best one so far.\<close>

definition best_of :: "plic \<Rightarrow> nat \<Rightarrow> u32 \<Rightarrow> u32 \<Rightarrow> u32 \<Rightarrow> u32 \<Rightarrow> bool" where
  "best_of p ctx m best_id best_pri r \<longleftrightarrow>
     (r = best_id \<and> (\<forall>i. bit m i \<and> pl_threshold p ctx < pl_priority p i \<longrightarrow> pl_priority p i < best_pri))
   \<or> (\<exists>i. r = of_nat i \<and> bit m i \<and> pl_threshold p ctx < pl_priority p i
      \<and> best_pri \<le> pl_priority p i \<and> (\<forall>j. bit m j \<and> pl_threshold p ctx < pl_priority p j \<longrightarrow> outranks p i j))"

lemma best_of_taken:
  assumes "best_of p ctx m' (of_nat t) (pl_priority p t) r" "\<And>j. bit m' j \<longleftrightarrow> bit m j \<and> j \<noteq> t" "bit m t"
    "\<And>j. bit m j \<Longrightarrow> t \<le> j" "pl_threshold p ctx < pl_priority p t" "best_pri \<le> pl_priority p t"
  shows "best_of p ctx m best_id best_pri r"
  using assms(1) unfolding best_of_def
proof (elim disjE exE conjE)
  assume "r = of_nat t" "\<forall>i. bit m' i \<and> pl_threshold p ctx < pl_priority p i \<longrightarrow> pl_priority p i < pl_priority p t"
  then show "(r = best_id \<and> (\<forall>i. bit m i \<and> pl_threshold p ctx < pl_priority p i \<longrightarrow> pl_priority p i < best_pri))
    \<or> (\<exists>i. r = of_nat i \<and> bit m i \<and> pl_threshold p ctx < pl_priority p i \<and> best_pri \<le> pl_priority p i
      \<and> (\<forall>j. bit m j \<and> pl_threshold p ctx < pl_priority p j \<longrightarrow> outranks p i j))"
    using assms(2-6) by (intro disjI2 exI [of _ t]) (auto simp: outranks_def)
next
  fix i assume i: "r = of_nat i" "bit m' i" "pl_threshold p ctx < pl_priority p i" "pl_priority p t \<le> pl_priority p i"
    "\<forall>j. bit m' j \<and> pl_threshold p ctx < pl_priority p j \<longrightarrow> outranks p i j"
  have "outranks p i j" if "bit m j" "pl_threshold p ctx < pl_priority p j" for j
    using i(2,4,5) that assms(2,4) by (cases "j = t") (auto simp: outranks_def)
  then show "(r = best_id \<and> (\<forall>i. bit m i \<and> pl_threshold p ctx < pl_priority p i \<longrightarrow> pl_priority p i < best_pri))
    \<or> (\<exists>i. r = of_nat i \<and> bit m i \<and> pl_threshold p ctx < pl_priority p i \<and> best_pri \<le> pl_priority p i
      \<and> (\<forall>j. bit m j \<and> pl_threshold p ctx < pl_priority p j \<longrightarrow> outranks p i j))"
    using i(1-4) assms(2,6) by (intro disjI2 exI [of _ i]) auto
qed

lemma best_of_passed:
  assumes "best_of p ctx m' best_id best_pri r" "\<And>j. bit m' j \<longleftrightarrow> bit m j \<and> j \<noteq> t"
    "\<not> (pl_threshold p ctx < pl_priority p t \<and> best_pri \<le> pl_priority p t)"
  shows "best_of p ctx m best_id best_pri r"
  using assms(1) unfolding best_of_def
proof (elim disjE exE conjE)
  assume "r = best_id" "\<forall>i. bit m' i \<and> pl_threshold p ctx < pl_priority p i \<longrightarrow> pl_priority p i < best_pri"
  then show "(r = best_id \<and> (\<forall>i. bit m i \<and> pl_threshold p ctx < pl_priority p i \<longrightarrow> pl_priority p i < best_pri))
    \<or> (\<exists>i. r = of_nat i \<and> bit m i \<and> pl_threshold p ctx < pl_priority p i \<and> best_pri \<le> pl_priority p i
      \<and> (\<forall>j. bit m j \<and> pl_threshold p ctx < pl_priority p j \<longrightarrow> outranks p i j))"
    using assms(2,3) by (intro disjI1) (auto simp: not_le)
next
  fix i assume i: "r = of_nat i" "bit m' i" "pl_threshold p ctx < pl_priority p i" "best_pri \<le> pl_priority p i"
    "\<forall>j. bit m' j \<and> pl_threshold p ctx < pl_priority p j \<longrightarrow> outranks p i j"
  have "outranks p i j" if "bit m j" "pl_threshold p ctx < pl_priority p j" for j
  proof (cases "j = t")
    case True
    then have "pl_priority p j < best_pri" using assms(3) that(2) by simp
    then show ?thesis using i(4) unfolding outranks_def by (intro disjI1) (rule less_le_trans)
  next
    case False
    then show ?thesis using i(5) that assms(2) by blast
  qed
  then show "(r = best_id \<and> (\<forall>i. bit m i \<and> pl_threshold p ctx < pl_priority p i \<longrightarrow> pl_priority p i < best_pri))
    \<or> (\<exists>i. r = of_nat i \<and> bit m i \<and> pl_threshold p ctx < pl_priority p i \<and> best_pri \<le> pl_priority p i
      \<and> (\<forall>j. bit m j \<and> pl_threshold p ctx < pl_priority p j \<longrightarrow> outranks p i j))"
    using i(1-4) assms(2) by (intro disjI2 exI [of _ i]) auto
qed

lemma best_loop_spec: "best_of p ctx m best_id best_pri (best_loop p ctx m best_id best_pri)"
proof (induction p ctx m best_id best_pri rule: best_loop.induct)
  case (1 p ctx m best_id best_pri)
  show ?case
  proof (cases "m = 0")
    case True
    then show ?thesis by (simp add: best_loop.simps best_of_def)
  next
    case False
    note b = bit_drop_lowest [OF False] trailing_zeros_bit [OF False]
    have later: "trailing_zeros m \<le> j" if "bit m j" for j using b(3) [of j] that by (meson not_le)
    show ?thesis
    proof (cases "pl_threshold p ctx < pl_priority p (trailing_zeros m) \<and> best_pri \<le> pl_priority p (trailing_zeros m)")
      case True
      then have e: "best_loop p ctx m best_id best_pri
        = best_loop p ctx (m AND (m - 1)) (of_nat (trailing_zeros m)) (pl_priority p (trailing_zeros m))"
        using False by (subst best_loop.simps) (simp add: Let_def)
      show ?thesis unfolding e
        by (rule best_of_taken [OF 1(1) [OF False refl refl True] b(1,2) later]) (use True in simp_all)
    next
      case nt: False
      then have e: "best_loop p ctx m best_id best_pri = best_loop p ctx (m AND (m - 1)) best_id best_pri"
        using False by (subst best_loop.simps) (simp only: Let_def if_False)
      show ?thesis unfolding e by (rule best_of_passed [OF 1(2) [OF False refl refl nt] b(1) nt])
    qed
  qed
qed

lemma claimable_less: "claimable p ctx i \<Longrightarrow> i < 32"
  by (auto simp: claimable_def dest: bit_imp_le_length)

lemma claimable_bit:
  "bit (pl_pending p AND pl_enable p ctx AND NOT (pl_claimed p)) i \<and> pl_threshold p ctx < pl_priority p i \<longleftrightarrow> claimable p ctx i"
  by (auto simp: claimable_def bit_simps dest: bit_imp_le_length)

lemma best_spec:
  "(best p ctx = 0 \<and> (\<forall>i. \<not> claimable p ctx i))
   \<or> (\<exists>i<32. best p ctx = of_nat i \<and> claimable p ctx i \<and> (\<forall>j. claimable p ctx j \<longrightarrow> outranks p i j))"
proof -
  let ?m = "pl_pending p AND pl_enable p ctx AND NOT (pl_claimed p)"
  have "best_of p ctx ?m 0 0 (best p ctx)" unfolding best_def by (rule best_loop_spec)
  then show ?thesis unfolding best_of_def claimable_bit
    using claimable_bit [of p ctx] claimable_less [of p ctx] by auto
qed

section \<open>Claim and completion\<close>

datatype plic_op = PlicRead u64 | PlicWrite u64 u32 | PlicLines u32

definition claim_reg :: "nat \<Rightarrow> u64" where
  "claim_reg ctx = 0x200004 + 0x1000 * of_nat ctx"

text \<open>What a sequence of register accesses and line updates leaves, and the sources its claims return.\<close>

fun plic_ops :: "plic_op list \<Rightarrow> plic \<Rightarrow> u32 list \<times> plic" where
  "plic_ops [] p = ([], p)"
| "plic_ops (PlicRead off # ops) p =
     (let (v, p) = plic_read off p; (vs, p) = plic_ops ops p in
      (if off \<in> claim_reg ` {..<PLIC_CONTEXTS} then v # vs else vs, p))"
| "plic_ops (PlicWrite off v # ops) p = plic_ops ops (plic_write off v p)"
| "plic_ops (PlicLines l # ops) p = plic_ops ops (p\<lparr>pl_pending := l\<rparr>)"

definition completes :: "nat \<Rightarrow> plic_op \<Rightarrow> bool" where
  "completes i op \<longleftrightarrow> (\<exists>ctx<PLIC_CONTEXTS. op = PlicWrite (claim_reg ctx) (of_nat i))"

lemma plic_claim_read:
  assumes "ctx < PLIC_CONTEXTS"
  shows "plic_read (claim_reg ctx) p
    = (best p ctx, if best p ctx \<noteq> 0 then p\<lparr>pl_claimed := pl_claimed p OR push_bit (unat (best p ctx)) 1\<rparr> else p)"
proof -
  consider "ctx = 0" | "ctx = 1" using assms unfolding PLIC_CONTEXTS_def by linarith
  then show ?thesis by cases (simp_all add: plic_read_def PLIC_CONTEXTS_def claim_reg_def Let_def)
qed

lemma plic_read_claimed: "bit (pl_claimed p) i \<Longrightarrow> bit (pl_claimed (snd (plic_read off p))) i"
  by (auto simp: plic_read_def Let_def bit_simps)

lemma claim_reg_off:
  assumes "(off :: u64) \<ge> 0x200000" "unat ((off - 0x200000) div 0x1000) < PLIC_CONTEXTS" "(off - 0x200000) mod 0x1000 = 0x4"
  shows "off = claim_reg (unat ((off - 0x200000) div 0x1000))"
proof -
  let ?d = "off - 0x200000"
  have "?d = ?d div 0x1000 * 0x1000 + ?d mod 0x1000" by (simp add: word_mod_div_equality)
  then show ?thesis using assms(3) by (simp add: claim_reg_def algebra_simps)
qed

lemma plic_write_claimed:
  assumes "bit (pl_claimed p) i" "\<not> completes i (PlicWrite off v)"
  shows "bit (pl_claimed (plic_write off v p)) i"
proof -
  have "i < 32" using assms(1) by (auto dest: bit_imp_le_length)
  show ?thesis
  proof (cases "off \<ge> 0x200000 \<and> unat ((off - 0x200000) div 0x1000) < PLIC_CONTEXTS \<and> (off - 0x200000) mod 0x1000 = 0x4 \<and> unat v = i")
    case True
    then have "v = of_nat i" by auto
    then show ?thesis using True assms(2) claim_reg_off by (auto simp: completes_def)
  next
    case False
    then show ?thesis using assms(1) \<open>i < 32\<close> by (auto simp: plic_write_def Let_def bit_simps not_le)
  qed
qed

lemma plic_in_service:
  assumes "bit (pl_claimed p) i" "\<forall>op\<in>set ops. \<not> completes i op" "i \<noteq> 0"
  shows "of_nat i \<notin> set (fst (plic_ops ops p)) \<and> bit (pl_claimed (snd (plic_ops ops p))) i"
  using assms
proof (induction ops p rule: plic_ops.induct)
  case (2 off ops p)
  have lt: "i < 32" using 2(2) by (auto dest: bit_imp_le_length)
  obtain v q where r: "plic_read off p = (v, q)" by fastforce
  have ih: "of_nat i \<notin> set (fst (plic_ops ops q)) \<and> bit (pl_claimed (snd (plic_ops ops q))) i"
    using 2(1) [OF r [symmetric] refl] plic_read_claimed [OF 2(2), of off] 2(3,4) r by simp
  have "v \<noteq> of_nat i" if "ctx < PLIC_CONTEXTS" "off = claim_reg ctx" for ctx
  proof
    assume v: "v = of_nat i"
    have b: "v = best p ctx" using r that plic_claim_read [OF that(1), of p] by simp
    show False using best_spec [of p ctx]
    proof (elim disjE exE conjE)
      fix j assume "j < 32" "best p ctx = of_nat j" "claimable p ctx j"
      then have "(of_nat j :: u32) = of_nat i" using v b by simp
      then have "j = i" using lt \<open>j < 32\<close> by (simp add: word_of_nat_eq_iff take_bit_nat_eq_self)
      then show False using \<open>claimable p ctx j\<close> 2(2) by (simp add: claimable_def)
    next
      assume "best p ctx = 0"
      then have "(of_nat i :: u32) = of_nat 0" using v b by simp
      then show False using lt 2(4) by (simp only: word_of_nat_eq_iff) (simp add: take_bit_nat_eq_self)
    qed
  qed
  then show ?case using ih by (auto simp: r split: prod.splits)
qed (simp_all add: plic_write_claimed)

text \<open>
  A claim returns the enabled, pending source above the threshold that is not in service and has
  the highest priority, the highest number among equals; it returns 0 and changes nothing when there
  is none. Until a completion of that source is written, no sequence of register accesses and line
  changes makes another claim, of either context, return it.
\<close>

theorem plic_claim:
  assumes "ctx < PLIC_CONTEXTS" "\<not> bit (pl_enable p ctx) 0" "plic_read (claim_reg ctx) p = (i, p')"
  shows "(if i = 0 then p' = p \<and> (\<forall>j. \<not> claimable p ctx j)
     else claimable p ctx (unat i) \<and> (\<forall>j. claimable p ctx j \<longrightarrow> outranks p (unat i) j)
       \<and> p' = p\<lparr>pl_claimed := set_bit (unat i) (pl_claimed p)\<rparr>
       \<and> (\<forall>ops. (\<forall>op\<in>set ops. \<not> completes (unat i) op) \<longrightarrow> i \<notin> set (fst (plic_ops ops p'))))"
proof -
  have i: "i = best p ctx" "p' = (if i \<noteq> 0 then p\<lparr>pl_claimed := pl_claimed p OR push_bit (unat i) 1\<rparr> else p)"
    using assms(3) plic_claim_read [OF assms(1), of p] by auto
  show ?thesis
  proof (cases "i = 0")
    case True
    have "\<not> claimable p ctx 0" using assms(2) by (simp add: claimable_def)
    moreover have "j = 0" if "j < 32" "i = of_nat j" for j
      using that True by (simp add: word_of_nat_eq_0_iff) (use nat_dvd_not_less [of j "2 ^ 32"] in auto)
    ultimately show ?thesis using best_spec [of p ctx] True i by auto
  next
    case False
    then obtain j where j: "j < 32" "i = of_nat j" "claimable p ctx j" "\<forall>k. claimable p ctx k \<longrightarrow> outranks p j k"
      using best_spec [of p ctx] i by auto
    have u: "unat i = j" using j(1,2) by (simp add: unat_of_nat take_bit_nat_eq_self)
    have p': "p' = p\<lparr>pl_claimed := set_bit (unat i) (pl_claimed p)\<rparr>"
      using False i(2) by (simp add: set_bit_eq_or)
    have "bit (pl_claimed p') (unat i)" using p' j(1) u by (simp add: bit_simps)
    moreover have "unat i \<noteq> 0" using False by (simp add: unat_eq_0)
    ultimately have "i \<notin> set (fst (plic_ops ops p'))" if "\<forall>op\<in>set ops. \<not> completes (unat i) op" for ops
      using plic_in_service [of p' "unat i" ops] that by simp
    then show ?thesis using False j(3,4) u p' by simp
  qed
qed

theorem plic_claim_witness:
  "claimable (plic_new\<lparr>pl_priority := \<lambda>_. 1, pl_pending := 0x6, pl_enable := \<lambda>_. 0x6\<rparr>) 1 2"
proof -
  let ?p = "plic_new\<lparr>pl_priority := \<lambda>_. 1, pl_pending := 0x6, pl_enable := \<lambda>_. 0x6\<rparr>"
  have tz: "trailing_zeros (6 :: u32) = 1" "trailing_zeros (4 :: u32) = 2"
    by (simp_all add: trailing_zeros_def eval_nat_numeral)
  have "best ?p 1 = 2"
    by (simp add: best_def plic_new_def best_loop.simps [of _ _ 6] best_loop.simps [of _ _ 4] best_loop.simps [of _ _ 0] Let_def tz)
  then have "plic_read (claim_reg 1) ?p = (2, ?p\<lparr>pl_claimed := pl_claimed ?p OR push_bit 2 1\<rparr>)"
    by (subst plic_claim_read) (simp_all add: PLIC_CONTEXTS_def)
  from plic_claim [OF _ _ this] show ?thesis by (simp add: PLIC_CONTEXTS_def plic_new_def)
qed

section \<open>Serial port lines\<close>

text \<open>The transmit interrupt outlives its enable bit: only reading the identification register drops it.\<close>

lemma uart_thre_outlives_enable: "uart_irq (uart_write 1 0 (uart_write 1 2 uart_new))"
  by (simp add: uart_irq_def uart_write_def uart_new_def Let_def)

lemma uart_passes_input:
  assumes "lcr u AND 0x80 = 0" "uart_rx u = b # bs"
  shows "uart_read 0 u = (b, u\<lparr>uart_rx := bs\<rparr>)" "fst (uart_read 5 u) = 0x61"
    "ier u AND 1 \<noteq> 0 \<Longrightarrow> uart_irq u \<and> uart_read 2 u = (0xc4, u)"
  using assms by (simp_all add: uart_read_def uart_irq_def Let_def)

end
