(* ===== verification/Rtc.thy ===== *)
theory Rtc
  imports Prelude
begin

text \<open>
  The Goldfish real-time clock of both machines, \<open>crates/rv64-system/src/rtc.rs\<close>: a host clock with
  a guest offset, a latched high word and a one-shot alarm. The \<open>i128\<close> offset is the difference of two
  \<open>u64\<close> values and never wraps, so it is an \<open>int\<close>.
\<close>

definition TIME_LOW :: u64 where "TIME_LOW = 0x00"
definition TIME_HIGH :: u64 where "TIME_HIGH = 0x04"
definition ALARM_LOW :: u64 where "ALARM_LOW = 0x08"
definition ALARM_HIGH :: u64 where "ALARM_HIGH = 0x0c"
definition IRQ_ENABLED :: u64 where "IRQ_ENABLED = 0x10"
definition CLEAR_ALARM :: u64 where "CLEAR_ALARM = 0x14"
definition ALARM_STATUS :: u64 where "ALARM_STATUS = 0x18"
definition CLEAR_INTERRUPT :: u64 where "CLEAR_INTERRUPT = 0x1c"

lemmas rtc_regs = TIME_LOW_def TIME_HIGH_def ALARM_LOW_def ALARM_HIGH_def IRQ_ENABLED_def CLEAR_ALARM_def
  ALARM_STATUS_def CLEAR_INTERRUPT_def

record goldfish_rtc =
  host_ns :: u64
  guest_offset_ns :: int
  latched_time_high :: u32
  write_time_high :: u32
  alarm_high :: u32
  alarm_ns :: u64
  alarm_armed :: bool
  rtc_irq_enabled :: bool
  rtc_irq_pending :: bool

definition rtc_new :: goldfish_rtc where
  "rtc_new = \<lparr>host_ns = 0, guest_offset_ns = 0, latched_time_high = 0, write_time_high = 0, alarm_high = 0,
     alarm_ns = 0, alarm_armed = False, rtc_irq_enabled = False, rtc_irq_pending = False\<rparr>"

definition time_ns :: "goldfish_rtc \<Rightarrow> u64" where
  "time_ns r = word_of_int (max 0 (min (2 ^ 64 - 1) (uint (host_ns r) + guest_offset_ns r)))"

definition update_alarm :: "goldfish_rtc \<Rightarrow> goldfish_rtc" where
  "update_alarm r = (if alarm_armed r \<and> rtc_irq_enabled r \<and> alarm_ns r \<le> time_ns r
     then r\<lparr>alarm_armed := False, rtc_irq_pending := True\<rparr> else r)"

definition set_host_time_ns :: "u64 \<Rightarrow> goldfish_rtc \<Rightarrow> goldfish_rtc" where
  "set_host_time_ns ns r = update_alarm (r\<lparr>host_ns := ns\<rparr>)"

text \<open>\<open>((hi as u64) << 32) | lo as u64\<close>.\<close>

definition hi_lo :: "u32 \<Rightarrow> u32 \<Rightarrow> u64" where
  "hi_lo hi lo = push_bit 32 (ucast hi) OR ucast lo"

definition rtc_read :: "u64 \<Rightarrow> goldfish_rtc \<Rightarrow> u32 \<times> goldfish_rtc" where
  "rtc_read off r =
     (if off = TIME_LOW then
        let now = time_ns r in (ucast now, r\<lparr>latched_time_high := ucast (drop_bit 32 now)\<rparr>)
      else if off = TIME_HIGH then (latched_time_high r, r)
      else if off = ALARM_LOW then (ucast (alarm_ns r), r)
      else if off = ALARM_HIGH then (ucast (drop_bit 32 (alarm_ns r)), r)
      else if off = IRQ_ENABLED then (of_flag (rtc_irq_enabled r), r)
      else if off = ALARM_STATUS then (of_flag (alarm_armed r), r)
      else (0, r))"

definition rtc_write :: "u64 \<Rightarrow> u32 \<Rightarrow> goldfish_rtc \<Rightarrow> goldfish_rtc" where
  "rtc_write off val r =
     (if off = TIME_HIGH then r\<lparr>write_time_high := val\<rparr>
      else if off = TIME_LOW then
        update_alarm (r\<lparr>guest_offset_ns := uint (hi_lo (write_time_high r) val) - uint (host_ns r)\<rparr>)
      else if off = ALARM_HIGH then r\<lparr>alarm_high := val\<rparr>
      else if off = ALARM_LOW then
        update_alarm (r\<lparr>alarm_ns := hi_lo (alarm_high r) val, alarm_armed := True\<rparr>)
      else if off = IRQ_ENABLED then update_alarm (r\<lparr>rtc_irq_enabled := val \<noteq> 0\<rparr>)
      else if off = CLEAR_ALARM then r\<lparr>alarm_armed := False, rtc_irq_pending := False\<rparr>
      else if off = CLEAR_INTERRUPT then r\<lparr>rtc_irq_pending := False\<rparr>
      else r)"

definition rtc_irq :: "goldfish_rtc \<Rightarrow> bool" where
  "rtc_irq r = rtc_irq_pending r"

section \<open>Facts\<close>

lemma hi_lo_split: "hi_lo (ucast (drop_bit 32 v)) (ucast v) = v"
  by (rule bit_word_eqI) (auto simp: hi_lo_def bit_simps)

lemma time_of_update_alarm [simp]: "time_ns (update_alarm r) = time_ns r"
  by (simp add: time_ns_def update_alarm_def)

lemma latch_of_update_alarm [simp]: "latched_time_high (update_alarm r) = latched_time_high r"
  by (simp add: update_alarm_def)

lemma clamp_u64: "word_of_int (max 0 (min (2 ^ 64 - 1) (uint (v :: u64)))) = v"
proof -
  have "0 \<le> uint v" "uint v \<le> 2 ^ 64 - 1" using uint_bounded [of v] by simp_all
  then show ?thesis by (simp add: min_absorb2 max_absorb2)
qed

text \<open>Setting the time is read back, and survives a host refresh as an offset.\<close>

lemma rtc_set_time: "time_ns (rtc_write TIME_LOW lo (rtc_write TIME_HIGH hi r)) = hi_lo hi lo"
  using clamp_u64 [of "hi_lo hi lo"] by (simp add: rtc_write_def time_ns_def update_alarm_def rtc_regs)

text \<open>A low read followed by a high read is one timestamp, whatever the host clock does in between.\<close>

lemma rtc_time_pair:
  assumes "rtc_read TIME_LOW r = (lo, r')"
  shows "hi_lo (fst (rtc_read TIME_HIGH (set_host_time_ns ns r'))) lo = time_ns r"
  using assms by (auto simp: rtc_read_def Let_def rtc_regs set_host_time_ns_def hi_lo_split)

text \<open>The alarm is one-shot: the interrupt is raised exactly when an armed alarm is due.\<close>

lemma rtc_alarm_fires:
  "rtc_irq_pending (set_host_time_ns ns r) \<longleftrightarrow>
     rtc_irq_pending r \<or> (alarm_armed r \<and> rtc_irq_enabled r \<and> alarm_ns r \<le> time_ns (set_host_time_ns ns r))"
  by (auto simp: set_host_time_ns_def update_alarm_def time_ns_def)

text \<open>No armed, enabled alarm is overdue after any operation.\<close>

definition rtc_settled :: "goldfish_rtc \<Rightarrow> bool" where
  "rtc_settled r \<longleftrightarrow> \<not> (alarm_armed r \<and> rtc_irq_enabled r \<and> alarm_ns r \<le> time_ns r)"

lemma settled_update_alarm [simp]: "rtc_settled (update_alarm r)"
  by (simp add: rtc_settled_def update_alarm_def)

lemma rtc_settled_new: "rtc_settled rtc_new"
  by (simp add: rtc_settled_def rtc_new_def)

lemma rtc_settled_host: "rtc_settled (set_host_time_ns ns r)"
  by (simp add: set_host_time_ns_def)

lemma rtc_settled_read: "rtc_settled r \<Longrightarrow> rtc_settled (snd (rtc_read off r))"
  by (simp add: rtc_read_def Let_def) (simp add: rtc_settled_def time_ns_def)

lemma rtc_settled_frame:
  assumes "rtc_settled r"
  shows "rtc_settled (r\<lparr>write_time_high := v\<rparr>)" "rtc_settled (r\<lparr>alarm_high := v\<rparr>)" "rtc_settled (r\<lparr>rtc_irq_pending := b\<rparr>)"
    "rtc_settled (r\<lparr>alarm_armed := False, rtc_irq_pending := b\<rparr>)"
  using assms by (simp_all add: rtc_settled_def time_ns_def)

lemma rtc_settled_write: "rtc_settled r \<Longrightarrow> rtc_settled (rtc_write off val r)"
  by (simp add: rtc_write_def rtc_settled_frame)

end
