(* ===== verification/VirtBus.thy ===== *)
theory VirtBus
  imports Plic Rtc Virtio Safety
begin

text \<open>
  The bus of the virt machine, \<open>VirtBus\<close> of \<open>crates/rv64-system/src/virt.rs\<close>: RAM, test finisher, CLINT,
  PLIC, serial port, clock and virtio slots. \<open>vb_ram_ptr\<close> is the host address of the RAM buffer
  (\<open>self.ram.as_ptr()\<close>); \<open>F\<close> is the file-system backend of the 9P devices.
\<close>

definition RAM_BASE :: u64 where "RAM_BASE = 0x80000000"
definition TEST_BASE :: u64 where "TEST_BASE = 0x00100000"
definition CLINT_BASE :: u64 where "CLINT_BASE = 0x02000000"
definition CLINT_SIZE :: u64 where "CLINT_SIZE = 0x10000"
definition PLIC_BASE :: u64 where "PLIC_BASE = 0x0c000000"
definition PLIC_SIZE :: u64 where "PLIC_SIZE = 0x04000000"
definition UART_BASE :: u64 where "UART_BASE = 0x10000000"
definition UART_SIZE :: u64 where "UART_SIZE = 0x100"
definition GOLDFISH_RTC_BASE :: u64 where "GOLDFISH_RTC_BASE = 0x00101000"
definition GOLDFISH_RTC_SIZE :: u64 where "GOLDFISH_RTC_SIZE = 0x1000"
definition VIRTIO_BASE :: u64 where "VIRTIO_BASE = 0x10001000"
definition VIRTIO_SIZE :: u64 where "VIRTIO_SIZE = 0x1000"
definition VIRTIO_COUNT :: u64 where "VIRTIO_COUNT = 8"
definition UART_IRQ :: u32 where "UART_IRQ = 10"
definition GOLDFISH_RTC_IRQ :: u32 where "GOLDFISH_RTC_IRQ = 11"
definition VIRTIO_IRQ_BASE :: u32 where "VIRTIO_IRQ_BASE = 1"

lemmas virt_layout = RAM_BASE_def TEST_BASE_def CLINT_BASE_def CLINT_SIZE_def PLIC_BASE_def PLIC_SIZE_def UART_BASE_def
  UART_SIZE_def GOLDFISH_RTC_BASE_def GOLDFISH_RTC_SIZE_def VIRTIO_BASE_def VIRTIO_SIZE_def VIRTIO_COUNT_def

record 'f virt_bus =
  vb_ram :: bytes
  vb_ram_ptr :: i64
  vb_mtime :: u64
  vb_mtimecmp :: u64
  vb_msip :: bool
  vb_rtc :: goldfish_rtc
  vb_plic :: plic
  vb_uart :: uart
  vb_virtio :: "'f virtio_dev list"
  vb_power_off :: bool
  vb_direct_sbi :: bool
  vb_jit_pages :: "u64 list"
  vb_jit_dirty_pages :: "u64 list"

type_synonym ('f, 'a) vbm = "('f virt_bus, exn, 'a) res"

definition in_window :: "u64 \<Rightarrow> u64 \<Rightarrow> u64 \<Rightarrow> bool" where
  "in_window addr base len \<longleftrightarrow> base \<le> addr \<and> addr < base + len"

section \<open>Pages with generated code\<close>

text \<open>
  The page bitmap both buses keep: \<open>words.get(page / 64)\<close> with bit \<open>page % 64\<close>. Setting and clearing
  do nothing outside the bitmap.
\<close>

definition page_bit :: "u64 list \<Rightarrow> u64 \<Rightarrow> bool" where
  "page_bit ws page \<longleftrightarrow> unat (page div 64) < length ws \<and> (ws ! unat (page div 64)) AND push_bit (unat (page mod 64)) 1 \<noteq> 0"

definition mark_page :: "u64 \<Rightarrow> u64 list \<Rightarrow> u64 list" where
  "mark_page page ws = (if unat (page div 64) < length ws
     then ws[unat (page div 64) := ws ! unat (page div 64) OR push_bit (unat (page mod 64)) 1] else ws)"

definition unmark_page :: "u64 \<Rightarrow> u64 list \<Rightarrow> u64 list" where
  "unmark_page page ws = (if unat (page div 64) < length ws
     then ws[unat (page div 64) := ws ! unat (page div 64) AND NOT (push_bit (unat (page mod 64)) 1)] else ws)"

definition virt_jit_mark_page :: "u64 \<Rightarrow> 'f virt_bus \<Rightarrow> 'f virt_bus" where
  "virt_jit_mark_page pa b = (if pa \<ge> RAM_BASE
     then b\<lparr>vb_jit_pages := mark_page (drop_bit 12 (pa - RAM_BASE)) (vb_jit_pages b)\<rparr> else b)"

definition virt_jit_page_marked :: "u64 \<Rightarrow> 'f virt_bus \<Rightarrow> bool" where
  "virt_jit_page_marked page b = page_bit (vb_jit_pages b) page"

definition virt_jit_unmark_page :: "u64 \<Rightarrow> 'f virt_bus \<Rightarrow> 'f virt_bus" where
  "virt_jit_unmark_page page b = b\<lparr>vb_jit_pages := unmark_page page (vb_jit_pages b)\<rparr>"

definition virt_jit_take_dirty :: "'f virt_bus \<Rightarrow> u64 list \<times> 'f virt_bus" where
  "virt_jit_take_dirty b = (vb_jit_dirty_pages b, b\<lparr>vb_jit_dirty_pages := []\<rparr>)"

definition virt_jit_check_store :: "u64 \<Rightarrow> 'f virt_bus \<Rightarrow> 'f virt_bus" where
  "virt_jit_check_store addr b = (if addr \<ge> RAM_BASE
     then let page = drop_bit 12 (addr - RAM_BASE) in
       if page_bit (vb_jit_pages b) page then b\<lparr>vb_jit_dirty_pages := vb_jit_dirty_pages b @ [page]\<rparr> else b
     else b)"

section \<open>Device lines and host side\<close>

text \<open>A shift amount past the width is masked, as release code does.\<close>

definition virtio_lines :: "'f virtio_dev list \<Rightarrow> u32" where
  "virtio_lines ds = fold (\<lambda>(i, d) p. if vio_irq_pending d then p OR push_bit (unat (VIRTIO_IRQ_BASE + of_nat i) mod 32) 1 else p)
     (enumerate 0 ds) 0"

definition refresh_plic :: "'f virt_bus \<Rightarrow> 'f virt_bus" where
  "refresh_plic b =
     (let p = (if uart_irq (vb_uart b) then push_bit (unat UART_IRQ) 1 else 0);
          p = (if rtc_irq (vb_rtc b) then p OR push_bit (unat GOLDFISH_RTC_IRQ) 1 else p) in
      b\<lparr>vb_plic := (vb_plic b)\<lparr>pl_pending := p OR virtio_lines (vb_virtio b)\<rparr>\<rparr>)"

definition uart_take :: "'f virt_bus \<Rightarrow> bytes \<times> 'f virt_bus" where
  "uart_take b = (uart_tx (vb_uart b), b\<lparr>vb_uart := (vb_uart b)\<lparr>uart_tx := []\<rparr>\<rparr>)"

definition uart_input :: "bytes \<Rightarrow> 'f virt_bus \<Rightarrow> 'f virt_bus" where
  "uart_input bs b = b\<lparr>vb_uart := (vb_uart b)\<lparr>uart_rx := uart_rx (vb_uart b) @ bs\<rparr>\<rparr>"

text \<open>An operation of device \<open>i\<close>, and one that also sees RAM (\<open>remove\<close>, call, \<open>insert\<close>).\<close>

definition virt_dev :: "nat \<Rightarrow> ('f, 'a) vdevm \<Rightarrow> ('f, 'a) vbm" where
  "virt_dev i m = (\<lambda>b. if i < length (vb_virtio b)
     then case m (vb_virtio b ! i) of (r, d) \<Rightarrow> (r, b\<lparr>vb_virtio := (vb_virtio b)[i := d]\<rparr>)
     else (Inl Panic, b))"

definition virt_dev_ram :: "nat \<Rightarrow> ('f, 'a) viom \<Rightarrow> ('f, 'a) vbm" where
  "virt_dev_ram i m = (\<lambda>b. if i < length (vb_virtio b)
     then case m (vb_virtio b ! i, vb_ram b) of (r, d, ram) \<Rightarrow>
       (r, b\<lparr>vb_virtio := (vb_virtio b)[i := d], vb_ram := ram\<rparr>)
     else (Inl Panic, b))"

section \<open>Memory-mapped accesses\<close>

definition virt_mmio_read :: "u64 \<Rightarrow> u32 \<Rightarrow> ('f, u64 option) vbm" where
  "virt_mmio_read addr sz =
     (if in_window addr TEST_BASE 0x1000 then mret (Some 0)
      else if in_window addr CLINT_BASE CLINT_SIZE then
        mget (\<lambda>b. Some (let off = addr - CLINT_BASE in
          if off = 0x0 then of_flag (vb_msip b)
          else if off = 0x4000 then vb_mtimecmp b
          else if off = 0xbff8 then vb_mtime b
          else 0))
      else if in_window addr PLIC_BASE PLIC_SIZE then
        (\<lambda>b. case plic_read (addr - PLIC_BASE) (vb_plic b) of (v, p) \<Rightarrow> (Inr (Some (ucast v)), b\<lparr>vb_plic := p\<rparr>))
      else if in_window addr UART_BASE UART_SIZE then
        (\<lambda>b. case uart_read (addr - UART_BASE) (vb_uart b) of (v, u) \<Rightarrow> (Inr (Some (ucast v)), b\<lparr>vb_uart := u\<rparr>))
      else if in_window addr GOLDFISH_RTC_BASE GOLDFISH_RTC_SIZE then
        (\<lambda>b. case rtc_read (addr - GOLDFISH_RTC_BASE) (vb_rtc b) of (v, r) \<Rightarrow> (Inr (Some (ucast v)), b\<lparr>vb_rtc := r\<rparr>))
      else if in_window addr VIRTIO_BASE (VIRTIO_COUNT * VIRTIO_SIZE) then
        let i = unat ((addr - VIRTIO_BASE) div VIRTIO_SIZE); off = (addr - VIRTIO_BASE) mod VIRTIO_SIZE in
        mbind (mget (\<lambda>b. length (vb_virtio b))) (\<lambda>n.
        if i < n then mbind (virt_dev i (read_sized off sz)) (\<lambda>v. mret (Some (ucast v))) else mret None)
      else mret None)"

definition virt_mmio_write :: "'f fs_ops \<Rightarrow> u64 \<Rightarrow> u64 \<Rightarrow> ('f, bool) vbm" where
  "virt_mmio_write F addr val =
     (if in_window addr TEST_BASE 0x1000 then
        let v = (ucast val :: u32) AND 0xffff in
        mbind (if v = 0x5555 \<or> v = 0x7777 \<or> v = 0x3333 then mmod (\<lambda>b. b\<lparr>vb_power_off := True\<rparr>) else mret ()) (\<lambda>_. mret True)
      else if in_window addr CLINT_BASE CLINT_SIZE then
        let off = addr - CLINT_BASE in
        mbind (if off = 0x0 then mmod (\<lambda>b. b\<lparr>vb_msip := val AND 1 \<noteq> 0\<rparr>)
               else if off = 0x4000 then mmod (\<lambda>b. b\<lparr>vb_mtimecmp := val\<rparr>)
               else mret ()) (\<lambda>_. mret True)
      else if in_window addr PLIC_BASE PLIC_SIZE then
        mbind (mmod (\<lambda>b. b\<lparr>vb_plic := plic_write (addr - PLIC_BASE) (ucast val) (vb_plic b)\<rparr>)) (\<lambda>_. mret True)
      else if in_window addr UART_BASE UART_SIZE then
        mbind (mmod (\<lambda>b. b\<lparr>vb_uart := uart_write (addr - UART_BASE) (ucast val) (vb_uart b)\<rparr>)) (\<lambda>_. mret True)
      else if in_window addr GOLDFISH_RTC_BASE GOLDFISH_RTC_SIZE then
        mbind (mmod (\<lambda>b. b\<lparr>vb_rtc := rtc_write (addr - GOLDFISH_RTC_BASE) (ucast val) (vb_rtc b)\<rparr>)) (\<lambda>_. mret True)
      else if in_window addr VIRTIO_BASE (VIRTIO_COUNT * VIRTIO_SIZE) then
        let i = unat ((addr - VIRTIO_BASE) div VIRTIO_SIZE); off = (addr - VIRTIO_BASE) mod VIRTIO_SIZE in
        mbind (mget (\<lambda>b. length (vb_virtio b))) (\<lambda>n.
        if i < n then
          mbind (virt_dev i (virtio_write off (ucast val))) (\<lambda>q. case q of
            None \<Rightarrow> mret True
          | Some q \<Rightarrow> mbind (virt_dev_ram i (process F RAM_BASE (unat q))) (\<lambda>_. mret True))
        else mret True)
      else mret False)"

definition poll_virtio :: "'f fs_ops \<Rightarrow> ('f, unit) vbm" where
  "poll_virtio F = mbind (mget (\<lambda>b. length (vb_virtio b))) (\<lambda>n.
     for_in [0..<n] () (\<lambda>i _. for_in [0..<2] () (\<lambda>qi _. virt_dev_ram i (process F RAM_BASE qi))))"

section \<open>The Bus trait\<close>

definition virt_ram_slice :: "u64 \<Rightarrow> nat \<Rightarrow> 'f virt_bus \<Rightarrow> (u64 \<times> u64) option" where
  "virt_ram_slice addr len b =
     (let off = addr - RAM_BASE in
      if addr \<ge> RAM_BASE \<and> off + of_nat len \<le> of_nat (length (vb_ram b)) then Some (off, off + of_nat len) else None)"

definition virt_read :: "nat \<Rightarrow> u64 \<Rightarrow> ('f, 'a::len word) vbm" where
  "virt_read n addr = mbind (mget (virt_ram_slice addr n)) (\<lambda>s. case s of
     Some (i, j) \<Rightarrow> mbind (mget (\<lambda>b. sub_range (vb_ram b) i j)) (\<lambda>r. mbind (unwrap r) (\<lambda>bs. mret (from_le_bytes bs)))
   | None \<Rightarrow> mbind (virt_mmio_read addr (of_nat n)) (\<lambda>v. case v of
       Some v \<Rightarrow> mret (ucast v)
     | None \<Rightarrow> throw (LoadAccessFault addr)))"

definition virt_write :: "'f fs_ops \<Rightarrow> nat \<Rightarrow> u64 \<Rightarrow> 'a::len word \<Rightarrow> ('f, unit) vbm" where
  "virt_write F n addr val =
     mbind (mmod (virt_jit_check_store addr)) (\<lambda>_.
     mbind (mget (virt_ram_slice addr n)) (\<lambda>s. case s of
       Some (i, j) \<Rightarrow> mbind (mget (\<lambda>b. set_range (vb_ram b) i j (to_le_bytes n val))) (\<lambda>r.
         mbind (unwrap r) (\<lambda>ram. mmod (\<lambda>b. b\<lparr>vb_ram := ram\<rparr>)))
     | None \<Rightarrow> mbind (virt_mmio_write F addr (ucast val)) (\<lambda>ok.
         if ok then mret () else throw (StoreAccessFault addr))))"

definition virt_irq_lines :: "'f virt_bus \<Rightarrow> u64 \<times> 'f virt_bus" where
  "virt_irq_lines b =
     (let b = refresh_plic b;
          lines = (if \<not> vb_direct_sbi b \<and> vb_mtimecmp b \<le> vb_mtime b then IRQ_MTIP else 0);
          lines = (if vb_msip b then lines OR IRQ_MSIP else lines);
          lines = (if pending_ctx (vb_plic b) 0 then lines OR IRQ_MEIP else lines);
          lines = (if pending_ctx (vb_plic b) 1 then lines OR IRQ_SEIP else lines) in
      (lines, b))"

definition virt_jit_fast_off :: "'f virt_bus \<Rightarrow> u64 \<Rightarrow> u64 \<Rightarrow> bool \<Rightarrow> i64 option" where
  "virt_jit_fast_off b va pa store =
     (if pa < RAM_BASE \<or> RAM_BASE + of_nat (length (vb_ram b)) \<le> (pa OR 0xfff) then None
      else if store \<and> (let page = drop_bit 12 (pa - RAM_BASE) in
          unat (page div 64) < length (vb_jit_pages b) \<and> bit (vb_jit_pages b ! unat (page div 64)) (unat (page AND 63))) then None
      else Some (vb_ram_ptr b + (pa - RAM_BASE) - va))"

text \<open>The memory behind the addresses of \<open>jit_fast_off\<close> is the RAM buffer.\<close>

definition virt_host_read8 :: "'f virt_bus \<Rightarrow> u64 \<Rightarrow> u8" where
  "virt_host_read8 b a = (let i = unat (a - vb_ram_ptr b) in if i < length (vb_ram b) then vb_ram b ! i else 0)"

definition virt_host_write8 :: "u64 \<Rightarrow> u8 \<Rightarrow> 'f virt_bus \<Rightarrow> 'f virt_bus" where
  "virt_host_write8 a v b = b\<lparr>vb_ram := (vb_ram b)[unat (a - vb_ram_ptr b) := v]\<rparr>"

definition virt_bus_ops :: "'f fs_ops \<Rightarrow> 'f virt_bus bus_ops" where
  "virt_bus_ops F = \<lparr>read8 = virt_read 1, read16 = virt_read 2, read32 = virt_read 4, read64 = virt_read 8,
     write8 = virt_write F 1, write16 = virt_write F 2, write32 = virt_write F 4, write64 = virt_write F 8,
     jit_fast_off = virt_jit_fast_off, irq_lines = virt_irq_lines,
     host_read8 = virt_host_read8, host_write8 = virt_host_write8\<rparr>"

section \<open>A machine without virtio devices\<close>

text \<open>
  With no virtio device no access of the hart panics: the slices of RAM are in range and the other
  devices are total.
\<close>

definition virt_quiet :: "'f virt_bus \<Rightarrow> bool" where
  "virt_quiet b \<longleftrightarrow> vb_virtio b = [] \<and> length (vb_ram b) < 2 ^ 63"

lemma virt_slice_range:
  assumes "virt_ram_slice addr n b = Some (i, j)" "n \<le> 8" "length (vb_ram b) < 2 ^ 63"
  shows "unat j = unat i + n" "unat j \<le> length (vb_ram b)"
proof -
  have a: "RAM_BASE \<le> addr" "i = addr - RAM_BASE" "j = i + of_nat n" "j \<le> of_nat (length (vb_ram b))"
    using assms(1) by (auto simp: virt_ram_slice_def Let_def split: if_splits)
  have "unat i + 0x80000000 < 2 ^ 64"
    using a(1,2) unat_less_2p64 [of addr] by (simp add: unat_sub word_le_nat_alt RAM_BASE_def)
  then have "unat i + n < 2 ^ 64" using assms(2) by simp
  then show "unat j = unat i + n" unfolding a(3) using assms(2)
    by (subst unat_plus_if_size) (simp add: word_size unat_of_nat take_bit_nat_eq_self)
  show "unat j \<le> length (vb_ram b)"
    using a(4) assms(3) by (simp add: word_le_nat_alt unat_of_nat take_bit_nat_eq_self)
qed

lemma keeps_no_dev:
  "keeps virt_quiet (mbind (mget (\<lambda>b. length (vb_virtio b))) (\<lambda>n. if i < n then m else mret x))"
  by (rule keeps_atI) (simp add: keeps_at_def mbind_def mget_def mret_def virt_quiet_def)

lemma keeps_virt_mmio_read: "keeps virt_quiet (virt_mmio_read addr sz)"
  unfolding virt_mmio_read_def Let_def
  by (intro keeps_if keeps_ret keeps_mget keeps_no_dev)
    (auto intro!: keeps_atI simp: keeps_at_def virt_quiet_def split: prod.splits)

lemma keeps_virt_mmio_write: "keeps virt_quiet (virt_mmio_write F addr v)"
  unfolding virt_mmio_write_def Let_def
  by (intro keeps_if keeps_bind keeps_ret keeps_mmod keeps_no_dev) (simp_all add: virt_quiet_def)

lemma keeps_virt_read:
  assumes "n \<le> 8"
  shows "keeps virt_quiet (virt_read n addr :: ('f, 'a::len word) vbm)"
proof (rule keeps_atI)
  fix b :: "'f virt_bus" assume q: "virt_quiet b"
  define k :: "u64 option \<Rightarrow> ('f, 'a word) vbm" where
    "k = (\<lambda>v. case v of Some v \<Rightarrow> mret (ucast v) | None \<Rightarrow> throw (LoadAccessFault addr))"
  show "keeps_at virt_quiet (virt_read n addr :: ('f, 'a word) vbm) b"
  proof (cases "virt_ram_slice addr n b")
    case (Some s)
    obtain i j where s: "s = (i, j)" by fastforce
    have "sub_range (vb_ram b) i j \<noteq> None"
      using virt_slice_range [of addr n b i j] Some s assms q by (simp add: sub_range_def virt_quiet_def)
    then show ?thesis using q Some s
      by (auto simp: keeps_at_def virt_read_def mbind_def mget_def unwrap_def mret_def)
  next
    case None
    then have "(virt_read n addr :: ('f, 'a word) vbm) b = mbind (virt_mmio_read addr (of_nat n)) k b"
      by (simp add: virt_read_def k_def)
    moreover have "keeps_at virt_quiet (mbind (virt_mmio_read addr (of_nat n)) k) b"
      unfolding k_def
      by (intro keeps_atD [where s = b] keeps_bind keeps_virt_mmio_read keeps_case_option keeps_ret keeps_throw q)
    ultimately show ?thesis by (simp only: keeps_at_def)
  qed
qed

lemma virt_quiet_check [simp]: "virt_quiet (virt_jit_check_store addr b) \<longleftrightarrow> virt_quiet b"
  by (simp add: virt_jit_check_store_def virt_quiet_def Let_def)

lemma virt_slice_check [simp]: "virt_ram_slice addr n (virt_jit_check_store a b) = virt_ram_slice addr n b"
  by (simp add: virt_jit_check_store_def virt_ram_slice_def Let_def)

lemma keeps_virt_write:
  fixes F :: "'f fs_ops"
  shows "n \<le> 8 \<Longrightarrow> keeps virt_quiet (virt_write F n addr v)"
proof (rule keeps_atI)
  fix b :: "'f virt_bus" assume n: "n \<le> 8" and q: "virt_quiet b"
  show "keeps_at virt_quiet (virt_write F n addr v) b"
  proof (cases "virt_ram_slice addr n b")
    case (Some s)
    obtain i j where s: "s = (i, j)" by fastforce
    let ?b = "virt_jit_check_store addr b"
    have q': "virt_quiet ?b" using q by simp
    have "set_range (vb_ram ?b) i j (to_le_bytes n v) = Some (take (unat i) (vb_ram ?b) @ to_le_bytes n v @ drop (unat j) (vb_ram ?b))"
      "unat j = unat i + n" "unat j \<le> length (vb_ram ?b)"
      using virt_slice_range [of addr n ?b i j] Some s n q' by (simp_all add: set_range_def virt_quiet_def)
    then show ?thesis using q' Some s
      by (simp add: keeps_at_def virt_write_def mbind_def mget_def mmod_def unwrap_def mret_def virt_quiet_def)
  next
    case None
    then have "virt_write F n addr v b = mbind (virt_mmio_write F addr (ucast v)) (\<lambda>ok.
        if ok then mret () else throw (StoreAccessFault addr)) (virt_jit_check_store addr b)"
      by (simp add: virt_write_def)
    moreover have "keeps_at virt_quiet (mbind (virt_mmio_write F addr (ucast v)) (\<lambda>ok.
        if ok then mret () else throw (StoreAccessFault addr))) (virt_jit_check_store addr b)"
      by (intro keeps_atD [where s = "virt_jit_check_store addr b"] keeps_bind keeps_virt_mmio_write keeps_if keeps_ret keeps_throw)
        (simp add: q)
    ultimately show ?thesis by (simp only: keeps_at_def)
  qed
qed

interpretation virt: quiet_bus "virt_bus_ops F" virt_quiet for F :: "'f fs_ops"
  by unfold_locales (simp_all add: virt_bus_ops_def keeps_virt_read keeps_virt_write,
    simp_all add: virt_quiet_def virt_irq_lines_def virt_host_write8_def refresh_plic_def Let_def)

end
