(* ===== verification/Dtb.thy ===== *)
theory Dtb
  imports Prelude "HOL-Library.Sublist"
begin

text \<open>
  The flattened-device-tree builder, \<open>crates/rv64-system/src/dtb.rs\<close>, and a reader of the format it
  writes (FDT version 17): a blob built from a tree reads back as that tree.
\<close>

section \<open>The builder\<close>

definition utf8 :: "string \<Rightarrow> u8 list" where
  "utf8 s = map (\<lambda>c. of_nat (of_char c)) s"

definition to_be_bytes :: "nat \<Rightarrow> 'a::len word \<Rightarrow> u8 list" where
  "to_be_bytes n v = rev (to_le_bytes n v)"

definition FDT_BEGIN_NODE :: u32 where "FDT_BEGIN_NODE = 1"
definition FDT_END_NODE :: u32 where "FDT_END_NODE = 2"
definition FDT_PROP :: u32 where "FDT_PROP = 3"
definition FDT_END :: u32 where "FDT_END = 9"

lemmas fdt_tokens = FDT_BEGIN_NODE_def FDT_END_NODE_def FDT_PROP_def FDT_END_def

record fdt =
  fdt_struct :: "u8 list"
  fdt_strings :: "u8 list"
  fdt_names :: "(u8 list \<times> u32) list"

definition fdt_new :: fdt where
  "fdt_new = \<lparr>fdt_struct = [], fdt_strings = [], fdt_names = []\<rparr>"

definition fdt_extend :: "u8 list \<Rightarrow> fdt \<Rightarrow> fdt" where
  "fdt_extend b f = f\<lparr>fdt_struct := fdt_struct f @ b\<rparr>"

definition fdt_u32 :: "u32 \<Rightarrow> fdt \<Rightarrow> fdt" where
  "fdt_u32 v = fdt_extend (to_be_bytes 4 v)"

definition name_offset :: "u8 list \<Rightarrow> fdt \<Rightarrow> u32 \<times> fdt" where
  "name_offset name f = (case map_of (fdt_names f) name of
     Some off \<Rightarrow> (off, f)
   | None \<Rightarrow>
       let off = of_nat (length (fdt_strings f)) in
       (off, f\<lparr>fdt_strings := fdt_strings f @ name @ [0], fdt_names := fdt_names f @ [(name, off)]\<rparr>))"

text \<open>\<open>while !self.struct_.len().is_multiple_of(4) { self.struct_.push(0) }\<close>.\<close>

definition pad_len :: "nat \<Rightarrow> nat" where
  "pad_len n = (4 - n mod 4) mod 4"

definition fdt_align :: "fdt \<Rightarrow> fdt" where
  "fdt_align f = fdt_extend (replicate (pad_len (length (fdt_struct f))) 0) f"

definition begin_node :: "u8 list \<Rightarrow> fdt \<Rightarrow> fdt" where
  "begin_node name f = fdt_align (fdt_extend (name @ [0]) (fdt_u32 FDT_BEGIN_NODE f))"

definition end_node :: "fdt \<Rightarrow> fdt" where
  "end_node = fdt_u32 FDT_END_NODE"

definition fdt_prop :: "u8 list \<Rightarrow> u8 list \<Rightarrow> fdt \<Rightarrow> fdt" where
  "fdt_prop name data f =
     (let (off, f) = name_offset name f in
      fdt_align (fdt_extend data (fdt_u32 off (fdt_u32 (of_nat (length data)) (fdt_u32 FDT_PROP f)))))"

definition prop_u32 :: "u8 list \<Rightarrow> u32 \<Rightarrow> fdt \<Rightarrow> fdt" where
  "prop_u32 name v = fdt_prop name (to_be_bytes 4 v)"

definition prop_u32s :: "u8 list \<Rightarrow> u32 list \<Rightarrow> fdt \<Rightarrow> fdt" where
  "prop_u32s name vs = fdt_prop name (concat (map (to_be_bytes 4) vs))"

definition prop_u64_pair :: "u8 list \<Rightarrow> u64 \<Rightarrow> u64 \<Rightarrow> fdt \<Rightarrow> fdt" where
  "prop_u64_pair name a b = fdt_prop name (to_be_bytes 8 a @ to_be_bytes 8 b)"

definition prop_str :: "u8 list \<Rightarrow> u8 list \<Rightarrow> fdt \<Rightarrow> fdt" where
  "prop_str name s = fdt_prop name (s @ [0])"

definition prop_strs :: "u8 list \<Rightarrow> u8 list list \<Rightarrow> fdt \<Rightarrow> fdt" where
  "prop_strs name ss = fdt_prop name (concat (map (\<lambda>s. s @ [0]) ss))"

definition fdt_finish :: "fdt \<Rightarrow> u8 list" where
  "fdt_finish f =
     (let f = fdt_u32 FDT_END f;
          off_struct = 40 + 16; off_strings = off_struct + length (fdt_struct f);
          total = off_strings + length (fdt_strings f) in
      concat (map (to_be_bytes 4) [0xd00dfeed, of_nat total, of_nat off_struct, of_nat off_strings, 40, 17, 16, 0,
        of_nat (length (fdt_strings f)), of_nat (length (fdt_struct f)) :: u32])
      @ replicate 16 0 @ fdt_struct f @ fdt_strings f)"

section \<open>A reader\<close>

datatype dt_node = Dt (dt_name: "u8 list") (dt_props: "(u8 list \<times> u8 list) list") (dt_children: "dt_node list")

definition from_be_bytes :: "u8 list \<Rightarrow> 'a::len word" where
  "from_be_bytes bs = from_le_bytes (rev bs)"

definition get_u32 :: "nat \<Rightarrow> u8 list \<Rightarrow> u32" where
  "get_u32 i b = from_be_bytes (take 4 (drop i b))"

definition c_string :: "u8 list \<Rightarrow> u8 list" where
  "c_string = takeWhile (\<lambda>c. c \<noteq> 0)"

definition align4 :: "nat \<Rightarrow> nat" where
  "align4 n = n + pad_len n"

fun read_props :: "nat \<Rightarrow> u8 list \<Rightarrow> u8 list \<Rightarrow> (u8 list \<times> u8 list) list \<times> u8 list" where
  "read_props 0 strs b = ([], b)"
| "read_props (Suc n) strs b =
     (if get_u32 0 b = FDT_PROP then
        let len = unat (get_u32 4 b);
            (ps, rest) = read_props n strs (drop (12 + align4 len) b) in
        ((c_string (drop (unat (get_u32 8 b)) strs), take len (drop 12 b)) # ps, rest)
      else ([], b))"

fun read_node :: "nat \<Rightarrow> u8 list \<Rightarrow> u8 list \<Rightarrow> (dt_node \<times> u8 list) option"
  and read_children :: "nat \<Rightarrow> u8 list \<Rightarrow> u8 list \<Rightarrow> (dt_node list \<times> u8 list) option" where
  "read_node 0 strs b = None"
| "read_node (Suc n) strs b =
     (if get_u32 0 b = FDT_BEGIN_NODE then
        let name = c_string (drop 4 b);
            (ps, b) = read_props n strs (drop (4 + align4 (length name + 1)) b) in
        (case read_children n strs b of
           None \<Rightarrow> None
         | Some (cs, b) \<Rightarrow> Some (Dt name ps cs, b))
      else None)"
| "read_children 0 strs b = None"
| "read_children (Suc n) strs b =
     (if get_u32 0 b = FDT_END_NODE then Some ([], drop 4 b)
      else case read_node n strs b of
        None \<Rightarrow> None
      | Some (c, b) \<Rightarrow> (case read_children n strs b of None \<Rightarrow> None | Some (cs, b) \<Rightarrow> Some (c # cs, b)))"

text \<open>The header fields of version 17: offsets and sizes of the two blocks.\<close>

definition read_blob :: "u8 list \<Rightarrow> dt_node option" where
  "read_blob b =
     (let off_struct = unat (get_u32 8 b); off_strings = unat (get_u32 12 b);
          strs = take (unat (get_u32 32 b)) (drop off_strings b);
          blk = take (unat (get_u32 36 b)) (drop off_struct b) in
      if get_u32 0 b \<noteq> 0xd00dfeed \<or> unat (get_u32 4 b) \<noteq> length b then None
      else case read_node (length blk) strs blk of
        Some (t, rest) \<Rightarrow> if get_u32 0 rest = FDT_END \<and> length rest = 4 then Some t else None
      | None \<Rightarrow> None)"

section \<open>Trees\<close>

fun emit_node :: "dt_node \<Rightarrow> fdt \<Rightarrow> fdt" where
  "emit_node (Dt name ps cs) f =
     end_node (fold emit_node cs (fold (\<lambda>(n, d). fdt_prop n d) ps (begin_node name f)))"

section \<open>A built tree reads back\<close>

text \<open>Alignment of the structure block, and every cached name at its offset in the strings block.\<close>

definition fdt_ok :: "fdt \<Rightarrow> bool" where
  "fdt_ok f \<longleftrightarrow> length (fdt_struct f) mod 4 = 0
     \<and> (\<forall>(n, off)\<in>set (fdt_names f). \<exists>pre post. fdt_strings f = pre @ n @ 0 # post \<and> off = of_nat (length pre))"

fun node_wf :: "dt_node \<Rightarrow> bool" where
  "node_wf (Dt name ps cs) \<longleftrightarrow> 0 \<notin> set name \<and> (\<forall>(n, d)\<in>set ps. 0 \<notin> set n \<and> length d < 2 ^ 32) \<and> (\<forall>c\<in>set cs. node_wf c)"

definition enc_prop :: "u32 \<Rightarrow> u8 list \<Rightarrow> u8 list" where
  "enc_prop off data = to_be_bytes 4 FDT_PROP @ to_be_bytes 4 (of_nat (length data) :: u32) @ to_be_bytes 4 off
     @ data @ replicate (pad_len (length data)) 0"

definition enc_begin :: "u8 list \<Rightarrow> u8 list" where
  "enc_begin name = to_be_bytes 4 FDT_BEGIN_NODE @ name @ [0] @ replicate (pad_len (length name + 1)) 0"

lemma length_to_be_bytes [simp]: "length (to_be_bytes n v) = n"
  by (simp add: to_be_bytes_def)

lemma from_to_be_bytes: "LENGTH('a::len) \<le> 8 * n \<Longrightarrow> from_be_bytes (to_be_bytes n (v :: 'a word)) = v"
  by (simp add: from_be_bytes_def to_be_bytes_def from_le_bytes_to_le_bytes)

lemma get_u32_be [simp]: "get_u32 0 (to_be_bytes 4 v @ rest) = v"
  by (simp add: get_u32_def from_to_be_bytes)

lemma get_u32_skip: "length xs = n \<Longrightarrow> n \<le> i \<Longrightarrow> get_u32 i (xs @ rest) = get_u32 (i - n) rest"
  by (simp add: get_u32_def)

lemma pad_len_add: "m mod 4 = 0 \<Longrightarrow> pad_len (m + n) = pad_len n"
  by (auto simp: pad_len_def)

lemma align_pad: "(n + pad_len n) mod 4 = 0"
proof -
  have "n mod 4 = 0 \<or> n mod 4 = 1 \<or> n mod 4 = 2 \<or> n mod 4 = 3" by linarith
  then have "(n mod 4 + pad_len n) mod 4 = 0" by (auto simp: pad_len_def)
  then show ?thesis by (simp add: mod_add_left_eq)
qed

lemma unat_of_nat_u32: "n < 2 ^ 32 \<Longrightarrow> unat (of_nat n :: u32) = n"
  by (simp add: unat_of_nat take_bit_nat_eq_self)

lemma c_string_at: "0 \<notin> set n \<Longrightarrow> c_string (n @ 0 # post) = n"
  by (auto simp: c_string_def takeWhile_append)

lemma name_offset_ok:
  assumes "fdt_ok f" "0 \<notin> set n" "name_offset n f = (off, f')" "length (fdt_strings f') < 2 ^ 32"
  shows "fdt_ok f'" "fdt_struct f' = fdt_struct f" "prefix (fdt_strings f) (fdt_strings f')"
    "prefix (fdt_strings f') strs \<Longrightarrow> c_string (drop (unat off) strs) = n"
proof -
  have "\<exists>pre post. fdt_strings f' = pre @ n @ 0 # post \<and> off = of_nat (length pre)"
  proof (cases "map_of (fdt_names f) n")
    case None
    with assms(3) show ?thesis
      by (intro exI [of _ "fdt_strings f"] exI [of _ "[]"]) (auto simp: name_offset_def Let_def)
  next
    case (Some o')
    with assms(1,3) show ?thesis by (auto simp: name_offset_def fdt_ok_def dest!: map_of_SomeD)
  qed
  then obtain pre post where p: "fdt_strings f' = pre @ n @ 0 # post" "off = of_nat (length pre)" by blast
  show "fdt_struct f' = fdt_struct f" "prefix (fdt_strings f) (fdt_strings f')"
    using assms(3) by (auto simp: name_offset_def Let_def split: option.splits)
  show "prefix (fdt_strings f') strs \<Longrightarrow> c_string (drop (unat off) strs) = n"
    using p assms(2,4) by (auto simp: prefix_def unat_of_nat_u32 c_string_at)
  show "fdt_ok f'"
  proof (cases "map_of (fdt_names f) n")
    case None
    with assms(3) have f': "f' = f\<lparr>fdt_strings := fdt_strings f @ n @ [0], fdt_names := fdt_names f @ [(n, off)]\<rparr>"
      and off: "off = of_nat (length (fdt_strings f))" by (auto simp: name_offset_def Let_def)
    have "\<exists>pre post. fdt_strings f' = pre @ m @ 0 # post \<and> o' = of_nat (length pre)" if "(m, o') \<in> set (fdt_names f)" for m o'
    proof -
      from assms(1) that obtain pre post where "fdt_strings f = pre @ m @ 0 # post" "o' = of_nat (length pre)"
        by (auto simp: fdt_ok_def)
      then show ?thesis using f' by (intro exI [of _ pre] exI [of _ "post @ n @ [0]"]) simp
    qed
    then show ?thesis using assms(1) p f' off by (auto simp: fdt_ok_def)
  next
    case (Some o')
    with assms(1,3) show ?thesis by (auto simp: name_offset_def)
  qed
qed

lemma fdt_prop_strings: "prefix (fdt_strings f) (fdt_strings (fdt_prop n d f))"
  by (auto simp: fdt_prop_def name_offset_def Let_def fdt_align_def fdt_extend_def fdt_u32_def split: option.splits prod.splits)

lemma begin_node_eq:
  assumes "fdt_ok f"
  shows "begin_node name f = f\<lparr>fdt_struct := fdt_struct f @ enc_begin name\<rparr>" "fdt_ok (begin_node name f)"
proof -
  have m: "length (fdt_struct f) mod 4 = 0" using assms by (simp add: fdt_ok_def)
  then have "pad_len (length (fdt_struct f) + (4 + (length name + 1))) = pad_len (length name + 1)"
    using pad_len_add [of "length (fdt_struct f) + 4" "length name + 1"] by (auto simp: ac_simps)
  then show e: "begin_node name f = f\<lparr>fdt_struct := fdt_struct f @ enc_begin name\<rparr>"
    by (simp add: begin_node_def fdt_align_def fdt_extend_def fdt_u32_def enc_begin_def)
  have "length (fdt_struct f @ enc_begin name) mod 4 = 0"
    using m align_pad [of "length name + 1"] unfolding enc_begin_def length_append length_to_be_bytes length_replicate list.size
    by presburger
  then show "fdt_ok (begin_node name f)" using assms by (simp add: e fdt_ok_def)
qed

lemma end_node_eq:
  assumes "fdt_ok f"
  shows "end_node f = f\<lparr>fdt_struct := fdt_struct f @ to_be_bytes 4 FDT_END_NODE\<rparr>" "fdt_ok (end_node f)"
  using assms by (simp_all add: end_node_def fdt_u32_def fdt_extend_def fdt_ok_def)

lemma fdt_prop_eq:
  assumes "fdt_ok f" "0 \<notin> set n" "length (fdt_strings (fdt_prop n d f)) < 2 ^ 32"
  obtains off where "fdt_struct (fdt_prop n d f) = fdt_struct f @ enc_prop off d" "fdt_ok (fdt_prop n d f)"
    "prefix (fdt_strings f) (fdt_strings (fdt_prop n d f))"
    "\<And>strs. prefix (fdt_strings (fdt_prop n d f)) strs \<Longrightarrow> c_string (drop (unat off) strs) = n"
proof -
  obtain off g where g: "name_offset n f = (off, g)" by (cases "name_offset n f")
  have s: "fdt_strings (fdt_prop n d f) = fdt_strings g"
    by (simp add: fdt_prop_def g fdt_align_def fdt_extend_def fdt_u32_def)
  note o' = name_offset_ok [OF assms(1,2) g assms(3) [unfolded s]]
  have m: "length (fdt_struct f) mod 4 = 0" using assms(1) by (simp add: fdt_ok_def)
  have "pad_len (length (fdt_struct f) + (12 + length d)) = pad_len (length d)"
    using m pad_len_add [of "length (fdt_struct f) + 12" "length d"] by (auto simp: ac_simps)
  then have e: "fdt_prop n d f = g\<lparr>fdt_struct := fdt_struct f @ enc_prop off d\<rparr>"
    using o'(2) by (simp add: fdt_prop_def g fdt_align_def fdt_extend_def fdt_u32_def enc_prop_def)
  have "length (fdt_struct f @ enc_prop off d) mod 4 = 0"
    using m align_pad [of "length d"] unfolding enc_prop_def length_append length_to_be_bytes length_replicate
    by presburger
  then have "fdt_ok (fdt_prop n d f)" using o'(1) by (simp add: e fdt_ok_def)
  then show thesis by (intro that [of off]) (use o' s in \<open>simp_all add: e\<close>)
qed

lemma read_prop:
  assumes "length d < 2 ^ 32" "c_string (drop (unat off) strs) = n" "read_props m strs rest = (ps, rest')"
  shows "read_props (Suc m) strs (enc_prop off d @ rest) = ((n, d) # ps, rest')"
  using assms
  by (simp add: enc_prop_def Let_def get_u32_skip unat_of_nat_u32 align4_def)

lemma enc_prop_length: "Suc 0 \<le> length (enc_prop off d)"
  by (simp add: enc_prop_def)

lemma emit_props:
  assumes "fdt_ok f" "\<forall>(n, d)\<in>set ps. 0 \<notin> set n \<and> length d < 2 ^ 32"
    "g = fold (\<lambda>(n, d). fdt_prop n d) ps f" "length (fdt_strings g) < 2 ^ 32"
  shows "\<exists>enc. fdt_struct g = fdt_struct f @ enc \<and> fdt_ok g \<and> prefix (fdt_strings f) (fdt_strings g)
    \<and> (\<forall>strs m rest. prefix (fdt_strings g) strs \<longrightarrow> length enc \<le> m \<longrightarrow> get_u32 0 rest \<noteq> FDT_PROP
        \<longrightarrow> read_props (Suc m) strs (enc @ rest) = (ps, rest))"
  using assms
proof (induction ps arbitrary: f)
  case Nil
  then show ?case by (intro exI [of _ "[]"]) simp
next
  case (Cons p ps)
  obtain n d where p: "p = (n, d)" by (cases p)
  define h where "h = fdt_prop n d f"
  have wf: "0 \<notin> set n" "length d < 2 ^ 32" "\<forall>(n, d)\<in>set ps. 0 \<notin> set n \<and> length d < 2 ^ 32" using Cons.prems p by auto
  have g: "g = fold (\<lambda>(n, d). fdt_prop n d) ps h" using Cons.prems p by (simp add: h_def)
  have hs: "prefix (fdt_strings h) (fdt_strings g)" unfolding g
    by (induction ps arbitrary: h) (auto intro: prefix_order.trans [OF fdt_prop_strings])
  then have "length (fdt_strings h) < 2 ^ 32" using Cons.prems(4) prefix_length_le by fastforce
  then obtain off where o': "fdt_struct h = fdt_struct f @ enc_prop off d" "fdt_ok h" "prefix (fdt_strings f) (fdt_strings h)"
    "\<And>strs. prefix (fdt_strings h) strs \<Longrightarrow> c_string (drop (unat off) strs) = n"
    using fdt_prop_eq [OF Cons.prems(1) wf(1), of d] unfolding h_def by blast
  from Cons.IH [OF o'(2) wf(3) g Cons.prems(4)] obtain enc where e: "fdt_struct g = fdt_struct h @ enc" "fdt_ok g"
    "\<And>strs m rest. prefix (fdt_strings g) strs \<Longrightarrow> length enc \<le> m \<Longrightarrow> get_u32 0 rest \<noteq> FDT_PROP
        \<Longrightarrow> read_props (Suc m) strs (enc @ rest) = (ps, rest)" by blast
  have "read_props (Suc m) strs ((enc_prop off d @ enc) @ rest) = (p # ps, rest)"
    if t: "prefix (fdt_strings g) strs" "length (enc_prop off d @ enc) \<le> m" "get_u32 0 rest \<noteq> FDT_PROP" for strs m rest
  proof -
    obtain k where k: "m = Suc k" "length enc \<le> k" using t(2) enc_prop_length [of off d] unfolding length_append by (cases m) simp_all
    have "c_string (drop (unat off) strs) = n" using o'(4) hs t(1) prefix_order.trans by blast
    then show ?thesis using read_prop [OF wf(2) _ e(3)] t(1,3) k p by simp
  qed
  then show ?case using o'(1,3) e(1,2) hs prefix_order.trans by (intro exI [of _ "enc_prop off d @ enc"]) auto
qed

text \<open>What emitting a node promises: bytes that read back as it before any later addition to the strings block.\<close>

definition emits :: "fdt \<Rightarrow> fdt \<Rightarrow> u8 list \<Rightarrow> bool" where
  "emits f g enc \<longleftrightarrow> fdt_struct g = fdt_struct f @ enc \<and> fdt_ok g \<and> prefix (fdt_strings f) (fdt_strings g)"

lemma emits_trans: "emits f g xs \<Longrightarrow> emits g h ys \<Longrightarrow> emits f h (xs @ ys)"
  by (auto simp: emits_def intro: prefix_order.trans)

lemma fold_props_strings: "prefix (fdt_strings f) (fdt_strings (fold (\<lambda>(n, d). fdt_prop n d) ps f))"
  by (induction ps arbitrary: f) (auto intro: prefix_order.trans [OF fdt_prop_strings])

lemma emit_strings: "prefix (fdt_strings f) (fdt_strings (emit_node t f))"
proof (induction t arbitrary: f)
  case (Dt name ps cs)
  have "prefix (fdt_strings g) (fdt_strings (fold emit_node cs g))" for g
    using Dt by (induction cs arbitrary: g) (auto intro: prefix_order.trans)
  moreover have "fdt_strings (begin_node name f) = fdt_strings f"
    by (simp add: begin_node_def fdt_align_def fdt_extend_def fdt_u32_def)
  ultimately show ?case
    using prefix_order.trans [OF fold_props_strings]
    by (simp add: end_node_def fdt_extend_def fdt_u32_def) metis
qed

lemma fold_emit_strings: "prefix (fdt_strings f) (fdt_strings (fold emit_node cs f))"
  by (induction cs arbitrary: f) (auto intro: prefix_order.trans [OF emit_strings])

definition reads_back :: "dt_node \<Rightarrow> fdt \<Rightarrow> u8 list \<Rightarrow> bool" where
  "reads_back t g enc \<longleftrightarrow> 0 < length enc \<and> (\<forall>rest. get_u32 0 (enc @ rest) = FDT_BEGIN_NODE) \<and>
     (\<forall>strs m rest. prefix (fdt_strings g) strs \<longrightarrow> length enc \<le> m \<longrightarrow> read_node m strs (enc @ rest) = Some (t, rest))"

lemma emit_children:
  assumes IH: "\<And>c f. c \<in> set cs \<Longrightarrow> fdt_ok f \<Longrightarrow> length (fdt_strings (emit_node c f)) < 2 ^ 32
      \<Longrightarrow> \<exists>enc. emits f (emit_node c f) enc \<and> reads_back c (emit_node c f) enc"
    and "fdt_ok f" "length (fdt_strings (fold emit_node cs f)) < 2 ^ 32"
  shows "\<exists>enc. emits f (fold emit_node cs f) enc
    \<and> (\<forall>rest. get_u32 0 (enc @ to_be_bytes 4 FDT_END_NODE @ rest) \<noteq> FDT_PROP)
    \<and> (\<forall>strs m rest. prefix (fdt_strings (fold emit_node cs f)) strs \<longrightarrow> length enc < m
        \<longrightarrow> read_children m strs (enc @ to_be_bytes 4 FDT_END_NODE @ rest) = Some (cs, rest))"
  using assms
proof (induction cs arbitrary: f)
  case Nil
  have "read_children m strs (to_be_bytes 4 FDT_END_NODE @ rest) = Some ([], rest)" if "0 < m" for m strs rest
    using that by (cases m) simp_all
  then show ?case using Nil by (intro exI [of _ "[]"]) (auto simp: emits_def fdt_tokens)
next
  case (Cons c cs)
  let ?h = "emit_node c f" and ?g = "fold emit_node cs (emit_node c f)"
  have hs: "prefix (fdt_strings ?h) (fdt_strings ?g)" by (rule fold_emit_strings)
  then have "length (fdt_strings ?h) < 2 ^ 32" using Cons.prems(3) prefix_length_le by fastforce
  then obtain e1 where e1: "emits f ?h e1" "reads_back c ?h e1" using Cons.prems(1) [of c f] Cons.prems(2) by auto
  have "\<exists>enc. emits ?h ?g enc
    \<and> (\<forall>rest. get_u32 0 (enc @ to_be_bytes 4 FDT_END_NODE @ rest) \<noteq> FDT_PROP)
    \<and> (\<forall>strs m rest. prefix (fdt_strings ?g) strs \<longrightarrow> length enc < m
        \<longrightarrow> read_children m strs (enc @ to_be_bytes 4 FDT_END_NODE @ rest) = Some (cs, rest))"
    using Cons.prems e1(1) by (intro Cons.IH) (auto simp: emits_def)
  then obtain e2 where e2: "emits ?h ?g e2"
    "\<And>strs m rest. prefix (fdt_strings ?g) strs \<Longrightarrow> length e2 < m
        \<Longrightarrow> read_children m strs (e2 @ to_be_bytes 4 FDT_END_NODE @ rest) = Some (cs, rest)" by blast
  have "read_children m strs ((e1 @ e2) @ to_be_bytes 4 FDT_END_NODE @ rest) = Some (c # cs, rest)"
    if t: "prefix (fdt_strings ?g) strs" "length (e1 @ e2) < m" for strs m rest
  proof -
    obtain k where k: "m = Suc k" using t(2) by (cases m) auto
    have "read_node k strs (e1 @ e2 @ to_be_bytes 4 FDT_END_NODE @ rest) = Some (c, e2 @ to_be_bytes 4 FDT_END_NODE @ rest)"
      using e1(2) t k hs prefix_order.trans by (fastforce simp: reads_back_def)
    moreover have "get_u32 0 (e1 @ e2 @ to_be_bytes 4 FDT_END_NODE @ rest) \<noteq> FDT_END_NODE"
      using e1(2) by (simp add: reads_back_def fdt_tokens)
    moreover have "length e2 < k" using t(2) k e1(2) unfolding reads_back_def length_append by linarith
    ultimately show ?thesis using e2(2) [OF t(1)] k by simp
  qed
  moreover have "get_u32 0 ((e1 @ e2) @ to_be_bytes 4 FDT_END_NODE @ rest) \<noteq> FDT_PROP" for rest
    using e1(2) by (simp add: reads_back_def fdt_tokens)
  ultimately show ?case using emits_trans [OF e1(1) e2(1)] by (intro exI [of _ "e1 @ e2"]) simp
qed

lemma emit_node_reads:
  assumes "node_wf t" "fdt_ok f" "length (fdt_strings (emit_node t f)) < 2 ^ 32"
  shows "\<exists>enc. emits f (emit_node t f) enc \<and> reads_back t (emit_node t f) enc"
  using assms
proof (induction t arbitrary: f)
  case (Dt name ps cs)
  let ?b = "begin_node name f"
  define p where "p = fold (\<lambda>(n, d). fdt_prop n d) ps ?b"
  define c where "c = fold emit_node cs p"
  have g: "emit_node (Dt name ps cs) f = end_node c" by (simp add: p_def c_def)
  note b = begin_node_eq [OF Dt.prems(2), of name]
  have cs: "length (fdt_strings c) < 2 ^ 32" using Dt.prems(3) unfolding g by (simp add: end_node_def fdt_extend_def fdt_u32_def)
  then have "length (fdt_strings p) < 2 ^ 32" using fold_emit_strings [of p cs] prefix_length_le unfolding c_def by fastforce
  then obtain e1 where e1: "fdt_struct p = fdt_struct ?b @ e1" "fdt_ok p" "prefix (fdt_strings ?b) (fdt_strings p)"
    "\<And>strs m rest. prefix (fdt_strings p) strs \<Longrightarrow> length e1 \<le> m \<Longrightarrow> get_u32 0 rest \<noteq> FDT_PROP
        \<Longrightarrow> read_props (Suc m) strs (e1 @ rest) = (ps, rest)"
    using emit_props [OF b(2) _ p_def] Dt.prems(1) by auto
  obtain e2 where e2: "emits p c e2" "\<And>rest. get_u32 0 (e2 @ to_be_bytes 4 FDT_END_NODE @ rest) \<noteq> FDT_PROP"
    "\<And>strs m rest. prefix (fdt_strings c) strs \<Longrightarrow> length e2 < m
        \<Longrightarrow> read_children m strs (e2 @ to_be_bytes 4 FDT_END_NODE @ rest) = Some (cs, rest)"
    using emit_children [of cs p] Dt.IH Dt.prems(1) e1(2) cs unfolding c_def by (metis node_wf.simps)
  let ?e = "enc_begin name @ e1 @ e2 @ to_be_bytes 4 FDT_END_NODE"
  have "read_node m strs (?e @ rest) = Some (Dt name ps cs, rest)"
    if t: "prefix (fdt_strings c) strs" "length ?e \<le> m" for strs m rest
  proof -
    obtain k where k: "m = Suc (Suc k)" "length e1 \<le> k" "length e2 < Suc k"
      using t(2) by (cases m; cases "m - 1") (auto simp: enc_begin_def)
    have "c_string (drop 4 (?e @ rest)) = name"
      using Dt.prems(1) by (simp add: enc_begin_def c_string_at)
    moreover have "drop (4 + align4 (length name + 1)) (?e @ rest) = e1 @ e2 @ to_be_bytes 4 FDT_END_NODE @ rest"
      by (simp add: enc_begin_def align4_def)
    moreover have "get_u32 0 (?e @ rest) = FDT_BEGIN_NODE" by (simp add: enc_begin_def)
    moreover have "prefix (fdt_strings p) strs" using e2(1) t(1) prefix_order.trans by (auto simp: emits_def)
    ultimately show ?thesis using e1(4) [OF _ k(2) e2(2)] e2(3) [OF t(1) k(3)]
      by (simp only: k(1) read_node.simps Let_def prod.case option.case if_True simp_thms)
  qed
  moreover have "emits f (end_node c) ?e"
    using b e1(1,3) e2(1) end_node_eq [of c] prefix_order.trans by (auto simp: emits_def)
  ultimately show ?case unfolding g
    by (intro exI [of _ ?e]) (auto simp: reads_back_def enc_begin_def end_node_def fdt_extend_def fdt_u32_def)
qed

lemma length_concat_be: "length (concat (map (to_be_bytes 4) (vs :: u32 list))) = 4 * length vs"
  by (induction vs) auto

lemma get_word:
  "i < length vs \<Longrightarrow> get_u32 (4 * i) (concat (map (to_be_bytes 4) vs) @ rest) = vs ! i"
proof (induction vs arbitrary: i)
  case (Cons v vs)
  show ?case
  proof (cases i)
    case (Suc j)
    then show ?thesis using Cons by (simp add: get_u32_skip)
  qed simp
qed simp

lemma emit_blob_reads:
  assumes "node_wf t" "length (fdt_finish (emit_node t fdt_new)) < 2 ^ 32"
  shows "read_blob (fdt_finish (emit_node t fdt_new)) = Some t"
proof -
  let ?g = "emit_node t fdt_new"
  let ?st = "fdt_struct ?g @ to_be_bytes 4 FDT_END" and ?ss = "fdt_strings ?g"
  define hs :: "u32 list" where "hs = [0xd00dfeed, of_nat (56 + length ?st + length ?ss), 56, of_nat (56 + length ?st), 40, 17, 16, 0,
    of_nat (length ?ss), of_nat (length ?st)]"
  have fin: "fdt_finish ?g = concat (map (to_be_bytes 4) hs) @ replicate 16 0 @ ?st @ ?ss"
    by (simp add: fdt_finish_def Let_def fdt_u32_def fdt_extend_def hs_def)
  have len: "length (fdt_finish ?g) = 56 + length ?st + length ?ss"
    unfolding fin length_append length_concat_be by (simp add: hs_def)
  have w: "get_u32 (4 * i) (fdt_finish ?g) = hs ! i" if "i < 10" for i
    unfolding fin using that by (intro get_word) (simp add: hs_def)
  have f: "get_u32 0 (fdt_finish ?g) = 0xd00dfeed" "unat (get_u32 4 (fdt_finish ?g)) = length (fdt_finish ?g)"
    "unat (get_u32 8 (fdt_finish ?g)) = 56" "unat (get_u32 12 (fdt_finish ?g)) = 56 + length ?st"
    "unat (get_u32 32 (fdt_finish ?g)) = length ?ss" "unat (get_u32 36 (fdt_finish ?g)) = length ?st"
    using w [of 0] w [of 1] w [of 2] w [of 3] w [of 8] w [of 9] assms(2) [unfolded len]
    unfolding hs_def len by (simp_all add: unat_of_nat_u32 del: of_nat_add of_nat_numeral)
  have blk: "take (length ?st) (drop 56 (fdt_finish ?g)) = ?st" "take (length ?ss) (drop (56 + length ?st) (fdt_finish ?g)) = ?ss"
    unfolding fin using length_concat_be [of hs] by (simp_all add: hs_def)
  have "fdt_ok fdt_new" by (simp add: fdt_ok_def fdt_new_def)
  moreover have "length ?ss < 2 ^ 32" using assms(2) len by simp
  ultimately obtain enc where e: "fdt_struct ?g = enc" "reads_back t ?g enc"
    using emit_node_reads [OF assms(1), of fdt_new] by (auto simp: emits_def fdt_new_def)
  have "read_node (length ?st) ?ss ?st = Some (t, to_be_bytes 4 FDT_END)"
    using e by (simp add: reads_back_def)
  then show ?thesis
    unfolding read_blob_def Let_def f(3-6) blk using f(1,2) get_u32_be [of FDT_END "[]"] by simp
qed

section \<open>How long the blob is\<close>

fun node_bound :: "dt_node \<Rightarrow> nat" where
  "node_bound (Dt name ps cs) = 12 + length name + (\<Sum>(n, d)\<leftarrow>ps. 16 + length n + length d) + sum_list (map node_bound cs)"

definition fdt_size :: "fdt \<Rightarrow> nat" where
  "fdt_size f = length (fdt_struct f) + length (fdt_strings f)"

lemma pad_len_le: "pad_len n \<le> 3"
  by (simp add: pad_len_def)

lemma fdt_size_prop: "fdt_size (fdt_prop n d f) \<le> fdt_size f + (16 + length n + length d)"
  using pad_len_le [of "length (fdt_struct f) + (12 + length d)"]
  by (auto simp: fdt_size_def fdt_prop_def name_offset_def fdt_u32_def fdt_extend_def fdt_align_def Let_def add_ac split: option.splits)

lemma fdt_size_begin: "fdt_size (begin_node n f) \<le> fdt_size f + (8 + length n)"
  using pad_len_le [of "length (fdt_struct f) + (5 + length n)"]
  by (auto simp: fdt_size_def begin_node_def fdt_u32_def fdt_extend_def fdt_align_def add_ac)

lemma fdt_size_end: "fdt_size (end_node f) = fdt_size f + 4"
  by (simp add: fdt_size_def end_node_def fdt_u32_def fdt_extend_def)

lemma fdt_size_props: "fdt_size (fold (\<lambda>(n, d). fdt_prop n d) ps f) \<le> fdt_size f + (\<Sum>(n, d)\<leftarrow>ps. 16 + length n + length d)"
proof (induction ps arbitrary: f)
  case (Cons p ps)
  obtain n d where p: "p = (n, d)" by fastforce
  show ?case using Cons [of "fdt_prop n d f"] fdt_size_prop [of n d f] p by simp
qed simp

lemma fdt_size_emit: "fdt_size (emit_node t f) \<le> fdt_size f + node_bound t"
proof (induction t arbitrary: f)
  case (Dt name ps cs)
  have cs: "fdt_size (fold emit_node cs g) \<le> fdt_size g + sum_list (map node_bound cs)" for g
    using Dt
  proof (induction cs arbitrary: g)
    case (Cons c cs)
    have "fdt_size (emit_node c g) \<le> fdt_size g + node_bound c" by (rule Cons.prems) simp
    moreover have "fdt_size (fold emit_node cs (emit_node c g)) \<le> fdt_size (emit_node c g) + sum_list (map node_bound cs)"
      by (rule Cons.IH) (use Cons.prems in auto)
    ultimately show ?case by simp
  qed simp
  show ?case
    using cs [of "fold (\<lambda>(n, d). fdt_prop n d) ps (begin_node name f)"] fdt_size_props [of ps "begin_node name f"]
      fdt_size_begin [of name f] by (simp add: fdt_size_end)
qed

lemma fdt_finish_length: "length (fdt_finish (emit_node t fdt_new)) \<le> 60 + node_bound t"
proof -
  have "length (fdt_finish f) = 60 + fdt_size f" for f
    by (simp add: fdt_finish_def fdt_size_def Let_def fdt_u32_def fdt_extend_def)
  then show ?thesis using fdt_size_emit [of t fdt_new] by (simp add: fdt_size_def fdt_new_def)
qed

section \<open>Properties\<close>

text \<open>
  C15: a device tree whose names are free of NUL bytes, built node by node, is a well-formed blob that
  reads back as the tree, name table and padding included, as long as it is below 4 GiB.
\<close>

theorem fdt_reads_back:
  assumes "node_wf t" "length (fdt_finish (emit_node t fdt_new)) < 2 ^ 32"
  shows "read_blob (fdt_finish (emit_node t fdt_new)) = Some t"
  by (rule emit_blob_reads [OF assms])

theorem fdt_reads_back_witness:
  "read_blob (fdt_finish (emit_node (Dt [] [([109], [1, 2, 3])] [Dt [99, 64, 48] [([114], [7])] []]) fdt_new))
   = Some (Dt [] [([109], [1, 2, 3])] [Dt [99, 64, 48] [([114], [7])] []])"
proof (rule fdt_reads_back)
  show "node_wf (Dt [] [([109], [1, 2, 3])] [Dt [99, 64, 48] [([114], [7])] []])"
    by simp
  show "length (fdt_finish (emit_node (Dt [] [([109], [1, 2, 3])] [Dt [99, 64, 48] [([114], [7])] []]) fdt_new)) < 2 ^ 32"
    by (simp add: fdt_finish_def Let_def fdt_new_def begin_node_def end_node_def fdt_prop_def name_offset_def
        fdt_u32_def fdt_extend_def fdt_align_def pad_len_def to_be_bytes_def)
qed

end
