(* ===== verification/Loops.thy ===== *)
theory Loops
  imports Prelude "HOL-Library.While_Combinator"
begin

text \<open>
  Loops with no bound of their own: \<open>loop { .. }\<close> and \<open>while\<close> whose body decides whether to go on. The
  body returns \<open>Inl\<close> the values of the locals for another pass or \<open>Inr\<close> what the loop leaves. A loop
  that never ends does not give control back, which counts as a panic; a rule with a variant shows
  that a loop ends.
\<close>

definition mloop :: "('v \<Rightarrow> ('s, 'e, 'v + 'w) res) \<Rightarrow> 'v \<Rightarrow> ('s, 'e, 'w) res" where
  "mloop body v = (\<lambda>s.
     case while_option (\<lambda>(r, _). case r of Inr (Inl _) \<Rightarrow> True | _ \<Rightarrow> False)
            (\<lambda>(r, s). case r of Inr (Inl v) \<Rightarrow> body v s | _ \<Rightarrow> (r, s)) (Inr (Inl v), s) of
       None \<Rightarrow> (Inl Panic, s)
     | Some (Inl e, t) \<Rightarrow> (Inl e, t)
     | Some (Inr (Inr w), t) \<Rightarrow> (Inr w, t)
     | Some (Inr (Inl _), t) \<Rightarrow> (Inl Panic, t))"

lemma mloop_done:
  "body v s = (Inl e, t) \<Longrightarrow> mloop body v s = (Inl e, t)"
  "body v s = (Inr (Inr w), t) \<Longrightarrow> mloop body v s = (Inr w, t)"
  by (simp_all add: mloop_def while_option_unfold)

lemma mloop_next:
  assumes "body v s = (Inr (Inl v'), t)" "fst (mloop body v' t) \<noteq> Inl Panic"
  shows "mloop body v s = mloop body v' t"
proof -
  let ?w = "while_option (\<lambda>(r, _). case r of Inr (Inl _) \<Rightarrow> True | _ \<Rightarrow> False)
    (\<lambda>(r, s). case r of Inr (Inl v) \<Rightarrow> body v s | _ \<Rightarrow> (r, s))"
  have "?w (Inr (Inl v), s) = ?w (Inr (Inl v'), t)"
    by (subst while_option_unfold) (simp add: assms(1))
  moreover have "?w (Inr (Inl v'), t) \<noteq> None"
  proof
    assume "?w (Inr (Inl v'), t) = None"
    then show False using assms(2) unfolding mloop_def by simp
  qed
  ultimately show ?thesis unfolding mloop_def by (auto split: option.splits)
qed

text \<open>Partial correctness and termination at once: \<open>m\<close> decreases on every further pass.\<close>

lemma mloop_rule:
  fixes m :: "'v \<Rightarrow> 's \<Rightarrow> nat"
  assumes step: "\<And>v s. I v s \<Longrightarrow> (case body v s of
      (Inr (Inl v'), t) \<Rightarrow> I v' t \<and> m v' t < m v s
    | (Inr (Inr w), t) \<Rightarrow> Q w t
    | (Inl (Throw e), t) \<Rightarrow> E t
    | (Inl Panic, t) \<Rightarrow> False)"
  shows "I v s \<Longrightarrow> (case mloop body v s of (Inr w, t) \<Rightarrow> Q w t | (Inl (Throw e), t) \<Rightarrow> E t | (Inl Panic, t) \<Rightarrow> False)"
proof (induction "m v s" arbitrary: v s rule: less_induct)
  case less
  obtain r t where b: "body v s = (r, t)" by fastforce
  show ?case
  proof (cases r)
    case (Inl e)
    then show ?thesis using step [OF less.prems] b mloop_done(1) [of body v s e t] by simp
  next
    case (Inr x)
    show ?thesis
    proof (cases x)
      case (Inl v')
      have n: "I v' t" "m v' t < m v s" using step [OF less.prems] b Inr Inl by simp_all
      have ih: "case mloop body v' t of (Inr w, t) \<Rightarrow> Q w t | (Inl (Throw e), t) \<Rightarrow> E t | (Inl Panic, t) \<Rightarrow> False"
        by (rule less.hyps [OF n(2,1)])
      then have "fst (mloop body v' t) \<noteq> Inl Panic" by (auto split: prod.splits)
      then show ?thesis using mloop_next [of body v s v' t] b Inr Inl ih by simp
    next
      case (Inr w)
      then show ?thesis using step [OF less.prems] b \<open>r = Inr x\<close> mloop_done(2) [of body v s w t] by simp
    qed
  qed
qed

end
