(* ===== verification/VirtMachine.thy ===== *)
theory VirtMachine
  imports VirtBus Dtb Run Loops
begin

text \<open>
  The virt machine, \<open>VirtMachine\<close> of \<open>crates/rv64-system/src/virt.rs\<close>: its device tree, its boot, the
  host-side helpers, the clock, the SBI calls served by the host and the slice drivers. The one-line
  debug dump is left out.
\<close>

section \<open>Device tree\<close>

definition RTC_FREQ :: u64 where "RTC_FREQ = 10000000"
definition KERNEL_OFFSET :: u64 where "KERNEL_OFFSET = 0x200000"

text \<open>\<open>{:x}\<close>.\<close>

fun hex :: "nat \<Rightarrow> string" where
  "hex n = (if n < 16 then [''0123456789abcdef'' ! n] else hex (n div 16) @ [''0123456789abcdef'' ! (n mod 16)])"

declare hex.simps [simp del]

definition unit_name :: "string \<Rightarrow> u64 \<Rightarrow> u8 list" where
  "unit_name s base = utf8 (s @ ''@'' @ hex (unat base))"

definition rng_seed :: "u8 list" where
  "rng_seed = map (\<lambda>i. ucast (drop_bit 13 (of_nat i * 0x9e3779b1 :: u32)) XOR of_nat i * 31) [0..<64]"

type_synonym fdt_ops = "(fdt \<Rightarrow> fdt) list"

definition fdt_chosen :: "u8 list \<Rightarrow> u64 \<Rightarrow> u64 \<Rightarrow> fdt_ops" where
  "fdt_chosen cmdline initrd_start initrd_end =
     [begin_node (utf8 ''chosen''),
      prop_str (utf8 ''bootargs'') cmdline,
      prop_str (utf8 ''stdout-path'') (utf8 ''/soc/serial@10000000''),
      fdt_prop (utf8 ''rng-seed'') rng_seed]
     @ (if initrd_end > initrd_start then
          [fdt_prop (utf8 ''linux,initrd-start'') (to_be_bytes 8 initrd_start),
           fdt_prop (utf8 ''linux,initrd-end'') (to_be_bytes 8 initrd_end)] else [])
     @ [end_node]"

definition fdt_cpus :: fdt_ops where
  "fdt_cpus =
     [begin_node (utf8 ''cpus''),
      prop_u32 (utf8 ''#address-cells'') 1,
      prop_u32 (utf8 ''#size-cells'') 0,
      prop_u32 (utf8 ''timebase-frequency'') (ucast RTC_FREQ),
      begin_node (utf8 ''cpu@0''),
      prop_str (utf8 ''device_type'') (utf8 ''cpu''),
      prop_u32 (utf8 ''reg'') 0,
      prop_str (utf8 ''status'') (utf8 ''okay''),
      prop_str (utf8 ''compatible'') (utf8 ''riscv''),
      prop_str (utf8 ''riscv,isa-base'') (utf8 ''rv64i''),
      prop_strs (utf8 ''riscv,isa-extensions'') (map utf8
        [''i'', ''m'', ''a'', ''f'', ''d'', ''c'', ''v'', ''zicntr'', ''zicsr'', ''zifencei'']),
      prop_str (utf8 ''riscv,isa'') (utf8 ''rv64imafdcv''),
      prop_str (utf8 ''mmu-type'') (utf8 ''riscv,sv48''),
      begin_node (utf8 ''interrupt-controller''),
      prop_u32 (utf8 ''#interrupt-cells'') 1,
      fdt_prop (utf8 ''interrupt-controller'') [],
      prop_str (utf8 ''compatible'') (utf8 ''riscv,cpu-intc''),
      prop_u32 (utf8 ''phandle'') 1,
      end_node, end_node, end_node]"

definition fdt_memory :: "u64 \<Rightarrow> fdt_ops" where
  "fdt_memory ram_size =
     [begin_node (unit_name ''memory'' RAM_BASE),
      prop_str (utf8 ''device_type'') (utf8 ''memory''),
      prop_u64_pair (utf8 ''reg'') RAM_BASE ram_size,
      end_node]"

definition fdt_devices :: fdt_ops where
  "fdt_devices =
     [begin_node (unit_name ''test'' TEST_BASE),
      prop_strs (utf8 ''compatible'') (map utf8 [''sifive,test1'', ''sifive,test0'', ''syscon'']),
      prop_u64_pair (utf8 ''reg'') TEST_BASE 0x1000,
      prop_u32 (utf8 ''phandle'') 5,
      end_node,
      begin_node (utf8 ''poweroff''),
      prop_str (utf8 ''compatible'') (utf8 ''syscon-poweroff''),
      prop_u32 (utf8 ''regmap'') 5,
      prop_u32 (utf8 ''offset'') 0,
      prop_u32 (utf8 ''value'') 0x5555,
      end_node,
      begin_node (utf8 ''reboot''),
      prop_str (utf8 ''compatible'') (utf8 ''syscon-reboot''),
      prop_u32 (utf8 ''regmap'') 5,
      prop_u32 (utf8 ''offset'') 0,
      prop_u32 (utf8 ''value'') 0x7777,
      end_node,
      begin_node (unit_name ''serial'' UART_BASE),
      prop_str (utf8 ''compatible'') (utf8 ''ns16550a''),
      prop_u64_pair (utf8 ''reg'') UART_BASE UART_SIZE,
      prop_u32 (utf8 ''clock-frequency'') 3686400,
      prop_u32s (utf8 ''interrupts-extended'') [2, UART_IRQ],
      end_node,
      begin_node (unit_name ''rtc'' GOLDFISH_RTC_BASE),
      prop_str (utf8 ''compatible'') (utf8 ''google,goldfish-rtc''),
      prop_u64_pair (utf8 ''reg'') GOLDFISH_RTC_BASE GOLDFISH_RTC_SIZE,
      prop_u32s (utf8 ''interrupts-extended'') [2, GOLDFISH_RTC_IRQ],
      end_node,
      begin_node (unit_name ''clint'' CLINT_BASE),
      prop_strs (utf8 ''compatible'') (map utf8 [''sifive,clint0'', ''riscv,clint0'']),
      prop_u64_pair (utf8 ''reg'') CLINT_BASE CLINT_SIZE,
      prop_u32s (utf8 ''interrupts-extended'') [1, 3, 1, 7],
      end_node,
      begin_node (unit_name ''plic'' PLIC_BASE),
      prop_strs (utf8 ''compatible'') (map utf8 [''sifive,plic-1.0.0'', ''riscv,plic0'']),
      prop_u32 (utf8 ''#interrupt-cells'') 1,
      fdt_prop (utf8 ''interrupt-controller'') [],
      prop_u64_pair (utf8 ''reg'') PLIC_BASE PLIC_SIZE,
      prop_u32 (utf8 ''riscv,ndev'') (of_nat (PLIC_SOURCES - 1)),
      prop_u32s (utf8 ''interrupts-extended'') [1, 11, 1, 9],
      prop_u32 (utf8 ''phandle'') 2,
      end_node]"

definition fdt_virtio :: "nat \<Rightarrow> fdt_ops" where
  "fdt_virtio i =
     (let base = VIRTIO_BASE + of_nat i * VIRTIO_SIZE in
      [begin_node (unit_name ''virtio_mmio'' base),
       prop_str (utf8 ''compatible'') (utf8 ''virtio,mmio''),
       prop_u64_pair (utf8 ''reg'') base VIRTIO_SIZE,
       prop_u32s (utf8 ''interrupts-extended'') [2, VIRTIO_IRQ_BASE + of_nat i],
       end_node])"

definition build_virt_fdt :: "u64 \<Rightarrow> u8 list \<Rightarrow> u64 \<Rightarrow> u64 \<Rightarrow> nat \<Rightarrow> u8 list" where
  "build_virt_fdt ram_size cmdline initrd_start initrd_end n_virtio =
     fdt_finish (fold id
       ([begin_node [],
         prop_u32 (utf8 ''#address-cells'') 2,
         prop_u32 (utf8 ''#size-cells'') 2,
         prop_str (utf8 ''compatible'') (utf8 ''riscv-virtio''),
         prop_str (utf8 ''model'') (utf8 ''riscv-virtio,qemu'')]
        @ fdt_chosen cmdline initrd_start initrd_end @ fdt_cpus @ fdt_memory ram_size
        @ [begin_node (utf8 ''soc''),
           prop_u32 (utf8 ''#address-cells'') 2,
           prop_u32 (utf8 ''#size-cells'') 2,
           prop_str (utf8 ''compatible'') (utf8 ''simple-bus''),
           fdt_prop (utf8 ''ranges'') []]
        @ fdt_devices @ concat (map fdt_virtio [0..<n_virtio]) @ [end_node, end_node]) fdt_new)"

section \<open>Boot\<close>

record 'f virt_images =
  vi_opensbi :: bytes
  vi_kernel :: bytes
  vi_cmdline :: bytes
  vi_initrd :: "bytes option"
  vi_disk :: "bytes option"
  vi_fs :: "'f p9_server list"
  vi_external_fs :: "bytes option"
  vi_virtio_console :: bool
  vi_net :: "bytes option"

record 'f virt_machine =
  vm_cpu :: cpu
  vm_bus :: "'f virt_bus"
  insns_per_tick :: u64
  idle_ticks :: u64
  realtime_ticks :: "u64 option"
  vm_power_off :: bool
  vm_dtb :: bytes
  unsupported_sbi :: "(u64 \<times> u64) option"
  sbi_calls :: "nat \<Rightarrow> u64"

definition sat_sub :: "u64 \<Rightarrow> u64 \<Rightarrow> u64" where
  "sat_sub a b = (if b \<le> a then a - b else 0)"

definition sat_add :: "u64 \<Rightarrow> u64 \<Rightarrow> u64" where
  "sat_add a b = (if unat a + unat b < 2 ^ 64 then a + b else NOT 0)"

text \<open>\<open>ram[off..off + bs.len()].copy_from_slice(bs)\<close>; \<open>None\<close> is a panic.\<close>

definition place :: "u64 \<Rightarrow> bytes \<Rightarrow> bytes \<Rightarrow> bytes option" where
  "place off bs ram = set_range ram off (off + of_nat (length bs)) bs"

definition n_virtio :: "'f virt_images \<Rightarrow> nat" where
  "n_virtio im = of_bool (vi_disk im \<noteq> None) + length (vi_fs im) + of_bool (vi_external_fs im \<noteq> None)
     + of_bool (vi_virtio_console im) + of_bool (vi_net im \<noteq> None)"

definition boot_devices :: "'f virt_images \<Rightarrow> 'f virtio_dev list" where
  "boot_devices im =
     (if vi_virtio_console im then [virtio_new (Console [] [] 80 24)] else [])
     @ (case vi_disk im of None \<Rightarrow> [] | Some disk \<Rightarrow> [virtio_new (Block disk)])
     @ map (\<lambda>srv. virtio_new (Fs srv)) (vi_fs im)
     @ (case vi_external_fs im of None \<Rightarrow> [] | Some tag \<Rightarrow> [virtio_new (FsExternal tag [] Map.empty)])
     @ (case vi_net im of None \<Rightarrow> [] | Some mac \<Rightarrow> [virtio_new (Net mac [] [])])"

definition fw_dynamic_info :: "u64 list" where
  "fw_dynamic_info = [0x4942534f, 2, RAM_BASE + KERNEL_OFFSET, 1, 0, 0]"

definition place_info :: "u64 \<Rightarrow> bytes \<Rightarrow> bytes option" where
  "place_info dyn_off ram = fold (\<lambda>(i, v) r. Option.bind r (place (dyn_off + of_nat i * 8) (to_le_bytes 8 v)))
     (enumerate 0 fw_dynamic_info) (Some ram)"

definition boot_cpu :: "bool \<Rightarrow> u64 \<Rightarrow> u64 \<Rightarrow> cpu" where
  "boot_cpu direct_sbi dtb_addr dyn_addr =
     (let c = enable_system 0 cpu_new;
          c = c\<lparr>pcr := (if direct_sbi then RAM_BASE + KERNEL_OFFSET else RAM_BASE),
                xreg := (xreg c)(10 := 0, 11 := dtb_addr, 12 := dyn_addr)\<rparr> in
      if direct_sbi then
        enable_host_sbi (c\<lparr>sys := map_option (\<lambda>s. s\<lparr>mode := Supervisor, medeleg := 0xb109 OR push_bit 2 1,
          mideleg := IRQ_SSIP OR IRQ_STIP OR IRQ_SEIP, mcounteren := 0x7, satp := 0\<rparr>) (sys c)\<rparr>)
      else c)"

text \<open>
  \<open>new_inner\<close>. \<open>ptr\<close> is the address of the RAM buffer; an allocation of more than \<open>isize::MAX\<close>
  bytes panics, and other failures of the allocator are not modelled.
\<close>

definition virt_new_inner :: "i64 \<Rightarrow> u64 \<Rightarrow> 'f virt_images \<Rightarrow> bool \<Rightarrow> 'f virt_machine option" where
  "virt_new_inner ptr ram_size im direct_sbi =
     (if 2 ^ 63 \<le> unat ram_size then None else
      Option.bind (place 0 (vi_opensbi im) (replicate (unat ram_size) 0)) (\<lambda>ram.
      Option.bind (place KERNEL_OFFSET (vi_kernel im) ram) (\<lambda>ram.
      let dtb = build_virt_fdt ram_size (vi_cmdline im) 0 0 (n_virtio im);
          dtb_off = sat_sub (ram_size - 0x200000) (of_nat (length dtb)) AND NOT 0xfff in
      Option.bind (case vi_initrd im of
          None \<Rightarrow> Some (ram, 0, 0, dtb_off)
        | Some ir \<Rightarrow>
            let s = sat_sub dtb_off (of_nat (length ir)) AND NOT 0xfffff in
            Option.bind (place s ir ram) (\<lambda>ram. Some (ram, RAM_BASE + s, RAM_BASE + s + of_nat (length ir), s)))
        (\<lambda>(ram, initrd_start, initrd_end, below).
      let dyn_off = sat_sub below 0x1000 AND NOT 0xfff;
          dtb = build_virt_fdt ram_size (vi_cmdline im) initrd_start initrd_end (n_virtio im) in
      Option.bind (place dtb_off dtb ram) (\<lambda>ram.
      Option.bind (place_info dyn_off ram) (\<lambda>ram.
      Some \<lparr>vm_cpu = boot_cpu direct_sbi (RAM_BASE + dtb_off) (RAM_BASE + dyn_off),
        vm_bus = \<lparr>vb_ram = ram, vb_ram_ptr = ptr, vb_mtime = 0, vb_mtimecmp = NOT 0, vb_msip = False,
          vb_rtc = rtc_new, vb_plic = plic_new, vb_uart = uart_new, vb_virtio = boot_devices im, vb_power_off = False,
          vb_direct_sbi = direct_sbi, vb_jit_pages = replicate ((unat ram_size div 4096 + 63) div 64) 0,
          vb_jit_dirty_pages = []\<rparr>,
        insns_per_tick = 100, idle_ticks = 0, realtime_ticks = None, vm_power_off = False, vm_dtb = dtb,
        unsupported_sbi = None, sbi_calls = (\<lambda>_. 0)\<rparr>))))))"

section \<open>Host side\<close>

text \<open>
  Operations of the first device that satisfies a test: a pure one (\<open>iter_mut().find(..)\<close>), with a
  default when there is none, and one that also sees RAM.
\<close>

type_synonym ('f, 'a) vmm = "('f virt_machine, exn, 'a) res"

definition find_index :: "('a \<Rightarrow> bool) \<Rightarrow> 'a list \<Rightarrow> nat option" where
  "find_index P xs = (let n = length (takeWhile (\<lambda>x. \<not> P x) xs) in if n < length xs then Some n else None)"

definition on_bus :: "('f, 'a) vbm \<Rightarrow> ('f, 'a) vmm" where
  "on_bus m = (\<lambda>s. case m (vm_bus s) of (r, b) \<Rightarrow> (r, s\<lparr>vm_bus := b\<rparr>))"

definition first_dev :: "('f virtio_dev \<Rightarrow> bool) \<Rightarrow> 'a \<Rightarrow> ('f virtio_dev \<Rightarrow> 'a \<times> 'f virtio_dev) \<Rightarrow> 'f virt_bus \<Rightarrow> 'a \<times> 'f virt_bus" where
  "first_dev P z g b = (case find_index P (vb_virtio b) of
     None \<Rightarrow> (z, b)
   | Some i \<Rightarrow> (case g (vb_virtio b ! i) of (a, d) \<Rightarrow> (a, b\<lparr>vb_virtio := (vb_virtio b)[i := d]\<rparr>)))"

definition is_console :: "'f virtio_dev \<Rightarrow> bool" where
  "is_console d = (case vd_backend d of Console _ _ _ _ \<Rightarrow> True | _ \<Rightarrow> False)"

definition is_external :: "'f virtio_dev \<Rightarrow> bool" where
  "is_external d = (case vd_backend d of FsExternal _ _ _ \<Rightarrow> True | _ \<Rightarrow> False)"

definition virt_net_input :: "bytes \<Rightarrow> 'f virt_bus \<Rightarrow> bool \<times> 'f virt_bus" where
  "virt_net_input frame = first_dev (\<lambda>d. device_id d = 1) False (net_input frame)"

definition virt_net_input_capacity :: "'f virt_bus \<Rightarrow> nat" where
  "virt_net_input_capacity b = fst (first_dev (\<lambda>d. device_id d = 1) 0 (\<lambda>d. (net_input_capacity d, d)) b)"

definition virt_net_take_output :: "'f virt_bus \<Rightarrow> bytes list \<times> 'f virt_bus" where
  "virt_net_take_output = first_dev (\<lambda>d. device_id d = 1) [] net_take_output"

text \<open>\<open>find_map\<close>: the first device that has a request gives it up.\<close>

definition virt_fs_external_take_request :: "'f virt_bus \<Rightarrow> bytes option \<times> 'f virt_bus" where
  "virt_fs_external_take_request = first_dev (\<lambda>d. fst (fs_external_take_request d) \<noteq> None) None fs_external_take_request"

definition virt_fs_external_reply :: "bytes \<Rightarrow> ('f, bool) vbm" where
  "virt_fs_external_reply bs = mbind (mget (\<lambda>b. find_index is_external (vb_virtio b))) (\<lambda>r. case r of
     None \<Rightarrow> mret False
   | Some i \<Rightarrow> virt_dev_ram i (fs_external_reply bs RAM_BASE))"

definition virtio_console_input :: "'f fs_ops \<Rightarrow> bytes \<Rightarrow> ('f, unit) vbm" where
  "virtio_console_input F bs = mbind (mget (\<lambda>b. find_index is_console (vb_virtio b))) (\<lambda>r. case r of
     None \<Rightarrow> mret ()
   | Some i \<Rightarrow> mbind (virt_dev i (mmod (console_input bs))) (\<lambda>_. virt_dev_ram i (process F RAM_BASE 0)))"

definition virtio_console_resize :: "u16 \<Rightarrow> u16 \<Rightarrow> ('f, unit) vbm" where
  "virtio_console_resize w h = mbind (mget (\<lambda>b. find_index is_console (vb_virtio b))) (\<lambda>r. case r of
     None \<Rightarrow> mret ()
   | Some i \<Rightarrow> mbind (virt_dev i (mmod (console_resize w h))) (\<lambda>_. mmod refresh_plic))"

definition virtio_console_take_output :: "'f virt_bus \<Rightarrow> bytes \<times> 'f virt_bus" where
  "virtio_console_take_output = first_dev is_console [] console_take_output"

definition set_rtc_unix_ns :: "u64 \<Rightarrow> 'f virt_machine \<Rightarrow> 'f virt_machine" where
  "set_rtc_unix_ns ns m = m\<lparr>vm_bus := (vm_bus m)\<lparr>vb_rtc := set_host_time_ns ns (vb_rtc (vm_bus m))\<rparr>\<rparr>"

definition advance_realtime_ns :: "u64 \<Rightarrow> 'f virt_machine \<Rightarrow> 'f virt_machine" where
  "advance_realtime_ns ns m =
     (let ticks = ucast ((ucast ns * ucast RTC_FREQ :: u128) div 1000000000) in
      m\<lparr>realtime_ticks := Some (sat_add (case realtime_ticks m of None \<Rightarrow> 0 | Some t \<Rightarrow> t) ticks)\<rparr>)"

section \<open>Clock\<close>

text \<open>The timer line that the host drives for a kernel booted without firmware.\<close>

definition set_stip :: "bool \<Rightarrow> sys_csrs \<Rightarrow> sys_csrs" where
  "set_stip on s = s\<lparr>mip := (if on then mip s OR IRQ_STIP else mip s AND NOT IRQ_STIP)\<rparr>"

definition sync_clock :: "'f virt_machine \<Rightarrow> 'f virt_machine" where
  "sync_clock m =
     (let c = vm_cpu m; b = vm_bus m;
          instruction_time = insn_count c div insns_per_tick m + idle_ticks m;
          now = (case realtime_ticks m of Some wall \<Rightarrow> max (vb_mtime b) wall | None \<Rightarrow> instruction_time);
          offset = sat_sub now (insn_count c div insns_per_tick m);
          tick = (\<lambda>s. s\<lparr>mtime := now\<rparr>);
          line = (\<lambda>s. if vb_direct_sbi b then set_stip (vb_mtimecmp b \<le> now) s else s);
          scale = (\<lambda>s. s\<lparr>time_scale := insns_per_tick m,
            time_offset := (if realtime_ticks m \<noteq> None then max (time_offset s) offset else offset)\<rparr>) in
      m\<lparr>vm_bus := b\<lparr>vb_mtime := now\<rparr>, vm_cpu := c\<lparr>sys := map_option (\<lambda>s. scale (line (tick s))) (sys c)\<rparr>\<rparr>)"

definition sync_devices :: "('f, unit) vmm" where
  "sync_devices = mbind (mget insns_per_tick) (\<lambda>n. if n = 0 then panic else mmod sync_clock)"

section \<open>SBI calls\<close>

definition SBI_BASE :: u64 where "SBI_BASE = 0x10"
definition SBI_TIME :: u64 where "SBI_TIME = 0x54494d45"
definition SBI_IPI :: u64 where "SBI_IPI = 0x00735049"
definition SBI_RFENCE :: u64 where "SBI_RFENCE = 0x52464e43"
definition SBI_HSM :: u64 where "SBI_HSM = 0x48534d"
definition SBI_SRST :: u64 where "SBI_SRST = 0x53525354"

lemmas sbi_exts = SBI_BASE_def SBI_TIME_def SBI_IPI_def SBI_RFENCE_def SBI_HSM_def SBI_SRST_def

definition sbi_bucket :: "u64 \<Rightarrow> nat" where
  "sbi_bucket ext = (if ext = SBI_BASE then 1 else if ext = SBI_TIME then 2 else if ext = SBI_IPI then 3
     else if ext = SBI_RFENCE then 4 else if ext = SBI_HSM then 5 else if ext = SBI_SRST then 6 else 7)"

definition sbi_set_timer :: "u64 \<Rightarrow> 'f virt_machine \<Rightarrow> 'f virt_machine" where
  "sbi_set_timer t m =
     m\<lparr>vm_bus := (vm_bus m)\<lparr>vb_mtimecmp := t\<rparr>,
       vm_cpu := (vm_cpu m)\<lparr>sys := map_option (set_stip (t \<le> vb_mtime (vm_bus m))) (sys (vm_cpu m))\<rparr>\<rparr>"

definition sbi_power_off :: "'f virt_machine \<Rightarrow> 'f virt_machine" where
  "sbi_power_off m = m\<lparr>vm_bus := (vm_bus m)\<lparr>vb_power_off := True\<rparr>, vm_power_off := True\<rparr>"

text \<open>The error, the value and the machine after the call.\<close>

definition sbi_call :: "u64 \<Rightarrow> u64 \<Rightarrow> u64 \<Rightarrow> u64 \<Rightarrow> 'f virt_machine \<Rightarrow> u64 \<times> u64 \<times> 'f virt_machine" where
  "sbi_call ext fn arg0 arg1 m =
     (let not_supported = - 2; invalid_param = - 3; already_started = - 7 in
      if ext = SBI_BASE \<and> fn = 0 then (0, push_bit 24 2, m)
      else if ext = SBI_BASE \<and> fn = 1 then (0, 0x52563634, m)
      else if ext = SBI_BASE \<and> fn = 2 then (0, 1, m)
      else if ext = SBI_BASE \<and> fn = 3 then
        (0, of_flag (arg0 \<in> {SBI_BASE, SBI_TIME, SBI_IPI, SBI_RFENCE, SBI_HSM, SBI_SRST}), m)
      else if ext = SBI_BASE \<and> fn \<in> {4, 5} then (0, 0, m)
      else if ext = SBI_BASE \<and> fn = 6 then (0, 1, m)
      else if ext = SBI_TIME \<and> fn = 0 then (0, 0, sbi_set_timer arg0 m)
      else if ext = SBI_IPI \<and> fn = 0 then (if arg1 \<noteq> 0 \<and> arg1 \<noteq> NOT 0 then invalid_param else 0, 0, m)
      else if ext = SBI_RFENCE \<and> fn \<le> 6 then (0, 0, m)
      else if ext = SBI_HSM \<and> fn = 0 then (already_started, 0, m)
      else if ext = SBI_HSM \<and> fn = 1 then (invalid_param, 0, m)
      else if ext = SBI_HSM \<and> fn = 2 \<and> arg0 = 0 then (0, 0, m)
      else if ext = SBI_HSM \<and> fn = 2 then (invalid_param, 0, m)
      else if ext = SBI_HSM \<and> fn = 3 then (not_supported, 0, m)
      else if ext = SBI_SRST \<and> fn = 0 \<and> arg0 \<le> 2 then (0, 0, sbi_power_off m)
      else if ext = SBI_SRST \<and> fn = 0 then (invalid_param, 0, m)
      else if ext = 0 then (0, 0, sbi_set_timer arg0 m)
      else if ext = 1 then (0, 0, m\<lparr>vm_bus := (vm_bus m)\<lparr>vb_uart := uart_write 0 (ucast arg0) (vb_uart (vm_bus m))\<rparr>\<rparr>)
      else if ext = 2 then (0, NOT 0, m)
      else if 3 \<le> ext \<and> ext \<le> 7 then (0, 0, m)
      else if ext = 8 then (0, 0, sbi_power_off m)
      else (not_supported, 0, m\<lparr>unsupported_sbi := Some (ext, fn)\<rparr>))"

definition service_sbi :: "'f virt_machine \<Rightarrow> 'f virt_machine" where
  "service_sbi m =
     (let x = xreg (vm_cpu m);
          n = sbi_calls m; n = n(0 := n 0 + 1); n = n(sbi_bucket (x 17) := n (sbi_bucket (x 17)) + 1);
          (err, val, m) = sbi_call (x 17) (x 16) (x 10) (x 11) (m\<lparr>sbi_calls := n\<rparr>) in
      m\<lparr>vm_cpu := (vm_cpu m)\<lparr>xreg := (xreg (vm_cpu m))(10 := err, 11 := val)\<rparr>\<rparr>)"

section \<open>Slices\<close>

text \<open>
  The slice drivers act on the machine and on the state \<open>'k\<close> of the host's closures. \<open>on_hart\<close> runs
  the hart on the bus; \<open>with_local\<close> adds a local variable that a closure captures.
\<close>

type_synonym ('k, 'f, 'a) slm = "('k \<times> 'f virt_machine, exn, 'a) res"

definition on_machine :: "('f, 'a) vmm \<Rightarrow> ('k, 'f, 'a) slm" where
  "on_machine m = (\<lambda>(k, s). case m s of (r, s) \<Rightarrow> (r, k, s))"

definition on_hart :: "('k, 'f virt_bus, 'a) runm \<Rightarrow> ('k, 'f, 'a) slm" where
  "on_hart m = (\<lambda>(k, s). case m (k, vm_cpu s, vm_bus s) of (r, k, c, b) \<Rightarrow> (r, k, s\<lparr>vm_cpu := c, vm_bus := b\<rparr>))"

definition with_local :: "'l \<Rightarrow> ('l \<times> 'k, 'f, 'a) slm \<Rightarrow> ('k, 'f, 'a \<times> 'l) slm" where
  "with_local l m = (\<lambda>(k, s). case m ((l, k), s) of
     (Inr a, (l, k), s) \<Rightarrow> (Inr (a, l), k, s)
   | (Inl e, (_, k), s) \<Rightarrow> (Inl e, k, s))"

definition tell :: "('k \<Rightarrow> 'k) \<Rightarrow> ('k, 'f, unit) slm" where
  "tell g = mmod (\<lambda>(k, s). (g k, s))"

definition ask :: "('k \<Rightarrow> 'a \<times> 'k) \<Rightarrow> ('k, 'f, 'a) slm" where
  "ask g = (\<lambda>(k, s). case g k of (a, k) \<Rightarrow> (Inr a, k, s))"

definition look :: "('f virt_machine \<Rightarrow> 'a) \<Rightarrow> ('k, 'f, 'a) slm" where
  "look g = mget (\<lambda>(_, s). g s)"

definition icount :: "('k, 'f, u64) slm" where
  "icount = look (\<lambda>m. insn_count (vm_cpu m))"

text \<open>What every driver does before its loop and after it.\<close>

definition start_slice :: "'f fs_ops \<Rightarrow> ('k, 'f, u64) slm" where
  "start_slice F =
     mbind icount (\<lambda>start.
     mbind (on_machine (on_bus (poll_virtio F))) (\<lambda>_.
     mbind (on_machine sync_devices) (\<lambda>_. mret start)))"

definition idle_forward :: "'f virt_machine \<Rightarrow> 'f virt_machine" where
  "idle_forward m =
     (let next = vb_mtimecmp (vm_bus m) in
      if realtime_ticks m = None \<and> next \<noteq> NOT 0 \<and> next > vb_mtime (vm_bus m)
      then m\<lparr>idle_ticks := idle_ticks m + (next - vb_mtime (vm_bus m))\<rparr> else m)"

definition end_slice :: "u64 \<Rightarrow> stop_reason \<Rightarrow> ('k, 'f, u64) slm" where
  "end_slice start stop =
     mbind (if stop = Wfi then on_machine (mmod idle_forward) else mret ()) (\<lambda>_.
     mbind (on_machine sync_devices) (\<lambda>_.
     mbind (on_machine (mmod (\<lambda>m. m\<lparr>vm_power_off := vb_power_off (vm_bus m)\<rparr>))) (\<lambda>_.
     mbind icount (\<lambda>n. mret (n - start)))))"

text \<open>
  An environment call that the host answers, after a run that stopped with \<open>stop\<close>: whether it was one,
  and whether the loop goes on.
\<close>

definition serve_ecall :: "stop_reason \<Rightarrow> ('k, 'f, bool \<times> bool) slm" where
  "serve_ecall stop =
     mbind (look (\<lambda>m. stop = Ecall \<and> vb_direct_sbi (vm_bus m))) (\<lambda>host.
     if host then
       mbind (on_machine (mmod service_sbi)) (\<lambda>_.
       mbind (look (\<lambda>m. unsupported_sbi m \<noteq> None)) (\<lambda>bad.
       if bad then mbind (on_machine (mmod (\<lambda>m. m\<lparr>vm_power_off := True\<rparr>))) (\<lambda>_. mret (True, False))
       else mret (True, True)))
     else mret (False, True))"

text \<open>The loop of \<open>run_slice\<close>, \<open>run_slice_integrated\<close> and \<open>run_slice_traced\<close>, which differ in the hart's driver.\<close>

definition slice_pass :: "(u64 \<Rightarrow> ('k, 'f, stop_reason) slm) \<Rightarrow> u64 \<times> stop_reason \<Rightarrow> ('k, 'f, (u64 \<times> stop_reason) + stop_reason) slm" where
  "slice_pass drive = (\<lambda>(remaining, stop).
     mbind (look vm_power_off) (\<lambda>off.
     if remaining = 0 \<or> off then mret (Inr stop)
     else
       mbind icount (\<lambda>before.
       mbind (drive remaining) (\<lambda>stop.
       mbind icount (\<lambda>now.
       mbind (serve_ecall stop) (\<lambda>(host, go).
       mret (if host \<and> go then Inl (sat_sub remaining (now - before), stop) else Inr stop)))))))"

definition slice_with :: "'f fs_ops \<Rightarrow> (u64 \<Rightarrow> ('k, 'f, stop_reason) slm) \<Rightarrow> u64 \<Rightarrow> ('k, 'f, u64) slm" where
  "slice_with F drive max_insns =
     mbind (start_slice F) (\<lambda>start.
     mbind (mloop (slice_pass drive) (max_insns, Budget)) (end_slice start))"

definition virt_run_slice :: "'f fs_ops \<Rightarrow> u64 \<Rightarrow> ('k, 'f, u64) slm" where
  "virt_run_slice F = slice_with F (\<lambda>n. on_hart (onhart (run (virt_bus_ops F) n)))"

text \<open>A driver whose closures have no state of their own.\<close>

definition no_closure :: "(unit, 'b, 'a) runm \<Rightarrow> ('k, 'b, 'a) runm" where
  "no_closure m = (\<lambda>(k, c, b). case m ((), c, b) of (r, _, c, b) \<Rightarrow> (r, k, c, b))"

definition virt_run_slice_integrated :: "'f fs_ops \<Rightarrow> u64 \<Rightarrow> ('k, 'f, u64) slm" where
  "virt_run_slice_integrated F = slice_with F (\<lambda>n. on_hart (no_closure (run_integrated_scalar (virt_bus_ops F) n)))"

definition virt_run_slice_traced :: "'f fs_ops \<Rightarrow> (instruction_trace \<Rightarrow> 'k \<Rightarrow> 'k) \<Rightarrow> u64 \<Rightarrow> ('k, 'f, u64) slm" where
  "virt_run_slice_traced F trace = slice_with F (\<lambda>n. on_hart (run_traced (virt_bus_ops F) n trace))"

text \<open>
  The sampling drivers. \<open>drive\<close> gives the stop reason, whether a generated entry was reached, and the
  first control-flow entry seen. \<open>sample\<close> is the host's closure.
\<close>

type_synonym 'k sampler = "u64 \<Rightarrow> u64 \<Rightarrow> u64 \<Rightarrow> u8 \<Rightarrow> u64 \<Rightarrow> bool \<Rightarrow> 'k \<Rightarrow> 'k"
type_synonym entry = "u64 \<times> u64 \<times> u64 \<times> u8"

definition sampled_pass :: "'f fs_ops \<Rightarrow> u64 \<Rightarrow> u64 \<Rightarrow> 'k sampler \<Rightarrow> compiled_entry_map \<Rightarrow>
    (u64 \<Rightarrow> ('k, 'f, stop_reason \<times> bool \<times> entry option) slm) \<Rightarrow>
    u64 \<times> stop_reason \<times> bool \<Rightarrow> ('k, 'f, (u64 \<times> stop_reason \<times> bool) + stop_reason) slm" where
  "sampled_pass F start quantum sample compiled drive = (\<lambda>(remaining, reason, first).
     mbind (look vm_power_off) (\<lambda>off.
     mbind (look (\<lambda>m. pcr (vm_cpu m))) (\<lambda>pc.
     if remaining = 0 \<or> off then mret (Inr reason)
     else if \<not> first \<and> contains compiled pc then mret (Inr reason)
     else
       mbind (on_hart (onhart (jit_probe_fetch (virt_bus_ops F) pc))) (\<lambda>pa.
       mbind (look (\<lambda>m. satp_mode (vm_cpu m))) (\<lambda>(sa, md).
       mbind icount (\<lambda>before.
       mbind (drive (min remaining (max quantum 1))) (\<lambda>(reason, reached, entry).
       mbind icount (\<lambda>now.
       let ran = now - before in
       mbind (if ran \<noteq> 0 then
           mbind (case pa of None \<Rightarrow> mret () | Some pa \<Rightarrow> tell (sample pc pa sa md ran False)) (\<lambda>_.
           case entry of None \<Rightarrow> mret ()
           | Some (epc, epa, esatp, emode) \<Rightarrow> tell (sample epc epa esatp emode 0 True))
         else mret ()) (\<lambda>_.
       mbind (serve_ecall reason) (\<lambda>(host, go).
       if \<not> go \<or> (\<not> host \<and> reason \<noteq> Budget) \<or> ran = 0 \<or> reached then mret (Inr reason)
       else
         mbind (if (now - start) AND 2047 = 0 then on_machine sync_devices else mret ()) (\<lambda>_.
         mret (Inl (sat_sub remaining ran, reason, False)))))))))))))"

definition sampled_slice :: "'f fs_ops \<Rightarrow> u64 \<Rightarrow> u64 \<Rightarrow> 'k sampler \<Rightarrow> compiled_entry_map \<Rightarrow>
    (u64 \<Rightarrow> ('k, 'f, stop_reason \<times> bool \<times> entry option) slm) \<Rightarrow> ('k, 'f, u64 \<times> bool) slm" where
  "sampled_slice F max_insns quantum sample compiled drive =
     mbind (start_slice F) (\<lambda>start.
     mbind (mloop (sampled_pass F start quantum sample compiled drive) (max_insns, Budget, True)) (\<lambda>reason.
     mbind (end_slice start reason) (\<lambda>n. mret (n, reason = Wfi))))"

definition run_slice_sampled :: "'f fs_ops \<Rightarrow> u64 \<Rightarrow> u64 \<Rightarrow> 'k sampler \<Rightarrow> compiled_entry_map \<Rightarrow> ('k, 'f, u64 \<times> bool) slm" where
  "run_slice_sampled F max_insns quantum sample compiled =
     sampled_slice F max_insns quantum sample compiled (\<lambda>n.
       mbind (on_hart (no_closure (run_integrated_scalar (virt_bus_ops F) n))) (\<lambda>r. mret (r, False, None)))"

definition run_slice_sampled_until :: "'f fs_ops \<Rightarrow> u64 \<Rightarrow> u64 \<Rightarrow> 'k sampler \<Rightarrow> compiled_entry_map \<Rightarrow> bool \<Rightarrow>
    ('k, 'f, u64 \<times> bool) slm" where
  "run_slice_sampled_until F max_insns quantum sample compiled control_entries =
     sampled_slice F max_insns quantum sample compiled (\<lambda>n.
       let stop_at = (\<lambda>pc ((reached, entry), k). (contains compiled pc, (contains compiled pc, entry), k));
           observe_entry = (\<lambda>pc pa sa md ((reached, entry), k). ((reached, if entry = None then Some (pc, pa, sa, md) else entry), k)) in
       mbind (with_local (False, None)
           (on_hart (if control_entries
              then run_integrated_scalar_until_observed (virt_bus_ops F) n stop_at observe_entry
              else run_integrated_scalar_until (virt_bus_ops F) n stop_at))) (\<lambda>(r, reached, entry).
       mret (r, reached, entry)))"

text \<open>The budget of one run of the two drivers that stop at every 64th instruction of the slice.\<close>

definition run_budget :: "u64 \<Rightarrow> u64 \<Rightarrow> u64" where
  "run_budget max_insns progress = min (max_insns - progress) (64 - (progress AND 63))"

definition until_pass :: "'f fs_ops \<Rightarrow> u64 \<Rightarrow> u64 \<Rightarrow> (u64 \<Rightarrow> 'k \<Rightarrow> bool \<times> 'k) \<Rightarrow> stop_reason \<Rightarrow>
    ('k, 'f, stop_reason + stop_reason) slm" where
  "until_pass F start max_insns compiled stop =
     mbind icount (\<lambda>before.
     mbind (look vm_power_off) (\<lambda>off.
     if \<not> before - start < max_insns \<or> off then mret (Inr stop)
     else
       mbind (with_local False (on_hart (run_integrated_scalar_until (virt_bus_ops F) (run_budget max_insns (before - start))
           (\<lambda>pc (_, k). case compiled pc k of (r, k) \<Rightarrow> (r, r, k))))) (\<lambda>(stop, reached).
       mbind (serve_ecall stop) (\<lambda>(host, go).
       if \<not> go \<or> (\<not> host \<and> stop = Wfi) then mret (Inr stop)
       else
         mbind (look (\<lambda>m. pcr (vm_cpu m))) (\<lambda>pc.
         mbind (if \<not> reached \<and> host then ask (compiled pc) else mret reached) (\<lambda>reached.
         if reached then mret (Inr stop)
         else
           mbind icount (\<lambda>now.
           if now = before then mret (Inr stop)
           else
             mbind (if (now - start) AND 63 = 0 then on_machine sync_devices else mret ()) (\<lambda>_.
             mret (Inl stop)))))))))"

definition virt_run_slice_until :: "'f fs_ops \<Rightarrow> u64 \<Rightarrow> (u64 \<Rightarrow> 'k \<Rightarrow> bool \<times> 'k) \<Rightarrow> ('k, 'f, u64 \<times> bool) slm" where
  "virt_run_slice_until F max_insns compiled =
     mbind (start_slice F) (\<lambda>start.
     mbind (mloop (until_pass F start max_insns compiled) Budget) (\<lambda>stop.
     mbind (end_slice start stop) (\<lambda>n. mret (n, stop = Wfi))))"

text \<open>The first two instructions run one at a time; the second component says whether to go on after them.\<close>

definition bridge_pass :: "'f fs_ops \<Rightarrow> u64 \<Rightarrow> u64 \<Rightarrow> compiled_entry_map \<Rightarrow> stop_reason \<Rightarrow>
    ('k, 'f, stop_reason + stop_reason \<times> bool) slm" where
  "bridge_pass F start max_insns compiled stop =
     mbind icount (\<lambda>before.
     mbind (look vm_power_off) (\<lambda>off.
     if \<not> before - start < min max_insns 2 \<or> off then mret (Inr (stop, True))
     else
       mbind (on_hart (onhart (run (virt_bus_ops F) 1))) (\<lambda>stop.
       mbind (serve_ecall stop) (\<lambda>(host, go).
       if \<not> go \<or> (\<not> host \<and> stop = Wfi) then mret (Inr (stop, False))
       else
         mbind (look (\<lambda>m. pcr (vm_cpu m))) (\<lambda>pc.
         mbind icount (\<lambda>now.
         mret (if contains compiled pc \<or> now = before then Inr (stop, False) else Inl stop)))))))"

definition compiled_pass :: "'f fs_ops \<Rightarrow> u64 \<Rightarrow> u64 \<Rightarrow> compiled_entry_map \<Rightarrow> stop_reason \<Rightarrow>
    ('k, 'f, stop_reason + stop_reason) slm" where
  "compiled_pass F start max_insns compiled stop =
     mbind icount (\<lambda>before.
     mbind (look vm_power_off) (\<lambda>off.
     if \<not> before - start < max_insns \<or> off then mret (Inr stop)
     else
       mbind (on_hart (no_closure (run_integrated_scalar_until_compiled (virt_bus_ops F)
           (run_budget max_insns (before - start)) compiled))) (\<lambda>stop.
       mbind (serve_ecall stop) (\<lambda>(host, go).
       if \<not> go \<or> (\<not> host \<and> stop = Wfi) then mret (Inr stop)
       else
         mbind (look (\<lambda>m. pcr (vm_cpu m))) (\<lambda>pc.
         mbind icount (\<lambda>now.
         if contains compiled pc \<or> now = before then mret (Inr stop)
         else
           mbind (if (now - start) AND 63 = 0 then on_machine sync_devices else mret ()) (\<lambda>_.
           mret (Inl stop))))))))"

definition run_slice_until_compiled :: "'f fs_ops \<Rightarrow> u64 \<Rightarrow> compiled_entry_map \<Rightarrow> ('k, 'f, u64 \<times> bool) slm" where
  "run_slice_until_compiled F max_insns compiled =
     mbind (start_slice F) (\<lambda>start.
     mbind (mloop (bridge_pass F start max_insns compiled) Budget) (\<lambda>(stop, go).
     mbind (if go then mloop (compiled_pass F start max_insns compiled) stop else mret stop) (\<lambda>stop.
     mbind (end_slice start stop) (\<lambda>n. mret (n, stop = Wfi)))))"

end
