(* ===== verification/VirtCorrect.thy ===== *)
theory VirtCorrect
  imports VirtMachine
begin

text \<open>
  Properties of the virt machine: slices end and keep the machine sound, and the clock the guest
  sees agrees with the CLINT.
\<close>

section \<open>Slices\<close>

text \<open>A machine without virtio devices whose hart satisfies its invariant and whose clock has a rate.\<close>

definition machine_ok :: "'f virt_machine \<Rightarrow> bool" where
  "machine_ok m \<longleftrightarrow> hart_inv (\<lambda>_. virt_quiet) True (vm_cpu m, vm_bus m) \<and> insns_per_tick m \<noteq> 0"

lemma sync_clock_ok: "machine_ok m \<Longrightarrow> machine_ok (sync_clock m)"
  by (auto simp: machine_ok_def hart_inv_def virt_quiet_def sync_clock_def set_stip_def Let_def)

lemma sync_clock_count [simp]: "insn_count (vm_cpu (sync_clock m)) = insn_count (vm_cpu m)"
  by (simp add: sync_clock_def Let_def)

lemma sync_clock_power [simp]: "vb_power_off (vm_bus (sync_clock m)) = vb_power_off (vm_bus m)"
  by (simp add: sync_clock_def Let_def)

lemma sync_run: "machine_ok m \<Longrightarrow> on_machine sync_devices (k, m) = (Inr (), k, sync_clock m)"
  by (simp add: machine_ok_def on_machine_def sync_devices_def mbind_def mget_def mmod_def)

lemma start_slice_run:
  assumes "machine_ok m"
  shows "start_slice F (k, m) = (Inr (insn_count (vm_cpu m)), k, sync_clock m)"
proof -
  have "on_machine (on_bus (poll_virtio F)) (k, m) = (Inr (), k, m)"
    using assms by (simp add: machine_ok_def hart_inv_def virt_quiet_def on_machine_def on_bus_def poll_virtio_def mbind_def mget_def mret_def)
  then show ?thesis
    by (simp add: start_slice_def icount_def look_def mbind_def mget_def sync_run [OF assms])
qed

lemma set_timer_ok: "machine_ok m \<Longrightarrow> machine_ok (sbi_set_timer t m)"
  by (auto simp: machine_ok_def hart_inv_def virt_quiet_def sbi_set_timer_def)

lemma if_intro: "P a \<Longrightarrow> P b \<Longrightarrow> P (if c then a else b)"
  by simp

lemma sbi_call_ok:
  assumes "machine_ok m" "sbi_call ext fn a0 a1 m = (e, v, m')"
  shows "machine_ok m' \<and> insn_count (vm_cpu m') = insn_count (vm_cpu m)"
proof -
  define P where "P x \<longleftrightarrow> machine_ok (snd (snd x)) \<and> insn_count (vm_cpu (snd (snd x))) = insn_count (vm_cpu m)" for x :: "u64 \<times> u64 \<times> 'a virt_machine"
  have ok: "machine_ok (sbi_power_off m)" "machine_ok (m\<lparr>unsupported_sbi := u\<rparr>)"
    "machine_ok (m\<lparr>vm_bus := (vm_bus m)\<lparr>vb_uart := x\<rparr>\<rparr>)" for u x
    using assms(1) by (auto simp: machine_ok_def hart_inv_def virt_quiet_def sbi_power_off_def)
  have "P (sbi_call ext fn a0 a1 m)"
    unfolding sbi_call_def Let_def
    by (intro if_intro [where P = P]) (use ok assms(1) set_timer_ok [OF assms(1)] in \<open>simp_all add: P_def sbi_set_timer_def sbi_power_off_def\<close>)
  then show ?thesis by (simp add: P_def assms(2))
qed

lemma service_sbi_ok:
  assumes "machine_ok m"
  shows "machine_ok (service_sbi m) \<and> insn_count (vm_cpu (service_sbi m)) = insn_count (vm_cpu m)"
proof -
  let ?x = "xreg (vm_cpu m)"
  define n where "n = (sbi_calls m)(0 := sbi_calls m 0 + 1)"
  define n' where "n' = n(sbi_bucket (?x 17) := n (sbi_bucket (?x 17)) + 1)"
  obtain e v m' where c: "sbi_call (?x 17) (?x 16) (?x 10) (?x 11) (m\<lparr>sbi_calls := n'\<rparr>) = (e, v, m')"
    by (metis prod.exhaust)
  have "machine_ok (m\<lparr>sbi_calls := n'\<rparr>)" using assms by (simp add: machine_ok_def)
  then have "machine_ok m' \<and> insn_count (vm_cpu m') = insn_count (vm_cpu m)" using sbi_call_ok [OF _ c] by simp
  moreover have "service_sbi m = m'\<lparr>vm_cpu := (vm_cpu m')\<lparr>xreg := (xreg (vm_cpu m'))(10 := e, 11 := v)\<rparr>\<rparr>"
    unfolding service_sbi_def Let_def using c by (simp add: n_def n'_def)
  ultimately show ?thesis by (auto simp: machine_ok_def hart_inv_def)
qed

lemma serve_ecall_run:
  "serve_ecall stop (k, m) =
     (if stop = Ecall \<and> vb_direct_sbi (vm_bus m)
      then if unsupported_sbi (service_sbi m) \<noteq> None
           then (Inr (True, False), k, (service_sbi m)\<lparr>vm_power_off := True\<rparr>)
           else (Inr (True, True), k, service_sbi m)
      else (Inr (False, True), k, m))"
  by (simp add: serve_ecall_def look_def on_machine_def mbind_def mget_def mmod_def mret_def)

text \<open>A run of the hart inside a slice: it returns, and says how many instructions it retired.\<close>

lemma drive_run:
  assumes "machine_ok m"
  obtains stop m' j where "on_hart (onhart (run (virt_bus_ops F) n)) (k, m) = (Inr stop, k, m')" "machine_ok m'"
    "insn_count (vm_cpu m') = insn_count (vm_cpu m) + of_nat j" "j \<le> unat n" "stop = Ecall \<Longrightarrow> 0 < j"
proof -
  let ?B = "virt_bus_ops F" and ?s = "(vm_cpu m, vm_bus m)"
  have s: "hart_inv (\<lambda>k b. k = insn_count (vm_cpu m) \<and> virt_quiet b) True ?s"
    using assms by (simp add: machine_ok_def hart_inv_def)
  obtain r c b where r: "run ?B n ?s = (r, c, b)" by (metis prod.exhaust)
  note h = hoareD [OF virt.run_counts s, of n F, unfolded r]
  obtain stop where stop: "r = Inr stop"
    using h nothrow_run [of ?B n] unfolding nothrow_def by (cases r) (auto split: abort.splits simp: r dest!: spec [of _ "vm_cpu m"] spec [of _ "vm_bus m"])
  then obtain j where j: "j \<le> unat n" "stop = Ecall \<longrightarrow> 0 < j"
    "hart_inv (\<lambda>k b. k = insn_count (vm_cpu m) + of_nat j \<and> virt_quiet b) True (c, b)"
    using h by auto
  have "on_hart (onhart (run ?B n)) (k, m) = (Inr stop, k, m\<lparr>vm_cpu := c, vm_bus := b\<rparr>)"
    using r stop by (simp add: on_hart_def onhart_def)
  moreover have "machine_ok (m\<lparr>vm_cpu := c, vm_bus := b\<rparr>)" "insn_count c = insn_count (vm_cpu m) + of_nat j"
    using j(3) assms by (auto simp: machine_ok_def hart_inv_def)
  ultimately show ?thesis using that j(1,2) by simp
qed

definition slice_inv :: "u64 \<Rightarrow> u64 \<Rightarrow> u64 \<times> stop_reason \<Rightarrow> 'k \<times> 'f virt_machine \<Rightarrow> bool" where
  "slice_inv start max_insns = (\<lambda>(remaining, _) (_, m). machine_ok m \<and>
     (\<exists>j. unat remaining + j \<le> unat max_insns \<and> insn_count (vm_cpu m) = start + of_nat j))"

definition slice_post :: "u64 \<Rightarrow> u64 \<Rightarrow> 'k \<times> 'f virt_machine \<Rightarrow> bool" where
  "slice_post start max_insns = (\<lambda>(_, m). machine_ok m \<and>
     (\<exists>j. j \<le> unat max_insns \<and> insn_count (vm_cpu m) = start + of_nat j))"

lemma machine_ok_power [simp]: "machine_ok (m\<lparr>vm_power_off := x\<rparr>) = machine_ok m"
  by (simp add: machine_ok_def)

lemma slice_pass_inv:
  assumes "slice_inv start max_insns (remaining, stop) (k, m)"
  shows "case slice_pass (\<lambda>n. on_hart (onhart (run (virt_bus_ops F) n))) (remaining, stop) (k, m) of
      (Inr (Inl v), t) \<Rightarrow> slice_inv start max_insns v t \<and> unat (fst v) < unat remaining
    | (Inr (Inr w), t) \<Rightarrow> slice_post start max_insns t
    | (Inl (Throw e), t) \<Rightarrow> False | (Inl Panic, t) \<Rightarrow> False"
proof (cases "remaining = 0 \<or> vm_power_off m")
  case True
  obtain j where "machine_ok m" "unat remaining + j \<le> unat max_insns" "insn_count (vm_cpu m) = start + of_nat j"
    using assms by (auto simp: slice_inv_def)
  then have "slice_post start max_insns (k, m)" by (auto simp: slice_post_def intro!: exI [of _ j])
  then show ?thesis using True
    by (auto simp: slice_pass_def look_def mbind_def mget_def mret_def)
next
  case False
  obtain j where j: "machine_ok m" "unat remaining + j \<le> unat max_insns" "insn_count (vm_cpu m) = start + of_nat j"
    using assms by (auto simp: slice_inv_def)
  obtain stop m' i where d: "on_hart (onhart (run (virt_bus_ops F) remaining)) (k, m) = (Inr stop, k, m')" "machine_ok m'"
    "insn_count (vm_cpu m') = insn_count (vm_cpu m) + of_nat i" "i \<le> unat remaining" "stop = Ecall \<Longrightarrow> 0 < i"
    using drive_run [OF j(1)] by metis
  have i: "unat (of_nat i :: u64) = i" using d(4) unat_less_2p64 [of remaining] by (simp add: unat_of_nat take_bit_nat_eq_self)
  have rem: "unat (sat_sub remaining (of_nat i)) = unat remaining - i"
    using d(4) i by (simp add: sat_sub_def word_le_nat_alt unat_sub)
  have run: "slice_pass (\<lambda>n. on_hart (onhart (run (virt_bus_ops F) n))) (remaining, stop0) (k, m)
      = (case serve_ecall stop (k, m') of
          (Inr (host, go), t) \<Rightarrow> (Inr (if host \<and> go then Inl (sat_sub remaining (of_nat i), stop) else Inr stop), t)
        | (Inl e, t) \<Rightarrow> (Inl e, t))" for stop0
    using False d(1,3) by (simp add: slice_pass_def icount_def look_def mbind_def mget_def mret_def split: prod.splits sum.splits)
  have sv: "machine_ok (service_sbi m')" "insn_count (vm_cpu (service_sbi m')) = start + of_nat (j + i)"
    "insn_count (vm_cpu m') = start + of_nat (j + i)"
    using service_sbi_ok [OF d(2)] d(3) j(3) by simp_all
  have "j + i \<le> unat max_insns" using j(2) d(4) by simp
  then have post: "slice_post start max_insns (k, m')" "slice_post start max_insns (k, (service_sbi m')\<lparr>vm_power_off := True\<rparr>)"
    unfolding slice_post_def using sv d(2) by auto
  have "slice_inv start max_insns (sat_sub remaining (of_nat i), stop) (k, service_sbi m')"
    unfolding slice_inv_def using sv(1,2) j(2) rem d(4) by (auto intro!: exI [of _ "j + i"])
  then show ?thesis
    unfolding run serve_ecall_run using post d(4,5) rem False by auto
qed

lemma slice_pass_step:
  assumes "slice_inv start max_insns v s"
  shows "case slice_pass (\<lambda>n. on_hart (onhart (run (virt_bus_ops F) n))) v s of
      (Inr (Inl v'), t) \<Rightarrow> slice_inv start max_insns v' t \<and> unat (fst v') < unat (fst v)
    | (Inr (Inr w), t) \<Rightarrow> slice_post start max_insns t
    | (Inl (Throw e), t) \<Rightarrow> False | (Inl Panic, t) \<Rightarrow> False"
proof -
  obtain remaining stop k m where v: "v = (remaining, stop)" "s = (k, m)" by (metis prod.exhaust)
  show ?thesis using slice_pass_inv [OF assms [unfolded v], of F] unfolding v fst_conv .
qed

lemma end_slice_run:
  assumes "machine_ok m"
  obtains m' where "end_slice start stop (k, m) = (Inr (insn_count (vm_cpu m) - start), k, m')" "machine_ok m'"
    "vm_power_off m' = vb_power_off (vm_bus m')" "insn_count (vm_cpu m') = insn_count (vm_cpu m)"
proof -
  define m1 where "m1 = (if stop = Wfi then idle_forward m else m)"
  have m1: "machine_ok m1" "insn_count (vm_cpu m1) = insn_count (vm_cpu m)"
    using assms by (auto simp: m1_def idle_forward_def machine_ok_def Let_def)
  let ?m = "(sync_clock m1)\<lparr>vm_power_off := vb_power_off (vm_bus (sync_clock m1))\<rparr>"
  have "(if stop = Wfi then on_machine (mmod idle_forward) else mret ()) (k, m) = (Inr (), k, m1)"
    by (simp add: m1_def on_machine_def mmod_def)
  then have "end_slice start stop (k, m) = (Inr (insn_count (vm_cpu m) - start), k, ?m)"
    by (simp add: end_slice_def mbind_def sync_run [OF m1(1)] on_machine_def [of "mmod _"] mmod_def icount_def look_def mget_def m1(2))
  then show ?thesis using that sync_clock_ok [OF m1(1)] m1(2) by simp
qed

text \<open>
  C39: a slice of a sound virt machine always returns. Sound means: no virtio devices, RAM below
  \<open>2 ^ 63\<close> bytes, a nonzero clock rate, and a system-mode hart with x0 zero, the index of the syscall
  ring below 64 and the vector length at most 128. Whatever the guest does, and whether or not the
  host serves its SBI calls, the loop ends, nothing panics, at most the requested number of
  instructions is retired (the number returned), the machine stays sound, and its power state is
  that of the bus.
\<close>

theorem virt_slice_returns:
  assumes "machine_ok m"
  shows "\<exists>n k' m'. virt_run_slice F max_insns (k, m) = (Inr n, k', m') \<and> machine_ok m' \<and> n \<le> max_insns
    \<and> n = insn_count (vm_cpu m') - insn_count (vm_cpu m) \<and> vm_power_off m' = vb_power_off (vm_bus m')"
proof -
  let ?drive = "\<lambda>n. on_hart (onhart (run (virt_bus_ops F) n))"
  let ?start = "insn_count (vm_cpu m)"
  have "slice_inv ?start max_insns (max_insns, Budget) (k, sync_clock m)"
    using sync_clock_ok [OF assms] by (simp add: slice_inv_def)
  from mloop_rule [where m = "\<lambda>v _. unat (fst v)" and I = "slice_inv ?start max_insns"
      and Q = "\<lambda>_. slice_post ?start max_insns" and E = "\<lambda>_. False", OF slice_pass_step this]
  have "case mloop (slice_pass ?drive) (max_insns, Budget) (k, sync_clock m) of
      (Inr w, t) \<Rightarrow> slice_post ?start max_insns t | (Inl (Throw e), t) \<Rightarrow> False | (Inl Panic, t) \<Rightarrow> False"
    by simp
  then obtain stop k1 m1 where l: "mloop (slice_pass ?drive) (max_insns, Budget) (k, sync_clock m) = (Inr stop, k1, m1)"
    "slice_post ?start max_insns (k1, m1)"
    by (auto split: prod.splits sum.splits abort.splits)
  obtain j where j: "machine_ok m1" "j \<le> unat max_insns" "insn_count (vm_cpu m1) = ?start + of_nat j"
    using l(2) by (auto simp: slice_post_def)
  obtain m2 where e: "end_slice ?start stop (k1, m1) = (Inr (insn_count (vm_cpu m1) - ?start), k1, m2)" "machine_ok m2"
    "vm_power_off m2 = vb_power_off (vm_bus m2)" "insn_count (vm_cpu m2) = insn_count (vm_cpu m1)"
    using end_slice_run [OF j(1)] by metis
  have "virt_run_slice F max_insns (k, m) = (Inr (of_nat j), k1, m2)"
    unfolding virt_run_slice_def slice_with_def using start_slice_run [OF assms, of F k] l(1) e(1) j(3) by (simp add: mbind_def)
  moreover have "of_nat j \<le> max_insns"
    using j(2) unat_less_2p64 [of max_insns] by (simp add: word_le_nat_alt unat_of_nat take_bit_nat_eq_self)
  ultimately show ?thesis using e(2-4) j(3) by simp
qed

definition sample_virt :: "unit virt_machine" where
  "sample_virt = \<lparr>vm_cpu = (boot_cpu True 0 0)\<lparr>insn_count := 500\<rparr>,
     vm_bus = \<lparr>vb_ram = replicate 64 0x73, vb_ram_ptr = 0, vb_mtime = 3, vb_mtimecmp = 7, vb_msip = False, vb_rtc = rtc_new,
       vb_plic = plic_new, vb_uart = uart_new, vb_virtio = [], vb_power_off = False, vb_direct_sbi = True,
       vb_jit_pages = [0], vb_jit_dirty_pages = []\<rparr>,
     insns_per_tick = 100, idle_ticks = 0, realtime_ticks = Some 9, vm_power_off = False, vm_dtb = [],
     unsupported_sbi = None, sbi_calls = (\<lambda>_. 0)\<rparr>"

theorem virt_slice_returns_witness:
  "\<forall>F. \<exists>n k' m'. virt_run_slice F 1000 ((), sample_virt) = (Inr n, k', m') \<and> machine_ok m' \<and> n \<le> 1000"
proof (rule allI)
  fix F :: "unit fs_ops"
  have "machine_ok sample_virt"
    by (simp add: machine_ok_def hart_inv_def virt_quiet_def sample_virt_def boot_cpu_def enable_system_def enable_host_sbi_def
        cpu_new_def vector_default_def Let_def)
  from virt_slice_returns [OF this, of F 1000 "()"]
  show "\<exists>n k' m'. virt_run_slice F 1000 ((), sample_virt) = (Inr n, k', m') \<and> machine_ok m' \<and> n \<le> 1000" by blast
qed

section \<open>The clock\<close>

lemma csr_read_time: "sys c = Some s \<Longrightarrow> csr_read c TIME = Some (rdtime (insn_count c) s)"
  by (simp add: csr_read_def csr_allowed_def FFLAGS_def FRM_def FCSR_def VSTART_def VXSAT_def VXRM_def VCSR_def VL_def
      VTYPE_def VLENB_def CYCLE_def INSTRET_def MCYCLE_def MINSTRET_def TIME_def)

lemma plus_mono_no_wrap: "unat (t :: u64) + unat b < 2 ^ 64 \<Longrightarrow> a \<le> b \<Longrightarrow> t + a \<le> t + b"
  by (subst word_le_nat_alt, subst (1 2) unat_plus_if_size) (auto simp: word_size word_le_nat_alt)

lemma sat_sub_reaches:
  assumes "unat (t :: u64) + unat x < 2 ^ 64"
  shows "now \<le> t + max x (sat_sub now t)"
proof (cases "t \<le> now")
  case True
  then have s: "t + sat_sub now t = now" by (simp add: sat_sub_def)
  show ?thesis
  proof (cases "sat_sub now t \<le> x")
    case True
    then show ?thesis using plus_mono_no_wrap [OF assms True] s by (simp add: max_def)
  next
    case False
    then have "x \<le> sat_sub now t" by simp
    then show ?thesis using s by (simp add: max_def)
  qed
next
  case False
  then have "t + max x (sat_sub now t) = t + x" by (simp add: sat_sub_def max_def)
  moreover have "t \<le> t + x" using plus_mono_no_wrap [OF assms, of 0] by simp
  ultimately show ?thesis using False by simp
qed

lemma sat_sub_offset_fits:
  assumes "unat (t :: u64) + unat x < 2 ^ 64"
  shows "unat t + unat (max x (sat_sub now t)) < 2 ^ 64"
  using assms unat_less_2p64 [of now] by (auto simp: max_def sat_sub_def word_le_nat_alt unat_sub)

text \<open>
  After every synchronisation \<open>rdtime\<close> and the CLINT agree. Counting instructions, the guest reads
  exactly the CLINT time, which is the retired instructions over the rate plus the idle ticks. Following
  the host clock, the CLINT time never runs backwards and is at least the host's, and neither does what
  the guest reads, which is at least the CLINT time. The timer line the host drives for a kernel
  without firmware is up exactly when the deadline is reached.
\<close>

theorem virt_clock:
  assumes "sys (vm_cpu m) = Some s" "insns_per_tick m \<noteq> 0" "t = insn_count (vm_cpu m) div insns_per_tick m"
    "unat t + unat (idle_ticks m) < 2 ^ 64" "unat t + unat (time_offset s) < 2 ^ 64" "m' = sync_clock m"
  shows "(case realtime_ticks m of
      None \<Rightarrow> vb_mtime (vm_bus m') = t + idle_ticks m \<and> csr_read (vm_cpu m') TIME = Some (vb_mtime (vm_bus m'))
    | Some wall \<Rightarrow> vb_mtime (vm_bus m) \<le> vb_mtime (vm_bus m') \<and> wall \<le> vb_mtime (vm_bus m')
      \<and> (\<exists>v. csr_read (vm_cpu m') TIME = Some v \<and> vb_mtime (vm_bus m') \<le> v
          \<and> (time_scale s = insns_per_tick m \<longrightarrow> (\<exists>u. csr_read (vm_cpu m) TIME = Some u \<and> u \<le> v))))
    \<and> (vb_direct_sbi (vm_bus m) \<longrightarrow> (\<exists>s'. sys (vm_cpu m') = Some s'
      \<and> (mip s' AND IRQ_STIP \<noteq> 0 \<longleftrightarrow> vb_mtimecmp (vm_bus m') \<le> vb_mtime (vm_bus m'))))"
proof (rule conjI)
  define now where "now = (case realtime_ticks m of Some wall \<Rightarrow> max (vb_mtime (vm_bus m)) wall | None \<Rightarrow> t + idle_ticks m)"
  define off where "off = (if realtime_ticks m \<noteq> None then max (time_offset s) (sat_sub now t) else sat_sub now t)"
  obtain s' where s': "sys (vm_cpu m') = Some s'" "time_scale s' = insns_per_tick m" "time_offset s' = off"
    "vb_direct_sbi (vm_bus m) \<Longrightarrow> mip s' = mip (set_stip (vb_mtimecmp (vm_bus m) \<le> now) s)"
    using assms(1,3,6) unfolding sync_clock_def Let_def now_def off_def
    by (auto simp: set_stip_def split: option.splits)
  have b: "vb_mtime (vm_bus m') = now" "vb_mtimecmp (vm_bus m') = vb_mtimecmp (vm_bus m)"
    "insn_count (vm_cpu m') = insn_count (vm_cpu m)"
    unfolding assms(6) sync_clock_def now_def assms(3) by (simp_all add: Let_def)
  have rd: "csr_read (vm_cpu m') TIME = Some (t + off)"
    using csr_read_time [OF s'(1)] s'(2,3) assms(2,3) b(3) by (simp add: rdtime_def)
  show "case realtime_ticks m of
      None \<Rightarrow> vb_mtime (vm_bus m') = t + idle_ticks m \<and> csr_read (vm_cpu m') TIME = Some (vb_mtime (vm_bus m'))
    | Some wall \<Rightarrow> vb_mtime (vm_bus m) \<le> vb_mtime (vm_bus m') \<and> wall \<le> vb_mtime (vm_bus m')
      \<and> (\<exists>v. csr_read (vm_cpu m') TIME = Some v \<and> vb_mtime (vm_bus m') \<le> v
          \<and> (time_scale s = insns_per_tick m \<longrightarrow> (\<exists>u. csr_read (vm_cpu m) TIME = Some u \<and> u \<le> v)))"
  proof (cases "realtime_ticks m")
    case None
    have "t \<le> t + idle_ticks m" using plus_mono_no_wrap [OF assms(4), of 0] by simp
    then show ?thesis using None rd b(1) by (simp add: off_def now_def sat_sub_def)
  next
    case (Some wall)
    have o: "off = max (time_offset s) (sat_sub now t)" using Some by (simp add: off_def)
    have "t + time_offset s \<le> t + off"
      using plus_mono_no_wrap [OF sat_sub_offset_fits [OF assms(5), of now], of "time_offset s"] by (simp add: o)
    moreover have "csr_read (vm_cpu m) TIME = Some (t + time_offset s)" if "time_scale s = insns_per_tick m"
      using csr_read_time [OF assms(1)] assms(2,3) that by (simp add: rdtime_def)
    ultimately show ?thesis using Some rd b(1) sat_sub_reaches [OF assms(5), of now] by (auto simp: o now_def)
  qed
  show "vb_direct_sbi (vm_bus m) \<longrightarrow> (\<exists>s'. sys (vm_cpu m') = Some s'
      \<and> (mip s' AND IRQ_STIP \<noteq> 0 \<longleftrightarrow> vb_mtimecmp (vm_bus m') \<le> vb_mtime (vm_bus m')))"
  proof
    assume "vb_direct_sbi (vm_bus m)"
    then have "mip s' = mip (set_stip (vb_mtimecmp (vm_bus m) \<le> now) s)" by (rule s'(4))
    moreover have "(x OR IRQ_STIP) AND IRQ_STIP = IRQ_STIP" "(x AND NOT IRQ_STIP) AND IRQ_STIP = 0" for x :: u64
      by (auto simp: bit_eq_iff bit_simps)
    moreover have "IRQ_STIP \<noteq> 0" by (simp add: IRQ_STIP_def)
    ultimately show "\<exists>s'. sys (vm_cpu m') = Some s'
      \<and> (mip s' AND IRQ_STIP \<noteq> 0 \<longleftrightarrow> vb_mtimecmp (vm_bus m') \<le> vb_mtime (vm_bus m'))"
      using s'(1) b by (auto simp: set_stip_def)
  qed
qed

theorem virt_clock_witness:
  "\<exists>v. csr_read (vm_cpu (sync_clock sample_virt)) TIME = Some v \<and> 9 \<le> v"
proof -
  obtain s where s: "sys (vm_cpu sample_virt) = Some s" "time_offset s = 0"
    by (simp add: sample_virt_def boot_cpu_def enable_system_def enable_host_sbi_def sys_new_def Let_def)
  have m: "realtime_ticks sample_virt = Some 9" "insns_per_tick sample_virt = 100" "idle_ticks sample_virt = 0"
    "insn_count (vm_cpu sample_virt) = 500"
    by (simp_all add: sample_virt_def)
  have "vb_mtime (vm_bus (sync_clock sample_virt)) = 9" by (simp add: sync_clock_def sample_virt_def Let_def)
  then show ?thesis using virt_clock [OF s(1) _ refl _ _ refl] m s(2) by auto
qed

text \<open>A halted hart that counts instructions wakes at its deadline: the skipped ticks reach it.\<close>

lemma idle_reaches_deadline:
  assumes "realtime_ticks m = None" "vb_mtimecmp (vm_bus m) \<noteq> NOT 0" "vb_mtime (vm_bus m) < vb_mtimecmp (vm_bus m)"
    "insns_per_tick m \<noteq> 0" "t = insn_count (vm_cpu m) div insns_per_tick m"
    "vb_mtime (vm_bus m) \<le> t + idle_ticks m" "unat (t + idle_ticks m) + unat (vb_mtimecmp (vm_bus m)) < 2 ^ 64"
  shows "vb_mtimecmp (vm_bus m) \<le> vb_mtime (vm_bus (sync_clock (idle_forward m)))"
proof -
  let ?now = "t + idle_ticks m" and ?c = "vb_mtimecmp (vm_bus m)" and ?m = "vb_mtime (vm_bus m)"
  have "vb_mtime (vm_bus (sync_clock (idle_forward m))) = ?now + (?c - ?m)"
    using assms(1-5) by (simp add: sync_clock_def idle_forward_def Let_def algebra_simps)
  moreover have "?c = ?m + (?c - ?m)" by simp
  moreover have "?m + (?c - ?m) \<le> ?now + (?c - ?m)"
  proof -
    have "unat ?now + unat (?c - ?m) < 2 ^ 64" using assms(3,7) by (simp add: unat_sub word_le_nat_alt word_less_nat_alt)
    then show ?thesis using plus_mono_no_wrap [of "?c - ?m" ?now ?m] assms(6) by (simp add: add.commute)
  qed
  ultimately show ?thesis by metis
qed

end
