(* ===== verification/VirtBoot.thy ===== *)
theory VirtBoot
  imports VirtCorrect
begin

text \<open>
  The boot of the virt machine: the device tree it builds, read back, describes the machine the bus
  decodes, and the guest finds it at the address in \<open>a1\<close>.
\<close>

section \<open>The tree\<close>

definition dt_u32 :: "u32 \<Rightarrow> u8 list" where "dt_u32 v = to_be_bytes 4 v"
definition dt_str :: "u8 list \<Rightarrow> u8 list" where "dt_str s = s @ [0]"
definition dt_strs :: "string list \<Rightarrow> u8 list" where "dt_strs ss = concat (map (\<lambda>s. utf8 s @ [0]) ss)"
definition dt_reg :: "u64 \<Rightarrow> u64 \<Rightarrow> u8 list" where "dt_reg a b = to_be_bytes 8 a @ to_be_bytes 8 b"
definition dt_cells :: "u32 list \<Rightarrow> u8 list" where "dt_cells vs = concat (map (to_be_bytes 4) vs)"

definition tree_chosen :: "u8 list \<Rightarrow> u64 \<Rightarrow> u64 \<Rightarrow> dt_node" where
  "tree_chosen cmdline initrd_start initrd_end = Dt (utf8 ''chosen'')
     ([(utf8 ''bootargs'', dt_str cmdline),
       (utf8 ''stdout-path'', dt_str (utf8 ''/soc/serial@10000000'')),
       (utf8 ''rng-seed'', rng_seed)]
      @ (if initrd_end > initrd_start then
           [(utf8 ''linux,initrd-start'', to_be_bytes 8 initrd_start),
            (utf8 ''linux,initrd-end'', to_be_bytes 8 initrd_end)] else [])) []"

definition tree_cpus :: dt_node where
  "tree_cpus = Dt (utf8 ''cpus'')
     [(utf8 ''#address-cells'', dt_u32 1), (utf8 ''#size-cells'', dt_u32 0),
      (utf8 ''timebase-frequency'', dt_u32 (ucast RTC_FREQ))]
     [Dt (utf8 ''cpu@0'')
       [(utf8 ''device_type'', dt_str (utf8 ''cpu'')), (utf8 ''reg'', dt_u32 0), (utf8 ''status'', dt_str (utf8 ''okay'')),
        (utf8 ''compatible'', dt_str (utf8 ''riscv'')), (utf8 ''riscv,isa-base'', dt_str (utf8 ''rv64i'')),
        (utf8 ''riscv,isa-extensions'', dt_strs
          [''i'', ''m'', ''a'', ''f'', ''d'', ''c'', ''v'', ''zicntr'', ''zicsr'', ''zifencei'']),
        (utf8 ''riscv,isa'', dt_str (utf8 ''rv64imafdcv'')), (utf8 ''mmu-type'', dt_str (utf8 ''riscv,sv48''))]
       [Dt (utf8 ''interrupt-controller'')
         [(utf8 ''#interrupt-cells'', dt_u32 1), (utf8 ''interrupt-controller'', []),
          (utf8 ''compatible'', dt_str (utf8 ''riscv,cpu-intc'')), (utf8 ''phandle'', dt_u32 1)] []]]"

definition tree_memory :: "u64 \<Rightarrow> dt_node" where
  "tree_memory ram_size = Dt (unit_name ''memory'' RAM_BASE)
     [(utf8 ''device_type'', dt_str (utf8 ''memory'')), (utf8 ''reg'', dt_reg RAM_BASE ram_size)] []"

definition tree_devices :: "dt_node list" where
  "tree_devices =
     [Dt (unit_name ''test'' TEST_BASE)
        [(utf8 ''compatible'', dt_strs [''sifive,test1'', ''sifive,test0'', ''syscon'']),
         (utf8 ''reg'', dt_reg TEST_BASE 0x1000), (utf8 ''phandle'', dt_u32 5)] [],
      Dt (utf8 ''poweroff'')
        [(utf8 ''compatible'', dt_str (utf8 ''syscon-poweroff'')), (utf8 ''regmap'', dt_u32 5),
         (utf8 ''offset'', dt_u32 0), (utf8 ''value'', dt_u32 0x5555)] [],
      Dt (utf8 ''reboot'')
        [(utf8 ''compatible'', dt_str (utf8 ''syscon-reboot'')), (utf8 ''regmap'', dt_u32 5),
         (utf8 ''offset'', dt_u32 0), (utf8 ''value'', dt_u32 0x7777)] [],
      Dt (unit_name ''serial'' UART_BASE)
        [(utf8 ''compatible'', dt_str (utf8 ''ns16550a'')), (utf8 ''reg'', dt_reg UART_BASE UART_SIZE),
         (utf8 ''clock-frequency'', dt_u32 3686400), (utf8 ''interrupts-extended'', dt_cells [2, UART_IRQ])] [],
      Dt (unit_name ''rtc'' GOLDFISH_RTC_BASE)
        [(utf8 ''compatible'', dt_str (utf8 ''google,goldfish-rtc'')), (utf8 ''reg'', dt_reg GOLDFISH_RTC_BASE GOLDFISH_RTC_SIZE),
         (utf8 ''interrupts-extended'', dt_cells [2, GOLDFISH_RTC_IRQ])] [],
      Dt (unit_name ''clint'' CLINT_BASE)
        [(utf8 ''compatible'', dt_strs [''sifive,clint0'', ''riscv,clint0'']), (utf8 ''reg'', dt_reg CLINT_BASE CLINT_SIZE),
         (utf8 ''interrupts-extended'', dt_cells [1, 3, 1, 7])] [],
      Dt (unit_name ''plic'' PLIC_BASE)
        [(utf8 ''compatible'', dt_strs [''sifive,plic-1.0.0'', ''riscv,plic0'']), (utf8 ''#interrupt-cells'', dt_u32 1),
         (utf8 ''interrupt-controller'', []), (utf8 ''reg'', dt_reg PLIC_BASE PLIC_SIZE),
         (utf8 ''riscv,ndev'', dt_u32 31), (utf8 ''interrupts-extended'', dt_cells [1, 11, 1, 9]),
         (utf8 ''phandle'', dt_u32 2)] []]"

definition tree_virtio :: "nat \<Rightarrow> dt_node" where
  "tree_virtio i = (let base = VIRTIO_BASE + of_nat i * VIRTIO_SIZE in
     Dt (unit_name ''virtio_mmio'' base)
       [(utf8 ''compatible'', dt_str (utf8 ''virtio,mmio'')), (utf8 ''reg'', dt_reg base VIRTIO_SIZE),
        (utf8 ''interrupts-extended'', dt_cells [2, VIRTIO_IRQ_BASE + of_nat i])] [])"

definition tree_soc :: "nat \<Rightarrow> dt_node" where
  "tree_soc n = Dt (utf8 ''soc'')
     [(utf8 ''#address-cells'', dt_u32 2), (utf8 ''#size-cells'', dt_u32 2), (utf8 ''compatible'', dt_str (utf8 ''simple-bus'')),
      (utf8 ''ranges'', [])] (tree_devices @ map tree_virtio [0..<n])"

definition virt_tree :: "u64 \<Rightarrow> u8 list \<Rightarrow> u64 \<Rightarrow> u64 \<Rightarrow> nat \<Rightarrow> dt_node" where
  "virt_tree ram_size cmdline initrd_start initrd_end n = Dt []
     [(utf8 ''#address-cells'', dt_u32 2), (utf8 ''#size-cells'', dt_u32 2),
      (utf8 ''compatible'', dt_str (utf8 ''riscv-virtio'')), (utf8 ''model'', dt_str (utf8 ''riscv-virtio,qemu''))]
     [tree_chosen cmdline initrd_start initrd_end, tree_cpus, tree_memory ram_size, tree_soc n]"

lemmas dt_data = dt_u32_def dt_str_def dt_strs_def dt_reg_def dt_cells_def
lemmas fdt_props = prop_u32_def prop_u32s_def prop_u64_pair_def prop_str_def prop_strs_def

lemma fold_chosen: "fold id (fdt_chosen cmdline s e) f = emit_node (tree_chosen cmdline s e) f"
  by (simp add: fdt_chosen_def tree_chosen_def fdt_props dt_data)

lemma fold_cpus: "fold id fdt_cpus f = emit_node tree_cpus f"
  by (simp add: fdt_cpus_def tree_cpus_def fdt_props dt_data comp_def)

lemma fold_memory: "fold id (fdt_memory n) f = emit_node (tree_memory n) f"
  by (simp add: fdt_memory_def tree_memory_def fdt_props dt_data)

lemma fold_devices: "fold id fdt_devices f = fold emit_node tree_devices f"
  by (simp add: fdt_devices_def tree_devices_def fdt_props dt_data comp_def PLIC_SOURCES_def)

lemma fold_virtio: "fold id (fdt_virtio i) f = emit_node (tree_virtio i) f"
  by (simp add: fdt_virtio_def tree_virtio_def fdt_props dt_data Let_def)

lemma fold_virtios: "fold id (concat (map fdt_virtio is)) f = fold emit_node (map tree_virtio is) f"
  by (induction "is" arbitrary: f) (simp_all add: fold_virtio)

lemma build_virt_fdt_tree:
  "build_virt_fdt ram_size cmdline s e n = fdt_finish (emit_node (virt_tree ram_size cmdline s e n) fdt_new)"
  unfolding build_virt_fdt_def virt_tree_def tree_soc_def
  by (simp add: fold_chosen fold_cpus fold_memory fold_devices fold_virtios fdt_props dt_data)

section \<open>The tree is well formed and small\<close>

lemma utf8_no_nul: "CHR 0x00 \<notin> set s \<Longrightarrow> 0 \<notin> set (utf8 s)"
proof
  assume "CHR 0x00 \<notin> set s" "0 \<in> set (utf8 s)"
  then obtain c where c: "c \<in> set s" "(of_nat (of_char c) :: u8) = 0" by (auto simp: utf8_def)
  have "of_char c < (256 :: nat)" by simp
  then have "of_char c = (0 :: nat)" using c(2) of_char_mod_256 [of c, where ?'a = nat] by (simp add: word_of_nat_eq_0_iff dvd_eq_mod_eq_0 del: of_char_mod_256)
  then have "c = CHR 0x00" using of_char_eq_iff [of c "CHR 0x00", where ?'a = nat] by simp
  then show False using c(1) \<open>CHR 0x00 \<notin> set s\<close> by simp
qed

lemma hex_no_nul: "CHR 0x00 \<notin> set (hex n)"
proof (induction n rule: hex.induct)
  case (1 n)
  have d: "''0123456789abcdef'' ! k \<noteq> CHR 0x00" if "k < 16" for k
  proof -
    have "\<forall>k<16. ''0123456789abcdef'' ! k \<noteq> CHR 0x00" by (simp add: eval_nat_numeral All_less_Suc)
    then show ?thesis using that by blast
  qed
  show ?case using 1 d [of n] d [of "n mod 16"] by (subst hex.simps) auto
qed

lemma length_hex: "n < 16 ^ Suc k \<Longrightarrow> length (hex n) \<le> Suc k"
proof (induction k arbitrary: n)
  case 0
  then show ?case by (simp add: hex.simps)
next
  case (Suc k)
  show ?case
  proof (cases "n < 16")
    case True
    then show ?thesis by (simp add: hex.simps)
  next
    case False
    have "n div 16 < 16 ^ Suc k" using Suc.prems by (simp add: less_mult_imp_div_less mult.commute)
    then show ?thesis using Suc.IH False by (subst hex.simps) simp
  qed
qed

lemma unit_name_ok: "CHR 0x00 \<notin> set s \<Longrightarrow> 0 \<notin> set (unit_name s base)"
  unfolding unit_name_def by (rule utf8_no_nul) (simp add: hex_no_nul)

lemma length_utf8 [simp]: "length (utf8 s) = length s"
  by (simp add: utf8_def)

lemma length_unit_name: "length (unit_name s base) \<le> length s + 17"
  using length_hex [of "unat base" 15] unat_less_2p64 [of base] by (simp add: unit_name_def)

lemmas tree_defs = virt_tree_def tree_chosen_def tree_cpus_def tree_memory_def tree_soc_def tree_devices_def tree_virtio_def

lemma virt_tree_wf: "length cmdline < 2 ^ 31 \<Longrightarrow> node_wf (virt_tree ram_size cmdline s e n)"
  by (auto simp: tree_defs utf8_no_nul unit_name_ok dt_data rng_seed_def Let_def)

lemma virtio_bound: "node_bound (tree_virtio i) \<le> 250"
  using length_unit_name [of "''virtio_mmio''" "VIRTIO_BASE + of_nat i * VIRTIO_SIZE"]
  by (simp add: tree_virtio_def dt_data Let_def)

lemma virt_tree_bound: "node_bound (virt_tree ram_size cmdline s e n) \<le> 4000 + length cmdline + 250 * n"
proof -
  have v: "sum_list (map node_bound (map tree_virtio xs)) \<le> 250 * length xs" for xs
    by (induction xs) (use virtio_bound in \<open>auto intro: add_mono\<close>)
  have d: "node_bound (Dt name ps cs) = 12 + length name + (\<Sum>(n, d)\<leftarrow>ps. 16 + length n + length d) + sum_list (map node_bound cs)" for name ps cs
    by simp
  have "sum_list (map node_bound tree_devices) \<le> 1500"
    using length_unit_name [of "''test''" TEST_BASE] length_unit_name [of "''serial''" UART_BASE] length_unit_name [of "''rtc''" GOLDFISH_RTC_BASE]
      length_unit_name [of "''clint''" CLINT_BASE] length_unit_name [of "''plic''" PLIC_BASE]
    by (simp add: tree_devices_def dt_data)
  moreover have "node_bound (tree_chosen cmdline s e) \<le> 400 + length cmdline" by (simp add: tree_chosen_def dt_data rng_seed_def)
  moreover have "node_bound tree_cpus \<le> 900" by (simp add: tree_cpus_def dt_data)
  moreover have "node_bound (tree_memory ram_size) \<le> 200"
    using length_unit_name [of "''memory''" RAM_BASE] by (simp add: tree_memory_def dt_data)
  ultimately show ?thesis using v [of "[0..<n]"]
    by (simp add: virt_tree_def tree_soc_def dt_data)
qed

lemma virt_fdt_length: "length (build_virt_fdt ram_size cmdline s e n) \<le> 4060 + length cmdline + 250 * n"
  using fdt_finish_length [of "virt_tree ram_size cmdline s e n"] virt_tree_bound [of ram_size cmdline s e n]
  by (simp add: build_virt_fdt_tree)

lemma virt_fdt_reads_back:
  assumes "length cmdline < 2 ^ 31" "n \<le> 2 ^ 20"
  shows "read_blob (build_virt_fdt ram_size cmdline s e n) = Some (virt_tree ram_size cmdline s e n)"
  unfolding build_virt_fdt_tree
  using assms virt_fdt_length [of ram_size cmdline s e n, unfolded build_virt_fdt_tree]
  by (intro emit_blob_reads virt_tree_wf) simp_all

section \<open>The bus decodes what the tree describes\<close>

lemma utf8_inj [simp]: "utf8 a = utf8 b \<longleftrightarrow> a = b"
proof -
  have "inj (\<lambda>c. of_nat (of_char c) :: u8)"
  proof (rule injI)
    fix c d :: char assume "(of_nat (of_char c) :: u8) = of_nat (of_char d)"
    then have "of_char c mod 256 = (of_char d mod 256 :: nat)"
      by (simp add: word_of_nat_eq_iff take_bit_eq_mod del: of_char_mod_256)
    then show "c = d" by simp
  qed
  then show ?thesis unfolding utf8_def by (auto dest: map_injective)
qed

definition node_reg :: "dt_node \<Rightarrow> (u64 \<times> u64) option" where
  "node_reg c = (case map_of (dt_props c) (utf8 ''reg'') of
     Some d \<Rightarrow> if length d = 16 then Some (from_be_bytes (take 8 d), from_be_bytes (drop 8 d)) else None
   | None \<Rightarrow> None)"

lemma dt_reg_read: "length (dt_reg a b) = 16" "from_be_bytes (take 8 (dt_reg a b)) = a" "from_be_bytes (drop 8 (dt_reg a b)) = b"
  by (simp_all add: dt_reg_def from_to_be_bytes)

lemma mmio_faults:
  assumes "fst (virt_mmio_read addr sz b) = Inr None"
  shows "\<not> in_window addr TEST_BASE 0x1000" "\<not> in_window addr CLINT_BASE CLINT_SIZE" "\<not> in_window addr PLIC_BASE PLIC_SIZE"
    "\<not> in_window addr UART_BASE UART_SIZE" "\<not> in_window addr GOLDFISH_RTC_BASE GOLDFISH_RTC_SIZE"
    "in_window addr VIRTIO_BASE (VIRTIO_COUNT * VIRTIO_SIZE) \<Longrightarrow> length (vb_virtio b) \<le> unat ((addr - VIRTIO_BASE) div VIRTIO_SIZE)"
  using assms unfolding virt_mmio_read_def Let_def
  by (auto simp: mbind_def mget_def mret_def not_less split: if_splits prod.splits sum.splits)

lemma virtio_slot:
  assumes "in_window addr (VIRTIO_BASE + of_nat i * VIRTIO_SIZE) VIRTIO_SIZE" "i < 8"
  shows "in_window addr VIRTIO_BASE (VIRTIO_COUNT * VIRTIO_SIZE)" "unat ((addr - VIRTIO_BASE) div VIRTIO_SIZE) = i"
proof -
  have "i = 0 \<or> i = 1 \<or> i = 2 \<or> i = 3 \<or> i = 4 \<or> i = 5 \<or> i = 6 \<or> i = 7" using assms(2) by auto
  then have b: "unat (VIRTIO_BASE + of_nat i * VIRTIO_SIZE) = 0x10001000 + i * 0x1000"
    "unat (VIRTIO_BASE + of_nat i * VIRTIO_SIZE + VIRTIO_SIZE) = 0x10001000 + i * 0x1000 + 0x1000"
    by (elim disjE; simp add: VIRTIO_BASE_def VIRTIO_SIZE_def)+
  have a: "0x10001000 + i * 0x1000 \<le> unat addr" "unat addr < 0x10001000 + i * 0x1000 + 0x1000"
    using assms(1) b unfolding in_window_def word_le_nat_alt word_less_nat_alt by simp_all
  show "in_window addr VIRTIO_BASE (VIRTIO_COUNT * VIRTIO_SIZE)"
    using a assms(2) by (simp add: in_window_def word_le_nat_alt word_less_nat_alt VIRTIO_BASE_def VIRTIO_SIZE_def VIRTIO_COUNT_def)
  have "unat (addr - VIRTIO_BASE) = unat addr - 0x10001000"
    using a by (subst unat_sub) (simp_all add: VIRTIO_BASE_def word_le_nat_alt)
  then show "unat ((addr - VIRTIO_BASE) div VIRTIO_SIZE) = i"
    using a by (simp add: VIRTIO_SIZE_def unat_div div_nat_eqI)
qed

lemma soc_windows:
  assumes "c \<in> set (dt_children (tree_soc n))" "node_reg c = Some (base, len)"
  shows "(base, len) \<in> {(TEST_BASE, 0x1000), (UART_BASE, UART_SIZE), (GOLDFISH_RTC_BASE, GOLDFISH_RTC_SIZE),
      (CLINT_BASE, CLINT_SIZE), (PLIC_BASE, PLIC_SIZE)}
    \<or> (\<exists>i<n. base = VIRTIO_BASE + of_nat i * VIRTIO_SIZE \<and> len = VIRTIO_SIZE)"
  using assms by (auto simp: tree_soc_def tree_devices_def tree_virtio_def node_reg_def dt_reg_read Let_def)

lemma tree_windows_decoded:
  assumes "c \<in> set (dt_children (tree_soc n))" "node_reg c = Some (base, len)" "in_window addr base len"
    "n \<le> length (vb_virtio b)" "n \<le> 8"
  shows "fst (virt_mmio_read addr sz b) \<noteq> Inr None"
proof
  assume f: "fst (virt_mmio_read addr sz b) = Inr None"
  show False using soc_windows [OF assms(1,2)]
  proof
    assume "\<exists>i<n. base = VIRTIO_BASE + of_nat i * VIRTIO_SIZE \<and> len = VIRTIO_SIZE"
    then obtain i where i: "i < n" "in_window addr (VIRTIO_BASE + of_nat i * VIRTIO_SIZE) VIRTIO_SIZE" using assms(3) by auto
    then show False using mmio_faults(6) [OF f] virtio_slot [OF i(2)] assms(4,5) by simp
  qed (use mmio_faults [OF f] assms(3) in auto)
qed

section \<open>What boot places in RAM\<close>

definition holds :: "nat \<Rightarrow> bytes \<Rightarrow> bytes \<Rightarrow> bool" where
  "holds a bs ram \<longleftrightarrow> a + length bs \<le> length ram \<and> take (length bs) (drop a ram) = bs"

lemma place_some:
  assumes "unat off + length bs \<le> length ram" "length ram < 2 ^ 63"
  obtains ram' where "place off bs ram = Some ram'" "length ram' = length ram" "holds (unat off) bs ram'"
    "\<And>a xs. holds a xs ram \<Longrightarrow> a + length xs \<le> unat off \<or> unat off + length bs \<le> a \<Longrightarrow> holds a xs ram'"
proof -
  have u: "unat (off + of_nat (length bs)) = unat off + length bs"
    using assms by (subst unat_plus_if_size) (simp add: word_size unat_of_nat take_bit_nat_eq_self)
  let ?r = "take (unat off) ram @ bs @ drop (unat off + length bs) ram"
  have "place off bs ram = Some ?r" using assms(1) by (simp add: place_def set_range_def u)
  moreover have "length ?r = length ram" using assms(1) by simp
  moreover have "holds (unat off) bs ?r" using assms(1) by (simp add: holds_def)
  moreover have "holds a xs ?r" if h: "holds a xs ram" "a + length xs \<le> unat off \<or> unat off + length bs \<le> a" for a xs
  proof (cases "a + length xs \<le> unat off")
    case True
    then show ?thesis using h(1) assms(1) by (simp add: holds_def take_drop)
  next
    case False
    then have d: "unat off + length bs \<le> a" using h(2) by simp
    then have "drop a ?r = drop a ram" using assms(1) by simp
    then show ?thesis using h(1) \<open>length ?r = length ram\<close> unfolding holds_def by simp
  qed
  ultimately show ?thesis using that by blast
qed

lemma place_words:
  assumes "unat off + 8 * (k + length vs) \<le> length ram" "length ram < 2 ^ 63"
  obtains ram' where
    "fold (\<lambda>(i, v) r. Option.bind r (place (off + of_nat i * 8) (to_le_bytes 8 v))) (enumerate k vs) (Some ram) = Some ram'"
    "length ram' = length ram" "holds (unat off + 8 * k) (concat (map (to_le_bytes 8) vs)) ram'"
    "\<And>a xs. holds a xs ram \<Longrightarrow> a + length xs \<le> unat off + 8 * k \<or> unat off + 8 * (k + length vs) \<le> a \<Longrightarrow> holds a xs ram'"
  using assms
proof (induction vs arbitrary: k ram thesis)
  case Nil
  show ?case by (rule Nil(1) [of ram]) (use Nil in \<open>simp_all add: holds_def\<close>)
next
  case (Cons v vs)
  have u: "unat (off + of_nat k * 8) = unat off + 8 * k"
    using Cons.prems(2,3) by (subst unat_plus_if_size) (simp add: word_size unat_word_ariths unat_of_nat take_bit_nat_eq_self)
  obtain r1 where r1: "place (off + of_nat k * 8) (to_le_bytes 8 v) ram = Some r1" "length r1 = length ram"
    "holds (unat off + 8 * k) (to_le_bytes 8 v) r1"
    "\<And>a xs. holds a xs ram \<Longrightarrow> a + length xs \<le> unat off + 8 * k \<or> unat off + 8 * k + 8 \<le> a \<Longrightarrow> holds a xs r1"
    by (rule place_some [of "off + of_nat k * 8" "to_le_bytes 8 v" ram]) (use Cons.prems(2,3) u in simp_all)
  obtain r2 where r2: "fold (\<lambda>(i, v) r. Option.bind r (place (off + of_nat i * 8) (to_le_bytes 8 v))) (enumerate (Suc k) vs) (Some r1) = Some r2"
    "length r2 = length r1" "holds (unat off + 8 * Suc k) (concat (map (to_le_bytes 8) vs)) r2"
    "\<And>a xs. holds a xs r1 \<Longrightarrow> a + length xs \<le> unat off + 8 * Suc k \<or> unat off + 8 * (Suc k + length vs) \<le> a \<Longrightarrow> holds a xs r2"
    by (rule Cons.IH [of "Suc k" r1]) (use Cons.prems(2,3) r1(2) in simp_all)
  have "holds (unat off + 8 * k) (to_le_bytes 8 v) r2" by (rule r2(4) [OF r1(3)]) simp
  then have "holds (unat off + 8 * k) (concat (map (to_le_bytes 8) (v # vs))) r2"
    using r2(3) by (simp add: holds_def take_add add.commute add.left_commute)
  moreover have "holds a xs r2" if h: "holds a xs ram" "a + length xs \<le> unat off + 8 * k \<or> unat off + 8 * (k + length (v # vs)) \<le> a" for a xs
    by (rule r2(4) [OF r1(4) [OF h(1)]]) (use h(2) in auto)
  ultimately show ?case using r1(1,2) r2(1,2) by (intro Cons.prems(1) [of r2]) simp_all
qed

lemma and_not_bounds: "unat (x AND NOT y :: u64) \<le> unat x" "unat x \<le> unat (x AND NOT y) + unat y"
proof -
  let ?a = "x AND NOT y" and ?b = "x AND y"
  have "x = ?a + ?b" by (subst disjunctive_add) (auto simp: bit_eq_iff bit_simps)
  then have "unat x = (unat ?a + unat ?b) mod 2 ^ 64" using unat_word_ariths(1) [of ?a ?b] by simp
  then have "unat x \<le> unat ?a + unat ?b" by (simp only: mod_less_eq_dividend)
  moreover have "unat ?b \<le> unat y" using word_and_le1 [of x y] by (simp add: word_le_nat_alt)
  ultimately show "unat x \<le> unat ?a + unat y" by simp
  show "unat ?a \<le> unat x" using word_and_le2 [of x "NOT y"] by (simp add: word_le_nat_alt)
qed

text \<open>The offsets boot chooses, for images that leave room.\<close>

definition initrd_len :: "'f virt_images \<Rightarrow> nat" where
  "initrd_len im = (case vi_initrd im of None \<Rightarrow> 0 | Some ir \<Rightarrow> length ir)"

definition boot_fits :: "u64 \<Rightarrow> 'f virt_images \<Rightarrow> bool" where
  "boot_fits ram_size im \<longleftrightarrow> unat ram_size < 2 ^ 63 \<and> length (vi_opensbi im) \<le> 0x200000
     \<and> 0x200000 + length (vi_kernel im) + initrd_len im + 0x500000 \<le> unat ram_size
     \<and> length (vi_cmdline im) \<le> 0x10000 \<and> n_virtio im \<le> 8"

lemma unat_sat_sub: "unat (sat_sub a b) = unat a - unat b"
  by (auto simp: sat_sub_def word_le_nat_alt unat_sub)

lemma dtb_off_bounds:
  assumes "boot_fits ram_size im" "off = sat_sub (ram_size - 0x200000) (of_nat (length (build_virt_fdt ram_size (vi_cmdline im) 0 0 (n_virtio im)))) AND NOT 0xfff"
  shows "unat ram_size \<le> unat off + 0x213000" "unat off + 0x200000 \<le> unat ram_size"
proof -
  let ?l = "length (build_virt_fdt ram_size (vi_cmdline im) 0 0 (n_virtio im))"
  have l: "?l \<le> 0x12000" using virt_fdt_length [of ram_size "vi_cmdline im" 0 0 "n_virtio im"] assms(1) by (simp add: boot_fits_def)
  have r: "unat (ram_size - 0x200000) = unat ram_size - 0x200000" using assms(1) by (simp add: boot_fits_def unat_sub word_le_nat_alt)
  have ll: "unat (of_nat ?l :: u64) = ?l" using l by (simp add: unat_of_nat take_bit_nat_eq_self)
  show "unat ram_size \<le> unat off + 0x213000" "unat off + 0x200000 \<le> unat ram_size"
    using and_not_bounds [of "sat_sub (ram_size - 0x200000) (of_nat ?l)" "0xfff"] l assms
    unfolding assms(2) unat_sat_sub r ll by (auto simp: boot_fits_def)
qed

lemma initrd_off_bounds:
  assumes "boot_fits ram_size im" "unat ram_size \<le> unat off + 0x213000" "vi_initrd im = Some ir"
    "s = sat_sub off (of_nat (length ir)) AND NOT 0xfffff"
  shows "unat ram_size \<le> unat s + length ir + 0x313000" "unat s + length ir \<le> unat off"
proof -
  have "length ir < 2 ^ 63" using assms(1,3) by (simp add: boot_fits_def initrd_len_def)
  then have l: "unat (of_nat (length ir) :: u64) = length ir" by (simp add: unat_of_nat take_bit_nat_eq_self)
  show "unat ram_size \<le> unat s + length ir + 0x313000" "unat s + length ir \<le> unat off"
    using and_not_bounds [of "sat_sub off (of_nat (length ir))" "0xfffff"] assms(1-3)
    unfolding assms(4) unat_sat_sub l by (auto simp: boot_fits_def initrd_len_def)
qed

lemma dyn_off_bounds:
  assumes "0x1000 \<le> unat below" "off = sat_sub below 0x1000 AND NOT 0xfff"
  shows "unat below \<le> unat off + 0x1fff" "unat off + 0x1000 \<le> unat below"
  using and_not_bounds [of "sat_sub below 0x1000" "0xfff"] assms(1) unfolding assms(2) unat_sat_sub by auto

lemma initrd_placed:
  assumes "boot_fits ram_size im" "length ram = unat ram_size" "unat ram_size \<le> unat off + 0x213000" "unat off + 0x200000 \<le> unat ram_size"
  obtains ram' i0 i1 below where
    "(case vi_initrd im of None \<Rightarrow> Some (ram, 0, 0, off)
      | Some ir \<Rightarrow> let s = sat_sub off (of_nat (length ir)) AND NOT 0xfffff in
          Option.bind (place s ir ram) (\<lambda>ram. Some (ram, RAM_BASE + s, RAM_BASE + s + of_nat (length ir), s)))
      = Some (ram', i0, i1, below)"
    "length ram' = length ram" "unat below \<le> unat off" "unat ram_size \<le> unat below + initrd_len im + 0x313000"
    "\<And>ir. vi_initrd im = Some ir \<Longrightarrow> holds (unat below) ir ram' \<and> unat below + length ir \<le> unat off
       \<and> i0 = RAM_BASE + below \<and> i1 = i0 + of_nat (length ir)"
    "vi_initrd im = None \<Longrightarrow> i0 = 0 \<and> i1 = 0"
    "\<And>a xs. holds a xs ram \<Longrightarrow> a + length xs \<le> unat below \<Longrightarrow> holds a xs ram'"
proof (cases "vi_initrd im")
  case None
  then show ?thesis using assms(3) by (intro that [of ram 0 0 off]) (simp_all add: initrd_len_def)
next
  case (Some ir)
  let ?s = "sat_sub off (of_nat (length ir)) AND NOT 0xfffff"
  note b = initrd_off_bounds [OF assms(1,3) Some refl]
  obtain ram' where r: "place ?s ir ram = Some ram'" "length ram' = length ram" "holds (unat ?s) ir ram'"
    "\<And>a xs. holds a xs ram \<Longrightarrow> a + length xs \<le> unat ?s \<or> unat ?s + length ir \<le> a \<Longrightarrow> holds a xs ram'"
    by (rule place_some [of ?s ir ram]) (use assms b in \<open>auto simp: boot_fits_def\<close>)
  show ?thesis
    by (rule that [of ram' "RAM_BASE + ?s" "RAM_BASE + ?s + of_nat (length ir)" ?s]) (use Some r b in \<open>auto simp: initrd_len_def Let_def\<close>)
qed

lemma length_boot_devices: "length (boot_devices im) = n_virtio im"
  by (auto simp: boot_devices_def n_virtio_def split: option.splits)

lemma boot_regs:
  "xreg (boot_cpu direct a b) 11 = a" "xreg (boot_cpu direct a b) 12 = b"
  "pcr (boot_cpu direct a b) = (if direct then RAM_BASE + KERNEL_OFFSET else RAM_BASE)"
  by (simp_all add: boot_cpu_def enable_host_sbi_def Let_def)

text \<open>The images as boot leaves them: firmware, kernel, initrd, device tree and the block of the firmware.\<close>

definition booted :: "u64 \<Rightarrow> 'f virt_images \<Rightarrow> bytes \<Rightarrow> u64 \<Rightarrow> bytes \<Rightarrow> u64 \<Rightarrow> u64 \<Rightarrow> u64 \<Rightarrow> bool" where
  "booted ram_size im ram dtb_off dtb dyn_off i0 i1 \<longleftrightarrow>
     length ram = unat ram_size \<and> holds 0 (vi_opensbi im) ram \<and> holds 0x200000 (vi_kernel im) ram
     \<and> holds (unat dtb_off) dtb ram \<and> holds (unat dyn_off) (concat (map (to_le_bytes 8) fw_dynamic_info)) ram
     \<and> (case vi_initrd im of None \<Rightarrow> i0 = 0 \<and> i1 = 0
        | Some ir \<Rightarrow> holds (unat (i0 - RAM_BASE)) ir ram \<and> i1 = i0 + of_nat (length ir))"

lemma boot_succeeds:
  fixes im :: "'f virt_images"
  assumes fits: "boot_fits ram_size im"
  obtains m dtb_off dyn_off i0 i1 where "virt_new_inner ptr ram_size im direct = Some m"
    "vm_dtb m = build_virt_fdt ram_size (vi_cmdline im) i0 i1 (n_virtio im)"
    "booted ram_size im (vb_ram (vm_bus m)) dtb_off (vm_dtb m) dyn_off i0 i1"
    "vm_cpu m = boot_cpu direct (RAM_BASE + dtb_off) (RAM_BASE + dyn_off)" "vb_virtio (vm_bus m) = boot_devices im"
    "insns_per_tick m = 100"
proof -
  let ?R = "unat ram_size" and ?k = "0x200000 + length (vi_kernel im)"
  have R: "?R < 2 ^ 63" "?k + initrd_len im + 0x500000 \<le> ?R" "length (vi_opensbi im) \<le> 0x200000"
    using fits by (simp_all add: boot_fits_def)
  obtain r1 where r1: "place 0 (vi_opensbi im) (replicate ?R 0) = Some r1" "length r1 = ?R" "holds 0 (vi_opensbi im) r1"
    by (rule place_some [of 0 "vi_opensbi im" "replicate ?R 0"]) (use R in simp_all)
  have K: "unat KERNEL_OFFSET = 0x200000" by (simp add: KERNEL_OFFSET_def)
  obtain r2 where r2: "place KERNEL_OFFSET (vi_kernel im) r1 = Some r2" "length r2 = ?R" "holds 0x200000 (vi_kernel im) r2" "holds 0 (vi_opensbi im) r2"
  proof (rule place_some [of KERNEL_OFFSET "vi_kernel im" r1])
    fix r assume "place KERNEL_OFFSET (vi_kernel im) r1 = Some r" "length r = length r1" "holds (unat KERNEL_OFFSET) (vi_kernel im) r"
      "\<And>a xs. holds a xs r1 \<Longrightarrow> a + length xs \<le> unat KERNEL_OFFSET \<or> unat KERNEL_OFFSET + length (vi_kernel im) \<le> a \<Longrightarrow> holds a xs r"
    then show thesis using that [of r] r1(2,3) R(3) K by simp
  qed (use R r1(2) K in simp_all)
  define D where "D = sat_sub (ram_size - 0x200000) (of_nat (length (build_virt_fdt ram_size (vi_cmdline im) 0 0 (n_virtio im)))) AND NOT 0xfff"
  note D = dtb_off_bounds [OF fits D_def]
  obtain r3 i0 i1 below where r3: "(case vi_initrd im of None \<Rightarrow> Some (r2, 0, 0, D)
      | Some ir \<Rightarrow> let s = sat_sub D (of_nat (length ir)) AND NOT 0xfffff in
          Option.bind (place s ir r2) (\<lambda>ram. Some (ram, RAM_BASE + s, RAM_BASE + s + of_nat (length ir), s))) = Some (r3, i0, i1, below)"
    "length r3 = length r2" "unat below \<le> unat D" "?R \<le> unat below + initrd_len im + 0x313000"
    and ir: "\<And>ir. vi_initrd im = Some ir \<Longrightarrow> holds (unat below) ir r3 \<and> unat below + length ir \<le> unat D \<and> i0 = RAM_BASE + below \<and> i1 = i0 + of_nat (length ir)"
    "vi_initrd im = None \<Longrightarrow> i0 = 0 \<and> i1 = 0"
    and k3: "\<And>a xs. holds a xs r2 \<Longrightarrow> a + length xs \<le> unat below \<Longrightarrow> holds a xs r3"
    by (rule initrd_placed [OF fits r2(2) D]) (rule that)
  let ?dtb = "build_virt_fdt ram_size (vi_cmdline im) i0 i1 (n_virtio im)"
  have l: "length ?dtb \<le> 0x12000" using virt_fdt_length [of ram_size "vi_cmdline im" i0 i1 "n_virtio im"] fits by (simp add: boot_fits_def)
  obtain r4 where r4: "place D ?dtb r3 = Some r4" "length r4 = length r3" "holds (unat D) ?dtb r4"
    "\<And>a xs. holds a xs r3 \<Longrightarrow> a + length xs \<le> unat D \<or> unat D + length ?dtb \<le> a \<Longrightarrow> holds a xs r4"
    by (rule place_some [of D ?dtb r3]) (use R r2(2) r3(2) D l in simp_all)
  define dyn where "dyn = sat_sub below 0x1000 AND NOT 0xfff"
  have dm: "sat_sub below 0x1000 AND - 0x1000 = dyn" by (simp add: dyn_def)
  have dyn: "unat below \<le> unat dyn + 0x1fff" "unat dyn + 0x1000 \<le> unat below"
    using dyn_off_bounds [OF _ dyn_def] R(2) r3(4) by simp_all
  obtain r5 where r5: "place_info dyn r4 = Some r5" "length r5 = length r4" "holds (unat dyn) (concat (map (to_le_bytes 8) fw_dynamic_info)) r5"
    "\<And>a xs. holds a xs r4 \<Longrightarrow> a + length xs \<le> unat dyn \<or> unat dyn + 48 \<le> a \<Longrightarrow> holds a xs r5"
  proof (rule place_words [of dyn 0 fw_dynamic_info r4])
    fix r assume "fold (\<lambda>(i, v) r. Option.bind r (place (dyn + of_nat i * 8) (to_le_bytes 8 v))) (enumerate 0 fw_dynamic_info) (Some r4) = Some r"
      "length r = length r4" "holds (unat dyn + 8 * 0) (concat (map (to_le_bytes 8) fw_dynamic_info)) r"
      "\<And>a xs. holds a xs r4 \<Longrightarrow> a + length xs \<le> unat dyn + 8 * 0 \<or> unat dyn + 8 * (0 + length fw_dynamic_info) \<le> a \<Longrightarrow> holds a xs r"
    then show thesis by (intro that [of r]) (simp_all add: place_info_def fw_dynamic_info_def)
  qed (use R r2(2) r3(2,3) r4(2) D dyn in \<open>simp_all add: fw_dynamic_info_def\<close>)
  have keep: "holds a xs r5" if "holds a xs r2" "a + length xs \<le> ?k" for a xs
    using r5(4) [OF r4(4) [OF k3 [OF that(1)]]] that(2) R(2) r3(3,4) dyn by simp
  have "holds 0 (vi_opensbi im) r5" "holds 0x200000 (vi_kernel im) r5" using keep r2(3,4) R(3) by simp_all
  moreover have "holds (unat D) ?dtb r5" using r5(4) [OF r4(3)] dyn r3(3) by simp
  moreover have "case vi_initrd im of None \<Rightarrow> i0 = 0 \<and> i1 = 0
      | Some x \<Rightarrow> holds (unat (i0 - RAM_BASE)) x r5 \<and> i1 = i0 + of_nat (length x)"
    using ir r5(4) [OF r4(4)] dyn by (auto split: option.splits)
  ultimately have b: "booted ram_size im r5 D ?dtb dyn i0 i1" using r2(2) r3(2) r4(2) r5(2,3) by (simp add: booted_def)
  show ?thesis
  proof (rule that)
    show "virt_new_inner ptr ram_size im direct = Some \<lparr>vm_cpu = boot_cpu direct (RAM_BASE + D) (RAM_BASE + dyn),
        vm_bus = \<lparr>vb_ram = r5, vb_ram_ptr = ptr, vb_mtime = 0, vb_mtimecmp = NOT 0, vb_msip = False,
          vb_rtc = rtc_new, vb_plic = plic_new, vb_uart = uart_new, vb_virtio = boot_devices im, vb_power_off = False,
          vb_direct_sbi = direct, vb_jit_pages = replicate ((unat ram_size div 4096 + 63) div 64) 0,
          vb_jit_dirty_pages = []\<rparr>,
        insns_per_tick = 100, idle_ticks = 0, realtime_ticks = None, vm_power_off = False, vm_dtb = ?dtb,
        unsupported_sbi = None, sbi_calls = (\<lambda>_. 0)\<rparr>"
      unfolding virt_new_inner_def Let_def D_def [symmetric]
      using R(1) by (simp add: r1(1) r2(1) r3(1) [unfolded Let_def] r4(1) dm r5(1))
  qed (use b in simp_all)
qed

lemma boot_machine_ok:
  assumes "vm_cpu m = boot_cpu direct a b" "vb_virtio (vm_bus m) = []" "length (vb_ram (vm_bus m)) < 2 ^ 63" "insns_per_tick m = 100"
  shows "machine_ok m"
  using assms by (simp add: machine_ok_def hart_inv_def virt_quiet_def boot_cpu_def enable_system_def enable_host_sbi_def
      cpu_new_def vector_default_def Let_def)

section \<open>Properties\<close>

text \<open>
  C40: boot succeeds when the firmware has at most 2 MiB, kernel and initrd leave 7 MiB of a RAM
  below \<open>2 ^ 63\<close> bytes, the command line has at most 64 KiB and there are at most 8 virtio devices.
  Then firmware, kernel, initrd, device tree and the block of the firmware are all in RAM, none
  overwritten by another; the blob the guest finds at the address in a1 parses as the device tree
  that names the RAM, the command line, the initrd and the devices; the bus decodes every address
  of every register window that tree gives; and the hart starts at the firmware, or at the kernel
  when the host serves its SBI calls. Without virtio devices the machine is one whose slices return.
\<close>

theorem virt_boot:
  assumes "boot_fits ram_size im"
  shows "\<exists>m dtb_off dyn_off i0 i1. virt_new_inner ptr ram_size im direct = Some m \<and>
    booted ram_size im (vb_ram (vm_bus m)) dtb_off (vm_dtb m) dyn_off i0 i1 \<and>
    read_blob (vm_dtb m) = Some (virt_tree ram_size (vi_cmdline im) i0 i1 (n_virtio im)) \<and>
    (\<forall>c base len addr. c \<in> set (dt_children (tree_soc (n_virtio im))) \<longrightarrow> node_reg c = Some (base, len) \<longrightarrow>
       in_window addr base len \<longrightarrow> fst (virt_mmio_read addr sz (vm_bus m)) \<noteq> Inr None) \<and>
    xreg (vm_cpu m) 11 = RAM_BASE + dtb_off \<and> xreg (vm_cpu m) 12 = RAM_BASE + dyn_off \<and>
    pcr (vm_cpu m) = (if direct then RAM_BASE + KERNEL_OFFSET else RAM_BASE) \<and>
    (n_virtio im = 0 \<longrightarrow> machine_ok m)"
proof -
  obtain m dtb_off dyn_off i0 i1 where m: "virt_new_inner ptr ram_size im direct = Some m"
    "vm_dtb m = build_virt_fdt ram_size (vi_cmdline im) i0 i1 (n_virtio im)"
    "booted ram_size im (vb_ram (vm_bus m)) dtb_off (vm_dtb m) dyn_off i0 i1"
    "vm_cpu m = boot_cpu direct (RAM_BASE + dtb_off) (RAM_BASE + dyn_off)" "vb_virtio (vm_bus m) = boot_devices im"
    "insns_per_tick m = 100"
    by (rule boot_succeeds [OF assms])
  have n: "n_virtio im \<le> 8" "length (vi_cmdline im) < 2 ^ 31" "unat ram_size < 2 ^ 63"
    using assms by (simp_all add: boot_fits_def)
  have "read_blob (vm_dtb m) = Some (virt_tree ram_size (vi_cmdline im) i0 i1 (n_virtio im))"
    unfolding m(2) using n by (intro virt_fdt_reads_back) simp_all
  moreover have "fst (virt_mmio_read addr sz (vm_bus m)) \<noteq> Inr None"
    if "c \<in> set (dt_children (tree_soc (n_virtio im)))" "node_reg c = Some (base, len)" "in_window addr base len" for c base len addr
    by (rule tree_windows_decoded [OF that]) (simp_all add: m(5) n(1) length_boot_devices)
  moreover have "machine_ok m" if "n_virtio im = 0"
    using that m(3,5) n(3) length_boot_devices [of im] by (intro boot_machine_ok [OF m(4) _ _ m(6)]) (simp_all add: booted_def)
  ultimately show ?thesis using m(1,3) by (metis m(4) boot_regs)
qed

definition sample_images :: "unit virt_images" where
  "sample_images = \<lparr>vi_opensbi = [0x13, 0, 0, 0], vi_kernel = [0x73, 0, 0, 0], vi_cmdline = utf8 ''quiet'', vi_initrd = Some [1, 2, 3],
     vi_disk = None, vi_fs = [], vi_external_fs = None, vi_virtio_console = False, vi_net = None\<rparr>"

theorem virt_boot_witness:
  "\<exists>m a. virt_new_inner 0 0x800000 sample_images True = Some m \<and> holds 0x200000 [0x73, 0, 0, 0] (vb_ram (vm_bus m)) \<and>
    holds (unat (a :: u64)) [1, 2, 3] (vb_ram (vm_bus m)) \<and> pcr (vm_cpu m) = RAM_BASE + KERNEL_OFFSET \<and> machine_ok m"
proof -
  have f: "boot_fits 0x800000 sample_images" and n: "n_virtio sample_images = 0"
    by (simp_all add: boot_fits_def initrd_len_def n_virtio_def sample_images_def utf8_def)
  have i: "vi_kernel sample_images = [0x73, 0, 0, 0]" "vi_initrd sample_images = Some [1, 2, 3]"
    by (simp_all add: sample_images_def)
  show ?thesis using virt_boot [OF f, of 0 True 4] n unfolding booted_def i by auto
qed

end
