(* ===== verification/Spec2Isabelle.thy ===== *)
theory Spec2Isabelle
  imports Safety VectorCorrect AluCorrect TlbCorrect LinuxCorrect P9Correct VirtioCorrect VirtCorrect VirtBoot
begin

text \<open>
  rv64.js is a RISC-V RV64GCV emulator in Rust. This development models its interpreter
  (\<open>crates/rv64-core\<close>), its user-mode Linux personality (\<open>crates/rv64-linux\<close>), and the virt machine
  with its devices and file server (\<open>crates/rv64-system\<close>), as executable functions, and proves what
  they promise.

  \<^bold>\<open>How the code is modelled.\<close> A Rust integer is a word of its width and its arithmetic wraps, as in
  a release build; \<open>usize\<close> has 64 bits. A method that can fail or change state is a computation of
  the monad of \<open>Prelude\<close>: from a state to a result and a state, where the result is a value, a
  thrown guest exception or error, or a panic. Indexing and slicing out of range, \<open>unwrap\<close> of
  nothing and division by zero are panics. A structure is a record, an enumeration a datatype, a
  trait a record of operations (\<open>bus_ops\<close>, \<open>host_ops\<close>, \<open>fs_ops\<close>) over which its users are parametric.

  \<^bold>\<open>The hart\<close> (\<open>rv64-core\<close>).
  \<^item> \<open>Csr\<close>, \<open>Bus\<close>, \<open>Decode\<close>, \<open>Compressed\<close>, \<open>CpuState\<close>: \<open>exception.rs\<close>, \<open>csr.rs\<close>, \<open>bus.rs\<close> with its flat
    memory, \<open>decode.rs\<close>, \<open>compressed.rs\<close>, and the \<open>Cpu\<close> structure of \<open>cpu.rs\<close> with its caches.
  \<^item> \<open>Mmu\<close>, \<open>Trap\<close>: translation, loads and stores; traps, interrupts and CSR access, of \<open>cpu.rs\<close>.
  \<^item> \<open>SoftFp\<close>, \<open>Fpu\<close>: \<open>softfp.rs\<close> and the floating-point instructions.
  \<^item> \<open>Vector\<close>, \<open>VectorInt\<close>, \<open>VectorFloat\<close>, \<open>VectorMem\<close>, \<open>VectorUnit\<close>: \<open>cpu/vector.rs\<close>.
  \<^item> \<open>Exec\<close>, \<open>Tier0\<close>, \<open>Run\<close>: the complete decoder \<open>step\<close>, the integrated scalar tier, and the run loops.

  \<^bold>\<open>The Linux personality\<close> (\<open>rv64-linux\<close>): \<open>Elf\<close> is \<open>elf.rs\<close>; \<open>Linux\<close> is \<open>syscall.rs\<close> and \<open>lib.rs\<close>, that is the
  initial stack, every system call, and the loop that runs slices of the hart over the flat memory
  and serves the calls at which they stop.

  \<^bold>\<open>The virt machine\<close> (\<open>rv64-system\<close>): \<open>Virtio\<close> is \<open>virtio.rs\<close>, \<open>Rtc\<close> is \<open>rtc.rs\<close>, \<open>Dtb\<close> is \<open>dtb.rs\<close>, \<open>P9\<close> is the
  9P2000.L server of \<open>p9.rs\<close> and \<open>MemFs\<close> its in-memory backend of \<open>p9fs.rs\<close>. \<open>Plic\<close> (interrupt
  controller and serial port), \<open>VirtBus\<close> (the bus that joins RAM and devices) and \<open>VirtMachine\<close>
  (device tree, boot, clock, SBI calls, slice drivers) are \<open>virt.rs\<close>. A guest access goes from a run
  loop through \<open>Mmu\<close> to the operations of the bus, and from there to a device; a queue notification
  runs the device on guest RAM; the machine alternates slices of the hart with its clock.

  \<^bold>\<open>What is proved\<close>, by theory.
  \<^item> \<open>RvcCorrect\<close>: the direct dispatcher of compressed instructions against expand-and-execute.
  \<^item> \<open>Safety\<close>, on \<open>VectorSafe\<close>, \<open>VectorSafeFloat\<close>, \<open>VectorSafeMem\<close>: over any bus that meets the contract
    \<open>quiet_bus\<close> of \<open>Bus\<close>, running the hart returns, does not panic, keeps its invariant and retires at
    most the budget. It is read off for the flat memory with base at least 8. Below 8 the bound
    check of \<open>FlatMemory\<close> wraps for the last bytes of the address space and the access panics, which
    is also proved, for the base 0 of the user-mode machine.
  \<^item> \<open>TlbCorrect\<close>, on \<open>TlbWalk\<close>: translation through the cache is the page-table walk as long as the rows
    are coherent, and they stay coherent, except after a fence on one page of a superpage.
  \<^item> \<open>TrapCorrect\<close>: trap entry undone by MRET and SRET, interrupt priority, what every CSR write does
    to the next read, the sstatus window, reservations.
  \<^item> \<open>AluCorrect\<close>, \<open>VectorCorrect\<close>: integer division and products; element-wise vector operations, the
    byte paths, saturation, configuration, the reciprocal estimates.
  \<^item> \<open>ElfCorrect\<close>, \<open>LinuxCorrect\<close>: the loaded image, the initial stack, the address-space layout, the
    calls mmap, write and writev, and the run loop that a program can keep from returning.
  \<^item> \<open>P9Safe\<close>, \<open>MemFsSafe\<close>, \<open>P9Correct\<close>, on \<open>Guards\<close>: the paths the server gives any backend, framing and
    size of replies, directory paging, no panic over the in-memory backend, write and read back.
  \<^item> \<open>VirtioCorrect\<close>: which guest memory a device may change, block transfers, and the driver that makes
    a notification loop for ever.
  \<^item> \<open>Dtb\<close>, \<open>Plic\<close>, \<open>Rtc\<close>: a built tree reads back; claims of the interrupt controller; alarms.
  \<^item> \<open>VirtCorrect\<close>, \<open>VirtBoot\<close>: slices of a machine without virtio devices return, the clock the guest
    reads agrees with the CLINT, and boot places every image and a device tree the bus honours.

  \<^bold>\<open>Loops.\<close> The run loops recurse on the budget and end by construction; other bounded loops are
  functions with a measure. The loop of the Linux machine has fuel, with \<open>None\<close> for a loop that has
  not returned; no fuel is enough in general, and one theorem says so. The queue loop of a virtio
  device and the slice drivers (\<open>Loops\<close>) use \<open>while_option\<close>; a loop that never ends counts as a panic,
  so a theorem that nothing panics includes that the loop ends.

  \<^bold>\<open>Parameters.\<close> The host of the Linux machine (clock, randomness, output), the file-system backend of
  the 9P devices, the host's closures in the run loops, and the host address of the RAM buffer are
  arguments; nothing is assumed of them unless a statement says so.

  \<^bold>\<open>Not modelled.\<close> The second full-system machine with its HTIF console (\<open>lib.rs\<close> of \<open>rv64-system\<close>); the
  host file system backend and the network stack, proxies and WebSocket relay, which act through
  host files and sockets; the translator to WebAssembly (\<open>rv64-dbt\<close>), whose correctness needs a
  semantics of WebAssembly (the model keeps the caches and bitmaps the hart maintains for it); the
  browser binding, command-line runners and JavaScript front end; debug traces. The native
  floating-point fast paths are expressed through the soft-float routines they are meant to equal.
\<close>

end
